(* ===== verification/Prelude.thy ===== *)
theory Prelude
  imports Main "HOL-Library.Word"
begin

unbundle bit_operations_syntax

text \<open>
  Shared vocabulary of the vcam development: the machine integers of the C code, the result
  type of code that may kill the process, C strings, and the generic facts about lists and
  words that the component theories use.

  The C program is compiled for a little-endian target with 8-bit signed \<open>char\<close>,
  32-bit \<open>int\<close> and 64-bit \<open>long\<close>. A call of \<open>abort\<close> or of \<open>vcam_panic\<close> is the
  outcome \<open>Abort\<close>, \<open>exit\<close> is \<open>Exit\<close>, and a step the C standard leaves undefined (a null or
  dangling pointer, a read of memory that was never written, a read past the end of a buffer)
  is \<open>Undef\<close>. Memory allocation is taken to succeed.
\<close>

section \<open>Machine integers and results\<close>

type_synonym byte = "8 word"
type_synonym u16 = "16 word"
type_synonym u32 = "32 word"
type_synonym u64 = "64 word"

datatype crash = Abort | Exit | Undef

type_synonym 'a res = "crash + 'a"

definition bnd :: "'a res \<Rightarrow> ('a \<Rightarrow> 'b res) \<Rightarrow> 'b res" where
  "bnd m f = (case m of Inl e \<Rightarrow> Inl e | Inr x \<Rightarrow> f x)"

named_theorems handler_defs "definitions of the operation handlers"
named_theorems codec "evaluation rules of the byte codecs"

lemma bnd_Inr [simp]: "bnd (Inr x) f = f x"
  and bnd_Inl [simp]: "bnd (Inl e) f = Inl e"
  by (simp_all add: bnd_def)

lemma bnd_eq_Inr [simp]: "bnd m f = Inr y \<longleftrightarrow> (\<exists>x. m = Inr x \<and> f x = Inr y)"
  by (cases m) (simp_all add: bnd_def)

lemma bnd_eq_Inl: "bnd m f = Inl e \<longleftrightarrow> m = Inl e \<or> (\<exists>x. m = Inr x \<and> f x = Inl e)"
  by (cases m) (simp_all add: bnd_def)

lemma bnd_assoc: "bnd (bnd m f) g = bnd m (\<lambda>x. bnd (f x) g)"
  by (cases m) simp_all

lemma bnd_return [simp]: "bnd m Inr = m"
  by (cases m) simp_all

lemma bnd_cong [fundef_cong]:
  "m = m' \<Longrightarrow> (\<And>x. m' = Inr x \<Longrightarrow> f x = f' x) \<Longrightarrow> bnd m f = bnd m' f'"
  by (cases m') simp_all

text \<open>Reading the first \<open>n\<close> bytes of an initialised block.\<close>

definition read_n :: "nat \<Rightarrow> byte list \<Rightarrow> byte list res" where
  "read_n n buf = (if n \<le> length buf then Inr (take n buf) else Inl Undef)"

lemma read_n_Inr [simp]: "read_n n buf = Inr bs \<longleftrightarrow> n \<le> length buf \<and> bs = take n buf"
  by (auto simp: read_n_def)

lemma read_n_ok: "n \<le> length buf \<Longrightarrow> read_n n buf = Inr (take n buf)"
  by simp

text \<open>A null pointer dereference.\<close>

definition deref :: "'a option \<Rightarrow> 'a res" where
  "deref p = (case p of None \<Rightarrow> Inl Undef | Some x \<Rightarrow> Inr x)"

lemma deref_simps [simp]: "deref None = Inl Undef" "deref (Some x) = Inr x"
  by (simp_all add: deref_def)

lemma deref_eq_Inr [simp]: "deref p = Inr x \<longleftrightarrow> p = Some x"
  by (cases p) simp_all

section \<open>C strings\<close>

text \<open>
  A C string is the list of its characters without the terminating NUL. Characters of the
  source are the 256 values of \<open>char\<close>; \<open>byte_of\<close> and \<open>chr_of\<close> go between them and bytes.
\<close>

definition byte_of :: "char \<Rightarrow> byte" where
  "byte_of c = word_of_nat (of_char c)"

definition chr_of :: "byte \<Rightarrow> char" where
  "chr_of b = char_of (unat b)"

lemma chr_of_byte_of [simp]: "chr_of (byte_of c) = c"
proof -
  have "unat (byte_of c) = of_char c"
    by (simp add: byte_of_def unsigned_of_nat take_bit_eq_mod)
  then show ?thesis by (simp add: chr_of_def)
qed

lemma byte_of_chr_of [simp]: "byte_of (chr_of b) = b"
proof -
  have "unat b < 256" using unsigned_less [of b, where 'a = nat] by simp
  then show ?thesis by (simp add: byte_of_def chr_of_def)
qed

lemma byte_of_inj [simp]: "byte_of c = byte_of d \<longleftrightarrow> c = d"
  by (metis chr_of_byte_of)

definition has_nul :: "string \<Rightarrow> bool" where
  "has_nul s = (CHR 0x00 \<in> set s)"

text \<open>\<open>strstr(s, pat) != NULL\<close>, \<open>strncmp(s, pre, strlen(pre)) == 0\<close>.\<close>

fun starts_with :: "string \<Rightarrow> string \<Rightarrow> bool" where
  "starts_with s [] = True"
| "starts_with [] (p # ps) = False"
| "starts_with (c # s) (p # ps) = (c = p \<and> starts_with s ps)"

fun strstr :: "string \<Rightarrow> string \<Rightarrow> bool" where
  "strstr [] pat = (pat = [])"
| "strstr (c # s) pat = (starts_with (c # s) pat \<or> strstr s pat)"

lemma starts_with_iff: "starts_with s p \<longleftrightarrow> (\<exists>r. s = p @ r)"
  by (induction s p rule: starts_with.induct) auto

lemma strstr_iff: "strstr s p \<longleftrightarrow> (\<exists>a b. s = a @ p @ b)"
proof (induction s)
  case Nil
  show ?case by auto
next
  case (Cons c s)
  show ?case
  proof
    assume "strstr (c # s) p"
    then consider "starts_with (c # s) p" | "strstr s p" by auto
    then show "\<exists>a b. c # s = a @ p @ b"
    proof cases
      case 1
      then show ?thesis by (metis starts_with_iff append_Nil)
    next
      case 2
      then obtain a b where "s = a @ p @ b" using Cons by auto
      then have "c # s = (c # a) @ p @ b" by simp
      then show ?thesis by blast
    qed
  next
    assume "\<exists>a b. c # s = a @ p @ b"
    then obtain a b where ab: "c # s = a @ p @ b" by blast
    show "strstr (c # s) p"
    proof (cases a)
      case Nil
      then have "starts_with (c # s) p" using ab by (simp add: starts_with_iff)
      then show ?thesis by simp
    next
      case (Cons x a')
      then have "s = a' @ p @ b" using ab by simp
      then show ?thesis using Cons.IH by auto
    qed
  qed
qed

text \<open>\<open>tolower\<close> in the C locale.\<close>

definition to_lower :: "char \<Rightarrow> char" where
  "to_lower c = (if 65 \<le> (of_char c :: nat) \<and> (of_char c :: nat) \<le> 90 then char_of ((of_char c :: nat) + 32) else c)"

text \<open>
  \<open>printf\<close> of a number in decimal, zero padded on the left to \<open>w\<close> digits
  (\<open>%0wu\<close>, and \<open>%0wd\<close> for a value that is not negative).
\<close>

fun dec_digits :: "nat \<Rightarrow> string" where
  "dec_digits n = (if n < 10 then [char_of (48 + n)] else dec_digits (n div 10) @ [char_of (48 + n mod 10)])"

declare dec_digits.simps [simp del]

definition fmt_dec :: "nat \<Rightarrow> nat \<Rightarrow> string" where
  "fmt_dec w n = (let ds = dec_digits n in replicate (w - length ds) (CHR ''0'') @ ds)"

lemma dec_digits_len_pos: "0 < length (dec_digits n)"
  by (subst dec_digits.simps) simp

lemma dec_digits_len: "n < 10 ^ w \<Longrightarrow> 0 < w \<Longrightarrow> length (dec_digits n) \<le> w"
proof (induction w arbitrary: n)
  case 0
  then show ?case by simp
next
  case (Suc w)
  show ?case
  proof (cases "n < 10")
    case True
    then show ?thesis by (subst dec_digits.simps) simp
  next
    case False
    with Suc.prems have "n div 10 < 10 ^ w" "0 < w"
      by (auto simp: less_mult_imp_div_less mult.commute intro: gr0I)
    then have "length (dec_digits (n div 10)) \<le> w" by (rule Suc.IH)
    with False show ?thesis by (subst dec_digits.simps) simp
  qed
qed

lemma fmt_dec_len: "n < 10 ^ w \<Longrightarrow> 0 < w \<Longrightarrow> length (fmt_dec w n) = w"
  using dec_digits_len [of n w] by (simp add: fmt_dec_def Let_def)

section \<open>Generic facts\<close>

lemma take_add_drop: "take a xs @ take b (drop a xs) = take (a + b) xs"
  by (simp add: take_add)

lemma find_filter_Some: "find P xs = Some x \<Longrightarrow> P x \<and> x \<in> set xs"
  by (induction xs) (auto split: if_splits)

lemma find_None_conv: "find P xs = None \<longleftrightarrow> (\<forall>x\<in>set xs. \<not> P x)"
  by (induction xs) auto

lemma find_append_hit: "\<forall>x\<in>set xs. \<not> P x \<Longrightarrow> P y \<Longrightarrow> find P (xs @ y # ys) = Some y"
  by (induction xs) auto

lemma distinct_map_find:
  "distinct (map f xs) \<Longrightarrow> x \<in> set xs \<Longrightarrow> find (\<lambda>y. f y = f x) xs = Some x"
  by (induction xs) auto

end
