(* ===== verification/Data_Codec.thy ===== *)
theory Data_Codec
  imports Prelude
begin

text \<open>
  The byte-level packing API: src/src/data.c and the inline readers and writers of
  src/src/data.h, and the object-info unpacker of src/src/pack.c.

  A writer of the C code stores bytes at a cursor and returns how many it stored; callers
  always do \<open>x += put(data + x, v)\<close>. Its model is the list of the bytes stored, so that
  consecutive writes are list append and the returned count is the length. The one writer
  whose count can differ from what it stored, \<open>put_string\<close>, returns both. A reader gets the
  initialised bytes from its cursor on; a read past them is \<open>Undef\<close>. The readers that return
  an advance are modelled as returning the rest of the buffer.
\<close>

section \<open>Fixed-width integers\<close>

definition put_8bit_le :: "byte \<Rightarrow> byte list" where
  "put_8bit_le x = [x]"

definition put_16bit_le :: "u16 \<Rightarrow> byte list" where
  "put_16bit_le x = [ucast (x AND 0xff), ucast (drop_bit 8 x AND 0xff)]"

definition put_32bit_le :: "u32 \<Rightarrow> byte list" where
  "put_32bit_le x = [ucast (x AND 0xff), ucast (drop_bit 8 x AND 0xff),
     ucast (drop_bit 16 x AND 0xff), ucast (drop_bit 24 x AND 0xff)]"

definition put_64bit_le :: "u64 \<Rightarrow> byte list" where
  "put_64bit_le x = [ucast (x AND 0xff), ucast (drop_bit 8 x AND 0xff),
     ucast (drop_bit 16 x AND 0xff), ucast (drop_bit 24 x AND 0xff),
     ucast (drop_bit 32 x AND 0xff), ucast (drop_bit 40 x AND 0xff),
     ucast (drop_bit 48 x AND 0xff), ucast (drop_bit 56 x AND 0xff)]"

fun get_8bit_le :: "byte list \<Rightarrow> byte res" where
  "get_8bit_le (a # _) = Inr a"
| "get_8bit_le [] = Inl Undef"

definition get_i8bit_le :: "byte list \<Rightarrow> int res" where
  "get_i8bit_le d = bnd (get_8bit_le d) (\<lambda>a. Inr (sint a))"

fun get_16bit_le :: "byte list \<Rightarrow> u16 res" where
  "get_16bit_le (a # b # _) = Inr (ucast a OR push_bit 8 (ucast b))"
| "get_16bit_le _ = Inl Undef"

fun get_32bit_le :: "byte list \<Rightarrow> u32 res" where
  "get_32bit_le (a # b # c # d # _) =
     Inr (ucast a OR push_bit 8 (ucast b) OR push_bit 16 (ucast c) OR push_bit 24 (ucast d))"
| "get_32bit_le _ = Inl Undef"

definition ptp_write_u8 :: "byte \<Rightarrow> byte list" where
  "ptp_write_u8 out = [out]"

definition ptp_write_u16 :: "u16 \<Rightarrow> byte list" where
  "ptp_write_u16 out = [ucast (out AND 0xFF), ucast (drop_bit 8 out AND 0xFF)]"

definition ptp_write_u32 :: "u32 \<Rightarrow> byte list" where
  "ptp_write_u32 out = [ucast (out AND 0xFF), ucast (drop_bit 8 out AND 0xFF),
     ucast (drop_bit 16 out AND 0xFF), ucast (drop_bit 24 out AND 0xFF)]"

fun ptp_read_u8 :: "byte list \<Rightarrow> (byte \<times> byte list) res" where
  "ptp_read_u8 (a # r) = Inr (a, r)"
| "ptp_read_u8 [] = Inl Undef"

fun ptp_read_u16 :: "byte list \<Rightarrow> (u16 \<times> byte list) res" where
  "ptp_read_u16 (a # b # r) = Inr (ucast a OR push_bit 8 (ucast b), r)"
| "ptp_read_u16 _ = Inl Undef"

fun ptp_read_u32 :: "byte list \<Rightarrow> (u32 \<times> byte list) res" where
  "ptp_read_u32 (a # b # c # d # r) =
     Inr (ucast a OR push_bit 8 (ucast b) OR push_bit 16 (ucast c) OR push_bit 24 (ucast d), r)"
| "ptp_read_u32 _ = Inl Undef"

definition ptp_read_u64 :: "byte list \<Rightarrow> (u64 \<times> byte list) res" where
  "ptp_read_u64 buf = bnd (ptp_read_u32 buf) (\<lambda>(lo, r). bnd (ptp_read_u32 r) (\<lambda>(hi, r').
     Inr (push_bit 32 (ucast hi) OR ucast lo, r')))"

lemma put_len [simp]:
  "length (put_8bit_le b) = 1" "length (put_16bit_le x) = 2"
  "length (put_32bit_le y) = 4" "length (put_64bit_le z) = 8"
  by (simp_all add: put_8bit_le_def put_16bit_le_def put_32bit_le_def put_64bit_le_def)

lemma ptp_write_eq [codec]:
  "ptp_write_u8 b = put_8bit_le b" "ptp_write_u16 x = put_16bit_le x"
  "ptp_write_u32 y = put_32bit_le y"
  by (simp_all add: ptp_write_u8_def put_8bit_le_def ptp_write_u16_def put_16bit_le_def
      ptp_write_u32_def put_32bit_le_def)

lemma mask8: "(0xff :: 'a::len word) = mask 8"
  by (simp add: mask_eq_exp_minus_1)

lemma byte_mask [simp]: "ucast (x AND 0xff :: 'a::len word) = (ucast x :: byte)"
  unfolding mask8 by (rule bit_word_eqI) (auto simp: bit_simps dest: bit_imp_le_length)

lemma byte_quad:
  "(n::nat) < 32 \<Longrightarrow> (n < 8 \<Longrightarrow> P) \<Longrightarrow> (8 \<le> n \<Longrightarrow> n < 16 \<Longrightarrow> P) \<Longrightarrow>
   (16 \<le> n \<Longrightarrow> n < 24 \<Longrightarrow> P) \<Longrightarrow> (24 \<le> n \<Longrightarrow> n < 32 \<Longrightarrow> P) \<Longrightarrow> P"
  by linarith

lemma join16:
  "(ucast (ucast (x :: u16) :: byte) :: u16) OR push_bit 8 (ucast (ucast (drop_bit 8 x) :: byte)) = x"
  by (rule bit_word_eqI) (auto simp: bit_simps not_less)

lemma join32:
  "(ucast (ucast (x :: u32) :: byte) :: u32)
     OR push_bit 8 (ucast (ucast (drop_bit 8 x) :: byte))
     OR push_bit 16 (ucast (ucast (drop_bit 16 x) :: byte))
     OR push_bit 24 (ucast (ucast (drop_bit 24 x) :: byte)) = x"
proof (rule bit_word_eqI)
  fix n assume n: "n < LENGTH(32)"
  then have "n < 32" by simp
  then show "bit ((ucast (ucast (x :: u32) :: byte) :: u32)
     OR push_bit 8 (ucast (ucast (drop_bit 8 x) :: byte))
     OR push_bit 16 (ucast (ucast (drop_bit 16 x) :: byte))
     OR push_bit 24 (ucast (ucast (drop_bit 24 x) :: byte))) n = bit x n"
    by (rule byte_quad) (auto simp add: bit_simps less_diff_conv2)
qed

lemma join64:
  "push_bit 32 (ucast (ucast (drop_bit 32 x) :: u32)) OR ucast (ucast x :: u32) = (x :: u64)"
  by (rule bit_word_eqI) (auto simp: bit_simps not_less)

lemma drop_bit_ucast32:
  "k + 8 \<le> 32 \<Longrightarrow> (ucast (drop_bit k (ucast (x :: u64) :: u32)) :: byte) = ucast (drop_bit k x)"
  by (rule bit_word_eqI) (auto simp: bit_simps)

lemma ucast_ucast32: "(ucast (ucast (x :: u64) :: u32) :: byte) = ucast x"
  by (rule bit_word_eqI) (auto simp: bit_simps)

lemma put_64_split: "put_64bit_le x = put_32bit_le (ucast x) @ put_32bit_le (ucast (drop_bit 32 x))"
  by (simp add: put_64bit_le_def put_32bit_le_def drop_bit_ucast32 ucast_ucast32)

lemma byte_high [simp]: "\<not> bit b (8 + n)" "\<not> bit b (16 + n)" "\<not> bit b (24 + n)" for b :: byte
  using bit_imp_le_length [of b "8 + n"] bit_imp_le_length [of b "16 + n"] bit_imp_le_length [of b "24 + n"] by auto

lemma bytes16: "put_16bit_le (ucast a OR push_bit 8 (ucast b)) = [a, b]" for a b :: byte
  by (auto simp: put_16bit_le_def bit_simps intro!: bit_word_eqI)

lemma bytes32: "put_32bit_le (ucast a OR push_bit 8 (ucast b) OR push_bit 16 (ucast c) OR push_bit 24 (ucast d)) = [a, b, c, d]"
  for a b c d :: byte
  by (auto simp: put_32bit_le_def bit_simps intro!: bit_word_eqI)

lemma put_read_16: "2 \<le> length d \<Longrightarrow> \<exists>x. ptp_read_u16 d = Inr (x, drop 2 d) \<and> d = put_16bit_le x @ drop 2 d"
  by (cases d rule: ptp_read_u16.cases) (auto simp: bytes16)

lemma put_read_32: "4 \<le> length d \<Longrightarrow> \<exists>x. ptp_read_u32 d = Inr (x, drop 4 d) \<and> d = put_32bit_le x @ drop 4 d"
  by (cases d rule: ptp_read_u32.cases) (auto simp: bytes32)

text \<open>Every fixed-width reader undoes its writer and leaves the rest of the buffer.\<close>

lemma read_put_8 [simp, codec]: "ptp_read_u8 (put_8bit_le b @ r) = Inr (b, r)"
  by (simp add: put_8bit_le_def)

lemma read_put_16 [simp, codec]: "ptp_read_u16 (put_16bit_le x @ r) = Inr (x, r)"
  by (simp add: put_16bit_le_def join16)

lemma read_put_32 [simp, codec]: "ptp_read_u32 (put_32bit_le x @ r) = Inr (x, r)"
  by (simp add: put_32bit_le_def join32)

lemma read_put_64 [simp, codec]: "ptp_read_u64 (put_64bit_le x @ r) = Inr (x, r)"
  by (simp add: ptp_read_u64_def put_64_split join64)

lemma get_put_8 [simp, codec]: "get_8bit_le (put_8bit_le b @ r) = Inr b"
  by (simp add: put_8bit_le_def)

lemma get_put_16 [simp, codec]: "get_16bit_le (put_16bit_le x @ r) = Inr x"
  by (simp add: put_16bit_le_def join16)

lemma get_put_32 [simp, codec]: "get_32bit_le (put_32bit_le x @ r) = Inr x"
  by (simp add: put_32bit_le_def join32)

lemma get_put_nil [simp, codec]:
  "get_16bit_le (put_16bit_le x) = Inr x" "get_32bit_le (put_32bit_le y) = Inr y"
  "ptp_read_u16 (put_16bit_le x) = Inr (x, [])" "ptp_read_u32 (put_32bit_le y) = Inr (y, [])"
  using get_put_16 [of x "[]"] get_put_32 [of y "[]"] read_put_16 [of x "[]"] read_put_32 [of y "[]"]
  by simp_all

lemma get_16_total: "2 \<le> length d \<Longrightarrow> \<exists>x. get_16bit_le d = Inr x"
  by (cases d rule: get_16bit_le.cases) auto

lemma get_32_total: "4 \<le> length d \<Longrightarrow> \<exists>x. get_32bit_le d = Inr x"
  by (cases d rule: get_32bit_le.cases) auto

section \<open>Arrays\<close>

text \<open>
  Both array writers store a 32-bit count and then the entries; the count is an \<open>int\<close> the
  caller passes, always the length of the array.
\<close>

definition put_16bit_le_array :: "u16 list \<Rightarrow> byte list" where
  "put_16bit_le_array arr = put_32bit_le (word_of_nat (length arr)) @ concat (map put_16bit_le arr)"

definition put_32bit_le_array :: "u32 list \<Rightarrow> byte list" where
  "put_32bit_le_array arr = put_32bit_le (word_of_nat (length arr)) @ concat (map put_32bit_le arr)"

lemma concat_put_16_len [simp]: "length (concat (map put_16bit_le xs)) = 2 * length xs"
  by (induction xs) simp_all

lemma concat_put_32_len [simp]: "length (concat (map put_32bit_le xs)) = 4 * length xs"
  by (induction xs) simp_all

text \<open>A reference decoder for the arrays a dataset carries (the initiator's side).\<close>

fun read_many :: "(byte list \<Rightarrow> ('a \<times> byte list) res) \<Rightarrow> nat \<Rightarrow> byte list \<Rightarrow> ('a list \<times> byte list) res" where
  "read_many rd 0 d = Inr ([], d)"
| "read_many rd (Suc n) d = bnd (rd d) (\<lambda>(x, r). bnd (read_many rd n r) (\<lambda>(xs, r'). Inr (x # xs, r')))"

definition read_array :: "(byte list \<Rightarrow> ('a \<times> byte list) res) \<Rightarrow> byte list \<Rightarrow> ('a list \<times> byte list) res" where
  "read_array rd d = bnd (ptp_read_u32 d) (\<lambda>(n, r). read_many rd (unat n) r)"

lemma read_many_concat:
  assumes "\<And>x r. rd (wr x @ r) = Inr (x, r)"
  shows "read_many rd (length xs) (concat (map wr xs) @ r) = Inr (xs, r)"
  using assms by (induction xs) simp_all

lemma read_put_16_array:
  "length xs < 2 ^ 32 \<Longrightarrow> read_array ptp_read_u16 (put_16bit_le_array xs @ r) = Inr (xs, r)"
  by (simp add: read_array_def put_16bit_le_array_def unsigned_of_nat take_bit_eq_mod
      read_many_concat)

lemma read_put_32_array:
  "length xs < 2 ^ 32 \<Longrightarrow> read_array ptp_read_u32 (put_32bit_le_array xs @ r) = Inr (xs, r)"
  by (simp add: read_array_def put_32bit_le_array_def unsigned_of_nat take_bit_eq_mod
      read_many_concat)

section \<open>Strings\<close>

text \<open>
  \<open>put_string\<close>: the length byte is \<open>strlen + 1\<close> cut to 8 bits, the loop stores that many
  16-bit characters (plain \<open>char\<close> is signed, so characters from 0x80 on are sign-extended),
  and the returned count is computed from \<open>strlen\<close> and not from the byte. The pair is the
  bytes stored and the count returned. A null pointer stores one zero byte.
\<close>

definition put_string :: "string option \<Rightarrow> byte list \<times> nat" where
  "put_string str = (case str of
     None \<Rightarrow> ([0], 1)
   | Some s \<Rightarrow>
       (let n = word_of_nat (length s + 1) :: byte
        in (n # concat (map (\<lambda>c. put_16bit_le (scast (byte_of c))) (take (unat n) (s @ [CHR 0x00]))),
            1 + (length s + 1) * 2)))"

text \<open>
  What a dataset gets from \<open>x += put_string(data + x, s)\<close>: the bytes, when the cursor stands
  right after them; otherwise the dataset would contain heap memory that was never written.
\<close>

definition add_string :: "string \<Rightarrow> byte list res" where
  "add_string s = (let (w, n) = put_string (Some s) in if n = length w then Inr w else Inl Undef)"

fun get_string_chars :: "nat \<Rightarrow> byte list \<Rightarrow> string res" where
  "get_string_chars 0 d = Inr []"
| "get_string_chars (Suc n) d =
     bnd (get_16bit_le d) (\<lambda>w. bnd (get_string_chars n (drop 2 d)) (\<lambda>cs. Inr (chr_of (ucast w) # cs)))"

definition get_string :: "byte list \<Rightarrow> string res" where
  "get_string d = bnd (get_8bit_le d) (\<lambda>len. get_string_chars (unat len) (drop 1 d))"

definition ptp_write_string :: "string \<Rightarrow> byte list" where
  "ptp_write_string s = ptp_write_u8 (word_of_nat (length s) + 1)
     @ concat (map (\<lambda>c. ptp_write_u8 (byte_of c) @ ptp_write_u8 0) s) @ ptp_write_u16 0"

definition wchr_clean :: "u16 \<Rightarrow> byte" where
  "wchr_clean w = ucast (if w > 128 then 0x3f else if w \<noteq> 0 \<and> w < 32 then 0x20 else w)"

text \<open>
  \<open>ptp_read_string\<close> stores characters at \<open>string[0..]\<close> until the wire length or \<open>max\<close> of
  them, and then a NUL at the next index. The result is every byte it stores, in order, with
  that NUL last, and the rest of the wire buffer.
\<close>

fun read_wchars :: "nat \<Rightarrow> nat \<Rightarrow> nat \<Rightarrow> byte list \<Rightarrow> (byte list \<times> byte list) res" where
  "read_wchars 0 i mx d = Inr ([], d)"
| "read_wchars (Suc left) i mx d = bnd (ptp_read_u16 d) (\<lambda>(w, r).
     if Suc i \<ge> mx then Inr ([wchr_clean w], r)
     else bnd (read_wchars left (Suc i) mx r) (\<lambda>(cs, r'). Inr (wchr_clean w # cs, r')))"

definition ptp_read_string :: "byte list \<Rightarrow> nat \<Rightarrow> (byte list \<times> byte list) res" where
  "ptp_read_string d mx = bnd (ptp_read_u8 d) (\<lambda>(len, r).
     bnd (read_wchars (unat len) 0 mx r) (\<lambda>(cs, r'). Inr (cs @ [0], r')))"

text \<open>The NUL-terminated 8-bit strings; \<open>ptp_read_utf8_string\<close> also gives all it stores.\<close>

definition ptp_write_utf8_string :: "string \<Rightarrow> byte list" where
  "ptp_write_utf8_string s = map byte_of s @ [0]"

fun read_utf8_chars :: "nat \<Rightarrow> nat \<Rightarrow> byte list \<Rightarrow> byte list res" where
  "read_utf8_chars mx x [] = Inl Undef"
| "read_utf8_chars mx x (b # d) =
     (if b = 0 then Inr []
      else if int (Suc x) > int mx - 1 then Inr [b]
      else bnd (read_utf8_chars mx (Suc x) d) (\<lambda>bs. Inr (b # bs)))"

definition ptp_read_utf8_string :: "byte list \<Rightarrow> nat \<Rightarrow> (byte list \<times> nat) res" where
  "ptp_read_utf8_string d mx = bnd (read_utf8_chars mx 0 d) (\<lambda>bs. Inr (bs @ [0], length bs + 1))"

text \<open>
  The NUL-terminated 16-bit strings of the initialisation packets. The writer changes a buffer
  \<open>dat\<close> in place: bytes \<open>2i\<close> and \<open>2i+1\<close> per character, and for the terminator only byte
  \<open>2n+1\<close>. The result is the new buffer and the returned character count.
\<close>

definition ptp_write_unicode_string :: "byte list \<Rightarrow> string \<Rightarrow> (byte list \<times> nat) res" where
  "ptp_write_unicode_string dat s =
     (if 2 * length s + 2 \<le> length dat
      then Inr (concat (map (\<lambda>c. [byte_of c, 0]) s) @ [dat ! (2 * length s), 0]
                  @ drop (2 * length s + 2) dat, length s)
      else Inl Undef)"

text \<open>
  \<open>ptp_read_unicode_string\<close> with the buffer index \<open>i\<close> counted in steps of two; the pair is
  the bytes stored and the returned count.
\<close>

fun read_unicode_from :: "nat \<Rightarrow> nat \<Rightarrow> byte list \<Rightarrow> (byte list \<times> nat) res" where
  "read_unicode_from i mx [] = Inl Undef"
| "read_unicode_from i mx (b # d) =
     (if b = 0 then Inr ([0], i div 2)
      else if i \<ge> mx then Inr ([b, 0], i)
      else (case d of [] \<Rightarrow> Inl Undef
            | _ # d' \<Rightarrow> bnd (read_unicode_from (i + 2) mx d') (\<lambda>(bs, n). Inr (b # bs, n))))"

definition ptp_read_unicode_string :: "byte list \<Rightarrow> nat \<Rightarrow> (byte list \<times> nat) res" where
  "ptp_read_unicode_string dat mx = read_unicode_from 0 mx dat"

subsection \<open>Facts about strings\<close>

definition wire_string :: "string \<Rightarrow> byte list" where
  "wire_string s = word_of_nat (length s + 1)
     # concat (map (\<lambda>c. put_16bit_le (scast (byte_of c))) (s @ [CHR 0x00]))"

definition printable :: "string \<Rightarrow> bool" where
  "printable s = (\<forall>c\<in>set s. 32 \<le> unat (byte_of c) \<and> unat (byte_of c) < 128)"

lemma unat_Suc_byte [simp]: "unat (1 + word_of_nat n :: byte) = Suc n mod 256"
proof -
  have "unat (word_of_nat (Suc n) :: byte) = Suc n mod 256"
    by (simp only: unsigned_of_nat take_bit_eq_mod) simp
  then show ?thesis by simp
qed

lemma concat_put_16_map_len [simp]: "length (concat (map (\<lambda>c. put_16bit_le (f c)) s)) = 2 * length s"
  by (induction s) simp_all

lemma wire_string_len [simp]: "length (wire_string s) = 1 + 2 * (length s + 1)"
  by (simp add: wire_string_def)

lemma put_string_fits:
  "length s \<le> 254 \<Longrightarrow> put_string (Some s) = (wire_string s, 1 + (length s + 1) * 2)"
  by (simp add: put_string_def Let_def wire_string_def)

lemma add_string_fits [codec]: "length s \<le> 254 \<Longrightarrow> add_string s = Inr (wire_string s)"
  by (simp add: add_string_def put_string_fits)

lemma put_string_stored:
  "length (fst (put_string (Some s))) = 1 + 2 * ((length s + 1) mod 256)"
proof -
  have "(length s + 1) mod 256 \<le> length s + 1" by (rule mod_less_eq_dividend)
  then show ?thesis by (simp add: put_string_def Let_def)
qed

lemma add_string_iff: "(\<exists>w. add_string s = Inr w) \<longleftrightarrow> length s \<le> 254"
proof
  assume "\<exists>w. add_string s = Inr w"
  then have "1 + (length s + 1) * 2 = length (fst (put_string (Some s)))"
    by (auto simp: add_string_def put_string_def Let_def split: if_splits)
  then have "(length s + 1) mod 256 = length s + 1"
    by (metis put_string_stored add_left_cancel mult.commute mult_cancel1 zero_neq_numeral)
  moreover have "(length s + 1) mod 256 < 256" by simp
  ultimately show "length s \<le> 254" by linarith
next
  assume "length s \<le> 254"
  then show "\<exists>w. add_string s = Inr w" by (simp add: add_string_fits)
qed

lemma ucast_scast_byte [simp]: "ucast (scast (b :: byte) :: u16) = b"
  by (rule bit_word_eqI) (auto simp: bit_simps)

lemma get_string_chars_map:
  "get_string_chars (length s) (concat (map (\<lambda>c. put_16bit_le (scast (byte_of c))) s) @ r) = Inr s"
  by (induction s) simp_all

lemma get_string_wire: "length s \<le> 254 \<Longrightarrow> get_string (wire_string s @ r) = Inr (s @ [CHR 0x00])"
  using get_string_chars_map [of "s @ [CHR 0x00]" r]
  by (simp del: get_string_chars.simps add: get_string_def wire_string_def)

lemma ascii_high:
  assumes "unat (b :: byte) < 128" "7 \<le> n"
  shows "\<not> bit b n"
proof (cases "n = 7")
  case True
  have "bit (unat b) 7 \<longleftrightarrow> odd (unat b div 2 ^ 7)" by (rule bit_iff_odd)
  then show ?thesis using assms True by (simp add: bit_unsigned_iff)
next
  case False
  then show ?thesis using assms(2) by (auto dest: bit_imp_le_length)
qed

lemma put_16_ascii: "unat (b::byte) < 128 \<Longrightarrow> put_16bit_le (scast b) = [b, 0]"
proof -
  assume a: "unat b < 128"
  have "(ucast (drop_bit 8 (scast b :: u16)) :: byte) = 0"
    using a by (intro bit_word_eqI) (auto simp: bit_simps ascii_high min_def)
  then show ?thesis by (simp add: put_16bit_le_def)
qed

lemma put_16_zero: "put_16bit_le 0 = [0, 0]"
  by (simp add: put_16bit_le_def)

lemma concat_ascii:
  "\<forall>c\<in>set s. unat (byte_of c) < 128 \<Longrightarrow>
   concat (map (\<lambda>c. put_16bit_le (scast (byte_of c))) s) = concat (map (\<lambda>c. [byte_of c, 0]) s)"
  by (induction s) (simp_all add: put_16_ascii)

lemma byte_of_nul [simp]: "byte_of (CHR 0x00) = 0"
  by (simp add: byte_of_def)

text \<open>On ASCII text the two string writers store the same bytes.\<close>

lemma wire_string_ascii:
  assumes "\<forall>c\<in>set s. unat (byte_of c) < 128"
  shows "wire_string s = ptp_write_string s"
  using assms
  by (simp add: wire_string_def ptp_write_string_def ptp_write_u8_def ptp_write_u16_def concat_ascii
      put_16_zero add.commute)

lemma read_wchars_stored: "read_wchars n i mx d = Inr (cs, r) \<Longrightarrow> length cs \<le> max 1 (mx - i)"
  by (induction n i mx d arbitrary: cs r rule: read_wchars.induct)
     (fastforce split: if_splits)+

lemma ucast_up_byte [simp]: "(ucast (ucast (b :: byte) :: u16) :: byte) = b"
  by (rule bit_word_eqI) (auto simp: bit_simps)

lemma unat_up_byte [simp]: "unat (ucast (b :: byte) :: u16) = unat b"
proof -
  have "unat b < 256" using unsigned_less [of b, where 'a = nat] by simp
  then show ?thesis by (simp add: unsigned_ucast_eq take_bit_eq_mod)
qed

lemma clean_printable: "32 \<le> unat (b::byte) \<Longrightarrow> unat b < 128 \<Longrightarrow> wchr_clean (ucast b) = b"
  unfolding wchr_clean_def word_less_nat_alt unat_up_byte by auto

lemma read_wchars_ascii:
  assumes "\<forall>c\<in>set s. 32 \<le> unat (byte_of c) \<and> unat (byte_of c) < 128" "i + length s < mx"
  shows "read_wchars (Suc (length s)) i mx (concat (map (\<lambda>c. [byte_of c, 0]) s) @ 0 # 0 # r)
    = Inr (map byte_of s @ [0], r)"
  using assms
proof (induction s arbitrary: i)
  case Nil
  then show ?case by (auto simp: wchr_clean_def)
next
  case (Cons c s)
  have "read_wchars (Suc (length s)) (Suc i) mx (concat (map (\<lambda>c. [byte_of c, 0]) s) @ 0 # 0 # r)
    = Inr (map byte_of s @ [0], r)"
    using Cons.prems by (intro Cons.IH) auto
  moreover have "\<not> mx \<le> Suc i" using Cons.prems by simp
  ultimately show ?case using Cons.prems by (simp add: clean_printable)
qed

text \<open>A printable string written by either writer is read back, with its NUL, and the reader
  stops right behind it.\<close>

lemma ptp_read_write_string:
  assumes "printable s" "length s < mx" "length s \<le> 254"
  shows "ptp_read_string (ptp_write_string s @ r) mx = Inr (map byte_of s @ [0, 0], r)"
proof -
  have "ptp_write_string s @ r
      = (1 + word_of_nat (length s)) # concat (map (\<lambda>c. [byte_of c, 0]) s) @ 0 # 0 # r"
    by (simp add: ptp_write_string_def ptp_write_u8_def ptp_write_u16_def add.commute)
  moreover have "read_wchars (Suc (length s)) 0 mx (concat (map (\<lambda>c. [byte_of c, 0]) s) @ 0 # 0 # r)
    = Inr (map byte_of s @ [0], r)"
    using assms by (intro read_wchars_ascii) (auto simp: printable_def)
  ultimately show ?thesis using assms(3)
    by (simp del: read_wchars.simps add: ptp_read_string_def)
qed

lemma ptp_read_wire_string:
  assumes "printable s" "length s < mx" "length s \<le> 254"
  shows "ptp_read_string (wire_string s @ r) mx = Inr (map byte_of s @ [0, 0], r)"
  using ptp_read_write_string [OF assms] assms(1)
  by (simp add: wire_string_ascii printable_def)

lemma ptp_read_string_stored:
  "ptp_read_string d mx = Inr (bs, r) \<Longrightarrow> length bs \<le> max 1 mx + 1"
  by (auto simp: ptp_read_string_def dest: read_wchars_stored)

text \<open>
  \<open>ptp_read_uint16_array\<close>: the count comes from the data, the elements do not. The reader is handed
  the array of the caller instead, at element \<open>of\<close>, which counts bytes; \<open>buf\<close> is that array as the
  caller left it, on a little-endian host.
\<close>

fun read_own_array :: "u32 \<Rightarrow> nat \<Rightarrow> nat \<Rightarrow> nat \<Rightarrow> u16 list \<Rightarrow> (nat \<times> u16 list) res" where
  "read_own_array mx 0 i at_byte buf = Inr (at_byte, buf)"
| "read_own_array mx (Suc left) i at_byte buf =
     (if unat mx \<le> i then Inl Abort
      else if length buf \<le> at_byte \<or> length buf \<le> i then Inl Undef
      else read_own_array mx left (Suc i) (at_byte + 2) (buf[i := buf ! at_byte]))"

definition ptp_read_uint16_array :: "byte list \<Rightarrow> u16 list \<Rightarrow> u32 \<Rightarrow> (nat \<times> u16 list) res" where
  "ptp_read_uint16_array dat buf mx =
     bnd (ptp_read_u32 dat) (\<lambda>(n, _). read_own_array mx (unat n) 0 4 buf)"

text \<open>What stands behind the count is never read.\<close>

lemma read_uint16_array_ignores_data:
  "ptp_read_uint16_array (put_32bit_le n @ d) buf mx = ptp_read_uint16_array (put_32bit_le n) buf mx"
  using read_put_32 [of n d] read_put_32 [of n "[]"] by (simp add: ptp_read_uint16_array_def)

end
