(* ===== verification/Ptp.thy ===== *)
theory Ptp
  imports Prelude
begin

text \<open>The constants of src/src/ptp.h that the modelled code uses, under their C names.\<close>

section \<open>Packet types\<close>

abbreviation (input) "PTP_PACKET_TYPE_COMMAND \<equiv> 0x1"
abbreviation (input) "PTP_PACKET_TYPE_DATA \<equiv> 0x2"
abbreviation (input) "PTP_PACKET_TYPE_RESPONSE \<equiv> 0x3"

abbreviation (input) "PTPIP_INIT_COMMAND_REQ \<equiv> 0x1 :: u32"
abbreviation (input) "PTPIP_INIT_EVENT_ACK \<equiv> 0x4 :: u32"
abbreviation (input) "PTPIP_COMMAND_REQUEST \<equiv> 0x6 :: u32"
abbreviation (input) "PTPIP_COMMAND_RESPONSE \<equiv> 0x7 :: u32"
abbreviation (input) "PTPIP_DATA_PACKET_START \<equiv> 0x9 :: u32"
abbreviation (input) "PTPIP_DATA_PACKET_END \<equiv> 0xC :: u32"

section \<open>Response codes\<close>

abbreviation (input) "PTP_RC_OK \<equiv> 0x2001 :: u16"
abbreviation (input) "PTP_RC_GeneralError \<equiv> 0x2002 :: u16"
abbreviation (input) "PTP_RC_SessionNotOpen \<equiv> 0x2003 :: u16"
abbreviation (input) "PTP_RC_OperationNotSupported \<equiv> 0x2005 :: u16"
abbreviation (input) "PTP_RC_ParameterNotSupported \<equiv> 0x2006 :: u16"
abbreviation (input) "PTP_RC_InvalidStorageId \<equiv> 0x2008 :: u16"
abbreviation (input) "PTP_RC_InvalidObjectHandle \<equiv> 0x2009 :: u16"
abbreviation (input) "PTP_RC_DevicePropNotSupported \<equiv> 0x200A :: u16"
abbreviation (input) "PTP_RC_InvalidObjectFormatCode \<equiv> 0x200B :: u16"
abbreviation (input) "PTP_RC_StoreFull \<equiv> 0x200C :: u16"
abbreviation (input) "PTP_RC_ObjectWriteProtected \<equiv> 0x200D :: u16"
abbreviation (input) "PTP_RC_NoThumbnailPresent \<equiv> 0x2010 :: u16"
abbreviation (input) "PTP_RC_StoreNotAvailable \<equiv> 0x2013 :: u16"
abbreviation (input) "PTP_RC_SpecByFormatUnsupported \<equiv> 0x2014 :: u16"
abbreviation (input) "PTP_RC_InvalidParentObject \<equiv> 0x201A :: u16"
abbreviation (input) "PTP_RC_InvalidParameter \<equiv> 0x201D :: u16"
abbreviation (input) "PTP_RC_SessionAlreadyOpened \<equiv> 0x201E :: u16"

section \<open>Property data types, access and forms\<close>

abbreviation (input) "PTP_TC_UNDEF \<equiv> 0x0 :: u16"
abbreviation (input) "PTP_TC_INT8 \<equiv> 0x1 :: u16"
abbreviation (input) "PTP_TC_UINT8 \<equiv> 0x2 :: u16"
abbreviation (input) "PTP_TC_INT16 \<equiv> 0x3 :: u16"
abbreviation (input) "PTP_TC_UINT16 \<equiv> 0x4 :: u16"
abbreviation (input) "PTP_TC_INT32 \<equiv> 0x5 :: u16"
abbreviation (input) "PTP_TC_UINT32 \<equiv> 0x6 :: u16"
abbreviation (input) "PTP_TC_INT64 \<equiv> 0x7 :: u16"
abbreviation (input) "PTP_TC_UINT64 \<equiv> 0x8 :: u16"
abbreviation (input) "PTP_TC_UINT8ARRAY \<equiv> 0x4002 :: u16"
abbreviation (input) "PTP_TC_UINT16ARRAY \<equiv> 0x4004 :: u16"
abbreviation (input) "PTP_TC_UINT32ARRAY \<equiv> 0x4006 :: u16"
abbreviation (input) "PTP_TC_UINT64ARRAY \<equiv> 0x4008 :: u16"
abbreviation (input) "PTP_TC_STRING \<equiv> 0xFFFF :: u16"

abbreviation (input) "PTP_AC_ReadWrite \<equiv> 0x0 :: byte"
abbreviation (input) "PTP_AC_Read \<equiv> 0x1 :: byte"
abbreviation (input) "PTP_AC_Invisible \<equiv> 0x3 :: byte"

abbreviation (input) "PTP_RangeForm \<equiv> 0x1 :: byte"
abbreviation (input) "PTP_EnumerationForm \<equiv> 0x2 :: byte"

section \<open>Objects, properties, operations, events\<close>

abbreviation (input) "PTP_OF_Association \<equiv> 0x3001 :: u16"
abbreviation (input) "PTP_OF_MOV \<equiv> 0x300D :: u16"
abbreviation (input) "PTP_OF_IMAGE \<equiv> 0x3800 :: u16"
abbreviation (input) "PTP_OF_JPEG \<equiv> 0x3801 :: u16"
abbreviation (input) "PTP_OF_RAW \<equiv> 0xb103 :: u16"

abbreviation (input) "PTP_DPC_BatteryLevel \<equiv> 0x5001 :: u16"
abbreviation (input) "PTP_DPC_ImageSize \<equiv> 0x5003 :: u16"
abbreviation (input) "PTP_DPC_MTP_SessionInitiatorInfo \<equiv> 0xD406 :: u16"
abbreviation (input) "PTP_DPC_MTP_PerceivedDeviceType \<equiv> 0xD407 :: u16"

abbreviation (input) "PTP_EC_ObjectAdded \<equiv> 0x4002 :: u16"
abbreviation (input) "PTP_EC_DevicePropChanged \<equiv> 0x4006 :: u16"
abbreviation (input) "PTP_EC_CaptureComplete \<equiv> 0x400D :: u16"
abbreviation (input) "PTP_EC_Nikon_ObjectAddedInSDRAM \<equiv> 0xC101 :: u16"
abbreviation (input) "PTP_EC_Nikon_CaptureCompleteRecInSdram \<equiv> 0xC102 :: u16"

abbreviation (input) "PTP_VENDOR_MICROSOFT \<equiv> 0x00000006 :: u32"
abbreviation (input) "PTP_VENDOR_NIKON \<equiv> 0x0000000A :: u32"
abbreviation (input) "PTP_VENDOR_SONY \<equiv> 0x00000011 :: u32"

abbreviation (input) "MAIN_STORAGE_ID \<equiv> 0x00010001 :: u32"

end
