(* ===== verification/Prop_Data.thy ===== *)
theory Prop_Data
  imports Data_Codec Ptp
begin

text \<open>
  Sizes and copies of typed property values (src/src/data.c) and the object-info unpacker
  (src/src/pack.c).

  A value in memory is a block: a null pointer, a pointer that was never initialised, or the
  bytes that have been written from its start. Reading past the written bytes is \<open>Undef\<close>.
\<close>

datatype blk = Null | Wild | Mem "byte list"

fun blk_bytes :: "blk \<Rightarrow> byte list res" where
  "blk_bytes (Mem bs) = Inr bs"
| "blk_bytes _ = Inl Undef"

text \<open>\<open>p == NULL\<close>; the test of a pointer that was never initialised has no defined answer.\<close>

fun is_null :: "blk \<Rightarrow> bool res" where
  "is_null Null = Inr True"
| "is_null (Mem bs) = Inr False"
| "is_null Wild = Inl Undef"

lemma blk_bytes_Inr [simp]: "blk_bytes b = Inr bs \<longleftrightarrow> b = Mem bs"
  by (cases b) auto

text \<open>A signed \<open>int\<close> result; overflow is undefined.\<close>

definition c_int :: "int \<Rightarrow> int res" where
  "c_int i = (if - (2 ^ 31) \<le> i \<and> i < 2 ^ 31 then Inr i else Inl Undef)"

lemma c_int_Inr [simp]: "c_int i = Inr j \<longleftrightarrow> j = i \<and> - (2 ^ 31) \<le> i \<and> i < 2 ^ 31"
  by (auto simp: c_int_def)

definition array_prop_size :: "int \<Rightarrow> byte list \<Rightarrow> int res" where
  "array_prop_size w d = bnd (ptp_read_u32 d) (\<lambda>(length32, _).
     bnd (c_int (sint length32 * w)) (\<lambda>m. c_int (4 + m)))"

text \<open>The bytes are taken lazily: the scalar cases never look at \<open>d\<close>.\<close>

definition ptp_get_prop_size :: "blk \<Rightarrow> u16 \<Rightarrow> int res" where
  "ptp_get_prop_size d t =
    (if t = PTP_TC_INT8 \<or> t = PTP_TC_UINT8 then Inr 1
     else if t = PTP_TC_INT16 \<or> t = PTP_TC_UINT16 then Inr 2
     else if t = PTP_TC_INT32 \<or> t = PTP_TC_UINT32 then Inr 4
     else if t = PTP_TC_INT64 \<or> t = PTP_TC_UINT64 then Inr 8
     else if t = PTP_TC_UINT8ARRAY then bnd (blk_bytes d) (array_prop_size 1)
     else if t = PTP_TC_UINT16ARRAY then bnd (blk_bytes d) (array_prop_size 2)
     else if t = PTP_TC_UINT32ARRAY then bnd (blk_bytes d) (array_prop_size 4)
     else if t = PTP_TC_UINT64ARRAY then bnd (blk_bytes d) (array_prop_size 8)
     else if t = PTP_TC_STRING then
       bnd (blk_bytes d) (\<lambda>bs. bnd (ptp_read_u8 bs) (\<lambda>(length8, _). Inr (1 + uint length8 * 2)))
     else Inl Abort)"

text \<open>\<open>memcpy(dest, d, n)\<close>; a negative \<open>n\<close> becomes a huge size.\<close>

definition memcpy_blk :: "int \<Rightarrow> blk \<Rightarrow> byte list res" where
  "memcpy_blk n d = (if n = 0 then Inr [] else if n < 0 then Inl Undef
     else bnd (blk_bytes d) (read_n (nat n)))"

definition ptp_copy_prop :: "u16 \<Rightarrow> blk \<Rightarrow> byte list res" where
  "ptp_copy_prop t d = bnd (ptp_get_prop_size d t) (\<lambda>sz. memcpy_blk sz d)"

text \<open>The block from offset \<open>of\<close> on; only an offset inside the block is a valid pointer.\<close>

definition blk_at :: "int \<Rightarrow> blk \<Rightarrow> blk res" where
  "blk_at off d = (if off = 0 then Inr d else bnd (blk_bytes d) (\<lambda>bs.
     if 0 \<le> off \<and> off \<le> int (length bs) then Inr (Mem (drop (nat off) bs)) else Inl Undef))"

fun ptp_prop_list_size_from :: "int \<Rightarrow> u16 \<Rightarrow> blk \<Rightarrow> nat \<Rightarrow> int res" where
  "ptp_prop_list_size_from off t d 0 = Inr off"
| "ptp_prop_list_size_from off t d (Suc n) = bnd (blk_at off d) (\<lambda>p.
     bnd (ptp_get_prop_size p t) (\<lambda>sz. bnd (c_int (off + sz)) (\<lambda>off'.
       ptp_prop_list_size_from off' t d n)))"

definition ptp_prop_list_size :: "u16 \<Rightarrow> blk \<Rightarrow> int \<Rightarrow> int res" where
  "ptp_prop_list_size t d len = ptp_prop_list_size_from 0 t d (nat len)"

definition ptp_get_prop_list_size :: "blk \<Rightarrow> u16 \<Rightarrow> int \<Rightarrow> int res" where
  "ptp_get_prop_list_size d t cnt = ptp_prop_list_size_from 0 t d (nat cnt)"

fun ptp_copy_prop_list_from :: "int \<Rightarrow> u16 \<Rightarrow> blk \<Rightarrow> nat \<Rightarrow> byte list res" where
  "ptp_copy_prop_list_from off t d 0 = Inr []"
| "ptp_copy_prop_list_from off t d (Suc n) = bnd (blk_at off d) (\<lambda>p.
     bnd (ptp_get_prop_size p t) (\<lambda>sz. bnd (memcpy_blk sz p) (\<lambda>bs.
       bnd (c_int (off + sz)) (\<lambda>off'. bnd (ptp_copy_prop_list_from off' t d n) (\<lambda>r. Inr (bs @ r))))))"

definition ptp_copy_prop_list :: "u16 \<Rightarrow> blk \<Rightarrow> int \<Rightarrow> byte list res" where
  "ptp_copy_prop_list t d len = ptp_copy_prop_list_from 0 t d (nat len)"

section \<open>Well-formed values\<close>

text \<open>
  What a property block holds when the code filled it: a value of the data type, possibly
  followed by more bytes. \<open>val_ok t v\<close> says that \<open>v\<close> is exactly one such value, and is
  independent of the size function: it spells the wire format out.
\<close>

definition scalar_width :: "u16 \<Rightarrow> nat option" where
  "scalar_width t =
    (if t = PTP_TC_INT8 \<or> t = PTP_TC_UINT8 then Some 1
     else if t = PTP_TC_INT16 \<or> t = PTP_TC_UINT16 then Some 2
     else if t = PTP_TC_INT32 \<or> t = PTP_TC_UINT32 then Some 4
     else if t = PTP_TC_INT64 \<or> t = PTP_TC_UINT64 then Some 8 else None)"

definition array_width :: "u16 \<Rightarrow> nat option" where
  "array_width t =
    (if t = PTP_TC_UINT8ARRAY then Some 1 else if t = PTP_TC_UINT16ARRAY then Some 2
     else if t = PTP_TC_UINT32ARRAY then Some 4 else if t = PTP_TC_UINT64ARRAY then Some 8 else None)"

definition val_ok :: "u16 \<Rightarrow> byte list \<Rightarrow> bool" where
  "val_ok t v \<longleftrightarrow> (\<exists>w. scalar_width t = Some w \<and> length v = w)
     \<or> (\<exists>w n payload. array_width t = Some w \<and> n < 2 ^ 24 \<and> length payload = n * w \<and>
            v = put_32bit_le (word_of_nat n) @ payload)
     \<or> (t = PTP_TC_STRING \<and> (\<exists>n payload. n < 256 \<and> length payload = 2 * n \<and>
            v = word_of_nat n # payload))"

lemma put_ne_Nil [simp]: "put_32bit_le x \<noteq> []" "put_16bit_le y \<noteq> []"
  by (simp_all add: put_32bit_le_def put_16bit_le_def)

lemma scalar_width_pos: "scalar_width t = Some w \<Longrightarrow> 0 < w \<and> w \<le> 8"
  by (auto simp: scalar_width_def split: if_splits)

lemma prop_size_scalar: "scalar_width t = Some w \<Longrightarrow> ptp_get_prop_size d t = Inr (int w)"
  by (auto simp: scalar_width_def ptp_get_prop_size_def split: if_splits)

lemma prop_size_array:
  "array_width t = Some w \<Longrightarrow> ptp_get_prop_size d t = bnd (blk_bytes d) (array_prop_size (int w))"
  by (auto simp: array_width_def ptp_get_prop_size_def split: if_splits)

lemma prop_size_string:
  "ptp_get_prop_size (Mem bs) PTP_TC_STRING = bnd (ptp_read_u8 bs) (\<lambda>(n, _). Inr (1 + uint n * 2))"
  by (simp add: ptp_get_prop_size_def)

lemma array_width_le: "array_width t = Some w \<Longrightarrow> w \<le> 8"
  by (auto simp: array_width_def split: if_splits)

lemma val_ok_pos: "val_ok t v \<Longrightarrow> 0 < length v"
  using scalar_width_pos [of t] by (auto simp: val_ok_def)

lemma array_prop_size_ok:
  assumes "n < 2 ^ 24" "w \<le> 8"
  shows "array_prop_size (int w) (put_32bit_le (word_of_nat n) @ r) = Inr (4 + int (n * w))"
proof -
  have s: "sint (word_of_nat n :: u32) = int n"
    using assms(1) by (simp add: signed_of_nat signed_take_bit_int_eq_self)
  define m where "m = int n * int w"
  have "m \<le> 16777216 * 8" unfolding m_def using assms by (intro mult_mono) auto
  moreover have "0 \<le> m" by (simp add: m_def)
  ultimately have "c_int m = Inr m" "c_int (4 + m) = Inr (4 + m)" by auto
  then show ?thesis by (simp add: array_prop_size_def s flip: m_def)
qed

lemma prop_size_val:
  assumes "val_ok t v"
  shows "ptp_get_prop_size (Mem (v @ r)) t = Inr (int (length v))"
  using assms unfolding val_ok_def
proof (elim disjE exE conjE)
  fix w assume "scalar_width t = Some w" "length v = w"
  then show ?thesis by (simp add: prop_size_scalar)
next
  fix w n payload assume a: "array_width t = Some w" "n < 2 ^ 24" "length payload = n * w"
    "v = put_32bit_le (word_of_nat n) @ payload"
  then show ?thesis
    using array_prop_size_ok [of n w "payload @ r"] array_width_le [of t w]
    by (simp add: prop_size_array)
next
  fix n payload assume "t = PTP_TC_STRING" "n < 256" "length payload = 2 * n" "v = word_of_nat n # payload"
  moreover from this have "uint (word_of_nat n :: byte) = int n"
    by (simp add: unsigned_of_nat take_bit_eq_mod)
  ultimately show ?thesis by (simp add: prop_size_string)
qed

lemma val_ok_int: "val_ok t v \<Longrightarrow> int (length v) < 2 ^ 31"
  using scalar_width_pos [of t] array_width_le [of t]
proof -
  assume v: "val_ok t v"
  show ?thesis using v unfolding val_ok_def
  proof (elim disjE exE conjE)
    fix w assume "scalar_width t = Some w" "length v = w"
    then show ?thesis using scalar_width_pos by fastforce
  next
    fix w n payload assume a: "array_width t = Some w" "n < 2 ^ 24" "length payload = n * w"
      "v = put_32bit_le (word_of_nat n) @ payload"
    then have "n * w \<le> 16777216 * 8" using array_width_le by (intro mult_mono) auto
    then have "n * w + 4 < 2147483648" by linarith
    with a have "length v < 2147483648" by simp
    then show ?thesis by simp
  next
    fix n payload assume "n < 256" "length payload = 2 * n" "v = word_of_nat n # payload"
    then show ?thesis by simp
  qed
qed

lemma copy_prop_val:
  assumes "val_ok t v"
  shows "ptp_copy_prop t (Mem (v @ r)) = Inr v"
  using assms val_ok_pos [OF assms]
  by (simp add: ptp_copy_prop_def prop_size_val memcpy_blk_def read_n_def)

lemma blk_at_append: "blk_at (int (length a)) (Mem (a @ b)) = Inr (Mem b)"
  by (simp add: blk_at_def)

lemma copy_prop_list_vals:
  assumes "\<forall>v\<in>set vs. val_ok t v" "length (pre @ concat vs) < 2 ^ 31"
  shows "ptp_copy_prop_list_from (int (length pre)) t (Mem (pre @ concat vs @ r)) (length vs)
    = Inr (concat vs)"
  using assms
proof (induction vs arbitrary: pre)
  case Nil
  then show ?case by simp
next
  case (Cons v vs)
  have "ptp_copy_prop_list_from (int (length (pre @ v))) t (Mem ((pre @ v) @ concat vs @ r)) (length vs)
      = Inr (concat vs)"
    using Cons.prems by (intro Cons.IH) auto
  moreover have "memcpy_blk (int (length v)) (Mem (v @ concat vs @ r)) = Inr v"
    using Cons.prems val_ok_pos [of t v] by (simp add: memcpy_blk_def read_n_def)
  ultimately show ?case using Cons.prems
    by (simp add: blk_at_append prop_size_val c_int_def)
qed

lemma prop_list_size_vals:
  assumes "\<forall>v\<in>set vs. val_ok t v" "length (pre @ concat vs) < 2 ^ 31"
  shows "ptp_prop_list_size_from (int (length pre)) t (Mem (pre @ concat vs @ r)) (length vs)
    = Inr (int (length (pre @ concat vs)))"
  using assms
proof (induction vs arbitrary: pre)
  case Nil
  then show ?case by simp
next
  case (Cons v vs)
  have "ptp_prop_list_size_from (int (length (pre @ v))) t (Mem ((pre @ v) @ concat vs @ r)) (length vs)
      = Inr (int (length ((pre @ v) @ concat vs)))"
    using Cons.prems by (intro Cons.IH) auto
  then show ?case using Cons.prems
    by (simp add: blk_at_append prop_size_val c_int_def)
qed

end
