(* ===== verification/VCam_State.thy ===== *)
theory VCam_State
  imports Prop_Data
begin

text \<open>
  The state of one virtual camera: the structs of src/src/vcam.h, src/src/nikon/nikon.h,
  src/src/sony/sony.h, src/src/canon/canon.h and src/src/fuji/fuji.h as records, and the environment the code runs in.

  The C \<open>priv\<close> pointer holds the state of the one vendor a camera belongs to; the record has a
  field per vendor and the code of a vendor only touches its own. Handlers are stored in the
  opcode table as function pointers; the model stores their names (\<open>op_write\<close>,
  \<open>op_write_data\<close>) and the dispatcher is given the meaning of the names. Directory entries are
  a singly linked list of heap cells; the model keeps the list in order and gives each cell the
  address it was allocated at, because \<open>parent\<close> pointers and comparisons of pointers refer to
  cells and not to object handles.
\<close>

section \<open>The environment\<close>

text \<open>\<open>struct timeval\<close>, ordered as the code compares two of them: seconds first.\<close>

datatype timeval = Timeval (tv_sec: int) (tv_usec: int)

instantiation timeval :: linorder
begin

definition less_eq_timeval :: "timeval \<Rightarrow> timeval \<Rightarrow> bool" where
  "less_eq_timeval a b \<longleftrightarrow> tv_sec a < tv_sec b \<or> (tv_sec a = tv_sec b \<and> tv_usec a \<le> tv_usec b)"

definition less_timeval :: "timeval \<Rightarrow> timeval \<Rightarrow> bool" where
  "less_timeval a b \<longleftrightarrow> tv_sec a < tv_sec b \<or> (tv_sec a = tv_sec b \<and> tv_usec a < tv_usec b)"

instance
  by standard (auto simp: less_eq_timeval_def less_timeval_def intro: timeval.expand)

end

text \<open>\<open>struct stat\<close>: the fields the code reads.\<close>

record stat =
  st_isdir :: bool
  st_size :: nat
  st_mtime :: int
  st_ctime :: int

text \<open>
  What scanning a directory finds: for each directory entry its name, what \<open>stat\<close> says
  (\<open>None\<close> when the call fails) and, if \<open>opendir\<close> works on it, its own entries.
\<close>

datatype fsent = FsEnt (fs_name: string) (fs_stat: "stat option") (fs_sub: "fsent list option")

text \<open>
  libexif is not part of the sources. A parsed file is what the code reads of \<open>ExifData\<close>:
  the entries it looks up, and the thumbnail block.
\<close>

datatype exif_format = EXIF_FORMAT_SHORT | EXIF_FORMAT_LONG | EXIF_FORMAT_OTHER
datatype exif_tag = EXIF_TAG_PIXEL_X_DIMENSION | EXIF_TAG_PIXEL_Y_DIMENSION

record exif_entry =
  ee_format :: exif_format
  ee_data :: "byte list option"
  ee_size :: nat

record exif_data =
  ed_entry :: "exif_tag \<Rightarrow> exif_entry option"
  ed_data :: "byte list option"
  ed_size :: nat
  ed_bigendian :: bool

text \<open>
  The outside world. \<open>clock\<close> and \<open>wall\<close> give the value of the n-th reading of
  \<open>gettimeofday\<close> and \<open>time\<close>; \<open>files\<close> gives the bytes \<open>fread\<close> can get from a path \<open>fopen\<close>
  accepts (none from a directory), and \<open>writable\<close> the paths it opens for writing; \<open>fseek_ok\<close> whether a seek works; \<open>fs_tree\<close> what the file
  system holds at a path. \<open>pwd\<close> is the \<open>PWD\<close> macro the build sets, \<open>local_ip\<close> what
  \<open>get_local_ip\<close> finds, and \<open>junk\<close> the bytes a fresh heap block happens to hold (by offset);
  the code copies some of them to the wire.
\<close>

record env =
  clock :: "nat \<Rightarrow> timeval"
  wall :: "nat \<Rightarrow> int"
  files :: "string \<Rightarrow> byte list option"
  writable :: "string \<Rightarrow> bool"
  fseek_ok :: "string \<Rightarrow> nat \<Rightarrow> bool"
  fs_tree :: "string \<Rightarrow> fsent"
  exif_data_new_from_file :: "string \<Rightarrow> exif_data option"
  exif_get_short :: "byte list \<Rightarrow> bool \<Rightarrow> u16"
  exif_get_long :: "byte list \<Rightarrow> bool \<Rightarrow> u32"
  pwd :: string
  local_ip :: string
  junk :: "nat \<Rightarrow> byte"

section \<open>Names of handlers\<close>

datatype fuji_op =
    F_ptp_fuji_get_device_info | F_ptp_fuji_capture | F_ptp_fuji_setdevicepropvalue_write
  | F_ptp_fuji_getdevicepropvalue_write | F_ptp_fuji_getpartialobject_write | F_ptp_fuji_unsupported
  | F_ptp_fuji_get_image_import_folders | F_ptp_fuji_get_image_import_dates
  | F_ptp_fuji_get_extension_object_info | F_ptp_fuji_get_extension_thumb
  | F_ptp_fuji_get_extension_partial_object | F_ptp_fuji_discovery_getthumb_write
  | F_fuji_usb_opencapture | F_fuji_usb_terminateopencapture | F_fuji_usb_getobjectinfo
  | F_fuji_usb_getobject | F_fuji_usb_deleteobject
  | F_ptp_fuji_900c_write | F_ptp_fuji_900d_write | F_ptp_fuji_sendobjectinfo_write
  | F_ptp_fuji_sendobject_write | F_ptp_fuji_getobject_write | F_ptp_fuji_getobjecthandles_write
  | F_ptp_fuji_getobjectinfo | F_ptp_fuji_deleteobject_write

datatype fuji_data_op =
    F_ptp_fuji_setdevicepropvalue_write_data | F_ptp_fuji_900c_write_data | F_ptp_fuji_900d_write_data
  | F_ptp_fuji_sendobjectinfo_write_data | F_ptp_fuji_sendobject_write_data

datatype op_write =
    F_ptp_opensession_write | F_ptp_closesession_write | F_ptp_deviceinfo_write
  | F_ptp_getnumobjects_write | F_ptp_getobjecthandles_write | F_ptp_getstorageids_write
  | F_ptp_getstorageinfo_write | F_ptp_getobjectinfo_write | F_ptp_getobject_write
  | F_ptp_getthumb_write | F_ptp_deleteobject_write | F_ptp_initiatecapture_write
  | F_ptp_getdevicepropdesc_write | F_ptp_getdevicepropvalue_write
  | F_ptp_setdevicepropvalue_write | F_ptp_getpartialobject_write | F_ptp_vusb_write
  | F_ptp_mtp_obj_props_supported_write | F_ptp_nikon_setcontrolmode_write
  | F_nikon_capture_op | F_nikon_afcapture_sdram_op | F_nikon_capture2_op
  | F_nikon_terminatecapture_op | F_nikon_afdrive_op | F_nikon_changecameramode_op
  | F_nikon_deviceready_op | F_nikon_delimagesdram_op | F_nikon_getevent_op
  | F_nikon_geteventex_op | F_nikon_getvendorpropcodes_op | F_nikon_getvendorcodes_op
  | F_nikon_start_liveview_op | F_nikon_end_liveview_op | F_nikon_getliveviewimg_op
  | F_nikon_getpreviewimg_op | F_nikon_getobjectinfo | F_nikon_getobject | F_nikon_getthumb
  | F_nikon_getlargethumb_op | F_nikon_deleteobject | F_nikon_getobjectsize_op
  | F_nikon_getpartialobjectex_op | F_nikon_getstorageinfo_op
  | F_sony_sdioconnect_op | F_sony_getextdeviceinfo_op | F_sony_getalldevicepropinfo_op
  | F_sony_setdevicepropvalue_write | F_sony_controldevice_write | F_sony_getstorageids_op
  | F_sony_getobjectinfo | F_sony_getobject | F_sony_not_supported_op
  | F_ptp_eos_viewfinder_data | F_ptp_eos_generic | F_ptp_eos_exec_evproc
  | F_ptp_eos_set_property | F_ptp_eos_remote_release | F_ptp_eos_remoterelease
  | F_vusb_ptp_eos_events | F_vusb_ptp_eos_getdevicepropvalue
  | F_eos_getstorageids | F_eos_getstorageinfo | F_eos_getobjectinfoex
  | F_eos_getpartialobject | F_eos_getpartialobjectex | F_eos_getobject | F_eos_getthumbex
  | F_eos_transfercomplete | F_eos_getdeviceinfoex | F_eos_noop_ok
  | F_fuji fuji_op

datatype op_write_data =
    F_ptp_setdevicepropvalue_write_data | F_ptp_vusb_write_data
  | F_nikon_setdevicepropvalue_data
  | F_sony_setdevicepropvalue_data | F_sony_controldevice_data
  | F_ptp_eos_exec_evproc_data | F_ptp_eos_set_property_data
  | F_fuji_data fuji_data_op

datatype virt_lookup =
    F_nikon_lookup_virtual_object | F_sony_lookup_virtual_object | F_canon_lookup_virtual_object

text \<open>The per-property callbacks; only Fujifilm cameras register any.\<close>

datatype prop_fn =
    F_prop_d185_getvalue | F_prop_d185_setvalue | F_prop_d183_setvalue
  | F_prop_d21c_getvalue | F_prop_d21c_setvalue | F_prop_d18c_getvalue | F_d212_getvalue

section \<open>Structs\<close>

record ptpcontainer =
  c_size :: u32
  c_type :: u32
  c_code :: u32
  c_seqnr :: u32
  c_nparams :: u32
  c_params :: "u32 list"

record PtpOpcode =
  op_code :: int
  op_w :: op_write
  op_wd :: "op_write_data option"

record PtpPropDesc =
  DevicePropertyCode :: u16
  DataType :: u16
  GetSet :: byte
  factory_default_value :: blk
  pd_value :: blk
  value_length :: "int option"
  avail :: blk
  avail_cnt :: "int option"
  FormFlag :: byte
  form_min :: blk
  form_max :: blk
  form_step :: blk

record PtpProp =
  pr_code :: int
  pr_getdesc :: "prop_fn option"
  pr_getvalue :: "prop_fn option"
  pr_setvalue :: "prop_fn option"
  pr_desc :: PtpPropDesc

text \<open>A parent pointer: null, never initialised, or the address of a cell.\<close>

datatype pptr = PNull | PWild | PAddr nat

record ptp_dirent =
  d_addr :: nat
  d_id :: u32
  d_name :: string
  d_fsname :: string
  d_fsname_literal :: bool
  d_stbuf :: "stat option"
  d_parent :: pptr

datatype ptp_event_channel = PTP_CH_CLASSIC | PTP_CH_EOS | PTP_CH_NIKON

record ptp_interrupt =
  i_data :: "byte list"
  i_time :: timeval
  i_channel :: ptp_event_channel

record GenericEvent =
  ev_size :: u32
  ev_x :: u16
  ev_code :: u16
  ev_transaction :: u32
  ev_value :: u32

record sdram_object =
  sd_used :: bool
  sd_handle :: u32
  sd_ofc :: u32
  sd_name :: string
  sd_data :: "byte list"

record NikonModelProfile =
  np_name :: string
  np_model :: string
  np_version :: string
  np_serial :: string
  np_product_id :: u16
  np_extver :: u16
  np_storage_capacity :: u64
  np_storage_free :: u64
  np_storage_images :: u32
  np_vendorcodes :: bool

record Nikon =
  nk_profile :: "NikonModelProfile option"
  nk_controlmode :: int
  nk_liveview_status :: byte
  nk_capture_count :: u32
  nk_sdram :: sdram_object

record SonyModelProfile =
  sp_name :: string
  sp_model :: string
  sp_version :: string
  sp_serial :: string
  sp_product_id :: u16
  sp_deviceprops :: "u16 list"
  sp_controls :: "u16 list"

record Sony =
  so_profile :: "SonyModelProfile option"
  so_focus_found :: byte
  so_object_in_memory :: u16
  so_half_pressed :: bool
  so_full_pressed :: bool
  so_capture_count :: u32
  so_sdram :: sdram_object
  so_lv_data :: "byte list option"

text \<open>
  The Canon state is allocated with \<open>malloc\<close>, and \<open>ssdp_modern\<close> is the one field its set-up
  leaves unwritten when the option is not given. \<open>sd_data\<close> of the object in camera memory are
  the first \<open>size\<close> bytes of its block, which are the ones that can be served.
\<close>

record CanonBase =
  cn_first_events :: bool
  cn_lv_ready :: bool
  cn_calls_to_liveview :: int
  cn_ssdp_modern :: "bool option"
  cn_capture_destination :: u32
  cn_sdram :: sdram_object

text \<open>\<open>struct PtpObjectInfo\<close> of src/src/cl_data.h; a \<open>char\<close> array field is the C string in it.\<close>

record PtpObjectInfo =
  storage_id :: u32
  obj_format :: u16
  protection :: u16
  oi_compressed_size :: u32
  thumb_format :: u16
  thumb_compressed_size :: u32
  thumb_width :: u32
  thumb_height :: u32
  img_width :: u32
  img_height :: u32
  img_bit_depth :: u32
  parent_obj :: u32
  assoc_type :: u16
  assoc_desc :: u32
  sequence_num :: u32
  filename :: string
  date_created :: string
  date_modified :: string
  oi_keywords :: string

text \<open>
  The Fujifilm state is zeroed when it is allocated. The pointers to a block with its length are
  the bytes of the block.
\<close>

datatype FujiTransport =
    FUJI_FEATURE_NONE | FUJI_FEATURE_AUTOSAVE | FUJI_FEATURE_WIRELESS_TETHER | FUJI_FEATURE_WIRELESS_COMM
  | FUJI_FEATURE_USB_CARD_READER | FUJI_FEATURE_USB_TETHER_SHOOT | FUJI_FEATURE_RAW_CONV | FUJI_FEATURE_USB

record Fuji =
  fj_transport :: FujiTransport
  fj_do_discovery :: bool
  fj_do_register :: bool
  fj_do_tether :: bool
  fj_is_select_multiple_images :: bool
  fj_image_get_version :: int
  fj_get_object_version :: int
  fj_remote_version :: int
  fj_remote_get_object_version :: int
  fj_client_state :: int
  fj_camera_state :: int
  fj_min_remote_version :: int
  fj_obj_count :: int
  fj_compress_small :: int
  fj_no_compressed :: int
  fj_internal_state :: int
  fj_sent_images :: int
  fj_is_gfx100ii :: bool
  fj_image_import_preflight_seen :: bool
  fj_image_import_folder_query_seen :: bool
  fj_image_import_date_query_seen :: bool
  fj_image_import_steps :: u32
  fj_image_import_current_handle :: u32
  fj_rawconv_jpeg_handle :: int
  fj_rawconv_jpeg_object_info :: "PtpObjectInfo option"
  fj_usb_liveview :: bool
  fj_usb_lv_data :: "byte list"
  fj_rawconv_jpeg_path :: "string option"
  fj_profile_buffer :: "byte list option"
  fj_rawconv_raf_buffer :: "byte list"
  fj_settings_file_path :: "string option"

text \<open>
  \<open>outbulk\<close> are the \<open>nroutbulk\<close> bytes the C code keeps at \<open>cam->outbulk\<close> and \<open>inbulk\<close> the
  \<open>nrinbulk\<close> bytes at \<open>cam->inbulk\<close>. \<open>heap_next\<close> and \<open>ticks\<close> have no counterpart in the
  struct: the address the next directory entry gets, and how many clock readings were made.
\<close>

record vcam =
  model :: string
  version :: string
  serial :: string
  manufac :: string
  extension :: string
  vendor_id :: u16
  product_id :: u16
  vendor_extension_id :: u32
  vendor_extension_version :: u16
  ev_list :: "u16 list option"
  deviceprops :: "u16 list option"
  capture_formats :: "u16 list option"
  image_formats :: "u16 list option"
  first_interrupt :: "ptp_interrupt list"
  first_dirent :: "ptp_dirent list"
  ptp_objectid :: u32
  heap_next :: nat
  lookup_virtual_object :: "virt_lookup option"
  inbulk :: "byte list"
  outbulk :: "byte list"
  seqnr :: u32
  session :: u32
  ptpcmd :: ptpcontainer
  opcodes :: "PtpOpcode list"
  props :: "PtpProp list"
  next_cmd_kills_connection :: bool
  battery :: byte
  exposurebias :: int
  custom_ip_addr :: "string option"
  vcamera_filesystem :: string
  sig :: int
  nikon :: Nikon
  sony :: Sony
  canon :: CanonBase
  fuji :: Fuji
  ticks :: nat

text \<open>
  The meaning of the callbacks a camera stores as pointers: the property callbacks, which get
  the camera and their descriptor and may change both, the lookup of virtual objects, and the
  operations of the Fujifilm module.
\<close>

record hooks =
  getdesc_fn :: "prop_fn \<Rightarrow> vcam \<Rightarrow> PtpPropDesc \<Rightarrow> (vcam \<times> PtpPropDesc) res"
  getvalue_fn :: "prop_fn \<Rightarrow> vcam \<Rightarrow> PtpPropDesc \<Rightarrow> (vcam \<times> PtpPropDesc \<times> int) res"
  setvalue_fn :: "prop_fn \<Rightarrow> vcam \<Rightarrow> PtpPropDesc \<Rightarrow> byte list \<Rightarrow> (vcam \<times> PtpPropDesc \<times> int) res"
  lookup_fn :: "virt_lookup \<Rightarrow> vcam \<Rightarrow> u32 \<Rightarrow> byte list option"
  fuji_fn :: "fuji_op \<Rightarrow> vcam \<Rightarrow> ptpcontainer \<Rightarrow> vcam res"
  fuji_data_fn :: "fuji_data_op \<Rightarrow> vcam \<Rightarrow> ptpcontainer \<Rightarrow> byte list \<Rightarrow> vcam res"

section \<open>Zeroed structs\<close>

definition zero_container :: ptpcontainer where
  "zero_container = \<lparr>c_size = 0, c_type = 0, c_code = 0, c_seqnr = 0, c_nparams = 0,
     c_params = replicate 6 0\<rparr>"

definition zero_sdram :: sdram_object where
  "zero_sdram = \<lparr>sd_used = False, sd_handle = 0, sd_ofc = 0, sd_name = '''', sd_data = []\<rparr>"

definition zero_nikon :: Nikon where
  "zero_nikon = \<lparr>nk_profile = None, nk_controlmode = 0, nk_liveview_status = 0,
     nk_capture_count = 0, nk_sdram = zero_sdram\<rparr>"

definition zero_sony :: Sony where
  "zero_sony = \<lparr>so_profile = None, so_focus_found = 0, so_object_in_memory = 0,
     so_half_pressed = False, so_full_pressed = False, so_capture_count = 0,
     so_sdram = zero_sdram, so_lv_data = None\<rparr>"

definition zero_canon :: CanonBase where
  "zero_canon = \<lparr>cn_first_events = False, cn_lv_ready = False, cn_calls_to_liveview = 0,
     cn_ssdp_modern = None, cn_capture_destination = 0, cn_sdram = zero_sdram\<rparr>"

definition zero_fuji :: Fuji where
  "zero_fuji = \<lparr>fj_transport = FUJI_FEATURE_NONE, fj_do_discovery = False, fj_do_register = False,
     fj_do_tether = False, fj_is_select_multiple_images = False, fj_image_get_version = 0,
     fj_get_object_version = 0, fj_remote_version = 0, fj_remote_get_object_version = 0,
     fj_client_state = 0, fj_camera_state = 0, fj_min_remote_version = 0, fj_obj_count = 0,
     fj_compress_small = 0, fj_no_compressed = 0, fj_internal_state = 0, fj_sent_images = 0,
     fj_is_gfx100ii = False, fj_image_import_preflight_seen = False,
     fj_image_import_folder_query_seen = False, fj_image_import_date_query_seen = False,
     fj_image_import_steps = 0, fj_image_import_current_handle = 0, fj_rawconv_jpeg_handle = 0,
     fj_rawconv_jpeg_object_info = None, fj_usb_liveview = False, fj_usb_lv_data = [],
     fj_rawconv_jpeg_path = None, fj_profile_buffer = None, fj_rawconv_raf_buffer = [],
     fj_settings_file_path = None\<rparr>"

definition zero_vcam :: vcam where
  "zero_vcam = \<lparr>model = '''', version = '''', serial = '''', manufac = '''', extension = '''',
     vendor_id = 0, product_id = 0, vendor_extension_id = 0, vendor_extension_version = 0,
     ev_list = None, deviceprops = None, capture_formats = None, image_formats = None,
     first_interrupt = [], first_dirent = [], ptp_objectid = 0, heap_next = 0,
     lookup_virtual_object = None, inbulk = [], outbulk = [], seqnr = 0, session = 0,
     ptpcmd = zero_container, opcodes = [], props = [], next_cmd_kills_connection = False,
     battery = 0, exposurebias = 0,
     custom_ip_addr = None, vcamera_filesystem = '''', sig = 0, nikon = zero_nikon, sony = zero_sony,
     canon = zero_canon, fuji = zero_fuji, ticks = 0\<rparr>"

section \<open>Reading the clock and the parameters\<close>

definition gettimeofday :: "env \<Rightarrow> vcam \<Rightarrow> timeval \<times> vcam" where
  "gettimeofday e cam = (clock e (ticks cam), cam\<lparr>ticks := ticks cam + 1\<rparr>)"

definition time_now :: "env \<Rightarrow> vcam \<Rightarrow> int \<times> vcam" where
  "time_now e cam = (wall e (ticks cam), cam\<lparr>ticks := ticks cam + 1\<rparr>)"

text \<open>\<open>ptp->params[i]\<close>: a parameter the packet did not carry was never written.\<close>

definition param :: "ptpcontainer \<Rightarrow> nat \<Rightarrow> u32 res" where
  "param p i = (if i < length (c_params p) then Inr (c_params p ! i) else Inl Undef)"

lemma param_Inr [simp]: "param p i = Inr x \<longleftrightarrow> i < length (c_params p) \<and> x = c_params p ! i"
  by (auto simp: param_def)

text \<open>The container invariant: the parameters that were counted are there.\<close>

definition wf_cmd :: "ptpcontainer \<Rightarrow> bool" where
  "wf_cmd p \<longleftrightarrow> unat (c_nparams p) \<le> length (c_params p)"

lemma param_ok: "wf_cmd p \<Longrightarrow> i < unat (c_nparams p) \<Longrightarrow> param p i = Inr (c_params p ! i)"
  by (simp add: wf_cmd_def)

end
