(* ===== verification/Bulk.thy ===== *)
theory Bulk
  imports VCam_State
begin

text \<open>
  The two bulk pipes of src/src/vcamera.c: building data and response containers, the checks
  every handler starts with, and the host's reads. The contract of this component is that the
  bytes waiting for the host are always whole PTP containers.
\<close>

section \<open>Operations\<close>

definition ptp_senddata :: "vcam \<Rightarrow> u16 \<Rightarrow> byte list \<Rightarrow> vcam" where
  "ptp_senddata cam cde dat =
     (let size = word_of_nat (length dat + 12) :: u32
      in cam\<lparr>inbulk := inbulk cam @ put_32bit_le size @ put_16bit_le 0x2 @ put_16bit_le cde
               @ put_32bit_le (seqnr cam) @ dat\<rparr>)"

definition ptp_response :: "vcam \<Rightarrow> u16 \<Rightarrow> u32 list \<Rightarrow> vcam" where
  "ptp_response cam cde params =
     (let size = word_of_nat (12 + length params * 4) :: u32
      in cam\<lparr>inbulk := inbulk cam @ put_32bit_le size @ put_16bit_le 0x3 @ put_16bit_le cde
               @ put_32bit_le (seqnr cam) @ concat (map put_32bit_le params),
             seqnr := seqnr cam + 1\<rparr>)"

text \<open>The three checks return whether the handler stops.\<close>

definition vcam_check_session :: "vcam \<Rightarrow> bool \<times> vcam" where
  "vcam_check_session cam =
     (if session cam = 0 then (True, ptp_response cam PTP_RC_SessionNotOpen []) else (False, cam))"

definition vcam_check_trans_id :: "vcam \<Rightarrow> ptpcontainer \<Rightarrow> bool \<times> vcam" where
  "vcam_check_trans_id cam ptp = (False, cam)"

definition vcam_check_param_count :: "vcam \<Rightarrow> ptpcontainer \<Rightarrow> u32 \<Rightarrow> bool \<times> vcam" where
  "vcam_check_param_count cam ptp n =
     (if c_nparams ptp \<noteq> n then (True, ptp_response cam PTP_RC_GeneralError []) else (False, cam))"

text \<open>\<open>if (check(cam)) return 1;\<close> in front of the rest of a handler.\<close>

definition guard :: "bool \<times> vcam \<Rightarrow> (vcam \<Rightarrow> vcam res) \<Rightarrow> vcam res" where
  "guard c rest = (let (stop, cam) = c in if stop then Inr cam else rest cam)"

text \<open>\<open>vcam_read\<close>: the host takes up to \<open>bytes\<close> bytes from the front.\<close>

definition vcam_read :: "vcam \<Rightarrow> nat \<Rightarrow> byte list \<times> vcam" where
  "vcam_read cam bytes =
     (let toread = min bytes (length (inbulk cam))
      in (take toread (inbulk cam), cam\<lparr>inbulk := drop toread (inbulk cam)\<rparr>))"

section \<open>Containers on the wire\<close>

text \<open>
  The specification side: a container as the host understands it, its encoding, and what it
  means for a byte stream to be a sequence of containers.
\<close>

datatype container =
    DataC (k_code: u16) (k_tid: u32) (k_payload: "byte list")
  | RespC (k_code: u16) (k_tid: u32) (k_params: "u32 list")

fun enc :: "container \<Rightarrow> byte list" where
  "enc (DataC c t p) = put_32bit_le (word_of_nat (length p + 12)) @ put_16bit_le 2
     @ put_16bit_le c @ put_32bit_le t @ p"
| "enc (RespC c t ps) = put_32bit_le (word_of_nat (length ps * 4 + 12)) @ put_16bit_le 3
     @ put_16bit_le c @ put_32bit_le t @ concat (map put_32bit_le ps)"

definition enc_all :: "container list \<Rightarrow> byte list" where
  "enc_all ks = concat (map enc ks)"

lemma enc_all_simps [simp]:
  "enc_all [] = []" "enc_all (k # ks) = enc k @ enc_all ks" "enc_all (ks @ ls) = enc_all ks @ enc_all ls"
  by (simp_all add: enc_all_def)

fun is_resp :: "container \<Rightarrow> bool" where
  "is_resp (RespC _ _ _) = True"
| "is_resp (DataC _ _ _) = False"

text \<open>The host's parser for one container at the front of the stream.\<close>

definition container_len :: "container \<Rightarrow> nat" where
  "container_len k = (case k of DataC _ _ p \<Rightarrow> length p + 12 | RespC _ _ ps \<Rightarrow> length ps * 4 + 12)"

definition small :: "container \<Rightarrow> bool" where
  "small k = (container_len k < 2 ^ 32)"

lemma enc_len: "length (enc k) = container_len k"
  by (cases k) (simp_all add: container_len_def)

definition dec :: "byte list \<Rightarrow> (container \<times> byte list) res" where
  "dec bs = bnd (ptp_read_u32 bs) (\<lambda>(len, r1). bnd (ptp_read_u16 r1) (\<lambda>(ty, r2).
     bnd (ptp_read_u16 r2) (\<lambda>(c, r3). bnd (ptp_read_u32 r3) (\<lambda>(t, r4).
       let n = unat len - 12 in
       if unat len < 12 \<or> length r4 < n then Inl Undef
       else if ty = 2 then Inr (DataC c t (take n r4), drop n r4)
       else if ty = 3 \<and> 4 dvd n then
         bnd (read_many ptp_read_u32 (n div 4) r4) (\<lambda>(ps, r5). Inr (RespC c t ps, r5))
       else Inl Undef))))"

lemma unat_len32: "n < 2 ^ 32 \<Longrightarrow> unat (word_of_nat n :: u32) = n"
  by (simp add: unsigned_of_nat take_bit_eq_mod)

lemma sint_small: "n < 2 ^ 31 \<Longrightarrow> sint (word_of_nat n :: u32) = int n"
  by (simp add: sint_uint unsigned_of_nat take_bit_nat_eq_self signed_take_bit_int_eq_self)

lemma dec_enc: "small k \<Longrightarrow> dec (enc k @ r) = Inr (k, r)"
proof (cases k)
  case (DataC c t p)
  assume "small k"
  with DataC have "unat (word_of_nat (length p + 12) :: u32) = length p + 12"
    by (intro unat_len32) (simp add: small_def container_len_def)
  then show ?thesis using DataC by (simp add: dec_def del: of_nat_add)
next
  case (RespC c t ps)
  assume "small k"
  with RespC have "unat (word_of_nat (length ps * 4 + 12) :: u32) = length ps * 4 + 12"
    by (intro unat_len32) (simp add: small_def container_len_def)
  then show ?thesis using RespC
    by (simp add: dec_def read_many_concat del: of_nat_add of_nat_mult)
qed

text \<open>
  Parsing a whole stream: at most \<open>length bs\<close> containers fit, so that much fuel is enough.
\<close>

fun parse_stream :: "nat \<Rightarrow> byte list \<Rightarrow> container list res" where
  "parse_stream fuel [] = Inr []"
| "parse_stream 0 bs = Inl Undef"
| "parse_stream (Suc fuel) bs = bnd (dec bs) (\<lambda>(k, r). bnd (parse_stream fuel r) (\<lambda>ks. Inr (k # ks)))"

lemma enc_ne_Nil [simp]: "enc k \<noteq> []"
  by (cases k) simp_all

lemma parse_stream_enc_all:
  "\<forall>k\<in>set ks. small k \<Longrightarrow> length ks \<le> fuel \<Longrightarrow> parse_stream fuel (enc_all ks) = Inr ks"
proof (induction ks arbitrary: fuel)
  case Nil
  then show ?case by (cases fuel) simp_all
next
  case (Cons k ks)
  then obtain f where f: "fuel = Suc f" by (cases fuel) auto
  have "enc k @ enc_all ks \<noteq> []" by simp
  then obtain b bs where bs: "enc k @ enc_all ks = b # bs" by (cases "enc k @ enc_all ks") auto
  have "dec (b # bs) = Inr (k, enc_all ks)"
    using Cons.prems bs [symmetric] by (simp add: dec_enc)
  with Cons f bs show ?case by simp
qed

section \<open>The responder contract\<close>

text \<open>
  \<open>emits cam cam' ks\<close>: going from \<open>cam\<close> to \<open>cam'\<close> appended the containers \<open>ks\<close> to what the
  host will read, and touched nothing else of the pipes. \<open>answers\<close> is the contract of a
  command handler: at most one data container and then exactly one response, both carrying the
  transaction number of the camera, which then moves on by one.
\<close>

definition emits :: "vcam \<Rightarrow> vcam \<Rightarrow> container list \<Rightarrow> bool" where
  "emits cam cam' ks \<longleftrightarrow> inbulk cam' = inbulk cam @ enc_all ks \<and> outbulk cam' = outbulk cam"

definition answers_with :: "vcam \<Rightarrow> vcam \<Rightarrow> u32 \<Rightarrow> (u16 \<times> byte list) option \<Rightarrow> u16 \<Rightarrow> u32 list \<Rightarrow> bool" where
  "answers_with cam cam' t dat rc ps \<longleftrightarrow>
     emits cam cam' ((case dat of None \<Rightarrow> [] | Some (c, p) \<Rightarrow> [DataC c t p]) @ [RespC rc t ps])"

definition answers :: "vcam \<Rightarrow> vcam \<Rightarrow> bool" where
  "answers cam cam' \<longleftrightarrow> (\<exists>t dat rc ps. answers_with cam cam' t dat rc ps)"

definition pipe_frame :: "vcam \<Rightarrow> vcam \<Rightarrow> bool" where
  "pipe_frame a b \<longleftrightarrow> inbulk b = inbulk a \<and> outbulk b = outbulk a \<and> seqnr b = seqnr a"

lemma pipe_frame_refl [simp]: "pipe_frame a a"
  by (simp add: pipe_frame_def)

lemma pipe_frame_trans: "pipe_frame a b \<Longrightarrow> pipe_frame b c \<Longrightarrow> pipe_frame a c"
  by (simp add: pipe_frame_def)

lemma emits_refl [simp]: "emits a a []"
  by (simp add: emits_def)

lemma emits_trans: "emits a b ks \<Longrightarrow> emits b c ls \<Longrightarrow> emits a c (ks @ ls)"
  by (simp add: emits_def)

lemma enc_resp_eq: "enc (RespC c t ps) = put_32bit_le (word_of_nat (12 + length ps * 4))
   @ put_16bit_le 3 @ put_16bit_le c @ put_32bit_le t @ concat (map put_32bit_le ps)"
  by (simp add: add.commute)

lemma inbulk_response [simp]:
  "inbulk (ptp_response cam c ps) = inbulk cam @ enc (RespC c (seqnr cam) ps)"
  unfolding enc_resp_eq by (simp add: ptp_response_def Let_def)

lemma inbulk_senddata [simp]:
  "inbulk (ptp_senddata cam c d) = inbulk cam @ enc (DataC c (seqnr cam) d)"
  by (simp add: ptp_senddata_def Let_def)

lemma outbulk_send [simp]:
  "outbulk (ptp_response cam c ps) = outbulk cam" "outbulk (ptp_senddata cam c d) = outbulk cam"
  "seqnr (ptp_response cam c ps) = seqnr cam + 1" "seqnr (ptp_senddata cam c d) = seqnr cam"
  by (simp_all add: ptp_response_def ptp_senddata_def Let_def)

text \<open>The shapes every handler ends in.\<close>

lemma answers_resp [simp, intro]: "pipe_frame cam c1 \<Longrightarrow> answers cam (ptp_response c1 rc ps)"
  unfolding answers_def answers_with_def emits_def pipe_frame_def
  by (rule exI [of _ "seqnr cam"], rule exI [of _ None]) auto

lemma answers_data:
  assumes "pipe_frame cam c1" "pipe_frame (ptp_senddata c1 c d) c2"
  shows "answers cam (ptp_response c2 rc ps)"
  using assms unfolding answers_def answers_with_def emits_def pipe_frame_def
  by (intro exI [of _ "seqnr cam"] exI [of _ "Some (c, d)"]) auto

lemma answers_data1 [simp]: "answers cam (ptp_response (ptp_senddata cam c d) rc ps)"
  using answers_data [of cam cam c d "ptp_senddata cam c d"] by simp

lemma answers_frame: "pipe_frame a b \<Longrightarrow> answers b c \<Longrightarrow> answers a c"
  by (simp add: answers_def answers_with_def emits_def pipe_frame_def)

lemma answers_data_frame [simp]: "pipe_frame a b \<Longrightarrow> answers a (ptp_response (ptp_senddata b c d) rc ps)"
  by (rule answers_frame [OF _ answers_data1])

lemma pipe_frame_updates [simp]:
  "pipe_frame a (b\<lparr>ticks := t\<rparr>) = pipe_frame a b" "pipe_frame a (b\<lparr>nikon := n\<rparr>) = pipe_frame a b"
  "pipe_frame a (b\<lparr>canon := k\<rparr>) = pipe_frame a b" "pipe_frame a (b\<lparr>fuji := j\<rparr>) = pipe_frame a b"
  "pipe_frame a (b\<lparr>sony := s\<rparr>) = pipe_frame a b" "pipe_frame a (b\<lparr>first_dirent := d\<rparr>) = pipe_frame a b"
  "pipe_frame a (b\<lparr>first_interrupt := q\<rparr>) = pipe_frame a b" "pipe_frame a (b\<lparr>session := x\<rparr>) = pipe_frame a b"
  "pipe_frame a (b\<lparr>ptp_objectid := i\<rparr>) = pipe_frame a b" "pipe_frame a (b\<lparr>props := p\<rparr>) = pipe_frame a b"
  by (simp_all add: pipe_frame_def)

text \<open>The transaction number may be set before or after.\<close>

lemma answers_seqnr_before: "answers (cam\<lparr>seqnr := t\<rparr>) cam' \<Longrightarrow> answers cam cam'"
  by (simp add: answers_def answers_with_def emits_def)

lemma answers_seqnr_after: "answers cam cam' \<Longrightarrow> answers cam (cam'\<lparr>seqnr := t\<rparr>)"
  by (simp add: answers_def answers_with_def emits_def)

text \<open>A check in front of a handler is a case distinction.\<close>

lemma guard_session [handler_defs]:
  "guard (vcam_check_session cam) rest
     = (if session cam = 0 then Inr (ptp_response cam PTP_RC_SessionNotOpen []) else rest cam)"
  by (simp add: guard_def vcam_check_session_def)

lemma guard_trans_id [handler_defs]: "guard (vcam_check_trans_id cam ptp) rest = rest cam"
  by (simp add: guard_def vcam_check_trans_id_def)

lemma guard_params [handler_defs]:
  "guard (vcam_check_param_count cam ptp n) rest
     = (if c_nparams ptp = n then rest cam else Inr (ptp_response cam PTP_RC_GeneralError []))"
  by (simp add: guard_def vcam_check_param_count_def)

text \<open>Sending touches only the pipe and the transaction number.\<close>

lemma send_frame [simp]:
  "first_dirent (ptp_response cam c ps) = first_dirent cam"
  "first_dirent (ptp_senddata cam c' d) = first_dirent cam"
  "heap_next (ptp_response cam c ps) = heap_next cam"
  "heap_next (ptp_senddata cam c' d) = heap_next cam"
  "ptp_objectid (ptp_response cam c ps) = ptp_objectid cam"
  "ptp_objectid (ptp_senddata cam c' d) = ptp_objectid cam"
  "first_interrupt (ptp_response cam c ps) = first_interrupt cam"
  "first_interrupt (ptp_senddata cam c' d) = first_interrupt cam"
  "session (ptp_response cam c ps) = session cam"
  "session (ptp_senddata cam c' d) = session cam"
  "props (ptp_response cam c ps) = props cam"
  "props (ptp_senddata cam c' d) = props cam"
  "opcodes (ptp_response cam c ps) = opcodes cam"
  "opcodes (ptp_senddata cam c' d) = opcodes cam"
  "nikon (ptp_response cam c ps) = nikon cam"
  "nikon (ptp_senddata cam c' d) = nikon cam"
  "sony (ptp_response cam c ps) = sony cam"
  "sony (ptp_senddata cam c' d) = sony cam"
  "canon (ptp_response cam c ps) = canon cam"
  "canon (ptp_senddata cam c' d) = canon cam"
  "fuji (ptp_response cam c ps) = fuji cam"
  "fuji (ptp_senddata cam c' d) = fuji cam"
  "ptpcmd (ptp_response cam c ps) = ptpcmd cam"
  "ptpcmd (ptp_senddata cam c' d) = ptpcmd cam"
  "ticks (ptp_response cam c ps) = ticks cam"
  "ticks (ptp_senddata cam c' d) = ticks cam"
  by (simp_all add: ptp_response_def ptp_senddata_def Let_def)

text \<open>The three checks in front of a handler with a fixed number of parameters.\<close>

definition checked :: "vcam \<Rightarrow> ptpcontainer \<Rightarrow> u32 \<Rightarrow> (vcam \<Rightarrow> vcam res) \<Rightarrow> vcam res" where
  "checked cam ptp n rest =
     guard (vcam_check_trans_id cam ptp) (\<lambda>cam.
     guard (vcam_check_session cam) (\<lambda>cam.
     guard (vcam_check_param_count cam ptp n) rest))"

lemma checked_eq [handler_defs]:
  "checked cam ptp n rest =
     (if session cam = 0 then Inr (ptp_response cam PTP_RC_SessionNotOpen [])
      else if c_nparams ptp = n then rest cam else Inr (ptp_response cam PTP_RC_GeneralError []))"
  by (simp add: checked_def guard_trans_id guard_session guard_params)

text \<open>The code field of a command, as \<open>ptp_senddata\<close> takes it.\<close>

definition cmd_code :: "ptpcontainer \<Rightarrow> u16" where
  "cmd_code ptp = ucast (c_code ptp)"

text \<open>A dataset built in a buffer of \<open>n\<close> bytes.\<close>

definition fits :: "nat \<Rightarrow> byte list \<Rightarrow> byte list res" where
  "fits n bs = (if length bs \<le> n then Inr bs else Inl Undef)"

lemma fits_Inr [simp]: "fits n bs = Inr x \<longleftrightarrow> length bs \<le> n \<and> x = bs"
  by (auto simp: fits_def)

end
