(* ===== verification/Events.thy ===== *)
theory Events
  imports Bulk
begin

text \<open>
  The event queue of src/src/vcamera.c: one list of pending events sorted by trigger time,
  shared by three client channels. Injection keeps the order, and each consumer takes the
  first entry of its own channels.
\<close>

section \<open>Injection\<close>

text \<open>The trigger time: the clock plus \<open>when\<close> milliseconds, with the code's carry test.\<close>

definition trigger_time :: "timeval \<Rightarrow> nat \<Rightarrow> timeval" where
  "trigger_time now when =
     (let usec = tv_usec now + int (when mod 1000) * 1000; sec = tv_sec now + int (when div 1000)
      in if usec > 1000000 then Timeval (sec + 1) (usec - 1000000) else Timeval sec usec)"

text \<open>The walk over \<open>pint\<close>: past every entry the new one is strictly later than.\<close>

fun insert_interrupt :: "ptp_interrupt \<Rightarrow> ptp_interrupt list \<Rightarrow> ptp_interrupt list" where
  "insert_interrupt i [] = [i]"
| "insert_interrupt i (p # ps) =
     (if tv_sec (i_time i) > tv_sec (i_time p) then p # insert_interrupt i ps
      else if tv_sec (i_time i) = tv_sec (i_time p) \<and> tv_usec (i_time i) > tv_usec (i_time p)
      then p # insert_interrupt i ps
      else i # p # ps)"

definition ptp_inject_event_data ::
    "env \<Rightarrow> vcam \<Rightarrow> nat \<Rightarrow> u16 \<Rightarrow> byte list \<Rightarrow> ptp_event_channel \<Rightarrow> vcam" where
  "ptp_inject_event_data e cam when cde entry channel =
     (let (now, cam) = gettimeofday e cam
      in cam\<lparr>first_interrupt := insert_interrupt
           \<lparr>i_data = entry, i_time = trigger_time now when, i_channel = channel\<rparr>
           (first_interrupt cam)\<rparr>)"

definition ptp_inject_interrupt_channel ::
    "env \<Rightarrow> vcam \<Rightarrow> nat \<Rightarrow> u16 \<Rightarrow> int \<Rightarrow> u32 \<Rightarrow> u32 \<Rightarrow> ptp_event_channel \<Rightarrow> vcam" where
  "ptp_inject_interrupt_channel e cam when cde nparams param1 transid channel =
     ptp_inject_event_data e cam when cde
       (put_32bit_le 0x10 @ put_16bit_le 4 @ put_16bit_le cde @ put_32bit_le transid
          @ put_32bit_le param1) channel"

definition ptp_inject_interrupt ::
    "env \<Rightarrow> vcam \<Rightarrow> nat \<Rightarrow> u16 \<Rightarrow> int \<Rightarrow> u32 \<Rightarrow> u32 \<Rightarrow> vcam" where
  "ptp_inject_interrupt e cam when cde nparams param1 transid =
     ptp_inject_interrupt_channel e cam when cde nparams param1 transid PTP_CH_CLASSIC"

definition ptp_notify_event :: "env \<Rightarrow> vcam \<Rightarrow> u16 \<Rightarrow> u32 \<Rightarrow> vcam" where
  "ptp_notify_event e cam cde value = ptp_inject_interrupt e cam 1000 cde 1 value 0"

section \<open>Consumers\<close>

text \<open>
  The two finders return a pointer into the list; here, the entries before it and the list from
  it on, which is empty where the C code gets a pointer to the null at the tail.
\<close>

fun split_at :: "('a \<Rightarrow> bool) \<Rightarrow> 'a list \<Rightarrow> 'a list \<times> 'a list" where
  "split_at P [] = ([], [])"
| "split_at P (x # xs) = (if P x then ([], x # xs) else (let (a, b) = split_at P xs in (x # a, b)))"

definition find_channel_entry ::
    "vcam \<Rightarrow> ptp_event_channel \<Rightarrow> ptp_interrupt list \<times> ptp_interrupt list" where
  "find_channel_entry cam channel = split_at (\<lambda>i. i_channel i = channel) (first_interrupt cam)"

definition due :: "timeval \<Rightarrow> ptp_interrupt \<Rightarrow> bool" where
  "due now i \<longleftrightarrow> tv_sec (i_time i) < tv_sec now \<or>
     (tv_sec (i_time i) = tv_sec now \<and> tv_usec (i_time i) \<le> tv_usec now)"

definition find_due_entry ::
    "env \<Rightarrow> vcam \<Rightarrow> bool \<Rightarrow> bool \<Rightarrow> (ptp_interrupt list \<times> ptp_interrupt list) \<times> vcam" where
  "find_due_entry e cam serve_classic serve_nikon =
     (let (now, cam) = gettimeofday e cam
      in (split_at (\<lambda>i. ((i_channel i = PTP_CH_CLASSIC \<and> serve_classic)
                       \<or> (i_channel i = PTP_CH_NIKON \<and> serve_nikon)) \<and> due now i)
            (first_interrupt cam), cam))"

text \<open>\<open>memcpy(ev, data, sizeof(struct GenericEvent))\<close> of a packed 16-byte struct.\<close>

definition read_event :: "byte list \<Rightarrow> GenericEvent res" where
  "read_event d = bnd (ptp_read_u32 d) (\<lambda>(sz, d). bnd (ptp_read_u16 d) (\<lambda>(x, d).
     bnd (ptp_read_u16 d) (\<lambda>(c, d). bnd (ptp_read_u32 d) (\<lambda>(t, d). bnd (ptp_read_u32 d) (\<lambda>(v, _).
       Inr \<lparr>ev_size = sz, ev_x = x, ev_code = c, ev_transaction = t, ev_value = v\<rparr>)))))"

text \<open>The popping functions return \<open>None\<close> where the C code returns 1.\<close>

definition ptp_pop_event :: "vcam \<Rightarrow> (GenericEvent option \<times> vcam) res" where
  "ptp_pop_event cam =
     (case find_channel_entry cam PTP_CH_CLASSIC of
        (_, []) \<Rightarrow> Inr (None, cam)
      | (pre, i # post) \<Rightarrow> bnd (read_event (i_data i)) (\<lambda>ev.
          Inr (Some ev, cam\<lparr>first_interrupt := pre @ post\<rparr>)))"

definition ptp_pop_eos_event :: "env \<Rightarrow> vcam \<Rightarrow> byte list option \<times> vcam" where
  "ptp_pop_eos_event e cam =
     (case find_channel_entry cam PTP_CH_EOS of
        (_, []) \<Rightarrow> (None, cam)
      | (pre, i # post) \<Rightarrow>
          (let (now, cam) = gettimeofday e cam
           in if tv_sec (i_time i) > tv_sec now then (None, cam)
              else if tv_sec (i_time i) = tv_sec now \<and> tv_usec (i_time i) > tv_usec now
              then (None, cam)
              else (Some (i_data i), cam\<lparr>first_interrupt := pre @ post\<rparr>)))"

definition ptp_pop_nikon_event :: "env \<Rightarrow> vcam \<Rightarrow> (GenericEvent option \<times> vcam) res" where
  "ptp_pop_nikon_event e cam =
     (case find_due_entry e cam False True of
        ((_, []), cam) \<Rightarrow> Inr (None, cam)
      | ((pre, i # post), cam) \<Rightarrow> bnd (read_event (i_data i)) (\<lambda>ev.
          Inr (Some ev, cam\<lparr>first_interrupt := pre @ post\<rparr>)))"

text \<open>
  \<open>vcam_readint\<close>: \<open>None\<close> is \<open>GP_ERROR_TIMEOUT\<close>. After an entry was found due, the clock is
  read again and the entry's time is compared with the end of the poll.
\<close>

definition poll_end :: "timeval \<Rightarrow> nat \<Rightarrow> timeval" where
  "poll_end now timeout = trigger_time now timeout"

definition vcam_readint :: "env \<Rightarrow> vcam \<Rightarrow> nat \<Rightarrow> nat \<Rightarrow> byte list option \<times> vcam" where
  "vcam_readint e cam bytes timeout =
     (case find_due_entry e cam True True of
        ((_, []), cam) \<Rightarrow> (None, cam)
      | ((pre, i # post), cam) \<Rightarrow>
          (let (now, cam) = gettimeofday e cam; en = poll_end now timeout
           in if tv_sec (i_time i) > tv_sec en then (None, cam)
              else if tv_sec (i_time i) = tv_sec en \<and> tv_usec (i_time i) > tv_usec en
              then (None, cam)
              else (Some (take bytes (i_data i)), cam\<lparr>first_interrupt := pre @ post\<rparr>)))"

section \<open>Facts\<close>

text \<open>The hand-written list walk is the library's ordered insertion.\<close>

lemma insert_interrupt_insort: "insert_interrupt i q = insort_key i_time i q"
  by (induction q) (auto simp: less_eq_timeval_def)

lemma due_iff: "due now i \<longleftrightarrow> i_time i \<le> now"
  by (simp add: due_def less_eq_timeval_def)

lemma not_due_iff: "(tv_sec t > tv_sec now \<or> (tv_sec t = tv_sec now \<and> tv_usec t > tv_usec now)) \<longleftrightarrow> now < t"
  by (auto simp: less_timeval_def)

lemma split_at_Nil: "split_at P xs = (a, []) \<Longrightarrow> a = xs \<and> (\<forall>x\<in>set xs. \<not> P x)"
  by (induction P xs arbitrary: a rule: split_at.induct) (auto split: if_splits prod.splits)

lemma split_at_Cons:
  "split_at P xs = (a, x # b) \<Longrightarrow> xs = a @ x # b \<and> P x \<and> (\<forall>y\<in>set a. \<not> P y)"
  by (induction P xs arbitrary: a rule: split_at.induct) (auto split: if_splits prod.splits)

lemma split_at_found: "x \<in> set xs \<Longrightarrow> P x \<Longrightarrow> \<exists>a y b. split_at P xs = (a, y # b)"
  by (induction P xs rule: split_at.induct) (auto split: prod.splits)

lemma split_at_dropWhile: "split_at P xs = (takeWhile (Not \<circ> P) xs, dropWhile (Not \<circ> P) xs)"
  by (induction xs) auto

text \<open>The queue invariant.\<close>

definition queue_ok :: "vcam \<Rightarrow> bool" where
  "queue_ok cam \<longleftrightarrow> sorted (map i_time (first_interrupt cam))"

lemma queue_ok_inject: "queue_ok cam \<Longrightarrow> queue_ok (ptp_inject_event_data e cam when cde d ch)"
  by (simp add: queue_ok_def ptp_inject_event_data_def gettimeofday_def insert_interrupt_insort
      sorted_insort_key)

lemma sorted_remove_middle: "sorted (map f (a @ x # b)) \<Longrightarrow> sorted (map f (a @ b))"
  by (simp add: sorted_append)

lemma inject_data_frame [simp]:
  "pipe_frame cam (ptp_inject_event_data e cam when cde d ch)"
  by (simp add: pipe_frame_def ptp_inject_event_data_def gettimeofday_def)

lemma inject_data_fields [simp]:
  "pipe_frame a (ptp_inject_event_data e cam when cde d ch) = pipe_frame a cam"
  "session (ptp_inject_event_data e cam when cde d ch) = session cam"
  "first_dirent (ptp_inject_event_data e cam when cde d ch) = first_dirent cam"
  "heap_next (ptp_inject_event_data e cam when cde d ch) = heap_next cam"
  "ptp_objectid (ptp_inject_event_data e cam when cde d ch) = ptp_objectid cam"
  "props (ptp_inject_event_data e cam when cde d ch) = props cam"
  "opcodes (ptp_inject_event_data e cam when cde d ch) = opcodes cam"
  "canon (ptp_inject_event_data e cam when cde d ch) = canon cam"
  "fuji (ptp_inject_event_data e cam when cde d ch) = fuji cam"
  "ticks (ptp_inject_event_data e cam when cde d ch) = Suc (ticks cam)"
  by (simp_all add: ptp_inject_event_data_def gettimeofday_def pipe_frame_def)

text \<open>Injecting touches the queue and the clock only.\<close>

lemma inject_channel_frame [simp]:
  "pipe_frame cam (ptp_inject_interrupt_channel e cam when cde n p t ch)"
  "inbulk (ptp_inject_interrupt_channel e cam when cde n p t ch) = inbulk cam"
  "outbulk (ptp_inject_interrupt_channel e cam when cde n p t ch) = outbulk cam"
  "seqnr (ptp_inject_interrupt_channel e cam when cde n p t ch) = seqnr cam"
  "session (ptp_inject_interrupt_channel e cam when cde n p t ch) = session cam"
  "first_dirent (ptp_inject_interrupt_channel e cam when cde n p t ch) = first_dirent cam"
  "heap_next (ptp_inject_interrupt_channel e cam when cde n p t ch) = heap_next cam"
  "ptp_objectid (ptp_inject_interrupt_channel e cam when cde n p t ch) = ptp_objectid cam"
  "props (ptp_inject_interrupt_channel e cam when cde n p t ch) = props cam"
  "opcodes (ptp_inject_interrupt_channel e cam when cde n p t ch) = opcodes cam"
  "nikon (ptp_inject_interrupt_channel e cam when cde n p t ch) = nikon cam"
  "sony (ptp_inject_interrupt_channel e cam when cde n p t ch) = sony cam"
  "canon (ptp_inject_interrupt_channel e cam when cde n p t ch) = canon cam"
  "fuji (ptp_inject_interrupt_channel e cam when cde n p t ch) = fuji cam"
  "ptpcmd (ptp_inject_interrupt_channel e cam when cde n p t ch) = ptpcmd cam"
  "lookup_virtual_object (ptp_inject_interrupt_channel e cam when cde n p t ch) = lookup_virtual_object cam"
  "next_cmd_kills_connection (ptp_inject_interrupt_channel e cam when cde n p t ch) = next_cmd_kills_connection cam"
  "model (ptp_inject_interrupt_channel e cam when cde n p t ch) = model cam"
  by (simp_all add: ptp_inject_interrupt_channel_def ptp_inject_event_data_def gettimeofday_def pipe_frame_def)

lemma inject_frame [simp]:
  "pipe_frame cam (ptp_inject_interrupt e cam when cde n p t)"
  "inbulk (ptp_inject_interrupt e cam when cde n p t) = inbulk cam"
  "outbulk (ptp_inject_interrupt e cam when cde n p t) = outbulk cam"
  "seqnr (ptp_inject_interrupt e cam when cde n p t) = seqnr cam"
  "session (ptp_inject_interrupt e cam when cde n p t) = session cam"
  "first_dirent (ptp_inject_interrupt e cam when cde n p t) = first_dirent cam"
  "heap_next (ptp_inject_interrupt e cam when cde n p t) = heap_next cam"
  "ptp_objectid (ptp_inject_interrupt e cam when cde n p t) = ptp_objectid cam"
  "props (ptp_inject_interrupt e cam when cde n p t) = props cam"
  "opcodes (ptp_inject_interrupt e cam when cde n p t) = opcodes cam"
  "nikon (ptp_inject_interrupt e cam when cde n p t) = nikon cam"
  "sony (ptp_inject_interrupt e cam when cde n p t) = sony cam"
  "canon (ptp_inject_interrupt e cam when cde n p t) = canon cam"
  "fuji (ptp_inject_interrupt e cam when cde n p t) = fuji cam"
  "ptpcmd (ptp_inject_interrupt e cam when cde n p t) = ptpcmd cam"
  "lookup_virtual_object (ptp_inject_interrupt e cam when cde n p t) = lookup_virtual_object cam"
  "next_cmd_kills_connection (ptp_inject_interrupt e cam when cde n p t) = next_cmd_kills_connection cam"
  "model (ptp_inject_interrupt e cam when cde n p t) = model cam"
  by (simp_all add: ptp_inject_interrupt_def)

lemma inject_pipe [simp]:
  "pipe_frame a (ptp_inject_interrupt_channel e cam when cde n p t ch) = pipe_frame a cam"
  "pipe_frame a (ptp_inject_interrupt e cam when cde n p t) = pipe_frame a cam"
  by (simp_all add: pipe_frame_def)

lemma pop_nikon_frame: "ptp_pop_nikon_event e cam = Inr (r, cam') \<Longrightarrow> pipe_frame cam cam'"
  by (auto simp: ptp_pop_nikon_event_def find_due_entry_def gettimeofday_def split: prod.splits list.splits)

lemma queue_ok_inject_interrupt [simp]:
  "queue_ok cam \<Longrightarrow> queue_ok (ptp_inject_interrupt e cam when cde n p t)"
  "queue_ok cam \<Longrightarrow> queue_ok (ptp_inject_interrupt_channel e cam when cde n p t ch)"
  by (simp_all add: ptp_inject_interrupt_def ptp_inject_interrupt_channel_def queue_ok_inject)

lemma read_event_inject:
  "read_event (put_32bit_le 0x10 @ put_16bit_le 4 @ put_16bit_le c @ put_32bit_le t @ put_32bit_le v)
   = Inr \<lparr>ev_size = 0x10, ev_x = 4, ev_code = c, ev_transaction = t, ev_value = v\<rparr>"
  using read_put_32 [of v "[]"] by (simp add: read_event_def)

end
