(* ===== verification/Dirents.thy ===== *)
theory Dirents
  imports Bulk
begin

text \<open>
  The object list of src/src/vcamera.c: scanning a directory tree into a list of cells with
  parent pointers, searching it, and reading files. The invariant of the list is that no parent
  pointer dangles: every object the initiator can name sits in a directory that is still there.
\<close>

section \<open>Cells and pointers\<close>

definition cell_at :: "ptp_dirent list \<Rightarrow> nat \<Rightarrow> ptp_dirent res" where
  "cell_at ds a = deref (find (\<lambda>d. d_addr d = a) ds)"

text \<open>\<open>cur->parent\<close> followed: only a pointer to a cell that is still allocated is valid.\<close>

definition parent_of :: "ptp_dirent list \<Rightarrow> ptp_dirent \<Rightarrow> ptp_dirent res" where
  "parent_of ds d = (case d_parent d of PAddr a \<Rightarrow> cell_at ds a | _ \<Rightarrow> Inl Undef)"

definition stbuf :: "ptp_dirent \<Rightarrow> stat res" where
  "stbuf d = deref (d_stbuf d)"

definition is_dir :: "ptp_dirent \<Rightarrow> bool" where
  "is_dir d \<longleftrightarrow> (\<exists>s. d_stbuf d = Some s \<and> st_isdir s)"

text \<open>The search every handler does: the first cell with the handle.\<close>

definition find_dirent :: "vcam \<Rightarrow> u32 \<Rightarrow> ptp_dirent option" where
  "find_dirent cam h = find (\<lambda>d. d_id d = h) (first_dirent cam)"

definition push_dirent :: "ptp_dirent \<Rightarrow> vcam \<Rightarrow> vcam" where
  "push_dirent d cam = cam\<lparr>first_dirent := d # first_dirent cam, heap_next := heap_next cam + 1\<rparr>"

section \<open>Scanning\<close>

text \<open>
  \<open>read_directories\<close>: the loop over \<open>readdir\<close>, which recurses into a directory right after
  putting its cell in front of the list. A failing \<open>stat\<close> leaves the cell's \<open>stbuf\<close>
  uninitialised and goes on with the next entry.
\<close>

fun read_directories :: "string \<Rightarrow> pptr \<Rightarrow> fsent list \<Rightarrow> vcam \<Rightarrow> vcam" where
  "read_directories path parent [] cam = cam"
| "read_directories path parent (FsEnt nm st sub # es) cam =
     (if nm = ''.'' then read_directories path parent es cam
      else if nm = ''..'' then read_directories path parent es cam
      else
        let a = heap_next cam; fsname = path @ CHR ''/'' # nm;
            cam = push_dirent \<lparr>d_addr = a, d_id = ptp_objectid cam, d_name = nm, d_fsname = fsname,
                    d_fsname_literal = False, d_stbuf = st, d_parent = parent\<rparr>
                  (cam\<lparr>ptp_objectid := ptp_objectid cam + 1\<rparr>)
        in read_directories path parent es
             (case st of
                None \<Rightarrow> cam
              | Some s \<Rightarrow>
                  (if st_isdir s then
                     (case sub of None \<Rightarrow> cam | Some ds \<Rightarrow> read_directories fsname (PAddr a) ds cam)
                   else cam)))"

text \<open>The condition under which a cell is taken for the DCIM directory, and the last such cell.\<close>

definition is_dcim :: "ptp_dirent list \<Rightarrow> ptp_dirent \<Rightarrow> bool res" where
  "is_dcim ds d =
     (if d_name d \<noteq> ''DCIM'' then Inr False
      else case d_parent d of
             PNull \<Rightarrow> Inr False
           | _ \<Rightarrow> bnd (parent_of ds d) (\<lambda>p. Inr (d_id p = 0)))"

fun last_match :: "('a \<Rightarrow> bool res) \<Rightarrow> 'a option \<Rightarrow> 'a list \<Rightarrow> 'a option res" where
  "last_match P acc [] = Inr acc"
| "last_match P acc (x # xs) = bnd (P x) (\<lambda>b. last_match P (if b then Some x else acc) xs)"

definition find_dcim :: "vcam \<Rightarrow> ptp_dirent option res" where
  "find_dcim cam = last_match (is_dcim (first_dirent cam)) None (first_dirent cam)"

definition read_tree :: "env \<Rightarrow> string \<Rightarrow> vcam \<Rightarrow> vcam res" where
  "read_tree e path cam =
     (let rootent = fs_tree e path; a = heap_next cam;
          cam = push_dirent \<lparr>d_addr = a, d_id = 0, d_name = '''', d_fsname = path,
                  d_fsname_literal = False, d_stbuf = fs_stat rootent, d_parent = PWild\<rparr>
                (cam\<lparr>ptp_objectid := 1, first_dirent := []\<rparr>);
          cam = (case fs_sub rootent of
                   None \<Rightarrow> cam | Some ds \<Rightarrow> read_directories path (PAddr a) ds cam)
      in bnd (find_dcim cam) (\<lambda>dcim.
           case dcim of
             Some _ \<Rightarrow> Inr cam
           | None \<Rightarrow> Inr (push_dirent \<lparr>d_addr = heap_next cam, d_id = ptp_objectid cam,
                        d_name = ''DCIM'', d_fsname = path, d_fsname_literal = False,
                        d_stbuf = fs_stat rootent, d_parent = PAddr a\<rparr>
                      (cam\<lparr>ptp_objectid := ptp_objectid cam + 1\<rparr>))))"

text \<open>The two identical counters.\<close>

fun count_objects :: "ptp_dirent list \<Rightarrow> nat" where
  "count_objects [] = 0"
| "count_objects (d # ds) = (if d_id d \<noteq> 0 then 1 else 0) + count_objects ds"

definition ptp_get_object_count :: "vcam \<Rightarrow> nat" where
  "ptp_get_object_count cam = count_objects (first_dirent cam)"

definition vcam_get_object_count :: "vcam \<Rightarrow> nat" where
  "vcam_get_object_count cam = count_objects (first_dirent cam)"

text \<open>
  \<open>read_file\<close>: one block of \<open>st_size\<close> bytes, or a null pointer when the file cannot be opened
  or does not hold a whole block. A zero-sized block is never read.
\<close>

definition read_file :: "env \<Rightarrow> ptp_dirent \<Rightarrow> byte list option res" where
  "read_file e cur =
     (case files e (d_fsname cur) of
        None \<Rightarrow> Inr None
      | Some content \<Rightarrow> bnd (stbuf cur) (\<lambda>st.
          if 0 < st_size st \<and> st_size st \<le> length content
          then Inr (Some (take (st_size st) content)) else Inr None))"

text \<open>\<open>free_dirent\<close>: the name of a directory the camera invented is a string literal.\<close>

definition free_dirent :: "ptp_dirent \<Rightarrow> unit res" where
  "free_dirent d = (if d_fsname_literal d then Inl Undef else Inr ())"

section \<open>The invariant\<close>

text \<open>Every cell but the root.\<close>

definition is_child :: "ptp_dirent \<Rightarrow> bool" where
  "is_child d \<longleftrightarrow> d_id d \<noteq> 0 \<or> d_name d = ''DCIM''"

definition parents_ok :: "ptp_dirent list \<Rightarrow> bool" where
  "parents_ok ds \<longleftrightarrow> (\<forall>d\<in>set ds. is_child d \<longrightarrow> (\<exists>p\<in>set ds. d_parent d = PAddr (d_addr p) \<and> is_dir p))"

definition addrs_ok :: "nat \<Rightarrow> ptp_dirent list \<Rightarrow> bool" where
  "addrs_ok n ds \<longleftrightarrow> distinct (map d_addr ds) \<and> (\<forall>d\<in>set ds. d_addr d < n)"

definition fs_ok :: "vcam \<Rightarrow> bool" where
  "fs_ok cam \<longleftrightarrow> addrs_ok (heap_next cam) (first_dirent cam) \<and> parents_ok (first_dirent cam)"

lemma cell_at_eq: "addrs_ok n ds \<Longrightarrow> p \<in> set ds \<Longrightarrow> cell_at ds (d_addr p) = Inr p"
  by (auto simp: addrs_ok_def cell_at_def distinct_map_find)

lemma parent_of_ok:
  assumes "addrs_ok n ds" "parents_ok ds" "d \<in> set ds" "is_child d"
  shows "\<exists>p\<in>set ds. parent_of ds d = Inr p \<and> is_dir p"
  using assms by (fastforce simp: parents_ok_def parent_of_def cell_at_eq)

lemma fs_ok_parent:
  "fs_ok cam \<Longrightarrow> d \<in> set (first_dirent cam) \<Longrightarrow> is_child d \<Longrightarrow>
   \<exists>p\<in>set (first_dirent cam). parent_of (first_dirent cam) d = Inr p \<and> is_dir p"
  unfolding fs_ok_def by (blast intro: parent_of_ok)

text \<open>A new cell whose parent is a directory of the list keeps the invariant.\<close>

lemma fs_ok_push:
  assumes "fs_ok cam" "d_addr d = heap_next cam"
    and "is_child d \<Longrightarrow> \<exists>p\<in>set (first_dirent cam). d_parent d = PAddr (d_addr p) \<and> is_dir p"
  shows "fs_ok (push_dirent d cam)"
  using assms
  by (auto simp: fs_ok_def push_dirent_def addrs_ok_def parents_ok_def; fastforce)

text \<open>Removing a cell that is no directory keeps it too.\<close>

lemma fs_ok_remove:
  assumes "fs_ok cam" "first_dirent cam = a @ d # b" "\<not> is_dir d"
  shows "fs_ok (cam\<lparr>first_dirent := a @ b\<rparr>)"
proof -
  have "parents_ok (a @ b)" unfolding parents_ok_def
  proof (intro ballI impI)
    fix x assume x: "x \<in> set (a @ b)" "is_child x"
    then have "x \<in> set (first_dirent cam)" using assms(2) by auto
    then obtain p where "p \<in> set (first_dirent cam)" "d_parent x = PAddr (d_addr p)" "is_dir p"
      using assms(1) x(2) by (auto simp: fs_ok_def parents_ok_def)
    moreover from this have "p \<noteq> d" using assms(3) by auto
    ultimately show "\<exists>p\<in>set (a @ b). d_parent x = PAddr (d_addr p) \<and> is_dir p"
      using assms(2) by auto
  qed
  moreover have "addrs_ok (heap_next cam) (a @ b)"
    using assms(1,2) by (auto simp: fs_ok_def addrs_ok_def)
  ultimately show ?thesis by (simp add: fs_ok_def)
qed

lemma last_match_total:
  "\<forall>x\<in>set xs. \<exists>b. P x = Inr b \<Longrightarrow> \<exists>r. last_match P acc xs = Inr r"
proof (induction xs arbitrary: acc)
  case Nil
  then show ?case by simp
next
  case (Cons x xs)
  then obtain b where "P x = Inr b" by auto
  moreover have "\<exists>r. last_match P (if b then Some x else acc) xs = Inr r"
    using Cons by auto
  ultimately show ?case by simp
qed

lemma last_match_in: "last_match P acc xs = Inr (Some x) \<Longrightarrow> acc = Some x \<or> (x \<in> set xs \<and> P x = Inr True)"
  by (induction xs arbitrary: acc) (fastforce split: if_splits)+

lemma last_match_None: "last_match P acc xs = Inr None \<Longrightarrow> acc = None \<and> (\<forall>x\<in>set xs. P x = Inr False)"
proof (induction xs arbitrary: acc)
  case Nil
  then show ?case by simp
next
  case (Cons x xs)
  from Cons.prems obtain b where b: "P x = Inr b" "last_match P (if b then Some x else acc) xs = Inr None"
    by auto
  with Cons.IH [OF b(2)] show ?case by (cases b) auto
qed

text \<open>A whole scan builds a list that satisfies the invariant, and only adds cells.\<close>

lemma push_dirent_simps [simp]:
  "first_dirent (push_dirent d cam) = d # first_dirent cam"
  "heap_next (push_dirent d cam) = heap_next cam + 1"
  "ptp_objectid (push_dirent d cam) = ptp_objectid cam"
  "inbulk (push_dirent d cam) = inbulk cam"
  "outbulk (push_dirent d cam) = outbulk cam"
  "seqnr (push_dirent d cam) = seqnr cam"
  "session (push_dirent d cam) = session cam"
  "first_interrupt (push_dirent d cam) = first_interrupt cam"
  by (simp_all add: push_dirent_def)

lemma fs_ok_objectid [simp]: "fs_ok (cam\<lparr>ptp_objectid := x\<rparr>) = fs_ok cam"
  by (simp add: fs_ok_def)

definition grows :: "vcam \<Rightarrow> vcam \<Rightarrow> bool" where
  "grows a b \<longleftrightarrow> fs_ok b \<and> set (first_dirent a) \<subseteq> set (first_dirent b)"

lemma grows_trans: "grows a b \<Longrightarrow> grows b c \<Longrightarrow> grows a c"
  by (auto simp: grows_def)

lemma read_directories_grows:
  assumes "fs_ok cam" "p \<in> set (first_dirent cam)" "is_dir p" "parent = PAddr (d_addr p)"
  shows "grows cam (read_directories path parent es cam)"
  using assms
proof (induction path parent es cam arbitrary: p rule: read_directories.induct)
  case (1 path parent cam)
  then show ?case by (simp add: grows_def)
next
  case (2 path parent nm st sub es cam)
  show ?case
  proof (cases "nm = ''.'' \<or> nm = ''..''")
    case True
    then show ?thesis using 2 by auto
  next
    case False
    define d where "d = \<lparr>d_addr = heap_next cam, d_id = ptp_objectid cam, d_name = nm,
      d_fsname = path @ CHR ''/'' # nm, d_fsname_literal = False, d_stbuf = st, d_parent = parent\<rparr>"
    define c1 where "c1 = push_dirent d (cam\<lparr>ptp_objectid := ptp_objectid cam + 1\<rparr>)"
    define c2 where "c2 = (case st of None \<Rightarrow> c1 | Some s \<Rightarrow> (if st_isdir s then
       (case sub of None \<Rightarrow> c1 | Some ds \<Rightarrow> read_directories (path @ CHR ''/'' # nm) (PAddr (heap_next cam)) ds c1)
       else c1))"
    have ok1: "fs_ok c1" unfolding c1_def
      using "2.prems" by (intro fs_ok_push) (auto simp: d_def)
    have "grows c1 c2"
    proof (cases "\<exists>s ds. st = Some s \<and> st_isdir s \<and> sub = Some ds")
      case True
      then obtain s ds where s: "st = Some s" "st_isdir s" "sub = Some ds" by blast
      have "grows c1 (read_directories (path @ CHR ''/'' # nm) (PAddr (heap_next cam)) ds c1)"
        by (rule "2.IH"(3) [of _ "path @ CHR ''/'' # nm" _ s ds d])
           (use False s ok1 in \<open>simp_all add: c1_def d_def is_dir_def\<close>)
      then show ?thesis using s by (simp add: c2_def)
    next
      case F: False
      then have "c2 = c1" by (auto simp: c2_def split: option.splits)
      then show ?thesis using ok1 by (simp add: grows_def)
    qed
    moreover have "grows cam c1" using ok1 by (auto simp: grows_def c1_def)
    ultimately have g: "grows cam c2" by (blast intro: grows_trans)
    then have "fs_ok c2" "p \<in> set (first_dirent c2)" using "2.prems"(2) by (auto simp: grows_def)
    moreover note "2.IH"(4) [OF _ _ refl refl refl, folded d_def, folded c1_def, folded c2_def]
    ultimately have "grows c2 (read_directories path parent es c2)"
      using False "2.prems"(3,4) by blast
    with g have "grows cam (read_directories path parent es c2)" by (rule grows_trans)
    then show ?thesis using False unfolding c2_def c1_def d_def by (simp add: Let_def)
  qed
qed

lemma fs_ok_single:
  "\<not> is_child d \<Longrightarrow> d_addr d = heap_next cam \<Longrightarrow>
   fs_ok (push_dirent d (cam\<lparr>ptp_objectid := k, first_dirent := []\<rparr>))"
  by (simp add: fs_ok_def addrs_ok_def parents_ok_def)

lemma is_dcim_total:
  assumes "fs_ok cam" "d \<in> set (first_dirent cam)"
  shows "\<exists>b. is_dcim (first_dirent cam) d = Inr b"
proof (cases "d_name d = ''DCIM''")
  case True
  then obtain p where "p \<in> set (first_dirent cam)" "parent_of (first_dirent cam) d = Inr p"
    using fs_ok_parent [OF assms] by (auto simp: is_child_def)
  then show ?thesis using True
    by (auto simp: is_dcim_def parent_of_def split: pptr.splits)
next
  case False
  then have "is_dcim (first_dirent cam) d = Inr False" by (simp add: is_dcim_def)
  then show ?thesis by blast
qed

lemma find_dcim_total: "fs_ok cam \<Longrightarrow> \<exists>r. find_dcim cam = Inr r"
  unfolding find_dcim_def by (intro last_match_total ballI is_dcim_total)

text \<open>On a directory, the scan always succeeds, and its result satisfies the invariant.\<close>

lemma read_tree_ok:
  assumes root: "fs_stat (fs_tree e path) = Some s" "st_isdir s"
  shows "\<exists>cam'. read_tree e path cam = Inr cam' \<and> fs_ok cam'"
proof -
  define r where "r = \<lparr>d_addr = heap_next cam, d_id = 0, d_name = '''', d_fsname = path,
    d_fsname_literal = False, d_stbuf = fs_stat (fs_tree e path), d_parent = PWild\<rparr>"
  define c1 where "c1 = push_dirent r (cam\<lparr>ptp_objectid := 1, first_dirent := []\<rparr>)"
  define c2 where "c2 = (case fs_sub (fs_tree e path) of None \<Rightarrow> c1
    | Some ds \<Rightarrow> read_directories path (PAddr (heap_next cam)) ds c1)"
  have "fs_ok c1" unfolding c1_def by (rule fs_ok_single) (simp_all add: r_def is_child_def)
  moreover have r1: "r \<in> set (first_dirent c1)" "is_dir r" "d_addr r = heap_next cam"
    using root by (simp_all add: c1_def r_def is_dir_def)
  ultimately have "grows c1 c2"
    using read_directories_grows [of c1 r] by (auto simp: c2_def grows_def split: option.splits)
  then have c2: "fs_ok c2" "r \<in> set (first_dirent c2)" using r1 by (auto simp: grows_def)
  then obtain q where q: "find_dcim c2 = Inr q" using find_dcim_total by blast
  define d where "d = \<lparr>d_addr = heap_next c2, d_id = ptp_objectid c2, d_name = ''DCIM'',
    d_fsname = path, d_fsname_literal = False, d_stbuf = fs_stat (fs_tree e path),
    d_parent = PAddr (heap_next cam)\<rparr>"
  have "fs_ok (push_dirent d (c2\<lparr>ptp_objectid := ptp_objectid c2 + 1\<rparr>))"
    using c2 r1 by (intro fs_ok_push) (auto simp: d_def intro!: bexI [of _ r])
  moreover have "read_tree e path cam = (case q of Some _ \<Rightarrow> Inr c2
      | None \<Rightarrow> Inr (push_dirent d (c2\<lparr>ptp_objectid := ptp_objectid c2 + 1\<rparr>)))"
    unfolding read_tree_def Let_def r_def [symmetric] c1_def [symmetric] c2_def [symmetric] q bnd_Inr
    by (cases q) (simp_all only: option.case d_def)
  ultimately show ?thesis using c2 by (cases q) auto
qed

end
