(* ===== verification/Exif_Date.thy ===== *)
theory Exif_Date
  imports Dirents
begin

text \<open>
  What the object handlers take from libexif (the static helpers at the top of
  src/src/ops.c), and the date strings of a dataset: \<open>gmtime\<close> and the \<open>sprintf\<close> of the C
  library.
\<close>

section \<open>EXIF metadata\<close>

abbreviation (input) "INT_MAX \<equiv> 2147483647 :: nat"

definition exif_get_int :: "env \<Rightarrow> exif_data \<Rightarrow> exif_tag \<Rightarrow> nat option" where
  "exif_get_int e ed tag =
     (case ed_entry ed tag of
        None \<Rightarrow> None
      | Some entry \<Rightarrow>
          (case ee_data entry of
             None \<Rightarrow> None
           | Some d \<Rightarrow>
               (let result =
                  (if ee_format entry = EXIF_FORMAT_SHORT \<and> ee_size entry \<ge> 2
                   then Some (unat (exif_get_short e d (ed_bigendian ed)))
                   else if ee_format entry = EXIF_FORMAT_LONG \<and> ee_size entry \<ge> 4
                   then Some (unat (exif_get_long e d (ed_bigendian ed)))
                   else None)
                in case result of None \<Rightarrow> None | Some r \<Rightarrow> if r > INT_MAX then None else Some r)))"

text \<open>The dimensions, starting from what the caller's variables held.\<close>

definition exif_get_dimensions :: "env \<Rightarrow> exif_data \<Rightarrow> nat \<times> nat \<Rightarrow> nat \<times> nat" where
  "exif_get_dimensions e ed wh =
     (case exif_get_int e ed EXIF_TAG_PIXEL_X_DIMENSION of Some w \<Rightarrow> w | None \<Rightarrow> fst wh,
      case exif_get_int e ed EXIF_TAG_PIXEL_Y_DIMENSION of Some h \<Rightarrow> h | None \<Rightarrow> snd wh)"

text \<open>
  The size of the thumbnail block, if the file has any, and with \<open>want\<close> (a caller that passes
  a place for it) a copy of its bytes.
\<close>

definition exif_thumbnail_size :: "exif_data \<Rightarrow> nat option" where
  "exif_thumbnail_size ed =
     (if ed_data ed = None \<or> ed_size ed = 0 \<or> ed_size ed > INT_MAX then None else Some (ed_size ed))"

definition exif_copy_thumbnail :: "bool \<Rightarrow> exif_data \<Rightarrow> (nat \<times> byte list) option res" where
  "exif_copy_thumbnail want ed =
     (case exif_thumbnail_size ed of
        None \<Rightarrow> Inr None
      | Some n \<Rightarrow>
          (if want then bnd (deref (ed_data ed)) (\<lambda>d. bnd (read_n n d) (\<lambda>t. Inr (Some (n, t))))
           else Inr (Some (n, []))))"

definition exif_read_object_metadata ::
    "env \<Rightarrow> ptp_dirent \<Rightarrow> bool \<Rightarrow> nat \<times> nat \<Rightarrow> ((nat \<times> byte list) option \<times> nat \<times> nat) res" where
  "exif_read_object_metadata e cur want wh =
     (case exif_data_new_from_file e (d_fsname cur) of
        None \<Rightarrow> Inr (None, wh)
      | Some ed \<Rightarrow> bnd (exif_copy_thumbnail want ed) (\<lambda>t. Inr (t, exif_get_dimensions e ed wh)))"

lemma exif_get_int_bound: "exif_get_int e ed tag = Some n \<Longrightarrow> n \<le> INT_MAX"
  by (auto simp: exif_get_int_def Let_def split: option.splits if_splits)

lemma exif_dimensions_bound:
  "exif_get_dimensions e ed (0, 0) = (w, h) \<Longrightarrow> w \<le> INT_MAX \<and> h \<le> INT_MAX"
  by (auto simp: exif_get_dimensions_def dest: exif_get_int_bound split: option.splits)

lemma exif_copy_thumbnail_size:
  "exif_copy_thumbnail want ed = Inr (Some (n, t)) \<Longrightarrow>
   0 < n \<and> n \<le> INT_MAX \<and> length t = (if want then n else 0)"
  by (auto simp: exif_copy_thumbnail_def exif_thumbnail_size_def min_def
      split: option.splits if_splits)

text \<open>What the handlers rely on: a thumbnail block of at least the size it declares.\<close>

definition exif_ok :: "env \<Rightarrow> bool" where
  "exif_ok e \<longleftrightarrow> (\<forall>f ed d. exif_data_new_from_file e f = Some ed \<longrightarrow> ed_data ed = Some d \<longrightarrow> ed_size ed \<le> length d)"

lemma exif_read_total: "exif_ok e \<Longrightarrow> \<exists>r. exif_read_object_metadata e cur want wh = Inr r"
  by (cases "exif_data_new_from_file e (d_fsname cur)")
     (auto simp: exif_read_object_metadata_def exif_copy_thumbnail_def exif_thumbnail_size_def
       exif_ok_def split: option.splits)

lemma exif_size_total: "\<exists>r. exif_read_object_metadata e cur False wh = Inr r"
  by (auto simp: exif_read_object_metadata_def exif_copy_thumbnail_def split: option.splits)

section \<open>Dates\<close>

record tm =
  tm_year :: int
  tm_mon :: int
  tm_mday :: int
  tm_hour :: int
  tm_min :: int
  tm_sec :: int

text \<open>
  \<open>gmtime\<close>: seconds since 1970 in UTC as a Gregorian date (here with the full year and the
  month from 1). Years start on 1 March in the computation, so that the leap day is the last
  day of a year.
\<close>

definition year_of_era :: "int \<Rightarrow> int" where
  "year_of_era doe = (doe - doe div 1460 + doe div 36524 - doe div 146096) div 365"

definition date_in_year :: "int \<Rightarrow> int \<Rightarrow> int \<times> int \<times> int" where
  "date_in_year y doy =
     (let mp = (5 * doy + 2) div 153; m = (if mp < 10 then mp + 3 else mp - 9)
      in (if m \<le> 2 then y + 1 else y, m, doy - (153 * mp + 2) div 5 + 1))"

definition date_in_era :: "int \<Rightarrow> int \<Rightarrow> int \<times> int \<times> int" where
  "date_in_era era doe =
     (let yoe = year_of_era doe
      in date_in_year (yoe + era * 400) (doe - (365 * yoe + yoe div 4 - yoe div 100)))"

definition civil_date :: "int \<Rightarrow> int \<times> int \<times> int" where
  "civil_date days = date_in_era ((days + 719468) div 146097) ((days + 719468) mod 146097)"

definition gmtime :: "int \<Rightarrow> tm" where
  "gmtime t =
     (case civil_date (t div 86400) of (y, m, d) \<Rightarrow>
        \<lparr>tm_year = y, tm_mon = m, tm_mday = d, tm_hour = t mod 86400 div 3600,
         tm_min = t mod 86400 mod 3600 div 60, tm_sec = t mod 86400 mod 60\<rparr>)"

text \<open>
  \<open>"%04d%02d%02dT%02d%02d%02d"\<close>. A year that does not fit the fields of \<open>struct tm\<close> makes
  \<open>gmtime\<close> return a null pointer.
\<close>

definition fmt_int :: "nat \<Rightarrow> int \<Rightarrow> string" where
  "fmt_int w i = (if i < 0 then CHR ''-'' # fmt_dec (w - 1) (nat (- i)) else fmt_dec w (nat i))"

definition xdate :: "int \<Rightarrow> string res" where
  "xdate t = (let tm = gmtime t
     in bnd (c_int (tm_year tm - 1900)) (\<lambda>_. bnd (c_int (tm_year tm)) (\<lambda>year.
        Inr (fmt_int 4 year @ fmt_int 2 (tm_mon tm) @ fmt_int 2 (tm_mday tm)
        @ ''T'' @ fmt_int 2 (tm_hour tm) @ fmt_int 2 (tm_min tm)
        @ fmt_int 2 (tm_sec tm)))))"

lemma gmtime_epoch:
  "gmtime 0 = \<lparr>tm_year = 1970, tm_mon = 1, tm_mday = 1, tm_hour = 0, tm_min = 0, tm_sec = 0\<rparr>"
  by code_simp

lemma gmtime_leap_day:
  "gmtime 951827696 = \<lparr>tm_year = 2000, tm_mon = 2, tm_mday = 29, tm_hour = 12, tm_min = 34, tm_sec = 56\<rparr>"
  by code_simp

lemma gmtime_year_end:
  "gmtime 1735689599 = \<lparr>tm_year = 2024, tm_mon = 12, tm_mday = 31, tm_hour = 23, tm_min = 59, tm_sec = 59\<rparr>"
  by code_simp

lemma xdate_example: "xdate 951827696 = Inr ''20000229T123456''"
  by (simp add: xdate_def gmtime_leap_day c_int_def) code_simp

lemma gmtime_time [simp]:
  "tm_hour (gmtime t) = t mod 86400 div 3600" "tm_min (gmtime t) = t mod 86400 mod 3600 div 60"
  "tm_sec (gmtime t) = t mod 86400 mod 60"
  by (simp_all add: gmtime_def split: prod.splits)

lemma gmtime_fields:
  "0 \<le> tm_hour (gmtime t) \<and> tm_hour (gmtime t) < 24 \<and> 0 \<le> tm_min (gmtime t) \<and> tm_min (gmtime t) < 60
     \<and> 0 \<le> tm_sec (gmtime t) \<and> tm_sec (gmtime t) < 60"
proof -
  have "t mod 86400 div 3600 \<le> 86399 div 3600" by (rule zdiv_mono1) (use pos_mod_bound [of 86400 t] in simp_all)
  moreover have "t mod 86400 mod 3600 div 60 \<le> 3599 div 60"
    by (rule zdiv_mono1) (use pos_mod_bound [of 3600 "t mod 86400"] in simp_all)
  ultimately show ?thesis by (simp add: pos_imp_zdiv_nonneg_iff)
qed

end
