(* ===== verification/Ops_Objects.thy ===== *)
theory Ops_Objects
  imports Events Exif_Date
begin

text \<open>
  The object handlers of src/src/ops.c: counting and listing, object information, whole and
  partial reads, thumbnails, capture and deletion. Their state is the list of directory entries
  and the event queue.
\<close>

section \<open>Counting and listing\<close>

text \<open>
  The checks in front of both query handlers, which are the same code twice: an early answer,
  or the mode to list with.
\<close>

definition objects_query :: "vcam \<Rightarrow> ptpcontainer \<Rightarrow> (vcam + u32) res" where
  "objects_query cam ptp =
     (if c_nparams ptp < 1 then Inr (Inl (ptp_response cam PTP_RC_InvalidParameter []))
      else bnd (param ptp 0) (\<lambda>p0.
        if p0 \<noteq> 0xffffffff \<and> p0 \<noteq> MAIN_STORAGE_ID
        then Inr (Inl (ptp_response cam PTP_RC_InvalidStorageId []))
        else bnd (if c_nparams ptp \<ge> 2 then param ptp 1 else Inr 0) (\<lambda>p1.
          if p1 \<noteq> 0 then Inr (Inl (ptp_response cam PTP_RC_SpecByFormatUnsupported []))
          else if c_nparams ptp \<ge> 3 then
            bnd (param ptp 2) (\<lambda>mode.
              if mode \<noteq> 0 \<and> mode \<noteq> 0xffffffff then
                (case find_dirent cam mode of
                   None \<Rightarrow> Inr (Inl (ptp_response cam PTP_RC_InvalidObjectHandle []))
                 | Some cur \<Rightarrow> bnd (stbuf cur) (\<lambda>st.
                     if \<not> st_isdir st
                     then Inr (Inl (ptp_response cam PTP_RC_InvalidParentObject []))
                     else Inr (Inr mode)))
              else Inr (Inr mode))
          else Inr (Inr 0))))"

text \<open>The cells the loops select, and the loops over them.\<close>

definition in_mode :: "ptp_dirent list \<Rightarrow> u32 \<Rightarrow> ptp_dirent \<Rightarrow> bool res" where
  "in_mode ds mode d =
     (if d_id d = 0 then Inr False
      else if mode = 0 then Inr True
      else bnd (parent_of ds d) (\<lambda>p. Inr (d_id p = (if mode = 0xffffffff then 0 else mode))))"

fun select_mode :: "ptp_dirent list \<Rightarrow> u32 \<Rightarrow> ptp_dirent list \<Rightarrow> u32 list res" where
  "select_mode all mode [] = Inr []"
| "select_mode all mode (d # ds) = bnd (in_mode all mode d) (\<lambda>b.
     bnd (select_mode all mode ds) (\<lambda>ids. Inr (if b then d_id d # ids else ids)))"

fun count_mode :: "ptp_dirent list \<Rightarrow> u32 \<Rightarrow> ptp_dirent list \<Rightarrow> nat res" where
  "count_mode all mode [] = Inr 0"
| "count_mode all mode (d # ds) = bnd (in_mode all mode d) (\<lambda>b.
     bnd (count_mode all mode ds) (\<lambda>n. Inr (if b then n + 1 else n)))"

definition ptp_getnumobjects_write :: "vcam \<Rightarrow> ptpcontainer \<Rightarrow> vcam res" where
  "ptp_getnumobjects_write cam ptp =
     guard (vcam_check_trans_id cam ptp) (\<lambda>cam.
     guard (vcam_check_session cam) (\<lambda>cam.
       bnd (objects_query cam ptp) (\<lambda>q. case q of
         Inl cam \<Rightarrow> Inr cam
       | Inr mode \<Rightarrow> bnd (count_mode (first_dirent cam) mode (first_dirent cam)) (\<lambda>cnt.
           Inr (ptp_response cam PTP_RC_OK [word_of_nat cnt])))))"

definition ptp_getobjecthandles_write :: "vcam \<Rightarrow> ptpcontainer \<Rightarrow> vcam res" where
  "ptp_getobjecthandles_write cam ptp =
     guard (vcam_check_trans_id cam ptp) (\<lambda>cam.
     guard (vcam_check_session cam) (\<lambda>cam.
       bnd (objects_query cam ptp) (\<lambda>q. case q of
         Inl cam \<Rightarrow> Inr cam
       | Inr mode \<Rightarrow>
           bnd (count_mode (first_dirent cam) mode (first_dirent cam)) (\<lambda>cnt.
           bnd (select_mode (first_dirent cam) mode (first_dirent cam)) (\<lambda>ids.
             Inr (ptp_response
               (ptp_senddata cam (cmd_code ptp)
                  (put_32bit_le (word_of_nat cnt) @ concat (map put_32bit_le ids)))
               PTP_RC_OK []))))))"

section \<open>Reading objects\<close>

abbreviation (input) "PTP_MAX_PARTIAL_OBJECT_CHUNK \<equiv> 16 * 1024 * 1024 :: nat"

definition partial_size :: "nat \<Rightarrow> nat \<Rightarrow> nat \<Rightarrow> nat" where
  "partial_size object_size start requested =
     (let requested = (if requested > PTP_MAX_PARTIAL_OBJECT_CHUNK
                       then PTP_MAX_PARTIAL_OBJECT_CHUNK else requested)
      in if start < object_size
         then (let remaining = object_size - start
               in if requested < remaining then requested else remaining)
         else 0)"

definition virtual_part :: "byte list \<Rightarrow> u32 \<Rightarrow> u32 \<Rightarrow> byte list" where
  "virtual_part vdata start requested =
     (let vsize = word_of_nat (length vdata) :: u32;
          requested = (if requested > 0x1000000 then 0x1000000 else requested);
          start = (if start > vsize then vsize else start);
          avail = vsize - start;
          tocopy = (if requested < avail then requested else avail)
      in take (unat tocopy) (drop (unat start) vdata))"

definition ptp_getpartialobject_write :: "hooks \<Rightarrow> env \<Rightarrow> vcam \<Rightarrow> ptpcontainer \<Rightarrow> vcam res" where
  "ptp_getpartialobject_write hk e cam ptp =
     guard (vcam_check_trans_id cam ptp) (\<lambda>cam.
     guard (vcam_check_session cam) (\<lambda>cam.
     guard (vcam_check_param_count cam ptp 3) (\<lambda>cam.
       bnd (param ptp 0) (\<lambda>p0. bnd (param ptp 1) (\<lambda>p1. bnd (param ptp 2) (\<lambda>p2.
         case find_dirent cam p0 of
           None \<Rightarrow>
             (case (case lookup_virtual_object cam of
                      None \<Rightarrow> None | Some f \<Rightarrow> lookup_fn hk f cam p0) of
                Some vdata \<Rightarrow>
                  (let part = virtual_part vdata p1 p2
                   in Inr (ptp_response (ptp_senddata cam (cmd_code ptp) part)
                        PTP_RC_OK [word_of_nat (length part)]))
              | None \<Rightarrow> Inr (ptp_response cam PTP_RC_InvalidObjectHandle []))
         | Some cur \<Rightarrow>
             (case files e (d_fsname cur) of
                None \<Rightarrow> Inr (ptp_response cam PTP_RC_GeneralError [])
              | Some content \<Rightarrow> bnd (stbuf cur) (\<lambda>st.
                  let size = partial_size (st_size st) (unat p1) (unat p2) in
                  if size \<noteq> 0 \<and> \<not> fseek_ok e (d_fsname cur) (unat p1)
                  then Inr (ptp_response cam PTP_RC_GeneralError [])
                  else
                    let buffer = take size (drop (unat p1) content)
                    in Inr (ptp_response (ptp_senddata cam (cmd_code ptp) buffer)
                         PTP_RC_OK [word_of_nat (length buffer)])))))))))"

text \<open>The length \<open>ptp_senddata\<close> takes is an \<open>int\<close>, to which it adds 12.\<close>

abbreviation (input) "SEND_MAX \<equiv> 2147483635 :: nat"

definition ptp_getobject_write :: "env \<Rightarrow> vcam \<Rightarrow> ptpcontainer \<Rightarrow> vcam res" where
  "ptp_getobject_write e cam ptp =
     guard (vcam_check_trans_id cam ptp) (\<lambda>cam.
     guard (vcam_check_session cam) (\<lambda>cam.
     guard (vcam_check_param_count cam ptp 1) (\<lambda>cam.
       bnd (param ptp 0) (\<lambda>p0.
         case find_dirent cam p0 of
           None \<Rightarrow> Inr (ptp_response cam PTP_RC_InvalidObjectHandle [])
         | Some cur \<Rightarrow> bnd (read_file e cur) (\<lambda>data. case data of
               None \<Rightarrow> Inr (ptp_response cam PTP_RC_GeneralError [])
             | Some d \<Rightarrow> bnd (fits SEND_MAX d) (\<lambda>d.
                 Inr (ptp_response (ptp_senddata cam (cmd_code ptp) d) PTP_RC_OK [])))))))"

definition ptp_getthumb_write :: "env \<Rightarrow> vcam \<Rightarrow> ptpcontainer \<Rightarrow> vcam res" where
  "ptp_getthumb_write e cam ptp =
     guard (vcam_check_trans_id cam ptp) (\<lambda>cam.
     guard (vcam_check_session cam) (\<lambda>cam.
     guard (vcam_check_param_count cam ptp 1) (\<lambda>cam.
       bnd (param ptp 0) (\<lambda>p0.
         case find_dirent cam p0 of
           None \<Rightarrow> Inr (ptp_response cam PTP_RC_InvalidObjectHandle [])
         | Some cur \<Rightarrow> bnd (exif_read_object_metadata e cur True (0, 0)) (\<lambda>(thumb, _). case thumb of
               None \<Rightarrow> Inr (ptp_response cam PTP_RC_NoThumbnailPresent [])
             | Some (_, d) \<Rightarrow> Inr (ptp_response (ptp_senddata cam (cmd_code ptp) d) PTP_RC_OK []))))))"

section \<open>Object information\<close>

text \<open>The chain of name tests; a later match overrides an earlier one.\<close>

definition name_has :: "string \<Rightarrow> string list \<Rightarrow> bool" where
  "name_has nm pats = (\<exists>p\<in>set pats. strstr nm p)"

definition file_format :: "string \<Rightarrow> u16" where
  "file_format nm =
     (let ofc = 0x3000;
          ofc = (if name_has nm [''.JPG'', ''.jpg''] then 0x3801 else ofc);
          ofc = (if name_has nm [''.GIF'', ''.gif''] then 0x3807 else ofc);
          ofc = (if name_has nm [''.PNG'', ''.png''] then 0x380B else ofc);
          ofc = (if name_has nm [''.DNG'', ''.dng''] then 0x3811 else ofc);
          ofc = (if name_has nm [''.TXT'', ''.txt''] then 0x3004 else ofc);
          ofc = (if name_has nm [''.HTML'', ''.html''] then 0x3005 else ofc);
          ofc = (if name_has nm [''.MP3'', ''.mp3''] then 0x3009 else ofc);
          ofc = (if name_has nm [''.AVI'', ''.avi''] then 0x300A else ofc);
          ofc = (if name_has nm [''.MPG'', ''.mpg'', ''.MPEG'', ''.mpeg''] then 0x300B else ofc);
          ofc = (if name_has nm [''.MOV'', ''.mov'', ''.MP4'', ''.mp4''] then PTP_OF_MOV else ofc)
      in if name_has nm [''.RAF'', ''.raf''] then PTP_OF_RAW else ofc)"

definition object_format :: "stat \<Rightarrow> string \<Rightarrow> u16" where
  "object_format st nm = (if st_isdir st then 0x3001 else file_format nm)"

text \<open>The parent handle: a null parent is the only one that is not followed.\<close>

definition parent_handle :: "ptp_dirent list \<Rightarrow> ptp_dirent \<Rightarrow> u32 res" where
  "parent_handle ds d = (case d_parent d of PNull \<Rightarrow> Inr 0xffffffff
     | _ \<Rightarrow> bnd (parent_of ds d) (\<lambda>p. Inr (d_id p)))"

text \<open>Size of the thumbnail block if there is one, and the image dimensions.\<close>

definition image_metadata :: "env \<Rightarrow> ptp_dirent \<Rightarrow> u16 \<Rightarrow> (nat option \<times> nat \<times> nat) res" where
  "image_metadata e cur ofc =
     (if ofc = PTP_OF_JPEG \<or> ofc = PTP_OF_RAW
      then bnd (exif_read_object_metadata e cur False (0, 0)) (\<lambda>(thumb, wh).
        Inr (map_option fst thumb, wh))
      else Inr (None, 0, 0))"

definition compressed_size :: "stat \<Rightarrow> u32" where
  "compressed_size st = (if st_size st > 0xffffffff then 0xffffffff else word_of_nat (st_size st))"

definition objectinfo_dataset :: "env \<Rightarrow> ptp_dirent list \<Rightarrow> ptp_dirent \<Rightarrow> byte list res" where
  "objectinfo_dataset e ds cur =
     bnd (stbuf cur) (\<lambda>st. let ofc = object_format st (d_name cur) in
     bnd (image_metadata e cur ofc) (\<lambda>(thumb, w, h).
     bnd (parent_handle ds cur) (\<lambda>par.
     bnd (add_string (d_name cur)) (\<lambda>nm.
     bnd (bnd (xdate (st_ctime st)) add_string) (\<lambda>ctime.
     bnd (bnd (xdate (st_mtime st)) add_string) (\<lambda>mtime.
     bnd (add_string (if h > w then ''Orientation: 8'' else ''Orientation: 1'')) (\<lambda>keyw.
       fits 2000
        (put_32bit_le MAIN_STORAGE_ID
         @ put_16bit_le ofc
         @ put_16bit_le 0
         @ put_32bit_le (compressed_size st)
         @ put_16bit_le (case thumb of Some _ \<Rightarrow> 0x3808 | None \<Rightarrow> 0)
         @ put_32bit_le (case thumb of Some n \<Rightarrow> word_of_nat n | None \<Rightarrow> 0)
         @ put_32bit_le 0
         @ put_32bit_le 0
         @ put_32bit_le (word_of_nat w)
         @ put_32bit_le (word_of_nat h)
         @ put_32bit_le 0
         @ put_32bit_le par
         @ put_16bit_le (if st_isdir st then 1 else 0)
         @ put_32bit_le 0
         @ put_32bit_le 0
         @ nm @ ctime @ mtime @ keyw))))))))"

definition fake_dirent :: "int \<Rightarrow> ptp_dirent" where
  "fake_dirent time1 = \<lparr>d_addr = 0, d_id = 0xdeadbeef, d_name = ''test.png'',
     d_fsname = ''bin/test.png'', d_fsname_literal = True,
     d_stbuf = Some \<lparr>st_isdir = False, st_size = 1234, st_mtime = time1, st_ctime = time1\<rparr>,
     d_parent = PNull\<rparr>"

definition ptp_getobjectinfo_write :: "env \<Rightarrow> vcam \<Rightarrow> ptpcontainer \<Rightarrow> vcam res" where
  "ptp_getobjectinfo_write e cam ptp =
     guard (vcam_check_trans_id cam ptp) (\<lambda>cam.
     guard (vcam_check_session cam) (\<lambda>cam.
     guard (vcam_check_param_count cam ptp 1) (\<lambda>cam.
       let (time1, cam) = time_now e cam in
       bnd (param ptp 0) (\<lambda>p0.
         case (if p0 = 0xdeadbeef then Some (fake_dirent time1) else find_dirent cam p0) of
           None \<Rightarrow> Inr (ptp_response cam PTP_RC_InvalidObjectHandle [])
         | Some cur \<Rightarrow> bnd (objectinfo_dataset e (first_dirent cam) cur) (\<lambda>data.
             Inr (ptp_response (ptp_senddata cam (cmd_code ptp) data) PTP_RC_OK []))))))"

section \<open>Capture and deletion\<close>

definition gphot_name :: "nat \<Rightarrow> string" where
  "gphot_name capcnt = fmt_dec 3 (100 + ((capcnt div 100) mod 900)) @ ''GPHOT''"

text \<open>The address \<open>dcim\<close> holds; a null \<open>dcim\<close> equals a null parent.\<close>

definition same_parent :: "ptp_dirent option \<Rightarrow> ptp_dirent \<Rightarrow> bool res" where
  "same_parent dcim d = (case d_parent d of
     PWild \<Rightarrow> Inl Undef
   | PNull \<Rightarrow> Inr (dcim = None)
   | PAddr a \<Rightarrow> Inr (case dcim of None \<Rightarrow> False | Some c \<Rightarrow> a = d_addr c))"

fun first_match :: "('a \<Rightarrow> bool res) \<Rightarrow> 'a list \<Rightarrow> 'a option res" where
  "first_match P [] = Inr None"
| "first_match P (x # xs) = bnd (P x) (\<lambda>b. if b then Inr (Some x) else first_match P xs)"

definition find_gphot :: "vcam \<Rightarrow> ptp_dirent option \<Rightarrow> string \<Rightarrow> ptp_dirent option res" where
  "find_gphot cam dcim buf =
     first_match (\<lambda>d. if d_name d = buf then same_parent dcim d else Inr False) (first_dirent cam)"

text \<open>
  Creating a virtual directory below the DCIM cell: its file name is a string literal. The
  Nikon capture does the same, without the event.
\<close>

definition push_virtual_dir :: "string \<Rightarrow> ptp_dirent \<Rightarrow> vcam \<Rightarrow> ptp_dirent \<times> vcam" where
  "push_virtual_dir nm dcim cam =
     (let cam = cam\<lparr>ptp_objectid := ptp_objectid cam + 1\<rparr>;
          dir = \<lparr>d_addr = heap_next cam, d_id = ptp_objectid cam, d_name = nm,
            d_fsname = ''virtual'', d_fsname_literal = True, d_stbuf = d_stbuf dcim,
            d_parent = PAddr (d_addr dcim)\<rparr>
      in (dir, push_dirent dir cam))"

text \<open>A captured picture: a copy of the file \<open>cur\<close> in directory \<open>dir\<close>.\<close>

definition push_capture :: "string \<Rightarrow> ptp_dirent \<Rightarrow> ptp_dirent \<Rightarrow> vcam \<Rightarrow> vcam" where
  "push_capture nm cur dir cam =
     (let cam = cam\<lparr>ptp_objectid := ptp_objectid cam + 1\<rparr>
      in push_dirent \<lparr>d_addr = heap_next cam, d_id = ptp_objectid cam, d_name = nm,
           d_fsname = d_fsname cur, d_fsname_literal = False, d_stbuf = d_stbuf cur,
           d_parent = PAddr (d_addr dir)\<rparr> cam)"

definition make_gphot :: "env \<Rightarrow> vcam \<Rightarrow> ptp_dirent option \<Rightarrow> string \<Rightarrow> (ptp_dirent \<times> vcam) res" where
  "make_gphot e cam dcim buf =
     bnd (deref dcim) (\<lambda>c.
       let (dir, cam) = push_virtual_dir buf c cam
       in Inr (dir, ptp_inject_interrupt e cam 80 0x4002 1 (ptp_objectid cam) (seqnr cam)))"

definition is_jpg :: "ptp_dirent \<Rightarrow> bool" where
  "is_jpg d \<longleftrightarrow> strstr (d_name d) ''.jpg'' \<or> strstr (d_name d) ''.JPG''"

text \<open>
  \<open>capcnt\<close> is a local variable that starts at 98 in every call, so the tests for a full store
  never succeed; they are kept because the code has them.
\<close>

definition capture_picture :: "env \<Rightarrow> nat \<Rightarrow> ptp_dirent \<Rightarrow> ptp_dirent \<Rightarrow> vcam \<Rightarrow> vcam" where
  "capture_picture e capcnt cur dir cam =
     (let cam = push_capture (''GPH_'' @ fmt_dec 4 (capcnt + 1) @ ''.JPG'') cur dir cam;
          cam = ptp_inject_interrupt e cam 100 0x4002 1 (ptp_objectid cam) (seqnr cam);
          cam = ptp_inject_interrupt e cam 120 0x400d 0 0 (seqnr cam)
      in ptp_response cam PTP_RC_OK [])"

definition capture_objects :: "env \<Rightarrow> vcam \<Rightarrow> nat \<Rightarrow> ptp_dirent \<Rightarrow> vcam res" where
  "capture_objects e cam capcnt cur =
     bnd (find_dcim cam) (\<lambda>dcim.
     bnd (find_gphot cam dcim (gphot_name capcnt)) (\<lambda>found.
     bnd (case found of Some dir \<Rightarrow> Inr (dir, cam)
          | None \<Rightarrow> make_gphot e cam dcim (gphot_name capcnt)) (\<lambda>(dir, cam).
       if capcnt = 150 then
         let cam = ptp_inject_interrupt e cam 100 0x400A 1 (ptp_objectid cam) (seqnr cam)
         in Inr (ptp_response cam PTP_RC_OK [])
       else Inr (capture_picture e capcnt cur dir cam))))"

definition ptp_initiatecapture_write :: "env \<Rightarrow> vcam \<Rightarrow> ptpcontainer \<Rightarrow> vcam res" where
  "ptp_initiatecapture_write e cam ptp =
     (let capcnt = 98 in
     guard (vcam_check_trans_id cam ptp) (\<lambda>cam.
     guard (vcam_check_session cam) (\<lambda>cam.
     guard (vcam_check_param_count cam ptp 2) (\<lambda>cam.
       bnd (param ptp 0) (\<lambda>p0. bnd (param ptp 1) (\<lambda>p1.
         if p0 \<noteq> 0 \<and> p0 \<noteq> MAIN_STORAGE_ID
         then Inr (ptp_response cam PTP_RC_StoreNotAvailable [])
         else if p1 \<noteq> 0 \<and> p1 \<noteq> 0x3801
         then Inr (ptp_response cam PTP_RC_InvalidObjectFormatCode [])
         else if capcnt > 150 then Inr (ptp_response cam PTP_RC_StoreFull [])
         else (case find is_jpg (first_dirent cam) of
             None \<Rightarrow> Inr (ptp_response cam PTP_RC_StoreNotAvailable [])
           | Some cur \<Rightarrow> capture_objects e cam capcnt cur)))))))"

text \<open>Freeing every cell in order, and unlinking one.\<close>

fun free_dirents :: "ptp_dirent list \<Rightarrow> unit res" where
  "free_dirents [] = Inr ()"
| "free_dirents (d # ds) = bnd (free_dirent d) (\<lambda>_. free_dirents ds)"

definition delete_one :: "vcam \<Rightarrow> u32 \<Rightarrow> vcam res" where
  "delete_one cam h =
     (case split_at (\<lambda>d. d_id d = h) (first_dirent cam) of
        (_, []) \<Rightarrow> Inr (ptp_response cam PTP_RC_InvalidObjectHandle [])
      | (pre, cur # post) \<Rightarrow> bnd (stbuf cur) (\<lambda>st.
          if st_isdir st then Inr (ptp_response cam PTP_RC_ObjectWriteProtected [])
          else bnd (free_dirent cur) (\<lambda>_.
            Inr (ptp_response (cam\<lparr>first_dirent := pre @ post\<rparr>) PTP_RC_OK []))))"

definition ptp_deleteobject_write :: "vcam \<Rightarrow> ptpcontainer \<Rightarrow> vcam res" where
  "ptp_deleteobject_write cam ptp =
     guard (vcam_check_trans_id cam ptp) (\<lambda>cam.
     guard (vcam_check_session cam) (\<lambda>cam.
       if c_nparams ptp < 1 then Inr (ptp_response cam PTP_RC_InvalidParameter [])
       else bnd (param ptp 0) (\<lambda>p0.
         if p0 = 0xffffffff then
           bnd (free_dirents (first_dirent cam)) (\<lambda>_.
             Inr (ptp_response (cam\<lparr>first_dirent := []\<rparr>) PTP_RC_OK []))
         else bnd (if c_nparams ptp = 2 then param ptp 1 else Inr 0) (\<lambda>p1.
           if p1 \<noteq> 0 then Inr (ptp_response cam PTP_RC_InvalidParameter [])
           else delete_one cam p0))))"

section \<open>Every object handler answers\<close>

lemma objects_query_stop: "objects_query cam ptp = Inr (Inl cam') \<Longrightarrow> answers cam cam'"
  by (auto simp: objects_query_def split: if_splits option.splits)

lemma query_cases:
  assumes "(if session cam = 0 then Inr (ptp_response cam PTP_RC_SessionNotOpen [])
     else bnd (objects_query cam ptp) (\<lambda>q. case q of Inl c \<Rightarrow> Inr c | Inr mode \<Rightarrow> f mode)) = Inr cam'"
  obtains "answers cam cam'" | mode where "objects_query cam ptp = Inr (Inr mode)" "f mode = Inr cam'"
proof (cases "session cam = 0")
  case True
  with assms that(1) show ?thesis by auto
next
  case False
  with assms obtain q where "objects_query cam ptp = Inr q"
    "(case q of Inl c \<Rightarrow> Inr c | Inr mode \<Rightarrow> f mode) = Inr cam'" by auto
  with that show ?thesis by (cases q) (auto simp: objects_query_stop)
qed

lemma getnumobjects_answers: "ptp_getnumobjects_write cam ptp = Inr cam' \<Longrightarrow> answers cam cam'"
  unfolding ptp_getnumobjects_write_def guard_trans_id guard_session
  by (elim query_cases) auto

lemma getobjecthandles_answers: "ptp_getobjecthandles_write cam ptp = Inr cam' \<Longrightarrow> answers cam cam'"
  unfolding ptp_getobjecthandles_write_def guard_trans_id guard_session
  by (elim query_cases) auto

lemma getpartialobject_answers: "ptp_getpartialobject_write hk e cam ptp = Inr cam' \<Longrightarrow> answers cam cam'"
  by (auto simp: ptp_getpartialobject_write_def handler_defs Let_def split: if_splits option.splits)

lemma getobject_answers: "ptp_getobject_write e cam ptp = Inr cam' \<Longrightarrow> answers cam cam'"
  by (auto simp: ptp_getobject_write_def handler_defs split: if_splits option.splits)

lemma getthumb_answers: "ptp_getthumb_write e cam ptp = Inr cam' \<Longrightarrow> answers cam cam'"
  by (auto simp: ptp_getthumb_write_def handler_defs split: if_splits option.splits)

lemma getobjectinfo_answers: "ptp_getobjectinfo_write e cam ptp = Inr cam' \<Longrightarrow> answers cam cam'"
  by (auto simp: ptp_getobjectinfo_write_def handler_defs time_now_def Let_def
      split: if_split_asm option.split_asm)

lemma push_frames [simp]:
  "pipe_frame a (push_dirent d cam) = pipe_frame a cam"
  "pipe_frame a (push_capture nm cur dir cam) = pipe_frame a cam"
  "pipe_frame a (snd (push_virtual_dir nm c cam)) = pipe_frame a cam"
  by (simp_all add: push_dirent_def push_capture_def push_virtual_dir_def Let_def pipe_frame_def)

lemma make_gphot_frame: "make_gphot e cam dcim buf = Inr (dir, cam') \<Longrightarrow> pipe_frame cam cam'"
  by (auto simp: make_gphot_def push_virtual_dir_def Let_def pipe_frame_def)

lemma capture_objects_answers: "capture_objects e cam n cur = Inr cam' \<Longrightarrow> answers cam cam'"
  by (auto simp: capture_objects_def capture_picture_def push_capture_def Let_def pipe_frame_def dest!: make_gphot_frame
      split: if_splits option.splits)

lemma initiatecapture_answers: "ptp_initiatecapture_write e cam ptp = Inr cam' \<Longrightarrow> answers cam cam'"
  by (auto simp: ptp_initiatecapture_write_def handler_defs capture_objects_answers
      split: if_splits option.splits)

lemma delete_one_cases:
  assumes "delete_one cam h = Inr cam'"
  obtains "\<forall>d\<in>set (first_dirent cam). d_id d \<noteq> h" "cam' = ptp_response cam PTP_RC_InvalidObjectHandle []"
  | d where "find_dirent cam h = Some d" "is_dir d" "cam' = ptp_response cam PTP_RC_ObjectWriteProtected []"
  | pre d post where "first_dirent cam = pre @ d # post" "d_id d = h" "\<forall>x\<in>set pre. d_id x \<noteq> h"
      "\<not> is_dir d" "\<not> d_fsname_literal d" "cam' = ptp_response (cam\<lparr>first_dirent := pre @ post\<rparr>) PTP_RC_OK []"
proof (cases "split_at (\<lambda>d. d_id d = h) (first_dirent cam)")
  case (Pair pre rest)
  show ?thesis
  proof (cases rest)
    case Nil
    then show ?thesis using Pair assms that(1) split_at_Nil [of _ "first_dirent cam" pre]
      by (auto simp: delete_one_def)
  next
    case (Cons d post)
    then have s: "first_dirent cam = pre @ d # post" "d_id d = h" "\<forall>x\<in>set pre. d_id x \<noteq> h"
      using Pair split_at_Cons by fastforce+
    then have f: "find_dirent cam h = Some d" by (simp add: find_dirent_def find_append_hit)
    obtain st where st: "d_stbuf d = Some st"
      using assms Pair Cons by (auto simp: delete_one_def stbuf_def)
    show ?thesis
    proof (cases "st_isdir st")
      case True
      then show ?thesis using assms Pair Cons st that(2) [OF f] by (simp add: delete_one_def stbuf_def is_dir_def)
    next
      case False
      then show ?thesis using assms Pair Cons st that(3) [OF s]
        by (auto simp: delete_one_def stbuf_def is_dir_def free_dirent_def split: if_split_asm)
    qed
  qed
qed

lemma delete_one_answers: "delete_one cam h = Inr cam' \<Longrightarrow> answers cam cam'"
  by (erule delete_one_cases) auto

lemma deleteobject_answers: "ptp_deleteobject_write cam ptp = Inr cam' \<Longrightarrow> answers cam cam'"
  by (auto simp: ptp_deleteobject_write_def handler_defs delete_one_answers split: if_split_asm)

end
