(* ===== verification/Ops_Session.thy ===== *)
theory Ops_Session
  imports Bulk
begin

text \<open>
  The handlers of src/src/ops.c that answer from the camera's own state: session control,
  device and storage information, and the MTP object-property list.

  A handler gets the camera and the command and returns the camera after it. The integer the C
  function returns is ignored by its callers. A dataset is built in a buffer of fixed size; one
  that does not fit is \<open>Undef\<close>.
\<close>

section \<open>Session control\<close>

definition ptp_nikon_setcontrolmode_write :: "vcam \<Rightarrow> ptpcontainer \<Rightarrow> vcam res" where
  "ptp_nikon_setcontrolmode_write cam ptp =
     guard (vcam_check_param_count cam ptp 1) (\<lambda>cam.
       bnd (param ptp 0) (\<lambda>p0.
         if p0 \<noteq> 0 \<and> p0 \<noteq> 1 then Inr (ptp_response cam PTP_RC_InvalidParameter [])
         else Inr (ptp_response cam PTP_RC_OK [])))"

definition ptp_opensession_write :: "vcam \<Rightarrow> ptpcontainer \<Rightarrow> vcam res" where
  "ptp_opensession_write cam ptp =
     guard (vcam_check_param_count cam ptp 1) (\<lambda>cam.
       bnd (param ptp 0) (\<lambda>p0.
         if p0 = 0 then Inr (ptp_response cam PTP_RC_InvalidParameter [])
         else
           let cam = cam\<lparr>seqnr := c_seqnr ptp\<rparr> in
           if session cam \<noteq> 0 then Inr (ptp_response cam PTP_RC_SessionAlreadyOpened [])
           else Inr (ptp_response (cam\<lparr>session := p0\<rparr>) PTP_RC_OK [])))"

definition ptp_closesession_write :: "vcam \<Rightarrow> ptpcontainer \<Rightarrow> vcam res" where
  "ptp_closesession_write cam ptp =
     guard (vcam_check_param_count cam ptp 0) (\<lambda>cam.
     guard (vcam_check_trans_id cam ptp) (\<lambda>cam.
       if session cam = 0 then Inr (ptp_response cam PTP_RC_SessionAlreadyOpened [])
       else
         let cam = cam\<lparr>session := 0\<rparr>;
             cam = ptp_response cam PTP_RC_OK []
         in Inr (cam\<lparr>seqnr := 1\<rparr>)))"

section \<open>Device information\<close>

definition default_events :: "u16 list" where
  "default_events = [0x4002, 0x4003, 0x4006, 0x400a, 0x400d]"

definition default_formats :: "u16 list" where
  "default_formats = [0x3801]"

definition or_default :: "'a option \<Rightarrow> 'a \<Rightarrow> 'a" where
  "or_default x d = (case x of Some y \<Rightarrow> y | None \<Rightarrow> d)"

definition deviceinfo_dataset :: "vcam \<Rightarrow> byte list res" where
  "deviceinfo_dataset cam =
     bnd (add_string (extension cam)) (\<lambda>ext.
     bnd (add_string (manufac cam)) (\<lambda>man.
     bnd (add_string (model cam)) (\<lambda>mdl.
     bnd (add_string (version cam)) (\<lambda>ver.
     bnd (add_string (serial cam)) (\<lambda>ser.
       fits 2000
        (put_16bit_le 0x64
         @ put_32bit_le (if vendor_extension_id cam \<noteq> 0 then vendor_extension_id cam else PTP_VENDOR_MICROSOFT)
         @ put_16bit_le (if vendor_extension_version cam \<noteq> 0 then vendor_extension_version cam else 0x64)
         @ ext
         @ put_16bit_le 0
         @ put_16bit_le_array (map (\<lambda>h. word_of_int (op_code h)) (opcodes cam))
         @ put_16bit_le_array (or_default (ev_list cam) default_events)
         @ put_16bit_le_array (or_default (deviceprops cam)
             (map (\<lambda>p. word_of_int (pr_code p)) (props cam)))
         @ put_16bit_le_array (or_default (capture_formats cam) default_formats)
         @ put_16bit_le_array (or_default (image_formats cam) default_formats)
         @ man @ mdl @ ver @ ser))))))"

definition ptp_deviceinfo_write :: "vcam \<Rightarrow> ptpcontainer \<Rightarrow> vcam res" where
  "ptp_deviceinfo_write cam ptp =
     guard (vcam_check_param_count cam ptp 0) (\<lambda>cam.
       bnd (deviceinfo_dataset cam) (\<lambda>data.
         Inr (ptp_response (ptp_senddata cam 0x1001 data) PTP_RC_OK [])))"

section \<open>Storage information\<close>

definition ptp_getstorageids_write :: "vcam \<Rightarrow> ptpcontainer \<Rightarrow> vcam res" where
  "ptp_getstorageids_write cam ptp =
     guard (vcam_check_trans_id cam ptp) (\<lambda>cam.
     guard (vcam_check_session cam) (\<lambda>cam.
     guard (vcam_check_param_count cam ptp 0) (\<lambda>cam.
       Inr (ptp_response
         (ptp_senddata cam (cmd_code ptp) (put_32bit_le_array [MAIN_STORAGE_ID])) PTP_RC_OK []))))"

definition ptp_getstorageinfo_write :: "vcam \<Rightarrow> ptpcontainer \<Rightarrow> vcam res" where
  "ptp_getstorageinfo_write cam ptp =
     guard (vcam_check_trans_id cam ptp) (\<lambda>cam.
     guard (vcam_check_session cam) (\<lambda>cam.
     guard (vcam_check_param_count cam ptp 1) (\<lambda>cam.
       bnd (param ptp 0) (\<lambda>p0.
         if p0 \<noteq> MAIN_STORAGE_ID then Inr (ptp_response cam PTP_RC_InvalidStorageId [])
         else
           bnd (add_string ''Fake Storage'') (\<lambda>desc.
           bnd (add_string ''Fake Label'') (\<lambda>lab.
           bnd (fits 200 (put_16bit_le 3 @ put_16bit_le 3 @ put_16bit_le 2
              @ put_64bit_le 0x42424242 @ put_64bit_le 0x21212121 @ put_32bit_le 150 @ desc @ lab))
             (\<lambda>data. Inr (ptp_response (ptp_senddata cam 0x1005 data) PTP_RC_OK []))))))))"

section \<open>The MTP list of supported object properties\<close>

text \<open>The loop stores \<open>list[0]\<close> in every round.\<close>

fun write_u16s :: "nat \<Rightarrow> u16 list \<Rightarrow> byte list" where
  "write_u16s 0 lst = []"
| "write_u16s (Suc n) lst = ptp_write_u16 (lst ! 0) @ write_u16s n lst"

definition ptp_write_uint16_array :: "u16 list \<Rightarrow> nat \<Rightarrow> byte list" where
  "ptp_write_uint16_array lst memb_n = ptp_write_u32 (word_of_nat memb_n) @ write_u16s memb_n lst"

definition ptp_mtp_obj_props_supported_write :: "vcam \<Rightarrow> ptpcontainer \<Rightarrow> vcam res" where
  "ptp_mtp_obj_props_supported_write cam ptp =
     guard (vcam_check_trans_id cam ptp) (\<lambda>cam.
     guard (vcam_check_session cam) (\<lambda>cam.
     guard (vcam_check_param_count cam ptp 1) (\<lambda>cam.
       bnd (param ptp 0) (\<lambda>p0.
         if p0 = ucast PTP_OF_Association then
           Inr (ptp_response (ptp_senddata cam (cmd_code ptp)
             (ptp_write_uint16_array [0xdc01, 0xdc02, 0xdc03, 0xdc04, 0xdc07, 0xdc0b, 0xdc41, 0xdc44,
                0xdc08, 0xdc09] 10)) PTP_RC_OK [])
         else if p0 = ucast PTP_OF_JPEG \<or> p0 = ucast PTP_OF_IMAGE \<or> p0 = ucast PTP_OF_RAW then
           Inr (ptp_response (ptp_senddata cam (cmd_code ptp)
             (ptp_write_uint16_array [0xdc01, 0xdc02, 0xdc03, 0xdc04, 0xdc07, 0xdc08, 0xdc0b, 0xdc41,
                0xdc44, 0xdc87, 0xdc88, 0xdcd3] 10)) PTP_RC_OK [])
         else Inr (ptp_response cam PTP_RC_InvalidObjectFormatCode [])))))"

section \<open>Every handler answers\<close>

lemma setcontrolmode_answers: "ptp_nikon_setcontrolmode_write cam ptp = Inr cam' \<Longrightarrow> answers cam cam'"
  by (auto simp: ptp_nikon_setcontrolmode_write_def handler_defs split: if_splits)

lemma opensession_answers:
  assumes "ptp_opensession_write cam ptp = Inr cam'"
  shows "answers cam cam'"
proof -
  let ?c = "cam\<lparr>seqnr := c_seqnr ptp\<rparr>"
  have "answers ?c cam' \<or> answers cam cam'"
    using assms by (auto simp: ptp_opensession_write_def handler_defs pipe_frame_def Let_def split: if_splits)
  then show ?thesis using answers_seqnr_before by blast
qed

lemma closesession_answers: "ptp_closesession_write cam ptp = Inr cam' \<Longrightarrow> answers cam cam'"
  by (auto simp: ptp_closesession_write_def handler_defs Let_def split: if_splits
      intro: answers_seqnr_after)

lemma deviceinfo_answers: "ptp_deviceinfo_write cam ptp = Inr cam' \<Longrightarrow> answers cam cam'"
  by (auto simp: ptp_deviceinfo_write_def handler_defs split: if_splits)

lemma getstorageids_answers: "ptp_getstorageids_write cam ptp = Inr cam' \<Longrightarrow> answers cam cam'"
  by (auto simp: ptp_getstorageids_write_def handler_defs split: if_splits)

lemma getstorageinfo_answers: "ptp_getstorageinfo_write cam ptp = Inr cam' \<Longrightarrow> answers cam cam'"
  by (auto simp: ptp_getstorageinfo_write_def handler_defs split: if_splits)

lemma mtp_obj_props_answers: "ptp_mtp_obj_props_supported_write cam ptp = Inr cam' \<Longrightarrow> answers cam cam'"
  by (auto simp: ptp_mtp_obj_props_supported_write_def handler_defs split: if_splits)

end
