(* ===== verification/Props.thy ===== *)
theory Props
  imports Bulk
begin

text \<open>
  The two registries of a camera, operations and device properties: the registration and access
  functions of src/src/vcamera.c and the standard properties of src/src/props.c.
\<close>

section \<open>Registries\<close>

text \<open>
  Both registration functions scan their table for the code, overwrite the first entry that has
  it, and otherwise append a new one.
\<close>

fun upsert :: "('e \<Rightarrow> int) \<Rightarrow> 'e \<Rightarrow> 'e list \<Rightarrow> 'e list" where
  "upsert key x [] = [x]"
| "upsert key x (y # ys) = (if key y = key x then x # ys else y # upsert key x ys)"

definition lookup_key :: "('e \<Rightarrow> int) \<Rightarrow> int \<Rightarrow> 'e list \<Rightarrow> 'e option" where
  "lookup_key key c xs = find (\<lambda>x. key x = c) xs"

lemma upsert_keys:
  "map key (upsert key x xs) = (if key x \<in> key ` set xs then map key xs else map key xs @ [key x])"
  by (induction xs) auto

lemma upsert_distinct: "distinct (map key xs) \<Longrightarrow> distinct (map key (upsert key x xs))"
  by (simp add: upsert_keys)

lemma lookup_key_append:
  "lookup_key key c (xs @ ys)
     = (case lookup_key key c xs of Some x \<Rightarrow> Some x | None \<Rightarrow> lookup_key key c ys)"
  by (induction xs) (simp_all add: lookup_key_def)

lemma lookup_upsert:
  "lookup_key key c (upsert key x xs) = (if c = key x then Some x else lookup_key key c xs)"
  by (induction xs) (auto simp: lookup_key_def)

lemma lookup_key_Some: "lookup_key key c xs = Some x \<Longrightarrow> key x = c \<and> x \<in> set xs"
  by (auto simp: lookup_key_def dest: find_filter_Some)

lemma lookup_key_None: "lookup_key key c xs = None \<longleftrightarrow> c \<notin> key ` set xs"
  by (auto simp: lookup_key_def find_None_conv)

lemma set_upsert: "set (upsert key x xs) \<subseteq> insert x (set xs)"
  by (induction xs) auto

text \<open>
  The contract of a registry, and what its clients use of it: registering makes the entry the
  one that is found, leaves every other code alone, and never duplicates a code.
\<close>

locale registry =
  fixes key :: "'e \<Rightarrow> int"
    and entries :: "vcam \<Rightarrow> 'e list"
    and mk :: "'r \<Rightarrow> 'e"
    and register :: "'r \<Rightarrow> vcam \<Rightarrow> vcam"
  assumes lookup_register:
      "lookup_key key c (entries (register x cam))
         = (if c = key (mk x) then Some (mk x) else lookup_key key c (entries cam))"
    and keys_register:
      "map key (entries (register x cam))
         = (if key (mk x) \<in> key ` set (entries cam) then map key (entries cam)
            else map key (entries cam) @ [key (mk x)])"
begin

lemma register_hit: "lookup_key key (key (mk x)) (entries (register x cam)) = Some (mk x)"
  by (simp add: lookup_register)

lemma register_other:
  "c \<noteq> key (mk x) \<Longrightarrow> lookup_key key c (entries (register x cam)) = lookup_key key c (entries cam)"
  by (simp add: lookup_register)

lemma register_distinct:
  "distinct (map key (entries cam)) \<Longrightarrow> distinct (map key (entries (register x cam)))"
  by (simp add: keys_register)

lemma fold_register_distinct:
  "distinct (map key (entries cam)) \<Longrightarrow> distinct (map key (entries (fold register xs cam)))"
  by (induction xs arbitrary: cam) (simp_all add: register_distinct)

lemma fold_register_lookup:
  "lookup_key key c (entries (fold register xs cam))
     = (case lookup_key key c (rev (map mk xs)) of Some x \<Rightarrow> Some x
        | None \<Rightarrow> lookup_key key c (entries cam))"
proof (induction xs arbitrary: cam)
  case Nil
  then show ?case by (simp add: lookup_key_def)
next
  case (Cons x xs)
  have "lookup_key key c [mk x] = (if c = key (mk x) then Some (mk x) else None)"
    by (simp add: lookup_key_def)
  then show ?case using Cons
    by (simp add: lookup_register lookup_key_append split: option.splits)
qed

lemma fold_register_keys:
  "key ` set (entries (fold register xs cam)) = key ` set (entries cam) \<union> key ` mk ` set xs"
proof (induction xs arbitrary: cam)
  case Nil
  then show ?case by simp
next
  case (Cons x xs)
  have "set (map key (entries (register x cam))) = insert (key (mk x)) (key ` set (entries cam))"
    by (auto simp: keys_register)
  then show ?case using Cons by simp
qed

end

section \<open>Operations\<close>

definition vcam_register_opcode :: "int \<Rightarrow> op_write \<Rightarrow> op_write_data option \<Rightarrow> vcam \<Rightarrow> vcam" where
  "vcam_register_opcode cde w wd cam =
     cam\<lparr>opcodes := upsert op_code \<lparr>op_code = cde, op_w = w, op_wd = wd\<rparr> (opcodes cam)\<rparr>"

definition vcam_register_prop_handlers ::
    "int \<Rightarrow> PtpPropDesc \<Rightarrow> prop_fn option \<Rightarrow> prop_fn option \<Rightarrow> vcam \<Rightarrow> vcam" where
  "vcam_register_prop_handlers cde desc getvalue setvalue cam =
     cam\<lparr>props := props cam @ [\<lparr>pr_code = cde, pr_getdesc = None, pr_getvalue = getvalue,
                                pr_setvalue = setvalue, pr_desc = desc\<rparr>]\<rparr>"

definition plain_prop :: "int \<Rightarrow> PtpPropDesc \<Rightarrow> PtpProp" where
  "plain_prop cde desc = \<lparr>pr_code = cde, pr_getdesc = None, pr_getvalue = None,
     pr_setvalue = None, pr_desc = desc\<rparr>"

definition vcam_register_prop :: "int \<Rightarrow> PtpPropDesc \<Rightarrow> vcam \<Rightarrow> vcam" where
  "vcam_register_prop cde desc cam =
     cam\<lparr>props := upsert pr_code (plain_prop cde desc) (props cam)\<rparr>"

text \<open>
  The lookup loop every accessor starts with, and a write through the pointer it found.
\<close>

definition find_prop :: "vcam \<Rightarrow> int \<Rightarrow> PtpProp option" where
  "find_prop cam cde = lookup_key pr_code cde (props cam)"

fun store_desc :: "int \<Rightarrow> PtpPropDesc \<Rightarrow> PtpProp list \<Rightarrow> PtpProp list" where
  "store_desc cde d [] = []"
| "store_desc cde d (p # ps) = (if pr_code p = cde then p\<lparr>pr_desc := d\<rparr> # ps else p # store_desc cde d ps)"

definition set_desc :: "int \<Rightarrow> PtpPropDesc \<Rightarrow> vcam \<Rightarrow> vcam" where
  "set_desc cde d cam = cam\<lparr>props := store_desc cde d (props cam)\<rparr>"

definition vcam_set_prop_data :: "hooks \<Rightarrow> vcam \<Rightarrow> int \<Rightarrow> byte list \<Rightarrow> nat \<Rightarrow> (int \<times> vcam) res" where
  "vcam_set_prop_data hk cam cde dat len =
     (case find_prop cam cde of
        None \<Rightarrow> Inr (-1, cam)
      | Some p \<Rightarrow>
          (case pr_setvalue p of
             Some f \<Rightarrow> bnd (setvalue_fn hk f cam (pr_desc p) dat) (\<lambda>(cam, d, rc). Inr (rc, set_desc cde d cam))
           | None \<Rightarrow> bnd (is_null (pd_value (pr_desc p))) (\<lambda>_. bnd (read_n len dat) (\<lambda>v.
               Inr (0, set_desc cde ((pr_desc p)\<lparr>pd_value := Mem v\<rparr>) cam)))))"

definition vcam_set_prop :: "hooks \<Rightarrow> vcam \<Rightarrow> int \<Rightarrow> u32 \<Rightarrow> (int \<times> vcam) res" where
  "vcam_set_prop hk cam cde dat = vcam_set_prop_data hk cam cde (put_32bit_le dat) 4"

text \<open>The size of the current value: \<open>value_length\<close> for untyped data, else by the data type.\<close>

definition desc_size :: "PtpPropDesc \<Rightarrow> int res" where
  "desc_size d = (if DataType d = PTP_TC_UNDEF then deref (value_length d)
     else ptp_get_prop_size (pd_value d) (DataType d))"

definition vcam_get_prop_size :: "vcam \<Rightarrow> int \<Rightarrow> int res" where
  "vcam_get_prop_size cam cde =
     (case find_prop cam cde of None \<Rightarrow> Inr (-1) | Some p \<Rightarrow> desc_size (pr_desc p))"

definition vcam_get_prop_desc :: "hooks \<Rightarrow> vcam \<Rightarrow> int \<Rightarrow> (PtpPropDesc option \<times> vcam) res" where
  "vcam_get_prop_desc hk cam cde =
     (case find_prop cam cde of
        None \<Rightarrow> Inr (None, cam)
      | Some p \<Rightarrow>
          (case pr_getdesc p of
             Some f \<Rightarrow> bnd (getdesc_fn hk f cam (pr_desc p)) (\<lambda>(cam, d). Inr (Some d, set_desc cde d cam))
           | None \<Rightarrow> Inr (Some (pr_desc p), cam)))"

text \<open>\<open>None\<close> is the null result; otherwise the value pointer and \<open>*length\<close>.\<close>

definition vcam_get_prop_data :: "hooks \<Rightarrow> vcam \<Rightarrow> int \<Rightarrow> ((blk \<times> int) option \<times> vcam) res" where
  "vcam_get_prop_data hk cam cde =
     (case find_prop cam cde of
        None \<Rightarrow> Inr (None, cam)
      | Some p \<Rightarrow>
          bnd (case pr_getvalue p of
                 Some f \<Rightarrow> bnd (getvalue_fn hk f cam (pr_desc p)) (\<lambda>(cam, d, optional_len).
                   Inr (optional_len, d, set_desc cde d cam))
               | None \<Rightarrow> Inr (-1, pr_desc p, cam))
            (\<lambda>(optional_len, d, cam).
               bnd (if optional_len \<noteq> -1 then Inr optional_len else desc_size d)
                 (\<lambda>n. Inr (Some (pd_value d, n), cam))))"

definition vcam_set_prop_avail :: "vcam \<Rightarrow> int \<Rightarrow> blk \<Rightarrow> int \<Rightarrow> (int \<times> vcam) res" where
  "vcam_set_prop_avail cam cde lst cnt =
     (case find_prop cam cde of
        None \<Rightarrow> Inr (-1, cam)
      | Some p \<Rightarrow>
          (let d = (pr_desc p)\<lparr>FormFlag := PTP_EnumerationForm\<rparr>
           in bnd (ptp_prop_list_size (DataType d) lst cnt) (\<lambda>size.
              bnd (is_null (avail d)) (\<lambda>_.
                if size = 0 then Inl Abort
                else bnd (memcpy_blk size lst) (\<lambda>bs.
                  Inr (0, set_desc cde (d\<lparr>avail := Mem bs, avail_cnt := Some cnt\<rparr>) cam))))))"

section \<open>The standard properties (props.c)\<close>

text \<open>
  A \<open>struct PtpPropDesc desc\<close> on the stack starts uninitialised; \<open>init_prop\<close> gives five of its
  pointers a fresh block.
\<close>

definition uninit_desc :: PtpPropDesc where
  "uninit_desc = \<lparr>DevicePropertyCode = 0, DataType = 0, GetSet = 0, factory_default_value = Wild,
     pd_value = Wild, value_length = None, avail = Wild, avail_cnt = None, FormFlag = 0,
     form_min = Wild, form_max = Wild, form_step = Wild\<rparr>"

definition init_prop :: "PtpPropDesc \<Rightarrow> PtpPropDesc" where
  "init_prop desc = desc\<lparr>factory_default_value := Mem [], pd_value := Mem [], form_min := Mem [],
     form_max := Mem [], form_step := Mem []\<rparr>"

definition ptp_register_mtp_props :: "vcam \<Rightarrow> vcam" where
  "ptp_register_mtp_props cam =
     (let d1 = (init_prop uninit_desc)
            \<lparr>DevicePropertyCode := PTP_DPC_MTP_SessionInitiatorInfo, DataType := PTP_TC_STRING,
             GetSet := PTP_AC_ReadWrite, factory_default_value := Mem (ptp_write_u32 0),
             pd_value := Mem (ptp_write_u32 0), FormFlag := 0\<rparr>;
          cam = vcam_register_prop (uint (DevicePropertyCode d1)) d1 cam;
          d2 = (init_prop uninit_desc)
            \<lparr>DevicePropertyCode := PTP_DPC_MTP_PerceivedDeviceType, DataType := PTP_TC_UINT32,
             GetSet := PTP_AC_ReadWrite, factory_default_value := Mem (ptp_write_u32 1),
             pd_value := Mem (ptp_write_u32 1), FormFlag := 0\<rparr>
      in vcam_register_prop (uint (DevicePropertyCode d2)) d2 cam)"

definition battery_desc :: PtpPropDesc where
  "battery_desc = (init_prop uninit_desc)
     \<lparr>DevicePropertyCode := PTP_DPC_BatteryLevel, DataType := PTP_TC_UINT8,
      GetSet := PTP_AC_ReadWrite, factory_default_value := Mem (ptp_write_u8 50),
      pd_value := Mem (ptp_write_u8 50), FormFlag := PTP_RangeForm,
      form_min := Mem (ptp_write_u8 0), form_max := Mem (ptp_write_u8 100),
      form_step := Mem (ptp_write_u8 1)\<rparr>"

definition imagesize_desc :: PtpPropDesc where
  "imagesize_desc = uninit_desc
     \<lparr>DevicePropertyCode := 0x5003, DataType := PTP_TC_STRING, GetSet := PTP_AC_Read,
      factory_default_value := Mem (ptp_write_string ''640x480''),
      pd_value := Mem (ptp_write_string ''640x480''), FormFlag := PTP_EnumerationForm,
      avail := Mem (ptp_write_string ''640x480'' @ ptp_write_string ''1024x768''
                      @ ptp_write_string ''2048x1536''),
      avail_cnt := Some 3\<rparr>"

definition ptp_register_standard_props :: "vcam \<Rightarrow> vcam" where
  "ptp_register_standard_props cam =
     (let cam = vcam_register_prop (uint (DevicePropertyCode battery_desc)) battery_desc cam
      in vcam_register_prop (uint (DevicePropertyCode imagesize_desc)) imagesize_desc cam)"

text \<open>
  The getter of the battery level, which is registered nowhere (the call that did so is commented
  out): it writes through the pointers of the descriptor it is given.
\<close>

fun write_through :: "blk \<Rightarrow> byte list \<Rightarrow> blk res" where
  "write_through (Mem old) bs = (if length bs \<le> length old then Inr (Mem (bs @ drop (length bs) old)) else Inl Undef)"
| "write_through _ bs = Inl Undef"

definition ptp_battery_getdesc :: "PtpPropDesc \<Rightarrow> PtpPropDesc res" where
  "ptp_battery_getdesc desc =
     bnd (write_through (factory_default_value desc) (ptp_write_u8 50)) (\<lambda>dflt.
     bnd (write_through (pd_value desc) (ptp_write_u8 50)) (\<lambda>val.
     bnd (write_through (form_min desc) (ptp_write_u8 0)) (\<lambda>lo.
     bnd (write_through (form_max desc) (ptp_write_u8 100)) (\<lambda>hi.
     bnd (write_through (form_step desc) (ptp_write_u8 1)) (\<lambda>step.
       Inr (desc\<lparr>DevicePropertyCode := PTP_DPC_BatteryLevel, DataType := PTP_TC_UINT8, GetSet := PTP_AC_ReadWrite,
         factory_default_value := dflt, pd_value := val, FormFlag := PTP_RangeForm, form_min := lo,
         form_max := hi, form_step := step\<rparr>))))))"

definition ptp_battery_getvalue :: "vcam \<Rightarrow> byte" where
  "ptp_battery_getvalue cam = battery cam"

section \<open>Both tables are registries\<close>

definition mk_opcode :: "int \<times> op_write \<times> op_write_data option \<Rightarrow> PtpOpcode" where
  "mk_opcode x = (case x of (c, w, wd) \<Rightarrow> \<lparr>op_code = c, op_w = w, op_wd = wd\<rparr>)"

definition register_op :: "int \<times> op_write \<times> op_write_data option \<Rightarrow> vcam \<Rightarrow> vcam" where
  "register_op x = (case x of (c, w, wd) \<Rightarrow> vcam_register_opcode c w wd)"

definition register_dprop :: "int \<times> PtpPropDesc \<Rightarrow> vcam \<Rightarrow> vcam" where
  "register_dprop x = (case x of (c, d) \<Rightarrow> vcam_register_prop c d)"

interpretation ops: registry op_code opcodes mk_opcode register_op
  by unfold_locales
     (simp_all add: register_op_def mk_opcode_def vcam_register_opcode_def lookup_upsert upsert_keys
       split: prod.splits)

interpretation dprops: registry pr_code props "case_prod plain_prop" register_dprop
  by unfold_locales
     (simp_all add: register_dprop_def vcam_register_prop_def lookup_upsert upsert_keys
       plain_prop_def split: prod.splits)

lemma find_prop_register:
  "find_prop (vcam_register_prop c d cam) c' = (if c' = c then Some (plain_prop c d) else find_prop cam c')"
  by (simp add: find_prop_def vcam_register_prop_def lookup_upsert plain_prop_def)

lemma store_desc_codes [simp]: "map pr_code (store_desc c d ps) = map pr_code ps"
  by (induction ps) auto

lemma lookup_store_desc:
  "lookup_key pr_code c' (store_desc c d ps)
     = (if c' = c then map_option (\<lambda>p. p\<lparr>pr_desc := d\<rparr>) (lookup_key pr_code c' ps)
        else lookup_key pr_code c' ps)"
  by (induction ps) (auto simp: lookup_key_def)

lemma find_prop_set_desc:
  "find_prop (set_desc c d cam) c'
     = (if c' = c then map_option (\<lambda>p. p\<lparr>pr_desc := d\<rparr>) (find_prop cam c') else find_prop cam c')"
  by (simp add: find_prop_def set_desc_def lookup_store_desc)

lemma props_frame [simp]:
  "pipe_frame cam (set_desc c d cam)" "pipe_frame cam (vcam_register_prop c d cam)"
  "pipe_frame cam (vcam_register_opcode k w wd cam)"
  by (simp_all add: pipe_frame_def set_desc_def vcam_register_prop_def vcam_register_opcode_def)

text \<open>Without a \<open>setvalue\<close> callback, a write replaces the value and nothing else.\<close>

lemma set_prop_data_plain:
  assumes "find_prop cam c = Some p" "pr_setvalue p = None" "pd_value (pr_desc p) \<noteq> Wild" "n \<le> length dat"
  shows "vcam_set_prop_data hk cam c dat n
    = Inr (0, set_desc c ((pr_desc p)\<lparr>pd_value := Mem (take n dat)\<rparr>) cam)"
  using assms by (cases "pd_value (pr_desc p)") (simp_all add: vcam_set_prop_data_def read_n_def)

lemma set_prop_data_missing: "find_prop cam c = None \<Longrightarrow> vcam_set_prop_data hk cam c dat n = Inr (-1, cam)"
  by (simp add: vcam_set_prop_data_def)

end
