(* ===== verification/Ops_Props.thy ===== *)
theory Ops_Props
  imports Props
begin

text \<open>
  The device property handlers of src/src/ops.c and the vendor test operation 0xBEEF, with the
  registration of the standard operations. \<open>(int)ptp->params[0]\<close> is \<open>sint\<close> of the parameter.
\<close>

section \<open>Device properties\<close>

definition put_data :: "blk \<Rightarrow> int \<Rightarrow> byte list res" where
  "put_data d n = memcpy_blk n d"

definition prop_form :: "PtpPropDesc \<Rightarrow> byte list res" where
  "prop_form d =
     (if FormFlag d = PTP_RangeForm then
        bnd (ptp_copy_prop (DataType d) (form_min d)) (\<lambda>mn.
        bnd (ptp_copy_prop (DataType d) (form_max d)) (\<lambda>mx.
        bnd (ptp_copy_prop (DataType d) (form_step d)) (\<lambda>st. Inr (mn @ mx @ st))))
      else if FormFlag d = PTP_EnumerationForm then
        bnd (deref (avail_cnt d)) (\<lambda>n.
        bnd (ptp_copy_prop_list (DataType d) (avail d) n) (\<lambda>vs.
          Inr (put_16bit_le (word_of_int n) @ vs)))
      else Inr [])"

definition propdesc_dataset :: "PtpPropDesc \<Rightarrow> byte list res" where
  "propdesc_dataset d =
     bnd (ptp_get_prop_size (factory_default_value d) (DataType d)) (\<lambda>n1.
     bnd (put_data (factory_default_value d) n1) (\<lambda>fac.
     bnd (ptp_get_prop_size (pd_value d) (DataType d)) (\<lambda>n2.
     bnd (put_data (pd_value d) n2) (\<lambda>cur.
     bnd (prop_form d) (\<lambda>form.
       fits 2000 (put_16bit_le (DevicePropertyCode d) @ put_16bit_le (DataType d)
         @ put_8bit_le (GetSet d) @ fac @ cur @ put_8bit_le (FormFlag d) @ form))))))"

definition ptp_getdevicepropdesc_write :: "hooks \<Rightarrow> vcam \<Rightarrow> ptpcontainer \<Rightarrow> vcam res" where
  "ptp_getdevicepropdesc_write hk cam ptp =
     guard (vcam_check_trans_id cam ptp) (\<lambda>cam.
     guard (vcam_check_session cam) (\<lambda>cam.
     guard (vcam_check_param_count cam ptp 1) (\<lambda>cam.
       bnd (param ptp 0) (\<lambda>p0.
       bnd (vcam_get_prop_desc hk cam (sint p0)) (\<lambda>(desc, cam). case desc of
         None \<Rightarrow> Inr (ptp_response cam PTP_RC_DevicePropNotSupported [])
       | Some d \<Rightarrow> bnd (is_null (pd_value d)) (\<lambda>no_value.
           if no_value then Inr (ptp_response cam PTP_RC_DevicePropNotSupported [])
           else bnd (is_null (factory_default_value d)) (\<lambda>no_default.
             if no_default then Inr (ptp_response cam PTP_RC_DevicePropNotSupported [])
             else bnd (propdesc_dataset d) (\<lambda>data.
               Inr (ptp_response (ptp_senddata cam 0x1014 data) PTP_RC_OK [])))))))))"

definition ptp_getdevicepropvalue_write :: "hooks \<Rightarrow> vcam \<Rightarrow> ptpcontainer \<Rightarrow> vcam res" where
  "ptp_getdevicepropvalue_write hk cam ptp =
     guard (vcam_check_trans_id cam ptp) (\<lambda>cam.
     guard (vcam_check_session cam) (\<lambda>cam.
     guard (vcam_check_param_count cam ptp 1) (\<lambda>cam.
       bnd (param ptp 0) (\<lambda>p0.
       bnd (vcam_get_prop_desc hk cam (sint p0)) (\<lambda>(desc, cam).
         if (case desc of None \<Rightarrow> False | Some d \<Rightarrow> GetSet d = PTP_AC_Invisible)
         then Inr (ptp_response cam PTP_RC_DevicePropNotSupported [])
         else bnd (vcam_get_prop_data hk cam (sint p0)) (\<lambda>(data, cam). case data of
             None \<Rightarrow> Inr (ptp_response cam PTP_RC_DevicePropNotSupported [])
           | Some (ptr, len) \<Rightarrow> bnd (is_null ptr) (\<lambda>null.
               if null then Inr (ptp_response cam PTP_RC_DevicePropNotSupported [])
               else bnd (memcpy_blk len ptr) (\<lambda>bs.
                 Inr (ptp_response (ptp_senddata cam 0x1015 bs) PTP_RC_OK [])))))))))"

definition ptp_setdevicepropvalue_write :: "vcam \<Rightarrow> ptpcontainer \<Rightarrow> vcam res" where
  "ptp_setdevicepropvalue_write cam ptp =
     guard (vcam_check_trans_id cam ptp) (\<lambda>cam.
     guard (vcam_check_session cam) (\<lambda>cam.
     guard (vcam_check_param_count cam ptp 1) (\<lambda>cam.
       bnd (param ptp 0) (\<lambda>p0.
         if \<forall>p\<in>set (props cam). word_of_int (pr_code p) \<noteq> p0
         then Inr (ptp_response cam PTP_RC_DevicePropNotSupported [])
         else Inr cam))))"

definition ptp_setdevicepropvalue_write_data ::
    "hooks \<Rightarrow> vcam \<Rightarrow> ptpcontainer \<Rightarrow> byte list \<Rightarrow> vcam res" where
  "ptp_setdevicepropvalue_write_data hk cam ptp data =
     guard (vcam_check_trans_id cam ptp) (\<lambda>cam.
     guard (vcam_check_session cam) (\<lambda>cam.
     guard (vcam_check_param_count cam ptp 1) (\<lambda>cam.
       bnd (param ptp 0) (\<lambda>p0.
       bnd (vcam_get_prop_desc hk cam (sint p0)) (\<lambda>(desc, cam). case desc of
         None \<Rightarrow> Inr cam
       | Some d \<Rightarrow>
           if GetSet d = PTP_AC_Invisible then Inr (ptp_response cam PTP_RC_OK [])
           else if length data = 0 then Inr (ptp_response cam PTP_RC_GeneralError [])
           else bnd (vcam_set_prop_data hk cam (sint p0) data (length data)) (\<lambda>(rc, cam).
             if rc \<noteq> 0 then
               (if rc < 0 then Inr (ptp_response cam PTP_RC_GeneralError [])
                else Inr (ptp_response cam (word_of_int rc) []))
             else Inr (ptp_response cam PTP_RC_OK [])))))))"

section \<open>The test operation 0xBEEF\<close>

definition ptp_vusb_write :: "vcam \<Rightarrow> ptpcontainer \<Rightarrow> vcam res" where
  "ptp_vusb_write cam ptp =
     guard (vcam_check_trans_id cam ptp) (\<lambda>cam.
     guard (vcam_check_session cam) (\<lambda>cam.
       if unat (c_nparams ptp) \<le> length (c_params ptp) then Inr cam else Inl Undef))"

definition checksum_of :: "byte list \<Rightarrow> int" where
  "checksum_of data = sum_list (map uint data)"

definition ptp_vusb_write_data :: "vcam \<Rightarrow> ptpcontainer \<Rightarrow> byte list \<Rightarrow> vcam res" where
  "ptp_vusb_write_data cam ptp data =
     bnd (c_int (checksum_of data)) (\<lambda>checksum.
     bnd (param ptp 0) (\<lambda>p0.
       if word_of_int checksum \<noteq> p0 then Inr (ptp_response cam PTP_RC_GeneralError [])
       else Inr (ptp_response cam PTP_RC_OK [])))"

section \<open>Registration\<close>

definition standard_opcodes :: "(int \<times> op_write \<times> op_write_data option) list" where
  "standard_opcodes =
    [(0x1001, F_ptp_deviceinfo_write, None),
     (0x1002, F_ptp_opensession_write, None),
     (0x1003, F_ptp_closesession_write, None),
     (0x1004, F_ptp_getstorageids_write, None),
     (0x1005, F_ptp_getstorageinfo_write, None),
     (0x1006, F_ptp_getnumobjects_write, None),
     (0x1007, F_ptp_getobjecthandles_write, None),
     (0x1008, F_ptp_getobjectinfo_write, None),
     (0x1009, F_ptp_getobject_write, None),
     (0x100A, F_ptp_getthumb_write, None),
     (0x100B, F_ptp_deleteobject_write, None),
     (0x100E, F_ptp_initiatecapture_write, None),
     (0x1014, F_ptp_getdevicepropdesc_write, None),
     (0x1015, F_ptp_getdevicepropvalue_write, None),
     (0x1016, F_ptp_setdevicepropvalue_write, Some F_ptp_setdevicepropvalue_write_data),
     (0x101B, F_ptp_getpartialobject_write, None),
     (0xBEEF, F_ptp_vusb_write, Some F_ptp_vusb_write_data)]"

definition ptp_register_standard_opcodes :: "vcam \<Rightarrow> vcam" where
  "ptp_register_standard_opcodes cam = fold register_op standard_opcodes cam"

definition ptp_register_mtp_opcodes :: "vcam \<Rightarrow> vcam" where
  "ptp_register_mtp_opcodes cam = register_op (0x9801, F_ptp_mtp_obj_props_supported_write, None) cam"

text \<open>After a registration, the last entry for a code in the list is the one that is found.\<close>

lemma standard_lookup:
  "lookup_key op_code c (opcodes (ptp_register_standard_opcodes cam))
     = (case lookup_key op_code c (rev (map mk_opcode standard_opcodes)) of
          Some h \<Rightarrow> Some h | None \<Rightarrow> lookup_key op_code c (opcodes cam))"
  by (simp add: ptp_register_standard_opcodes_def ops.fold_register_lookup)

section \<open>The contract of the handlers\<close>

text \<open>
  An operation with a data phase may stay silent in its first phase: \<open>completes\<close> is the
  weaker contract of its two handlers.
\<close>

definition completes :: "vcam \<Rightarrow> vcam \<Rightarrow> bool" where
  "completes cam cam' \<longleftrightarrow> answers cam cam' \<or> pipe_frame cam cam'"

lemma answers_completes: "answers cam cam' \<Longrightarrow> completes cam cam'"
  by (simp add: completes_def)

text \<open>
  What the handlers rely on when a property has callbacks: a callback leaves the pipes and the
  transaction number alone. The operations of the Fujifilm module complete, but for one that
  sends two responses.
\<close>

definition hooks_ok :: "hooks \<Rightarrow> bool" where
  "hooks_ok hk \<longleftrightarrow>
     (\<forall>f cam d cam' d'. getdesc_fn hk f cam d = Inr (cam', d') \<longrightarrow> pipe_frame cam cam') \<and>
     (\<forall>f cam d cam' d' n. getvalue_fn hk f cam d = Inr (cam', d', n) \<longrightarrow> pipe_frame cam cam') \<and>
     (\<forall>f cam d v cam' d' n. setvalue_fn hk f cam d v = Inr (cam', d', n) \<longrightarrow> pipe_frame cam cam') \<and>
     (\<forall>f cam ptp cam'. fuji_fn hk f cam ptp = Inr cam' \<longrightarrow> completes cam cam') \<and>
     (\<forall>f cam ptp d cam'. f \<noteq> F_ptp_fuji_sendobjectinfo_write_data \<longrightarrow>
        fuji_data_fn hk f cam ptp d = Inr cam' \<longrightarrow> completes cam cam')"

lemma hooks_ok_dest:
  assumes "hooks_ok hk"
  shows "getdesc_fn hk f cam d = Inr (cam', d') \<Longrightarrow> pipe_frame cam cam'"
    and "getvalue_fn hk f cam d = Inr (cam', d', n) \<Longrightarrow> pipe_frame cam cam'"
    and "setvalue_fn hk f cam d v = Inr (cam', d', n) \<Longrightarrow> pipe_frame cam cam'"
    and "fuji_fn hk g cam ptp = Inr cam' \<Longrightarrow> completes cam cam'"
    and "g' \<noteq> F_ptp_fuji_sendobjectinfo_write_data \<Longrightarrow>
      fuji_data_fn hk g' cam ptp v = Inr cam' \<Longrightarrow> completes cam cam'"
  using assms unfolding hooks_ok_def by (blast | metis)+

lemma pipe_frame_set_desc [simp]: "pipe_frame a (set_desc c d b) = pipe_frame a b"
  by (simp add: pipe_frame_def set_desc_def)

lemma get_prop_desc_frame:
  assumes "hooks_ok hk" "vcam_get_prop_desc hk cam c = Inr (d, cam')"
  shows "pipe_frame cam cam'"
  using assms(2) hooks_ok_dest(1) [OF assms(1)]
  by (auto simp: vcam_get_prop_desc_def split: option.splits)

lemma get_prop_data_frame:
  assumes "hooks_ok hk" "vcam_get_prop_data hk cam c = Inr (r, cam')"
  shows "pipe_frame cam cam'"
  using assms(2) hooks_ok_dest(2) [OF assms(1)]
  by (auto simp: vcam_get_prop_data_def split: option.splits)

lemma set_prop_data_frame:
  assumes "hooks_ok hk" "vcam_set_prop_data hk cam c v n = Inr (r, cam')"
  shows "pipe_frame cam cam'"
  using assms(2) hooks_ok_dest(3) [OF assms(1)]
  by (auto simp: vcam_set_prop_data_def split: option.splits)

lemma getdevicepropdesc_answers:
  assumes "hooks_ok hk" "ptp_getdevicepropdesc_write hk cam ptp = Inr cam'"
  shows "answers cam cam'"
  using assms(2) get_prop_desc_frame [OF assms(1)]
  by (auto simp: ptp_getdevicepropdesc_write_def handler_defs split: if_split_asm option.split_asm)

lemma getdevicepropvalue_answers:
  assumes "hooks_ok hk" "ptp_getdevicepropvalue_write hk cam ptp = Inr cam'"
  shows "answers cam cam'"
proof -
  have *: "vcam_get_prop_desc hk cam c = Inr (d, c1) \<Longrightarrow> vcam_get_prop_data hk c1 c' = Inr (r, c2)
      \<Longrightarrow> pipe_frame cam c2" for c d c1 c' r c2
    using get_prop_desc_frame [OF assms(1)] get_prop_data_frame [OF assms(1)] by (blast intro: pipe_frame_trans)
  show ?thesis using assms(2) get_prop_desc_frame [OF assms(1)] *
    by (auto simp: ptp_getdevicepropvalue_write_def handler_defs split: if_split_asm option.split_asm)
qed

lemma setdevicepropvalue_completes:
  "ptp_setdevicepropvalue_write cam ptp = Inr cam' \<Longrightarrow> completes cam cam'"
  by (auto simp: ptp_setdevicepropvalue_write_def handler_defs completes_def split: if_splits)

lemma setdevicepropvalue_data_completes:
  assumes "hooks_ok hk" "ptp_setdevicepropvalue_write_data hk cam ptp data = Inr cam'"
  shows "completes cam cam'"
proof -
  have *: "vcam_get_prop_desc hk cam c = Inr (d, c1) \<Longrightarrow> vcam_set_prop_data hk c1 c' v n = Inr (r, c2)
      \<Longrightarrow> pipe_frame cam c2" for c d c1 c' r c2 v n
    using get_prop_desc_frame [OF assms(1)] set_prop_data_frame [OF assms(1)] by (blast intro: pipe_frame_trans)
  show ?thesis using assms(2) get_prop_desc_frame [OF assms(1)] *
    by (auto simp: ptp_setdevicepropvalue_write_data_def handler_defs completes_def
        split: if_split_asm option.split_asm)
qed

lemma vusb_completes: "ptp_vusb_write cam ptp = Inr cam' \<Longrightarrow> completes cam cam'"
  by (auto simp: ptp_vusb_write_def handler_defs completes_def split: if_splits)

lemma vusb_data_answers: "ptp_vusb_write_data cam ptp data = Inr cam' \<Longrightarrow> answers cam cam'"
  by (auto simp: ptp_vusb_write_data_def split: if_splits)

end
