(* ===== verification/Prop_Tables.thy ===== *)
theory Prop_Tables
  imports Ops_Props
begin

text \<open>
  Property descriptors from text: \<open>nikon_add_prop\<close> of src/src/nikon/props.c, and
  \<open>sony_add_prop\<close> and \<open>sony_add_shutter_prop\<close> of src/src/sony/props.c. The static helpers
  of the two files (\<open>type_width\<close>, \<open>write_typed\<close>, \<open>parse_ll\<close>) are the same code and are
  modelled once. The result is that every descriptor they build can be serialised: its value,
  default and form are well-formed values of its data type.
\<close>

section \<open>Numbers in text: strtoll with base 0\<close>

definition is_space :: "char \<Rightarrow> bool" where
  "is_space c \<longleftrightarrow> c = CHR 0x20 \<or> (9 \<le> (of_char c :: nat) \<and> (of_char c :: nat) \<le> 13)"

definition digit_val :: "char \<Rightarrow> int" where
  "digit_val c = (let n = of_char c :: int in
     if 48 \<le> n \<and> n \<le> 57 then n - 48
     else if 97 \<le> n \<and> n \<le> 122 then n - 87
     else if 65 \<le> n \<and> n \<le> 90 then n - 55 else 99)"

fun scan_digits :: "int \<Rightarrow> int \<Rightarrow> string \<Rightarrow> int \<times> string" where
  "scan_digits base acc [] = (acc, [])"
| "scan_digits base acc (c # cs) =
     (if digit_val c < base then scan_digits base (acc * base + digit_val c) cs else (acc, c # cs))"

definition clamp_ll :: "int \<Rightarrow> int" where
  "clamp_ll v = max (- (2 ^ 63)) (min (2 ^ 63 - 1) v)"

text \<open>The sign, and what follows it.\<close>

fun scan_sign :: "string \<Rightarrow> int \<times> string" where
  "scan_sign (c # cs) = (if c = CHR ''-'' then (-1, cs) else if c = CHR ''+'' then (1, cs) else (1, c # cs))"
| "scan_sign [] = (1, [])"

text \<open>The digits after the sign; \<open>None\<close> when there is no number.\<close>

definition scan_number :: "string \<Rightarrow> (int \<times> string) option" where
  "scan_number s =
     (case s of
        [] \<Rightarrow> None
      | c # cs \<Rightarrow>
          (if c = CHR ''0'' then
             (case cs of
                x # d # ds \<Rightarrow>
                  (if (x = CHR ''x'' \<or> x = CHR ''X'') \<and> digit_val d < 16
                   then Some (scan_digits 16 0 (d # ds)) else Some (scan_digits 8 0 s))
              | _ \<Rightarrow> Some (scan_digits 8 0 s))
           else if digit_val c < 10 then Some (scan_digits 10 0 s) else None))"

definition parse_ll :: "string \<Rightarrow> int \<times> string" where
  "parse_ll s =
     (let (sg, r) = scan_sign (dropWhile is_space s)
      in case scan_number r of None \<Rightarrow> (0, s) | Some (v, e) \<Rightarrow> (clamp_ll (sg * v), e))"

section \<open>Typed values\<close>

definition type_width :: "u16 \<Rightarrow> nat" where
  "type_width t =
    (if t = PTP_TC_INT8 \<or> t = PTP_TC_UINT8 then 1
     else if t = PTP_TC_INT16 \<or> t = PTP_TC_UINT16 then 2
     else if t = PTP_TC_INT32 \<or> t = PTP_TC_UINT32 then 4
     else if t = PTP_TC_INT64 \<or> t = PTP_TC_UINT64 then 8 else 4)"

text \<open>The bytes stored; the default case stores none.\<close>

definition write_typed :: "u16 \<Rightarrow> int \<Rightarrow> byte list" where
  "write_typed t v =
    (if t = PTP_TC_INT8 \<or> t = PTP_TC_UINT8 then ptp_write_u8 (word_of_int v)
     else if t = PTP_TC_INT16 \<or> t = PTP_TC_UINT16 then ptp_write_u16 (word_of_int v)
     else if t = PTP_TC_INT32 \<or> t = PTP_TC_UINT32 then ptp_write_u32 (word_of_int v)
     else if t = PTP_TC_INT64 \<or> t = PTP_TC_UINT64
     then map (\<lambda>i. ucast (drop_bit (8 * i) (word_of_int v :: u64) AND 0xff)) [0..<8]
     else [])"

definition skip_char :: "char \<Rightarrow> string \<Rightarrow> string" where
  "skip_char c s = (case s of x # xs \<Rightarrow> if x = c then xs else s | [] \<Rightarrow> [])"

definition zero_desc :: PtpPropDesc where
  "zero_desc = \<lparr>DevicePropertyCode = 0, DataType = 0, GetSet = 0, factory_default_value = Null,
     pd_value = Null, value_length = Some 0, avail = Null, avail_cnt = Some 0, FormFlag = 0,
     form_min = Null, form_max = Null, form_step = Null\<rparr>"

section \<open>Forms\<close>

definition range_form :: "u16 \<Rightarrow> string \<Rightarrow> PtpPropDesc \<Rightarrow> PtpPropDesc" where
  "range_form t p d =
     (let (mn, p) = parse_ll p; (st, p) = parse_ll (skip_char (CHR '':'') p);
          (mx, p) = parse_ll (skip_char (CHR '':'') p)
      in d\<lparr>FormFlag := PTP_RangeForm, form_min := Mem (write_typed t mn),
           form_max := Mem (write_typed t mx), form_step := Mem (write_typed t st)\<rparr>)"

fun enum_values :: "nat \<Rightarrow> u16 \<Rightarrow> string \<Rightarrow> byte list list" where
  "enum_values 0 t p = []"
| "enum_values (Suc n) t p =
     (let (v, p) = parse_ll p in write_typed t v # enum_values n t (skip_char (CHR '','') p))"

definition enum_count :: "string \<Rightarrow> nat" where
  "enum_count p = (if p = [] then 0 else 1 + length (filter (\<lambda>c. c = CHR '','') p))"

definition enum_form :: "u16 \<Rightarrow> string \<Rightarrow> PtpPropDesc \<Rightarrow> PtpPropDesc" where
  "enum_form t p d =
     (let n = enum_count p
      in d\<lparr>FormFlag := PTP_EnumerationForm,
           avail := (if n = 0 then Null else Mem (concat (enum_values n t p))),
           avail_cnt := Some (int n)\<rparr>)"

text \<open>The entries of a string enumeration, cut to 255 characters like the buffer \<open>tmp\<close>.\<close>

fun split_bar :: "string \<Rightarrow> string list" where
  "split_bar [] = [[]]"
| "split_bar (c # cs) =
     (if c = CHR ''|'' then [] # split_bar cs
      else (case split_bar cs of [] \<Rightarrow> [[c]] | s # ss \<Rightarrow> (c # s) # ss))"

definition senum_form :: "string \<Rightarrow> PtpPropDesc \<Rightarrow> PtpPropDesc" where
  "senum_form p d =
     d\<lparr>FormFlag := PTP_EnumerationForm,
       avail := Mem (concat (map (\<lambda>s. ptp_write_string (take 255 s)) (split_bar p))),
       avail_cnt := Some (int (length (split_bar p)))\<rparr>"

section \<open>Registration\<close>

definition typed_values :: "u16 \<Rightarrow> byte list \<Rightarrow> PtpPropDesc \<Rightarrow> PtpPropDesc" where
  "typed_values t v d = d\<lparr>factory_default_value := Mem v, pd_value := Mem v\<rparr>"

definition nikon_values :: "u16 \<Rightarrow> u16 \<Rightarrow> bool \<Rightarrow> string \<Rightarrow> PtpPropDesc" where
  "nikon_values cde t rw value =
     (let desc = zero_desc\<lparr>DevicePropertyCode := cde, DataType := t,
                   GetSet := (if rw then PTP_AC_ReadWrite else PTP_AC_Read)\<rparr>
      in if t = PTP_TC_STRING then typed_values t (ptp_write_string value) desc
         else typed_values t (write_typed t (fst (parse_ll value))) desc)"

definition nikon_desc :: "u16 \<Rightarrow> u16 \<Rightarrow> bool \<Rightarrow> string \<Rightarrow> string option \<Rightarrow> PtpPropDesc" where
  "nikon_desc cde t rw value form =
     (let desc = nikon_values cde t rw value
      in case form of
           None \<Rightarrow> desc
         | Some f \<Rightarrow>
             (if starts_with f ''range:'' then range_form t (drop 6 f) desc
              else if starts_with f ''enum:'' then enum_form t (drop 5 f) desc
              else if starts_with f ''senum:'' then senum_form (drop 6 f) desc
              else desc))"

definition nikon_add_prop :: "u16 \<Rightarrow> u16 \<Rightarrow> bool \<Rightarrow> string \<Rightarrow> string option \<Rightarrow> vcam \<Rightarrow> vcam" where
  "nikon_add_prop cde t rw value form cam =
     vcam_register_prop (uint cde) (nikon_desc cde t rw value form) cam"

definition sony_values :: "u16 \<Rightarrow> u16 \<Rightarrow> bool \<Rightarrow> string \<Rightarrow> PtpPropDesc" where
  "sony_values cde t rw value =
     typed_values t (write_typed t (fst (parse_ll value)))
       (zero_desc\<lparr>DevicePropertyCode := cde, DataType := t, GetSet := (if rw then 1 else 0)\<rparr>)"

definition sony_desc :: "u16 \<Rightarrow> u16 \<Rightarrow> bool \<Rightarrow> string \<Rightarrow> string option \<Rightarrow> PtpPropDesc" where
  "sony_desc cde t rw value form =
     (let desc = sony_values cde t rw value
      in case form of
           None \<Rightarrow> desc
         | Some f \<Rightarrow>
             (if starts_with f ''range:'' then range_form t (drop 6 f) desc
              else if starts_with f ''enum:'' then enum_form t (drop 5 f) desc
              else desc))"

definition sony_add_prop :: "u16 \<Rightarrow> u16 \<Rightarrow> bool \<Rightarrow> string \<Rightarrow> string option \<Rightarrow> vcam \<Rightarrow> vcam" where
  "sony_add_prop cde t rw value form cam =
     vcam_register_prop (uint cde) (sony_desc cde t rw value form) cam"

definition sony_shutter_stops :: "u32 list" where
  "sony_shutter_stops =
    [1966081, 1638401, 1310721, 983041, 851969, 655361, 524289, 393217, 327681,
     262145, 2097162, 1638410, 131073, 1048586, 851978, 65537, 524298, 393226,
     327690, 262154, 65539, 65540, 65541, 65542, 65544, 65546, 65549,
     65551, 65556, 65561, 65566, 65576, 65586, 65596, 65616, 65636,
     65661, 65696, 65736, 65786, 65856, 65936, 66036, 66176, 66336,
     66536, 66786, 67136, 67536, 68036, 68736, 69536, 70536, 71936,
     73536, 75536, 78036, 81536, 85536, 90536, 97536]"

definition sony_shutter_desc :: "bool \<Rightarrow> u32 \<Rightarrow> PtpPropDesc" where
  "sony_shutter_desc rw value =
     zero_desc\<lparr>DevicePropertyCode := 0xd20d, DataType := PTP_TC_UINT32, GetSet := (if rw then 1 else 0),
       factory_default_value := Mem (put_32bit_le value), pd_value := Mem (put_32bit_le value),
       FormFlag := PTP_EnumerationForm,
       avail := Mem (concat (map put_32bit_le sony_shutter_stops)),
       avail_cnt := Some (int (length sony_shutter_stops))\<rparr>"

definition sony_add_shutter_prop :: "bool \<Rightarrow> u32 \<Rightarrow> vcam \<Rightarrow> vcam" where
  "sony_add_shutter_prop rw value cam = vcam_register_prop 0xd20d (sony_shutter_desc rw value) cam"

text \<open>A model table: the arguments of its registration calls.\<close>

type_synonym prop_row = "u16 \<times> u16 \<times> bool \<times> string \<times> string option"

definition nikon_add_rows :: "prop_row list \<Rightarrow> vcam \<Rightarrow> vcam" where
  "nikon_add_rows rows cam = fold (\<lambda>(c, t, rw, v, f). nikon_add_prop c t rw v f) rows cam"

definition sony_add_rows :: "prop_row list \<Rightarrow> vcam \<Rightarrow> vcam" where
  "sony_add_rows rows cam = fold (\<lambda>(c, t, rw, v, f). sony_add_prop c t rw v f) rows cam"

section \<open>Well-formed descriptors\<close>

text \<open>A block that holds exactly one value of the type.\<close>

definition holds :: "u16 \<Rightarrow> blk \<Rightarrow> bool" where
  "holds t b \<longleftrightarrow> (\<exists>v. b = Mem v \<and> val_ok t v)"

definition form_ok :: "PtpPropDesc \<Rightarrow> bool" where
  "form_ok d \<longleftrightarrow>
     (FormFlag d = PTP_RangeForm \<longrightarrow>
        holds (DataType d) (form_min d) \<and> holds (DataType d) (form_max d) \<and> holds (DataType d) (form_step d)) \<and>
     (FormFlag d = PTP_EnumerationForm \<longrightarrow>
        (\<exists>vs. (\<forall>v\<in>set vs. val_ok (DataType d) v) \<and> avail_cnt d = Some (int (length vs)) \<and>
           length (concat vs) < 2 ^ 31 \<and> (avail d = Mem (concat vs) \<or> vs = [] \<and> avail d = Null)))"

definition desc_ok :: "PtpPropDesc \<Rightarrow> bool" where
  "desc_ok d \<longleftrightarrow> holds (DataType d) (factory_default_value d) \<and> holds (DataType d) (pd_value d) \<and> form_ok d"

lemma write_typed_len: "scalar_width t = Some w \<Longrightarrow> length (write_typed t v) = w"
  by (auto simp: scalar_width_def write_typed_def ptp_write_u8_def ptp_write_u16_def ptp_write_u32_def
      split: if_splits)

lemma write_typed_ok: "scalar_width t \<noteq> None \<Longrightarrow> val_ok t (write_typed t v)"
  by (auto simp: val_ok_def write_typed_len)

lemma ptp_write_string_ok: "length s \<le> 254 \<Longrightarrow> val_ok PTP_TC_STRING (ptp_write_string s)"
proof -
  assume "length s \<le> 254"
  moreover have "ptp_write_string s = word_of_nat (length s + 1)
      # (concat (map (\<lambda>c. [byte_of c, 0]) s) @ [0, 0])"
    by (simp add: ptp_write_string_def ptp_write_u8_def ptp_write_u16_def add.commute)
  moreover have "length (concat (map (\<lambda>c. [byte_of c, 0]) s) @ [0, 0]) = 2 * (length s + 1)"
    by (induction s) simp_all
  ultimately have "length s + 1 < 256 \<and> length (concat (map (\<lambda>c. [byte_of c, 0]) s) @ [0, 0]) = 2 * (length s + 1)
      \<and> ptp_write_string s = word_of_nat (length s + 1) # (concat (map (\<lambda>c. [byte_of c, 0]) s) @ [0, 0])"
    by linarith
  then show ?thesis unfolding val_ok_def by blast
qed

lemma enum_values_len [simp]: "length (enum_values n t p) = n"
  by (induction n arbitrary: p) (simp_all add: case_prod_beta Let_def)

lemma enum_values_ok: "scalar_width t \<noteq> None \<Longrightarrow> v \<in> set (enum_values n t p) \<Longrightarrow> val_ok t v"
  by (induction n arbitrary: p) (auto simp: case_prod_beta Let_def write_typed_ok)

text \<open>
  The condition on a table row that makes its descriptor well-formed: a string property has no
  numeric form, a numeric one no string enumeration, and every string fits a length byte.
\<close>

definition has_form :: "string \<Rightarrow> string option \<Rightarrow> bool" where
  "has_form pre form = (case form of None \<Rightarrow> False | Some f \<Rightarrow> starts_with f pre)"

definition row_ok :: "prop_row \<Rightarrow> bool" where
  "row_ok r = (case r of (c, t, rw, v, form) \<Rightarrow>
     (case form of None \<Rightarrow> True | Some f \<Rightarrow> length f < 1000) \<and>
     (if t = PTP_TC_STRING
      then length v \<le> 254 \<and> \<not> has_form ''range:'' form \<and> \<not> has_form ''enum:'' form \<and>
        (case form of None \<Rightarrow> True | Some f \<Rightarrow> \<forall>s\<in>set (split_bar (drop 6 f)). length s \<le> 254)
      else scalar_width t \<noteq> None \<and> \<not> has_form ''senum:'' form))"

lemma form_okI_none: "FormFlag d \<noteq> 1 \<Longrightarrow> FormFlag d \<noteq> 2 \<Longrightarrow> form_ok d"
  by (simp add: form_ok_def)

lemma range_form_ok:
  assumes "scalar_width t \<noteq> None" "DataType d = t"
  shows "form_ok (range_form t p d)"
  using assms by (auto simp: range_form_def form_ok_def holds_def write_typed_ok case_prod_beta Let_def)

lemma concat_len_bound: "\<forall>x\<in>set xs. length x \<le> k \<Longrightarrow> length (concat xs) \<le> k * length xs"
  by (induction xs) auto

lemma enum_form_ok:
  assumes "scalar_width t \<noteq> None" "DataType d = t" "length p < 1000"
  shows "form_ok (enum_form t p d)"
proof -
  define n where "n = enum_count p"
  have "length (filter (\<lambda>c. c = CHR '','') p) < 1000"
    by (rule le_less_trans [OF length_filter_le assms(3)])
  then have n: "n \<le> 1000" by (simp add: n_def enum_count_def)
  have v: "\<forall>v\<in>set (enum_values n t p). val_ok t v" using assms(1) enum_values_ok by blast
  obtain w where w: "scalar_width t = Some w" using assms(1) by auto
  have "length v \<le> 8" if "v \<in> set (enum_values n t p)" for v
  proof -
    have "\<forall>v\<in>set (enum_values m t q). length v = w" for m q
      by (induction m arbitrary: q) (auto simp: case_prod_beta Let_def write_typed_len w)
    then show ?thesis using that scalar_width_pos [OF w] by auto
  qed
  then have "length (concat (enum_values n t p)) \<le> 8 * n"
    using concat_len_bound [of "enum_values n t p" 8] by simp
  then have len: "length (concat (enum_values n t p)) < 2 ^ 31" using n by simp
  show ?thesis
    using v len assms(2) unfolding form_ok_def enum_form_def n_def [symmetric] Let_def
    by (intro conjI impI exI [of _ "enum_values n t p"]) auto
qed

lemma split_bar_len: "length (split_bar p) \<le> length p + 1"
  by (induction p) (auto split: list.splits)

lemma senum_form_ok:
  assumes "DataType d = PTP_TC_STRING" "length p < 1000" "\<forall>s\<in>set (split_bar p). length s \<le> 254"
  shows "form_ok (senum_form p d)"
proof -
  define vs where "vs = map (\<lambda>s. ptp_write_string (take 255 s)) (split_bar p)"
  have "\<forall>v\<in>set vs. val_ok PTP_TC_STRING v"
    using assms(3) by (auto simp: vs_def intro!: ptp_write_string_ok)
  moreover have wl: "length (ptp_write_string s) = 2 * length s + 3" for s
    by (induction s) (simp_all add: ptp_write_string_def ptp_write_u8_def ptp_write_u16_def)
  have "length (concat vs) \<le> 600 * length vs"
    using assms(3) by (intro concat_len_bound) (auto simp: vs_def wl)
  moreover have "length vs \<le> 1000" using split_bar_len [of p] assms(2) by (simp add: vs_def)
  ultimately have "\<forall>v\<in>set vs. val_ok PTP_TC_STRING v" "length (concat vs) < 2 ^ 31" by auto
  then show ?thesis using assms(1) unfolding form_ok_def senum_form_def
    by (intro conjI impI exI [of _ vs]) (auto simp: vs_def)
qed

lemma form_ok_values: "DataType d = t \<Longrightarrow> holds t (factory_default_value d) \<Longrightarrow> holds t (pd_value d)
   \<Longrightarrow> form_ok d \<Longrightarrow> desc_ok d"
  by (simp add: desc_ok_def)

lemma form_fields [simp]:
  "factory_default_value (range_form t p d) = factory_default_value d" "pd_value (range_form t p d) = pd_value d"
  "DataType (range_form t p d) = DataType d"
  "factory_default_value (enum_form t p d) = factory_default_value d" "pd_value (enum_form t p d) = pd_value d"
  "DataType (enum_form t p d) = DataType d"
  "factory_default_value (senum_form p d) = factory_default_value d" "pd_value (senum_form p d) = pd_value d"
  "DataType (senum_form p d) = DataType d"
  by (simp_all add: range_form_def enum_form_def senum_form_def case_prod_beta Let_def)

lemma values_ok:
  assumes "row_ok (c, t, rw, v, form)"
  shows "DataType (nikon_values c t rw v) = t" "desc_ok (nikon_values c t rw v)"
  using assms
  by (auto simp: nikon_values_def Let_def row_ok_def typed_values_def zero_desc_def holds_def desc_ok_def
      ptp_write_string_ok write_typed_ok form_okI_none)

lemma form_desc_ok:
  "desc_ok d \<Longrightarrow> form_ok (range_form t p d) \<Longrightarrow> desc_ok (range_form t p d)"
  "desc_ok d \<Longrightarrow> form_ok (enum_form t p d) \<Longrightarrow> desc_ok (enum_form t p d)"
  "desc_ok d \<Longrightarrow> form_ok (senum_form p d) \<Longrightarrow> desc_ok (senum_form p d)"
  by (simp_all add: desc_ok_def)

lemmas form_oks = range_form_ok enum_form_ok senum_form_ok

lemma nikon_desc_ok:
  assumes "row_ok (c, t, rw, v, form)"
  shows "desc_ok (nikon_desc c t rw v form)"
proof (cases form)
  case None
  then show ?thesis using values_ok [OF assms] by (simp add: nikon_desc_def)
next
  case (Some f)
  then show ?thesis using values_ok [OF assms] assms
    by (auto simp: nikon_desc_def Let_def row_ok_def has_form_def intro!: form_desc_ok form_oks
        split: if_split_asm)
qed

lemma sony_desc_ok:
  assumes "scalar_width t \<noteq> None" "\<forall>f. form = Some f \<longrightarrow> length f < 1000"
  shows "desc_ok (sony_desc c t rw v form)"
proof -
  have "DataType (sony_values c t rw v) = t" "desc_ok (sony_values c t rw v)"
    using assms(1) by (auto simp: sony_values_def typed_values_def zero_desc_def holds_def desc_ok_def
        write_typed_ok form_okI_none)
  then show ?thesis using assms
    by (auto simp: sony_desc_def Let_def intro!: form_desc_ok form_oks split: option.split)
qed

lemma sony_shutter_desc_ok: "desc_ok (sony_shutter_desc rw value)"
proof -
  have v: "val_ok PTP_TC_UINT32 (put_32bit_le x)" for x
    by (simp add: val_ok_def scalar_width_def)
  have "length (concat (map put_32bit_le sony_shutter_stops)) < 2 ^ 31"
    by (simp add: sony_shutter_stops_def)
  then show ?thesis
    using v unfolding desc_ok_def form_ok_def sony_shutter_desc_def zero_desc_def holds_def
    by (auto intro!: exI [of _ "map put_32bit_le sony_shutter_stops"])
qed

text \<open>A well-formed descriptor can always be serialised.\<close>

lemma holds_copy: "holds t b \<Longrightarrow> \<exists>v. ptp_copy_prop t b = Inr v \<and> val_ok t v \<and> b = Mem v"
  unfolding holds_def using copy_prop_val [of t _ "[]"] by auto

lemma holds_put:
  assumes "holds t b"
  shows "\<exists>v n. ptp_get_prop_size b t = Inr n \<and> put_data b n = Inr v \<and> b = Mem v \<and> val_ok t v"
proof -
  from assms obtain v where v: "b = Mem v" "val_ok t v" by (auto simp: holds_def)
  with prop_size_val [of t v "[]"] val_ok_pos [of t v] show ?thesis
    by (simp add: put_data_def memcpy_blk_def read_n_def)
qed

fun blk_len :: "blk \<Rightarrow> nat" where
  "blk_len (Mem bs) = length bs"
| "blk_len _ = 0"

definition form_len :: "PtpPropDesc \<Rightarrow> nat" where
  "form_len d =
     (if FormFlag d = PTP_RangeForm then blk_len (form_min d) + blk_len (form_max d) + blk_len (form_step d)
      else if FormFlag d = PTP_EnumerationForm then 2 + blk_len (avail d) else 0)"

definition desc_len :: "PtpPropDesc \<Rightarrow> nat" where
  "desc_len d = 6 + blk_len (factory_default_value d) + blk_len (pd_value d) + form_len d"

lemma prop_form_total:
  assumes "form_ok d"
  shows "\<exists>f. prop_form d = Inr f \<and> length f = form_len d"
proof -
  consider "FormFlag d = 1" | "FormFlag d = 2" | "FormFlag d \<noteq> 1" "FormFlag d \<noteq> 2" by blast
  then show ?thesis
  proof cases
    case 1
    then have "holds (DataType d) (form_min d)" "holds (DataType d) (form_max d)"
      "holds (DataType d) (form_step d)" using assms by (auto simp: form_ok_def)
    then obtain a b c where "ptp_copy_prop (DataType d) (form_min d) = Inr a" "form_min d = Mem a"
      "ptp_copy_prop (DataType d) (form_max d) = Inr b" "form_max d = Mem b"
      "ptp_copy_prop (DataType d) (form_step d) = Inr c" "form_step d = Mem c"
      using holds_copy by metis
    then show ?thesis using 1 by (simp add: prop_form_def form_len_def)
  next
    case 2
    then obtain vs where vs: "\<forall>v\<in>set vs. val_ok (DataType d) v" "avail_cnt d = Some (int (length vs))"
      "length (concat vs) < 2 ^ 31" "avail d = Mem (concat vs) \<or> vs = [] \<and> avail d = Null"
      using assms by (auto simp: form_ok_def)
    have "ptp_copy_prop_list (DataType d) (avail d) (int (length vs)) = Inr (concat vs)"
    proof (cases "vs = []")
      case True
      then show ?thesis by (simp add: ptp_copy_prop_list_def)
    next
      case False
      then show ?thesis using vs copy_prop_list_vals [of vs "DataType d" "[]" "[]"]
        by (simp add: ptp_copy_prop_list_def)
    qed
    then show ?thesis using 2 vs by (auto simp: prop_form_def form_len_def)
  next
    case 3
    then show ?thesis by (simp add: prop_form_def form_len_def)
  qed
qed

lemma propdesc_total:
  assumes "desc_ok d" "desc_len d \<le> 2000"
  shows "\<exists>bs. propdesc_dataset d = Inr bs \<and> length bs = desc_len d"
proof -
  obtain f where f: "prop_form d = Inr f" "length f = form_len d"
    using assms(1) prop_form_total by (auto simp: desc_ok_def)
  obtain v n where v: "ptp_get_prop_size (factory_default_value d) (DataType d) = Inr n"
    "put_data (factory_default_value d) n = Inr v" "factory_default_value d = Mem v"
    using assms(1) holds_put by (metis desc_ok_def)
  obtain w m where w: "ptp_get_prop_size (pd_value d) (DataType d) = Inr m"
    "put_data (pd_value d) m = Inr w" "pd_value d = Mem w"
    using assms(1) holds_put by (metis desc_ok_def)
  have "length v + length w + form_len d + 6 \<le> 2000" using assms(2) v w by (simp add: desc_len_def)
  then show ?thesis using f v w
    by (simp add: propdesc_dataset_def fits_def desc_len_def)
qed

end
