(* ===== verification/Vcam_Init.thy ===== *)
theory Vcam_Init
  imports Ops_Objects Ops_Session Ops_Props Prop_Tables
begin

text \<open>
  Setting a camera up: \<open>vcam_init_standard\<close> and \<open>vcam_parse_args\<close> of src/src/vcamera.c, and
  what the vendor modules share: the JPEG fixture and the object information of a picture in
  camera memory.
\<close>

section \<open>Arguments\<close>

definition atoi :: "string \<Rightarrow> int res" where
  "atoi s = (let (sg, r) = scan_sign (dropWhile is_space s) in c_int (sg * fst (scan_digits 10 0 r)))"

text \<open>
  \<open>argv\<close> from index \<open>*i\<close> on; the result is what is left of it behind the arguments that were
  used, or \<open>None\<close> where the C function returns 0. An option whose value is missing uses the
  null pointer at the end of \<open>argv\<close>.
\<close>

definition option_value :: "string list \<Rightarrow> (string \<times> string list) res" where
  "option_value rest = (case rest of [] \<Rightarrow> Inl Undef | x # xs \<Rightarrow> Inr (x, xs))"

definition vcam_parse_args :: "env \<Rightarrow> string \<Rightarrow> string list \<Rightarrow> vcam \<Rightarrow> (string list \<times> vcam) option res" where
  "vcam_parse_args e arg rest cam =
     (if arg = ''--ip'' then
        bnd (option_value rest) (\<lambda>(x, rest). Inr (Some (rest, cam\<lparr>custom_ip_addr := Some x\<rparr>)))
      else if arg = ''--local-ip'' then
        Inr (Some (rest, cam\<lparr>custom_ip_addr := Some (local_ip e)\<rparr>))
      else if arg = ''--fs'' then
        bnd (option_value rest) (\<lambda>(x, rest).
        bnd (read_tree e x (cam\<lparr>vcamera_filesystem := x\<rparr>)) (\<lambda>cam. Inr (Some (rest, cam))))
      else if arg = ''--dump'' then Inr (Some (rest, cam))
      else if arg = ''--sig'' then
        bnd (option_value rest) (\<lambda>(x, rest).
        bnd (atoi x) (\<lambda>n. Inr (Some (rest, cam\<lparr>sig := n\<rparr>))))
      else Inr None)"

lemma parse_args_shorter:
  "vcam_parse_args e arg rest cam = Inr (Some (rest', cam')) \<Longrightarrow> length rest' \<le> length rest"
  by (auto simp: vcam_parse_args_def option_value_def split: if_splits list.splits)

text \<open>The loop over \<open>argv\<close> of the Nikon and Sony modules: \<open>False\<close> for an unknown argument.\<close>

function parse_all_args :: "env \<Rightarrow> string list \<Rightarrow> vcam \<Rightarrow> (bool \<times> vcam) res" where
  "parse_all_args e [] cam = Inr (True, cam)"
| "parse_all_args e (arg # rest) cam =
     bnd (vcam_parse_args e arg rest cam) (\<lambda>r. case r of
       None \<Rightarrow> Inr (False, cam)
     | Some (rest', cam') \<Rightarrow> parse_all_args e rest' cam')"
  by pat_completeness auto
termination
  by (relation "measure (\<lambda>(e, args, cam). length args)") (auto dest!: parse_args_shorter)

section \<open>The standard camera\<close>

definition vcam_init_standard :: "env \<Rightarrow> vcam res" where
  "vcam_init_standard e =
     (let cam = zero_vcam\<lparr>vcamera_filesystem := pwd e @ ''/bin/card''\<rparr>
      in bnd (read_tree e (vcamera_filesystem cam) cam) (\<lambda>cam.
           let cam = cam\<lparr>props := [], opcodes := [], seqnr := 0, battery := 50, exposurebias := 123\<rparr>
           in Inr (ptp_register_standard_props (ptp_register_standard_opcodes cam))))"

section \<open>The JPEG fixture\<close>

text \<open>The payload starts at the first SOI marker, or at the start when there is none.\<close>

fun find_soi :: "byte list \<Rightarrow> byte list option" where
  "find_soi (a # b # r) = (if a = 0xff \<and> b = 0xd8 then Some (a # b # r) else find_soi (b # r))"
| "find_soi _ = None"

definition skip_to_soi :: "byte list \<Rightarrow> byte list" where
  "skip_to_soi buf = (case find_soi buf of Some r \<Rightarrow> r | None \<Rightarrow> buf)"

definition load_jpeg :: "env \<Rightarrow> byte list res" where
  "load_jpeg e =
     (case files e (pwd e @ ''/bin/eos_liveview.jpg'') of
        None \<Rightarrow> Inl Abort
      | Some content \<Rightarrow> (let d = skip_to_soi content in Inr (take (length d mod 2 ^ 32) d)))"

lemma find_soi_suffix: "find_soi buf = Some s \<Longrightarrow> \<exists>p. buf = p @ s \<and> take 2 s = [0xff, 0xd8]"
proof (induction buf rule: find_soi.induct)
  case (1 a b r)
  show ?case
  proof (cases "a = 0xff \<and> b = 0xd8")
    case True
    then show ?thesis using "1.prems" by auto
  next
    case False
    then obtain p where "b # r = p @ s" "take 2 s = [0xff, 0xd8]" using 1 by auto
    then have "a # b # r = (a # p) @ s" by simp
    then show ?thesis using \<open>take 2 s = _\<close> by blast
  qed
qed simp_all

lemma load_jpeg_len: "load_jpeg e = Inr d \<Longrightarrow> length d < 2 ^ 32"
  by (auto simp: load_jpeg_def Let_def min_def split: option.splits)

section \<open>Object information of a picture in memory\<close>

definition picture_name :: "u32 \<Rightarrow> string" where
  "picture_name count = ''DSC_'' @ fmt_dec 4 (unat count mod 10000) @ ''.JPG''"

definition memory_objectinfo :: "int \<Rightarrow> u16 \<Rightarrow> u32 \<Rightarrow> string \<Rightarrow> byte list res" where
  "memory_objectinfo xtime ofc sz name =
     bnd (xdate xtime) (\<lambda>date.
     bnd (add_string name) (\<lambda>nm.
     bnd (add_string date) (\<lambda>dt.
     bnd (add_string ''Orientation: 1'') (\<lambda>keyw.
       fits 2000
        (put_32bit_le 0 @ put_16bit_le ofc @ put_16bit_le 0 @ put_32bit_le sz @ put_16bit_le 0x3808
         @ put_32bit_le sz @ put_32bit_le 0 @ put_32bit_le 0 @ put_32bit_le 0 @ put_32bit_le 0
         @ put_32bit_le 0 @ put_32bit_le 0 @ put_16bit_le 0 @ put_32bit_le 0 @ put_32bit_le 0
         @ nm @ dt @ dt @ keyw)))))"

end
