(* ===== verification/Nikon_Models.thy ===== *)
theory Nikon_Models
  imports Prop_Tables
begin

text \<open>
  The device property tables of the Nikon models: src/src/nikon/models/d7500.c and z6_2.c. A
  row is the arguments of one \<open>nikon_add_prop\<close> call, in the order of the calls.
\<close>

definition nikon_d7500_props_1 :: "prop_row list" where
  "nikon_d7500_props_1 =
    [(0x5001, PTP_TC_UINT8, False, ''80'', Some ''range:1:1:100''),
     (0x5003, PTP_TC_STRING, True, ''5568x3712'', Some ''senum:5568x3712|4176x2784|2784x1856''),
     (0x5004, PTP_TC_UINT8, True, ''2'', Some ''enum:0,1,2,3,4,5,7,8,9,10,11,12,13''),
     (0x5005, PTP_TC_UINT16, True, ''2'', Some ''enum:2,4,5,6,7,32784,32785,32786,32787''),
     (0x5007, PTP_TC_UINT16, False, ''350'', Some ''enum:350,400,450,500,560,630,710,800,900,1000,1100,1300,1400,1600,1800,2000,2200''),
     (0x5008, PTP_TC_UINT32, False, ''1800'', Some ''range:1800:1:14000''),
     (0x500a, PTP_TC_UINT16, False, ''32786'', Some ''enum:1,32784,32785,32786,32787''),
     (0x500b, PTP_TC_UINT16, True, ''3'', Some ''enum:2,3,4,32784''),
     (0x500c, PTP_TC_UINT16, True, ''32784'', Some ''enum:2,4,32784,32786''),
     (0x500d, PTP_TC_UINT32, True, ''10000'', Some ''enum:1,2,3,4,5,6,8,10,12,15,20,25,31,40,50,62,80,100,125,166,200,250,333,400,500,666,769,1000,1250,1666,2000,2500,3333,4000,5000,6250,7692,10000,13000,16000,20000,25000,30000,40000,50000,60000,80000,100000,130000,150000,200000,250000,300000''),
     (0x500e, PTP_TC_UINT16, False, ''4'', Some ''enum:1,2,3,4,32784,32790,32792,32793,32848,32849''),
     (0x500f, PTP_TC_UINT16, True, ''100'', Some ''enum:50,64,80,100,125,160,200,250,320,400,500,640,800,1000,1250,1600,2000,2500,3200,4000,5000,6400,8000,10000,12800,16000,20000,25600,32000,40000,51200''),
     (0x5010, PTP_TC_INT16, True, ''0'', Some ''enum:-5000,-4666,-4333,-4000,-3666,-3333,-3000,-2666,-2333,-2000,-1666,-1333,-1000,-666,-333,0,333,666,1000,1333,1666,2000,2333,2666,3000,3333,3666,4000,4333,4666,5000''),
     (0x5011, PTP_TC_STRING, True, ''20170901T224452'', None),
     (0x5013, PTP_TC_UINT16, False, ''1'', Some ''enum:1,2,32784,32785,32786,32790,32792''),
     (0x5018, PTP_TC_UINT16, True, ''1'', Some ''range:1:1:100''),
     (0x501c, PTP_TC_UINT16, True, ''32785'', Some ''enum:2,32784,32785,32786,32787,32788,32789''),
     (0x501e, PTP_TC_STRING, False, '''', None),
     (0x501f, PTP_TC_STRING, False, '''', None),
     (0xd303, PTP_TC_UINT8, False, ''1'', None),
     (0xd406, PTP_TC_STRING, True, ''Windows/6.0.5330.0 MTPClassDriver/6.0.5330.0'', None),
     (0xd407, PTP_TC_UINT32, False, ''1'', None),
     (0xd015, PTP_TC_UINT8, True, ''0'', Some ''range:0:1:1''),
     (0xd016, PTP_TC_UINT8, True, ''0'', Some ''range:0:1:1''),
     (0xd017, PTP_TC_UINT16, True, ''612'', Some ''range:0:1:1224''),
     (0xd018, PTP_TC_UINT16, True, ''612'', Some ''range:0:1:1224''),
     (0xd019, PTP_TC_UINT16, True, ''612'', Some ''range:0:1:1224''),
     (0xd01a, PTP_TC_UINT16, True, ''612'', Some ''range:0:1:1224''),
     (0xd01b, PTP_TC_UINT16, True, ''612'', Some ''range:0:1:1224''),
     (0xd01c, PTP_TC_UINT16, True, ''612'', Some ''range:0:1:1224''),
     (0xd01d, PTP_TC_UINT16, True, ''612'', Some ''range:0:1:1224''),
     (0xd01e, PTP_TC_UINT16, True, ''5000'', Some ''range:2500:10:10000''),
     (0xd01f, PTP_TC_UINT8, True, ''1'', Some ''range:1:1:6''),
     (0xd021, PTP_TC_STRING, True, ''                                    '', None),
     (0xd022, PTP_TC_STRING, True, ''                                    '', None),
     (0xd023, PTP_TC_STRING, True, ''                                    '', None),
     (0xd024, PTP_TC_STRING, True, ''                                    '', None),
     (0xd026, PTP_TC_UINT32, False, ''304876602'', None),
     (0xd027, PTP_TC_UINT32, False, ''304876602'', None),
     (0xd028, PTP_TC_UINT32, False, ''304876602'', None),
     (0xd029, PTP_TC_UINT32, False, ''304876602'', None),
     (0xd030, PTP_TC_UINT8, True, ''0'', Some ''range:0:1:1''),
     (0xd032, PTP_TC_UINT8, True, ''0'', Some ''range:0:1:1''),
     (0xd034, PTP_TC_UINT8, True, ''2'', Some ''range:0:1:2''),
     (0xd037, PTP_TC_UINT8, True, ''10'', Some ''range:0:1:10''),
     (0xd038, PTP_TC_STRING, True, ''                                    '', None),
     (0xd039, PTP_TC_STRING, True, ''                                    '', None),
     (0xd03a, PTP_TC_UINT16, True, ''612'', Some ''range:0:1:1224''),
     (0xd03b, PTP_TC_UINT16, True, ''612'', Some ''range:0:1:1224''),
     (0xd03c, PTP_TC_UINT8, True, ''0'', Some ''range:0:1:1''),
     (0xd03d, PTP_TC_UINT8, True, ''0'', Some ''range:0:1:1''),
     (0xd03e, PTP_TC_UINT32, False, ''304876602'', None),
     (0xd03f, PTP_TC_UINT32, False, ''304876602'', None),
     (0xd045, PTP_TC_UINT8, True, ''0'', Some ''range:0:1:1''),
     (0xd048, PTP_TC_UINT8, True, ''0'', Some ''range:0:1:1''),
     (0xd049, PTP_TC_UINT8, True, ''0'', Some ''range:0:1:1''),
     (0xd04f, PTP_TC_UINT8, True, ''0'', Some ''range:0:1:1''),
     (0xd051, PTP_TC_UINT8, True, ''2'', Some ''range:0:1:5''),
     (0xd053, PTP_TC_UINT8, True, ''0'', Some ''range:0:1:1''),
     (0xd054, PTP_TC_UINT8, True, ''1'', Some ''range:0:1:1''),
     (0xd055, PTP_TC_UINT8, True, ''0'', Some ''range:0:1:1''),
     (0xd056, PTP_TC_UINT8, True, ''0'', Some ''range:0:1:1''),
     (0xd059, PTP_TC_UINT8, True, ''1'', Some ''range:0:1:4''),
     (0xd05a, PTP_TC_INT8, True, ''0'', Some ''range:-6:1:6''),
     (0xd05b, PTP_TC_INT8, True, ''0'', Some ''range:-6:1:6''),
     (0xd05c, PTP_TC_INT8, True, ''0'', Some ''range:-6:1:6''),
     (0xd05d, PTP_TC_UINT8, True, ''1'', Some ''range:0:1:3''),
     (0xd061, PTP_TC_UINT8, True, ''0'', Some ''enum:0,2,3,4''),
     (0xd067, PTP_TC_INT32, False, ''28572'', None),
     (0xd068, PTP_TC_UINT8, True, ''6'', Some ''range:2:1:8''),
     (0xd069, PTP_TC_UINT8, True, ''100'', Some ''range:1:1:100''),
     (0xd06a, PTP_TC_UINT8, True, ''3'', Some ''range:0:1:3''),
     (0xd06b, PTP_TC_UINT8, True, ''0'', Some ''range:0:1:1''),
     (0xd06c, PTP_TC_UINT8, True, ''1'', Some ''range:0:1:2''),
     (0xd070, PTP_TC_UINT8, True, ''2'', Some ''range:0:1:3''),
     (0xd072, PTP_TC_STRING, True, '''', None),
     (0xd073, PTP_TC_STRING, True, '''', None),
     (0xd074, PTP_TC_UINT8, True, ''2'', Some ''range:0:1:8''),
     (0xd075, PTP_TC_UINT8, True, ''0'', Some ''range:0:1:11''),
     (0xd078, PTP_TC_UINT8, True, ''0'', Some ''range:0:1:4''),
     (0xd07a, PTP_TC_UINT8, True, ''0'', Some ''range:0:1:1''),
     (0xd07d, PTP_TC_INT32, False, ''213962'', None),
     (0xd07e, PTP_TC_INT32, False, ''-1'', None),
     (0xd08a, PTP_TC_UINT8, True, ''0'', Some ''range:0:1:1''),
     (0xd08d, PTP_TC_UINT8, True, ''0'', Some ''range:0:1:1''),
     (0xd08f, PTP_TC_UINT8, True, ''3'', Some ''range:0:1:3''),
     (0xd090, PTP_TC_STRING, True, '''', None),
     (0xd091, PTP_TC_UINT8, True, ''0'', Some ''range:0:1:1''),
     (0xd092, PTP_TC_UINT8, True, ''0'', Some ''range:0:1:1''),
     (0xd09c, PTP_TC_UINT8, False, ''0'', Some ''range:0:1:1''),
     (0xd09f, PTP_TC_UINT8, True, ''1'', Some ''range:0:1:1''),
     (0xd0a0, PTP_TC_UINT8, True, ''3'', Some ''range:0:1:9''),
     (0xd0a2, PTP_TC_UINT8, True, ''0'', Some ''range:0:1:5''),
     (0xd0a4, PTP_TC_UINT32, False, ''0'', None),
     (0xd0a7, PTP_TC_UINT8, True, ''1'', Some ''range:0:1:1''),
     (0xd0a8, PTP_TC_UINT8, True, ''15'', Some ''range:1:1:20''),
     (0xd0aa, PTP_TC_UINT8, True, ''0'', Some ''range:0:1:1''),
     (0xd0ab, PTP_TC_UINT16, False, ''32894'', None),
     (0xd0ac, PTP_TC_UINT8, True, ''0'', Some ''range:0:1:1''),
     (0xd0ad, PTP_TC_UINT8, True, ''0'', Some ''range:0:1:1''),
     (0xd0ae, PTP_TC_UINT8, True, ''32'', Some ''range:0:1:40''),
     (0xd0af, PTP_TC_UINT8, True, ''0'', Some ''enum:0,1''),
     (0xd0b4, PTP_TC_UINT32, True, ''100'', Some ''enum:50,64,80,100,125,160,200,250,320,400,500,640,800,1000,1250,1600,2000,2500,3200,4000,5000,6400,8000,10000,12800,16000,20000,25600,32000,40000,51200,64000,81200,102400,204800,409600,820000,1640000''),
     (0xd0b5, PTP_TC_UINT32, False, ''1100'', None),
     (0xd0b7, PTP_TC_UINT8, True, ''0'', Some ''range:0:1:1''),
     (0xd0c0, PTP_TC_UINT8, True, ''0'', Some ''range:0:1:1''),
     (0xd0c1, PTP_TC_UINT8, False, ''3'', Some ''range:0:1:5''),
     (0xd0c2, PTP_TC_UINT8, False, ''0'', Some ''range:0:1:7''),
     (0xd0c3, PTP_TC_UINT8, False, ''1'', Some ''range:1:1:1''),
     (0xd0c4, PTP_TC_UINT8, False, ''0'', Some ''range:0:1:2''),
     (0xd0c5, PTP_TC_UINT8, False, ''2'', Some ''range:0:1:2''),
     (0xd0c6, PTP_TC_UINT8, False, ''0'', Some ''range:0:1:3''),
     (0xd0c7, PTP_TC_UINT8, False, ''0'', Some ''range:0:1:4''),
     (0xd0e0, PTP_TC_UINT16, False, ''416'', None),
     (0xd0e1, PTP_TC_UINT8, False, ''1'', Some ''range:0:1:1''),
     (0xd0e2, PTP_TC_UINT64, False, ''63'', None),
     (0xd0e3, PTP_TC_UINT32, False, ''1800'', None),
     (0xd0e4, PTP_TC_UINT32, False, ''14000'', None),
     (0xd0e5, PTP_TC_UINT16, False, ''350'', None)]"

definition nikon_d7500_props_2 :: "prop_row list" where
  "nikon_d7500_props_2 =
    [(0xd0e6, PTP_TC_UINT16, False, ''560'', None),
     (0xd0f7, PTP_TC_UINT8, True, ''1'', Some ''range:0:1:3''),
     (0xd0f8, PTP_TC_UINT8, True, ''0'', Some ''range:0:1:1''),
     (0xd0f9, PTP_TC_UINT8, True, ''13'', Some ''range:0:1:18''),
     (0xd0fc, PTP_TC_UINT8, False, ''19'', Some ''range:0:1:32''),
     (0xd0fd, PTP_TC_UINT8, False, ''19'', Some ''range:0:1:32''),
     (0xd100, PTP_TC_UINT32, True, ''65537'', Some ''enum:73536,71936,70536,69536,68736,68036,67536,67136,66786,66536,66336,66176,66036,65936,65856,65786,65736,65696,65661,65636,65616,65596,65586,65576,65566,65561,65556,65551,65549,65546,65544,65542,65541,65540,65539,655385,65538,655376,655373,65537,851978,1048586,131073,1638410,196609,262145,327681,393217,524289,655361,851969,983041,1310721,1638401,1966081,4294967294''),
     (0xd101, PTP_TC_UINT8, False, ''0'', Some ''range:0:1:1''),
     (0xd102, PTP_TC_UINT8, False, ''0'', None),
     (0xd104, PTP_TC_UINT8, False, ''0'', Some ''range:0:1:1''),
     (0xd105, PTP_TC_UINT8, False, ''0'', Some ''range:0:1:1''),
     (0xd106, PTP_TC_UINT8, False, ''0'', Some ''range:0:1:1''),
     (0xd108, PTP_TC_UINT8, True, ''0'', Some ''range:0:1:51''),
     (0xd109, PTP_TC_INT8, True, ''0'', Some ''range:-30:2:30''),
     (0xd10b, PTP_TC_UINT8, True, ''0'', Some ''range:0:1:2''),
     (0xd10e, PTP_TC_UINT8, False, ''0'', Some ''range:0:1:3''),
     (0xd118, PTP_TC_UINT8, True, ''0'', Some ''range:0:1:1''),
     (0xd120, PTP_TC_UINT8, False, ''0'', Some ''range:0:1:1''),
     (0xd121, PTP_TC_UINT8, False, ''0'', Some ''range:0:1:1''),
     (0xd122, PTP_TC_UINT8, False, ''0'', Some ''range:0:1:3''),
     (0xd124, PTP_TC_INT8, False, ''0'', Some ''range:-18:1:18''),
     (0xd125, PTP_TC_UINT8, False, ''0'', Some ''range:0:1:7''),
     (0xd126, PTP_TC_INT8, True, ''0'', Some ''range:-18:2:6''),
     (0xd12d, PTP_TC_UINT8, False, ''0'', Some ''range:0:1:1''),
     (0xd130, PTP_TC_UINT8, True, ''0'', Some ''range:0:1:2''),
     (0xd132, PTP_TC_UINT8, True, ''3'', Some ''range:0:1:4''),
     (0xd141, PTP_TC_UINT8, True, ''0'', Some ''range:0:1:1''),
     (0xd149, PTP_TC_UINT8, True, ''1'', Some ''range:0:1:1''),
     (0xd14e, PTP_TC_UINT8, True, ''1'', Some ''range:0:1:5''),
     (0xd14f, PTP_TC_UINT8, True, ''3'', Some ''range:0:1:6''),
     (0xd150, PTP_TC_UINT8, True, ''24'', Some ''range:0:1:48''),
     (0xd152, PTP_TC_UINT16, True, ''612'', Some ''range:0:1:1224''),
     (0xd153, PTP_TC_UINT16, True, ''612'', Some ''range:0:1:1224''),
     (0xd154, PTP_TC_UINT16, True, ''612'', Some ''range:0:1:1224''),
     (0xd155, PTP_TC_UINT16, True, ''612'', Some ''range:0:1:1224''),
     (0xd158, PTP_TC_UINT8, True, ''0'', Some ''range:0:1:1''),
     (0xd159, PTP_TC_UINT8, True, ''0'', Some ''range:0:1:1''),
     (0xd15a, PTP_TC_UINT8, True, ''0'', Some ''range:0:1:1''),
     (0xd15b, PTP_TC_UINT16, False, ''100'', Some ''range:100:1:999''),
     (0xd15c, PTP_TC_UINT8, True, ''0'', Some ''range:0:1:1''),
     (0xd15d, PTP_TC_UINT8, True, ''0'', Some ''range:0:1:1''),
     (0xd161, PTP_TC_UINT8, True, ''2'', Some ''range:0:1:4''),
     (0xd164, PTP_TC_UINT8, True, ''32'', Some ''range:0:1:32''),
     (0xd167, PTP_TC_UINT8, True, ''0'', Some ''range:0:1:2''),
     (0xd16a, PTP_TC_UINT8, True, ''1'', Some ''range:0:1:1''),
     (0xd183, PTP_TC_UINT8, True, ''32'', Some ''range:0:1:40''),
     (0xd197, PTP_TC_UINT8, True, ''0'', Some ''enum:0,1''),
     (0xd199, PTP_TC_UINT8, True, ''41'', Some ''range:0:1:41''),
     (0xd1a2, PTP_TC_UINT8, False, ''0'', Some ''range:0:1:1''),
     (0xd1a3, PTP_TC_UINT8, True, ''0'', Some ''range:0:1:7''),
     (0xd1a4, PTP_TC_UINT32, False, ''0'', None),
     (0xd1a5, PTP_TC_UINT8, False, ''0'', Some ''enum:0,1''),
     (0xd1a6, PTP_TC_UINT8, False, ''0'', Some ''enum:0,1''),
     (0xd1a8, PTP_TC_UINT32, False, ''73536'', Some ''enum:73536,71936,70536,69536,68736,68036,67536,67136,66786,66536,66336,66176,66036,65936,65856,65786,65736,65696,65661,65636,65616,65596''),
     (0xd1a9, PTP_TC_UINT16, False, ''0'', Some ''enum:0''),
     (0xd1aa, PTP_TC_UINT32, True, ''100'', Some ''enum:100,125,160,200,250,320,400,500,640,800,1000,1250,1600,2000,2500,3200,4000,5000,6400,8000,10000,12800,16000,20000,25600,32000,40000,51200,64000,81200,102400,204800,409600,820000,1640000''),
     (0xd1ab, PTP_TC_INT16, False, ''0'', Some ''enum:-3000,-2666,-2333,-2000,-1666,-1333,-1000,-666,-333,0,333,666,1000,1333,1666,2000,2333,2666,3000''),
     (0xd1ac, PTP_TC_UINT8, True, ''2'', Some ''enum:1,2,3''),
     (0xd1af, PTP_TC_UINT16, False, ''3'', Some ''enum:2,3,32784''),
     (0xd1b0, PTP_TC_UINT8, False, ''2'', Some ''range:0:1:3''),
     (0xd1b1, PTP_TC_INT8, False, ''0'', Some ''range:-60:1:60''),
     (0xd1b2, PTP_TC_UINT8, False, ''0'', Some ''range:0:1:1''),
     (0xd1b3, PTP_TC_UINT8, False, ''0'', Some ''range:0:1:1''),
     (0xd1b4, PTP_TC_UINT8, False, ''100'', Some ''range:0:1:100''),
     (0xd1c0, PTP_TC_UINT8, False, ''0'', Some ''range:0:1:1''),
     (0xd1c1, PTP_TC_UINT8, False, ''0'', Some ''range:0:1:1''),
     (0xd1f0, PTP_TC_UINT8, True, ''0'', Some ''range:0:1:1''),
     (0xd1f1, PTP_TC_UINT32, False, ''16813'', Some ''range:0:1:4294967295''),
     (0xd1f4, PTP_TC_INT8, True, ''0'', Some ''range:-2:1:2''),
     (0xd1f6, PTP_TC_UINT8, False, ''0'', Some ''range:0:1:1''),
     (0xd1f7, PTP_TC_UINT8, False, ''0'', Some ''range:0:1:2''),
     (0xd200, PTP_TC_UINT16, True, ''8'', Some ''enum:1,2,3,4,5,6,7,8,201,202,203,204,205,206,207,208,209''),
     (0xd201, PTP_TC_UINT16, False, ''0'', Some ''enum:''),
     (0xd20d, PTP_TC_UINT8, True, ''0'', Some ''range:0:1:1''),
     (0xd20e, PTP_TC_UINT8, True, ''0'', Some ''range:0:1:1''),
     (0xd20f, PTP_TC_UINT8, True, ''0'', Some ''range:0:1:1''),
     (0xd211, PTP_TC_UINT8, True, ''0'', Some ''range:0:1:1''),
     (0xd212, PTP_TC_UINT16, True, ''612'', Some ''range:0:1:1224''),
     (0xd213, PTP_TC_UINT16, True, ''612'', Some ''range:0:1:1224''),
     (0xd214, PTP_TC_UINT8, True, ''3'', Some ''range:0:1:6''),
     (0xd215, PTP_TC_UINT16, True, ''612'', Some ''range:0:1:1224''),
     (0xd216, PTP_TC_UINT16, True, ''612'', Some ''range:0:1:1224''),
     (0xd218, PTP_TC_UINT16, True, ''612'', Some ''range:0:1:1224''),
     (0xd219, PTP_TC_UINT16, True, ''612'', Some ''range:0:1:1224''),
     (0xd21a, PTP_TC_UINT16, True, ''5000'', Some ''range:2500:10:10000''),
     (0xd21b, PTP_TC_UINT8, True, ''24'', Some ''range:0:1:48''),
     (0xd21c, PTP_TC_UINT8, True, ''1'', Some ''range:1:1:6''),
     (0xd21d, PTP_TC_STRING, True, ''                                    '', None),
     (0xd21e, PTP_TC_STRING, True, ''                                    '', None),
     (0xd21f, PTP_TC_STRING, True, ''                                    '', None),
     (0xd220, PTP_TC_STRING, True, ''                                    '', None),
     (0xd221, PTP_TC_STRING, True, ''                                    '', None),
     (0xd222, PTP_TC_STRING, True, ''                                    '', None),
     (0xd223, PTP_TC_UINT32, False, ''304876602'', None),
     (0xd224, PTP_TC_UINT32, False, ''304876602'', None),
     (0xd225, PTP_TC_UINT32, False, ''304876602'', None),
     (0xd226, PTP_TC_UINT32, False, ''304876602'', None),
     (0xd227, PTP_TC_UINT32, False, ''304876602'', None),
     (0xd228, PTP_TC_UINT32, False, ''304876602'', None),
     (0xd229, PTP_TC_UINT16, True, ''612'', Some ''range:0:1:1224''),
     (0xd22a, PTP_TC_UINT16, True, ''612'', Some ''range:0:1:1224''),
     (0xd22b, PTP_TC_UINT16, True, ''612'', Some ''range:0:1:1224''),
     (0xd22c, PTP_TC_UINT16, True, ''612'', Some ''range:0:1:1224''),
     (0xd22d, PTP_TC_UINT16, True, ''612'', Some ''range:0:1:1224''),
     (0xd22e, PTP_TC_UINT16, True, ''612'', Some ''range:0:1:1224''),
     (0xd22f, PTP_TC_UINT8, True, ''0'', Some ''range:0:1:1''),
     (0xd230, PTP_TC_UINT8, True, ''0'', Some ''range:0:1:1''),
     (0xd231, PTP_TC_UINT8, True, ''0'', Some ''range:0:1:1''),
     (0xd232, PTP_TC_UINT8, True, ''0'', Some ''range:0:1:1''),
     (0xd233, PTP_TC_UINT8, True, ''0'', Some ''range:0:1:1''),
     (0xd234, PTP_TC_UINT8, True, ''0'', Some ''range:0:1:1''),
     (0xd235, PTP_TC_UINT8, True, ''0'', Some ''range:0:1:1''),
     (0xd236, PTP_TC_UINT8, True, ''2'', Some ''range:0:1:3''),
     (0xd237, PTP_TC_UINT16, True, ''100'', Some ''enum:1,2,3,4,5,6,7,8,100,201,202,203,204,205,206,207,208,209''),
     (0xd238, PTP_TC_UINT16, False, ''0'', Some ''enum:''),
     (0xd239, PTP_TC_INT8, True, ''0'', Some ''range:-6:1:6''),
     (0xd23a, PTP_TC_UINT16, True, ''32789'', Some ''enum:2,4,5,6,32784,32785,32786,32787,32789''),
     (0xd23b, PTP_TC_UINT8, True, ''0'', Some ''range:0:1:5''),
     (0xd314, PTP_TC_UINT8, True, ''1'', Some ''range:0:1:1'')]"

definition nikon_register_model_d7500 :: "vcam \<Rightarrow> vcam" where
  "nikon_register_model_d7500 cam = nikon_add_rows nikon_d7500_props_2 (nikon_add_rows nikon_d7500_props_1 cam)"

definition nikon_z6_2_props_1 :: "prop_row list" where
  "nikon_z6_2_props_1 =
    [(0x5001, PTP_TC_UINT8, False, ''100'', Some ''range:1:1:100''),
     (0x5003, PTP_TC_STRING, True, ''4528x3016'', Some ''senum:6048x4024|4528x3016|3024x2016''),
     (0x5004, PTP_TC_UINT8, True, ''1'', Some ''enum:0,1,2,3,4,5,7,8,9,10,11,12,13''),
     (0x5005, PTP_TC_UINT16, True, ''2'', Some ''enum:2,4,5,6,7,32784,32785,32786,32787,32790''),
     (0x5007, PTP_TC_UINT16, True, ''560'', Some ''enum:180,200,220,250,280,320,350,400,450,500,560,630,710,800,900,1000,1100,1300,1400,1600''),
     (0x5008, PTP_TC_UINT32, False, ''3500'', Some ''range:3500:1:3500''),
     (0x500a, PTP_TC_UINT16, False, ''32784'', Some ''enum:1,32784,32785,32787''),
     (0x500b, PTP_TC_UINT16, True, ''3'', Some ''enum:2,3,4,32784''),
     (0x500c, PTP_TC_UINT16, True, ''2'', Some ''enum:2''),
     (0x500d, PTP_TC_UINT32, True, ''25'', Some ''enum:1,2,3,4,5,6,8,10,12,15,20,25,31,40,50,62,80,100,125,166,200,250,333,400,500,666,769,1000,1250,1666,2000,2500,3333,4000,5000,6250,7692,10000,13000,16000,20000,25000,30000,40000,50000,60000,80000,100000,130000,150000,200000,250000,300000,4294967295,4294967293''),
     (0x500e, PTP_TC_UINT16, False, ''1'', Some ''enum:1,2,3,4,32784,32848,32849,32850''),
     (0x500f, PTP_TC_UINT16, True, ''400'', Some ''enum:50,64,80,100,125,160,200,250,320,400,500,640,800,1000,1250,1600,2000,2500,3200,4000,5000,6400,8000,10000,12800,16000,20000,25600,32000,40000,51200''),
     (0x5010, PTP_TC_INT16, True, ''0'', Some ''enum:-5000,-4666,-4333,-4000,-3666,-3333,-3000,-2666,-2333,-2000,-1666,-1333,-1000,-666,-333,0,333,666,1000,1333,1666,2000,2333,2666,3000,3333,3666,4000,4333,4666,5000''),
     (0x5011, PTP_TC_STRING, True, ''20200203T044858'', None),
     (0x5013, PTP_TC_UINT16, True, ''1'', Some ''enum:1,2,32784,32785,32793''),
     (0x5018, PTP_TC_UINT16, True, ''1'', Some ''range:1:1:65535''),
     (0x501e, PTP_TC_STRING, False, '''', None),
     (0x501f, PTP_TC_STRING, False, '''', None),
     (0xd303, PTP_TC_UINT8, False, ''1'', None),
     (0xd406, PTP_TC_STRING, True, ''Windows/6.0.5330.0 MTPClassDriver/6.0.5330.0'', None),
     (0xd407, PTP_TC_UINT32, False, ''1'', None),
     (0xd016, PTP_TC_UINT8, True, ''0'', Some ''enum:0,1,2''),
     (0xd017, PTP_TC_UINT16, True, ''612'', Some ''range:0:1:1224''),
     (0xd018, PTP_TC_UINT16, True, ''612'', Some ''range:0:1:1224''),
     (0xd019, PTP_TC_UINT16, True, ''612'', Some ''range:0:1:1224''),
     (0xd01a, PTP_TC_UINT16, True, ''612'', Some ''range:0:1:1224''),
     (0xd01b, PTP_TC_UINT16, True, ''612'', Some ''range:0:1:1224''),
     (0xd01c, PTP_TC_UINT16, True, ''612'', Some ''range:0:1:1224''),
     (0xd01d, PTP_TC_UINT16, True, ''612'', Some ''range:0:1:1224''),
     (0xd01e, PTP_TC_UINT16, True, ''5000'', Some ''range:2500:10:10000''),
     (0xd01f, PTP_TC_UINT8, True, ''1'', Some ''range:1:1:6''),
     (0xd021, PTP_TC_STRING, True, ''                                    '', None),
     (0xd022, PTP_TC_STRING, True, ''                                    '', None),
     (0xd023, PTP_TC_STRING, True, ''                                    '', None),
     (0xd024, PTP_TC_STRING, True, ''                                    '', None),
     (0xd026, PTP_TC_UINT32, False, ''231738032'', None),
     (0xd027, PTP_TC_UINT32, False, ''231738032'', None),
     (0xd028, PTP_TC_UINT32, False, ''231738032'', None),
     (0xd029, PTP_TC_UINT32, False, ''231738032'', None),
     (0xd02e, PTP_TC_UINT16, True, ''0'', Some ''enum:0,6,8,13,15,16,18,20,24,25,28,35,43,45,50,55,58,70,80,85,86,100,105,135,180,200,300,360,400,500,600,800,1000,1200,1400,1600,2000,2400,2800,3200,4000''),
     (0xd02f, PTP_TC_UINT16, True, ''0'', Some ''enum:0,120,140,180,200,250,280,330,350,400,450,500,560,630,710,800,950,1100,1300,1500,1600,1900,2200''),
     (0xd030, PTP_TC_UINT8, True, ''0'', Some ''enum:0,2,4,5''),
     (0xd032, PTP_TC_UINT8, True, ''0'', Some ''enum:0,1''),
     (0xd034, PTP_TC_UINT8, True, ''255'', Some ''enum:0,1,255''),
     (0xd038, PTP_TC_STRING, True, ''                                    '', None),
     (0xd039, PTP_TC_STRING, True, ''                                    '', None),
     (0xd03a, PTP_TC_UINT16, True, ''612'', Some ''range:0:1:1224''),
     (0xd03b, PTP_TC_UINT16, True, ''612'', Some ''range:0:1:1224''),
     (0xd03c, PTP_TC_UINT8, True, ''0'', Some ''range:0:1:1''),
     (0xd03d, PTP_TC_UINT8, True, ''0'', Some ''range:0:1:1''),
     (0xd03e, PTP_TC_UINT32, False, ''231738032'', None),
     (0xd03f, PTP_TC_UINT32, False, ''231738032'', None),
     (0xd046, PTP_TC_UINT8, True, ''3'', Some ''range:1:1:5''),
     (0xd048, PTP_TC_UINT8, True, ''0'', Some ''enum:0,3''),
     (0xd049, PTP_TC_UINT8, True, ''3'', Some ''enum:0,3''),
     (0xd053, PTP_TC_UINT8, True, ''0'', Some ''range:0:1:1''),
     (0xd054, PTP_TC_UINT8, True, ''0'', Some ''range:0:1:1''),
     (0xd056, PTP_TC_UINT8, True, ''2'', Some ''enum:2,3''),
     (0xd059, PTP_TC_UINT8, True, ''12'', Some ''enum:12,255''),
     (0xd05a, PTP_TC_INT8, True, ''0'', Some ''range:-6:1:6''),
     (0xd05b, PTP_TC_INT8, True, ''0'', Some ''range:-6:1:6''),
     (0xd05c, PTP_TC_INT8, True, ''0'', Some ''range:-6:1:6''),
     (0xd05d, PTP_TC_UINT16, True, ''32800'', Some ''enum:32784,32785,32791,32792,32793,32794,32795,32800,32801''),
     (0xd061, PTP_TC_UINT8, True, ''0'', Some ''enum:0,1,4''),
     (0xd067, PTP_TC_INT32, False, ''36094'', None),
     (0xd068, PTP_TC_UINT8, True, ''3'', Some ''enum:1,2,3,4,5''),
     (0xd069, PTP_TC_UINT8, True, ''200'', Some ''range:1:1:200''),
     (0xd06a, PTP_TC_UINT8, True, ''0'', Some ''enum:0,2,5,10,20,30''),
     (0xd06b, PTP_TC_UINT8, True, ''0'', Some ''range:0:1:1''),
     (0xd06c, PTP_TC_UINT8, True, ''1'', Some ''range:0:1:1''),
     (0xd070, PTP_TC_UINT16, True, ''3'', Some ''enum:0,2,3,4''),
     (0xd072, PTP_TC_STRING, True, '''', None),
     (0xd073, PTP_TC_STRING, True, '''', None),
     (0xd074, PTP_TC_UINT32, True, ''65736'', Some ''enum:2147549384,65736,65696,65661,65636,65616,65596''),
     (0xd075, PTP_TC_UINT32, True, ''65596'', Some ''enum:65537,65538,65540,65544,65551,65566,65596,131073,262145,524289,983041,1966081''),
     (0xd078, PTP_TC_UINT8, True, ''0'', Some ''enum:0,1,2,3,4''),
     (0xd079, PTP_TC_UINT8, True, ''0'', Some ''enum:0,1,2,3''),
     (0xd07a, PTP_TC_UINT8, True, ''0'', Some ''enum:0,1''),
     (0xd07c, PTP_TC_UINT8, False, ''1'', Some ''enum:0,1''),
     (0xd07d, PTP_TC_INT32, False, ''23565562'', None),
     (0xd07e, PTP_TC_INT32, False, ''-1'', None),
     (0xd08a, PTP_TC_UINT8, True, ''1'', Some ''enum:0,1''),
     (0xd08d, PTP_TC_UINT8, True, ''0'', Some ''enum:0,1''),
     (0xd08f, PTP_TC_UINT8, True, ''2'', Some ''enum:0,2''),
     (0xd090, PTP_TC_STRING, True, '''', None),
     (0xd091, PTP_TC_UINT8, True, ''0'', Some ''range:0:1:1''),
     (0xd093, PTP_TC_UINT8, True, ''0'', Some ''range:0:1:19''),
     (0xd09c, PTP_TC_UINT8, False, ''0'', Some ''range:0:1:1''),
     (0xd0a0, PTP_TC_UINT64, True, ''251660400'', Some ''enum:251660400,251660400,251660400,125830200,125830200,125830200,125830200,125830200,125830200,125830200,125830200,125830200,125830200''),
     (0xd0a2, PTP_TC_UINT8, True, ''0'', Some ''enum:0,1,2''),
     (0xd0a3, PTP_TC_UINT8, True, ''1'', Some ''enum:1,2''),
     (0xd0a4, PTP_TC_UINT32, False, ''24576'', None),
     (0xd0a7, PTP_TC_UINT8, False, ''0'', Some ''enum:0,1''),
     (0xd0a8, PTP_TC_UINT8, True, ''15'', Some ''range:1:1:20''),
     (0xd0aa, PTP_TC_UINT8, True, ''0'', Some ''range:0:1:1''),
     (0xd0ac, PTP_TC_UINT8, True, ''0'', Some ''enum:0,1''),
     (0xd0ad, PTP_TC_UINT8, True, ''1'', Some ''range:0:1:1''),
     (0xd0ae, PTP_TC_UINT32, True, ''51200'', Some ''enum:200,250,320,400,500,640,800,1000,1250,1600,2000,2500,3200,4000,5000,6400,8000,10000,12800,16000,20000,25600,32000,40000,51200,64000,81200,102400,204800''),
     (0xd0af, PTP_TC_UINT8, True, ''1'', Some ''enum:0,1''),
     (0xd0b4, PTP_TC_UINT32, True, ''400'', Some ''enum:50,64,80,100,125,160,200,250,320,400,500,640,800,1000,1250,1600,2000,2500,3200,4000,5000,6400,8000,10000,12800,16000,20000,25600,32000,40000,51200''),
     (0xd0b5, PTP_TC_UINT32, False, ''400'', None),
     (0xd0b6, PTP_TC_STRING, True, ''6048x4024'', Some ''senum:6048x4024|4528x3016|3024x2016''),
     (0xd0b7, PTP_TC_UINT8, True, ''0'', Some ''range:0:1:1''),
     (0xd0ba, PTP_TC_UINT8, True, ''1'', Some ''enum:0,1''),
     (0xd0bb, PTP_TC_UINT8, False, ''0'', Some ''enum:0,1''),
     (0xd0bc, PTP_TC_UINT8, True, ''1'', Some ''enum:0,1''),
     (0xd0bd, PTP_TC_UINT32, False, ''0'', None),
     (0xd0be, PTP_TC_UINT16, False, ''0'', Some ''range:0:1:900''),
     (0xd0bf, PTP_TC_UINT8, False, ''0'', Some ''enum:0,1,2''),
     (0xd0c0, PTP_TC_UINT8, True, ''0'', Some ''range:0:1:1''),
     (0xd0c1, PTP_TC_UINT8, True, ''6'', Some ''enum:2,4,6,12,18''),
     (0xd0c2, PTP_TC_UINT16, True, ''0'', Some ''enum:0,258,514,259,515,1027,1029,1031,1033''),
     (0xd0c3, PTP_TC_UINT8, False, ''1'', Some ''range:1:1:0''),
     (0xd0c4, PTP_TC_UINT8, False, ''1'', Some ''enum:1,2,3''),
     (0xd0c5, PTP_TC_UINT16, False, ''0'', Some ''enum:0,258,514,259,515,1027,1029,1031,1033''),
     (0xd0c6, PTP_TC_UINT16, False, ''0'', Some ''enum:0,2,3,4,5''),
     (0xd0c7, PTP_TC_UINT16, False, ''65535'', Some ''enum:2,3,4,5,65535''),
     (0xd0cc, PTP_TC_UINT8, True, ''0'', Some ''enum:0,1''),
     (0xd0cd, PTP_TC_UINT8, True, ''0'', Some ''enum:0,1''),
     (0xd0e0, PTP_TC_UINT16, False, ''4'', None),
     (0xd0e1, PTP_TC_UINT8, False, ''1'', Some ''range:0:1:1''),
     (0xd0e2, PTP_TC_UINT64, False, ''0'', None),
     (0xd0e3, PTP_TC_UINT32, False, ''3500'', None),
     (0xd0e4, PTP_TC_UINT32, False, ''3500'', None),
     (0xd0e5, PTP_TC_UINT16, False, ''180'', None),
     (0xd0e6, PTP_TC_UINT16, False, ''180'', None),
     (0xd0e7, PTP_TC_UINT64, False, ''0'', None),
     (0xd0f7, PTP_TC_UINT16, True, ''3'', Some ''enum:0,2,3,4''),
     (0xd0f8, PTP_TC_UINT8, True, ''1'', Some ''range:0:1:1''),
     (0xd0fc, PTP_TC_UINT8, False, ''19'', Some ''range:19:1:23''),
     (0xd100, PTP_TC_UINT32, True, ''65936'', Some ''enum:73536,71936,70536,69536,68736,68036,67536,67136,66786,66536,66336,66176,66036,65936,65856,65786,65736,65696,65661,65636,65616,65596,65586,65576,65566,65561,65556,65551,65549,65546,65544,65542,65541,65540,65539,655385,65538,655376,655373,65537,851978,1048586,131073,1638410,196609,262145,327681,393217,524289,655361,851969,983041,1310721,1638401,1966081,4294967295,4294967293,4294967294''),
     (0xd101, PTP_TC_UINT8, False, ''1'', Some ''enum:0,1''),
     (0xd102, PTP_TC_UINT32, False, ''0'', None),
     (0xd104, PTP_TC_UINT8, False, ''0'', Some ''range:0:1:1''),
     (0xd105, PTP_TC_UINT8, False, ''0'', Some ''range:0:1:1''),
     (0xd106, PTP_TC_UINT8, False, ''0'', Some ''range:0:1:1''),
     (0xd109, PTP_TC_INT8, False, ''0'', Some ''range:-30:2:30''),
     (0xd10b, PTP_TC_UINT8, True, ''0'', Some ''enum:0,1,2''),
     (0xd10c, PTP_TC_UINT8, False, ''1'', Some ''enum:1,2'')]"

definition nikon_z6_2_props_2 :: "prop_row list" where
  "nikon_z6_2_props_2 =
    [(0xd10e, PTP_TC_UINT8, False, ''0'', Some ''enum:0,1,2,3''),
     (0xd112, PTP_TC_UINT8, True, ''0'', Some ''range:0:1:1''),
     (0xd113, PTP_TC_UINT8, True, ''0'', Some ''range:0:1:1''),
     (0xd118, PTP_TC_UINT8, True, ''0'', Some ''enum:0,1''),
     (0xd120, PTP_TC_UINT8, False, ''0'', Some ''range:0:1:1''),
     (0xd121, PTP_TC_UINT8, False, ''0'', Some ''enum:0,1''),
     (0xd122, PTP_TC_UINT8, False, ''0'', Some ''enum:0,2,3''),
     (0xd124, PTP_TC_INT8, False, ''0'', Some ''range:-18:1:18''),
     (0xd125, PTP_TC_UINT8, False, ''0'', Some ''enum:0,1,2,3,4,5,6,7''),
     (0xd126, PTP_TC_INT8, False, ''0'', Some ''range:-18:2:6''),
     (0xd12d, PTP_TC_UINT8, False, ''0'', Some ''enum:0,1''),
     (0xd12e, PTP_TC_UINT8, False, ''0'', Some ''enum:0,1,2''),
     (0xd130, PTP_TC_UINT16, True, ''0'', Some ''enum:0,1,257''),
     (0xd131, PTP_TC_UINT8, True, ''255'', Some ''enum:6,12,18,255''),
     (0xd132, PTP_TC_UINT16, True, ''3'', Some ''enum:2,3,4''),
     (0xd133, PTP_TC_UINT8, True, ''0'', Some ''enum:0,1''),
     (0xd138, PTP_TC_UINT8, True, ''1'', Some ''enum:0,1,2''),
     (0xd141, PTP_TC_UINT8, True, ''0'', Some ''range:0:1:2''),
     (0xd148, PTP_TC_UINT8, True, ''0'', Some ''enum:0,1,2''),
     (0xd149, PTP_TC_UINT8, True, ''14'', Some ''enum:12,14''),
     (0xd14e, PTP_TC_UINT16, True, ''0'', Some ''enum:0,2,3,4,5,65535''),
     (0xd14f, PTP_TC_UINT8, True, ''3'', Some ''range:0:1:6''),
     (0xd150, PTP_TC_UINT8, True, ''24'', Some ''range:0:1:48''),
     (0xd152, PTP_TC_UINT16, True, ''612'', Some ''range:0:1:1224''),
     (0xd153, PTP_TC_UINT16, True, ''612'', Some ''range:0:1:1224''),
     (0xd154, PTP_TC_UINT16, True, ''612'', Some ''range:0:1:1224''),
     (0xd155, PTP_TC_UINT16, True, ''612'', Some ''range:0:1:1224''),
     (0xd156, PTP_TC_UINT8, True, ''1'', Some ''enum:1,2''),
     (0xd158, PTP_TC_UINT8, True, ''0'', Some ''range:0:1:1''),
     (0xd159, PTP_TC_UINT8, True, ''0'', Some ''range:0:1:1''),
     (0xd15a, PTP_TC_UINT8, True, ''0'', Some ''range:0:1:1''),
     (0xd15b, PTP_TC_UINT16, False, ''100'', Some ''range:100:1:999''),
     (0xd15c, PTP_TC_UINT8, True, ''0'', Some ''range:0:1:1''),
     (0xd15e, PTP_TC_UINT16, True, ''612'', Some ''range:0:1:1224''),
     (0xd164, PTP_TC_UINT32, True, ''4294967295'', Some ''enum:69536,68736,68036,67536,67136,66786,66536,66336,66176,66036,65936,65856,65786,65736,65696,65661,65636,65616,65596,65586,65576,65566,65561,65556,65551,65549,65546,65544,65542,65541,65540,65539,655385,65538,655376,655373,65537,851978,1048586,131073,1638410,196609,262145,327681,393217,524289,655361,851969,983041,1310721,1638401,1966081,4294967295''),
     (0xd16a, PTP_TC_UINT8, True, ''1'', Some ''range:1:1:1''),
     (0xd16e, PTP_TC_UINT8, True, ''0'', Some ''enum:0,1''),
     (0xd17a, PTP_TC_UINT8, True, ''0'', Some ''enum:0,1''),
     (0xd17b, PTP_TC_UINT8, True, ''1'', Some ''enum:0,1''),
     (0xd17c, PTP_TC_INT8, True, ''0'', Some ''range:-5:1:5''),
     (0xd17d, PTP_TC_UINT8, True, ''0'', Some ''enum:0,1''),
     (0xd17e, PTP_TC_UINT8, True, ''4'', Some ''range:1:1:7''),
     (0xd183, PTP_TC_UINT32, True, ''51200'', Some ''enum:200,250,320,400,500,640,800,1000,1250,1600,2000,2500,3200,4000,5000,6400,8000,10000,12800,16000,20000,25600,32000,40000,51200,64000,81200,102400,204800''),
     (0xd197, PTP_TC_UINT8, True, ''0'', Some ''enum:0,1''),
     (0xd199, PTP_TC_UINT32, True, ''4294967295'', Some ''enum:200,250,320,400,500,640,800,1000,1250,1600,2000,2500,3200,4000,5000,6400,8000,10000,12800,16000,20000,25600,32000,40000,51200,64000,81200,102400,204800,4294967295''),
     (0xd1a2, PTP_TC_UINT8, False, ''0'', Some ''range:0:1:1''),
     (0xd1a4, PTP_TC_UINT32, False, ''0'', None),
     (0xd1a6, PTP_TC_UINT8, False, ''0'', Some ''enum:0,1''),
     (0xd1a8, PTP_TC_UINT32, False, ''65561'', Some ''enum:73536,71936,70536,69536,68736,68036,67536,67136,66786,66536,66336,66176,66036,65936,65856,65786,65736,65696,65661,65636,65616,65596,65586,65576,65566,65561''),
     (0xd1a9, PTP_TC_UINT16, False, ''0'', Some ''enum:0''),
     (0xd1aa, PTP_TC_UINT32, True, ''100'', Some ''enum:100,125,160,200,250,320,400,500,640,800,1000,1250,1600,2000,2500,3200,4000,5000,6400,8000,10000,12800,16000,20000,25600,32000,40000,51200,64000,81200,102400,204800''),
     (0xd1ab, PTP_TC_INT16, False, ''0'', Some ''enum:-3000,-2666,-2333,-2000,-1666,-1333,-1000,-666,-333,0,333,666,1000,1333,1666,2000,2333,2666,3000''),
     (0xd1ac, PTP_TC_UINT8, True, ''2'', Some ''enum:1,2,3''),
     (0xd1ad, PTP_TC_UINT8, True, ''1'', Some ''range:0:1:1''),
     (0xd1af, PTP_TC_UINT16, True, ''3'', Some ''enum:2,3,32784''),
     (0xd1b0, PTP_TC_UINT8, False, ''0'', Some ''range:0:1:3''),
     (0xd1b1, PTP_TC_INT8, False, ''-22'', Some ''range:-60:1:60''),
     (0xd1b2, PTP_TC_UINT8, False, ''0'', Some ''range:0:1:1''),
     (0xd1b3, PTP_TC_UINT8, False, ''0'', Some ''range:0:1:1''),
     (0xd1b4, PTP_TC_UINT16, False, ''46'', Some ''range:0:1:360''),
     (0xd1b7, PTP_TC_UINT8, False, ''40'', Some ''range:0:1:40''),
     (0xd1b8, PTP_TC_UINT8, False, ''1'', Some ''enum:0,1''),
     (0xd1b9, PTP_TC_UINT8, True, ''0'', Some ''enum:0,1,2,3''),
     (0xd1ba, PTP_TC_UINT8, False, ''0'', Some ''enum:0,1''),
     (0xd1bb, PTP_TC_UINT8, False, ''0'', Some ''enum:0,1''),
     (0xd1bc, PTP_TC_UINT8, True, ''0'', Some ''enum:0,1,2,3,4,5''),
     (0xd1bd, PTP_TC_UINT16, True, ''0'', Some ''enum:0,512,1024,2048''),
     (0xd1c5, PTP_TC_UINT8, True, ''0'', Some ''enum:0,1''),
     (0xd1de, PTP_TC_UINT8, True, ''0'', Some ''enum:0,1''),
     (0xd1df, PTP_TC_UINT16, True, ''248'', Some ''enum:180,191,202,213,224,235,248,255''),
     (0xd1e2, PTP_TC_UINT8, False, ''0'', Some ''enum:''),
     (0xd1e3, PTP_TC_UINT8, False, ''0'', Some ''enum:''),
     (0xd1e4, PTP_TC_UINT32, False, ''0'', None),
     (0xd1e5, PTP_TC_UINT8, False, ''0'', Some ''enum:0,1''),
     (0xd1e6, PTP_TC_UINT32, False, ''0'', Some ''range:0:1:9999''),
     (0xd1e7, PTP_TC_UINT8, False, ''0'', None),
     (0xd1e8, PTP_TC_UINT8, False, ''255'', Some ''enum:255''),
     (0xd1e9, PTP_TC_UINT8, False, ''0'', Some ''enum:0,1''),
     (0xd1ea, PTP_TC_UINT8, False, ''1'', None),
     (0xd1ec, PTP_TC_UINT8, True, ''0'', Some ''enum:0,1''),
     (0xd1ed, PTP_TC_UINT8, False, ''0'', Some ''enum:0,1''),
     (0xd1f1, PTP_TC_UINT32, False, ''16251'', Some ''range:0:1:4294967295''),
     (0xd1f2, PTP_TC_UINT8, False, ''1'', Some ''enum:0,1,2,3''),
     (0xd1f4, PTP_TC_INT8, True, ''0'', Some ''range:-2:1:2''),
     (0xd1f8, PTP_TC_UINT16, True, ''32800'', Some ''enum:32784,32785,32792,32793,32794,32795,32800,32801''),
     (0xd1f9, PTP_TC_UINT8, True, ''100'', Some ''enum:0,1,2,100''),
     (0xd1fa, PTP_TC_UINT8, True, ''2'', Some ''enum:0,1,2,4''),
     (0xd1fb, PTP_TC_UINT8, False, ''0'', Some ''enum:0,1,2''),
     (0xd1fc, PTP_TC_UINT8, False, ''0'', Some ''enum:0,1''),
     (0xd1fe, PTP_TC_UINT8, False, ''1'', Some ''enum:0,1''),
     (0xd1ff, PTP_TC_UINT16, True, ''1'', Some ''enum:1,2''),
     (0xd200, PTP_TC_UINT16, True, ''1'', Some ''enum:1,2,3,4,5,6,7,8,101,102,103,104,105,106,107,108,109,110,111,112,113,114,115,116,117,118,119,120,201,202,203,204,205,206,207,208,209''),
     (0xd20d, PTP_TC_UINT8, True, ''2'', Some ''enum:0,1,2''),
     (0xd20f, PTP_TC_UINT8, True, ''0'', Some ''enum:0,2''),
     (0xd211, PTP_TC_UINT8, True, ''0'', Some ''range:0:1:2''),
     (0xd212, PTP_TC_UINT16, True, ''612'', Some ''range:0:1:1224''),
     (0xd213, PTP_TC_UINT16, True, ''612'', Some ''range:0:1:1224''),
     (0xd214, PTP_TC_UINT8, True, ''3'', Some ''range:0:1:6''),
     (0xd215, PTP_TC_UINT16, True, ''612'', Some ''range:0:1:1224''),
     (0xd216, PTP_TC_UINT16, True, ''612'', Some ''range:0:1:1224''),
     (0xd218, PTP_TC_UINT16, True, ''612'', Some ''range:0:1:1224''),
     (0xd219, PTP_TC_UINT16, True, ''612'', Some ''range:0:1:1224''),
     (0xd21a, PTP_TC_UINT16, True, ''5000'', Some ''range:2500:10:10000''),
     (0xd21b, PTP_TC_UINT8, True, ''24'', Some ''range:0:1:48''),
     (0xd21c, PTP_TC_UINT8, True, ''1'', Some ''range:1:1:6''),
     (0xd21d, PTP_TC_STRING, True, ''                                    '', None),
     (0xd21e, PTP_TC_STRING, True, ''                                    '', None),
     (0xd21f, PTP_TC_STRING, True, ''                                    '', None),
     (0xd220, PTP_TC_STRING, True, ''                                    '', None),
     (0xd221, PTP_TC_STRING, True, ''                                    '', None),
     (0xd222, PTP_TC_STRING, True, ''                                    '', None),
     (0xd223, PTP_TC_UINT32, False, ''231738032'', None),
     (0xd224, PTP_TC_UINT32, False, ''231738032'', None),
     (0xd225, PTP_TC_UINT32, False, ''231738032'', None),
     (0xd226, PTP_TC_UINT32, False, ''231738032'', None),
     (0xd227, PTP_TC_UINT32, False, ''231738032'', None),
     (0xd228, PTP_TC_UINT32, False, ''231738032'', None),
     (0xd229, PTP_TC_UINT16, True, ''612'', Some ''range:0:1:1224''),
     (0xd22a, PTP_TC_UINT16, True, ''612'', Some ''range:0:1:1224''),
     (0xd22b, PTP_TC_UINT16, True, ''612'', Some ''range:0:1:1224''),
     (0xd22c, PTP_TC_UINT16, True, ''612'', Some ''range:0:1:1224''),
     (0xd22d, PTP_TC_UINT16, True, ''612'', Some ''range:0:1:1224''),
     (0xd22e, PTP_TC_UINT16, True, ''612'', Some ''range:0:1:1224''),
     (0xd22f, PTP_TC_UINT8, True, ''0'', Some ''range:0:1:1''),
     (0xd230, PTP_TC_UINT8, True, ''0'', Some ''range:0:1:1''),
     (0xd231, PTP_TC_UINT8, True, ''0'', Some ''range:0:1:1''),
     (0xd232, PTP_TC_UINT8, True, ''0'', Some ''range:0:1:1''),
     (0xd233, PTP_TC_UINT8, True, ''0'', Some ''range:0:1:1''),
     (0xd234, PTP_TC_UINT8, True, ''0'', Some ''range:0:1:1''),
     (0xd236, PTP_TC_UINT16, True, ''3'', Some ''enum:0,2,3,4''),
     (0xd237, PTP_TC_UINT16, True, ''100'', Some ''enum:1,2,3,4,5,6,7,8,100,101,102,103,104,105,106,107,108,109,110,111,112,113,114,115,116,117,118,119,120,201,202,203,204,205,206,207,208,209''),
     (0xd239, PTP_TC_INT8, True, ''0'', Some ''range:-6:1:6''),
     (0xd23a, PTP_TC_UINT16, True, ''32789'', Some ''enum:2,4,5,6,32784,32785,32786,32787,32789,32790''),
     (0xd23b, PTP_TC_UINT16, True, ''0'', Some ''enum:0,2,3,4,5,100''),
     (0xd23c, PTP_TC_UINT16, True, ''612'', Some ''range:0:1:1224''),
     (0xd23d, PTP_TC_UINT8, True, ''0'', Some ''enum:0,1''),
     (0xd23e, PTP_TC_UINT16, True, ''3'', Some ''enum:0,2,3,4,100''),
     (0xd23f, PTP_TC_UINT8, True, ''1'', Some ''enum:0,1''),
     (0xd314, PTP_TC_UINT8, True, ''0'', Some ''range:0:1:1'')]"

definition nikon_register_model_z6_2 :: "vcam \<Rightarrow> vcam" where
  "nikon_register_model_z6_2 cam = nikon_add_rows nikon_z6_2_props_2 (nikon_add_rows nikon_z6_2_props_1 cam)"

end
