(* ===== verification/Nikon_Ops.thy ===== *)
theory Nikon_Ops
  imports Vcam_Init Nikon_Models
begin

text \<open>
  The Nikon module: the operation handlers of src/src/nikon/ops.c and the camera set-up of
  src/src/nikon/nikon.c. A capture goes to camera memory (one pending object under a fixed
  handle) or to a virtual directory of the card; events go to the Nikon channel, which two
  operations and the interrupt endpoint drain.
\<close>

abbreviation (input) "PTP_RC_NIKON_NotLiveView \<equiv> 0xA00B :: u16"
abbreviation (input) "PTP_DPC_NIKON_LiveViewStatus \<equiv> 0xD1A2 :: int"
abbreviation (input) "NIKON_SDRAM_HANDLE \<equiv> 0xffff0001 :: u32"
abbreviation (input) "NIKON_MAX_EVENTS \<equiv> 64 :: nat"

section \<open>Capture\<close>

definition nikon_notify :: "env \<Rightarrow> vcam \<Rightarrow> nat \<Rightarrow> u16 \<Rightarrow> u32 \<Rightarrow> vcam" where
  "nikon_notify e cam when cde prm = ptp_inject_interrupt_channel e cam when cde 1 prm 0 PTP_CH_NIKON"

definition nikon_load_jpeg :: "env \<Rightarrow> byte list res" where
  "nikon_load_jpeg e = load_jpeg e"

definition nikon_free_sdram :: "vcam \<Rightarrow> vcam" where
  "nikon_free_sdram cam =
     (if sd_used (nk_sdram (nikon cam)) then cam\<lparr>nikon := (nikon cam)\<lparr>nk_sdram := zero_sdram\<rparr>\<rparr> else cam)"

definition nikon_notify_sdram_capture :: "env \<Rightarrow> vcam \<Rightarrow> vcam" where
  "nikon_notify_sdram_capture e cam =
     (let cam = nikon_notify e cam 100 PTP_EC_Nikon_ObjectAddedInSDRAM NIKON_SDRAM_HANDLE
      in nikon_notify e cam 250 PTP_EC_Nikon_CaptureCompleteRecInSdram 0)"

definition nikon_store_picture :: "byte list \<Rightarrow> vcam \<Rightarrow> vcam" where
  "nikon_store_picture data cam =
     (let count = nk_capture_count (nikon cam)
      in cam\<lparr>nikon := (nikon cam)\<lparr>nk_sdram := \<lparr>sd_used = True, sd_handle = NIKON_SDRAM_HANDLE,
           sd_ofc = ucast PTP_OF_JPEG, sd_name = picture_name count, sd_data = data\<rparr>,
           nk_capture_count := count + 1\<rparr>\<rparr>)"

definition nikon_capture_sdram :: "env \<Rightarrow> vcam \<Rightarrow> vcam res" where
  "nikon_capture_sdram e cam =
     bnd (nikon_load_jpeg e) (\<lambda>data.
       let cam = nikon_store_picture data (nikon_free_sdram cam);
           cam = nikon_notify_sdram_capture e cam
       in Inr (ptp_response cam PTP_RC_OK []))"

definition nikon_capture_picture :: "env \<Rightarrow> ptp_dirent \<Rightarrow> ptp_dirent \<Rightarrow> vcam \<Rightarrow> vcam" where
  "nikon_capture_picture e cur dir cam =
     (let count = nk_capture_count (nikon cam);
          cam = push_capture (picture_name count) cur dir cam;
          cam = cam\<lparr>nikon := (nikon cam)\<lparr>nk_capture_count := count + 1\<rparr>\<rparr>;
          cam = nikon_notify e cam 100 PTP_EC_ObjectAdded (ptp_objectid cam);
          cam = nikon_notify e cam 250 PTP_EC_CaptureComplete 0
      in ptp_response cam PTP_RC_OK [])"

definition nikon_capture_card :: "env \<Rightarrow> vcam \<Rightarrow> vcam res" where
  "nikon_capture_card e cam =
     (case find is_jpg (first_dirent cam) of
        None \<Rightarrow> Inr (ptp_response cam PTP_RC_StoreNotAvailable [])
      | Some cur \<Rightarrow>
          bnd (find_dcim cam) (\<lambda>dcim. case dcim of
            None \<Rightarrow> Inr (ptp_response cam PTP_RC_StoreNotAvailable [])
          | Some c \<Rightarrow>
              bnd (find_gphot cam (Some c) ''100NIKON'') (\<lambda>found.
                let (dir, cam) = (case found of Some d \<Rightarrow> (d, cam)
                                  | None \<Rightarrow> push_virtual_dir ''100NIKON'' c cam)
                in Inr (nikon_capture_picture e cur dir cam))))"

definition nikon_do_capture :: "env \<Rightarrow> vcam \<Rightarrow> bool \<Rightarrow> vcam res" where
  "nikon_do_capture e cam sdram = (if sdram then nikon_capture_sdram e cam else nikon_capture_card e cam)"

section \<open>Vendor operations\<close>

definition nikon_capture_op :: "env \<Rightarrow> vcam \<Rightarrow> ptpcontainer \<Rightarrow> vcam res" where
  "nikon_capture_op e cam ptp = checked cam ptp 1 (\<lambda>cam. nikon_do_capture e cam True)"

definition nikon_afcapture_sdram_op :: "env \<Rightarrow> vcam \<Rightarrow> ptpcontainer \<Rightarrow> vcam res" where
  "nikon_afcapture_sdram_op e cam ptp = checked cam ptp 0 (\<lambda>cam. nikon_do_capture e cam True)"

definition nikon_capture2_op :: "env \<Rightarrow> vcam \<Rightarrow> ptpcontainer \<Rightarrow> vcam res" where
  "nikon_capture2_op e cam ptp =
     guard (vcam_check_trans_id cam ptp) (\<lambda>cam.
     guard (vcam_check_session cam) (\<lambda>cam.
       if c_nparams ptp = 2 then bnd (param ptp 1) (\<lambda>p1. nikon_do_capture e cam (p1 = 1))
       else if c_nparams ptp = 1 then nikon_do_capture e cam True
       else Inr (ptp_response cam PTP_RC_ParameterNotSupported [])))"

definition nikon_terminatecapture_op :: "vcam \<Rightarrow> ptpcontainer \<Rightarrow> vcam res" where
  "nikon_terminatecapture_op cam ptp = checked cam ptp 2 (\<lambda>cam. Inr (ptp_response cam PTP_RC_OK []))"

definition nikon_afdrive_op :: "vcam \<Rightarrow> ptpcontainer \<Rightarrow> vcam res" where
  "nikon_afdrive_op cam ptp = checked cam ptp 0 (\<lambda>cam. Inr (ptp_response cam PTP_RC_OK []))"

definition nikon_changecameramode_op :: "vcam \<Rightarrow> ptpcontainer \<Rightarrow> vcam res" where
  "nikon_changecameramode_op cam ptp = checked cam ptp 1 (\<lambda>cam.
     bnd (param ptp 0) (\<lambda>p0.
       if p0 \<noteq> 0 \<and> p0 \<noteq> 1 then Inr (ptp_response cam PTP_RC_InvalidParameter [])
       else Inr (ptp_response (cam\<lparr>nikon := (nikon cam)\<lparr>nk_controlmode := uint p0\<rparr>\<rparr>) PTP_RC_OK [])))"

definition nikon_deviceready_op :: "vcam \<Rightarrow> ptpcontainer \<Rightarrow> vcam res" where
  "nikon_deviceready_op cam ptp = checked cam ptp 0 (\<lambda>cam. Inr (ptp_response cam PTP_RC_OK []))"

definition nikon_delimagesdram_op :: "vcam \<Rightarrow> ptpcontainer \<Rightarrow> vcam res" where
  "nikon_delimagesdram_op cam ptp = checked cam ptp 1 (\<lambda>cam.
     Inr (ptp_response (nikon_free_sdram cam) PTP_RC_OK []))"

section \<open>Events\<close>

definition event_record :: "bool \<Rightarrow> GenericEvent \<Rightarrow> byte list" where
  "event_record use_ex ev =
     (if use_ex then
        (let nparam = (if ev_code ev = PTP_EC_CaptureComplete \<or>
                          ev_code ev = PTP_EC_Nikon_CaptureCompleteRecInSdram then 0 else 1)
         in put_16bit_le (ev_code ev) @ put_16bit_le nparam @ (if nparam \<noteq> 0 then put_32bit_le (ev_value ev) else []))
      else put_16bit_le (ev_code ev) @ put_32bit_le (ev_value ev))"

text \<open>The loop stops at 64 events, or when no event is due.\<close>

fun pop_loop :: "env \<Rightarrow> nat \<Rightarrow> vcam \<Rightarrow> (GenericEvent list \<times> vcam) res" where
  "pop_loop e 0 cam = Inr ([], cam)"
| "pop_loop e (Suc n) cam = bnd (ptp_pop_nikon_event e cam) (\<lambda>(ev, cam). case ev of
       None \<Rightarrow> Inr ([], cam)
     | Some ev \<Rightarrow> bnd (pop_loop e n cam) (\<lambda>(evs, cam). Inr (ev # evs, cam)))"

text \<open>The two bytes behind the count of the extended form are never written.\<close>

definition nikon_pop_events :: "env \<Rightarrow> vcam \<Rightarrow> bool \<Rightarrow> (byte list \<times> vcam) res" where
  "nikon_pop_events e cam use_ex =
     bnd (pop_loop e NIKON_MAX_EVENTS cam) (\<lambda>(evs, cam).
       Inr (put_16bit_le (word_of_nat (length evs)) @ (if use_ex then [junk e 2, junk e 3] else [])
              @ concat (map (event_record use_ex) evs), cam))"

definition nikon_getevent_op :: "env \<Rightarrow> vcam \<Rightarrow> ptpcontainer \<Rightarrow> vcam res" where
  "nikon_getevent_op e cam ptp = checked cam ptp 0 (\<lambda>cam.
     bnd (nikon_pop_events e cam False) (\<lambda>(data, cam).
       Inr (ptp_response (ptp_senddata cam (cmd_code ptp) data) PTP_RC_OK [])))"

definition nikon_geteventex_op :: "env \<Rightarrow> vcam \<Rightarrow> ptpcontainer \<Rightarrow> vcam res" where
  "nikon_geteventex_op e cam ptp = checked cam ptp 0 (\<lambda>cam.
     bnd (nikon_pop_events e cam True) (\<lambda>(data, cam).
       Inr (ptp_response (ptp_senddata cam (cmd_code ptp) data) PTP_RC_OK [])))"

section \<open>Property lists\<close>

definition nikon_is_base_deviceprop :: "u16 \<Rightarrow> bool" where
  "nikon_is_base_deviceprop c \<longleftrightarrow> c = 0xd303 \<or> c = 0xd406 \<or> c = 0xd407"

definition vendor_codes :: "vcam \<Rightarrow> u16 list" where
  "vendor_codes cam = filter (\<lambda>c. c \<ge> 0xd000 \<and> \<not> nikon_is_base_deviceprop c)
     (map (\<lambda>p. word_of_int (pr_code p)) (props cam))"

definition nikon_getvendorpropcodes_op :: "vcam \<Rightarrow> ptpcontainer \<Rightarrow> vcam res" where
  "nikon_getvendorpropcodes_op cam ptp = checked cam ptp 0 (\<lambda>cam.
     Inr (ptp_response (ptp_senddata cam (cmd_code ptp) (put_16bit_le_array (vendor_codes cam))) PTP_RC_OK []))"

definition nikon_getvendorcodes_op :: "vcam \<Rightarrow> ptpcontainer \<Rightarrow> vcam res" where
  "nikon_getvendorcodes_op cam ptp = checked cam ptp 1 (\<lambda>cam.
     bnd (param ptp 0) (\<lambda>p0.
       if p0 \<noteq> 0xd then Inr (ptp_response cam PTP_RC_ParameterNotSupported [])
       else Inr (ptp_response (ptp_senddata cam (cmd_code ptp)
              (put_32bit_le_array (map ucast (vendor_codes cam)))) PTP_RC_OK [])))"

section \<open>Live view\<close>

definition set_liveview :: "hooks \<Rightarrow> vcam \<Rightarrow> byte \<Rightarrow> vcam res" where
  "set_liveview hk cam status =
     (let cam = cam\<lparr>nikon := (nikon cam)\<lparr>nk_liveview_status := status\<rparr>\<rparr>
      in bnd (vcam_set_prop_data hk cam PTP_DPC_NIKON_LiveViewStatus [status] 1) (\<lambda>(_, cam).
           Inr (ptp_response cam PTP_RC_OK [])))"

definition nikon_start_liveview_op :: "hooks \<Rightarrow> vcam \<Rightarrow> ptpcontainer \<Rightarrow> vcam res" where
  "nikon_start_liveview_op hk cam ptp = checked cam ptp 0 (\<lambda>cam. set_liveview hk cam 1)"

definition nikon_end_liveview_op :: "hooks \<Rightarrow> vcam \<Rightarrow> ptpcontainer \<Rightarrow> vcam res" where
  "nikon_end_liveview_op hk cam ptp = checked cam ptp 0 (\<lambda>cam. set_liveview hk cam 0)"

definition nikon_getliveviewimg_op :: "env \<Rightarrow> vcam \<Rightarrow> ptpcontainer \<Rightarrow> vcam res" where
  "nikon_getliveviewimg_op e cam ptp = checked cam ptp 0 (\<lambda>cam.
     if nk_liveview_status (nikon cam) = 0 then Inr (ptp_response cam PTP_RC_NIKON_NotLiveView [])
     else bnd (nikon_load_jpeg e) (\<lambda>jpeg.
       bnd (fits SEND_MAX (put_32bit_le (word_of_nat (length jpeg)) @ replicate 124 0 @ jpeg)) (\<lambda>data.
         Inr (ptp_response (ptp_senddata cam (cmd_code ptp) data) PTP_RC_OK []))))"

definition nikon_getpreviewimg_op :: "env \<Rightarrow> vcam \<Rightarrow> ptpcontainer \<Rightarrow> vcam res" where
  "nikon_getpreviewimg_op e cam ptp = checked cam ptp 0 (\<lambda>cam.
     bnd (nikon_load_jpeg e) (\<lambda>jpeg. bnd (fits SEND_MAX jpeg) (\<lambda>data.
       Inr (ptp_response (ptp_senddata cam (cmd_code ptp) data) PTP_RC_OK [NIKON_SDRAM_HANDLE]))))"

section \<open>Object access\<close>

definition in_sdram :: "vcam \<Rightarrow> u32 \<Rightarrow> bool" where
  "in_sdram cam h \<longleftrightarrow> h = NIKON_SDRAM_HANDLE \<and> sd_used (nk_sdram (nikon cam))"

definition sdram_data :: "vcam \<Rightarrow> byte list" where
  "sdram_data cam = sd_data (nk_sdram (nikon cam))"

definition nikon_sdram_object_info :: "env \<Rightarrow> vcam \<Rightarrow> ptpcontainer \<Rightarrow> vcam res" where
  "nikon_sdram_object_info e cam ptp =
     (let (xtime, cam) = time_now e cam; obj = nk_sdram (nikon cam)
      in bnd (memory_objectinfo xtime (ucast (sd_ofc obj)) (word_of_nat (length (sd_data obj))) (sd_name obj))
           (\<lambda>data. Inr (ptp_response (ptp_senddata cam (cmd_code ptp) data) PTP_RC_OK [])))"

definition nikon_getobjectinfo :: "env \<Rightarrow> vcam \<Rightarrow> ptpcontainer \<Rightarrow> vcam res" where
  "nikon_getobjectinfo e cam ptp = checked cam ptp 1 (\<lambda>cam.
     bnd (param ptp 0) (\<lambda>p0.
       if in_sdram cam p0 then nikon_sdram_object_info e cam ptp else ptp_getobjectinfo_write e cam ptp))"

definition send_sdram :: "vcam \<Rightarrow> ptpcontainer \<Rightarrow> vcam res" where
  "send_sdram cam ptp = bnd (fits SEND_MAX (sdram_data cam)) (\<lambda>data.
     Inr (ptp_response (ptp_senddata cam (cmd_code ptp) data) PTP_RC_OK []))"

definition nikon_getobject :: "env \<Rightarrow> vcam \<Rightarrow> ptpcontainer \<Rightarrow> vcam res" where
  "nikon_getobject e cam ptp = checked cam ptp 1 (\<lambda>cam.
     bnd (param ptp 0) (\<lambda>p0.
       if in_sdram cam p0 then send_sdram cam ptp else ptp_getobject_write e cam ptp))"

definition nikon_getthumb :: "env \<Rightarrow> vcam \<Rightarrow> ptpcontainer \<Rightarrow> vcam res" where
  "nikon_getthumb e cam ptp = checked cam ptp 1 (\<lambda>cam.
     bnd (param ptp 0) (\<lambda>p0.
       if in_sdram cam p0 then send_sdram cam ptp else ptp_getthumb_write e cam ptp))"

definition nikon_getlargethumb_op :: "env \<Rightarrow> vcam \<Rightarrow> ptpcontainer \<Rightarrow> vcam res" where
  "nikon_getlargethumb_op e cam ptp = nikon_getthumb e cam ptp"

definition nikon_deleteobject :: "vcam \<Rightarrow> ptpcontainer \<Rightarrow> vcam res" where
  "nikon_deleteobject cam ptp =
     guard (vcam_check_trans_id cam ptp) (\<lambda>cam.
     guard (vcam_check_session cam) (\<lambda>cam.
       bnd (if c_nparams ptp \<ge> 1 then param ptp 0 else Inr 0) (\<lambda>p0.
         if c_nparams ptp \<ge> 1 \<and> p0 AND 0xffff0000 = 0xffff0000 then
           (if in_sdram cam p0 then Inr (ptp_response (nikon_free_sdram cam) PTP_RC_OK [])
            else Inr (ptp_response cam PTP_RC_InvalidObjectHandle []))
         else ptp_deleteobject_write cam ptp)))"

definition nikon_lookup_virtual_object :: "vcam \<Rightarrow> u32 \<Rightarrow> byte list option" where
  "nikon_lookup_virtual_object cam h = (if in_sdram cam h then Some (sdram_data cam) else None)"

text \<open>Size of an object: the one in memory, else the file of the first cell with the handle.\<close>

definition nikon_getobjectsize_op :: "vcam \<Rightarrow> ptpcontainer \<Rightarrow> vcam res" where
  "nikon_getobjectsize_op cam ptp = checked cam ptp 1 (\<lambda>cam.
     bnd (param ptp 0) (\<lambda>p0.
       if in_sdram cam p0 then
         Inr (ptp_response (ptp_senddata cam (cmd_code ptp)
           (put_64bit_le (word_of_nat (length (sdram_data cam))))) PTP_RC_OK [])
       else (case find_dirent cam p0 of
           None \<Rightarrow> Inr (ptp_response cam PTP_RC_InvalidObjectHandle [])
         | Some cur \<Rightarrow> bnd (stbuf cur) (\<lambda>st.
             Inr (ptp_response (ptp_senddata cam (cmd_code ptp)
               (put_64bit_le (word_of_nat (st_size st)))) PTP_RC_OK [])))))"

definition u64_of :: "u32 \<Rightarrow> u32 \<Rightarrow> u64" where
  "u64_of lo hi = ucast lo OR push_bit 32 (ucast hi)"

definition read_file_part :: "env \<Rightarrow> string \<Rightarrow> u64 \<Rightarrow> u64 \<Rightarrow> byte list option" where
  "read_file_part e path offset tocopy =
     (case files e path of
        None \<Rightarrow> None
      | Some content \<Rightarrow>
          (let part = take (unat tocopy) (drop (unat offset) content)
           in if fseek_ok e path (unat offset) \<and> length part = unat tocopy then Some part else None))"

definition send_part_ex ::
    "vcam \<Rightarrow> ptpcontainer \<Rightarrow> u64 \<Rightarrow> u64 \<Rightarrow> u64 \<Rightarrow> (u64 \<Rightarrow> byte list option) \<Rightarrow> vcam res" where
  "send_part_ex cam ptp offset maxreq objsize source =
     (if offset \<ge> objsize
      then Inr (ptp_response (ptp_senddata cam (cmd_code ptp) []) PTP_RC_OK [0, 0])
      else
        let avail = objsize - offset; tocopy = (if maxreq < avail then maxreq else avail)
        in case source tocopy of
             None \<Rightarrow> Inr (ptp_response cam PTP_RC_GeneralError [])
           | Some part \<Rightarrow> Inr (ptp_response (ptp_senddata cam (cmd_code ptp) part) PTP_RC_OK
               [ucast (tocopy AND 0xffffffff), ucast (drop_bit 32 tocopy)]))"

definition nikon_getpartialobjectex_op :: "env \<Rightarrow> vcam \<Rightarrow> ptpcontainer \<Rightarrow> vcam res" where
  "nikon_getpartialobjectex_op e cam ptp = checked cam ptp 5 (\<lambda>cam.
     bnd (param ptp 0) (\<lambda>p0. bnd (param ptp 1) (\<lambda>p1. bnd (param ptp 2) (\<lambda>p2.
     bnd (param ptp 3) (\<lambda>p3. bnd (param ptp 4) (\<lambda>p4.
       let offset = u64_of p1 p2;
           maxreq = (if u64_of p3 p4 > 10 * 1024 * 1024 then 10 * 1024 * 1024 else u64_of p3 p4)
       in if in_sdram cam p0 then
            send_part_ex cam ptp offset maxreq (word_of_nat (length (sdram_data cam)))
              (\<lambda>n. Some (take (unat n) (drop (unat offset) (sdram_data cam))))
          else (case find_dirent cam p0 of
              None \<Rightarrow> Inr (ptp_response cam PTP_RC_InvalidObjectHandle [])
            | Some cur \<Rightarrow> bnd (stbuf cur) (\<lambda>st.
                send_part_ex cam ptp offset maxreq (word_of_nat (st_size st))
                  (read_file_part e (d_fsname cur) offset)))))))))"

section \<open>Storage and property overrides\<close>

definition nikon_getstorageinfo_op :: "vcam \<Rightarrow> ptpcontainer \<Rightarrow> vcam res" where
  "nikon_getstorageinfo_op cam ptp = checked cam ptp 1 (\<lambda>cam.
     bnd (param ptp 0) (\<lambda>p0.
       if p0 \<noteq> MAIN_STORAGE_ID then Inr (ptp_response cam PTP_RC_InvalidStorageId [])
       else
         bnd (deref (nk_profile (nikon cam))) (\<lambda>prof.
         bnd (add_string '''') (\<lambda>desc.
         bnd (add_string (take 159 (''NIKON '' @ model cam @ '' [Slot 1]''))) (\<lambda>lab.
         bnd (fits 400 (put_16bit_le 4 @ put_16bit_le 3 @ put_16bit_le 2
            @ put_64bit_le (np_storage_capacity prof) @ put_64bit_le (np_storage_free prof)
            @ put_32bit_le (np_storage_images prof) @ desc @ lab)) (\<lambda>data.
           Inr (ptp_response (ptp_senddata cam 0x1005 data) PTP_RC_OK [])))))))"

definition nikon_setdevicepropvalue_data ::
    "hooks \<Rightarrow> env \<Rightarrow> vcam \<Rightarrow> ptpcontainer \<Rightarrow> byte list \<Rightarrow> vcam res" where
  "nikon_setdevicepropvalue_data hk e cam ptp data =
     bnd (param ptp 0) (\<lambda>p0.
     bnd (vcam_get_prop_desc hk cam (sint p0)) (\<lambda>(desc, cam).
       let announce = (session cam \<noteq> 0 \<and>
             (case desc of None \<Rightarrow> False | Some d \<Rightarrow> GetSet d = PTP_AC_ReadWrite))
       in bnd (ptp_setdevicepropvalue_write_data hk cam ptp data) (\<lambda>cam.
            if announce \<and> length data > 0
            then Inr (nikon_notify e cam 300 PTP_EC_DevicePropChanged p0) else Inr cam)))"

section \<open>Registration and set-up\<close>

definition nikon_register_ops :: "bool \<Rightarrow> vcam \<Rightarrow> vcam" where
  "nikon_register_ops want_vendorcodes cam =
    (let cam = fold register_op
      [(0x90C0, F_nikon_capture_op, None),
       (0x90C1, F_nikon_afdrive_op, None),
       (0x90C2, F_nikon_changecameramode_op, None),
       (0x90C3, F_nikon_delimagesdram_op, None),
       (0x90C4, F_nikon_getlargethumb_op, None),
       (0x90C7, F_nikon_getevent_op, None),
       (0x90C8, F_nikon_deviceready_op, None),
       (0x90CA, F_nikon_getvendorpropcodes_op, None),
       (0x90CB, F_nikon_afcapture_sdram_op, None),
       (0x9200, F_nikon_getpreviewimg_op, None),
       (0x9201, F_nikon_start_liveview_op, None),
       (0x9202, F_nikon_end_liveview_op, None),
       (0x9203, F_nikon_getliveviewimg_op, None),
       (0x9207, F_nikon_capture2_op, None),
       (0x920C, F_nikon_terminatecapture_op, None),
       (0x941C, F_nikon_geteventex_op, None),
       (0x9421, F_nikon_getobjectsize_op, None),
       (0x9431, F_nikon_getpartialobjectex_op, None)] cam;
      cam = (if want_vendorcodes then register_op (0x9439, F_nikon_getvendorcodes_op, None) cam else cam)
     in fold register_op
      [(0x1005, F_nikon_getstorageinfo_op, None),
       (0x1008, F_nikon_getobjectinfo, None),
       (0x1009, F_nikon_getobject, None),
       (0x100A, F_nikon_getthumb, None),
       (0x100B, F_nikon_deleteobject, None),
       (0x1016, F_ptp_setdevicepropvalue_write, Some F_nikon_setdevicepropvalue_data)] cam)"

definition nikon_events :: "u16 list" where
  "nikon_events = [0x4002, 0x4003, 0x4006, 0x400D, PTP_EC_Nikon_ObjectAddedInSDRAM,
     PTP_EC_Nikon_CaptureCompleteRecInSdram, 0xC10C]"

definition nikon_base_deviceprops :: "u16 list" where
  "nikon_base_deviceprops =
    [0x5001, 0x5003, 0x5004, 0x5005, 0x5007, 0x5008, 0x500a, 0x500b,
     0x500c, 0x500d, 0x500e, 0x500f, 0x5010, 0x5011, 0x5013, 0x5018,
     0x501c, 0x501e, 0x501f,
     0xd303, 0xd406, 0xd407]"

definition nikon_models :: "(NikonModelProfile \<times> (vcam \<Rightarrow> vcam)) list" where
  "nikon_models =
    [(\<lparr>np_name = ''nikon_d7500'', np_model = ''D7500'', np_version = ''V1.00'',
       np_serial = ''0000000000000000000000000nnnnnnn'', np_product_id = 0x0440, np_extver = 0x64,
       np_storage_capacity = 127831900160, np_storage_free = 127816564736, np_storage_images = 16813,
       np_vendorcodes = False\<rparr>, nikon_register_model_d7500),
     (\<lparr>np_name = ''nikon_z6_2'', np_model = ''Z 6_2'', np_version = ''V1.00'',
       np_serial = ''00000000000000000000000006001924'', np_product_id = 0x044c, np_extver = 0x6a,
       np_storage_capacity = 60196651008, np_storage_free = 59647983616, np_storage_images = 16251,
       np_vendorcodes = True\<rparr>, nikon_register_model_z6_2)]"

text \<open>\<open>False\<close> stands for the result -1.\<close>

definition nikon_init_cam :: "env \<Rightarrow> string \<Rightarrow> string list \<Rightarrow> vcam \<Rightarrow> (bool \<times> vcam) res" where
  "nikon_init_cam e name argv cam =
     (case find (\<lambda>m. np_name (fst m) = name) nikon_models of
        None \<Rightarrow> Inr (False, cam)
      | Some (prof, register_model) \<Rightarrow>
          let cam = cam\<lparr>nikon := zero_nikon\<lparr>nk_profile := Some prof, nk_capture_count := 1\<rparr>\<rparr>
          in bnd (parse_all_args e argv cam) (\<lambda>(ok, cam).
               if \<not> ok then Inr (False, cam)
               else
                 let cam = cam\<lparr>manufac := ''Nikon Corporation'', vendor_id := 0x04b0,
                       product_id := np_product_id prof, model := np_model prof, version := np_version prof,
                       serial := np_serial prof, extension := ''Microsoft.com/DeviceServices: 1.0'',
                       vendor_extension_id := PTP_VENDOR_NIKON, vendor_extension_version := np_extver prof,
                       ev_list := Some nikon_events, deviceprops := Some nikon_base_deviceprops,
                       capture_formats := Some [0x3801, 0x3000],
                       image_formats := Some [0x3801, 0x3000, 0x3001, 0x3802, 0x3002, 0x300B, 0xb982]\<rparr>;
                     cam = register_model cam;
                     cam = nikon_register_ops (np_vendorcodes prof) cam
                 in Inr (True, cam\<lparr>lookup_virtual_object := Some F_nikon_lookup_virtual_object\<rparr>)))"

end
