(* ===== verification/Sony_Models.thy ===== *)
theory Sony_Models
  imports Prop_Tables
begin

text \<open>
  The device property tables of the Sony models: src/src/sony/models/a7m4.c and a7r5.c. The
  shutter property is registered between the two parts of each table.
\<close>

definition sony_a7m4_props_1 :: "prop_row list" where
  "sony_a7m4_props_1 =
    [(0x5004, PTP_TC_UINT8, True, ''20'', Some ''enum:16,20,19,18,17,4,3,2,1''),
     (0x5005, PTP_TC_UINT16, True, ''2'', Some ''enum:2,4,32785,32784,6,32769,32770,32771,32772,7,32816,32786,32800,32801,32802''),
     (0x5007, PTP_TC_UINT16, True, ''800'', Some ''range:560:1:3200''),
     (0x500a, PTP_TC_UINT16, True, ''1'', Some ''enum:''),
     (0x500b, PTP_TC_UINT16, True, ''32769'', Some ''enum:32769,32770,32772,32773,32771,32774''),
     (0x500c, PTP_TC_UINT16, True, ''3'', Some ''enum:''),
     (0x5010, PTP_TC_INT16, True, ''0'', Some ''enum:''),
     (0xd200, PTP_TC_INT16, True, ''0'', Some ''enum:''),
     (0xd201, PTP_TC_UINT8, True, ''31'', Some ''enum:1,31,17,18,19,20,21''),
     (0xd203, PTP_TC_UINT8, True, ''1'', Some ''enum:1,2,3'')]"

definition sony_a7m4_props_2 :: "prop_row list" where
  "sony_a7m4_props_2 =
    [(0xd20e, PTP_TC_UINT8, True, ''14'', Some ''enum:''),
     (0xd20f, PTP_TC_UINT16, True, ''5500'', Some ''range:2500:100:9900''),
     (0xd211, PTP_TC_UINT8, True, ''1'', Some ''enum:1,3,2,4''),
     (0xd213, PTP_TC_UINT8, True, ''1'', Some ''enum:''),
     (0xd217, PTP_TC_UINT8, True, ''1'', Some ''enum:''),
     (0xd218, PTP_TC_UINT8, True, ''80'', Some ''range:255:1:100''),
     (0xd21e, PTP_TC_UINT32, True, ''16777215'', Some ''enum:''),
     (0xd21f, PTP_TC_UINT8, True, ''1'', Some ''enum:''),
     (0xd221, PTP_TC_UINT8, True, ''1'', Some ''enum:''),
     (0xd222, PTP_TC_UINT16, True, ''1'', Some ''enum:1,17,16''),
     (0x500e, PTP_TC_UINT16, True, ''3'', Some ''enum:''),
     (0x5013, PTP_TC_UINT32, True, ''32784'', Some ''enum:1,32784,2,32789,32786,32772,32771,32773,32776,32777,32780,32781,32782,32783,33591,34103,35127,33623,34135,35159,33655,34167,35191,33553,34065,35089,33569,34081,33585,34097,33590,34102,35126,33622,34134,35158,33654,34166,35190,33552,34064,35088,33568,34080,33584,34096,32808,32792,32809,32793''),
     (0xd214, PTP_TC_UINT32, True, ''80716000'', Some ''range:0:1:4294967295''),
     (0xd215, PTP_TC_UINT16, True, ''0'', Some ''range:0:1:65535''),
     (0xd25a, PTP_TC_UINT8, True, ''1'', None)]"

definition sony_register_model_a7m4 :: "vcam \<Rightarrow> vcam" where
  "sony_register_model_a7m4 cam =
     sony_add_rows sony_a7m4_props_2
       (sony_add_shutter_prop True 327690 (sony_add_rows sony_a7m4_props_1 cam))"

definition sony_a7r5_props_1 :: "prop_row list" where
  "sony_a7r5_props_1 =
    [(0x5005, PTP_TC_UINT16, True, ''32786'', Some ''enum:2,4,32785,32784,6,32769,32770,32771,32772,7,32816,32786,32800,32801,32802''),
     (0x500a, PTP_TC_UINT16, True, ''1'', Some ''enum:2,32773,32772,32774,1''),
     (0x500b, PTP_TC_UINT16, True, ''32769'', Some ''enum:32769,32770,32772,32773,32771,32774''),
     (0x500c, PTP_TC_UINT16, False, ''3'', Some ''enum:''),
     (0x5010, PTP_TC_INT16, False, ''0'', Some ''enum:''),
     (0xd200, PTP_TC_INT16, True, ''0'', Some ''enum:''),
     (0xd201, PTP_TC_UINT8, True, ''31'', Some ''enum:1,31,17,18,19,20,21'')]"

definition sony_a7r5_props_2 :: "prop_row list" where
  "sony_a7r5_props_2 =
    [(0xd20f, PTP_TC_UINT16, True, ''4000'', Some ''range:2500:100:9900''),
     (0xd211, PTP_TC_UINT8, True, ''1'', Some ''enum:1,3,2,4''),
     (0xd213, PTP_TC_UINT8, True, ''1'', Some ''enum:''),
     (0xd217, PTP_TC_UINT8, True, ''1'', Some ''enum:''),
     (0xd221, PTP_TC_UINT8, True, ''1'', Some ''enum:''),
     (0xd21e, PTP_TC_UINT32, True, ''400'', Some ''enum:''),
     (0xd222, PTP_TC_UINT16, True, ''1'', Some ''enum:1,17,16''),
     (0xd20e, PTP_TC_UINT8, True, ''6'', Some ''enum:''),
     (0xd218, PTP_TC_INT8, True, ''56'', Some ''range:-1:1:100''),
     (0x5013, PTP_TC_UINT16, True, ''1'', Some ''enum:1,32784,2,32789,32786,32772,32771,32773,32776,32777,32780,32781,32782,32783,49719,49727,33591,34103,34615,35127,49751,49759,33623,34135,34647,35159,49783,49791,33655,34167,34679,35191,49681,49689,33553,34065,34577,35089,49729,49737,33601,34113,34625,49761,49769,33633,34145,34657,49793,49801,33665,34177,34689,49697,49705,33569,34081,34593,49745,49753,33617,34129,49777,49785,33649,34161,49809,49817,33681,34193,49713,49721,33585,34097,49718,49726,33590,34102,34614,35126,49750,49758,33622,34134,34646,35158,49782,49790,33654,34166,34678,35190,49680,49688,33552,34064,34576,35088,49728,49736,33600,34112,34624,49760,49768,33632,34144,34656,49792,49800,33664,34176,34688,49696,49704,33568,34080,34592,49744,49752,33616,34128,49776,49784,33648,34160,49808,49816,33680,34192,49712,49720,33584,34096,32832,32808,32792,32809,32793''),
     (0xd203, PTP_TC_UINT8, False, ''1'', Some ''enum:''),
     (0xd21f, PTP_TC_UINT8, True, ''1'', Some ''enum:''),
     (0x5004, PTP_TC_UINT8, True, ''16'', Some ''enum:16,20,19,18,17,4,3,2,1''),
     (0x5007, PTP_TC_UINT16, False, ''1400'', Some ''range:280:1:2200''),
     (0x500e, PTP_TC_UINT16, False, ''1'', Some ''enum:''),
     (0xd214, PTP_TC_UINT32, True, ''143228000'', Some ''range:0:1:4294967295''),
     (0xd215, PTP_TC_UINT16, True, ''0'', Some ''range:0:1:65535''),
     (0xd25a, PTP_TC_UINT8, True, ''1'', None)]"

definition sony_register_model_a7r5 :: "vcam \<Rightarrow> vcam" where
  "sony_register_model_a7r5 cam =
     sony_add_rows sony_a7r5_props_2
       (sony_add_shutter_prop True 65596 (sony_add_rows sony_a7r5_props_1 cam))"

end
