(* ===== verification/Sony_Ops.thy ===== *)
theory Sony_Ops
  imports Vcam_Init Sony_Models
begin

text \<open>
  The Sony module: the operation handlers of src/src/sony/ops.c and the camera set-up of
  src/src/sony/sony.c. Properties are written and stepped through vendor operations; the
  shutter is a two-button state machine driven by control codes; a picture waits in camera
  memory until it is fetched.
\<close>

abbreviation (input) "PTP_EC_Sony_ObjectAdded \<equiv> 0xC201 :: u16"
abbreviation (input) "PTP_EC_Sony_DevicePropChanged \<equiv> 0xC203 :: u16"
abbreviation (input) "PTP_DPC_SONY_FocusFound \<equiv> 0xD213 :: u16"
abbreviation (input) "PTP_DPC_SONY_ObjectInMemory \<equiv> 0xD215 :: u16"
abbreviation (input) "PTP_DPC_SONY_PriorityMode \<equiv> 0xD25A :: u16"
abbreviation (input) "PTP_DPC_SONY_ShutterHalfRelease \<equiv> 0xD2C1 :: u16"
abbreviation (input) "PTP_DPC_SONY_ShutterRelease \<equiv> 0xD2C2 :: u16"
abbreviation (input) "SONY_OBJECT_HANDLE \<equiv> 0xffffc001 :: u32"
abbreviation (input) "SONY_LIVEVIEW_HANDLE \<equiv> 0xffffc002 :: u32"
abbreviation (input) "SONY_LV_HEADER_SIZE \<equiv> 4 :: nat"

definition sony_is_standard_only_prop :: "u16 \<Rightarrow> bool" where
  "sony_is_standard_only_prop c \<longleftrightarrow> c = PTP_DPC_BatteryLevel \<or> c = PTP_DPC_ImageSize"

definition sony_notify :: "env \<Rightarrow> vcam \<Rightarrow> nat \<Rightarrow> u16 \<Rightarrow> u32 \<Rightarrow> vcam" where
  "sony_notify e cam when cde prm = ptp_inject_interrupt e cam when cde 1 prm 0"

definition sony_load_jpeg :: "env \<Rightarrow> byte list res" where
  "sony_load_jpeg e = load_jpeg e"

definition sony_free_sdram :: "vcam \<Rightarrow> vcam" where
  "sony_free_sdram cam =
     (if sd_used (so_sdram (sony cam)) then cam\<lparr>sony := (sony cam)\<lparr>so_sdram := zero_sdram\<rparr>\<rparr> else cam)"

definition sony_set_prop_u8 :: "hooks \<Rightarrow> vcam \<Rightarrow> u16 \<Rightarrow> byte \<Rightarrow> vcam res" where
  "sony_set_prop_u8 hk cam c v =
     bnd (vcam_set_prop_data hk cam (uint c) [v] 1) (\<lambda>(_, cam). Inr cam)"

definition sony_set_prop_u16 :: "hooks \<Rightarrow> vcam \<Rightarrow> u16 \<Rightarrow> u16 \<Rightarrow> vcam res" where
  "sony_set_prop_u16 hk cam c v =
     bnd (vcam_set_prop_data hk cam (uint c) (put_16bit_le v) 2) (\<lambda>(_, cam). Inr cam)"

section \<open>The property stream\<close>

definition sony_dpv_size :: "u16 \<Rightarrow> nat" where
  "sony_dpv_size t =
    (if t = PTP_TC_INT8 \<or> t = PTP_TC_UINT8 then 1
     else if t = PTP_TC_INT16 \<or> t = PTP_TC_UINT16 then 2
     else if t = PTP_TC_INT32 \<or> t = PTP_TC_UINT32 then 4
     else if t = PTP_TC_INT64 \<or> t = PTP_TC_UINT64 then 8 else 0)"

definition sony_pack_dpv :: "u16 \<Rightarrow> blk \<Rightarrow> byte list res" where
  "sony_pack_dpv t v = memcpy_blk (int (sony_dpv_size t)) v"

text \<open>A value or, for a null pointer, zeros.\<close>

definition dpv_or_zero :: "u16 \<Rightarrow> blk \<Rightarrow> byte list res" where
  "dpv_or_zero t v = bnd (is_null v) (\<lambda>null.
     if null then Inr (replicate (sony_dpv_size t) 0) else sony_pack_dpv t v)"

fun pack_entries :: "u16 \<Rightarrow> blk \<Rightarrow> nat \<Rightarrow> nat \<Rightarrow> byte list res" where
  "pack_entries t b i 0 = Inr []"
| "pack_entries t b i (Suc n) =
     bnd (blk_at (int (i * sony_dpv_size t)) b) (\<lambda>p. bnd (sony_pack_dpv t p) (\<lambda>v.
     bnd (pack_entries t b (Suc i) n) (\<lambda>r. Inr (v @ r))))"

definition dpd_form :: "PtpPropDesc \<Rightarrow> byte list res" where
  "dpd_form d =
     (if FormFlag d = PTP_RangeForm then
        bnd (sony_pack_dpv (DataType d) (form_min d)) (\<lambda>a.
        bnd (sony_pack_dpv (DataType d) (form_max d)) (\<lambda>b.
        bnd (sony_pack_dpv (DataType d) (form_step d)) (\<lambda>c. Inr (a @ b @ c))))
      else if FormFlag d = PTP_EnumerationForm then
        bnd (deref (avail_cnt d)) (\<lambda>n.
        bnd (pack_entries (DataType d) (avail d) 0 (nat n)) (\<lambda>vs.
          Inr (ptp_write_u16 (word_of_int n) @ vs)))
      else Inr [])"

definition sony_pack_dpd :: "PtpPropDesc \<Rightarrow> byte list res" where
  "sony_pack_dpd d =
     bnd (dpv_or_zero (DataType d) (factory_default_value d)) (\<lambda>def.
     bnd (dpv_or_zero (DataType d) (pd_value d)) (\<lambda>cur.
     bnd (dpd_form d) (\<lambda>form.
       Inr (ptp_write_u16 (DevicePropertyCode d) @ ptp_write_u16 (DataType d)
         @ ptp_write_u8 (GetSet d) @ ptp_write_u8 1 @ def @ cur @ ptp_write_u8 (FormFlag d) @ form))))"

definition in_stream :: "PtpProp \<Rightarrow> bool" where
  "in_stream p \<longleftrightarrow> \<not> sony_is_standard_only_prop (DevicePropertyCode (pr_desc p))
     \<and> sony_dpv_size (DataType (pr_desc p)) \<noteq> 0"

fun pack_all :: "PtpProp list \<Rightarrow> byte list res" where
  "pack_all [] = Inr []"
| "pack_all (p # ps) =
     bnd (if in_stream p then sony_pack_dpd (pr_desc p) else Inr []) (\<lambda>a.
     bnd (pack_all ps) (\<lambda>r. Inr (a @ r)))"

definition sony_getalldevicepropinfo_op :: "vcam \<Rightarrow> ptpcontainer \<Rightarrow> vcam res" where
  "sony_getalldevicepropinfo_op cam ptp = checked cam ptp 0 (\<lambda>cam.
     bnd (pack_all (props cam)) (\<lambda>recs.
     bnd (fits (64 * 1024) (put_32bit_le (word_of_nat (length (filter in_stream (props cam))))
            @ put_32bit_le 0 @ recs)) (\<lambda>data.
       Inr (ptp_response (ptp_senddata cam (cmd_code ptp) data) PTP_RC_OK []))))"

section \<open>Init handshake\<close>

definition sony_sdioconnect_op :: "vcam \<Rightarrow> ptpcontainer \<Rightarrow> vcam res" where
  "sony_sdioconnect_op cam ptp = checked cam ptp 3 (\<lambda>cam.
     Inr (ptp_response (ptp_senddata cam (cmd_code ptp) (replicate 8 0)) PTP_RC_OK []))"

definition vendor_setting :: "u16 \<Rightarrow> bool" where
  "vendor_setting c \<longleftrightarrow> c \<ge> 0xd200 \<and> c < PTP_DPC_SONY_ShutterHalfRelease \<and> c \<noteq> PTP_DPC_SONY_PriorityMode"

text \<open>
  The counts are 16-bit variables. The buffer holds 16 bytes and two per property; the
  controls are as many as the profile has.
\<close>

definition sony_getextdeviceinfo_op :: "vcam \<Rightarrow> ptpcontainer \<Rightarrow> vcam res" where
  "sony_getextdeviceinfo_op cam ptp =
     guard (vcam_check_trans_id cam ptp) (\<lambda>cam.
     guard (vcam_check_session cam) (\<lambda>cam.
       if c_nparams ptp < 1 \<or> c_nparams ptp > 2
       then Inr (ptp_response cam PTP_RC_ParameterNotSupported [])
       else
         bnd (deref (so_profile (sony cam))) (\<lambda>prof.
           let codes = filter vendor_setting (map (\<lambda>p. word_of_int (pr_code p)) (props cam));
               n1 = word_of_nat (length codes) :: u16; n2 = word_of_nat (length (sp_controls prof)) :: u16
           in bnd (fits (16 + 2 * length (props cam))
                (ptp_write_u16 0x12c @ ptp_write_u32 (ucast n1) @ concat (map ptp_write_u16 codes)
                 @ ptp_write_u32 (ucast n2) @ concat (map ptp_write_u16 (sp_controls prof)))) (\<lambda>data.
             Inr (ptp_response (ptp_senddata cam (cmd_code ptp) data) PTP_RC_OK [])))))"

section \<open>Property writes\<close>

definition sony_setdevicepropvalue_write :: "vcam \<Rightarrow> ptpcontainer \<Rightarrow> vcam res" where
  "sony_setdevicepropvalue_write cam ptp = checked cam ptp 1 (\<lambda>cam. Inr cam)"

definition sony_setdevicepropvalue_data ::
    "hooks \<Rightarrow> env \<Rightarrow> vcam \<Rightarrow> ptpcontainer \<Rightarrow> byte list \<Rightarrow> vcam res" where
  "sony_setdevicepropvalue_data hk e cam ptp data = checked cam ptp 1 (\<lambda>cam.
     bnd (param ptp 0) (\<lambda>p0.
       let propcode = ucast p0 :: u16 in
       bnd (vcam_get_prop_desc hk cam (uint propcode)) (\<lambda>(desc, cam).
         let width = (case desc of None \<Rightarrow> 0 | Some d \<Rightarrow> sony_dpv_size (DataType d)) in
         bnd (if desc \<noteq> None \<and> length data \<ge> width \<and> width > 0
              then bnd (vcam_set_prop_data hk cam (uint propcode) data width) (\<lambda>(_, cam). Inr cam)
              else Inr cam) (\<lambda>cam.
           let cam = (if session cam \<noteq> 0
                      then sony_notify e cam 300 PTP_EC_Sony_DevicePropChanged (ucast propcode) else cam)
           in Inr (ptp_response cam PTP_RC_OK [])))))"

section \<open>The shutter\<close>

definition sony_store_picture :: "byte list \<Rightarrow> vcam \<Rightarrow> vcam" where
  "sony_store_picture data cam =
     (let count = so_capture_count (sony cam)
      in cam\<lparr>sony := (sony cam)\<lparr>so_sdram := \<lparr>sd_used = True, sd_handle = SONY_OBJECT_HANDLE,
           sd_ofc = ucast PTP_OF_JPEG, sd_name = picture_name count, sd_data = data\<rparr>,
           so_capture_count := count + 1\<rparr>\<rparr>)"

definition sony_complete_capture :: "hooks \<Rightarrow> env \<Rightarrow> vcam \<Rightarrow> vcam res" where
  "sony_complete_capture hk e cam =
     (let cam = sony_free_sdram cam in
      bnd (sony_load_jpeg e) (\<lambda>data.
      bnd (sony_set_prop_u16 hk (sony_store_picture data cam) PTP_DPC_SONY_ObjectInMemory 0x8001) (\<lambda>cam.
      bnd (sony_set_prop_u8 hk cam PTP_DPC_SONY_FocusFound 1) (\<lambda>cam.
        Inr (sony_notify e cam 100 PTP_EC_Sony_ObjectAdded SONY_OBJECT_HANDLE)))))"

definition sony_controldevice_write :: "vcam \<Rightarrow> ptpcontainer \<Rightarrow> vcam res" where
  "sony_controldevice_write cam ptp = checked cam ptp 1 (\<lambda>cam. Inr cam)"

definition half_release :: "u16 \<Rightarrow> vcam \<Rightarrow> vcam" where
  "half_release value cam = cam\<lparr>sony := (sony cam)\<lparr>so_half_pressed := (value = 2)\<rparr>\<rparr>"

definition full_release :: "hooks \<Rightarrow> env \<Rightarrow> u16 \<Rightarrow> vcam \<Rightarrow> vcam res" where
  "full_release hk e value cam =
     (if value = 2 then
        let cam = cam\<lparr>sony := (sony cam)\<lparr>so_full_pressed := True\<rparr>\<rparr>
        in bnd (sony_set_prop_u8 hk cam PTP_DPC_SONY_FocusFound 2) (\<lambda>cam.
             Inr (sony_notify e cam 100 PTP_EC_Sony_DevicePropChanged (ucast PTP_DPC_SONY_FocusFound)))
      else
        bnd (if so_full_pressed (sony cam) then sony_complete_capture hk e cam else Inr cam) (\<lambda>cam.
          Inr (cam\<lparr>sony := (sony cam)\<lparr>so_full_pressed := False\<rparr>\<rparr>)))"

section \<open>Stepping a property\<close>

text \<open>Little-endian reads into a zeroed \<open>long long\<close>, sign-extended at widths 1 and 2.\<close>

fun le_nat :: "byte list \<Rightarrow> nat" where
  "le_nat [] = 0"
| "le_nat (b # bs) = unat b + 256 * le_nat bs"

definition read_ll :: "nat \<Rightarrow> blk \<Rightarrow> int res" where
  "read_ll w v = bnd (memcpy_blk (int w) v) (\<lambda>bs. Inr (int (le_nat bs)))"

definition sign_at :: "nat \<Rightarrow> int \<Rightarrow> int" where
  "sign_at w v = (if w = 1 then sint (word_of_int v :: 8 word)
     else if w = 2 then sint (word_of_int v :: 16 word) else v)"

definition step_delta :: "byte \<Rightarrow> int" where
  "step_delta step = (if step \<le> 0x7f then uint step else uint step - 0x100)"

text \<open>The position of the current value in the enumeration.\<close>

fun find_pos :: "nat \<Rightarrow> blk \<Rightarrow> blk \<Rightarrow> nat \<Rightarrow> nat \<Rightarrow> nat option res" where
  "find_pos w lst v i 0 = Inr None"
| "find_pos w lst v i (Suc n) =
     bnd (blk_at (int (i * w)) lst) (\<lambda>p. bnd (memcpy_blk (int w) p) (\<lambda>a.
     bnd (memcpy_blk (int w) v) (\<lambda>b.
       if a = b then Inr (Some i) else find_pos w lst v (Suc i) n)))"

definition new_pos :: "int option \<Rightarrow> int \<Rightarrow> int \<Rightarrow> int" where
  "new_pos pos delta cnt =
     (case pos of
        None \<Rightarrow> (if delta > 0 then cnt - 1 else 0)
      | Some p \<Rightarrow>
          (let n = p + delta; n = (if n < 0 then 0 else n) in if n \<ge> cnt then cnt - 1 else n))"

text \<open>\<open>memcpy(desc->value, src, w)\<close>: the first \<open>w\<close> bytes of the value are replaced.\<close>

definition overwrite :: "blk \<Rightarrow> byte list \<Rightarrow> blk res" where
  "overwrite v bs = bnd (blk_bytes v) (\<lambda>old.
     if length bs \<le> length old then Inr (Mem (bs @ drop (length bs) old)) else Inl Undef)"

definition enum_step :: "nat \<Rightarrow> int \<Rightarrow> int \<Rightarrow> PtpPropDesc \<Rightarrow> PtpPropDesc option res" where
  "enum_step w delta cnt d =
     bnd (find_pos w (avail d) (pd_value d) 0 (nat cnt)) (\<lambda>pos.
       let np = new_pos (map_option int pos) delta cnt in
       if map_option int pos = Some np then Inr None
       else bnd (blk_at (np * int w) (avail d)) (\<lambda>p. bnd (memcpy_blk (int w) p) (\<lambda>bs.
            bnd (overwrite (pd_value d) bs) (\<lambda>v. Inr (Some (d\<lparr>pd_value := v\<rparr>))))))"

definition clamp :: "int \<Rightarrow> int \<Rightarrow> int \<Rightarrow> int" where
  "clamp lo hi v = (let v = (if v < lo then lo else v) in if v > hi then hi else v)"

definition range_step :: "nat \<Rightarrow> int \<Rightarrow> PtpPropDesc \<Rightarrow> PtpPropDesc option res" where
  "range_step w delta d =
     bnd (read_ll w (pd_value d)) (\<lambda>cur. bnd (read_ll w (form_min d)) (\<lambda>lo.
     bnd (read_ll w (form_max d)) (\<lambda>hi. bnd (read_ll w (form_step d)) (\<lambda>st.
       let cur = sign_at w cur; newv = clamp (sign_at w lo) (sign_at w hi) (cur + delta * st) in
       if newv = cur then Inr None
       else bnd (overwrite (pd_value d) (take w (put_32bit_le (word_of_int newv)))) (\<lambda>v.
            Inr (Some (d\<lparr>pd_value := v\<rparr>)))))))"

text \<open>\<open>None\<close> is the result -1; otherwise the changed descriptor.\<close>

definition sony_apply_step :: "PtpPropDesc \<Rightarrow> byte \<Rightarrow> PtpPropDesc option res" where
  "sony_apply_step d step =
     (let w = sony_dpv_size (DataType d); delta = step_delta step in
      if w = 0 \<or> w > 4 then Inr None
      else if delta = 0 then Inr None
      else
        bnd (if FormFlag d = PTP_EnumerationForm
             then bnd (is_null (avail d)) (\<lambda>null.
                    if null then Inr None
                    else bnd (deref (avail_cnt d)) (\<lambda>cnt. Inr (if cnt > 0 then Some cnt else None)))
             else Inr None) (\<lambda>enum. case enum of
          Some cnt \<Rightarrow> enum_step w delta cnt d
        | None \<Rightarrow>
            if FormFlag d = PTP_RangeForm then
              bnd (is_null (form_min d)) (\<lambda>a. bnd (is_null (form_max d)) (\<lambda>b. bnd (is_null (form_step d)) (\<lambda>c.
                if a \<or> b \<or> c then Inr None else range_step w delta d)))
            else Inr None))"

definition sony_controldevice_data ::
    "hooks \<Rightarrow> env \<Rightarrow> vcam \<Rightarrow> ptpcontainer \<Rightarrow> byte list \<Rightarrow> vcam res" where
  "sony_controldevice_data hk e cam ptp data = checked cam ptp 1 (\<lambda>cam.
     bnd (param ptp 0) (\<lambda>p0.
       let propcode = ucast p0 :: u16 in
       bnd (if (propcode = PTP_DPC_SONY_ShutterHalfRelease \<or> propcode = PTP_DPC_SONY_ShutterRelease)
               \<and> length data \<ge> 2
            then bnd (get_16bit_le data) (\<lambda>value.
              if propcode = PTP_DPC_SONY_ShutterHalfRelease then Inr (half_release value cam)
              else full_release hk e value cam)
            else if length data \<ge> 1 then
              bnd (get_8bit_le data) (\<lambda>step.
              bnd (vcam_get_prop_desc hk cam (uint propcode)) (\<lambda>(desc, cam). case desc of
                  None \<Rightarrow> Inr cam
                | Some d \<Rightarrow> bnd (sony_apply_step d step) (\<lambda>r. case r of
                    None \<Rightarrow> Inr cam
                  | Some d' \<Rightarrow> Inr (sony_notify e (set_desc (uint propcode) d' cam) 100
                                 PTP_EC_Sony_DevicePropChanged (ucast propcode)))))
            else Inr cam) (\<lambda>cam. Inr (ptp_response cam PTP_RC_OK []))))"

section \<open>Storage and objects in memory\<close>

definition sony_getstorageids_op :: "vcam \<Rightarrow> ptpcontainer \<Rightarrow> vcam res" where
  "sony_getstorageids_op cam ptp = checked cam ptp 0 (\<lambda>cam.
     Inr (ptp_response (ptp_senddata cam (cmd_code ptp) (put_32bit_le 0)) PTP_RC_OK []))"

definition has_picture :: "vcam \<Rightarrow> u32 \<Rightarrow> bool" where
  "has_picture cam h \<longleftrightarrow> h = SONY_OBJECT_HANDLE \<and> sd_used (so_sdram (sony cam))"

definition has_liveview :: "vcam \<Rightarrow> u32 \<Rightarrow> bool" where
  "has_liveview cam h \<longleftrightarrow> h = SONY_LIVEVIEW_HANDLE \<and> so_lv_data (sony cam) \<noteq> None"

definition lv_bytes :: "vcam \<Rightarrow> byte list" where
  "lv_bytes cam = (case so_lv_data (sony cam) of Some d \<Rightarrow> d | None \<Rightarrow> [])"

definition sony_virtual_object_info :: "env \<Rightarrow> vcam \<Rightarrow> ptpcontainer \<Rightarrow> u32 \<Rightarrow> vcam res" where
  "sony_virtual_object_info e cam ptp h =
     (let obj = so_sdram (sony cam) in
      case (if has_picture cam h then Some (word_of_nat (length (sd_data obj)) :: u32, sd_name obj)
            else if has_liveview cam h
            then Some (word_of_nat (SONY_LV_HEADER_SIZE + length (lv_bytes cam)), ''livestream.jpg'')
            else None) of
        None \<Rightarrow> Inr (ptp_response cam PTP_RC_InvalidObjectHandle [])
      | Some (sz, name) \<Rightarrow>
          let (xtime, cam) = time_now e cam
          in bnd (memory_objectinfo xtime PTP_OF_JPEG sz name) (\<lambda>data.
               Inr (ptp_response (ptp_senddata cam (cmd_code ptp) data) PTP_RC_OK [])))"

definition sony_getobjectinfo :: "env \<Rightarrow> vcam \<Rightarrow> ptpcontainer \<Rightarrow> vcam res" where
  "sony_getobjectinfo e cam ptp = checked cam ptp 1 (\<lambda>cam.
     bnd (param ptp 0) (\<lambda>h.
       if h = SONY_OBJECT_HANDLE \<or> h = SONY_LIVEVIEW_HANDLE then sony_virtual_object_info e cam ptp h
       else ptp_getobjectinfo_write e cam ptp))"

definition sony_getobject :: "hooks \<Rightarrow> env \<Rightarrow> vcam \<Rightarrow> ptpcontainer \<Rightarrow> vcam res" where
  "sony_getobject hk e cam ptp = checked cam ptp 1 (\<lambda>cam.
     bnd (param ptp 0) (\<lambda>h.
       if has_picture cam h then
         bnd (fits SEND_MAX (sd_data (so_sdram (sony cam)))) (\<lambda>data.
           let cam = ptp_senddata cam (cmd_code ptp) data; cam = sony_free_sdram cam
           in bnd (sony_set_prop_u16 hk cam PTP_DPC_SONY_ObjectInMemory 0) (\<lambda>cam.
                Inr (ptp_response cam PTP_RC_OK [])))
       else if has_liveview cam h then
         bnd (fits SEND_MAX (put_32bit_le 4 @ lv_bytes cam)) (\<lambda>data.
           Inr (ptp_response (ptp_senddata cam (cmd_code ptp) data) PTP_RC_OK []))
       else ptp_getobject_write e cam ptp))"

definition sony_lookup_virtual_object :: "vcam \<Rightarrow> u32 \<Rightarrow> byte list option" where
  "sony_lookup_virtual_object cam h =
     (if has_picture cam h then Some (sd_data (so_sdram (sony cam)))
      else if has_liveview cam h then Some (lv_bytes cam) else None)"

section \<open>Registration and set-up\<close>

definition sony_not_supported_op :: "vcam \<Rightarrow> ptpcontainer \<Rightarrow> vcam res" where
  "sony_not_supported_op cam ptp =
     guard (vcam_check_trans_id cam ptp) (\<lambda>cam.
     guard (vcam_check_session cam) (\<lambda>cam.
       Inr (ptp_response cam PTP_RC_OperationNotSupported [])))"

definition sony_register_ops :: "vcam \<Rightarrow> vcam" where
  "sony_register_ops cam = fold register_op
    [(0x9201, F_sony_sdioconnect_op, None),
     (0x9202, F_sony_getextdeviceinfo_op, None),
     (0x9209, F_sony_getalldevicepropinfo_op, None),
     (0x9205, F_sony_setdevicepropvalue_write, Some F_sony_setdevicepropvalue_data),
     (0x9207, F_sony_controldevice_write, Some F_sony_controldevice_data),
     (0x1004, F_sony_getstorageids_op, None),
     (0x1008, F_sony_getobjectinfo, None),
     (0x1009, F_sony_getobject, None),
     (0x100B, F_sony_not_supported_op, None),
     (0x100E, F_sony_not_supported_op, None)] cam"

definition sony_events :: "u16 list" where
  "sony_events = [0x4002, 0x4003, 0x4006, 0x400D, 0xC201, 0xC203]"

definition sony_base_deviceprops :: "u16 list" where
  "sony_base_deviceprops = [0x5004, 0x5005, 0x5007, 0x500a, 0x500b, 0x500c, 0x5010, 0x500e, 0x5013]"

definition sony_controls :: "u16 list" where
  "sony_controls = [0xd2c1, 0xd2c2, 0xd2c3, 0xd2c4, 0xd2c7, 0xd2c8, 0xd2c9,
     0xd2cd, 0xd2ce, 0xd2cf, 0xd2d0]"

definition sony_models :: "(SonyModelProfile \<times> (vcam \<Rightarrow> vcam)) list" where
  "sony_models =
    [(\<lparr>sp_name = ''sony_a7m4'', sp_model = ''ILCE-7M4'', sp_version = ''1.00'',
       sp_serial = ''00000000000000001234567891234567'', sp_product_id = 0x0da7,
       sp_deviceprops = sony_base_deviceprops, sp_controls = sony_controls\<rparr>, sony_register_model_a7m4),
     (\<lparr>sp_name = ''sony_a7r5'', sp_model = ''ILCE-7RM5'', sp_version = ''2.02'',
       sp_serial = ''0000000000000000nnnnnnnnnnnnnnnn'', sp_product_id = 0x0e0c,
       sp_deviceprops = sony_base_deviceprops, sp_controls = sony_controls\<rparr>, sony_register_model_a7r5)]"

definition sony_init_cam :: "env \<Rightarrow> string \<Rightarrow> string list \<Rightarrow> vcam \<Rightarrow> (bool \<times> vcam) res" where
  "sony_init_cam e name argv cam =
     (case find (\<lambda>m. sp_name (fst m) = name) sony_models of
        None \<Rightarrow> Inr (False, cam)
      | Some (prof, register_model) \<Rightarrow>
          let cam = cam\<lparr>sony := zero_sony\<lparr>so_profile := Some prof, so_capture_count := 1,
                so_focus_found := 1, so_object_in_memory := 0\<rparr>\<rparr>
          in bnd (parse_all_args e argv cam) (\<lambda>(ok, cam).
               if \<not> ok then Inr (False, cam)
               else bnd (sony_load_jpeg e) (\<lambda>lv.
                 let cam = cam\<lparr>sony := (sony cam)\<lparr>so_lv_data := Some lv\<rparr>,
                       manufac := ''Sony Corporation'', vendor_id := 0x054c,
                       product_id := sp_product_id prof, model := sp_model prof, version := sp_version prof,
                       serial := sp_serial prof, extension := ''Sony PTP Extensions'',
                       vendor_extension_id := PTP_VENDOR_SONY, vendor_extension_version := 0x64,
                       ev_list := Some sony_events, deviceprops := Some (sp_deviceprops prof),
                       capture_formats := Some [],
                       image_formats := Some [0x3001, 0x3801, 0xb101, 0x300b, 0xb982, 0xb110]\<rparr>;
                     cam = register_model cam;
                     cam = sony_register_ops cam
                 in Inr (True, cam\<lparr>lookup_virtual_object := Some F_sony_lookup_virtual_object\<rparr>))))"

end
