(* ===== verification/Canon_Models.thy ===== *)
theory Canon_Models
  imports Prop_Tables
begin

text \<open>
  The Canon property tables: src/src/canon/props.c and the property halves of the model profiles
  in src/src/canon/models. A row is the arguments of one \<open>canon_add_prop_\<close> call; the descriptors
  hold a current value only, with no default, no form and all other pointers null.
\<close>

section \<open>Registration\<close>

definition add_prop_typed :: "int \<Rightarrow> u16 \<Rightarrow> u32 \<Rightarrow> nat \<Rightarrow> vcam \<Rightarrow> vcam" where
  "add_prop_typed cde datatype val width cam =
     vcam_register_prop cde (zero_desc\<lparr>pd_value := Mem (take width (put_32bit_le val)),
       DataType := datatype\<rparr>) cam"

definition add_prop_u32 :: "int \<Rightarrow> u32 \<Rightarrow> vcam \<Rightarrow> vcam" where
  "add_prop_u32 cde val cam =
     vcam_register_prop cde (zero_desc\<lparr>pd_value := Mem (put_32bit_le val), DataType := PTP_TC_UINT32\<rparr>) cam"

definition canon_add_prop_u32 :: "int \<Rightarrow> u32 \<Rightarrow> vcam \<Rightarrow> vcam" where
  "canon_add_prop_u32 cde val = add_prop_typed cde PTP_TC_UINT32 val 4"

definition canon_add_prop_u16 :: "int \<Rightarrow> u16 \<Rightarrow> vcam \<Rightarrow> vcam" where
  "canon_add_prop_u16 cde val = add_prop_typed cde PTP_TC_UINT16 (ucast val) 2"

definition canon_add_prop_u8 :: "int \<Rightarrow> byte \<Rightarrow> vcam \<Rightarrow> vcam" where
  "canon_add_prop_u8 cde val = add_prop_typed cde PTP_TC_UINT8 (ucast val) 1"

definition canon_add_prop_i32 :: "int \<Rightarrow> int \<Rightarrow> vcam \<Rightarrow> vcam" where
  "canon_add_prop_i32 cde val = add_prop_typed cde PTP_TC_INT32 (word_of_int val) 4"

text \<open>A table of such calls.\<close>

datatype eos_row = U32 int u32 | U16 int u16 | U8 int byte | I32 int int

fun canon_add_row :: "eos_row \<Rightarrow> vcam \<Rightarrow> vcam" where
  "canon_add_row (U32 c v) = canon_add_prop_u32 c v"
| "canon_add_row (U16 c v) = canon_add_prop_u16 c v"
| "canon_add_row (U8 c v) = canon_add_prop_u8 c v"
| "canon_add_row (I32 c v) = canon_add_prop_i32 c v"

definition canon_add_rows :: "eos_row list \<Rightarrow> vcam \<Rightarrow> vcam" where
  "canon_add_rows rows cam = fold canon_add_row rows cam"

section \<open>The properties of the remote capture flow\<close>

definition canon_register_capture_props :: "vcam \<Rightarrow> vcam" where
  "canon_register_capture_props cam = fold (\<lambda>(c, v). add_prop_u32 c v)
    [(0xD11C, 0x2),
     (0xD11B, 0xC03),
     (0xD108, 0x3),
     (0xD111, 0x2),
     (0xD116, 0x80000404),
     (0xD119, 0x100)] cam"

definition ensure_prop :: "hooks \<Rightarrow> int \<Rightarrow> u32 \<Rightarrow> vcam \<Rightarrow> vcam res" where
  "ensure_prop hk c v cam = bnd (vcam_get_prop_desc hk cam c) (\<lambda>(desc, cam).
     Inr (case desc of None \<Rightarrow> canon_add_prop_u32 c v cam | Some d \<Rightarrow> cam))"

definition canon_ensure_capture_props :: "hooks \<Rightarrow> vcam \<Rightarrow> vcam res" where
  "canon_ensure_capture_props hk cam =
     bnd (ensure_prop hk 0xD11C 0x2 cam) (\<lambda>cam.
     bnd (ensure_prop hk 0xD11B 0xC03 cam) (\<lambda>cam.
     bnd (ensure_prop hk 0xD108 0x3 cam) (\<lambda>cam.
     bnd (ensure_prop hk 0xD1B0 0x0 cam) (\<lambda>cam.
     ensure_prop hk 0xD199 0x7 cam))))"

section \<open>Model profiles\<close>

definition canon_model_5d3_ops :: "int list" where
  "canon_model_5d3_ops =
    [0x1001, 0x1002, 0x1003, 0x1014, 0x1015, 0x1016, 0x91D5, 0x9801, 0x9802, 0x9803, 0x9804,
     0x9805, 0x1006, 0x1004, 0x9101, 0x1005, 0x9102, 0x1007, 0x1008, 0x9103, 0x1009, 0x9104,
     0x100A, 0x101B, 0x9107, 0x100C, 0x100D, 0x100B, 0x9105, 0x100F, 0x9106, 0x9110, 0x9127,
     0x910B, 0x9108, 0x9109, 0x910C, 0x910E, 0x910F, 0x9117, 0x9120, 0x91F0, 0x9118, 0x9121,
     0x91F1, 0x911D, 0x910A, 0x911B, 0x911C, 0x911E, 0x911A, 0x9153, 0x9154, 0x9160, 0x9155,
     0x9157, 0x9158, 0x9159, 0x915A, 0x911F, 0x91FE, 0x91FF, 0x9128, 0x9129, 0x912D, 0x912E,
     0x912F, 0x912C, 0x9130, 0x9131, 0x9132, 0x9133, 0x9134, 0x912B, 0x9135, 0x9136, 0x9137,
     0x9138, 0x9139, 0x913A, 0x913B, 0x913C, 0x913D, 0x913F, 0x91DA, 0x91DB, 0x91DC, 0x91DD,
     0x91DE, 0x91D8, 0x91D9, 0x91D7, 0x913E, 0x9113, 0x9114, 0x9115, 0x9116, 0x91C0, 0x91C1,
     0x91C2, 0x91C3, 0x91C4, 0x91C5, 0x91C6, 0x91C7, 0x91C8, 0x91C9, 0x91CA, 0x91CB, 0x91CC,
     0x91CE, 0x91CF, 0x91D0, 0x91D1, 0x91D2, 0x91E1, 0x91E2, 0x91E3, 0x91E4, 0x91E5, 0x91E6,
     0x91E7, 0x91E8, 0x91E9, 0x91EA, 0x91EB, 0x91EC, 0x91ED, 0x91EE, 0x91EF, 0x91F8, 0x91F9,
     0x91F2, 0x91F3, 0x91F4, 0x91F7, 0x91DF, 0x91FB, 0x91FC, 0x91FD, 0x9122, 0x9123, 0x9124,
     0x91F5, 0x91F6, 0x9052, 0x9053, 0x9057, 0x9058, 0x9059, 0x905A, 0x905F]"

definition canon_5d3_props :: "eos_row list" where
  "canon_5d3_props =
    [U16 0xD101 0x30, U16 0xD102 0x75, U16 0xD103 0x0, U8 0xD104 0x0, U16 0xD105 0x1,
     U16 0xD106 0x0, U8 0xD107 0x3, U32 0xD108 0x0, U8 0xD109 0x0, U32 0xD10A 0x0,
     I32 0xD10B 0, I32 0xD10C 0, U32 0xD10D 0x0, U32 0xD10E 0x0, U16 0xD10F 0x1,
     U8 0xD110 0x81, U16 0xD111 0x2, U16 0xD112 0x2, U32 0xD113 0x52DFFB53, I32 0xD114 0,
     U32 0xD116 0x80000285, U16 0xD119 0x100, U32 0xD11B 0x619, U32 0xD11C 0x1, U16 0xD11D 0x0,
     U32 0xD11E 0x10001, U32 0xD11F 0x50000000, U16 0xD138 0x0, U32 0xD13A 0x0, U32 0xD13C 0x0,
     U32 0xD17C 0x0, U32 0xD17E 0x0, U32 0xD194 0x0, U32 0xD195 0x0, U32 0xD196 0x0,
     U32 0xD197 0x0, U32 0xD198 0x0, U32 0xD199 0x0, U32 0xD1A3 0x0, U32 0xD1A8 0x0,
     U16 0xD1A9 0x2, U32 0xD1AA 0x0, U32 0xD1AB 0x0, U32 0xD1AC 0xCE12, U16 0xD1B1 0x1,
     U32 0xD1B4 0x0, U32 0xD1B5 0x0, U32 0xD1B6 0x0, U32 0xD1B7 0x0, U16 0xD1B8 0x0,
     U32 0xD1BA 0x0, U32 0xD1BC 0x0, U32 0xD1BD 0x0, U32 0xD1BF 0x0, U32 0xD1C0 0x0,
     U32 0xD1C1 0x0, U32 0xD1C2 0x0, U32 0xD1C4 0x0, U32 0xD1C5 0x0, U32 0xD1C7 0x0,
     U32 0xD1D5 0x0, U16 0xD1D9 0x0, U32 0xD1DC 0x0, U32 0xD1DD 0xB1, U32 0xD1DF 0x0]"

definition canon_model_90d_ops :: "int list" where
  "canon_model_90d_ops =
    [0x1002, 0x1003, 0x1001, 0x1004, 0x9101, 0x1005, 0x9102, 0x1006, 0x1007, 0x1008, 0x9103,
     0x9170, 0x1009, 0x9104, 0x9171, 0x100A, 0x100F, 0x9106, 0x1014, 0x1016, 0x101B, 0x100C,
     0x100D, 0x9107, 0x9172, 0x912C, 0x9174, 0x9114, 0x9115, 0x9116, 0x9117, 0x9109, 0x9173,
     0x910A, 0x9132, 0x9033, 0x9068, 0x9069, 0x906A, 0x906B, 0x911A, 0x911D, 0x911E, 0x911F,
     0x9122, 0x9123, 0x9124, 0x9131, 0x9133, 0x9134, 0x9135, 0x913C, 0x913E, 0x913F, 0x9140,
     0x9154, 0x9155, 0x9157, 0x9158, 0x9159, 0x915A, 0x915B, 0x9160, 0x906C, 0x906D, 0x906E,
     0x906F, 0x9108, 0x9110, 0x912B, 0x9130, 0x913D, 0x915C, 0x915D, 0x911B, 0x911C, 0x9153,
     0x9128, 0x9129, 0x902F, 0x910C, 0x91F0, 0x9127, 0x91F1, 0x91E1, 0x91E3, 0x91E6, 0x91E7,
     0x91E8, 0x91E9, 0x91EC, 0x9144, 0x9145, 0x91D3, 0x91D4, 0x9136, 0x9137, 0x9146, 0x916B,
     0x916C, 0x9148, 0x9149, 0x914A, 0x910F, 0x914B, 0x9141, 0x9143, 0x100B, 0x9105, 0x912D,
     0x912E, 0x912F, 0x914C, 0x9139, 0x913A, 0x913B, 0x91D7, 0x91D8, 0x91D9, 0x91DA, 0x91DB,
     0x91DC, 0x91DD, 0x91DE, 0x91D5, 0x9180, 0x9181, 0x9182, 0x9183, 0x9184, 0x9185, 0x9138,
     0x9118, 0x914D, 0x914F, 0x9150, 0x916F, 0x916E, 0x916D, 0x9177, 0x91AE, 0x91AF, 0x91B9,
     0x9077, 0x9078, 0x9079, 0x9178, 0x9179, 0x9050, 0x9051, 0x905C, 0x905D, 0x9060]"

definition canon_90d_props :: "eos_row list" where
  "canon_90d_props =
    [U16 0xD101 0x0, U16 0xD102 0x70, U16 0xD103 0x0, U8 0xD104 0x0, U16 0xD105 0x16,
     U16 0xD106 0x0, U8 0xD107 0x5, U32 0xD108 0x0, U8 0xD109 0x0, U32 0xD10A 0x0,
     I32 0xD10B 0, I32 0xD10C 0, U32 0xD10D 0x0, U32 0xD10E 0x0, U16 0xD10F 0x1,
     U8 0xD110 0x87, U16 0xD111 0x2, U16 0xD112 0x0, U32 0xD113 0x5EB5DD11, I32 0xD114 0,
     U32 0xD116 0x80000437, U32 0xD11B 0x770, U32 0xD11C 0x2, U16 0xD11D 0x0,
     U32 0xD11E 0x20001, U32 0xD11F 0x91900000, U32 0xD137 0x0, U16 0xD138 0x0, U32 0xD13A 0x0,
     U32 0xD13C 0xA2AA5757, U32 0xD149 0x0, U32 0xD14A 0x0, U32 0xD175 0x0, U16 0xD178 0x0,
     U32 0xD179 0x0, U32 0xD17C 0x5EB64D91, U32 0xD17E 0x0, U32 0xD194 0x0, U32 0xD195 0x0,
     U32 0xD196 0x0, U32 0xD197 0x0, U32 0xD198 0x0, U32 0xD199 0x12, U32 0xD19F 0x0,
     U32 0xD1A3 0x0, U32 0xD1A8 0x0, U32 0xD1AA 0x0, U32 0xD1AB 0x0, U16 0xD1B1 0x2,
     U32 0xD1B4 0x0, U32 0xD1B6 0x0, U32 0xD1B7 0x0, U16 0xD1B8 0x0, U32 0xD1BA 0x0,
     U32 0xD1BC 0x0, U32 0xD1BD 0x0, U32 0xD1BF 0x0, U32 0xD1C0 0x0, U32 0xD1C1 0x0,
     U32 0xD1C2 0x0, U32 0xD1C3 0x0, U32 0xD1C4 0x0, U32 0xD1C5 0x0, U32 0xD1C6 0x0,
     U32 0xD1C7 0x0, U32 0xD1C9 0x0, U32 0xD1D4 0x0, U32 0xD1D5 0x0, U16 0xD1D9 0x0,
     U32 0xD1DC 0x3, U32 0xD1DD 0x1032]"

definition canon_model_200d_ops :: "int list" where
  "canon_model_200d_ops =
    [0x1002, 0x1003, 0x1001, 0x1004, 0x9101, 0x1005, 0x9102, 0x1006, 0x1007, 0x1008, 0x9103,
     0x9170, 0x1009, 0x9104, 0x9171, 0x100A, 0x100F, 0x9106, 0x1014, 0x1016, 0x101B, 0x100C,
     0x100D, 0x9107, 0x9172, 0x912C, 0x9174, 0x9114, 0x9115, 0x9116, 0x9117, 0x9109, 0x9173,
     0x910A, 0x9132, 0x9033, 0x9068, 0x9069, 0x906A, 0x906B, 0x911A, 0x911D, 0x911E, 0x911F,
     0x9122, 0x9123, 0x9124, 0x9131, 0x9133, 0x9134, 0x9135, 0x913C, 0x913E, 0x913F, 0x9140,
     0x9154, 0x9155, 0x9157, 0x9158, 0x9159, 0x915A, 0x915B, 0x9160, 0x91FE, 0x91FF, 0x906C,
     0x906D, 0x906E, 0x906F, 0x9108, 0x9110, 0x912B, 0x9130, 0x913D, 0x915C, 0x915D, 0x911B,
     0x911C, 0x9153, 0x9128, 0x9129, 0x902F, 0x910C, 0x910E, 0x91F0, 0x9127, 0x91F1, 0x91E1,
     0x91E2, 0x91E3, 0x91E4, 0x91E6, 0x91E7, 0x91E8, 0x91E9, 0x91EA, 0x91EB, 0x91EC, 0x91ED,
     0x91EE, 0x91EF, 0x91F8, 0x91F9, 0x9144, 0x9145, 0x91D3, 0x91D4, 0x9136, 0x9137, 0x9146,
     0x9147, 0x9148, 0x9149, 0x91DF, 0x91FB, 0x91FC, 0x914A, 0x910F, 0x914B, 0x9141, 0x9143,
     0x100B, 0x9105, 0x912D, 0x912E, 0x912F, 0x914C, 0x9139, 0x913A, 0x913B, 0x914E, 0x91D7,
     0x91D8, 0x91D9, 0x91DA, 0x91DB, 0x91DC, 0x91DD, 0x91DE, 0x91D5, 0x9180, 0x9181, 0x9182,
     0x9183, 0x9184, 0x9185, 0x9138, 0x9118, 0x91F5, 0x91F6, 0x917F, 0x914D, 0x914F, 0x9150,
     0x91F2, 0x91F3, 0x91F4, 0x91FD, 0x9050, 0x9051, 0x905C, 0x905D, 0x9052, 0x9053, 0x9057,
     0x9058, 0x9059, 0x905A, 0x905B, 0x905F]"

definition canon_200d_props :: "eos_row list" where
  "canon_200d_props =
    [U16 0xD101 0x20, U16 0xD102 0x70, U16 0xD103 0x50, U8 0xD104 0x0, U16 0xD105 0x3,
     U16 0xD106 0x0, U8 0xD107 0x3, U32 0xD108 0x3, U8 0xD109 0x1, U32 0xD10A 0x0,
     I32 0xD10B 0, I32 0xD10C 0, U32 0xD10D 0x0, U32 0xD10E 0x0, U16 0xD10F 0x1,
     U8 0xD110 0x81, U16 0xD111 0x2, U16 0xD112 0x2, U32 0xD113 0x386D44C2, I32 0xD114 0,
     U32 0xD116 0x80000417, U32 0xD11B 0x1CED1, U32 0xD11C 0x4, U16 0xD11D 0x0,
     U32 0xD11E 0x20000, U32 0xD11F 0x91900000, U32 0xD137 0x0, U16 0xD138 0x0, U32 0xD13A 0x1,
     U32 0xD13C 0x5CCD0303, U32 0xD149 0x0, U32 0xD14A 0x0, U32 0xD175 0x0, U16 0xD178 0x0,
     U32 0xD179 0x0, U32 0xD17C 0x386D44C2, U32 0xD17E 0x0, U32 0xD194 0x0, U32 0xD195 0x0,
     U32 0xD196 0x0, U32 0xD197 0x0, U32 0xD198 0x0, U32 0xD199 0x0, U32 0xD19F 0x0,
     U32 0xD1A3 0x0, U32 0xD1A8 0x0, U32 0xD1AA 0x0, U32 0xD1AB 0x0, U16 0xD1B1 0x1,
     U32 0xD1B4 0x0, U32 0xD1B6 0x0, U32 0xD1B7 0x0, U16 0xD1B8 0x0, U32 0xD1BA 0x0,
     U32 0xD1BC 0x0, U32 0xD1BD 0x0, U32 0xD1BF 0x0, U32 0xD1C0 0x0, U32 0xD1C1 0x0,
     U32 0xD1C2 0x0, U32 0xD1C3 0x0, U32 0xD1C4 0x0, U32 0xD1C5 0x0, U32 0xD1C6 0x0,
     U32 0xD1C7 0x0, U32 0xD1C9 0x0, U32 0xD1D4 0x0, U32 0xD1D5 0x0, U16 0xD1D9 0x0,
     U32 0xD1DC 0x0, U32 0xD1DD 0x103A, U32 0xD1DF 0x0]"

definition canon_model_r_ops :: "int list" where
  "canon_model_r_ops =
    [0x1002, 0x1003, 0x1001, 0x1004, 0x9101, 0x1005, 0x9102, 0x1006, 0x1007, 0x1008, 0x9103,
     0x9170, 0x1009, 0x9104, 0x9171, 0x100A, 0x100F, 0x9106, 0x1014, 0x1016, 0x101B, 0x100C,
     0x100D, 0x9107, 0x9172, 0x912C, 0x9174, 0x9114, 0x9115, 0x9116, 0x9117, 0x9109, 0x9173,
     0x910A, 0x9132, 0x9033, 0x9068, 0x9069, 0x906A, 0x906B, 0x911A, 0x911D, 0x911E, 0x911F,
     0x9122, 0x9123, 0x9124, 0x9131, 0x9133, 0x9134, 0x9135, 0x913C, 0x913E, 0x913F, 0x9140,
     0x9154, 0x9155, 0x9157, 0x9158, 0x9159, 0x915A, 0x915B, 0x9160, 0x91FE, 0x91FF, 0x906C,
     0x906D, 0x906E, 0x906F, 0x9108, 0x9110, 0x912B, 0x9130, 0x913D, 0x915C, 0x915D, 0x911B,
     0x911C, 0x9153, 0x9128, 0x9129, 0x902F, 0x910C, 0x910E, 0x91F0, 0x9127, 0x91F1, 0x91E1,
     0x91E2, 0x91E3, 0x91E4, 0x91E6, 0x91E7, 0x91E8, 0x91E9, 0x91EA, 0x91EB, 0x91EC, 0x91ED,
     0x91EE, 0x91EF, 0x91F8, 0x91F9, 0x9144, 0x9145, 0x91D3, 0x91D4, 0x9136, 0x9137, 0x9146,
     0x916B, 0x9147, 0x916C, 0x9148, 0x9149, 0x91DF, 0x91FB, 0x91FC, 0x914A, 0x910F, 0x914B,
     0x9141, 0x9143, 0x100B, 0x9105, 0x912D, 0x912E, 0x912F, 0x914C, 0x9139, 0x913A, 0x913B,
     0x914E, 0x91D7, 0x91D8, 0x91D9, 0x91DA, 0x91DB, 0x91DC, 0x91DD, 0x91DE, 0x91D5, 0x9180,
     0x9181, 0x9182, 0x9183, 0x9184, 0x9185, 0x9138, 0x9118, 0x91F5, 0x91F6, 0x917F, 0x914D,
     0x914F, 0x9150, 0x91F2, 0x91F3, 0x91F4, 0x91FD, 0x916F, 0x916E, 0x916D, 0x9177, 0x91B9,
     0x9050, 0x9051, 0x905C, 0x905D, 0x9060]"

definition canon_r_props :: "eos_row list" where
  "canon_r_props =
    [U16 0xD101 0x38, U16 0xD102 0xC, U16 0xD103 0x68, U8 0xD104 0x0, U16 0xD105 0x4,
     U16 0xD106 0x0, U8 0xD107 0x3, U32 0xD108 0x0, U8 0xD109 0x1, U32 0xD10A 0x1450,
     I32 0xD10B 0, I32 0xD10C 0, U32 0xD10D 0x0, U32 0xD10E 0x0, U16 0xD10F 0x1,
     U8 0xD110 0x83, U16 0xD111 0x2, U16 0xD112 0x0, U32 0xD113 0x5E962647, I32 0xD114 60,
     U32 0xD116 0x80000424, U32 0xD11B 0x5F6, U32 0xD11C 0x2, U16 0xD11D 0x0,
     U32 0xD11E 0x20001, U32 0xD11F 0x91900000, U32 0xD137 0x0, U16 0xD138 0x0, U32 0xD13A 0x0,
     U32 0xD13C 0x8AAA5757, U32 0xD149 0x0, U32 0xD14A 0x0, U32 0xD175 0x0, U16 0xD178 0x0,
     U32 0xD179 0x0, U32 0xD17C 0x5E961837, U32 0xD17E 0x0, U32 0xD194 0x0, U32 0xD195 0x0,
     U32 0xD196 0x0, U32 0xD197 0x0, U32 0xD198 0x0, U32 0xD199 0x11, U32 0xD19F 0x0,
     U32 0xD1A3 0x0, U32 0xD1A8 0x0, U32 0xD1AA 0x0, U32 0xD1AB 0x0, U16 0xD1B1 0x1,
     U32 0xD1B4 0x0, U32 0xD1B6 0x0, U32 0xD1B7 0x0, U16 0xD1B8 0x3, U32 0xD1BA 0x0,
     U32 0xD1BC 0x0, U32 0xD1BD 0x0, U32 0xD1BF 0x0, U32 0xD1C0 0x0, U32 0xD1C1 0x0,
     U32 0xD1C2 0x0, U32 0xD1C3 0x0, U32 0xD1C4 0x0, U32 0xD1C5 0x0, U32 0xD1C6 0x0,
     U32 0xD1C7 0x0, U32 0xD1C9 0x0, U32 0xD1D4 0x0, U32 0xD1D5 0x0, U16 0xD1D9 0x0,
     U32 0xD1DC 0x3, U32 0xD1DD 0x102EEFE, U32 0xD1DF 0x0]"

definition canon_model_g7x3_ops :: "int list" where
  "canon_model_g7x3_ops =
    [0x1002, 0x1003, 0x1001, 0x1004, 0x9101, 0x1005, 0x9102, 0x1006, 0x1007, 0x1008, 0x9103,
     0x9170, 0x1009, 0x9104, 0x9171, 0x100A, 0x100F, 0x9106, 0x1014, 0x1016, 0x101B, 0x100C,
     0x100D, 0x9107, 0x9172, 0x912C, 0x9174, 0x9114, 0x9115, 0x9116, 0x9117, 0x9109, 0x9173,
     0x910A, 0x9132, 0x9033, 0x9068, 0x9069, 0x906A, 0x906B, 0x911A, 0x911D, 0x911E, 0x911F,
     0x9122, 0x9123, 0x9124, 0x9131, 0x9133, 0x9134, 0x9135, 0x913C, 0x913E, 0x913F, 0x9140,
     0x9154, 0x9155, 0x9157, 0x9158, 0x9159, 0x915A, 0x915B, 0x9160, 0x906C, 0x906D, 0x906E,
     0x906F, 0x9086, 0x9108, 0x9110, 0x912B, 0x9130, 0x913D, 0x915C, 0x915D, 0x911B, 0x911C,
     0x9153, 0x9128, 0x9129, 0x902F, 0x910C, 0x91F0, 0x9127, 0x91F1, 0x91E1, 0x91E3, 0x91E6,
     0x91E7, 0x91E8, 0x91E9, 0x91EC, 0x9144, 0x9145, 0x91D3, 0x91D4, 0x9136, 0x9137, 0x9146,
     0x916B, 0x916C, 0x9148, 0x9149, 0x914A, 0x910F, 0x914B, 0x9141, 0x9143, 0x100B, 0x9105,
     0x912D, 0x912E, 0x912F, 0x914C, 0x9139, 0x913A, 0x913B, 0x91D7, 0x91D8, 0x91D9, 0x91DA,
     0x91DB, 0x91DC, 0x91DD, 0x91DE, 0x91D5, 0x9180, 0x9181, 0x9182, 0x9183, 0x9184, 0x9185,
     0x9138, 0x9118, 0x914D, 0x914F, 0x9150, 0x916F, 0x916E, 0x916D, 0x9177, 0x91AE, 0x91AF,
     0x91B9, 0x9077, 0x9078, 0x9079, 0x9178, 0x9179, 0x9050, 0x9051, 0x905C, 0x905D, 0x9060]"

section \<open>The older table\<close>

text \<open>
  \<open>vcam_canon_setup\<close>, which nothing calls: a table of 32-bit properties, and then the lists of
  available values, each a block of the bytes of a C array with the count that goes with it.
\<close>


definition canon_setup_props :: "(int \<times> u32) list" where
  "canon_setup_props =
    [(0xD105, 0x3), (0xD108, 0x3), (0xD106, 0x11), (0xD107, 0x3), (0xD109, 0x8), (0xD10B, 0x0),
     (0xD10C, 0x0), (0xD10D, 0x0), (0xD10E, 0x0), (0xD10F, 0x1), (0xD11B, 0xC03),
     (0xD114, 0x0), (0xD116, 0x80000404), (0xD119, 0x100), (0xD110, 0x87), (0xD101, 0x0),
     (0xD102, 0x3D090), (0xD103, 0xC80), (0xD104, 0x0), (0xD11D, 0x0), (0xD111, 0x2),
     (0xD112, 0x0), (0xD113, 0x64D2437F), (0xD120, 0x3), (0xD122, 0x1), (0xD156, 0x1C),
     (0xD150, 0x1C), (0xD151, 0x1C), (0xD152, 0x1C), (0xD153, 0x1C), (0xD154, 0x1C),
     (0xD155, 0x1C), (0xD160, 0x20), (0xD161, 0x20), (0xD162, 0x20), (0xD11C, 0x2),
     (0xD1A0, 0xBC), (0xD1A1, 0x8), (0xD1A8, 0x0), (0xD1AB, 0x0), (0xD1B0, 0x0), (0xD1B1, 0x1),
     (0xD1B2, 0x0), (0xD1B3, 0x0), (0xD1B4, 0x8), (0xD1B5, 0x30), (0xD1A9, 0x2),
     (0xD146, 0x30), (0xD1AC, 0x99A9), (0xD11E, 0x20001), (0xD11F, 0x91C00000), (0xD1D9, 0x0),
     (0xD1BA, 0x1), (0xD1CA, 0x18), (0xD1BC, 0x1), (0xD1B8, 0x0), (0xD1D3, 0x64),
     (0xD1D8, 0x0), (0xD1B7, 0x0), (0xD1B9, 0x26), (0xD1DB, 0x0), (0xD1DC, 0x0), (0xD1DF, 0x0),
     (0xD1BD, 0x0), (0xD1C1, 0x2), (0xD1C0, 0x0), (0xD1BF, 0x0), (0xD1C4, 0x0), (0xD1C2, 0x0),
     (0xD1C5, 0x3), (0xD194, 0x0), (0xD195, 0x2), (0xD196, 0x2F), (0xD197, 0x0), (0xD198, 0x0),
     (0xD1C6, 0x0), (0xD1C8, 0x0), (0xD17C, 0x64D27BBF), (0xD17D, 0xC), (0xD17E, 0x1),
     (0xD138, 0x3), (0xD177, 0x18), (0xD175, 0x0), (0xD14A, 0x0)]"

definition bytes32 :: "u32 list \<Rightarrow> byte list" where
  "bytes32 xs = concat (map put_32bit_le xs)"

definition canon_setup_avail_1 :: "(int \<times> byte list \<times> int) list" where
  "canon_setup_avail_1 =
    [(0xD105, [0], 0),
     (0xD108, bytes32 [0x3], 1),
     (0xD106, bytes32 [0x0, 0x1, 0x10, 0x11, 0x7], 5),
     (0xD107, bytes32 [0x3, 0x4, 0x5], 3),
     (0xD109, bytes32 [0x0, 0x17, 0x1, 0x8, 0x2, 0x3, 0x4, 0x5, 0x6], 9),
     (0xD10B, bytes32 [0xfffffff7, 0xfffffff8, 0xfffffff9, 0xfffffffa, 0xfffffffb, 0xfffffffc,
       0xfffffffd, 0xfffffffe, 0xffffffff, 0x0, 0x1, 0x2, 0x3, 0x4, 0x5, 0x6, 0x7, 0x8, 0x9], 19),
     (0xD10C, bytes32 [0xfffffff7, 0xfffffff8, 0xfffffff9, 0xfffffffa, 0xfffffffb, 0xfffffffc,
       0xfffffffd, 0xfffffffe, 0xffffffff, 0x0, 0x1, 0x2, 0x3, 0x4, 0x5, 0x6, 0x7, 0x8, 0x9], 19),
     (0xD10D, bytes32 [0x0, 0x1, 0x2, 0x3], 4),
     (0xD10E, bytes32 [0x0, 0x1, 0x2, 0x3], 4),
     (0xD10F, bytes32 [0x1, 0x2], 2),
     (0xD11B, [0], 0),
     (0xD114, [0], 0),
     (0xD116, [0], 0),
     (0xD119, [0], 0),
     (0xD11A, [0], 0),
     (0xD110, bytes32 [0x87, 0x81, 0x82, 0x83, 0x84, 0x85, 0x86, 0x21, 0x22, 0x23], 10),
     (0xD115, [0], 0),
     (0xD101, [0], 0),
     (0xD102, bytes32 [0xc, 0x10, 0x13, 0x15, 0x18, 0x1b, 0x1d, 0x20, 0x23, 0x25, 0x28, 0x2b,
       0x2d, 0x30, 0x33, 0x35, 0x38, 0x3b, 0x3d, 0x40, 0x43, 0x45, 0x48, 0x4b, 0x4d, 0x50, 0x53,
       0x55, 0x58, 0x5b, 0x5d, 0x60, 0x63, 0x65, 0x68, 0x6b, 0x6d, 0x70, 0x73, 0x75, 0x78, 0x7b,
       0x7d, 0x80, 0x83, 0x85, 0x88, 0x8b, 0x8d, 0x90, 0x93, 0x95, 0x98], 53),
     (0xD103, bytes32 [0x0, 0x48, 0x50, 0x58, 0x60, 0x68, 0x70, 0x78, 0x80], 9),
     (0xD104, [0], 0),
     (0xD11D, [0], 0),
     (0xD111, [0], 0),
     (0xD112, [0], 0),
     (0xD113, [0], 0),
     (0xD120, bytes32 [0x1, 0x10, 0x1, 0x0, 0x3, 0x1, 0x10, 0x1, 0x0, 0x2, 0x1, 0x10, 0x1, 0x1,
       0x3, 0x1, 0x10, 0x1, 0x1, 0x2, 0x1, 0x10, 0x1, 0xe, 0x3, 0x1, 0x10, 0x1, 0xe, 0x2, 0x1,
       0x10, 0x1, 0xf, 0x3, 0x1, 0x10, 0x1, 0x10, 0x3, 0x2, 0x10, 0x6, 0x0, 0x4, 0x10, 0x1, 0x0,
       0x3, 0x1, 0x10, 0x6, 0x0, 0x4], 216),
     (0xD122, bytes32 [0x1, 0x10, 0x1, 0x0, 0x3, 0x1, 0x10, 0x1, 0x0, 0x2, 0x1, 0x10, 0x1, 0x1,
       0x3, 0x1, 0x10, 0x1, 0x1, 0x2, 0x1, 0x10, 0x1, 0xe, 0x3, 0x1, 0x10, 0x1, 0xe, 0x2, 0x1,
       0x10, 0x1, 0xf, 0x3, 0x1, 0x10, 0x1, 0x10, 0x3, 0x2, 0x10, 0x6, 0x0, 0x4, 0x10, 0x1, 0x0,
       0x3, 0x1, 0x10, 0x6, 0x0, 0x4], 216)]"

definition canon_setup_avail_2 :: "(int \<times> byte list \<times> int) list" where
  "canon_setup_avail_2 =
    [(0xD156, [0], 0),
     (0xD150, [0], 0),
     (0xD151, [0], 0),
     (0xD152, [0], 0),
     (0xD153, [0], 0),
     (0xD154, [0], 0),
     (0xD155, [0], 0),
     (0xD160, [0], 0),
     (0xD161, [0], 0),
     (0xD162, [0], 0),
     (0xD170, [0], 0),
     (0xD171, [0], 0),
     (0xD172, [0], 0),
     (0xD11C, bytes32 [0x2, 0x4, 0x6], 3),
     (0xD1A0, [0], 0),
     (0xD1A1, [0], 0),
     (0xD1A2, [0], 0),
     (0xD1A8, [0], 0),
     (0xD1AB, [0], 0),
     (0xD1B0, bytes32 [0x1, 0x2, 0x3, 0x4, 0x5, 0x6, 0x7, 0x8, 0x9, 0xa, 0xb], 11),
     (0xD1B1, bytes32 [0x1, 0x0], 2),
     (0xD1B2, [0], 0),
     (0xD1B3, [0], 0),
     (0xD1B4, bytes32 [0x0, 0x17, 0x1, 0x8, 0x2, 0x3, 0x4, 0x5, 0x6, 0x8000], 10),
     (0xD1B5, [0], 0),
     (0xD1A9, bytes32 [0x0, 0x2, 0x4, 0x8, 0xff], 5),
     (0xD146, [0], 0),
     (0xD1AC, [0], 0),
     (0xD1AD, [0], 0),
     (0xD1AE, [0], 0),
     (0xD11E, [0], 0),
     (0xD11F, [0], 0),
     (0xD1AF, [0], 0),
     (0xD1D0, [0], 0),
     (0xD1D1, [0], 0),
     (0xD1D9, bytes32 [0x0, 0x3, 0x5, 0x8, 0xb, 0xd, 0x10], 7),
     (0xD1BA, bytes32 [0x1, 0x2, 0x0], 3),
     (0xD1CA, [0], 0),
     (0xD1BC, bytes32 [0x0, 0x1], 2),
     (0xD1B8, [0], 0),
     (0xD1D3, [0], 0),
     (0xD1D8, [0], 0),
     (0xD17F, [0], 0),
     (0xD1B7, [0], 0),
     (0xD1B9, [0], 0),
     (0xD1DB, [0], 0),
     (0xD1DC, bytes32 [0x0, 0x1, 0x2], 3),
     (0xD1DF, bytes32 [0xf0, 0xf3, 0xf5, 0xf8, 0xfb, 0xfd, 0x0, 0x3, 0x5, 0x8, 0xb, 0xd, 0x10],
       13),
     (0xD1BD, [0], 0),
     (0xD1C1, bytes32 [0x0, 0x1, 0x2, 0x3], 4),
     (0xD1C0, [0], 0),
     (0xD1BF, [0], 0),
     (0xD1C4, [0], 0),
     (0xD1C2, [0], 0),
     (0xD1C5, [0], 0),
     (0xD194, bytes32 [0x0, 0x2, 0x7, 0x1], 4),
     (0xD195, [0], 0),
     (0xD196, [0], 0),
     (0xD197, [0], 0),
     (0xD198, [0], 0),
     (0xD1C6, bytes32 [0x0, 0x1, 0x2], 3),
     (0xD1C8, bytes32 [0x0, 0x1], 2),
     (0xD17C, [0], 0),
     (0xD17D, bytes32 [0xc, 0x21, 0x30c, 0xc, 0x1, 0x2fd, 0xc, 0x2, 0x2d0, 0xc, 0x3, 0x294, 0xc,
       0x4, 0x258, 0xc, 0x5, 0x23a, 0xc, 0x6, 0x21c, 0xc, 0x7, 0x1e0, 0xc, 0x8, 0x1a4, 0xc, 0x9,
       0x186, 0xc, 0xa, 0x168, 0xc, 0xb, 0x159, 0xc, 0xc, 0x14a, 0xc, 0xd, 0x12c, 0xc, 0xe, 0x10e,
       0xc, 0xf, 0xf0, 0xc, 0x10, 0xd2, 0xc, 0x11, 0xb4, 0xc, 0x12, 0x78, 0xc, 0x13, 0x3c, 0xc,
       0x14, 0x0, 0xc, 0x15, 0xffffffc4, 0xc, 0x16, 0xffffff88, 0xc, 0x17, 0xffffff4c, 0xc, 0x18,
       0xffffff2e, 0xc, 0x19, 0xffffff10, 0xc, 0x1a, 0xfffffef2, 0xc, 0x1b, 0xfffffed4, 0xc, 0x1c,
       0xfffffe98, 0xc, 0x1d, 0xfffffe5c, 0xc, 0x1e, 0xfffffe20, 0xc, 0x1f, 0xfffffde4, 0xc, 0x20,
       0xfffffda8], 99),
     (0xD17E, bytes32 [0x0, 0x1], 2),
     (0xD14D, [0], 0),
     (0xD19D, [0], 0),
     (0xD138, [0], 0),
     (0xD177, [0], 0),
     (0xD175, bytes32 [0x0], 1),
     (0xD14A, [0], 0)]"

fun set_avails :: "(int \<times> byte list \<times> int) list \<Rightarrow> vcam \<Rightarrow> vcam res" where
  "set_avails [] cam = Inr cam"
| "set_avails ((c, bs, n) # xs) cam =
     bnd (vcam_set_prop_avail cam c (Mem bs) n) (\<lambda>(_, cam). set_avails xs cam)"

definition vcam_canon_setup :: "vcam \<Rightarrow> vcam res" where
  "vcam_canon_setup cam =
     bnd (set_avails canon_setup_avail_1 (fold (\<lambda>(c, v). add_prop_u32 c v) canon_setup_props cam))
       (\<lambda>cam. set_avails canon_setup_avail_2 cam)"

end
