(* ===== verification/Canon_Ops.thy ===== *)
theory Canon_Ops
  imports Vcam_Init Canon_Models
begin

text \<open>
  The Canon EOS module: src/src/canon/canon.c and objects.c. Remote capture goes to camera memory
  (one pending object, until the host confirms the transfer) or to a virtual directory of the
  card; everything that happens is announced on the EOS channel of the event queue, which the
  host polls with \<open>GetEvent\<close>. Sleeping and logging are left out.
\<close>

abbreviation (input) "PTP_RC_CANON_NotReady \<equiv> 0xA102 :: u16"
abbreviation (input) "PTP_EC_EOS_ObjectAddedEx \<equiv> 0xC181"
abbreviation (input) "PTP_EC_EOS_ObjectRemoved \<equiv> 0xC182"
abbreviation (input) "PTP_EC_EOS_RequestObjectTransfer \<equiv> 0xC186"
abbreviation (input) "PTP_EC_EOS_PropValueChanged \<equiv> 0xC189"
abbreviation (input) "PTP_EC_EOS_AvailListChanged \<equiv> 0xC18A"
abbreviation (input) "PTP_EC_EOS_InfoCheckComplete \<equiv> 0xC1A4"
abbreviation (input) "PTP_EC_EOS_OLCInfoChanged \<equiv> 0xC1A5"
abbreviation (input) "PTP_DPC_EOS_Aperture \<equiv> 0xD101 :: u32"
abbreviation (input) "PTP_DPC_EOS_ShutterSpeed \<equiv> 0xD102 :: u32"
abbreviation (input) "PTP_DPC_EOS_ISOSpeed \<equiv> 0xD103 :: u32"
abbreviation (input) "PTP_DPC_EOS_AvailableShots \<equiv> 0xD11B :: u32"
abbreviation (input) "PTP_DPC_EOS_CaptureDestination \<equiv> 0xD11C :: u32"
abbreviation (input) "EOS_CAPTUREDEST_SDRAM \<equiv> 4 :: u32"
abbreviation (input) "EOS_MAIN_STORAGE_ID \<equiv> 0x00010001 :: u32"
abbreviation (input) "EOS_OFC_JPEG \<equiv> 0x3801"
abbreviation (input) "EOS_EVENTS_SIZE \<equiv> 10000 :: nat"

section \<open>Sending a file\<close>

text \<open>
  \<open>vcam_generic_send_file\<close> (src/src/vcamera.c): the path is built in 64 bytes, and the block is
  as long as the whole file, of which only the part behind \<open>file_of\<close> is read into it.
\<close>

definition vcam_generic_send_file :: "env \<Rightarrow> string \<Rightarrow> vcam \<Rightarrow> nat \<Rightarrow> ptpcontainer \<Rightarrow> vcam res" where
  "vcam_generic_send_file e path cam file_of ptp =
     (let new = pwd e @ ''/'' @ path in
      if length new \<ge> 64 then Inl Undef
      else case files e new of
             None \<Rightarrow> Inl Abort
           | Some content \<Rightarrow>
               (let got = drop file_of content;
                    buffer = got @ map (junk e) [length got..<length content]
                in bnd (fits SEND_MAX buffer) (\<lambda>d. Inr (ptp_senddata cam (cmd_code ptp) d))))"

section \<open>Event records\<close>

text \<open>A fresh entry carries the value only when the property has four bytes of it.\<close>

definition prop_changed_value :: "(blk \<times> int) option \<Rightarrow> byte list res" where
  "prop_changed_value r =
     (case r of
        None \<Rightarrow> Inr (replicate 4 0)
      | Some (val, len) \<Rightarrow> bnd (is_null val) (\<lambda>null.
          if \<not> null \<and> len = 4 then memcpy_blk 4 val else Inr (replicate 4 0)))"

definition eos_notify_prop_changed :: "hooks \<Rightarrow> env \<Rightarrow> vcam \<Rightarrow> u32 \<Rightarrow> nat \<Rightarrow> vcam res" where
  "eos_notify_prop_changed hk e cam dpc when =
     bnd (vcam_get_prop_data hk cam (sint dpc)) (\<lambda>(r, cam).
     bnd (prop_changed_value r) (\<lambda>v.
       Inr (ptp_inject_event_data e cam when PTP_EC_EOS_PropValueChanged
         (ptp_write_u32 16 @ ptp_write_u32 PTP_EC_EOS_PropValueChanged @ ptp_write_u32 dpc @ v) PTP_CH_EOS)))"

definition eos_notify_info_check :: "env \<Rightarrow> vcam \<Rightarrow> u32 \<Rightarrow> nat \<Rightarrow> vcam" where
  "eos_notify_info_check e cam marker when =
     ptp_inject_event_data e cam when PTP_EC_EOS_InfoCheckComplete
       (ptp_write_u32 12 @ ptp_write_u32 PTP_EC_EOS_InfoCheckComplete @ ptp_write_u32 marker) PTP_CH_EOS"

text \<open>Two records with a name at the end, in buffers with 64 bytes for it; longer names are not sent.\<close>

definition eos_notify_object_added ::
    "env \<Rightarrow> vcam \<Rightarrow> u32 \<Rightarrow> u32 \<Rightarrow> u32 \<Rightarrow> u32 \<Rightarrow> u32 \<Rightarrow> string \<Rightarrow> nat \<Rightarrow> vcam" where
  "eos_notify_object_added e cam handle storage parent ofc sz name when =
     (let entrysize = 0x28 + (length name + 1) in
      if entrysize > 0x28 + 64 then cam
      else ptp_inject_event_data e cam when PTP_EC_EOS_ObjectAddedEx
        (ptp_write_u32 (word_of_nat entrysize) @ ptp_write_u32 PTP_EC_EOS_ObjectAddedEx
         @ ptp_write_u32 handle @ ptp_write_u32 storage @ ptp_write_u16 (ucast ofc) @ replicate 10 0
         @ ptp_write_u32 sz @ ptp_write_u32 parent @ replicate 4 0 @ map byte_of name @ [0]) PTP_CH_EOS)"

definition eos_notify_request_transfer :: "env \<Rightarrow> vcam \<Rightarrow> u32 \<Rightarrow> u32 \<Rightarrow> u32 \<Rightarrow> string \<Rightarrow> nat \<Rightarrow> vcam" where
  "eos_notify_request_transfer e cam handle ofc sz name when =
     (let entrysize = 0x1c + (length name + 1) in
      if entrysize > 0x1c + 64 then cam
      else ptp_inject_event_data e cam when PTP_EC_EOS_RequestObjectTransfer
        (ptp_write_u32 (word_of_nat entrysize) @ ptp_write_u32 PTP_EC_EOS_RequestObjectTransfer
         @ ptp_write_u32 handle @ ptp_write_u16 (ucast ofc) @ replicate 6 0
         @ ptp_write_u32 sz @ replicate 4 0 @ map byte_of name @ [0]) PTP_CH_EOS)"

definition eos_notify_olc_button :: "env \<Rightarrow> vcam \<Rightarrow> u16 \<Rightarrow> nat \<Rightarrow> vcam" where
  "eos_notify_olc_button e cam button when =
     ptp_inject_event_data e cam when PTP_EC_EOS_OLCInfoChanged
       (ptp_write_u32 18 @ ptp_write_u32 PTP_EC_EOS_OLCInfoChanged @ ptp_write_u32 (18 - 8)
        @ ptp_write_u16 1 @ ptp_write_u16 0 @ ptp_write_u16 button) PTP_CH_EOS"

section \<open>Remote capture\<close>

text \<open>
  The new cell and its directory, or \<open>None\<close> without a DCIM directory. The counter is a local
  variable that starts at 98 in every call.
\<close>

definition eos_capture_dir :: "ptp_dirent option \<Rightarrow> string \<Rightarrow> ptp_dirent \<Rightarrow> vcam \<Rightarrow> ptp_dirent \<times> vcam" where
  "eos_capture_dir found buf dcim cam =
     (case found of Some dir \<Rightarrow> (dir, cam) | None \<Rightarrow> push_virtual_dir buf dcim cam)"

definition eos_create_card_object ::
    "vcam \<Rightarrow> ptp_dirent \<Rightarrow> ((ptp_dirent \<times> ptp_dirent) option \<times> vcam) res" where
  "eos_create_card_object cam src =
     bnd (find_dcim cam) (\<lambda>dcim. case dcim of
       None \<Rightarrow> Inr (None, cam)
     | Some c \<Rightarrow>
         (let capcnt = 98 in
          bnd (find_gphot cam (Some c) (gphot_name capcnt)) (\<lambda>found.
            let (dir, cam) = eos_capture_dir found (gphot_name capcnt) c cam;
                cam = push_capture (''GPH_'' @ fmt_dec 4 (capcnt + 1) @ ''.JPG'') src dir cam
            in Inr (Some (hd (first_dirent cam), dir), cam))))"

definition eos_store_sdram :: "byte list \<Rightarrow> stat \<Rightarrow> vcam \<Rightarrow> vcam" where
  "eos_store_sdram file st cam =
     (let cam = cam\<lparr>ptp_objectid := ptp_objectid cam + 1\<rparr>;
          handle = ptp_objectid cam; sz = word_of_nat (st_size st) :: u32
      in cam\<lparr>canon := (canon cam)\<lparr>cn_sdram := \<lparr>sd_used = True, sd_handle = handle, sd_ofc = EOS_OFC_JPEG,
           sd_name = ''GPH_'' @ fmt_dec 4 (unat handle mod 10000) @ ''.JPG'',
           sd_data = take (unat sz) file\<rparr>\<rparr>\<rparr>)"

definition eos_capture_sdram :: "env \<Rightarrow> vcam \<Rightarrow> ptp_dirent \<Rightarrow> vcam res" where
  "eos_capture_sdram e cam src =
     bnd (read_file e src) (\<lambda>r. case r of
       None \<Rightarrow> Inr cam
     | Some file \<Rightarrow> bnd (stbuf src) (\<lambda>st.
         let cam = eos_store_sdram file st cam; p = cn_sdram (canon cam)
         in Inr (eos_notify_request_transfer e cam (sd_handle p) (sd_ofc p)
                   (word_of_nat (st_size st)) (sd_name p) 500)))"

definition eos_capture_card :: "env \<Rightarrow> vcam \<Rightarrow> ptp_dirent \<Rightarrow> vcam res" where
  "eos_capture_card e cam src =
     bnd (eos_create_card_object cam src) (\<lambda>(r, cam). case r of
       None \<Rightarrow> Inr cam
     | Some (obj, dir) \<Rightarrow> bnd (stbuf obj) (\<lambda>st.
         Inr (eos_notify_object_added e cam (d_id obj) EOS_MAIN_STORAGE_ID (d_id dir) EOS_OFC_JPEG
                (word_of_nat (st_size st)) (d_name obj) 500)))"

text \<open>The records every capture starts with.\<close>

definition eos_capture_summary :: "hooks \<Rightarrow> env \<Rightarrow> vcam \<Rightarrow> vcam res" where
  "eos_capture_summary hk e cam =
     bnd (eos_notify_prop_changed hk e cam PTP_DPC_EOS_ISOSpeed 0) (\<lambda>cam.
     bnd (eos_notify_prop_changed hk e cam PTP_DPC_EOS_ShutterSpeed 0) (\<lambda>cam.
     bnd (eos_notify_prop_changed hk e cam PTP_DPC_EOS_Aperture 0) (\<lambda>cam.
     bnd (eos_notify_prop_changed hk e cam PTP_DPC_EOS_AvailableShots 100) (\<lambda>cam.
       Inr (eos_notify_olc_button e (eos_notify_info_check e cam 0x20001 50) 4 100)))))"

definition eos_capture_trigger :: "hooks \<Rightarrow> env \<Rightarrow> vcam \<Rightarrow> vcam res" where
  "eos_capture_trigger hk e cam =
     (case find is_jpg (first_dirent cam) of
        None \<Rightarrow> Inr cam
      | Some src \<Rightarrow> bnd (eos_capture_summary hk e cam) (\<lambda>cam.
          if cn_capture_destination (canon cam) = EOS_CAPTUREDEST_SDRAM then eos_capture_sdram e cam src
          else eos_capture_card e cam src))"

section \<open>Operations of canon.c\<close>

definition ptp_eos_viewfinder_data :: "env \<Rightarrow> vcam \<Rightarrow> ptpcontainer \<Rightarrow> vcam res" where
  "ptp_eos_viewfinder_data e cam ptp =
     bnd (c_int (cn_calls_to_liveview (canon cam) + 1)) (\<lambda>n.
       let cam = cam\<lparr>canon := (canon cam)\<lparr>cn_calls_to_liveview := n\<rparr>\<rparr> in
       if n < 15 then Inr (ptp_response cam PTP_RC_CANON_NotReady [])
       else bnd (vcam_generic_send_file e ''bin/eos_liveview.jpg'' cam 0 ptp) (\<lambda>cam.
         Inr (ptp_response cam PTP_RC_OK [])))"

definition ptp_eos_generic :: "vcam \<Rightarrow> ptpcontainer \<Rightarrow> vcam res" where
  "ptp_eos_generic cam ptp =
     (if c_code ptp = 0x9114 \<or> c_code ptp = 0x9115 then
        guard (vcam_check_param_count cam ptp 1) (\<lambda>cam.
          Inr (ptp_response (cam\<lparr>canon := (canon cam)\<lparr>cn_first_events := True\<rparr>\<rparr>) PTP_RC_OK []))
      else if c_code ptp = 0x911D then Inr (ptp_response cam PTP_RC_OK [])
      else if c_code ptp = 0x9113 then Inr (ptp_response cam PTP_RC_OK [0])
      else Inr (ptp_response cam PTP_RC_OperationNotSupported []))"

definition ptp_eos_exec_evproc :: "vcam \<Rightarrow> ptpcontainer \<Rightarrow> vcam res" where
  "ptp_eos_exec_evproc cam ptp =
     bnd (param ptp 0) (\<lambda>_. bnd (param ptp 1) (\<lambda>_. Inr (ptp_response cam PTP_RC_OK [])))"

text \<open>
  The data phase only prints. What it does to the camera is nothing, unless it runs off the end
  of the payload: what it reads behind that is taken as undefined, wherever the buffer ends.
\<close>

fun read_u32s :: "nat \<Rightarrow> byte list \<Rightarrow> byte list res" where
  "read_u32s 0 d = Inr d"
| "read_u32s (Suc n) d = bnd (ptp_read_u32 d) (\<lambda>(_, d). read_u32s n d)"

definition evproc_string :: "byte list \<Rightarrow> byte list res" where
  "evproc_string d = bnd (ptp_read_utf8_string d 64) (\<lambda>(_, n). Inr (drop n d))"

fun evproc_params :: "nat \<Rightarrow> byte list \<Rightarrow> byte list res" where
  "evproc_params 0 d = Inr d"
| "evproc_params (Suc n) d = bnd (ptp_read_u32 d) (\<lambda>(type, d).
     bnd (if type = 2 then read_u32s 4 d
          else if type = 4 then bnd (read_u32s 6 d) evproc_string
          else Inr d) (evproc_params n))"

definition ptp_eos_exec_evproc_data :: "vcam \<Rightarrow> ptpcontainer \<Rightarrow> byte list \<Rightarrow> vcam res" where
  "ptp_eos_exec_evproc_data cam ptp data =
     bnd (evproc_string data) (\<lambda>d. bnd (ptp_read_u32 d) (\<lambda>(n, d).
     bnd (evproc_params (unat n) d) (\<lambda>_. Inr cam)))"

definition ptp_eos_set_property :: "vcam \<Rightarrow> ptpcontainer \<Rightarrow> vcam res" where
  "ptp_eos_set_property cam ptp = Inr cam"

definition note_destination :: "u32 \<Rightarrow> u32 \<Rightarrow> vcam \<Rightarrow> vcam" where
  "note_destination cde value cam =
     (if cde = PTP_DPC_EOS_CaptureDestination
      then cam\<lparr>canon := (canon cam)\<lparr>cn_lv_ready := True, cn_capture_destination := value\<rparr>\<rparr> else cam)"

definition ptp_eos_set_property_data ::
    "hooks \<Rightarrow> env \<Rightarrow> vcam \<Rightarrow> ptpcontainer \<Rightarrow> byte list \<Rightarrow> vcam res" where
  "ptp_eos_set_property_data hk e cam ptp data =
     bnd (ptp_read_u32 data) (\<lambda>(len, d). bnd (ptp_read_u32 d) (\<lambda>(cde, d). bnd (ptp_read_u32 d) (\<lambda>(value, _).
       if len \<noteq> 0xc then Inl Abort
       else bnd (vcam_set_prop hk (note_destination cde value cam) (sint cde) value) (\<lambda>(_, cam).
            bnd (eos_notify_prop_changed hk e cam cde 0) (\<lambda>cam.
              Inr (ptp_response cam PTP_RC_OK []))))))"

definition ptp_eos_remote_release :: "hooks \<Rightarrow> env \<Rightarrow> vcam \<Rightarrow> ptpcontainer \<Rightarrow> vcam res" where
  "ptp_eos_remote_release hk e cam ptp =
     bnd (if c_code ptp = 0x9129 then Inr cam
          else if c_code ptp = 0x9128 then
            bnd (param ptp 0) (\<lambda>p0.
              if p0 = 1 then Inr cam
              else if p0 = 2 \<or> p0 = 3 then eos_capture_trigger hk e cam
              else Inr cam)
          else Inr cam) (\<lambda>cam. Inr (ptp_response cam PTP_RC_OK []))"

definition ptp_eos_remoterelease :: "hooks \<Rightarrow> env \<Rightarrow> vcam \<Rightarrow> ptpcontainer \<Rightarrow> vcam res" where
  "ptp_eos_remoterelease hk e cam ptp =
     guard (vcam_check_param_count cam ptp 0) (\<lambda>cam.
       bnd (eos_capture_trigger hk e cam) (\<lambda>cam. Inr (ptp_response cam PTP_RC_OK [0])))"

section \<open>Events for the host\<close>

fun pack_values :: "vcam \<Rightarrow> PtpProp list \<Rightarrow> byte list res" where
  "pack_values cam [] = Inr []"
| "pack_values cam (p # ps) =
     bnd (vcam_get_prop_size cam (pr_code p)) (\<lambda>sz.
     bnd (memcpy_blk sz (pd_value (pr_desc p))) (\<lambda>v.
     bnd (pack_values cam ps) (\<lambda>r.
       Inr (ptp_write_u32 (word_of_int (12 + sz)) @ ptp_write_u32 PTP_EC_EOS_PropValueChanged
         @ ptp_write_u32 (word_of_int (pr_code p)) @ v @ r))))"

definition pack_avail :: "PtpProp \<Rightarrow> byte list res" where
  "pack_avail p =
     (let d = pr_desc p in
      if FormFlag d \<noteq> PTP_EnumerationForm then Inr []
      else bnd (is_null (avail d)) (\<lambda>null.
        if null then Inl Abort
        else bnd (deref (avail_cnt d)) (\<lambda>n.
          bnd (ptp_get_prop_list_size (avail d) (DataType d) n) (\<lambda>sz.
          bnd (memcpy_blk sz (avail d)) (\<lambda>v.
            Inr (ptp_write_u32 (word_of_int (5 * 4 + sz)) @ ptp_write_u32 PTP_EC_EOS_AvailListChanged
              @ ptp_write_u32 (word_of_int (pr_code p)) @ ptp_write_u32 3
              @ ptp_write_u32 (word_of_int n) @ v))))))"

fun pack_avails :: "PtpProp list \<Rightarrow> byte list res" where
  "pack_avails [] = Inr []"
| "pack_avails (p # ps) = bnd (pack_avail p) (\<lambda>a. bnd (pack_avails ps) (\<lambda>r. Inr (a @ r)))"

definition eos_info_check :: "byte list" where
  "eos_info_check = ptp_write_u32 0xc @ ptp_write_u32 PTP_EC_EOS_InfoCheckComplete @ ptp_write_u32 0x20001"

definition eos_end_marker :: "byte list" where
  "eos_end_marker = ptp_write_u32 8 @ ptp_write_u32 0 @ ptp_write_u32 0"

text \<open>The buffer has 10000 bytes, and nothing checks that the records fit.\<close>

definition eos_pack_all_props :: "vcam \<Rightarrow> byte list res" where
  "eos_pack_all_props cam =
     bnd (pack_values cam (props cam)) (\<lambda>vs.
     bnd (pack_avails (props cam)) (\<lambda>as.
       fits EOS_EVENTS_SIZE (vs @ eos_info_check @ as @ eos_info_check @ eos_end_marker)))"

lemma pop_eos_shorter:
  "ptp_pop_eos_event e cam = (Some ev, cam') \<Longrightarrow> length (first_interrupt cam') < length (first_interrupt cam)"
  by (auto simp: ptp_pop_eos_event_def find_channel_entry_def gettimeofday_def Let_def dest!: split_at_Cons
      split: prod.splits list.splits if_split_asm)

text \<open>
  Draining the EOS channel: an event that does not fit with the end marker ends the loop, and is
  gone from the queue by then.
\<close>

function eos_drain :: "env \<Rightarrow> nat \<Rightarrow> vcam \<Rightarrow> byte list \<times> vcam" where
  "eos_drain e sz cam =
     (case ptp_pop_eos_event e cam of
        (None, cam') \<Rightarrow> ([], cam')
      | (Some ev, cam') \<Rightarrow>
          (if sz + length ev + 12 > EOS_EVENTS_SIZE then ([], cam')
           else let (bs, c) = eos_drain e (sz + length ev) cam' in (ev @ bs, c)))"
  by pat_completeness auto
termination
  by (relation "measure (\<lambda>(e, sz, cam). length (first_interrupt cam))") (auto dest: pop_eos_shorter [OF sym])

declare eos_drain.simps [simp del]

definition vusb_ptp_eos_events :: "env \<Rightarrow> vcam \<Rightarrow> ptpcontainer \<Rightarrow> vcam res" where
  "vusb_ptp_eos_events e cam ptp =
     guard (vcam_check_param_count cam ptp 0) (\<lambda>cam.
       if cn_first_events (canon cam) then
         bnd (eos_pack_all_props cam) (\<lambda>buffer.
           let cam = ptp_response (ptp_senddata cam (cmd_code ptp) buffer) PTP_RC_OK []
           in Inr (cam\<lparr>canon := (canon cam)\<lparr>cn_first_events := False\<rparr>\<rparr>))
       else
         (let (evs, cam) = eos_drain e 0 cam
          in Inr (ptp_response (ptp_senddata cam (cmd_code ptp) (evs @ eos_end_marker)) PTP_RC_OK [])))"

definition vusb_ptp_eos_getdevicepropvalue :: "vcam \<Rightarrow> ptpcontainer \<Rightarrow> vcam res" where
  "vusb_ptp_eos_getdevicepropvalue cam ptp =
     guard (vcam_check_param_count cam ptp 1) (\<lambda>cam. Inr (ptp_response cam PTP_RC_OK []))"

section \<open>Operations of objects.c\<close>

definition eos_object_ofc :: "ptp_dirent \<Rightarrow> u16 res" where
  "eos_object_ofc cur = bnd (stbuf cur) (\<lambda>st.
     Inr (if st_isdir st then 0x3001
          else if strstr (d_name cur) ''.jpg'' \<or> strstr (d_name cur) ''.JPG'' then EOS_OFC_JPEG
          else if strstr (d_name cur) ''.mov'' \<or> strstr (d_name cur) ''.MOV'' then 0x300a
          else 0x3800))"

definition canon_lookup_virtual_object :: "vcam \<Rightarrow> u32 \<Rightarrow> byte list option" where
  "canon_lookup_virtual_object cam handle =
     (let p = cn_sdram (canon cam)
      in if \<not> sd_used p \<or> sd_handle p \<noteq> handle then None else Some (sd_data p))"

text \<open>The part of a block of the object in memory that a request gets, and of a file.\<close>

definition eos_virtual_part :: "byte list \<Rightarrow> u32 \<Rightarrow> u32 \<Rightarrow> byte list" where
  "eos_virtual_part vdata off reqsize =
     (let vsize = word_of_nat (length vdata) :: u32;
          off = (if off > vsize then vsize else off);
          avail = vsize - off;
          tocopy = (if reqsize < avail then reqsize else avail)
      in take (unat tocopy) (drop (unat off) vdata))"

definition eos_file_part :: "env \<Rightarrow> string \<Rightarrow> byte list \<Rightarrow> nat \<Rightarrow> u32 \<Rightarrow> u32 \<Rightarrow> byte list" where
  "eos_file_part e path content object_size off reqsize =
     (let tocopy = (if unat off \<ge> object_size then 0
                    else min (unat reqsize) (object_size - unat off))
      in if tocopy \<noteq> 0 \<and> fseek_ok e path (unat off) then take tocopy (drop (unat off) content) else [])"

definition eos_serve_partial :: "env \<Rightarrow> vcam \<Rightarrow> ptpcontainer \<Rightarrow> vcam res" where
  "eos_serve_partial e cam ptp = checked cam ptp 3 (\<lambda>cam.
     bnd (param ptp 0) (\<lambda>handle. bnd (param ptp 1) (\<lambda>off. bnd (param ptp 2) (\<lambda>reqsize.
       let reqsize = (if reqsize > 512 * 1024 then 512 * 1024 else reqsize) in
       case canon_lookup_virtual_object cam handle of
         Some vdata \<Rightarrow>
           (let part = eos_virtual_part vdata off reqsize
            in Inr (ptp_response (ptp_senddata cam (cmd_code ptp) part) PTP_RC_OK [word_of_nat (length part)]))
       | None \<Rightarrow>
           (case find_dirent cam handle of
              None \<Rightarrow> Inr (ptp_response cam PTP_RC_InvalidObjectHandle [])
            | Some cur \<Rightarrow>
                (case files e (d_fsname cur) of
                   None \<Rightarrow> Inr (ptp_response cam PTP_RC_GeneralError [])
                 | Some content \<Rightarrow> bnd (stbuf cur) (\<lambda>st.
                     let got = eos_file_part e (d_fsname cur) content (st_size st) off reqsize
                     in Inr (ptp_response (ptp_senddata cam (cmd_code ptp) got)
                          PTP_RC_OK [word_of_nat (length got)]))))))))"

definition eos_serve_object :: "env \<Rightarrow> vcam \<Rightarrow> ptpcontainer \<Rightarrow> vcam res" where
  "eos_serve_object e cam ptp = checked cam ptp 1 (\<lambda>cam.
     bnd (param ptp 0) (\<lambda>handle.
       case canon_lookup_virtual_object cam handle of
         Some vdata \<Rightarrow> bnd (fits SEND_MAX vdata) (\<lambda>d.
           Inr (ptp_response (ptp_senddata cam (cmd_code ptp) d) PTP_RC_OK []))
       | None \<Rightarrow>
           (case find_dirent cam handle of
              None \<Rightarrow> Inr (ptp_response cam PTP_RC_InvalidObjectHandle [])
            | Some cur \<Rightarrow> bnd (read_file e cur) (\<lambda>file. case file of
                  None \<Rightarrow> Inr (ptp_response cam PTP_RC_GeneralError [])
                | Some d \<Rightarrow> bnd (fits SEND_MAX d) (\<lambda>d.
                    Inr (ptp_response (ptp_senddata cam (cmd_code ptp) d) PTP_RC_OK []))))))"

definition eos_getstorageids :: "vcam \<Rightarrow> ptpcontainer \<Rightarrow> vcam res" where
  "eos_getstorageids cam ptp = checked cam ptp 0 (\<lambda>cam.
     Inr (ptp_response (ptp_senddata cam (cmd_code ptp) (ptp_write_u32 1 @ ptp_write_u32 EOS_MAIN_STORAGE_ID))
       PTP_RC_OK []))"

definition eos_getstorageinfo :: "vcam \<Rightarrow> ptpcontainer \<Rightarrow> vcam res" where
  "eos_getstorageinfo cam ptp = checked cam ptp 1 (\<lambda>cam.
     bnd (param ptp 0) (\<lambda>p0.
       if p0 \<noteq> EOS_MAIN_STORAGE_ID \<and> p0 \<noteq> 0xffffffff
       then Inr (ptp_response cam PTP_RC_InvalidStorageId [])
       else Inr (ptp_response (ptp_senddata cam (cmd_code ptp)
              (ptp_write_u32 0x10 @ ptp_write_u32 4 @ ptp_write_u32 0 @ ptp_write_u32 1111638594
               @ ptp_write_u32 0 @ ptp_write_u32 555819297 @ ptp_write_u32 0 @ replicate 4 0)) PTP_RC_OK [])))"

text \<open>The cells a listing of a folder shows, and one record of 56 bytes for each.\<close>

definition in_folder :: "ptp_dirent list \<Rightarrow> u32 \<Rightarrow> ptp_dirent \<Rightarrow> bool res" where
  "in_folder ds parent d =
     (if d_id d = 0 then Inr False
      else case d_parent d of
             PNull \<Rightarrow> Inr False
           | _ \<Rightarrow> bnd (parent_of ds d) (\<lambda>p. Inr (d_id p = (if parent = 0xffffffff then 0 else parent))))"

definition folder_entry :: "ptp_dirent \<Rightarrow> byte list res" where
  "folder_entry cur =
     bnd (eos_object_ofc cur) (\<lambda>ofc. bnd (stbuf cur) (\<lambda>st.
       Inr (ptp_write_u32 56 @ ptp_write_u32 (d_id cur) @ ptp_write_u32 EOS_MAIN_STORAGE_ID
         @ ptp_write_u16 ofc @ ptp_write_u16 0 @ ptp_write_u32 0 @ ptp_write_u32 0
         @ ptp_write_u32 (word_of_nat (st_size st)) @ ptp_write_u32 0 @ ptp_write_u32 0
         @ (let nm = take 12 (map byte_of (d_name cur)) in nm @ replicate (16 - length nm) 0)
         @ ptp_write_u32 (word_of_int (st_mtime st)))))"

fun folder_entries :: "ptp_dirent list \<Rightarrow> u32 \<Rightarrow> ptp_dirent list \<Rightarrow> (nat \<times> byte list) res" where
  "folder_entries all parent [] = Inr (0, [])"
| "folder_entries all parent (d # ds) =
     bnd (in_folder all parent d) (\<lambda>b.
     bnd (if b then folder_entry d else Inr []) (\<lambda>x.
     bnd (folder_entries all parent ds) (\<lambda>(n, r). Inr ((if b then n + 1 else n), x @ r))))"

definition eos_getobjectinfoex :: "vcam \<Rightarrow> ptpcontainer \<Rightarrow> vcam res" where
  "eos_getobjectinfoex cam ptp = checked cam ptp 3 (\<lambda>cam.
     bnd (param ptp 0) (\<lambda>storage. bnd (param ptp 1) (\<lambda>parent.
       if storage \<noteq> EOS_MAIN_STORAGE_ID \<and> storage \<noteq> 0xffffffff
       then Inr (ptp_response cam PTP_RC_InvalidStorageId [])
       else bnd (if parent \<noteq> 0xffffffff then
                   (case find_dirent cam parent of
                      None \<Rightarrow> Inr False | Some pdir \<Rightarrow> bnd (stbuf pdir) (\<lambda>st. Inr (st_isdir st)))
                 else Inr True) (\<lambda>ok.
         if \<not> ok then Inr (ptp_response cam PTP_RC_InvalidParentObject [])
         else bnd (folder_entries (first_dirent cam) parent (first_dirent cam)) (\<lambda>(cnt, entries).
           Inr (ptp_response (ptp_senddata cam (cmd_code ptp) (ptp_write_u32 (word_of_nat cnt) @ entries))
             PTP_RC_OK []))))))"

definition eos_getpartialobject :: "env \<Rightarrow> vcam \<Rightarrow> ptpcontainer \<Rightarrow> vcam res" where
  "eos_getpartialobject e cam ptp = eos_serve_partial e cam ptp"

definition eos_getpartialobjectex :: "env \<Rightarrow> vcam \<Rightarrow> ptpcontainer \<Rightarrow> vcam res" where
  "eos_getpartialobjectex e cam ptp = eos_serve_partial e cam ptp"

definition eos_getobject :: "env \<Rightarrow> vcam \<Rightarrow> ptpcontainer \<Rightarrow> vcam res" where
  "eos_getobject e cam ptp = eos_serve_object e cam ptp"

definition eos_getthumbex :: "env \<Rightarrow> vcam \<Rightarrow> ptpcontainer \<Rightarrow> vcam res" where
  "eos_getthumbex e cam ptp = eos_serve_object e cam ptp"

definition eos_transfercomplete :: "vcam \<Rightarrow> ptpcontainer \<Rightarrow> vcam res" where
  "eos_transfercomplete cam ptp = checked cam ptp 1 (\<lambda>cam.
     bnd (param ptp 0) (\<lambda>p0.
       let p = cn_sdram (canon cam);
           cam = (if sd_used p \<and> sd_handle p = p0
                  then cam\<lparr>canon := (canon cam)\<lparr>cn_sdram := zero_sdram\<rparr>\<rparr> else cam)
       in Inr (ptp_response cam PTP_RC_OK [])))"

definition eos_getdeviceinfoex :: "vcam \<Rightarrow> ptpcontainer \<Rightarrow> vcam res" where
  "eos_getdeviceinfoex cam ptp = checked cam ptp 0 (\<lambda>cam.
     let events = [PTP_EC_EOS_ObjectAddedEx, PTP_EC_EOS_ObjectRemoved, PTP_EC_EOS_RequestObjectTransfer,
           PTP_EC_EOS_PropValueChanged, PTP_EC_EOS_AvailListChanged, PTP_EC_EOS_InfoCheckComplete] :: u32 list
     in Inr (ptp_response (ptp_senddata cam (cmd_code ptp)
          (ptp_write_u32 6 @ concat (map ptp_write_u32 events)
           @ ptp_write_u32 (word_of_nat (length (props cam)))
           @ concat (map (\<lambda>p. ptp_write_u32 (word_of_int (pr_code p))) (props cam))
           @ ptp_write_u32 0)) PTP_RC_OK []))"

definition eos_noop_ok :: "vcam \<Rightarrow> ptpcontainer \<Rightarrow> vcam res" where
  "eos_noop_ok cam ptp =
     guard (vcam_check_trans_id cam ptp) (\<lambda>cam.
     guard (vcam_check_session cam) (\<lambda>cam.
       Inr (ptp_response cam PTP_RC_OK [])))"

section \<open>Registration\<close>

definition canon_register_object_ops :: "vcam \<Rightarrow> vcam" where
  "canon_register_object_ops cam = fold register_op
    [(0x9101, F_eos_getstorageids, None), (0x9102, F_eos_getstorageinfo, None),
     (0x9108, F_eos_getdeviceinfoex, None), (0x9109, F_eos_getobjectinfoex, None),
     (0x9104, F_eos_getobject, None), (0x910A, F_eos_getthumbex, None),
     (0x9107, F_eos_getpartialobject, None), (0x912C, F_eos_getpartialobjectex, None),
     (0x9117, F_eos_transfercomplete, None)] cam"

definition eos_op_for :: "int \<Rightarrow> op_write \<times> op_write_data option" where
  "eos_op_for cde =
    (if cde = 0x9101 then (F_eos_getstorageids, None)
     else if cde = 0x9102 then (F_eos_getstorageinfo, None)
     else if cde = 0x9108 then (F_eos_getdeviceinfoex, None)
     else if cde = 0x9109 then (F_eos_getobjectinfoex, None)
     else if cde = 0x9104 then (F_eos_getobject, None)
     else if cde = 0x910A then (F_eos_getthumbex, None)
     else if cde = 0x9107 then (F_eos_getpartialobject, None)
     else if cde = 0x912C then (F_eos_getpartialobjectex, None)
     else if cde = 0x9117 then (F_eos_transfercomplete, None)
     else if cde = 0x9110 then (F_ptp_eos_set_property, Some F_ptp_eos_set_property_data)
     else if cde = 0x9116 then (F_vusb_ptp_eos_events, None)
     else if cde = 0x9128 \<or> cde = 0x9129 then (F_ptp_eos_remote_release, None)
     else if cde = 0x910F then (F_ptp_eos_remoterelease, None)
     else if cde = 0x9153 then (F_ptp_eos_viewfinder_data, None)
     else if cde = 0x913D \<or> cde = 0x913E then (F_eos_noop_ok, None)
     else (F_ptp_eos_generic, None))"

definition canon_register_eos_ops :: "int list \<Rightarrow> vcam \<Rightarrow> vcam" where
  "canon_register_eos_ops ops cam = fold register_op
     (map (\<lambda>cde. (cde, eos_op_for cde)) (filter (\<lambda>cde. \<not> cde < 0x9000) ops)) cam"

definition stubs :: "int list \<Rightarrow> (int \<times> op_write \<times> op_write_data option) list" where
  "stubs codes = map (\<lambda>c. (c, F_ptp_eos_generic, None)) codes"

definition canon_register_d4_hidden :: "vcam \<Rightarrow> vcam" where
  "canon_register_d4_hidden cam = fold register_op
     ((0x9052, F_ptp_eos_exec_evproc, Some F_ptp_eos_exec_evproc_data)
      # stubs [0x9057, 0x9058, 0x9059, 0x905A, 0x905F]) cam"

definition canon_register_base_eos :: "vcam \<Rightarrow> vcam" where
  "canon_register_base_eos cam = fold register_op
    (stubs [0x9101, 0x9102, 0x9103, 0x9104, 0x9107, 0x9105, 0x9106, 0x9109]
     @ [(0x9110, F_ptp_eos_set_property, Some F_ptp_eos_set_property_data)]
     @ [(0x9127, F_vusb_ptp_eos_getdevicepropvalue, None)]
     @ stubs [0x910B, 0x9108, 0x9109, 0x910C, 0x910E, 0x910F, 0x9115, 0x9114, 0x9113]
     @ [(0x9116, F_vusb_ptp_eos_events, None)]
     @ stubs [0x9117, 0x9120, 0x91F0, 0x9118, 0x9121, 0x91F1, 0x911D, 0x910A, 0x911B, 0x911C, 0x911E,
       0x911A]
     @ [(0x9153, F_ptp_eos_viewfinder_data, None)]
     @ stubs [0x9154, 0x9160, 0x9155, 0x9157, 0x9158, 0x9159, 0x915A, 0x911F, 0x91FE, 0x91FF]
     @ [(0x9128, F_ptp_eos_remote_release, None)]
     @ [(0x9129, F_ptp_eos_remote_release, None)]
     @ stubs [0x912D, 0x912E, 0x912F, 0x912C, 0x9130, 0x9131, 0x9132, 0x9133, 0x9134, 0x912B, 0x9135,
       0x9136, 0x9137, 0x9138, 0x9139, 0x913A, 0x913B, 0x913C, 0x91DA, 0x91DB, 0x91DC, 0x91DD,
       0x91DE, 0x91D8, 0x91D9, 0x91D7, 0x91D5, 0x902F, 0x9141, 0x9142, 0x9143, 0x913F, 0x9033,
       0x9068, 0x9069, 0x906A, 0x906B, 0x906C, 0x906D, 0x906E, 0x906F, 0x9180, 0x9181, 0x9182,
       0x9183, 0x9184, 0x9185, 0x9140, 0x91C0, 0x91C1, 0x91C2, 0x91C3, 0x91C4, 0x91C5, 0x91C6,
       0x91C7, 0x91C8, 0x91C9, 0x91CA, 0x91CB, 0x91CC, 0x91CE, 0x91CF, 0x91D0, 0x91D1, 0x91D2,
       0x91E1, 0x91E2, 0x91E3, 0x91E4, 0x91E5, 0x91E6, 0x91E7, 0x91E8, 0x91E9, 0x91EA, 0x91EB,
       0x91EC, 0x91ED, 0x91EE, 0x91EF, 0x91F8, 0x91F9, 0x91F2, 0x91F3, 0x91F4, 0x91F7, 0x9122,
       0x9123, 0x9124, 0x91F5, 0x91F6, 0x9053]) cam"

definition canon_register_model_5d3 :: "vcam \<Rightarrow> vcam" where
  "canon_register_model_5d3 cam = canon_register_eos_ops canon_model_5d3_ops (canon_add_rows canon_5d3_props cam)"

definition canon_register_model_90d :: "vcam \<Rightarrow> vcam" where
  "canon_register_model_90d cam = canon_register_eos_ops canon_model_90d_ops (canon_add_rows canon_90d_props cam)"

definition canon_register_model_200d :: "vcam \<Rightarrow> vcam" where
  "canon_register_model_200d cam = canon_register_eos_ops canon_model_200d_ops (canon_add_rows canon_200d_props cam)"

definition canon_register_model_r :: "vcam \<Rightarrow> vcam" where
  "canon_register_model_r cam = canon_register_eos_ops canon_model_r_ops (canon_add_rows canon_r_props cam)"

definition canon_register_model_g7x3 :: "vcam \<Rightarrow> vcam" where
  "canon_register_model_g7x3 cam = canon_register_eos_ops canon_model_g7x3_ops cam"

section \<open>Set-up\<close>

record CanonModelProfile =
  cp_name :: string
  cp_model :: string
  cp_version :: string
  cp_serial :: string
  cp_product_id :: u16
  cp_register_model :: "(vcam \<Rightarrow> vcam) option"

definition canon_models :: "CanonModelProfile list" where
  "canon_models =
    [\<lparr>cp_name = ''canon_1300d'', cp_model = ''Canon EOS Rebel T6'', cp_version = ''3-1.2.0'',
      cp_serial = ''828af56'', cp_product_id = 0x32b4, cp_register_model = None\<rparr>,
     \<lparr>cp_name = ''eos_m'', cp_model = ''Canon EOS M'', cp_version = ''1.0.0'',
      cp_serial = ''xxxx'', cp_product_id = 0, cp_register_model = None\<rparr>,
     \<lparr>cp_name = ''canon_5d3'', cp_model = ''Canon EOS 5D Mark III'', cp_version = ''3-1.2.1'',
      cp_serial = ''4ff1a05e8014efd'', cp_product_id = 0x323a,
      cp_register_model = Some canon_register_model_5d3\<rparr>,
     \<lparr>cp_name = ''canon_90d'', cp_model = ''Canon EOS 90D'', cp_version = ''3-1.0.0'',
      cp_serial = replicate 30 (CHR ''x''), cp_product_id = 0x32ea,
      cp_register_model = Some canon_register_model_90d\<rparr>,
     \<lparr>cp_name = ''canon_200d'', cp_model = ''Canon EOS Rebel SL2'', cp_version = ''3-1.0.1'',
      cp_serial = replicate 31 (CHR ''x''), cp_product_id = 0x32cc,
      cp_register_model = Some canon_register_model_200d\<rparr>,
     \<lparr>cp_name = ''canon_r'', cp_model = ''Canon EOS R'', cp_version = ''3-1.6.0'',
      cp_serial = replicate 32 (CHR ''x''), cp_product_id = 0x32da,
      cp_register_model = Some canon_register_model_r\<rparr>,
     \<lparr>cp_name = ''canon_g7x3'', cp_model = ''Canon PowerShot G7 X Mark III'', cp_version = ''3-1.3.2'',
      cp_serial = replicate 32 (CHR ''x''), cp_product_id = 0x32f0,
      cp_register_model = Some canon_register_model_g7x3\<rparr>]"

text \<open>The loop over \<open>argv\<close>: what it does not know is skipped.\<close>

function canon_parse_args :: "env \<Rightarrow> string list \<Rightarrow> vcam \<Rightarrow> vcam res" where
  "canon_parse_args e [] cam = Inr cam"
| "canon_parse_args e (arg # rest) cam =
     bnd (vcam_parse_args e arg rest cam) (\<lambda>r. case r of
       Some (rest', cam') \<Rightarrow> canon_parse_args e rest' cam'
     | None \<Rightarrow> canon_parse_args e rest
         (if arg = ''--ssdp-modern'' then cam\<lparr>canon := (canon cam)\<lparr>cn_ssdp_modern := Some True\<rparr>\<rparr> else cam))"
  by pat_completeness auto
termination
  by (relation "measure (\<lambda>(e, args, cam). length args)") (auto dest!: parse_args_shorter)

definition canon_fresh :: CanonBase where
  "canon_fresh = \<lparr>cn_first_events = False, cn_lv_ready = False, cn_calls_to_liveview = 0,
     cn_ssdp_modern = None, cn_capture_destination = 0x2, cn_sdram = zero_sdram\<rparr>"

text \<open>\<open>False\<close> is the result -1: by then the options have been read and the lookup has been set.\<close>

definition canon_init_cam :: "hooks \<Rightarrow> env \<Rightarrow> string \<Rightarrow> string list \<Rightarrow> vcam \<Rightarrow> (bool \<times> vcam) res" where
  "canon_init_cam hk e name argv cam =
     bnd (canon_parse_args e argv
            (cam\<lparr>canon := canon_fresh, lookup_virtual_object := Some F_canon_lookup_virtual_object\<rparr>)) (\<lambda>cam.
       case find (\<lambda>m. cp_name m = name) canon_models of
         None \<Rightarrow> Inr (False, cam)
       | Some profile \<Rightarrow>
           let cam = cam\<lparr>manufac := ''Canon Inc.'', vendor_id := 0x4a9, model := cp_model profile,
                 version := cp_version profile, serial := cp_serial profile,
                 product_id := cp_product_id profile\<rparr>;
               cam = ptp_register_mtp_opcodes (ptp_register_mtp_props cam)
           in (case cp_register_model profile of
                 Some reg \<Rightarrow> bnd (canon_ensure_capture_props hk (reg cam)) (\<lambda>cam. Inr (True, cam))
               | None \<Rightarrow>
                   let cam = (if name = ''canon_1300d'' then canon_register_d4_hidden cam else cam)
                   in Inr (True, canon_register_object_ops
                                  (canon_register_base_eos (canon_register_capture_props cam)))))"

end
