(* ===== verification/Dispatch.thy ===== *)
theory Dispatch
  imports Props Dirents Ops_Props
begin

text \<open>
  The command processor of src/src/vcamera.c: \<open>vcam_process_output\<close> takes one container from
  what the host has written, checks it and calls the handler registered for its code;
  \<open>vcam_write\<close> is the host's write. The meaning of the handlers is a parameter, because the
  opcode table decides at run time which ones are called; the locale \<open>responder\<close> states what
  the processor relies on.
\<close>

section \<open>Operations\<close>

type_synonym run_write = "op_write \<Rightarrow> vcam \<Rightarrow> ptpcontainer \<Rightarrow> vcam res"
type_synonym run_data = "op_write_data \<Rightarrow> vcam \<Rightarrow> ptpcontainer \<Rightarrow> byte list \<Rightarrow> vcam res"

text \<open>A bad packet: an error response, and the packet is moved out of the buffer.\<close>

definition reject :: "vcam \<Rightarrow> u32 \<Rightarrow> vcam" where
  "reject cam sz =
     (let cam = ptp_response cam PTP_RC_GeneralError []
      in cam\<lparr>outbulk := drop (unat sz) (outbulk cam)\<rparr>)"

text \<open>\<open>ptp.params[i]\<close> for the counted parameters, from offset 12 of the buffer.\<close>

fun read_params :: "nat \<Rightarrow> byte list \<Rightarrow> u32 list res" where
  "read_params 0 d = Inr []"
| "read_params (Suc n) d = bnd (get_32bit_le d) (\<lambda>x. bnd (read_params n (drop 4 d)) (\<lambda>xs. Inr (x # xs)))"

definition call_handler ::
    "run_write \<Rightarrow> run_data \<Rightarrow> vcam \<Rightarrow> ptpcontainer \<Rightarrow> byte list \<Rightarrow> vcam res" where
  "call_handler rw rwd cam ptp data =
     (case lookup_key op_code (uint (c_code ptp)) (opcodes cam) of
        None \<Rightarrow> Inr (ptp_response cam PTP_RC_OperationNotSupported [])
      | Some h \<Rightarrow>
          (if c_type ptp = 1 then bnd (rw (op_w h) cam ptp) (\<lambda>cam. Inr (cam\<lparr>ptpcmd := ptp\<rparr>))
           else case op_wd h of
                  None \<Rightarrow> Inr (ptp_response cam PTP_RC_GeneralError [])
                | Some wd \<Rightarrow> rwd wd cam (ptpcmd cam) data))"

text \<open>
  The packet at the front of the buffer: not there yet, to be rejected (with its size), or a
  command or data container with what follows its header.
\<close>

datatype packet = Wait | Reject u32 | Packet ptpcontainer "byte list"

definition fetch_packet :: "byte list \<Rightarrow> packet res" where
  "fetch_packet buf =
     (if length buf < 4 then Inr Wait
      else bnd (get_32bit_le buf) (\<lambda>sz.
        if unat sz > length buf then Inr Wait
        else if sz < 12 then Inr (Reject sz)
        else bnd (get_16bit_le (drop 4 buf)) (\<lambda>ty.
          bnd (get_16bit_le (drop 6 buf)) (\<lambda>cde.
          bnd (get_32bit_le (drop 8 buf)) (\<lambda>seq.
            if ty \<noteq> PTP_PACKET_TYPE_COMMAND \<and> ty \<noteq> PTP_PACKET_TYPE_DATA then Inr (Reject sz)
            else if cde AND 0x7000 \<noteq> 0x1000 \<and> cde \<noteq> 0xBEEF then Inr (Reject sz)
            else if ty = PTP_PACKET_TYPE_COMMAND \<and> (sz - 12) mod 4 \<noteq> 0 then Inr (Reject sz)
            else if ty = PTP_PACKET_TYPE_COMMAND \<and> (sz - 12) div 4 \<ge> 6 then Inr (Reject sz)
            else
              let nparams = (if ty = PTP_PACKET_TYPE_COMMAND then (sz - 12) div 4 else 0) in
              bnd (read_params (unat nparams) (drop 12 buf)) (\<lambda>params.
                Inr (Packet \<lparr>c_size = sz, c_type = ucast ty, c_code = ucast cde, c_seqnr = seq,
                              c_nparams = nparams, c_params = params\<rparr>
                       (take (unat sz - 12) (drop 12 buf)))))))))"

text \<open>
  After the checks, \<open>nroutbulk\<close> is reduced by the size of the packet and nothing is moved, so
  what stays in the buffer are its first bytes and not the ones behind the packet.
\<close>

definition vcam_process_output :: "run_write \<Rightarrow> run_data \<Rightarrow> vcam \<Rightarrow> vcam res" where
  "vcam_process_output rw rwd cam =
     (if next_cmd_kills_connection cam then Inl Exit
      else bnd (fetch_packet (outbulk cam)) (\<lambda>p. case p of
          Wait \<Rightarrow> Inr cam
        | Reject sz \<Rightarrow> Inr (reject cam sz)
        | Packet ptp data \<Rightarrow>
            call_handler rw rwd
              (cam\<lparr>outbulk := take (length (outbulk cam) - unat (c_size ptp)) (outbulk cam)\<rparr>) ptp data))"

definition vcam_write :: "run_write \<Rightarrow> run_data \<Rightarrow> vcam \<Rightarrow> byte list \<Rightarrow> vcam res" where
  "vcam_write rw rwd cam data = vcam_process_output rw rwd (cam\<lparr>outbulk := outbulk cam @ data\<rparr>)"

text \<open>A whole session of the host: a sequence of writes.\<close>

fun vcam_writes :: "run_write \<Rightarrow> run_data \<Rightarrow> vcam \<Rightarrow> byte list list \<Rightarrow> vcam res" where
  "vcam_writes rw rwd cam [] = Inr cam"
| "vcam_writes rw rwd cam (d # ds) = bnd (vcam_write rw rwd cam d) (\<lambda>cam. vcam_writes rw rwd cam ds)"

text \<open>Reading a packet never leaves the buffer.\<close>

lemma get_16_drop_total: "n + 2 \<le> length d \<Longrightarrow> \<exists>x. get_16bit_le (drop n d) = Inr x"
  by (rule get_16_total) simp

lemma get_32_drop_total: "n + 4 \<le> length d \<Longrightarrow> \<exists>x. get_32bit_le (drop n d) = Inr x"
  by (rule get_32_total) simp

lemma read_params_total: "4 * n \<le> length d \<Longrightarrow> \<exists>xs. read_params n d = Inr xs \<and> length xs = n"
proof (induction n arbitrary: d)
  case 0
  then show ?case by simp
next
  case (Suc n)
  then obtain x where "get_32bit_le d = Inr x" using get_32_total [of d] by auto
  moreover have "4 * n \<le> length (drop 4 d)" using Suc.prems by simp
  then obtain xs where "read_params n (drop 4 d) = Inr xs" "length xs = n" using Suc.IH by blast
  ultimately show ?case by simp
qed

lemma fetch_total:
  "\<exists>p. fetch_packet buf = Inr p \<and> (\<forall>ptp data. p = Packet ptp data \<longrightarrow>
     wf_cmd ptp \<and> unat (c_size ptp) \<le> length buf)"
proof (cases "length buf < 4")
  case True
  then show ?thesis by (simp add: fetch_packet_def)
next
  case F: False
  then obtain sz where sz: "get_32bit_le buf = Inr sz" using get_32_total [of buf] by auto
  show ?thesis
  proof (cases "unat sz > length buf \<or> sz < 12")
    case True
    then show ?thesis using F sz by (auto simp: fetch_packet_def)
  next
    case False
    then have len: "12 \<le> length buf" by (auto simp: word_less_nat_alt not_less)
    then obtain ty cde sq where hdr: "get_16bit_le (drop 4 buf) = Inr ty"
      "get_16bit_le (drop 6 buf) = Inr cde" "get_32bit_le (drop 8 buf) = Inr sq"
      using get_16_drop_total [of 4 buf] get_16_drop_total [of 6 buf] get_32_drop_total [of 8 buf] by auto
    have "unat ((sz - 12) div 4) * 4 \<le> unat (sz - 12)"
      by (simp add: unat_div)
    also have "unat (sz - 12) = unat sz - 12"
      using False by (simp add: unat_sub word_le_nat_alt word_less_nat_alt not_less)
    finally have n: "4 * unat (if ty = 1 then (sz - 12) div 4 else 0) \<le> length (drop 12 buf)"
      using False by (auto simp: mult.commute)
    then obtain ps where "read_params (unat (if ty = 1 then (sz - 12) div 4 else 0)) (drop 12 buf) = Inr ps"
      "length ps = unat (if ty = 1 then (sz - 12) div 4 else 0)"
      using read_params_total by blast
    then show ?thesis using F sz hdr False
      by (cases "ty = 1") (auto simp: fetch_packet_def Let_def wf_cmd_def)
  qed
qed

section \<open>What the initiator sends\<close>

text \<open>A command container as the initiator builds it, and the codes the processor lets through.\<close>

definition enc_cmd :: "u16 \<Rightarrow> u32 \<Rightarrow> u32 list \<Rightarrow> byte list" where
  "enc_cmd c t ps = put_32bit_le (word_of_nat (12 + 4 * length ps)) @ put_16bit_le 1
     @ put_16bit_le c @ put_32bit_le t @ concat (map put_32bit_le ps)"

definition enc_data :: "u16 \<Rightarrow> u32 \<Rightarrow> byte list \<Rightarrow> byte list" where
  "enc_data c t d = put_32bit_le (word_of_nat (12 + length d)) @ put_16bit_le 2
     @ put_16bit_le c @ put_32bit_le t @ d"

definition ok_code :: "u16 \<Rightarrow> bool" where
  "ok_code c \<longleftrightarrow> c AND 0x7000 = 0x1000 \<or> c = 0xBEEF"

definition command :: "u16 \<Rightarrow> u32 \<Rightarrow> u32 list \<Rightarrow> ptpcontainer" where
  "command c t ps = \<lparr>c_size = word_of_nat (12 + 4 * length ps), c_type = 1, c_code = ucast c,
     c_seqnr = t, c_nparams = word_of_nat (length ps), c_params = ps\<rparr>"

definition data_header :: "u16 \<Rightarrow> u32 \<Rightarrow> nat \<Rightarrow> ptpcontainer" where
  "data_header c t n = \<lparr>c_size = word_of_nat (12 + n), c_type = 2, c_code = ucast c,
     c_seqnr = t, c_nparams = 0, c_params = []\<rparr>"

lemma drop_put_16 [simp]: "drop 2 (put_16bit_le x @ r) = r"
  by (simp add: put_16bit_le_def)

lemma drop_put_32 [simp]: "drop 4 (put_32bit_le x @ r) = r"
  by (simp add: put_32bit_le_def)

lemma drop_header [simp]:
  "drop 4 (put_32bit_le a @ r) = r"
  "drop 6 (put_32bit_le a @ put_16bit_le b @ r) = r"
  "drop 8 (put_32bit_le a @ put_16bit_le b @ put_16bit_le c @ r) = r"
  "drop 12 (put_32bit_le a @ put_16bit_le b @ put_16bit_le c @ put_32bit_le d @ r) = r"
  by (simp_all add: put_32bit_le_def put_16bit_le_def)

lemma read_params_concat: "read_params (length ps) (concat (map put_32bit_le ps) @ r) = Inr ps"
  by (induction ps) simp_all

lemma six_cases: "(n::nat) < 6 \<Longrightarrow> P 0 \<Longrightarrow> P 1 \<Longrightarrow> P 2 \<Longrightarrow> P 3 \<Longrightarrow> P 4 \<Longrightarrow> P 5 \<Longrightarrow> P n"
  by (simp add: numeral_eq_Suc less_Suc_eq) blast

lemma small_param_count:
  assumes "n < 6"
  shows "(word_of_nat (12 + 4 * n) - 12 :: u32) div 4 = word_of_nat n"
    and "(word_of_nat (12 + 4 * n) - 12 :: u32) mod 4 = 0"
    and "unat (word_of_nat (12 + 4 * n) :: u32) = 12 + 4 * n"
    and "unat (word_of_nat n :: u32) = n"
    and "\<not> (word_of_nat n :: u32) \<ge> 6"
    and "\<not> (word_of_nat (12 + 4 * n) :: u32) < 12"
  by (rule six_cases [OF assms]; simp add: word_le_nat_alt)+

lemma fetch_command:
  assumes "length ps < 6" "ok_code c"
  shows "fetch_packet (enc_cmd c t ps @ r) = Inr (Packet (command c t ps) (concat (map put_32bit_le ps)))"
  using assms(2) small_param_count [OF assms(1)]
  by (simp add: fetch_packet_def enc_cmd_def command_def ok_code_def Let_def read_params_concat
      del: of_nat_add of_nat_mult)

lemma fetch_data:
  assumes "length d < 2 ^ 32 - 12" "ok_code c"
  shows "fetch_packet (enc_data c t d @ r) = Inr (Packet (data_header c t (length d)) d)"
proof -
  have n: "unat (word_of_nat (12 + length d) :: u32) = 12 + length d"
    using assms(1) by (intro unat_len32) simp
  then have "\<not> (word_of_nat (12 + length d) :: u32) < 12"
    by (simp add: word_less_nat_alt del: of_nat_add)
  with n assms(2) show ?thesis
    by (simp add: fetch_packet_def enc_data_def data_header_def ok_code_def del: of_nat_add)
qed

lemma outbulk_self: "outbulk cam = [] \<Longrightarrow> cam\<lparr>outbulk := []\<rparr> = cam"
  by (cases cam) simp

text \<open>One whole command in an empty buffer reaches its handler, and empties the buffer.\<close>

lemma write_command:
  assumes "outbulk cam = []" "\<not> next_cmd_kills_connection cam" "length ps < 6" "ok_code c"
  shows "vcam_write rw rwd cam (enc_cmd c t ps)
    = call_handler rw rwd cam (command c t ps) (concat (map put_32bit_le ps))"
proof -
  have "fetch_packet (enc_cmd c t ps) = Inr (Packet (command c t ps) (concat (map put_32bit_le ps)))"
    using fetch_command [OF assms(3,4), of t "[]"] by simp
  moreover have "length (enc_cmd c t ps) = 12 + 4 * length ps" by (simp add: enc_cmd_def)
  moreover have "unat (c_size (command c t ps)) = 12 + 4 * length ps"
    using small_param_count(3) [OF assms(3)] by (simp add: command_def)
  ultimately show ?thesis using assms(1,2)
    by (simp add: vcam_write_def vcam_process_output_def outbulk_self)
qed

lemma write_data:
  assumes "outbulk cam = []" "\<not> next_cmd_kills_connection cam" "length d < 2 ^ 32 - 12" "ok_code c"
  shows "vcam_write rw rwd cam (enc_data c t d) = call_handler rw rwd cam (data_header c t (length d)) d"
proof -
  have "fetch_packet (enc_data c t d) = Inr (Packet (data_header c t (length d)) d)"
    using fetch_data [OF assms(3,4), of t "[]"] by simp
  moreover have "length (enc_data c t d) = 12 + length d" by (simp add: enc_data_def)
  moreover have "unat (c_size (data_header c t (length d))) = 12 + length d"
    using assms(3) by (simp add: data_header_def unat_len32 del: of_nat_add)
  ultimately show ?thesis using assms(1,2)
    by (simp add: vcam_write_def vcam_process_output_def outbulk_self)
qed

text \<open>
  Two commands in one write: the first is handled, and what stays in the buffer is the front of
  the first one again.
\<close>

lemma write_two_commands:
  assumes "outbulk cam = []" "\<not> next_cmd_kills_connection cam" "length ps < 6" "ok_code c"
  shows "vcam_write rw rwd cam (enc_cmd c t ps @ r)
    = call_handler rw rwd (cam\<lparr>outbulk := take (length r) (enc_cmd c t ps @ r)\<rparr>) (command c t ps)
        (concat (map put_32bit_le ps))"
proof -
  have "length (enc_cmd c t ps) = 12 + 4 * length ps" by (simp add: enc_cmd_def)
  moreover have "unat (c_size (command c t ps)) = 12 + 4 * length ps"
    using small_param_count(3) [OF assms(3)] by (simp add: command_def)
  ultimately show ?thesis using assms(1,2) fetch_command [OF assms(3,4), of t r]
    by (simp add: vcam_write_def vcam_process_output_def)
qed

section \<open>What one call leaves for the host\<close>

text \<open>A reply is nothing, a response, or a data container and its response.\<close>

fun reply :: "container list \<Rightarrow> bool" where
  "reply [] = True"
| "reply [r] = is_resp r"
| "reply [d, r] = (\<not> is_resp d \<and> is_resp r)"
| "reply _ = False"

definition replies :: "vcam \<Rightarrow> vcam \<Rightarrow> bool" where
  "replies cam cam' \<longleftrightarrow> (\<exists>ks. reply ks \<and> inbulk cam' = inbulk cam @ enc_all ks)"

lemma answers_replies:
  assumes "answers cam cam'"
  shows "replies cam cam'"
proof -
  from assms obtain t dat rc ps where
    "emits cam cam' ((case dat of None \<Rightarrow> [] | Some (c, p) \<Rightarrow> [DataC c t p]) @ [RespC rc t ps])"
    unfolding answers_def answers_with_def by blast
  moreover have "reply ((case dat of None \<Rightarrow> [] | Some (c, p) \<Rightarrow> [DataC c t p]) @ [RespC rc t ps])"
    by (cases dat) (auto split: prod.splits)
  ultimately show ?thesis unfolding replies_def emits_def by blast
qed

lemma completes_replies: "completes cam cam' \<Longrightarrow> replies cam cam'"
  unfolding completes_def
proof (elim disjE)
  assume "pipe_frame cam cam'"
  then show ?thesis unfolding replies_def pipe_frame_def by (intro exI [of _ "[]"]) simp
qed (rule answers_replies)

lemma replies_inbulk: "replies c c' \<Longrightarrow> inbulk c = inbulk d \<Longrightarrow> inbulk c' = inbulk d' \<Longrightarrow> replies d d'"
  by (simp add: replies_def)

lemma reject_replies [simp]: "replies cam (reject cam sz)"
  unfolding replies_def
  by (rule exI [of _ "[RespC PTP_RC_GeneralError (seqnr cam) []]"]) (simp add: reject_def Let_def)

lemma response_replies [simp]: "replies cam (ptp_response cam rc ps)"
  by (rule answers_replies) simp

lemma reject_simps [simp]:
  "outbulk (reject cam sz) = drop (unat sz) (outbulk cam)"
  "inbulk (reject cam sz) = inbulk cam @ enc (RespC PTP_RC_GeneralError (seqnr cam) [])"
  "seqnr (reject cam sz) = seqnr cam + 1"
  by (simp_all add: reject_def Let_def)

section \<open>The processor relies on its handlers\<close>

text \<open>
  The contract between the processor and the handlers it is given. The first two laws are the
  replies; the invariant \<open>I\<close> is whatever the handlers agree to keep, as long as it does not
  depend on the pipes, the transaction number or the saved command.
\<close>

locale responder =
  fixes rw :: run_write and rwd :: run_data and I :: "vcam \<Rightarrow> bool"
  assumes rw_completes: "rw f cam ptp = Inr cam' \<Longrightarrow> completes cam cam'"
    and rwd_completes: "rwd g cam ptp d = Inr cam' \<Longrightarrow> completes cam cam'"
    and rw_keeps: "I cam \<Longrightarrow> rw f cam ptp = Inr cam' \<Longrightarrow> I cam'"
    and rwd_keeps: "I cam \<Longrightarrow> rwd g cam ptp d = Inr cam' \<Longrightarrow> I cam'"
    and I_pipe: "I (cam\<lparr>outbulk := ob\<rparr>) = I cam"
    and I_cmd: "I (cam\<lparr>ptpcmd := p\<rparr>) = I cam"
    and I_response: "I (ptp_response cam rc ps) = I cam"
begin

lemma call_replies: "call_handler rw rwd cam ptp data = Inr cam' \<Longrightarrow> replies cam cam'"
  unfolding call_handler_def
  by (auto split: option.split_asm if_split_asm
      dest!: rw_completes rwd_completes completes_replies elim: replies_inbulk)

lemma call_keeps: "I cam \<Longrightarrow> call_handler rw rwd cam ptp data = Inr cam' \<Longrightarrow> I cam'"
  unfolding call_handler_def
  by (auto split: option.split_asm if_split_asm simp: I_cmd I_response intro: rw_keeps rwd_keeps)

lemma process_cases:
  assumes "vcam_process_output rw rwd cam = Inr cam'"
  obtains "cam' = cam" | sz where "cam' = reject cam sz"
    | ob ptp data where "call_handler rw rwd (cam\<lparr>outbulk := ob\<rparr>) ptp data = Inr cam'"
proof -
  from assms obtain p where "fetch_packet (outbulk cam) = Inr p"
    and p: "(case p of Wait \<Rightarrow> Inr cam | Reject sz \<Rightarrow> Inr (reject cam sz)
        | Packet ptp data \<Rightarrow> call_handler rw rwd
            (cam\<lparr>outbulk := take (length (outbulk cam) - unat (c_size ptp)) (outbulk cam)\<rparr>) ptp data)
      = Inr cam'"
    by (auto simp: vcam_process_output_def split: if_split_asm)
  from p that show ?thesis by (cases p) auto
qed

lemma process_replies: "vcam_process_output rw rwd cam = Inr cam' \<Longrightarrow> replies cam cam'"
proof (erule process_cases)
  show "cam' = cam \<Longrightarrow> replies cam cam'"
    unfolding replies_def by (intro exI [of _ "[]"]) simp
  show "cam' = reject cam sz \<Longrightarrow> replies cam cam'" for sz by simp
  show "call_handler rw rwd (cam\<lparr>outbulk := ob\<rparr>) ptp data = Inr cam' \<Longrightarrow> replies cam cam'"
    for ob ptp data
    by (drule call_replies) (simp add: replies_def)
qed

lemma process_keeps:
  assumes "I cam" "vcam_process_output rw rwd cam = Inr cam'"
  shows "I cam'"
  using assms(2)
proof (cases rule: process_cases)
  case 1
  then show ?thesis using assms(1) by simp
next
  case (2 sz)
  then show ?thesis using assms(1) by (simp add: reject_def Let_def I_pipe I_response)
next
  case (3 ob ptp data)
  have "I (cam\<lparr>outbulk := ob\<rparr>)" using assms(1) by (simp add: I_pipe)
  then show ?thesis using 3 by (rule call_keeps)
qed

lemma write_replies: "vcam_write rw rwd cam d = Inr cam' \<Longrightarrow> replies cam cam'"
  unfolding vcam_write_def by (drule process_replies) (simp add: replies_def)

lemma write_keeps: "I cam \<Longrightarrow> vcam_write rw rwd cam d = Inr cam' \<Longrightarrow> I cam'"
  unfolding vcam_write_def by (erule process_keeps [rotated]) (simp add: I_pipe)

lemma writes_keep: "I cam \<Longrightarrow> vcam_writes rw rwd cam ds = Inr cam' \<Longrightarrow> I cam'"
  by (induction ds arbitrary: cam) (auto dest: write_keeps)

text \<open>Whatever the host writes, what it reads is a sequence of whole replies.\<close>

lemma writes_stream:
  assumes "vcam_writes rw rwd cam ds = Inr cam'"
  shows "\<exists>kss. length kss = length ds \<and> (\<forall>ks\<in>set kss. reply ks)
    \<and> inbulk cam' = inbulk cam @ enc_all (concat kss)"
  using assms
proof (induction ds arbitrary: cam)
  case Nil
  then show ?case by simp
next
  case (Cons d ds)
  then obtain c1 where c1: "vcam_write rw rwd cam d = Inr c1" "vcam_writes rw rwd c1 ds = Inr cam'"
    by auto
  from write_replies [OF c1(1)] obtain ks where ks: "reply ks" "inbulk c1 = inbulk cam @ enc_all ks"
    by (auto simp: replies_def)
  from Cons.IH [OF c1(2)] obtain kss where "length kss = length ds" "\<forall>ks\<in>set kss. reply ks"
    "inbulk cam' = inbulk c1 @ enc_all (concat kss)" by blast
  with ks show ?case by (intro exI [of _ "ks # kss"]) simp
qed

end

end
