(* ===== verification/Camera.thy ===== *)
theory Camera
  imports Nikon_Ops Sony_Ops Canon_Ops Dispatch
begin

text \<open>
  The whole camera: the meaning of the handler names in the opcode table, and the proof that
  the handlers meet the contract of the command processor.
\<close>

section \<open>The handler table\<close>

text \<open>The lookup of virtual objects is the vendor's; the property callbacks stay a parameter.\<close>

definition vendor_lookup :: "virt_lookup \<Rightarrow> vcam \<Rightarrow> u32 \<Rightarrow> byte list option" where
  "vendor_lookup f cam h = (case f of
     F_nikon_lookup_virtual_object \<Rightarrow> nikon_lookup_virtual_object cam h
   | F_sony_lookup_virtual_object \<Rightarrow> sony_lookup_virtual_object cam h
   | F_canon_lookup_virtual_object \<Rightarrow> canon_lookup_virtual_object cam h)"

definition camera_hooks :: "hooks \<Rightarrow> hooks" where
  "camera_hooks hk = hk\<lparr>lookup_fn := vendor_lookup\<rparr>"

fun op_handler :: "hooks \<Rightarrow> env \<Rightarrow> op_write \<Rightarrow> vcam \<Rightarrow> ptpcontainer \<Rightarrow> vcam res" where
  "op_handler hk e F_ptp_opensession_write cam ptp = ptp_opensession_write cam ptp"
| "op_handler hk e F_ptp_closesession_write cam ptp = ptp_closesession_write cam ptp"
| "op_handler hk e F_ptp_deviceinfo_write cam ptp = ptp_deviceinfo_write cam ptp"
| "op_handler hk e F_ptp_getnumobjects_write cam ptp = ptp_getnumobjects_write cam ptp"
| "op_handler hk e F_ptp_getobjecthandles_write cam ptp = ptp_getobjecthandles_write cam ptp"
| "op_handler hk e F_ptp_getstorageids_write cam ptp = ptp_getstorageids_write cam ptp"
| "op_handler hk e F_ptp_getstorageinfo_write cam ptp = ptp_getstorageinfo_write cam ptp"
| "op_handler hk e F_ptp_getobjectinfo_write cam ptp = ptp_getobjectinfo_write e cam ptp"
| "op_handler hk e F_ptp_getobject_write cam ptp = ptp_getobject_write e cam ptp"
| "op_handler hk e F_ptp_getthumb_write cam ptp = ptp_getthumb_write e cam ptp"
| "op_handler hk e F_ptp_deleteobject_write cam ptp = ptp_deleteobject_write cam ptp"
| "op_handler hk e F_ptp_initiatecapture_write cam ptp = ptp_initiatecapture_write e cam ptp"
| "op_handler hk e F_ptp_getdevicepropdesc_write cam ptp = ptp_getdevicepropdesc_write hk cam ptp"
| "op_handler hk e F_ptp_getdevicepropvalue_write cam ptp = ptp_getdevicepropvalue_write hk cam ptp"
| "op_handler hk e F_ptp_setdevicepropvalue_write cam ptp = ptp_setdevicepropvalue_write cam ptp"
| "op_handler hk e F_ptp_getpartialobject_write cam ptp = ptp_getpartialobject_write (camera_hooks hk) e cam ptp"
| "op_handler hk e F_ptp_vusb_write cam ptp = ptp_vusb_write cam ptp"
| "op_handler hk e F_ptp_mtp_obj_props_supported_write cam ptp = ptp_mtp_obj_props_supported_write cam ptp"
| "op_handler hk e F_ptp_nikon_setcontrolmode_write cam ptp = ptp_nikon_setcontrolmode_write cam ptp"
| "op_handler hk e F_nikon_capture_op cam ptp = nikon_capture_op e cam ptp"
| "op_handler hk e F_nikon_afcapture_sdram_op cam ptp = nikon_afcapture_sdram_op e cam ptp"
| "op_handler hk e F_nikon_capture2_op cam ptp = nikon_capture2_op e cam ptp"
| "op_handler hk e F_nikon_terminatecapture_op cam ptp = nikon_terminatecapture_op cam ptp"
| "op_handler hk e F_nikon_afdrive_op cam ptp = nikon_afdrive_op cam ptp"
| "op_handler hk e F_nikon_changecameramode_op cam ptp = nikon_changecameramode_op cam ptp"
| "op_handler hk e F_nikon_deviceready_op cam ptp = nikon_deviceready_op cam ptp"
| "op_handler hk e F_nikon_delimagesdram_op cam ptp = nikon_delimagesdram_op cam ptp"
| "op_handler hk e F_nikon_getevent_op cam ptp = nikon_getevent_op e cam ptp"
| "op_handler hk e F_nikon_geteventex_op cam ptp = nikon_geteventex_op e cam ptp"
| "op_handler hk e F_nikon_getvendorpropcodes_op cam ptp = nikon_getvendorpropcodes_op cam ptp"
| "op_handler hk e F_nikon_getvendorcodes_op cam ptp = nikon_getvendorcodes_op cam ptp"
| "op_handler hk e F_nikon_start_liveview_op cam ptp = nikon_start_liveview_op hk cam ptp"
| "op_handler hk e F_nikon_end_liveview_op cam ptp = nikon_end_liveview_op hk cam ptp"
| "op_handler hk e F_nikon_getliveviewimg_op cam ptp = nikon_getliveviewimg_op e cam ptp"
| "op_handler hk e F_nikon_getpreviewimg_op cam ptp = nikon_getpreviewimg_op e cam ptp"
| "op_handler hk e F_nikon_getobjectinfo cam ptp = nikon_getobjectinfo e cam ptp"
| "op_handler hk e F_nikon_getobject cam ptp = nikon_getobject e cam ptp"
| "op_handler hk e F_nikon_getthumb cam ptp = nikon_getthumb e cam ptp"
| "op_handler hk e F_nikon_getlargethumb_op cam ptp = nikon_getlargethumb_op e cam ptp"
| "op_handler hk e F_nikon_deleteobject cam ptp = nikon_deleteobject cam ptp"
| "op_handler hk e F_nikon_getobjectsize_op cam ptp = nikon_getobjectsize_op cam ptp"
| "op_handler hk e F_nikon_getpartialobjectex_op cam ptp = nikon_getpartialobjectex_op e cam ptp"
| "op_handler hk e F_nikon_getstorageinfo_op cam ptp = nikon_getstorageinfo_op cam ptp"
| "op_handler hk e F_sony_sdioconnect_op cam ptp = sony_sdioconnect_op cam ptp"
| "op_handler hk e F_sony_getextdeviceinfo_op cam ptp = sony_getextdeviceinfo_op cam ptp"
| "op_handler hk e F_sony_getalldevicepropinfo_op cam ptp = sony_getalldevicepropinfo_op cam ptp"
| "op_handler hk e F_sony_setdevicepropvalue_write cam ptp = sony_setdevicepropvalue_write cam ptp"
| "op_handler hk e F_sony_controldevice_write cam ptp = sony_controldevice_write cam ptp"
| "op_handler hk e F_sony_getstorageids_op cam ptp = sony_getstorageids_op cam ptp"
| "op_handler hk e F_sony_getobjectinfo cam ptp = sony_getobjectinfo e cam ptp"
| "op_handler hk e F_sony_getobject cam ptp = sony_getobject hk e cam ptp"
| "op_handler hk e F_sony_not_supported_op cam ptp = sony_not_supported_op cam ptp"
| "op_handler hk e F_ptp_eos_viewfinder_data cam ptp = ptp_eos_viewfinder_data e cam ptp"
| "op_handler hk e F_ptp_eos_generic cam ptp = ptp_eos_generic cam ptp"
| "op_handler hk e F_ptp_eos_exec_evproc cam ptp = ptp_eos_exec_evproc cam ptp"
| "op_handler hk e F_ptp_eos_set_property cam ptp = ptp_eos_set_property cam ptp"
| "op_handler hk e F_ptp_eos_remote_release cam ptp = ptp_eos_remote_release hk e cam ptp"
| "op_handler hk e F_ptp_eos_remoterelease cam ptp = ptp_eos_remoterelease hk e cam ptp"
| "op_handler hk e F_vusb_ptp_eos_events cam ptp = vusb_ptp_eos_events e cam ptp"
| "op_handler hk e F_vusb_ptp_eos_getdevicepropvalue cam ptp = vusb_ptp_eos_getdevicepropvalue cam ptp"
| "op_handler hk e F_eos_getstorageids cam ptp = eos_getstorageids cam ptp"
| "op_handler hk e F_eos_getstorageinfo cam ptp = eos_getstorageinfo cam ptp"
| "op_handler hk e F_eos_getobjectinfoex cam ptp = eos_getobjectinfoex cam ptp"
| "op_handler hk e F_eos_getpartialobject cam ptp = eos_getpartialobject e cam ptp"
| "op_handler hk e F_eos_getpartialobjectex cam ptp = eos_getpartialobjectex e cam ptp"
| "op_handler hk e F_eos_getobject cam ptp = eos_getobject e cam ptp"
| "op_handler hk e F_eos_getthumbex cam ptp = eos_getthumbex e cam ptp"
| "op_handler hk e F_eos_transfercomplete cam ptp = eos_transfercomplete cam ptp"
| "op_handler hk e F_eos_getdeviceinfoex cam ptp = eos_getdeviceinfoex cam ptp"
| "op_handler hk e F_eos_noop_ok cam ptp = eos_noop_ok cam ptp"
| "op_handler hk e (F_fuji f) cam ptp = fuji_fn hk f cam ptp"

fun data_handler :: "hooks \<Rightarrow> env \<Rightarrow> op_write_data \<Rightarrow> vcam \<Rightarrow> ptpcontainer \<Rightarrow> byte list \<Rightarrow> vcam res" where
  "data_handler hk e F_ptp_setdevicepropvalue_write_data cam ptp d = ptp_setdevicepropvalue_write_data hk cam ptp d"
| "data_handler hk e F_ptp_vusb_write_data cam ptp d = ptp_vusb_write_data cam ptp d"
| "data_handler hk e F_nikon_setdevicepropvalue_data cam ptp d = nikon_setdevicepropvalue_data hk e cam ptp d"
| "data_handler hk e F_sony_setdevicepropvalue_data cam ptp d = sony_setdevicepropvalue_data hk e cam ptp d"
| "data_handler hk e F_sony_controldevice_data cam ptp d = sony_controldevice_data hk e cam ptp d"
| "data_handler hk e F_ptp_eos_exec_evproc_data cam ptp d = ptp_eos_exec_evproc_data cam ptp d"
| "data_handler hk e F_ptp_eos_set_property_data cam ptp d = ptp_eos_set_property_data hk e cam ptp d"
| "data_handler hk e (F_fuji_data g) cam ptp d = fuji_data_fn hk g cam ptp d"

section \<open>The vendor handlers answer\<close>

lemma nikon_notify_frame [simp]: "pipe_frame a (nikon_notify e cam when c v) = pipe_frame a cam"
  by (simp add: nikon_notify_def)

lemma nikon_free_frame [simp]: "pipe_frame a (nikon_free_sdram cam) = pipe_frame a cam"
  by (simp add: nikon_free_sdram_def)

lemma store_picture_frame [simp]:
  "pipe_frame a (nikon_store_picture d cam) = pipe_frame a cam"
  "pipe_frame a (sony_store_picture d cam) = pipe_frame a cam"
  by (simp_all add: nikon_store_picture_def sony_store_picture_def Let_def)

lemma nikon_capture_answers: "nikon_do_capture e cam s = Inr cam' \<Longrightarrow> answers cam cam'"
  by (auto simp: nikon_do_capture_def nikon_capture_sdram_def nikon_capture_card_def
      nikon_capture_picture_def nikon_notify_sdram_capture_def Let_def case_prod_beta split: if_split_asm option.split_asm)

lemma pop_loop_frame: "pop_loop e n cam = Inr (evs, cam') \<Longrightarrow> pipe_frame cam cam'"
proof (induction n arbitrary: cam evs)
  case 0
  then show ?case by simp
next
  case (Suc n)
  then obtain ev c1 where c1: "ptp_pop_nikon_event e cam = Inr (ev, c1)" by auto
  with pop_nikon_frame have f: "pipe_frame cam c1" by blast
  show ?case using Suc c1 f by (cases ev) (auto dest!: Suc.IH intro: pipe_frame_trans)
qed

lemma pop_events_frame: "nikon_pop_events e cam x = Inr (bs, cam') \<Longrightarrow> pipe_frame cam cam'"
  by (auto simp: nikon_pop_events_def dest: pop_loop_frame)

lemma set_liveview_answers: "hooks_ok hk \<Longrightarrow> set_liveview hk cam s = Inr cam' \<Longrightarrow> answers cam cam'"
  by (auto simp: set_liveview_def Let_def dest!: set_prop_data_frame) (simp add: pipe_frame_def)

lemma sdram_info_answers: "nikon_sdram_object_info e cam ptp = Inr cam' \<Longrightarrow> answers cam cam'"
  by (auto simp: nikon_sdram_object_info_def time_now_def Let_def)

lemma send_part_ex_answers: "send_part_ex cam ptp off mx sz src = Inr cam' \<Longrightarrow> answers cam cam'"
  by (auto simp: send_part_ex_def Let_def split: if_split_asm option.split_asm)

lemmas std_answers =
  setcontrolmode_answers opensession_answers closesession_answers deviceinfo_answers
  getstorageids_answers getstorageinfo_answers mtp_obj_props_answers getnumobjects_answers
  getobjecthandles_answers getpartialobject_answers getobject_answers getthumb_answers
  getobjectinfo_answers initiatecapture_answers deleteobject_answers

lemmas nikon_op_defs =
  nikon_capture_op_def nikon_afcapture_sdram_op_def nikon_capture2_op_def
  nikon_terminatecapture_op_def nikon_afdrive_op_def nikon_changecameramode_op_def
  nikon_deviceready_op_def nikon_delimagesdram_op_def nikon_getevent_op_def nikon_geteventex_op_def
  nikon_getvendorpropcodes_op_def nikon_getvendorcodes_op_def nikon_start_liveview_op_def
  nikon_end_liveview_op_def nikon_getliveviewimg_op_def nikon_getpreviewimg_op_def
  nikon_getobjectinfo_def nikon_getobject_def nikon_getthumb_def nikon_getlargethumb_op_def
  nikon_deleteobject_def nikon_getobjectsize_op_def nikon_getpartialobjectex_op_def
  nikon_getstorageinfo_op_def send_sdram_def

lemma nikon_ops_answer:
  "nikon_capture_op e cam ptp = Inr cam' \<Longrightarrow> answers cam cam'"
  "nikon_afcapture_sdram_op e cam ptp = Inr cam' \<Longrightarrow> answers cam cam'"
  "nikon_capture2_op e cam ptp = Inr cam' \<Longrightarrow> answers cam cam'"
  "nikon_terminatecapture_op cam ptp = Inr cam' \<Longrightarrow> answers cam cam'"
  "nikon_afdrive_op cam ptp = Inr cam' \<Longrightarrow> answers cam cam'"
  "nikon_changecameramode_op cam ptp = Inr cam' \<Longrightarrow> answers cam cam'"
  "nikon_deviceready_op cam ptp = Inr cam' \<Longrightarrow> answers cam cam'"
  "nikon_delimagesdram_op cam ptp = Inr cam' \<Longrightarrow> answers cam cam'"
  "nikon_getevent_op e cam ptp = Inr cam' \<Longrightarrow> answers cam cam'"
  "nikon_geteventex_op e cam ptp = Inr cam' \<Longrightarrow> answers cam cam'"
  "nikon_getvendorpropcodes_op cam ptp = Inr cam' \<Longrightarrow> answers cam cam'"
  "nikon_getvendorcodes_op cam ptp = Inr cam' \<Longrightarrow> answers cam cam'"
  "nikon_getliveviewimg_op e cam ptp = Inr cam' \<Longrightarrow> answers cam cam'"
  "nikon_getpreviewimg_op e cam ptp = Inr cam' \<Longrightarrow> answers cam cam'"
  "nikon_getobjectinfo e cam ptp = Inr cam' \<Longrightarrow> answers cam cam'"
  "nikon_getobject e cam ptp = Inr cam' \<Longrightarrow> answers cam cam'"
  "nikon_getthumb e cam ptp = Inr cam' \<Longrightarrow> answers cam cam'"
  "nikon_getlargethumb_op e cam ptp = Inr cam' \<Longrightarrow> answers cam cam'"
  "nikon_deleteobject cam ptp = Inr cam' \<Longrightarrow> answers cam cam'"
  "nikon_getobjectsize_op cam ptp = Inr cam' \<Longrightarrow> answers cam cam'"
  "nikon_getpartialobjectex_op e cam ptp = Inr cam' \<Longrightarrow> answers cam cam'"
  "nikon_getstorageinfo_op cam ptp = Inr cam' \<Longrightarrow> answers cam cam'"
  by (auto simp: nikon_op_defs handler_defs Let_def nikon_capture_answers sdram_info_answers
      send_part_ex_answers std_answers dest!: pop_events_frame split: if_split_asm option.split_asm)

lemma nikon_liveview_answer:
  "hooks_ok hk \<Longrightarrow> nikon_start_liveview_op hk cam ptp = Inr cam' \<Longrightarrow> answers cam cam'"
  "hooks_ok hk \<Longrightarrow> nikon_end_liveview_op hk cam ptp = Inr cam' \<Longrightarrow> answers cam cam'"
  by (auto simp: nikon_op_defs handler_defs set_liveview_answers split: if_split_asm)

lemma completes_frame_after: "completes a b \<Longrightarrow> pipe_frame b c \<Longrightarrow> completes a c"
  by (auto simp: completes_def answers_def answers_with_def emits_def pipe_frame_def)

lemma completes_frame_before: "pipe_frame a b \<Longrightarrow> completes b c \<Longrightarrow> completes a c"
  by (auto simp: completes_def intro: answers_frame pipe_frame_trans)

lemma nikon_data_completes:
  assumes "hooks_ok hk" "nikon_setdevicepropvalue_data hk e cam ptp d = Inr cam'"
  shows "completes cam cam'"
proof -
  from assms(2) obtain p0 desc c1 c2 where
    1: "vcam_get_prop_desc hk cam (sint p0) = Inr (desc, c1)"
      "ptp_setdevicepropvalue_write_data hk c1 ptp d = Inr c2"
    and 2: "cam' = nikon_notify e c2 300 PTP_EC_DevicePropChanged p0 \<or> cam' = c2"
    by (auto simp: nikon_setdevicepropvalue_data_def Let_def split: if_split_asm)
  have "completes cam c2"
    using 1 get_prop_desc_frame [OF assms(1)] setdevicepropvalue_data_completes [OF assms(1)]
    by (blast intro: completes_frame_before)
  with 2 show ?thesis by (auto intro: completes_frame_after)
qed

lemma sony_notify_frame [simp]: "pipe_frame a (sony_notify e cam when c v) = pipe_frame a cam"
  by (simp add: sony_notify_def)

lemma sony_free_frame [simp]: "pipe_frame a (sony_free_sdram cam) = pipe_frame a cam"
  by (simp add: sony_free_sdram_def)

lemma sony_set_frame:
  assumes "hooks_ok hk"
  shows "sony_set_prop_u8 hk cam c v = Inr cam' \<Longrightarrow> pipe_frame cam cam'"
    and "sony_set_prop_u16 hk cam c w = Inr cam' \<Longrightarrow> pipe_frame cam cam'"
  using set_prop_data_frame [OF assms] by (auto simp: sony_set_prop_u8_def sony_set_prop_u16_def)

lemma sony_set_chain:
  "sony_set_prop_u8 hk cam c v = Inr cam' \<Longrightarrow> hooks_ok hk \<Longrightarrow> pipe_frame a cam \<Longrightarrow> pipe_frame a cam'"
  "sony_set_prop_u16 hk cam c w = Inr cam' \<Longrightarrow> hooks_ok hk \<Longrightarrow> pipe_frame a cam \<Longrightarrow> pipe_frame a cam'"
  using sony_set_frame by (blast intro: pipe_frame_trans)+

lemma sony_complete_frame:
  assumes "hooks_ok hk" "sony_complete_capture hk e cam = Inr cam'"
  shows "pipe_frame cam cam'"
proof -
  from assms(2) obtain d c1 c2 where
    c0: "sony_set_prop_u16 hk (sony_store_picture d (sony_free_sdram cam)) PTP_DPC_SONY_ObjectInMemory 0x8001 = Inr c1"
    and c2: "sony_set_prop_u8 hk c1 PTP_DPC_SONY_FocusFound 1 = Inr c2"
    "cam' = sony_notify e c2 100 PTP_EC_Sony_ObjectAdded SONY_OBJECT_HANDLE"
    by (auto simp: sony_complete_capture_def Let_def)
  have "pipe_frame cam c1" using sony_set_chain(2) [OF c0 assms(1), where a = cam] by simp
  then have "pipe_frame cam c2" by (rule sony_set_chain(1) [OF c2(1) assms(1)])
  then show ?thesis using c2(2) by simp
qed

lemma full_release_frame:
  assumes "hooks_ok hk" "full_release hk e v cam = Inr cam'"
  shows "pipe_frame cam cam'"
proof (cases "v = 2")
  case True
  then obtain c1 where "sony_set_prop_u8 hk (cam\<lparr>sony := (sony cam)\<lparr>so_full_pressed := True\<rparr>\<rparr>)
      PTP_DPC_SONY_FocusFound 2 = Inr c1" "pipe_frame c1 cam'"
    using assms(2) by (auto simp: full_release_def Let_def)
  then show ?thesis using sony_set_chain(1) [OF _ assms(1), where a = cam] pipe_frame_trans by fastforce
next
  case False
  then show ?thesis using assms(2) sony_complete_frame [OF assms(1)]
    by (auto simp: full_release_def split: if_split_asm)
qed

lemma half_release_frame [simp]: "pipe_frame a (half_release v cam) = pipe_frame a cam"
  by (simp add: half_release_def)

lemma sony_control_answers:
  assumes "hooks_ok hk" "sony_controldevice_data hk e cam ptp d = Inr cam'"
  shows "answers cam cam'"
  using assms(2) full_release_frame [OF assms(1)] get_prop_desc_frame [OF assms(1)]
  by (auto simp: sony_controldevice_data_def handler_defs Let_def split: if_split_asm option.split_asm)

lemma sony_set_answers:
  assumes "hooks_ok hk" "sony_setdevicepropvalue_data hk e cam ptp d = Inr cam'"
  shows "answers cam cam'"
proof -
  have *: "vcam_get_prop_desc hk cam c = Inr (desc, c1) \<Longrightarrow> vcam_set_prop_data hk c1 c' v n = Inr (r, c2)
      \<Longrightarrow> pipe_frame cam c2" for c desc c1 c' r c2 v n
    using get_prop_desc_frame [OF assms(1)] set_prop_data_frame [OF assms(1)] by (blast intro: pipe_frame_trans)
  show ?thesis using assms(2) get_prop_desc_frame [OF assms(1)] *
    by (auto simp: sony_setdevicepropvalue_data_def handler_defs Let_def split: if_split_asm option.split_asm)
qed

lemma sony_info_answers: "sony_virtual_object_info e cam ptp h = Inr cam' \<Longrightarrow> answers cam cam'"
  by (auto simp: sony_virtual_object_info_def time_now_def Let_def split: if_split_asm option.split_asm)

lemma sony_ops_answer:
  "sony_sdioconnect_op cam ptp = Inr cam' \<Longrightarrow> answers cam cam'"
  "sony_getextdeviceinfo_op cam ptp = Inr cam' \<Longrightarrow> answers cam cam'"
  "sony_getalldevicepropinfo_op cam ptp = Inr cam' \<Longrightarrow> answers cam cam'"
  "sony_getstorageids_op cam ptp = Inr cam' \<Longrightarrow> answers cam cam'"
  "sony_getobjectinfo e cam ptp = Inr cam' \<Longrightarrow> answers cam cam'"
  "sony_not_supported_op cam ptp = Inr cam' \<Longrightarrow> answers cam cam'"
  by (auto simp: sony_sdioconnect_op_def sony_getextdeviceinfo_op_def sony_getalldevicepropinfo_op_def
      sony_getstorageids_op_def sony_getobjectinfo_def sony_not_supported_op_def handler_defs Let_def
      sony_info_answers getobjectinfo_answers split: if_split_asm)

lemma sony_getobject_answers:
  assumes "hooks_ok hk" "sony_getobject hk e cam ptp = Inr cam'"
  shows "answers cam cam'"
proof -
  have *: "answers cam (ptp_response c1 rc ps)"
    if "sony_set_prop_u16 hk (sony_free_sdram (ptp_senddata cam c d)) p v = Inr c1" for c d p v c1 rc ps
    using sony_set_frame(2) [OF assms(1) that]
    by (intro answers_data [of cam cam c d]) (simp, simp add: pipe_frame_def sony_free_sdram_def split: if_split_asm)
  show ?thesis using assms(2) *
    by (auto simp: sony_getobject_def handler_defs Let_def getobject_answers split: if_split_asm)
qed

lemma sony_wait_completes:
  "sony_setdevicepropvalue_write cam ptp = Inr cam' \<Longrightarrow> completes cam cam'"
  "sony_controldevice_write cam ptp = Inr cam' \<Longrightarrow> completes cam cam'"
  by (auto simp: sony_setdevicepropvalue_write_def sony_controldevice_write_def handler_defs completes_def
      split: if_split_asm)

lemma eos_notify_frame [simp]:
  "pipe_frame a (eos_notify_info_check e cam m when) = pipe_frame a cam"
  "pipe_frame a (eos_notify_olc_button e cam b when) = pipe_frame a cam"
  "pipe_frame a (eos_notify_object_added e cam h s p ofc sz nm when) = pipe_frame a cam"
  "pipe_frame a (eos_notify_request_transfer e cam h ofc sz nm when) = pipe_frame a cam"
  "pipe_frame a (eos_store_sdram f st cam) = pipe_frame a cam"
  by (simp_all add: eos_notify_info_check_def eos_notify_olc_button_def eos_notify_object_added_def
      eos_notify_request_transfer_def eos_store_sdram_def Let_def)

lemma prop_changed_frame:
  assumes "hooks_ok hk" "eos_notify_prop_changed hk e cam c when = Inr cam'"
  shows "pipe_frame cam cam'"
  using assms(2) get_prop_data_frame [OF assms(1)] by (auto simp: eos_notify_prop_changed_def)

lemma capture_summary_frame:
  assumes "hooks_ok hk" "eos_capture_summary hk e cam = Inr cam'"
  shows "pipe_frame cam cam'"
proof -
  from assms(2) obtain c1 c2 c3 c4 where
    "eos_notify_prop_changed hk e cam 0xD103 0 = Inr c1" "eos_notify_prop_changed hk e c1 0xD102 0 = Inr c2"
    "eos_notify_prop_changed hk e c2 0xD101 0 = Inr c3" "eos_notify_prop_changed hk e c3 0xD11B 100 = Inr c4"
    and cam': "cam' = eos_notify_olc_button e (eos_notify_info_check e c4 0x20001 50) 4 100"
    by (auto simp: eos_capture_summary_def)
  then have "pipe_frame cam c4" using prop_changed_frame [OF assms(1)] by (blast intro: pipe_frame_trans)
  then show ?thesis by (simp add: cam')
qed

lemma card_object_frame: "eos_create_card_object cam src = Inr (r, cam') \<Longrightarrow> pipe_frame cam cam'"
  by (auto simp: eos_create_card_object_def eos_capture_dir_def Let_def case_prod_beta split: option.split_asm option.split)

lemma eos_capture_frames:
  "eos_capture_sdram e cam src = Inr cam' \<Longrightarrow> pipe_frame cam cam'"
  "eos_capture_card e cam src = Inr cam' \<Longrightarrow> pipe_frame cam cam'"
  by (auto simp: eos_capture_sdram_def eos_capture_card_def Let_def dest!: card_object_frame split: option.split_asm)

lemma capture_trigger_frame:
  assumes "hooks_ok hk" "eos_capture_trigger hk e cam = Inr cam'"
  shows "pipe_frame cam cam'"
  using assms(2)
  by (auto simp: eos_capture_trigger_def split: option.split_asm if_split_asm
      dest!: capture_summary_frame [OF assms(1)] eos_capture_frames elim: pipe_frame_trans)

lemma pop_eos_frame: "ptp_pop_eos_event e cam = (r, cam') \<Longrightarrow> pipe_frame cam cam'"
  by (auto simp: ptp_pop_eos_event_def gettimeofday_def Let_def split: prod.splits list.splits if_split_asm)

lemma drain_frame: "eos_drain e sz cam = (bs, cam') \<Longrightarrow> pipe_frame cam cam'"
proof (induction e sz cam arbitrary: bs cam' rule: eos_drain.induct)
  case (1 e sz cam)
  obtain r c1 where p: "ptp_pop_eos_event e cam = (r, c1)" by (cases "ptp_pop_eos_event e cam")
  have f: "pipe_frame cam c1" by (rule pop_eos_frame [OF p])
  show ?case
  proof (cases r)
    case None
    then show ?thesis using "1.prems" p f by (simp add: eos_drain.simps [of e sz cam])
  next
    case (Some ev)
    obtain bs2 c2 where d: "eos_drain e (sz + length ev) c1 = (bs2, c2)"
      by (cases "eos_drain e (sz + length ev) c1")
    show ?thesis
    proof (cases "sz + length ev + 12 > 10000")
      case True
      then show ?thesis using "1.prems" p Some f by (simp add: eos_drain.simps [of e sz cam])
    next
      case False
      then have "pipe_frame c1 c2" using "1.IH" [OF p [symmetric] Some _ d] by simp
      moreover have "cam' = c2" using "1.prems" p Some False d by (simp add: eos_drain.simps [of e sz cam])
      ultimately show ?thesis using f pipe_frame_trans by blast
    qed
  qed
qed

lemma answers_canon_after: "answers cam cam' \<Longrightarrow> answers cam (cam'\<lparr>canon := k\<rparr>)"
  by (simp add: answers_def answers_with_def emits_def)

lemma send_file_senddata:
  "vcam_generic_send_file e path cam n ptp = Inr cam' \<Longrightarrow> \<exists>d. cam' = ptp_senddata cam (cmd_code ptp) d"
  by (auto simp: vcam_generic_send_file_def Let_def split: if_split_asm option.split_asm)

lemma eos_events_answers: "vusb_ptp_eos_events e cam ptp = Inr cam' \<Longrightarrow> answers cam cam'"
  by (auto simp: vusb_ptp_eos_events_def handler_defs Let_def intro: answers_canon_after dest!: drain_frame
      split: if_split_asm prod.split_asm)

lemma eos_viewfinder_answers: "ptp_eos_viewfinder_data e cam ptp = Inr cam' \<Longrightarrow> answers cam cam'"
  by (auto simp: ptp_eos_viewfinder_data_def Let_def dest!: send_file_senddata split: if_split_asm)

lemmas eos_serve_defs = eos_getpartialobject_def eos_getpartialobjectex_def eos_getobject_def eos_getthumbex_def
  eos_serve_partial_def eos_serve_object_def

lemma eos_ops_answer:
  "ptp_eos_generic cam ptp = Inr cam' \<Longrightarrow> answers cam cam'"
  "ptp_eos_exec_evproc cam ptp = Inr cam' \<Longrightarrow> answers cam cam'"
  "vusb_ptp_eos_getdevicepropvalue cam ptp = Inr cam' \<Longrightarrow> answers cam cam'"
  "eos_getstorageids cam ptp = Inr cam' \<Longrightarrow> answers cam cam'"
  "eos_getstorageinfo cam ptp = Inr cam' \<Longrightarrow> answers cam cam'"
  "eos_getobjectinfoex cam ptp = Inr cam' \<Longrightarrow> answers cam cam'"
  "eos_getpartialobject e cam ptp = Inr cam' \<Longrightarrow> answers cam cam'"
  "eos_getpartialobjectex e cam ptp = Inr cam' \<Longrightarrow> answers cam cam'"
  "eos_getobject e cam ptp = Inr cam' \<Longrightarrow> answers cam cam'"
  "eos_getthumbex e cam ptp = Inr cam' \<Longrightarrow> answers cam cam'"
  "eos_transfercomplete cam ptp = Inr cam' \<Longrightarrow> answers cam cam'"
  "eos_getdeviceinfoex cam ptp = Inr cam' \<Longrightarrow> answers cam cam'"
  "eos_noop_ok cam ptp = Inr cam' \<Longrightarrow> answers cam cam'"
  by (auto simp: ptp_eos_generic_def ptp_eos_exec_evproc_def vusb_ptp_eos_getdevicepropvalue_def
      eos_getstorageids_def eos_getstorageinfo_def eos_getobjectinfoex_def eos_serve_defs
      eos_transfercomplete_def eos_getdeviceinfoex_def eos_noop_ok_def handler_defs Let_def
      split: if_split_asm option.split_asm)

lemma eos_release_answers:
  assumes "hooks_ok hk"
  shows "ptp_eos_remote_release hk e cam ptp = Inr cam' \<Longrightarrow> answers cam cam'"
    "ptp_eos_remoterelease hk e cam ptp = Inr cam' \<Longrightarrow> answers cam cam'"
  using capture_trigger_frame [OF assms]
  by (auto simp: ptp_eos_remote_release_def ptp_eos_remoterelease_def handler_defs split: if_split_asm)

lemma note_destination_frame [simp]: "pipe_frame a (note_destination c v cam) = pipe_frame a cam"
  by (simp add: note_destination_def)

lemma eos_set_cases:
  assumes "ptp_eos_set_property_data hk e cam ptp d = Inr cam'"
  obtains c v r c1 c2 where "vcam_set_prop hk (note_destination c v cam) (sint c) v = Inr (r, c1)"
    "eos_notify_prop_changed hk e c1 c 0 = Inr c2" "cam' = ptp_response c2 PTP_RC_OK []"
  using assms unfolding ptp_eos_set_property_data_def
  by (force split: if_split_asm)

lemma eos_set_answers:
  assumes "hooks_ok hk" "ptp_eos_set_property_data hk e cam ptp d = Inr cam'"
  shows "answers cam cam'"
  using assms(2)
proof (rule eos_set_cases)
  fix c v r c1 c2
  assume 1: "vcam_set_prop hk (note_destination c v cam) (sint c) v = Inr (r, c1)"
    and 2: "eos_notify_prop_changed hk e c1 c 0 = Inr c2" and "cam' = ptp_response c2 PTP_RC_OK []"
  moreover have "pipe_frame cam c1" using set_prop_data_frame [OF assms(1) 1 [unfolded vcam_set_prop_def]]
    by (simp add: pipe_frame_def note_destination_def split: if_split_asm)
  moreover have "pipe_frame c1 c2" by (rule prop_changed_frame [OF assms(1) 2])
  ultimately show ?thesis using pipe_frame_trans by blast
qed

lemma eos_silent_completes:
  "ptp_eos_set_property cam ptp = Inr cam' \<Longrightarrow> completes cam cam'"
  "ptp_eos_exec_evproc_data cam ptp d = Inr cam' \<Longrightarrow> completes cam cam'"
  by (auto simp: ptp_eos_set_property_def ptp_eos_exec_evproc_data_def completes_def)

section \<open>Every handler meets the contract\<close>

text \<open>The operations that have a data phase, whose first handler may stay silent.\<close>

definition waits_for_data :: "op_write \<Rightarrow> bool" where
  "waits_for_data f \<longleftrightarrow> f \<in> {F_ptp_setdevicepropvalue_write, F_ptp_vusb_write,
     F_sony_setdevicepropvalue_write, F_sony_controldevice_write, F_ptp_eos_set_property}
     \<or> (\<exists>g. f = F_fuji g)"

lemma op_handler_answers:
  assumes "hooks_ok hk" "op_handler hk e f cam ptp = Inr cam'" "\<not> waits_for_data f"
  shows "answers cam cam'"
  using assms
  by (cases f)
     (auto simp: waits_for_data_def dest: std_answers nikon_ops_answer nikon_liveview_answer
       sony_ops_answer sony_getobject_answers eos_events_answers eos_viewfinder_answers eos_ops_answer
       eos_release_answers getdevicepropdesc_answers getdevicepropvalue_answers)

lemma op_handler_completes:
  assumes "hooks_ok hk" "op_handler hk e f cam ptp = Inr cam'"
  shows "completes cam cam'"
proof (cases "waits_for_data f")
  case True
  then show ?thesis using assms
    by (auto simp: waits_for_data_def dest: setdevicepropvalue_completes vusb_completes sony_wait_completes eos_silent_completes
        hooks_ok_dest(4) [OF assms(1)])
next
  case False
  then show ?thesis using op_handler_answers [OF assms] by (simp add: answers_completes)
qed

lemma data_handler_completes:
  assumes "hooks_ok hk" "data_handler hk e g cam ptp d = Inr cam'"
    "g \<noteq> F_fuji_data F_ptp_fuji_sendobjectinfo_write_data"
  shows "completes cam cam'"
  using assms
  by (cases g)
     (auto dest: setdevicepropvalue_data_completes vusb_data_answers nikon_data_completes
       sony_set_answers sony_control_answers eos_set_answers eos_silent_completes hooks_ok_dest(5) [OF assms(1)]
       intro: answers_completes)

end
