(* ===== verification/Invariant.thy ===== *)
theory Invariant
  imports Camera
begin

text \<open>
  What every command keeps of the camera's state: no dangling parent pointer in the object
  list, an event queue in time order, and registries without duplicate codes. One lemma per
  handler, collected for the interpretation of the processor's contract.
\<close>

section \<open>The invariant\<close>

text \<open>
  Every cell has been stat-ed, a cell with the name of one of the directories a capture looks
  for is a directory (without that, a capture would hang its picture below a plain file, which
  can then be deleted), and only the nameless root has a parent pointer that was never set.
\<close>

definition capture_dirs :: "string list" where
  "capture_dirs = [''DCIM'', ''100GPHOT'', ''100NIKON'']"

definition cell_ok :: "ptp_dirent \<Rightarrow> bool" where
  "cell_ok d \<longleftrightarrow> d_stbuf d \<noteq> None \<and> (d_name d \<in> set capture_dirs \<longrightarrow> is_dir d) \<and>
     (d_parent d = PWild \<longrightarrow> d_name d = '''')"

definition cells_ok :: "ptp_dirent list \<Rightarrow> bool" where
  "cells_ok ds \<longleftrightarrow> (\<forall>d\<in>set ds. cell_ok d)"

text \<open>Unless everything was deleted, there is a DCIM directory below the root.\<close>

definition dcim_ok :: "ptp_dirent list \<Rightarrow> bool" where
  "dcim_ok ds \<longleftrightarrow> ds = [] \<or> (\<exists>c\<in>set ds. \<exists>p\<in>set ds. d_name c = ''DCIM'' \<and>
     d_parent c = PAddr (d_addr p) \<and> is_dir p \<and> d_id p = 0)"

text \<open>Codes are unique, and no property has callbacks.\<close>

definition registries_ok :: "vcam \<Rightarrow> bool" where
  "registries_ok cam \<longleftrightarrow> distinct (map op_code (opcodes cam)) \<and> distinct (map pr_code (props cam)) \<and>
     (\<forall>p\<in>set (props cam). pr_getdesc p = None \<and> pr_getvalue p = None \<and> pr_setvalue p = None)"

definition inv :: "vcam \<Rightarrow> bool" where
  "inv cam \<longleftrightarrow> fs_ok cam \<and> cells_ok (first_dirent cam) \<and> dcim_ok (first_dirent cam) \<and>
     queue_ok cam \<and> registries_ok cam"

lemmas inv_defs = inv_def fs_ok_def queue_ok_def registries_ok_def

text \<open>Most updates do not touch what the invariant talks about.\<close>

lemma inv_updates [simp]:
  "inv (ptp_response cam c ps) = inv cam" "inv (ptp_senddata cam c' d) = inv cam"
  "inv (cam\<lparr>outbulk := ob\<rparr>) = inv cam" "inv (cam\<lparr>ptpcmd := p\<rparr>) = inv cam"
  "inv (cam\<lparr>session := s\<rparr>) = inv cam" "inv (cam\<lparr>seqnr := q\<rparr>) = inv cam"
  "inv (cam\<lparr>ticks := t\<rparr>) = inv cam" "inv (cam\<lparr>nikon := nk\<rparr>) = inv cam"
  "inv (cam\<lparr>canon := cn\<rparr>) = inv cam" "inv (cam\<lparr>fuji := fj\<rparr>) = inv cam"
  "inv (cam\<lparr>sony := so\<rparr>) = inv cam" "inv (cam\<lparr>ptp_objectid := i\<rparr>) = inv cam"
  by (simp_all add: inv_defs)

lemma store_desc_plain:
  "(\<forall>p\<in>set (store_desc c d ps). pr_getdesc p = None \<and> pr_getvalue p = None \<and> pr_setvalue p = None)
     = (\<forall>p\<in>set ps. pr_getdesc p = None \<and> pr_getvalue p = None \<and> pr_setvalue p = None)"
  by (induction ps) auto

lemma inv_set_desc [simp]: "inv (set_desc c d cam) = inv cam"
  by (simp only: inv_defs set_desc_def store_desc_plain store_desc_codes vcam.simps vcam.update_convs)
     (simp add: store_desc_plain)

lemma inv_inject_data: "inv cam \<Longrightarrow> inv (ptp_inject_event_data e cam when cde d ch)"
  by (simp add: inv_def queue_ok_inject)
     (simp add: fs_ok_def registries_ok_def ptp_inject_event_data_def gettimeofday_def)

lemma inv_inject [simp]:
  "inv cam \<Longrightarrow> inv (ptp_inject_interrupt_channel e cam when cde n p t ch)"
  "inv cam \<Longrightarrow> inv (ptp_inject_interrupt e cam when cde n p t)"
  by (simp_all add: ptp_inject_interrupt_def ptp_inject_interrupt_channel_def inv_inject_data)

lemma inv_vendor [simp]:
  "inv cam \<Longrightarrow> inv (nikon_notify e cam when cde v)" "inv cam \<Longrightarrow> inv (sony_notify e cam when cde v)"
  "inv (nikon_free_sdram cam) = inv cam" "inv (sony_free_sdram cam) = inv cam"
  "inv (nikon_store_picture d cam) = inv cam" "inv (sony_store_picture d cam) = inv cam"
  "inv (half_release hv cam) = inv cam"
  by (simp_all add: nikon_notify_def sony_notify_def nikon_free_sdram_def sony_free_sdram_def
      nikon_store_picture_def sony_store_picture_def half_release_def Let_def)

text \<open>Popping an event removes one entry of the queue.\<close>

lemma inv_unqueue:
  assumes "inv cam" "first_interrupt cam = a @ x # b"
  shows "inv (cam\<lparr>first_interrupt := a @ b\<rparr>)"
  using assms sorted_remove_middle [of i_time a x b]
  by (simp add: inv_defs)

lemma inv_pop_nikon: "inv cam \<Longrightarrow> ptp_pop_nikon_event e cam = Inr (ev, cam') \<Longrightarrow> inv cam'"
  by (auto simp: ptp_pop_nikon_event_def find_due_entry_def gettimeofday_def
      dest!: split_at_Cons intro!: inv_unqueue split: prod.splits list.splits)

lemma inv_pop_loop: "inv cam \<Longrightarrow> pop_loop e n cam = Inr (evs, cam') \<Longrightarrow> inv cam'"
proof (induction n arbitrary: cam evs)
  case 0
  then show ?case by simp
next
  case (Suc n)
  then obtain ev c1 where c1: "ptp_pop_nikon_event e cam = Inr (ev, c1)" by auto
  with Suc.prems(1) have "inv c1" by (rule inv_pop_nikon)
  then show ?case using Suc c1 by (cases ev) auto
qed

lemma inv_pop_events: "inv cam \<Longrightarrow> nikon_pop_events e cam x = Inr (bs, cam') \<Longrightarrow> inv cam'"
  by (auto simp: nikon_pop_events_def dest: inv_pop_loop)

section \<open>Callbacks\<close>

text \<open>What is assumed of property callbacks: they keep the invariant, too.\<close>

definition hooks_keep :: "hooks \<Rightarrow> bool" where
  "hooks_keep hk \<longleftrightarrow>
     (\<forall>f cam d cam' d'. inv cam \<longrightarrow> getdesc_fn hk f cam d = Inr (cam', d') \<longrightarrow> inv cam') \<and>
     (\<forall>f cam d cam' d' n. inv cam \<longrightarrow> getvalue_fn hk f cam d = Inr (cam', d', n) \<longrightarrow> inv cam') \<and>
     (\<forall>f cam d v cam' d' n. inv cam \<longrightarrow> setvalue_fn hk f cam d v = Inr (cam', d', n) \<longrightarrow> inv cam') \<and>
     (\<forall>f cam ptp cam'. inv cam \<longrightarrow> fuji_fn hk f cam ptp = Inr cam' \<longrightarrow> inv cam') \<and>
     (\<forall>f cam ptp d cam'. inv cam \<longrightarrow> fuji_data_fn hk f cam ptp d = Inr cam' \<longrightarrow> inv cam')"

lemma hooks_keep_dest:
  assumes "hooks_keep hk" "inv cam"
  shows "getdesc_fn hk f cam d = Inr (cam', d') \<Longrightarrow> inv cam'"
    and "getvalue_fn hk f cam d = Inr (cam', d', n) \<Longrightarrow> inv cam'"
    and "setvalue_fn hk f cam d v = Inr (cam', d', n) \<Longrightarrow> inv cam'"
    and "fuji_fn hk g cam ptp = Inr cam' \<Longrightarrow> inv cam'"
    and "fuji_data_fn hk g' cam ptp v = Inr cam' \<Longrightarrow> inv cam'"
  using assms unfolding hooks_keep_def by (blast | metis)+

lemma prop_access_keeps:
  assumes "hooks_keep hk" "inv cam"
  shows "vcam_get_prop_desc hk cam c = Inr (desc, cam') \<Longrightarrow> inv cam'"
    and "vcam_get_prop_data hk cam c = Inr (r, cam') \<Longrightarrow> inv cam'"
    and "vcam_set_prop_data hk cam c v n = Inr (rc, cam') \<Longrightarrow> inv cam'"
  using hooks_keep_dest [OF assms] assms(2)
  by (auto simp: vcam_get_prop_desc_def vcam_get_prop_data_def vcam_set_prop_data_def
      split: option.splits)

section \<open>The object list\<close>

lemma find_dcim_Some:
  "find_dcim cam = Inr (Some c) \<Longrightarrow> c \<in> set (first_dirent cam) \<and> d_name c = ''DCIM''"
  by (auto simp: find_dcim_def is_dcim_def dest!: last_match_in split: if_split_asm)

lemma first_match_in: "first_match P xs = Inr (Some x) \<Longrightarrow> x \<in> set xs \<and> P x = Inr True"
  by (induction xs) (auto split: if_split_asm)

lemma find_gphot_Some:
  "find_gphot cam dcim buf = Inr (Some d) \<Longrightarrow> d \<in> set (first_dirent cam) \<and> d_name d = buf"
  by (auto simp: find_gphot_def dest!: first_match_in split: if_split_asm)

lemma dcim_ok_push: "dcim_ok ds \<Longrightarrow> ds \<noteq> [] \<Longrightarrow> dcim_ok (d # ds)"
  by (auto simp: dcim_ok_def)

lemma inv_push:
  assumes "inv cam" "d_addr d = heap_next cam" "p \<in> set (first_dirent cam)" "is_dir p"
    "d_parent d = PAddr (d_addr p)" "cell_ok d"
  shows "inv (push_dirent d cam)"
proof -
  have "fs_ok (push_dirent d cam)" using assms by (intro fs_ok_push) (auto simp: inv_def)
  moreover have "dcim_ok (d # first_dirent cam)"
    using assms(1,3) by (intro dcim_ok_push) (auto simp: inv_def)
  ultimately show ?thesis using assms(1,6)
    by (auto simp: inv_def cells_ok_def queue_ok_def registries_ok_def push_dirent_def)
qed

lemma name_not_dir:
  "''GPH_'' @ s \<notin> set capture_dirs" "picture_name n \<notin> set capture_dirs"
  by (auto simp: capture_dirs_def picture_name_def)

lemma inv_push_capture:
  assumes "inv cam" "dir \<in> set (first_dirent cam)" "is_dir dir" "nm \<notin> set capture_dirs" "d_stbuf cur \<noteq> None"
  shows "inv (push_capture nm cur dir cam)"
  using assms unfolding push_capture_def Let_def
  by (intro inv_push [where p = dir]) (auto simp: cell_ok_def)

lemma inv_push_dir:
  assumes "inv cam" "c \<in> set (first_dirent cam)" "is_dir c" "push_virtual_dir nm c cam = (dir, cam')"
  shows "inv cam' \<and> dir \<in> set (first_dirent cam') \<and> is_dir dir"
proof -
  have d: "is_dir dir" "cam' = push_dirent dir (cam\<lparr>ptp_objectid := ptp_objectid cam + 1\<rparr>)"
    "d_addr dir = heap_next cam" "d_parent dir = PAddr (d_addr c)"
    using assms(3,4) by (auto simp: push_virtual_dir_def is_dir_def Let_def)
  then have "cell_ok dir" by (auto simp: cell_ok_def is_dir_def)
  then have "inv cam'" unfolding d(2) by (intro inv_push [where p = c]) (use assms d in auto)
  then show ?thesis using d by simp
qed

lemma is_jpg_found:
  assumes "inv cam" "find is_jpg (first_dirent cam) = Some cur"
  shows "cur \<in> set (first_dirent cam) \<and> d_stbuf cur \<noteq> None"
  using find_filter_Some [OF assms(2)] assms(1) by (auto simp: inv_def cells_ok_def cell_ok_def)

lemma dcim_is_dir: "inv cam \<Longrightarrow> find_dcim cam = Inr (Some c) \<Longrightarrow> c \<in> set (first_dirent cam) \<and> is_dir c"
  by (auto dest!: find_dcim_Some simp: inv_def cells_ok_def cell_ok_def capture_dirs_def)

lemma gphot_is_dir:
  "inv cam \<Longrightarrow> find_gphot cam dcim buf = Inr (Some d) \<Longrightarrow> buf \<in> set capture_dirs \<Longrightarrow>
   d \<in> set (first_dirent cam) \<and> is_dir d"
  by (auto dest!: find_gphot_Some simp: inv_def cells_ok_def cell_ok_def)

lemma gphot_98: "gphot_name 98 = ''100GPHOT''"
  by code_simp

lemma make_gphot_cases:
  assumes "make_gphot e cam dcim nm = Inr (dir, c1)"
  shows "\<exists>c c0. dcim = Some c \<and> push_virtual_dir nm c cam = (dir, c0)
    \<and> c1 = ptp_inject_interrupt e c0 80 0x4002 1 (ptp_objectid c0) (seqnr c0)"
proof -
  from assms obtain c where c: "dcim = Some c" by (auto simp: make_gphot_def)
  then show ?thesis using assms
    by (cases "push_virtual_dir nm c cam") (simp add: make_gphot_def)
qed

lemma capture_keeps:
  assumes "inv cam" "d_stbuf cur \<noteq> None" "capture_objects e cam 98 cur = Inr cam'"
  shows "inv cam'"
proof -
  obtain dcim found dir c1 where
    1: "find_dcim cam = Inr dcim" "find_gphot cam dcim ''100GPHOT'' = Inr found" and
    2: "(case found of Some dir \<Rightarrow> Inr (dir, cam) | None \<Rightarrow> make_gphot e cam dcim ''100GPHOT'') = Inr (dir, c1)" and
    3: "cam' = capture_picture e 98 cur dir c1"
    using assms(3) unfolding capture_objects_def gphot_98 by auto
  have "inv c1 \<and> dir \<in> set (first_dirent c1) \<and> is_dir dir"
  proof (cases found)
    case None
    obtain c c0 where c: "dcim = Some c" "push_virtual_dir ''100GPHOT'' c cam = (dir, c0)"
      "c1 = ptp_inject_interrupt e c0 80 0x4002 1 (ptp_objectid c0) (seqnr c0)"
      using 2 None by (auto dest: make_gphot_cases)
    then have "c \<in> set (first_dirent cam)" "is_dir c" using dcim_is_dir assms(1) 1(1) by auto
    from inv_push_dir [OF assms(1) this c(2)] show ?thesis by (simp add: c(3))
  next
    case (Some d)
    then show ?thesis using 1(2) 2 gphot_is_dir [OF assms(1)] assms(1) by (auto simp: capture_dirs_def)
  qed
  then show ?thesis 
    unfolding 3 capture_picture_def Let_def inv_updates by (intro inv_inject inv_push_capture name_not_dir) (use assms(2) in simp_all)
qed

lemma nikon_capture_keeps:
  assumes "inv cam" "nikon_do_capture e cam s = Inr cam'"
  shows "inv cam'"
proof (cases s)
  case True
  then show ?thesis using assms
    by (auto simp: nikon_do_capture_def nikon_capture_sdram_def nikon_notify_sdram_capture_def Let_def)
next
  case False
  show ?thesis
  proof (cases "\<exists>cur c. find is_jpg (first_dirent cam) = Some cur \<and> find_dcim cam = Inr (Some c)")
    case F: False
    then show ?thesis using assms \<open>\<not> s\<close>
      by (auto simp: nikon_do_capture_def nikon_capture_card_def split: option.split_asm)
  next
    case True
    then obtain cur c where c: "find is_jpg (first_dirent cam) = Some cur" "find_dcim cam = Inr (Some c)"
      by blast
    define pick where "pick found = (case found of Some d \<Rightarrow> (d, cam)
      | None \<Rightarrow> push_virtual_dir ''100NIKON'' c cam)" for found
    from c assms(2) \<open>\<not> s\<close> obtain found where found: "find_gphot cam (Some c) ''100NIKON'' = Inr found"
      and p: "cam' = (case pick found of (dir, c1) \<Rightarrow> nikon_capture_picture e cur dir c1)"
      by (auto simp: nikon_do_capture_def nikon_capture_card_def pick_def case_prod_beta)
    obtain dir c1 where d: "pick found = (dir, c1)" by (cases "pick found")
    have 2: "cam' = nikon_capture_picture e cur dir c1" using p d by simp
    note 1 = found d [unfolded pick_def]
    have "inv c1 \<and> dir \<in> set (first_dirent c1) \<and> is_dir dir"
    proof (cases found)
      case None
      then show ?thesis using 1(2) dcim_is_dir [OF assms(1) c(2)] inv_push_dir [OF assms(1)] by auto
    next
      case (Some d)
      then show ?thesis using 1 gphot_is_dir [OF assms(1)] assms(1) by (auto simp: capture_dirs_def)
    qed
    then show ?thesis using is_jpg_found [OF assms(1) c(1)]
      by (simp add: 2 nikon_capture_picture_def Let_def inv_push_capture name_not_dir)
  qed
qed

lemma delete_keeps:
  assumes "inv cam" "ptp_deleteobject_write cam ptp = Inr cam'"
  shows "inv cam'"
proof -
  have empty: "inv (cam\<lparr>first_dirent := []\<rparr>)"
    using assms(1) by (simp add: inv_defs addrs_ok_def parents_ok_def cells_ok_def dcim_ok_def)
  have remove: "inv (cam\<lparr>first_dirent := a @ b\<rparr>)"
    if "first_dirent cam = a @ d # b" "\<not> is_dir d" for a d b
  proof -
    have cells: "cells_ok (a @ d # b)" "dcim_ok (a @ d # b)" using assms(1) that by (auto simp: inv_def)
    then obtain c p where c: "c \<in> set (a @ d # b)" "p \<in> set (a @ d # b)" "d_name c = ''DCIM''"
      "d_parent c = PAddr (d_addr p)" "is_dir p" "d_id p = 0" by (auto simp: dcim_ok_def)
    moreover have "is_dir c" using c(1,3) cells(1) by (auto simp: cells_ok_def cell_ok_def capture_dirs_def)
    ultimately have "c \<in> set (a @ b)" "p \<in> set (a @ b)" using that(2) by auto
    with c have "dcim_ok (a @ b)" unfolding dcim_ok_def by blast
    then show ?thesis using assms(1) fs_ok_remove [OF _ that] that cells(1)
      by (auto simp: inv_def cells_ok_def queue_ok_def registries_ok_def)
  qed
  have "inv cam'" if "delete_one cam h = Inr cam'" for h
    using that by (rule delete_one_cases) (use assms(1) remove in auto)
  then show ?thesis using assms empty
    by (auto simp: ptp_deleteobject_write_def handler_defs split: if_split_asm)
qed

section \<open>Every handler keeps the invariant\<close>

lemma objects_query_keeps: "objects_query cam ptp = Inr (Inl c) \<Longrightarrow> inv c = inv cam"
  by (auto simp: objects_query_def split: if_split_asm option.split_asm)

lemma session_keep:
  assumes "inv cam"
  shows "ptp_nikon_setcontrolmode_write cam ptp = Inr cam' \<Longrightarrow> inv cam'"
    "ptp_opensession_write cam ptp = Inr cam' \<Longrightarrow> inv cam'"
    "ptp_closesession_write cam ptp = Inr cam' \<Longrightarrow> inv cam'"
    "ptp_deviceinfo_write cam ptp = Inr cam' \<Longrightarrow> inv cam'"
    "ptp_getstorageids_write cam ptp = Inr cam' \<Longrightarrow> inv cam'"
    "ptp_getstorageinfo_write cam ptp = Inr cam' \<Longrightarrow> inv cam'"
    "ptp_mtp_obj_props_supported_write cam ptp = Inr cam' \<Longrightarrow> inv cam'"
  using assms
  by (auto simp: ptp_nikon_setcontrolmode_write_def ptp_opensession_write_def ptp_closesession_write_def
      ptp_deviceinfo_write_def ptp_getstorageids_write_def ptp_getstorageinfo_write_def
      ptp_mtp_obj_props_supported_write_def handler_defs Let_def split: if_split_asm)

lemma query_run_keeps:
  assumes "inv cam"
    "bnd (objects_query cam ptp) (\<lambda>q. case q of Inl c \<Rightarrow> Inr c | Inr m \<Rightarrow> f m) = Inr cam'"
    "\<And>m. f m = Inr cam' \<Longrightarrow> inv cam'"
  shows "inv cam'"
proof -
  from assms(2) obtain q where q: "objects_query cam ptp = Inr q"
    "(case q of Inl c \<Rightarrow> Inr c | Inr m \<Rightarrow> f m) = Inr cam'" by auto
  then show ?thesis using assms(1,3) objects_query_keeps by (cases q) auto
qed

lemma getnumobjects_keeps:
  assumes "inv cam" "ptp_getnumobjects_write cam ptp = Inr cam'"
  shows "inv cam'"
proof (cases "session cam = 0")
  case True
  then show ?thesis using assms by (auto simp: ptp_getnumobjects_write_def handler_defs)
next
  case False
  note run = assms(2) [unfolded ptp_getnumobjects_write_def guard_trans_id guard_session if_not_P [OF False]]
  show ?thesis by (rule query_run_keeps [OF assms(1) run]) (use assms(1) in auto)
qed

lemma getobjecthandles_keeps:
  assumes "inv cam" "ptp_getobjecthandles_write cam ptp = Inr cam'"
  shows "inv cam'"
proof (cases "session cam = 0")
  case True
  then show ?thesis using assms by (auto simp: ptp_getobjecthandles_write_def handler_defs)
next
  case False
  note run = assms(2) [unfolded ptp_getobjecthandles_write_def guard_trans_id guard_session if_not_P [OF False]]
  show ?thesis by (rule query_run_keeps [OF assms(1) run]) (use assms(1) in auto)
qed

lemmas query_keep = getnumobjects_keeps getobjecthandles_keeps

lemma object_keep:
  assumes "inv cam"
  shows "ptp_getpartialobject_write hk e cam ptp = Inr cam' \<Longrightarrow> inv cam'"
    "ptp_getobject_write e cam ptp = Inr cam' \<Longrightarrow> inv cam'"
    "ptp_getthumb_write e cam ptp = Inr cam' \<Longrightarrow> inv cam'"
    "ptp_getobjectinfo_write e cam ptp = Inr cam' \<Longrightarrow> inv cam'"
    "ptp_initiatecapture_write e cam ptp = Inr cam' \<Longrightarrow> inv cam'"
  using assms capture_keeps [OF assms] is_jpg_found [OF assms]
  by (auto simp: ptp_getpartialobject_write_def ptp_getobject_write_def ptp_getthumb_write_def
      ptp_getobjectinfo_write_def ptp_initiatecapture_write_def time_now_def handler_defs Let_def
      split: if_split_asm option.split_asm)

lemma getdevicepropdesc_keeps:
  assumes "hooks_keep hk" "inv cam" "ptp_getdevicepropdesc_write hk cam ptp = Inr cam'"
  shows "inv cam'"
  using assms(2,3)
  by (auto simp: ptp_getdevicepropdesc_write_def handler_defs dest!: prop_access_keeps(1) [OF assms(1,2)]
      split: if_split_asm option.split_asm)

lemma getdevicepropvalue_keeps:
  assumes "hooks_keep hk" "inv cam" "ptp_getdevicepropvalue_write hk cam ptp = Inr cam'"
  shows "inv cam'"
  using assms(2,3)
  by (auto simp: ptp_getdevicepropvalue_write_def handler_defs dest!: prop_access_keeps(1) [OF assms(1,2)]
      dest!: prop_access_keeps(2) [OF assms(1), rotated] split: if_split_asm option.split_asm)

lemma setdevicepropvalue_keeps:
  "inv cam \<Longrightarrow> ptp_setdevicepropvalue_write cam ptp = Inr cam' \<Longrightarrow> inv cam'"
  by (auto simp: ptp_setdevicepropvalue_write_def handler_defs split: if_split_asm)

lemma setdevicepropvalue_data_keeps:
  assumes "hooks_keep hk" "inv cam" "ptp_setdevicepropvalue_write_data hk cam ptp d = Inr cam'"
  shows "inv cam'"
  using assms(2,3)
  by (auto simp: ptp_setdevicepropvalue_write_data_def handler_defs
      dest!: prop_access_keeps(1) [OF assms(1,2)]
      dest!: prop_access_keeps(3) [OF assms(1), rotated] split: if_split_asm option.split_asm)

lemma vusb_keep:
  "inv cam \<Longrightarrow> ptp_vusb_write cam ptp = Inr cam' \<Longrightarrow> inv cam'"
  "inv cam \<Longrightarrow> ptp_vusb_write_data cam ptp d = Inr cam' \<Longrightarrow> inv cam'"
  by (auto simp: ptp_vusb_write_def ptp_vusb_write_data_def handler_defs split: if_split_asm)

lemmas prop_keep = getdevicepropdesc_keeps getdevicepropvalue_keeps

lemma nikon_capture_ops_keep:
  assumes "inv cam"
  shows "nikon_capture_op e cam ptp = Inr cam' \<Longrightarrow> inv cam'"
    "nikon_afcapture_sdram_op e cam ptp = Inr cam' \<Longrightarrow> inv cam'"
    "nikon_capture2_op e cam ptp = Inr cam' \<Longrightarrow> inv cam'"
  using assms
  by (auto simp: nikon_op_defs handler_defs dest: nikon_capture_keeps [OF assms] split: if_split_asm)

lemma nikon_plain_keep:
  assumes "inv cam"
  shows "nikon_terminatecapture_op cam ptp = Inr cam' \<Longrightarrow> inv cam'"
    "nikon_afdrive_op cam ptp = Inr cam' \<Longrightarrow> inv cam'"
    "nikon_changecameramode_op cam ptp = Inr cam' \<Longrightarrow> inv cam'"
    "nikon_deviceready_op cam ptp = Inr cam' \<Longrightarrow> inv cam'"
    "nikon_delimagesdram_op cam ptp = Inr cam' \<Longrightarrow> inv cam'"
    "nikon_getvendorpropcodes_op cam ptp = Inr cam' \<Longrightarrow> inv cam'"
    "nikon_getvendorcodes_op cam ptp = Inr cam' \<Longrightarrow> inv cam'"
    "nikon_getliveviewimg_op e cam ptp = Inr cam' \<Longrightarrow> inv cam'"
    "nikon_getpreviewimg_op e cam ptp = Inr cam' \<Longrightarrow> inv cam'"
    "nikon_getobjectsize_op cam ptp = Inr cam' \<Longrightarrow> inv cam'"
    "nikon_getpartialobjectex_op e cam ptp = Inr cam' \<Longrightarrow> inv cam'"
    "nikon_getstorageinfo_op cam ptp = Inr cam' \<Longrightarrow> inv cam'"
    "nikon_sdram_object_info e cam ptp = Inr cam' \<Longrightarrow> inv cam'"
    "send_sdram cam ptp = Inr cam' \<Longrightarrow> inv cam'"
  using assms
  by (auto simp: nikon_op_defs nikon_sdram_object_info_def time_now_def
      send_part_ex_def handler_defs Let_def split: if_split_asm option.split_asm)

lemma nikon_object_keep:
  assumes "inv cam"
  shows "nikon_getobjectinfo e cam ptp = Inr cam' \<Longrightarrow> inv cam'"
    "nikon_getobject e cam ptp = Inr cam' \<Longrightarrow> inv cam'"
    "nikon_getthumb e cam ptp = Inr cam' \<Longrightarrow> inv cam'"
    "nikon_getlargethumb_op e cam ptp = Inr cam' \<Longrightarrow> inv cam'"
    "nikon_deleteobject cam ptp = Inr cam' \<Longrightarrow> inv cam'"
  using assms
  by (auto simp: nikon_getobjectinfo_def nikon_getobject_def nikon_getthumb_def nikon_getlargethumb_op_def
      nikon_deleteobject_def handler_defs
      dest: object_keep [OF assms] delete_keeps [OF assms] nikon_plain_keep(13,14) [OF assms]
      split: if_split_asm)

lemma nikon_event_keep:
  assumes "inv cam"
  shows "nikon_getevent_op e cam ptp = Inr cam' \<Longrightarrow> inv cam'"
    "nikon_geteventex_op e cam ptp = Inr cam' \<Longrightarrow> inv cam'"
  using assms
  by (auto simp: nikon_getevent_op_def nikon_geteventex_op_def handler_defs
      dest: inv_pop_events [OF assms] split: if_split_asm)

lemma set_liveview_keeps:
  "hooks_keep hk \<Longrightarrow> inv cam \<Longrightarrow> set_liveview hk cam s = Inr cam' \<Longrightarrow> inv cam'"
  by (auto simp: set_liveview_def Let_def dest!: prop_access_keeps(3) [rotated 2])

lemma nikon_liveview_keep:
  assumes "hooks_keep hk" "inv cam"
  shows "nikon_start_liveview_op hk cam ptp = Inr cam' \<Longrightarrow> inv cam'"
    "nikon_end_liveview_op hk cam ptp = Inr cam' \<Longrightarrow> inv cam'"
  using assms
  by (auto simp: nikon_start_liveview_op_def nikon_end_liveview_op_def handler_defs
      dest: set_liveview_keeps [OF assms] split: if_split_asm)

lemma nikon_data_keeps:
  assumes "hooks_keep hk" "inv cam" "nikon_setdevicepropvalue_data hk e cam ptp d = Inr cam'"
  shows "inv cam'"
  using assms(3)
  by (auto simp: nikon_setdevicepropvalue_data_def Let_def dest!: prop_access_keeps(1) [OF assms(1,2)]
      setdevicepropvalue_data_keeps [OF assms(1), rotated] split: if_split_asm)

lemma sony_set_keep:
  assumes "hooks_keep hk" "inv cam"
  shows "sony_set_prop_u8 hk cam c v = Inr cam' \<Longrightarrow> inv cam'"
    "sony_set_prop_u16 hk cam c w = Inr cam' \<Longrightarrow> inv cam'"
  using prop_access_keeps(3) [OF assms] by (auto simp: sony_set_prop_u8_def sony_set_prop_u16_def)

lemma sony_capture_keeps:
  assumes "hooks_keep hk" "inv cam" "sony_complete_capture hk e cam = Inr cam'"
  shows "inv cam'"
proof -
  from assms(3) obtain d c1 c2 where
    1: "sony_set_prop_u16 hk (sony_store_picture d (sony_free_sdram cam)) PTP_DPC_SONY_ObjectInMemory 0x8001 = Inr c1"
    and 2: "sony_set_prop_u8 hk c1 PTP_DPC_SONY_FocusFound 1 = Inr c2"
    and 3: "cam' = sony_notify e c2 100 PTP_EC_Sony_ObjectAdded SONY_OBJECT_HANDLE"
    by (auto simp: sony_complete_capture_def Let_def)
  have "inv c1" by (rule sony_set_keep(2) [OF assms(1) _ 1]) (simp add: assms(2))
  then have "inv c2" by (rule sony_set_keep(1) [OF assms(1) _ 2])
  then show ?thesis by (simp add: 3)
qed

lemma full_release_keeps:
  assumes "hooks_keep hk" "inv cam" "full_release hk e v cam = Inr cam'"
  shows "inv cam'"
proof (cases "v = 2")
  case True
  then obtain c1 where c1: "sony_set_prop_u8 hk (cam\<lparr>sony := (sony cam)\<lparr>so_full_pressed := True\<rparr>\<rparr>)
      PTP_DPC_SONY_FocusFound 2 = Inr c1" "inv c1 \<longrightarrow> inv cam'"
    using assms(3) by (auto simp: full_release_def Let_def)
  have "inv c1" by (rule sony_set_keep(1) [OF assms(1) _ c1(1)]) (simp add: assms(2))
  then show ?thesis using c1(2) by simp
next
  case False
  then show ?thesis using assms(2,3) sony_capture_keeps [OF assms(1,2)]
    by (auto simp: full_release_def split: if_split_asm)
qed

lemma sony_data_keep:
  assumes "hooks_keep hk" "inv cam"
  shows "sony_setdevicepropvalue_data hk e cam ptp d = Inr cam' \<Longrightarrow> inv cam'"
    and "sony_controldevice_data hk e cam ptp d = Inr cam' \<Longrightarrow> inv cam'"
proof -
  have *: "inv c2" if "vcam_get_prop_desc hk cam c = Inr (desc, c1)" "vcam_set_prop_data hk c1 c' v n = Inr (r, c2)"
    for c desc c1 c' v n r c2
    using prop_access_keeps(3) [OF assms(1) prop_access_keeps(1) [OF assms that(1)] that(2)] .
  show "sony_setdevicepropvalue_data hk e cam ptp d = Inr cam' \<Longrightarrow> inv cam'"
    using assms(2) prop_access_keeps(1) [OF assms] *
    by (auto simp: sony_setdevicepropvalue_data_def handler_defs Let_def split: if_split_asm option.split_asm)
  show "sony_controldevice_data hk e cam ptp d = Inr cam' \<Longrightarrow> inv cam'"
    using assms(2)
    by (auto simp: sony_controldevice_data_def handler_defs Let_def
        dest!: full_release_keeps [OF assms] prop_access_keeps(1) [OF assms] split: if_split_asm option.split_asm)
qed

lemma sony_plain_keep:
  assumes "inv cam"
  shows "sony_sdioconnect_op cam ptp = Inr cam' \<Longrightarrow> inv cam'"
    "sony_getextdeviceinfo_op cam ptp = Inr cam' \<Longrightarrow> inv cam'"
    "sony_getalldevicepropinfo_op cam ptp = Inr cam' \<Longrightarrow> inv cam'"
    "sony_getstorageids_op cam ptp = Inr cam' \<Longrightarrow> inv cam'"
    "sony_not_supported_op cam ptp = Inr cam' \<Longrightarrow> inv cam'"
    "sony_setdevicepropvalue_write cam ptp = Inr cam' \<Longrightarrow> inv cam'"
    "sony_controldevice_write cam ptp = Inr cam' \<Longrightarrow> inv cam'"
    "sony_virtual_object_info e cam ptp h = Inr cam' \<Longrightarrow> inv cam'"
  using assms
  by (auto simp: sony_sdioconnect_op_def sony_getextdeviceinfo_op_def sony_getalldevicepropinfo_op_def
      sony_getstorageids_op_def sony_not_supported_op_def sony_setdevicepropvalue_write_def
      sony_controldevice_write_def sony_virtual_object_info_def time_now_def handler_defs Let_def
      split: if_split_asm option.split_asm)

lemma sony_object_keep:
  assumes "hooks_keep hk" "inv cam"
  shows "sony_getobjectinfo e cam ptp = Inr cam' \<Longrightarrow> inv cam'"
    "sony_getobject hk e cam ptp = Inr cam' \<Longrightarrow> inv cam'"
  using assms(2)
  by (auto simp: sony_getobjectinfo_def sony_getobject_def handler_defs Let_def
      dest: sony_plain_keep(8) [OF assms(2)] object_keep [OF assms(2)] sony_set_keep [OF assms(1), rotated]
      split: if_split_asm)

lemma inv_eos_notify [simp]:
  "inv cam \<Longrightarrow> inv (eos_notify_info_check e cam m when)"
  "inv cam \<Longrightarrow> inv (eos_notify_olc_button e cam b when)"
  "inv cam \<Longrightarrow> inv (eos_notify_object_added e cam h s p ofc sz nm when)"
  "inv cam \<Longrightarrow> inv (eos_notify_request_transfer e cam h ofc sz nm when)"
  "inv (eos_store_sdram f st cam) = inv cam" "inv (note_destination c v cam) = inv cam"
  by (simp_all add: eos_notify_info_check_def eos_notify_olc_button_def eos_notify_object_added_def
      eos_notify_request_transfer_def eos_store_sdram_def note_destination_def Let_def inv_inject_data)

lemma prop_changed_keeps:
  assumes "hooks_keep hk" "inv cam" "eos_notify_prop_changed hk e cam c when = Inr cam'"
  shows "inv cam'"
  using assms(3)
  by (auto simp: eos_notify_prop_changed_def intro!: inv_inject_data dest: prop_access_keeps(2) [OF assms(1,2)])

lemma capture_summary_keeps:
  assumes "hooks_keep hk" "inv cam" "eos_capture_summary hk e cam = Inr cam'"
  shows "inv cam'"
proof -
  from assms(3) obtain c1 c2 c3 c4 where
    "eos_notify_prop_changed hk e cam 0xD103 0 = Inr c1" "eos_notify_prop_changed hk e c1 0xD102 0 = Inr c2"
    "eos_notify_prop_changed hk e c2 0xD101 0 = Inr c3" "eos_notify_prop_changed hk e c3 0xD11B 100 = Inr c4"
    and cam': "cam' = eos_notify_olc_button e (eos_notify_info_check e c4 0x20001 50) 4 100"
    by (auto simp: eos_capture_summary_def)
  then have "inv c4" using prop_changed_keeps [OF assms(1)] assms(2) by blast
  then show ?thesis by (simp add: cam')
qed

lemma card_object_cases:
  assumes "eos_create_card_object cam src = Inr (Some (obj, dir), cam')"
  obtains c found c1 where "find_dcim cam = Inr (Some c)" "find_gphot cam (Some c) ''100GPHOT'' = Inr found"
    "eos_capture_dir found ''100GPHOT'' c cam = (dir, c1)"
    "cam' = push_capture (''GPH_'' @ fmt_dec 4 99 @ ''.JPG'') src dir c1" "obj = hd (first_dirent cam')"
proof -
  let ?d = "\<lambda>found c. eos_capture_dir found ''100GPHOT'' c cam"
  obtain c found where *: "find_dcim cam = Inr (Some c)" "find_gphot cam (Some c) ''100GPHOT'' = Inr found"
    "dir = fst (?d found c)" "cam' = push_capture (''GPH_'' @ fmt_dec 4 99 @ ''.JPG'') src dir (snd (?d found c))"
    "obj = hd (first_dirent cam')"
    using assms by (auto simp: eos_create_card_object_def gphot_98 Let_def case_prod_beta split: option.split_asm)
  show ?thesis by (rule that [OF *(1,2) _ *(4,5)]) (simp add: *(3))
qed

lemma card_object_keeps:
  assumes "inv cam" "d_stbuf src \<noteq> None" "eos_create_card_object cam src = Inr (Some (obj, dir), cam')"
  shows "inv cam'"
  using assms(3)
proof (rule card_object_cases)
  fix c found c1
  assume f: "find_dcim cam = Inr (Some c)" "find_gphot cam (Some c) ''100GPHOT'' = Inr found"
    and d: "eos_capture_dir found ''100GPHOT'' c cam = (dir, c1)"
    and c: "cam' = push_capture (''GPH_'' @ fmt_dec 4 99 @ ''.JPG'') src dir c1"
  have "inv c1 \<and> dir \<in> set (first_dirent c1) \<and> is_dir dir"
  proof (cases found)
    case None
    then show ?thesis using d dcim_is_dir [OF assms(1) f(1)] inv_push_dir [OF assms(1)]
      by (auto simp: eos_capture_dir_def)
  next
    case (Some q)
    then show ?thesis using f(2) d gphot_is_dir [OF assms(1)] assms(1)
      by (auto simp: eos_capture_dir_def capture_dirs_def)
  qed
  then show ?thesis using assms(2) unfolding c by (intro inv_push_capture name_not_dir) simp_all
qed

lemma card_object_none: "eos_create_card_object cam src = Inr (None, cam') \<Longrightarrow> cam' = cam"
  by (auto simp: eos_create_card_object_def Let_def case_prod_beta split: option.split_asm)

lemma eos_card_keeps:
  assumes "inv cam" "d_stbuf src \<noteq> None" "eos_capture_card e cam src = Inr cam'"
  shows "inv cam'"
proof -
  from assms(3) obtain r c1 where r: "eos_create_card_object cam src = Inr (r, c1)"
    by (auto simp: eos_capture_card_def)
  show ?thesis
  proof (cases r)
    case None
    then show ?thesis using assms(1,3) r card_object_none [of cam src c1] by (simp add: eos_capture_card_def)
  next
    case (Some x)
    then have "inv c1" using card_object_keeps [OF assms(1,2)] r by (cases x) blast
    then show ?thesis using assms(3) r Some by (cases x) (auto simp: eos_capture_card_def)
  qed
qed

lemma eos_sdram_keeps: "inv cam \<Longrightarrow> eos_capture_sdram e cam src = Inr cam' \<Longrightarrow> inv cam'"
  by (auto simp: eos_capture_sdram_def Let_def split: option.split_asm)

lemma capture_trigger_keeps:
  assumes "hooks_keep hk" "inv cam" "eos_capture_trigger hk e cam = Inr cam'"
  shows "inv cam'"
proof (cases "find is_jpg (first_dirent cam)")
  case None
  then show ?thesis using assms(2,3) by (simp add: eos_capture_trigger_def)
next
  case (Some src)
  then obtain c1 where "eos_capture_summary hk e cam = Inr c1"
    "eos_capture_sdram e c1 src = Inr cam' \<or> eos_capture_card e c1 src = Inr cam'"
    using assms(3) by (auto simp: eos_capture_trigger_def split: if_split_asm)
  moreover from this have "inv c1" using capture_summary_keeps [OF assms(1,2)] by blast
  moreover have "d_stbuf src \<noteq> None" using is_jpg_found [OF assms(2) Some] by simp
  ultimately show ?thesis using eos_card_keeps eos_sdram_keeps by blast
qed

lemma eos_release_keep:
  assumes "hooks_keep hk" "inv cam"
  shows "ptp_eos_remote_release hk e cam ptp = Inr cam' \<Longrightarrow> inv cam'"
    "ptp_eos_remoterelease hk e cam ptp = Inr cam' \<Longrightarrow> inv cam'"
  using assms(2) capture_trigger_keeps [OF assms]
  by (auto simp: ptp_eos_remote_release_def ptp_eos_remoterelease_def handler_defs split: if_split_asm)

lemma inv_pop_eos: "inv cam \<Longrightarrow> ptp_pop_eos_event e cam = (ev, cam') \<Longrightarrow> inv cam'"
  by (auto simp: ptp_pop_eos_event_def find_channel_entry_def gettimeofday_def Let_def
      dest!: split_at_Cons intro!: inv_unqueue split: prod.splits list.splits if_split_asm)

lemma inv_drain: "inv cam \<Longrightarrow> eos_drain e sz cam = (bs, cam') \<Longrightarrow> inv cam'"
proof (induction e sz cam arbitrary: bs cam' rule: eos_drain.induct)
  case (1 e sz cam)
  obtain r c1 where p: "ptp_pop_eos_event e cam = (r, c1)" by (cases "ptp_pop_eos_event e cam")
  have k: "inv c1" by (rule inv_pop_eos [OF "1.prems"(1) p])
  show ?case
  proof (cases r)
    case None
    then show ?thesis using "1.prems" p k by (simp add: eos_drain.simps [of e sz cam])
  next
    case (Some ev)
    then show ?thesis using "1.IH" [OF p [symmetric] Some _ k] "1.prems"(2) p k
      by (auto simp: eos_drain.simps [of e sz cam] split: if_split_asm prod.split_asm)
  qed
qed

lemma eos_events_keep:
  assumes "inv cam"
  shows "vusb_ptp_eos_events e cam ptp = Inr cam' \<Longrightarrow> inv cam'"
  using assms inv_drain
  by (auto simp: vusb_ptp_eos_events_def handler_defs Let_def split: if_split_asm prod.split_asm)

lemma eos_plain_keep:
  assumes "inv cam"
  shows "ptp_eos_generic cam ptp = Inr cam' \<Longrightarrow> inv cam'"
    "ptp_eos_exec_evproc cam ptp = Inr cam' \<Longrightarrow> inv cam'"
    "ptp_eos_exec_evproc_data cam ptp d = Inr cam' \<Longrightarrow> inv cam'"
    "ptp_eos_set_property cam ptp = Inr cam' \<Longrightarrow> inv cam'"
    "vusb_ptp_eos_getdevicepropvalue cam ptp = Inr cam' \<Longrightarrow> inv cam'"
    "eos_getstorageids cam ptp = Inr cam' \<Longrightarrow> inv cam'"
    "eos_getstorageinfo cam ptp = Inr cam' \<Longrightarrow> inv cam'"
    "eos_getobjectinfoex cam ptp = Inr cam' \<Longrightarrow> inv cam'"
    "eos_getpartialobject e cam ptp = Inr cam' \<Longrightarrow> inv cam'"
    "eos_getpartialobjectex e cam ptp = Inr cam' \<Longrightarrow> inv cam'"
    "eos_getobject e cam ptp = Inr cam' \<Longrightarrow> inv cam'"
    "eos_getthumbex e cam ptp = Inr cam' \<Longrightarrow> inv cam'"
    "eos_transfercomplete cam ptp = Inr cam' \<Longrightarrow> inv cam'"
    "eos_getdeviceinfoex cam ptp = Inr cam' \<Longrightarrow> inv cam'"
    "eos_noop_ok cam ptp = Inr cam' \<Longrightarrow> inv cam'"
    "ptp_eos_viewfinder_data e cam ptp = Inr cam' \<Longrightarrow> inv cam'"
  using assms
  by (auto simp: ptp_eos_generic_def ptp_eos_exec_evproc_def ptp_eos_exec_evproc_data_def
      ptp_eos_set_property_def vusb_ptp_eos_getdevicepropvalue_def eos_getstorageids_def
      eos_getstorageinfo_def eos_getobjectinfoex_def eos_serve_defs eos_transfercomplete_def
      eos_getdeviceinfoex_def eos_noop_ok_def ptp_eos_viewfinder_data_def handler_defs Let_def
      dest!: send_file_senddata split: if_split_asm option.split_asm)

lemma eos_data_keeps:
  assumes "hooks_keep hk" "inv cam" "ptp_eos_set_property_data hk e cam ptp d = Inr cam'"
  shows "inv cam'"
  using assms(3)
proof (rule eos_set_cases)
  fix c v r c1 c2
  assume 1: "vcam_set_prop hk (note_destination c v cam) (sint c) v = Inr (r, c1)"
    and 2: "eos_notify_prop_changed hk e c1 c 0 = Inr c2" and 3: "cam' = ptp_response c2 PTP_RC_OK []"
  have "inv c1" by (rule prop_access_keeps(3) [OF assms(1) _ 1 [unfolded vcam_set_prop_def]]) (simp add: assms(2))
  then have "inv c2" by (rule prop_changed_keeps [OF assms(1) _ 2])
  then show ?thesis by (simp add: 3)
qed

lemma op_handler_keeps:
  assumes "hooks_keep hk" "inv cam" "op_handler hk e f cam ptp = Inr cam'"
  shows "inv cam'"
  using assms(3)
  by (cases f)
     (auto dest: session_keep [OF assms(2)] query_keep [OF assms(2)] object_keep [OF assms(2)]
       delete_keeps [OF assms(2)] prop_keep [OF assms(1,2)] setdevicepropvalue_keeps [OF assms(2)]
       vusb_keep [OF assms(2)] nikon_capture_ops_keep [OF assms(2)] nikon_plain_keep [OF assms(2)]
       nikon_object_keep [OF assms(2)] nikon_event_keep [OF assms(2)] nikon_liveview_keep [OF assms(1,2)]
       sony_plain_keep [OF assms(2)] sony_object_keep [OF assms(1,2)] eos_release_keep [OF assms(1,2)]
       eos_events_keep [OF assms(2)] eos_plain_keep [OF assms(2)] hooks_keep_dest(4) [OF assms(1,2)])

lemma data_handler_keeps:
  assumes "hooks_keep hk" "inv cam" "data_handler hk e g cam ptp d = Inr cam'"
  shows "inv cam'"
  using assms(3)
  by (cases g)
     (auto dest: setdevicepropvalue_data_keeps [OF assms(1,2)] vusb_keep(2) [OF assms(2)]
       nikon_data_keeps [OF assms(1,2)] sony_data_keep [OF assms(1,2)] eos_data_keeps [OF assms(1,2)]
       eos_plain_keep(3) [OF assms(2)] hooks_keep_dest(5) [OF assms(1,2)])

end
