(* ===== verification/Machine.thy ===== *)
theory Machine
  imports Invariant Vcam_Init
begin

text \<open>
  The camera put together: the command processor running the real handlers of cameras without
  property callbacks (every Canon, Nikon and Sony model), and the proof that a camera that was set up
  from a readable card satisfies the invariant the handlers keep.
\<close>

section \<open>The processor runs the camera's handlers\<close>

text \<open>
  No Canon, Nikon or Sony property has callbacks, so a call through one of these pointers would be a
  call through a null pointer; their tables have no operation of the Fujifilm module either.
\<close>

definition no_callbacks :: hooks where
  "no_callbacks = \<lparr>getdesc_fn = (\<lambda>f cam d. Inl Undef), getvalue_fn = (\<lambda>f cam d. Inl Undef),
     setvalue_fn = (\<lambda>f cam d v. Inl Undef), lookup_fn = vendor_lookup,
     fuji_fn = (\<lambda>f cam p. Inl Undef), fuji_data_fn = (\<lambda>f cam p d. Inl Undef)\<rparr>"

lemma no_callbacks_ok [simp]: "hooks_ok no_callbacks" "hooks_keep no_callbacks"
  by (simp_all add: hooks_ok_def hooks_keep_def no_callbacks_def)

lemma no_callbacks_data: "data_handler no_callbacks e g cam ptp d = Inr cam' \<Longrightarrow> completes cam cam'"
  by (cases "g = F_fuji_data F_ptp_fuji_sendobjectinfo_write_data")
     (auto simp: no_callbacks_def dest: data_handler_completes [OF no_callbacks_ok(1) [unfolded no_callbacks_def]])

interpretation proc: responder "op_handler no_callbacks e" "data_handler no_callbacks e" inv for e
  by unfold_locales
     (auto dest: op_handler_completes [OF no_callbacks_ok(1)] no_callbacks_data
       op_handler_keeps [OF no_callbacks_ok(2)] data_handler_keeps [OF no_callbacks_ok(2)])

text \<open>The host's writes, as the camera serves them.\<close>

definition cam_writes :: "env \<Rightarrow> vcam \<Rightarrow> byte list list \<Rightarrow> vcam res" where
  "cam_writes e = vcam_writes (op_handler no_callbacks e) (data_handler no_callbacks e)"

definition cam_write :: "env \<Rightarrow> vcam \<Rightarrow> byte list \<Rightarrow> vcam res" where
  "cam_write e = vcam_write (op_handler no_callbacks e) (data_handler no_callbacks e)"

section \<open>Scanning a card\<close>

text \<open>
  A card the camera can be started from: \<open>stat\<close> works on every entry, and the entries with the
  names a capture looks for are directories.
\<close>

fun card_ok :: "fsent \<Rightarrow> bool" where
  "card_ok (FsEnt nm st sub) \<longleftrightarrow>
     (case st of None \<Rightarrow> False | Some s \<Rightarrow> nm \<in> set capture_dirs \<longrightarrow> st_isdir s) \<and>
     (case sub of None \<Rightarrow> True | Some ds \<Rightarrow> list_all card_ok ds)"

text \<open>The scan only touches the list and its two counters.\<close>

definition scan_frame :: "vcam \<Rightarrow> vcam \<Rightarrow> bool" where
  "scan_frame a b \<longleftrightarrow> (\<exists>ds n k. b = a\<lparr>first_dirent := ds, heap_next := n, ptp_objectid := k\<rparr>)"

lemma scan_frame_refl [simp]: "scan_frame a a"
  unfolding scan_frame_def
  by (rule exI [of _ "first_dirent a"], rule exI [of _ "heap_next a"], rule exI [of _ "ptp_objectid a"]) simp

lemma scan_frame_trans: "scan_frame a b \<Longrightarrow> scan_frame b c \<Longrightarrow> scan_frame a c"
  unfolding scan_frame_def by force

lemma scan_frame_push [simp]: "scan_frame a (push_dirent d (a\<lparr>ptp_objectid := k\<rparr>))"
  "scan_frame a (push_dirent d (a\<lparr>ptp_objectid := k, first_dirent := []\<rparr>))"
proof -
  have "b = a\<lparr>first_dirent := first_dirent b, heap_next := heap_next b, ptp_objectid := ptp_objectid b\<rparr>
    \<Longrightarrow> scan_frame a b" for b unfolding scan_frame_def by blast
  note frame = this
  show "scan_frame a (push_dirent d (a\<lparr>ptp_objectid := k\<rparr>))"
    "scan_frame a (push_dirent d (a\<lparr>ptp_objectid := k, first_dirent := []\<rparr>))"
    by (rule frame; simp add: push_dirent_def)+
qed

definition scan_ok :: "vcam \<Rightarrow> vcam \<Rightarrow> bool" where
  "scan_ok a b \<longleftrightarrow> scan_frame a b \<and> (cells_ok (first_dirent a) \<longrightarrow> cells_ok (first_dirent b))"

lemma scan_ok_trans: "scan_ok a b \<Longrightarrow> scan_ok b c \<Longrightarrow> scan_ok a c"
  unfolding scan_ok_def using scan_frame_trans by blast

lemma scan_ok_refl [simp]: "scan_ok a a"
  by (simp add: scan_ok_def)

lemma read_directories_scan:
  "list_all card_ok es \<Longrightarrow> parent \<noteq> PWild \<Longrightarrow> scan_ok cam (read_directories path parent es cam)"
proof (induction path parent es cam rule: read_directories.induct)
  case (1 path parent cam)
  then show ?case by simp
next
  case (2 path parent nm st sub es cam)
  show ?case
  proof (cases "nm = ''.'' \<or> nm = ''..''")
    case True
    then show ?thesis using 2 by auto
  next
    case False
    define d where "d = \<lparr>d_addr = heap_next cam, d_id = ptp_objectid cam, d_name = nm,
      d_fsname = path @ CHR ''/'' # nm, d_fsname_literal = False, d_stbuf = st, d_parent = parent\<rparr>"
    define c1 where "c1 = push_dirent d (cam\<lparr>ptp_objectid := ptp_objectid cam + 1\<rparr>)"
    define c2 where "c2 = (case st of None \<Rightarrow> c1 | Some s \<Rightarrow> (if st_isdir s then
       (case sub of None \<Rightarrow> c1 | Some ds \<Rightarrow> read_directories (path @ CHR ''/'' # nm) (PAddr (heap_next cam)) ds c1)
       else c1))"
    from "2.prems"(1) obtain s where s: "st = Some s" "nm \<in> set capture_dirs \<longrightarrow> st_isdir s"
      "\<forall>ds. sub = Some ds \<longrightarrow> list_all card_ok ds" "list_all card_ok es"
      by (auto split: option.split_asm)
    have "scan_ok cam c1" using s "2.prems"(2)
      by (auto simp: scan_ok_def c1_def d_def cells_ok_def cell_ok_def is_dir_def)
    moreover have "scan_ok c1 c2"
    proof (cases "\<exists>ds. st_isdir s \<and> sub = Some ds")
      case True
      then obtain ds where ds: "st_isdir s" "sub = Some ds" by blast
      have "scan_ok c1 (read_directories (path @ CHR ''/'' # nm) (PAddr (heap_next cam)) ds c1)"
        by (rule "2.IH"(3) [of _ "path @ CHR ''/'' # nm" _ s ds])
           (use False s ds in \<open>simp_all add: c1_def d_def\<close>)
      then show ?thesis using s ds by (simp add: c2_def)
    next
      case F: False
      then have "c2 = c1" using s by (auto simp: c2_def split: option.splits)
      then show ?thesis by simp
    qed
    moreover note "2.IH"(4) [OF _ _ refl refl refl, folded d_def, folded c1_def, folded c2_def]
    then have "scan_ok c2 (read_directories path parent es c2)" using False s "2.prems"(2) by blast
    ultimately have "scan_ok cam (read_directories path parent es c2)" by (blast intro: scan_ok_trans)
    then show ?thesis using False unfolding c2_def c1_def d_def by (simp add: Let_def)
  qed
qed


lemma dcim_found:
  assumes "fs_ok cam" "find_dcim cam = Inr (Some c)"
  shows "dcim_ok (first_dirent cam)"
proof -
  let ?ds = "first_dirent cam"
  from assms(2) have c: "c \<in> set ?ds" "is_dcim ?ds c = Inr True"
    unfolding find_dcim_def by (auto dest: last_match_in)
  then have n: "d_name c = ''DCIM''" by (auto simp: is_dcim_def split: if_split_asm)
  from assms(1) c(1) n obtain p where p: "p \<in> set ?ds" "d_parent c = PAddr (d_addr p)" "is_dir p"
    by (auto simp: fs_ok_def parents_ok_def is_child_def)
  then have "parent_of ?ds c = Inr p" using assms(1) by (auto simp: parent_of_def fs_ok_def cell_at_eq)
  then have "d_id p = 0" using c(2) n p(2) by (simp add: is_dcim_def)
  then show ?thesis using c(1) n p unfolding dcim_ok_def by blast
qed

text \<open>
  Reading a card gives a list the invariant allows, whatever the camera's list was: the
  directories a capture needs are there.
\<close>

lemma read_tree_scan:
  assumes card: "card_ok (fs_tree e path)" "fs_stat (fs_tree e path) = Some s" "st_isdir s"
  shows "\<exists>cam'. read_tree e path cam = Inr cam' \<and> scan_frame cam cam' \<and> fs_ok cam'
    \<and> cells_ok (first_dirent cam') \<and> dcim_ok (first_dirent cam')"
proof -
  define r where "r = \<lparr>d_addr = heap_next cam, d_id = 0, d_name = '''', d_fsname = path,
    d_fsname_literal = False, d_stbuf = fs_stat (fs_tree e path), d_parent = PWild\<rparr>"
  define c1 where "c1 = push_dirent r (cam\<lparr>ptp_objectid := 1, first_dirent := []\<rparr>)"
  define c2 where "c2 = (case fs_sub (fs_tree e path) of None \<Rightarrow> c1
    | Some ds \<Rightarrow> read_directories path (PAddr (heap_next cam)) ds c1)"
  define d where "d = \<lparr>d_addr = heap_next c2, d_id = ptp_objectid c2, d_name = ''DCIM'',
    d_fsname = path, d_fsname_literal = False, d_stbuf = fs_stat (fs_tree e path),
    d_parent = PAddr (heap_next cam)\<rparr>"
  define c3 where "c3 = push_dirent d (c2\<lparr>ptp_objectid := ptp_objectid c2 + 1\<rparr>)"
  have c1: "fs_ok c1" "scan_frame cam c1" "r \<in> set (first_dirent c1)" "cells_ok (first_dirent c1)"
    using card unfolding c1_def
    by (auto intro!: fs_ok_single simp: r_def is_child_def cells_ok_def cell_ok_def capture_dirs_def)
  have r: "is_dir r" "d_addr r = heap_next cam" "d_id r = 0" using card by (simp_all add: r_def is_dir_def)
  have sub: "list_all card_ok ds" if "fs_sub (fs_tree e path) = Some ds" for ds
    using card that by (cases "fs_tree e path") auto
  have "grows c1 c2"
    using read_directories_grows [of c1 r] c1 r by (auto simp: c2_def grows_def split: option.splits)
  then have c2: "fs_ok c2" "r \<in> set (first_dirent c2)" using c1 by (auto simp: grows_def)
  have "scan_ok c1 c2"
    using sub by (auto simp: c2_def intro!: read_directories_scan split: option.split)
  then have c2': "scan_frame cam c2" "cells_ok (first_dirent c2)"
    using c1 scan_frame_trans by (auto simp: scan_ok_def)
  from find_dcim_total [OF c2(1)] obtain q where q: "find_dcim c2 = Inr q" by blast
  have run: "read_tree e path cam = Inr (case q of Some _ \<Rightarrow> c2 | None \<Rightarrow> c3)"
    unfolding read_tree_def Let_def r_def [symmetric] c1_def [symmetric] c2_def [symmetric] q bnd_Inr
    by (cases q) (simp_all only: option.case c3_def d_def)
  show ?thesis
  proof (cases q)
    case None
    have "fs_ok c3" unfolding c3_def
      using c2 r by (intro fs_ok_push) (auto simp: d_def intro!: bexI [of _ r])
    moreover have "dcim_ok (first_dirent c3)"
      using c2(2) r unfolding dcim_ok_def c3_def
      by (intro disjI2 bexI [of _ d] bexI [of _ r]) (auto simp: d_def)
    moreover have "cells_ok (first_dirent c3)"
      using c2'(2) card by (auto simp: c3_def cells_ok_def cell_ok_def is_dir_def d_def)
    ultimately show ?thesis using run None scan_frame_trans [OF c2'(1) scan_frame_push(1)]
      by (auto simp: c3_def)
  next
    case (Some c)
    then have "dcim_ok (first_dirent c2)" using dcim_found [OF c2(1)] q by blast
    then show ?thesis using run Some c2 c2' by auto
  qed
qed


section \<open>Start-up\<close>

text \<open>What registration keeps, and what the vendors set.\<close>

lemma inv_scan:
  assumes "scan_frame cam cam'" "fs_ok cam'" "cells_ok (first_dirent cam')" "dcim_ok (first_dirent cam')"
    "queue_ok cam" "registries_ok cam"
  shows "inv cam'"
  using assms by (auto simp: inv_def scan_frame_def queue_ok_def registries_ok_def)

lemma plain_upsert:
  assumes "\<forall>p\<in>set ps. pr_getdesc p = None \<and> pr_getvalue p = None \<and> pr_setvalue p = None"
  shows "\<forall>p\<in>set (upsert pr_code (plain_prop c d) ps).
    pr_getdesc p = None \<and> pr_getvalue p = None \<and> pr_setvalue p = None"
  using assms set_upsert [of pr_code "plain_prop c d" ps] by (auto simp: plain_prop_def)

lemma inv_register_prop [simp]:
  assumes "inv cam"
  shows "inv (vcam_register_prop c d cam)"
proof -
  have r: "distinct (map op_code (opcodes cam))" "distinct (map pr_code (props cam))"
    "\<forall>p\<in>set (props cam). pr_getdesc p = None \<and> pr_getvalue p = None \<and> pr_setvalue p = None"
    using assms by (simp_all add: inv_def registries_ok_def)
  have f: "opcodes (vcam_register_prop c d cam) = opcodes cam"
    "props (vcam_register_prop c d cam) = upsert pr_code (plain_prop c d) (props cam)"
    by (simp_all add: vcam_register_prop_def)
  have "registries_ok (vcam_register_prop c d cam)"
    unfolding registries_ok_def f by (intro conjI r(1) upsert_distinct r(2) plain_upsert r(3))
  then show ?thesis using assms
    by (simp add: inv_def fs_ok_def queue_ok_def vcam_register_prop_def)
qed

lemma inv_register_op [simp]: "inv cam \<Longrightarrow> inv (register_op x cam)"
  unfolding inv_defs register_op_def vcam_register_opcode_def case_prod_beta vcam.simps
  using upsert_distinct [of op_code "opcodes cam"] by simp

lemma inv_fold: "(\<And>x cam. inv cam \<Longrightarrow> inv (f x cam)) \<Longrightarrow> inv cam \<Longrightarrow> inv (fold f xs cam)"
  by (induction xs arbitrary: cam) auto

lemma inv_register_models:
  assumes "inv cam"
  shows "inv (nikon_register_model_d7500 cam)" "inv (nikon_register_model_z6_2 cam)"
    "inv (sony_register_model_a7m4 cam)" "inv (sony_register_model_a7r5 cam)"
  using assms
  by (auto simp: nikon_register_model_d7500_def nikon_register_model_z6_2_def sony_register_model_a7m4_def
      sony_register_model_a7r5_def nikon_add_rows_def sony_add_rows_def nikon_add_prop_def sony_add_prop_def
      sony_add_shutter_prop_def intro!: inv_fold inv_register_prop)

lemma inv_register_ops:
  assumes "inv cam"
  shows "inv (nikon_register_ops b cam)" "inv (sony_register_ops cam)" "inv (ptp_register_standard_opcodes cam)"
  using assms unfolding nikon_register_ops_def sony_register_ops_def ptp_register_standard_opcodes_def Let_def
  by (auto intro!: inv_fold simp del: fold_simps)

lemma inv_standard_props: "inv cam \<Longrightarrow> inv (ptp_register_standard_props cam)"
  by (simp add: ptp_register_standard_props_def Let_def)

text \<open>A directory the camera can be started from, and the ones the arguments name.\<close>

definition readable :: "env \<Rightarrow> string \<Rightarrow> bool" where
  "readable e path \<longleftrightarrow> card_ok (fs_tree e path) \<and>
     (case fs_stat (fs_tree e path) of None \<Rightarrow> False | Some s \<Rightarrow> st_isdir s)"

fun fs_args :: "string list \<Rightarrow> string list" where
  "fs_args (a # x # r) = (if a = ''--fs'' then [x] else []) @ fs_args (x # r)"
| "fs_args _ = []"

lemma readable_scan:
  "readable e path \<Longrightarrow> \<exists>cam'. read_tree e path cam = Inr cam' \<and> scan_frame cam cam' \<and> fs_ok cam'
    \<and> cells_ok (first_dirent cam') \<and> dcim_ok (first_dirent cam')"
  by (auto simp: readable_def split: option.split_asm intro: read_tree_scan)

lemma read_tree_keeps:
  assumes "inv cam" "readable e path" "read_tree e path (cam\<lparr>vcamera_filesystem := path\<rparr>) = Inr cam'"
  shows "inv cam'"
proof -
  from readable_scan [OF assms(2), of "cam\<lparr>vcamera_filesystem := path\<rparr>"] assms(3) show ?thesis
    using assms(1) inv_scan [of "cam\<lparr>vcamera_filesystem := path\<rparr>" cam']
    by (auto simp: inv_def queue_ok_def registries_ok_def)
qed

lemma standard_inv:
  assumes "readable e (pwd e @ ''/bin/card'')"
  shows "\<exists>cam. vcam_init_standard e = Inr cam \<and> inv cam"
proof -
  let ?path = "pwd e @ ''/bin/card''"
  let ?c0 = "zero_vcam\<lparr>vcamera_filesystem := ?path\<rparr>"
  obtain c where c: "read_tree e ?path ?c0 = Inr c" "scan_frame ?c0 c" "fs_ok c"
    "cells_ok (first_dirent c)" "dcim_ok (first_dirent c)"
    using readable_scan [OF assms, of ?c0] by blast
  have "first_interrupt ?c0 = []" by (simp add: zero_vcam_def)
  then have "inv (c\<lparr>props := [], opcodes := [], seqnr := 0, battery := 50, exposurebias := 123\<rparr>)"
    using c by (auto simp: inv_defs scan_frame_def)
  then show ?thesis using c(1)
    by (simp add: vcam_init_standard_def inv_standard_props inv_register_ops)
qed

lemma parse_args_keeps:
  assumes "inv cam" "vcam_parse_args e arg rest cam = Inr (Some (rest', cam'))"
    "\<forall>x\<in>set (fs_args (arg # rest)). readable e x"
  shows "inv cam' \<and> (\<forall>x\<in>set (fs_args rest'). readable e x)"
proof -
  have tail: "set (fs_args xs) \<subseteq> set (fs_args (x # xs))" for x xs by (cases xs) auto
  have inv': "inv (cam\<lparr>custom_ip_addr := a\<rparr>)" "inv (cam\<lparr>sig := n\<rparr>)" for a n
    using assms(1) by (simp_all add: inv_defs)
  show ?thesis using assms tail inv' read_tree_keeps [OF assms(1)]
    by (fastforce simp: vcam_parse_args_def option_value_def split: if_split_asm list.split_asm)
qed

lemma parse_all_keeps:
  "inv cam \<Longrightarrow> parse_all_args e args cam = Inr (ok, cam') \<Longrightarrow> \<forall>x\<in>set (fs_args args). readable e x \<Longrightarrow> inv cam'"
proof (induction e args cam rule: parse_all_args.induct)
  case (1 e cam)
  then show ?case by simp
next
  case (2 e arg rest cam)
  from "2.prems"(2) obtain r where r: "vcam_parse_args e arg rest cam = Inr r"
    "(case r of None \<Rightarrow> Inr (False, cam) | Some (rest', c') \<Rightarrow> parse_all_args e rest' c') = Inr (ok, cam')"
    by auto
  show ?case
  proof (cases r)
    case None
    then show ?thesis using r "2.prems"(1) by simp
  next
    case (Some x)
    then obtain rest' c' where x: "x = (rest', c')" by (cases x)
    with parse_args_keeps [OF "2.prems"(1) _ "2.prems"(3)] r Some
    have "inv c'" "\<forall>x\<in>set (fs_args rest'). readable e x" by auto
    then show ?thesis using "2.IH" [OF r(1) Some x [symmetric]] r(2) Some x by simp
  qed
qed

lemma nikon_find:
  assumes "find (\<lambda>m. np_name (fst m) = name) nikon_models = Some (prof, reg)" "inv cam"
  shows "inv (reg cam)"
  using find_filter_Some [OF assms(1)] inv_register_models [OF assms(2)] by (auto simp: nikon_models_def)

lemma sony_find:
  assumes "find (\<lambda>m. sp_name (fst m) = name) sony_models = Some (prof, reg)" "inv cam"
  shows "inv (reg cam)"
  using find_filter_Some [OF assms(1)] inv_register_models [OF assms(2)] by (auto simp: sony_models_def)

text \<open>The identification of a camera is not part of the invariant.\<close>

lemma inv_identity [simp]:
  "inv (cam\<lparr>manufac := a\<rparr>) = inv cam" "inv (cam\<lparr>vendor_id := b\<rparr>) = inv cam"
  "inv (cam\<lparr>product_id := b\<rparr>) = inv cam" "inv (cam\<lparr>model := a\<rparr>) = inv cam"
  "inv (cam\<lparr>version := a\<rparr>) = inv cam" "inv (cam\<lparr>serial := a\<rparr>) = inv cam"
  "inv (cam\<lparr>extension := a\<rparr>) = inv cam" "inv (cam\<lparr>vendor_extension_id := v\<rparr>) = inv cam"
  "inv (cam\<lparr>vendor_extension_version := b\<rparr>) = inv cam" "inv (cam\<lparr>ev_list := l\<rparr>) = inv cam"
  "inv (cam\<lparr>deviceprops := l\<rparr>) = inv cam" "inv (cam\<lparr>capture_formats := l\<rparr>) = inv cam"
  "inv (cam\<lparr>image_formats := l\<rparr>) = inv cam" "inv (cam\<lparr>lookup_virtual_object := k\<rparr>) = inv cam"
  by (simp_all add: inv_defs)

lemma nikon_init_keeps:
  assumes "inv cam" "nikon_init_cam e name argv cam = Inr (ok, cam')" "\<forall>x\<in>set (fs_args argv). readable e x"
  shows "inv cam'"
proof (cases "find (\<lambda>m. np_name (fst m) = name) nikon_models")
  case None
  then show ?thesis using assms by (simp add: nikon_init_cam_def)
next
  case (Some m)
  then obtain prof reg where m: "m = (prof, reg)" by (cases m)
  let ?c0 = "cam\<lparr>nikon := zero_nikon\<lparr>nk_profile := Some prof, nk_capture_count := 1\<rparr>\<rparr>"
  obtain good c1 where c1: "parse_all_args e argv ?c0 = Inr (good, c1)"
    using assms(2) Some m by (auto simp: nikon_init_cam_def Let_def)
  have i1: "inv c1" by (rule parse_all_keeps [OF _ c1 assms(3)]) (simp add: assms(1))
  have reg: "inv (reg c)" if "inv c" for c using nikon_find [OF Some [unfolded m]] that by blast
  from assms(2) i1 show ?thesis unfolding nikon_init_cam_def Some m option.case prod.case Let_def c1
    by (auto simp: inv_register_ops reg split: if_split_asm)
qed

lemma sony_init_keeps:
  assumes "inv cam" "sony_init_cam e name argv cam = Inr (ok, cam')" "\<forall>x\<in>set (fs_args argv). readable e x"
  shows "inv cam'"
proof (cases "find (\<lambda>m. sp_name (fst m) = name) sony_models")
  case None
  then show ?thesis using assms by (simp add: sony_init_cam_def)
next
  case (Some m)
  then obtain prof reg where m: "m = (prof, reg)" by (cases m)
  let ?c0 = "cam\<lparr>sony := zero_sony\<lparr>so_profile := Some prof, so_capture_count := 1,
                so_focus_found := 1, so_object_in_memory := 0\<rparr>\<rparr>"
  obtain good c1 where c1: "parse_all_args e argv ?c0 = Inr (good, c1)"
    using assms(2) Some m by (auto simp: sony_init_cam_def Let_def)
  have i1: "inv c1" by (rule parse_all_keeps [OF _ c1 assms(3)]) (simp add: assms(1))
  have reg: "inv (reg c)" if "inv c" for c using sony_find [OF Some [unfolded m]] that by blast
  from assms(2) i1 show ?thesis unfolding sony_init_cam_def Some m option.case prod.case Let_def c1
    by (auto simp: inv_register_ops reg split: if_split_asm)
qed

text \<open>The Canon module skips the arguments it does not know.\<close>

lemma fs_args_tail: "set (fs_args ys) \<subseteq> set (fs_args (y # ys))"
  by (cases ys) simp_all

lemma canon_parse_keeps:
  "inv cam \<Longrightarrow> canon_parse_args e args cam = Inr cam' \<Longrightarrow> \<forall>x\<in>set (fs_args args). readable e x \<Longrightarrow> inv cam'"
proof (induction e args cam rule: canon_parse_args.induct)
  case (1 e cam)
  then show ?case by simp
next
  case (2 e arg rest cam)
  from "2.prems"(2) obtain r where r: "vcam_parse_args e arg rest cam = Inr r" by auto
  show ?case
  proof (cases r)
    case None
    then show ?thesis using "2.prems" "2.IH"(1) [OF r None] r fs_args_tail [of rest arg]
      by (auto split: if_split_asm)
  next
    case (Some x)
    then obtain rest' c' where x: "x = (rest', c')" by (cases x)
    with parse_args_keeps [OF "2.prems"(1) _ "2.prems"(3)] r Some
    have "inv c'" "\<forall>x\<in>set (fs_args rest'). readable e x" by auto
    then show ?thesis using "2.IH"(2) [OF r Some x [symmetric]] r "2.prems"(2) Some x by simp
  qed
qed

lemma inv_canon_row: "inv cam \<Longrightarrow> inv (canon_add_row row cam)"
  by (cases row) (simp_all add: canon_add_prop_u32_def canon_add_prop_u16_def canon_add_prop_u8_def
       canon_add_prop_i32_def add_prop_typed_def)

lemma inv_canon_rows [simp]: "inv cam \<Longrightarrow> inv (canon_add_rows rows cam)"
  unfolding canon_add_rows_def by (rule inv_fold) (simp_all add: inv_canon_row)

lemma inv_fold_ops: "inv cam \<Longrightarrow> inv (fold register_op xs cam)"
  by (rule inv_fold) simp_all

lemma inv_canon_register:
  assumes "inv cam"
  shows "inv (canon_register_eos_ops ops cam)" "inv (canon_register_d4_hidden cam)"
    "inv (canon_register_base_eos cam)" "inv (canon_register_object_ops cam)"
    "inv (canon_register_capture_props cam)"
proof -
  show "inv (canon_register_capture_props cam)"
    unfolding canon_register_capture_props_def add_prop_u32_def
    by (rule inv_fold) (use assms in auto)
qed (simp_all only: canon_register_eos_ops_def canon_register_d4_hidden_def canon_register_base_eos_def
    canon_register_object_ops_def inv_fold_ops assms)

lemma ensure_keeps:
  assumes "hooks_keep hk" "inv cam" "ensure_prop hk c v cam = Inr cam'"
  shows "inv cam'"
  using assms(3)
  by (auto simp: ensure_prop_def canon_add_prop_u32_def add_prop_typed_def
      dest!: prop_access_keeps(1) [OF assms(1,2)] split: option.split)

lemma ensure_all_keeps:
  assumes "hooks_keep hk" "inv cam" "canon_ensure_capture_props hk cam = Inr cam'"
  shows "inv cam'"
  using assms(2,3) unfolding canon_ensure_capture_props_def bnd_eq_Inr
  by (elim exE conjE) (blast dest: ensure_keeps [OF assms(1)])

lemma canon_find:
  assumes "find (\<lambda>m. cp_name m = name) canon_models = Some prof" "cp_register_model prof = Some reg" "inv cam"
  shows "inv (reg cam)"
  using find_filter_Some [OF assms(1)] assms(2,3)
  by (auto simp: canon_models_def canon_register_model_5d3_def canon_register_model_90d_def
      canon_register_model_200d_def canon_register_model_r_def canon_register_model_g7x3_def inv_canon_register)

lemma inv_mtp: "inv cam \<Longrightarrow> inv (ptp_register_mtp_opcodes (ptp_register_mtp_props cam))"
  by (simp add: ptp_register_mtp_opcodes_def ptp_register_mtp_props_def Let_def)

lemma canon_init_keeps:
  assumes "hooks_keep hk" "inv cam" "canon_init_cam hk e name argv cam = Inr (ok, cam')"
    "\<forall>x\<in>set (fs_args argv). readable e x"
  shows "inv cam'"
proof -
  obtain c1 where c1: "canon_parse_args e argv (cam\<lparr>canon := canon_fresh,
      lookup_virtual_object := Some F_canon_lookup_virtual_object\<rparr>) = Inr c1"
    using assms(3) by (auto simp: canon_init_cam_def)
  have i1: "inv c1" by (rule canon_parse_keeps [OF _ c1 assms(4)]) (simp add: assms(2))
  show ?thesis
  proof (cases "find (\<lambda>m. cp_name m = name) canon_models")
    case None
    then show ?thesis using assms(3) c1 i1 by (simp add: canon_init_cam_def)
  next
    case (Some prof)
    define c2 where "c2 = ptp_register_mtp_opcodes (ptp_register_mtp_props (c1\<lparr>manufac := ''Canon Inc.'',
      vendor_id := 0x4a9, model := cp_model prof, version := cp_version prof, serial := cp_serial prof,
      product_id := cp_product_id prof\<rparr>))"
    have i2: "inv c2" unfolding c2_def by (rule inv_mtp) (simp add: i1)
    show ?thesis
    proof (cases "cp_register_model prof")
      case None
      then show ?thesis using assms(3) c1 Some i2
        by (auto simp: canon_init_cam_def Let_def inv_canon_register simp flip: c2_def split: if_split_asm)
    next
      case (Some reg)
      have "inv (reg c2)" by (rule canon_find [OF \<open>find _ _ = _\<close> Some i2])
      then show ?thesis using assms(3) c1 Some \<open>find _ _ = _\<close> ensure_all_keeps [OF assms(1)]
        by (auto simp: canon_init_cam_def Let_def simp flip: c2_def)
    qed
  qed
qed

end
