(* ===== verification/Demo.thy ===== *)
theory Demo
  imports Machine
begin

text \<open>
  A small concrete world, to run the model on: a card with one picture in DCIM, a clock that
  moves on by one second per reading, and the camera makes started from it.
\<close>

definition demo_dir :: stat where
  "demo_dir = \<lparr>st_isdir = True, st_size = 0, st_mtime = 0, st_ctime = 0\<rparr>"

definition demo_file :: "nat \<Rightarrow> stat" where
  "demo_file n = \<lparr>st_isdir = False, st_size = n, st_mtime = 1000000000, st_ctime = 1000000000\<rparr>"

definition demo_picture :: "byte list" where
  "demo_picture = [0xff, 0xd8, 1, 2, 3]"

definition demo_card :: fsent where
  "demo_card = FsEnt ''card'' (Some demo_dir) (Some
     [FsEnt ''.'' (Some demo_dir) None,
      FsEnt ''DCIM'' (Some demo_dir) (Some [FsEnt ''A.JPG'' (Some (demo_file 5)) None])])"

definition demo_env :: env where
  "demo_env = \<lparr>clock = (\<lambda>n. Timeval (int n) 0), wall = (\<lambda>n. 1000000000 + int n),
     files = (\<lambda>p. if p = ''/w/bin/card/DCIM/A.JPG'' then Some demo_picture
                  else if p = ''/w/bin/eos_liveview.jpg'' then Some [7, 0xff, 0xd8, 9] else None),
     writable = (\<lambda>p. True), fseek_ok = (\<lambda>p n. True), fs_tree = (\<lambda>p. demo_card), exif_data_new_from_file = (\<lambda>p. None),
     exif_get_short = (\<lambda>d b. 0), exif_get_long = (\<lambda>d b. 0), pwd = ''/w'', local_ip = ''10.0.0.1'',
     junk = (\<lambda>n. 0)\<rparr>"

definition from_inr :: "'a \<Rightarrow> 'a res \<Rightarrow> 'a" where
  "from_inr d r = (case r of Inl _ \<Rightarrow> d | Inr x \<Rightarrow> x)"

definition demo_cam :: vcam where
  "demo_cam = from_inr zero_vcam (vcam_init_standard demo_env)"

definition demo_nikon :: vcam where
  "demo_nikon = snd (from_inr (False, zero_vcam) (nikon_init_cam demo_env ''nikon_z6_2'' [] demo_cam))"

definition demo_sony :: vcam where
  "demo_sony = snd (from_inr (False, zero_vcam) (sony_init_cam demo_env ''sony_a7r5'' [] demo_cam))"

lemma demo_readable: "readable demo_env p"
  by (simp add: demo_env_def readable_def demo_card_def demo_dir_def demo_file_def capture_dirs_def)

lemma demo_start: "vcam_init_standard demo_env = Inr demo_cam"
  using standard_inv [OF demo_readable] by (auto simp: demo_cam_def from_inr_def)

lemma demo_inv: "inv demo_cam"
  using standard_inv [OF demo_readable] by (auto simp: demo_cam_def from_inr_def)


text \<open>What the scan of the demo card finds, and what else the started camera holds.\<close>

definition demo_dirents :: "ptp_dirent list" where
  "demo_dirents =
    [\<lparr>d_addr = 2, d_id = 2, d_name = ''A.JPG'', d_fsname = ''/w/bin/card/DCIM/A.JPG'',
       d_fsname_literal = False, d_stbuf = Some (demo_file 5), d_parent = PAddr 1\<rparr>,
     \<lparr>d_addr = 1, d_id = 1, d_name = ''DCIM'', d_fsname = ''/w/bin/card/DCIM'',
       d_fsname_literal = False, d_stbuf = Some demo_dir, d_parent = PAddr 0\<rparr>,
     \<lparr>d_addr = 0, d_id = 0, d_name = '''', d_fsname = ''/w/bin/card'',
       d_fsname_literal = False, d_stbuf = Some demo_dir, d_parent = PWild\<rparr>]"

lemma demo_tree:
  "read_tree demo_env ''/w/bin/card'' cam
     = Inr (cam\<lparr>ptp_objectid := 3, first_dirent := map (\<lambda>d. d\<lparr>d_addr := heap_next cam + d_addr d,
         d_parent := (case d_parent d of PAddr a \<Rightarrow> PAddr (heap_next cam + a) | q \<Rightarrow> q)\<rparr>) demo_dirents,
         heap_next := heap_next cam + 3\<rparr>)"
  by (simp add: read_tree_def demo_env_def demo_card_def push_dirent_def Let_def demo_dirents_def demo_dir_def
      demo_file_def find_dcim_def is_dcim_def parent_of_def cell_at_def)

lemma demo_pwd: "pwd demo_env = ''/w''"
  by (simp add: demo_env_def)

lemma ops_frame [simp]:
  "props (register_op x cam) = props cam" "first_dirent (register_op x cam) = first_dirent cam"
  "heap_next (register_op x cam) = heap_next cam" "outbulk (register_op x cam) = outbulk cam"
  "inbulk (register_op x cam) = inbulk cam" "seqnr (register_op x cam) = seqnr cam"
  "session (register_op x cam) = session cam" "first_interrupt (register_op x cam) = first_interrupt cam"
  "ptp_objectid (register_op x cam) = ptp_objectid cam" "ticks (register_op x cam) = ticks cam"
  "next_cmd_kills_connection (register_op x cam) = next_cmd_kills_connection cam"
  by (simp_all add: register_op_def vcam_register_opcode_def split: prod.splits)

lemma regs_frame [simp]:
  "opcodes (vcam_register_prop c d cam) = opcodes cam"
  "first_dirent (vcam_register_prop c d cam) = first_dirent cam"
  "heap_next (vcam_register_prop c d cam) = heap_next cam" "outbulk (vcam_register_prop c d cam) = outbulk cam"
  "inbulk (vcam_register_prop c d cam) = inbulk cam" "seqnr (vcam_register_prop c d cam) = seqnr cam"
  "session (vcam_register_prop c d cam) = session cam"
  "first_interrupt (vcam_register_prop c d cam) = first_interrupt cam"
  "ptp_objectid (vcam_register_prop c d cam) = ptp_objectid cam" "ticks (vcam_register_prop c d cam) = ticks cam"
  "next_cmd_kills_connection (vcam_register_prop c d cam) = next_cmd_kills_connection cam"
  by (simp_all add: vcam_register_prop_def)

lemma fold_ops_frame [simp]:
  "props (fold register_op xs cam) = props cam" "first_dirent (fold register_op xs cam) = first_dirent cam"
  "heap_next (fold register_op xs cam) = heap_next cam" "outbulk (fold register_op xs cam) = outbulk cam"
  "inbulk (fold register_op xs cam) = inbulk cam" "seqnr (fold register_op xs cam) = seqnr cam"
  "session (fold register_op xs cam) = session cam" "first_interrupt (fold register_op xs cam) = first_interrupt cam"
  "ptp_objectid (fold register_op xs cam) = ptp_objectid cam" "ticks (fold register_op xs cam) = ticks cam"
  "next_cmd_kills_connection (fold register_op xs cam) = next_cmd_kills_connection cam"
  by (induction xs arbitrary: cam) simp_all

definition demo_base :: vcam where
  "demo_base = zero_vcam\<lparr>vcamera_filesystem := ''/w/bin/card'', ptp_objectid := 3,
     first_dirent := demo_dirents, heap_next := 3, battery := 50, exposurebias := 123\<rparr>"

lemma demo_base_simps [simp]:
  "first_dirent demo_base = demo_dirents" "heap_next demo_base = 3" "outbulk demo_base = []"
  "inbulk demo_base = []" "seqnr demo_base = 0" "session demo_base = 0" "first_interrupt demo_base = []"
  "next_cmd_kills_connection demo_base = False" "ptp_objectid demo_base = 3" "ticks demo_base = 0"
  "props demo_base = []" "opcodes demo_base = []"
  by (simp_all add: demo_base_def zero_vcam_def)

lemma demo_cam_eq: "demo_cam = ptp_register_standard_props (ptp_register_standard_opcodes demo_base)"
  by (simp add: demo_cam_def vcam_init_standard_def from_inr_def Let_def demo_pwd demo_tree demo_base_def
      zero_vcam_def demo_dirents_def)

lemma demo_cam_simps [simp]:
  "first_dirent demo_cam = demo_dirents" "heap_next demo_cam = 3" "outbulk demo_cam = []"
  "inbulk demo_cam = []" "seqnr demo_cam = 0" "session demo_cam = 0" "first_interrupt demo_cam = []"
  "next_cmd_kills_connection demo_cam = False" "ptp_objectid demo_cam = 3" "ticks demo_cam = 0"
  by (simp_all add: demo_cam_eq ptp_register_standard_props_def ptp_register_standard_opcodes_def)

lemma demo_cam_props [simp]:
  "props demo_cam = [plain_prop 0x5001 battery_desc, plain_prop 0x5003 imagesize_desc]"
  by (simp add: demo_cam_eq ptp_register_standard_props_def ptp_register_standard_opcodes_def
      vcam_register_prop_def plain_prop_def battery_desc_def imagesize_desc_def init_prop_def uninit_desc_def)

lemma lookup_key_simps [simp]:
  "lookup_key key c [] = None"
  "lookup_key key c (x # xs) = (if key x = c then Some x else lookup_key key c xs)"
  by (simp_all add: lookup_key_def)

lemma demo_cam_ops [simp]:
  "lookup_key op_code c (opcodes demo_cam) = lookup_key op_code c (rev (map mk_opcode standard_opcodes))"
  by (simp add: demo_cam_eq ptp_register_standard_props_def standard_lookup split: option.split)


section \<open>The two makes\<close>

text \<open>A model table only adds properties.\<close>

definition props_only :: "vcam \<Rightarrow> vcam \<Rightarrow> bool" where
  "props_only a b \<longleftrightarrow> b = a\<lparr>props := props b\<rparr>"

lemma props_only_register: "props_only a cam \<Longrightarrow> props_only a (vcam_register_prop c d cam)"
  unfolding props_only_def vcam_register_prop_def by (cases a, cases cam) simp

lemma props_only_fold: "(\<And>x cam. props_only a cam \<Longrightarrow> props_only a (f x cam)) \<Longrightarrow> props_only a cam
    \<Longrightarrow> props_only a (fold f xs cam)"
  by (induction xs arbitrary: cam) auto

lemma props_only_rows:
  "props_only a cam \<Longrightarrow> props_only a (nikon_add_rows rows cam)"
  "props_only a cam \<Longrightarrow> props_only a (sony_add_rows rows cam)"
  unfolding nikon_add_rows_def sony_add_rows_def
  by (auto intro!: props_only_fold props_only_register simp: nikon_add_prop_def sony_add_prop_def)

lemma props_only_models:
  "props_only a (nikon_register_model_z6_2 a)" "props_only a (nikon_register_model_d7500 a)"
  "props_only a (sony_register_model_a7m4 a)" "props_only a (sony_register_model_a7r5 a)"
  by (auto simp: nikon_register_model_z6_2_def nikon_register_model_d7500_def sony_register_model_a7m4_def
      sony_register_model_a7r5_def sony_add_shutter_prop_def intro!: props_only_rows props_only_register)
     (simp_all add: props_only_def)

lemma props_only_fields:
  assumes "props_only a b"
  shows "opcodes b = opcodes a" "outbulk b = outbulk a" "inbulk b = inbulk a" "seqnr b = seqnr a"
    "session b = session a" "next_cmd_kills_connection b = next_cmd_kills_connection a"
    "first_dirent b = first_dirent a" "ticks b = ticks a" "nikon b = nikon a" "sony b = sony a"
    "first_interrupt b = first_interrupt a"
  by (subst assms [unfolded props_only_def]; simp)+

lemma demo_nikon_init: "nikon_init_cam demo_env ''nikon_z6_2'' [] demo_cam = Inr (True, demo_nikon)"
  by (simp add: demo_nikon_def nikon_init_cam_def nikon_models_def from_inr_def Let_def)

lemma demo_sony_init: "sony_init_cam demo_env ''sony_a7r5'' [] demo_cam = Inr (True, demo_sony)"
  by (simp add: demo_sony_def sony_init_cam_def sony_models_def from_inr_def Let_def sony_load_jpeg_def
      load_jpeg_def demo_env_def skip_to_soi_def)

lemma register_ops_frame [simp]:
  "outbulk (nikon_register_ops b cam) = outbulk cam" "inbulk (nikon_register_ops b cam) = inbulk cam"
  "seqnr (nikon_register_ops b cam) = seqnr cam" "session (nikon_register_ops b cam) = session cam"
  "next_cmd_kills_connection (nikon_register_ops b cam) = next_cmd_kills_connection cam"
  "first_dirent (nikon_register_ops b cam) = first_dirent cam" "ticks (nikon_register_ops b cam) = ticks cam"
  "outbulk (sony_register_ops cam) = outbulk cam" "inbulk (sony_register_ops cam) = inbulk cam"
  "seqnr (sony_register_ops cam) = seqnr cam" "session (sony_register_ops cam) = session cam"
  "next_cmd_kills_connection (sony_register_ops cam) = next_cmd_kills_connection cam"
  "first_dirent (sony_register_ops cam) = first_dirent cam" "ticks (sony_register_ops cam) = ticks cam"
  by (simp_all add: nikon_register_ops_def sony_register_ops_def Let_def)

lemma demo_nikon_simps [simp]:
  "outbulk demo_nikon = []" "inbulk demo_nikon = []" "seqnr demo_nikon = 0" "session demo_nikon = 0"
  "next_cmd_kills_connection demo_nikon = False" "first_dirent demo_nikon = demo_dirents"
  by (simp_all add: demo_nikon_def nikon_init_cam_def nikon_models_def from_inr_def Let_def
      props_only_fields [OF props_only_models(1)])

lemma demo_nikon_ops:
  "lookup_key op_code 0x1002 (opcodes demo_nikon) = Some \<lparr>op_code = 0x1002, op_w = F_ptp_opensession_write, op_wd = None\<rparr>"
  by (simp add: demo_nikon_def nikon_init_cam_def nikon_models_def from_inr_def Let_def
      props_only_fields [OF props_only_models(1)] nikon_register_ops_def ops.lookup_register mk_opcode_def
      standard_opcodes_def)

section \<open>A Canon camera\<close>

definition demo_canon :: vcam where
  "demo_canon = snd (from_inr (False, zero_vcam) (canon_init_cam no_callbacks demo_env ''eos_m'' [] demo_cam))"

lemma canon_register_frame [simp]:
  "outbulk (canon_register_base_eos cam) = outbulk cam" "inbulk (canon_register_base_eos cam) = inbulk cam"
  "seqnr (canon_register_base_eos cam) = seqnr cam" "session (canon_register_base_eos cam) = session cam"
  "next_cmd_kills_connection (canon_register_base_eos cam) = next_cmd_kills_connection cam"
  "first_dirent (canon_register_base_eos cam) = first_dirent cam" "ticks (canon_register_base_eos cam) = ticks cam"
  "props (canon_register_base_eos cam) = props cam" "ptp_objectid (canon_register_base_eos cam) = ptp_objectid cam"
  "first_interrupt (canon_register_base_eos cam) = first_interrupt cam"
  "outbulk (canon_register_object_ops cam) = outbulk cam" "inbulk (canon_register_object_ops cam) = inbulk cam"
  "seqnr (canon_register_object_ops cam) = seqnr cam" "session (canon_register_object_ops cam) = session cam"
  "next_cmd_kills_connection (canon_register_object_ops cam) = next_cmd_kills_connection cam"
  "first_dirent (canon_register_object_ops cam) = first_dirent cam" "ticks (canon_register_object_ops cam) = ticks cam"
  "props (canon_register_object_ops cam) = props cam" "ptp_objectid (canon_register_object_ops cam) = ptp_objectid cam"
  "first_interrupt (canon_register_object_ops cam) = first_interrupt cam"
  by (simp_all only: canon_register_base_eos_def canon_register_object_ops_def fold_ops_frame)

lemma canon_field_ops [simp]:
  "canon (fold register_op xs cam) = canon cam" "canon (vcam_register_prop c d cam) = canon cam"
proof -
  have "canon (register_op x c) = canon c" for x c
    by (simp add: register_op_def vcam_register_opcode_def split: prod.splits)
  then show "canon (fold register_op xs cam) = canon cam" by (induction xs arbitrary: cam) simp_all
  show "canon (vcam_register_prop c d cam) = canon cam" by (simp add: vcam_register_prop_def)
qed

lemma canon_field_register [simp]:
  "canon (canon_register_base_eos cam) = canon cam" "canon (canon_register_object_ops cam) = canon cam"
  "canon (canon_register_capture_props cam) = canon cam"
  by (simp_all only: canon_register_base_eos_def canon_register_object_ops_def canon_field_ops)
     (simp add: canon_register_capture_props_def add_prop_u32_def)

lemma demo_canon_eq:
  "canon_init_cam no_callbacks demo_env ''eos_m'' [] demo_cam = Inr (True, demo_canon)"
  "demo_canon = canon_register_object_ops (canon_register_base_eos (canon_register_capture_props
     (ptp_register_mtp_opcodes (ptp_register_mtp_props (demo_cam\<lparr>canon := canon_fresh,
        lookup_virtual_object := Some F_canon_lookup_virtual_object, manufac := ''Canon Inc.'',
        vendor_id := 0x4a9, model := ''Canon EOS M'', version := ''1.0.0'', serial := ''xxxx'',
        product_id := 0\<rparr>)))))"
  by (simp_all add: demo_canon_def canon_init_cam_def canon_models_def from_inr_def Let_def)

lemma demo_canon_simps [simp]:
  "outbulk demo_canon = []" "inbulk demo_canon = []" "seqnr demo_canon = 0" "session demo_canon = 0"
  "next_cmd_kills_connection demo_canon = False" "first_dirent demo_canon = demo_dirents"
  "first_interrupt demo_canon = []" "ticks demo_canon = 0" "ptp_objectid demo_canon = 3"
  "canon demo_canon = canon_fresh"
  by (simp_all add: demo_canon_eq(2) canon_register_capture_props_def add_prop_u32_def
      ptp_register_mtp_opcodes_def ptp_register_mtp_props_def Let_def)
     (simp add: register_op_def vcam_register_opcode_def)

lemma demo_canon_props:
  "props demo_canon = props (canon_register_capture_props (ptp_register_mtp_props demo_cam))"
  by (simp add: demo_canon_eq(2) canon_register_capture_props_def add_prop_u32_def
      ptp_register_mtp_opcodes_def ptp_register_mtp_props_def vcam_register_prop_def Let_def)

end
