(* ===== verification/Wire_Theorems.thy ===== *)
theory Wire_Theorems
  imports Demo
begin

text \<open>
  Properties of the command processor running the camera's handlers: what the host gets for
  whatever it writes, how packets are cut out of the stream, and the life of a session.
\<close>

section \<open>The reply stream\<close>

lemma started_standard:
  assumes "readable e (pwd e @ ''/bin/card'')" "vcam_init_standard e = Inr c0"
  shows "inv c0"
  using standard_inv [OF assms(1)] assms(2) by auto

text \<open>
  C1. A camera started as a Canon, Nikon or Sony model from readable directories satisfies the
  invariant, and keeps it whatever bytes the host writes in whatever pieces; and what the host
  can read afterwards is what was there before followed, for each write, by nothing, one
  response, or one data container and its response, each a whole container.
\<close>

theorem camera_reply_stream:
  assumes "readable e (pwd e @ ''/bin/card'')" "\<forall>x\<in>set (fs_args argv). readable e x"
    and "vcam_init_standard e = Inr c0"
    and "nikon_init_cam e name argv c0 = Inr (ok, cam) \<or> sony_init_cam e name argv c0 = Inr (ok, cam)
      \<or> canon_init_cam no_callbacks e name argv c0 = Inr (ok, cam)"
    and "cam_writes e cam ds = Inr cam'"
  shows "inv cam' \<and> (\<exists>kss. length kss = length ds \<and> (\<forall>ks\<in>set kss. reply ks)
    \<and> inbulk cam' = inbulk cam @ enc_all (concat kss))"
proof -
  have "inv c0" using assms(1,3) by (rule started_standard)
  then have "inv cam" using assms(2,4) nikon_init_keeps sony_init_keeps canon_init_keeps no_callbacks_ok(2) by blast
  then show ?thesis using proc.writes_keep proc.writes_stream assms(5) unfolding cam_writes_def by blast
qed


lemma cam_write_command:
  assumes "outbulk cam = []" "\<not> next_cmd_kills_connection cam" "length ps < 6" "ok_code c"
  shows "cam_write e cam (enc_cmd c t ps) = call_handler (op_handler no_callbacks e) (data_handler no_callbacks e)
    cam (command c t ps) (concat (map put_32bit_le ps))"
  unfolding cam_write_def by (rule write_command [OF assms])

lemma cam_writes_Cons [simp]:
  "cam_writes e cam [] = Inr cam"
  "cam_writes e cam (d # ds) = bnd (cam_write e cam d) (\<lambda>cam. cam_writes e cam ds)"
  by (simp_all add: cam_writes_def cam_write_def)

lemma container_code [simp]:
  "uint (c_code (command c t ps)) = uint c" "uint (c_code (data_header c t n)) = uint c"
  "c_type (command c t ps) = 1" "c_type (data_header c t n) = 2"
  by (simp_all add: command_def data_header_def uint_up_ucast is_up)

text \<open>A command whose code has an entry is given to that entry's handler.\<close>

lemma cam_write_op:
  assumes "outbulk cam = []" "\<not> next_cmd_kills_connection cam" "length ps < 6" "ok_code c"
    and "lookup_key op_code (uint c) (opcodes cam) = Some h"
  shows "cam_write e cam (enc_cmd c t ps)
    = bnd (op_handler no_callbacks e (op_w h) cam (command c t ps)) (\<lambda>cam. Inr (cam\<lparr>ptpcmd := command c t ps\<rparr>))"
  using assms by (simp add: cam_write_command call_handler_def)

lemma demo_nikon_open:
  "cam_write demo_env demo_nikon (enc_cmd 0x1002 7 [1])
     = Inr ((ptp_response (demo_nikon\<lparr>seqnr := 7, session := 1\<rparr>) PTP_RC_OK [])\<lparr>ptpcmd := command 0x1002 7 [1]\<rparr>)"
  by (simp add: cam_write_op ok_code_def demo_nikon_ops ptp_opensession_write_def handler_defs command_def Let_def)

theorem camera_reply_stream_witness:
  "\<exists>cam'. cam_writes demo_env demo_nikon [enc_cmd 0x1002 7 [1]] = Inr cam' \<and> inv cam' \<and>
     (\<exists>kss. length kss = 1 \<and> (\<forall>ks\<in>set kss. reply ks) \<and> inbulk cam' = enc_all (concat kss))"
proof -
  obtain cam' where w: "cam_writes demo_env demo_nikon [enc_cmd 0x1002 7 [1]] = Inr cam'"
    using demo_nikon_open by simp
  have "nikon_init_cam demo_env ''nikon_z6_2'' [] demo_cam = Inr (True, demo_nikon) \<or>
      sony_init_cam demo_env ''nikon_z6_2'' [] demo_cam = Inr (True, demo_nikon) \<or>
      canon_init_cam no_callbacks demo_env ''nikon_z6_2'' [] demo_cam = Inr (True, demo_nikon)"
    using demo_nikon_init by blast
  from camera_reply_stream [OF demo_readable _ demo_start this w] w show ?thesis by simp
qed

section \<open>One response per command\<close>



text \<open>
  A command or data container with a code the camera has no handler for gets the response
  \<open>OperationNotSupported\<close> with the camera's transaction number, and changes nothing else.
\<close>

theorem unsupported_operation:
  assumes "outbulk cam = []" "\<not> next_cmd_kills_connection cam" "ok_code c"
    and "lookup_key op_code (uint c) (opcodes cam) = None" "length ps < 6" "length d < 2 ^ 32 - 12"
  shows "cam_write e cam (enc_cmd c t ps) = Inr (ptp_response cam PTP_RC_OperationNotSupported [])
    \<and> cam_write e cam (enc_data c t d) = Inr (ptp_response cam PTP_RC_OperationNotSupported [])"
  using assms by (simp add: cam_write_def write_command write_data call_handler_def)

theorem unsupported_operation_witness:
  "cam_write demo_env demo_cam (enc_cmd 0x9999 1 [])
     = Inr (ptp_response demo_cam PTP_RC_OperationNotSupported [])"
  using unsupported_operation [of demo_cam "0x9999" "[]" "[]" demo_env 1]
  by (simp add: ok_code_def standard_opcodes_def mk_opcode_def)

section \<open>Packets in the stream\<close>

text \<open>The three things a header can get wrong, for a packet with \<open>n\<close> bytes behind it.\<close>

definition malformed :: "u16 \<Rightarrow> u16 \<Rightarrow> nat \<Rightarrow> bool" where
  "malformed ty c n \<longleftrightarrow> (ty \<noteq> 1 \<and> ty \<noteq> 2) \<or> \<not> ok_code c \<or> (ty = 1 \<and> (n mod 4 \<noteq> 0 \<or> n div 4 \<ge> 6))"

definition raw_packet :: "u16 \<Rightarrow> u16 \<Rightarrow> u32 \<Rightarrow> byte list \<Rightarrow> byte list" where
  "raw_packet ty c t body = put_32bit_le (word_of_nat (12 + length body)) @ put_16bit_le ty
     @ put_16bit_le c @ put_32bit_le t @ body"

lemma packet_size:
  assumes "n < 2 ^ 32 - 12"
  shows "unat (word_of_nat (12 + n) :: u32) = 12 + n" "\<not> (word_of_nat (12 + n) :: u32) < 12"
    "(word_of_nat (12 + n) - 12 :: u32) = word_of_nat n" "unat (word_of_nat n :: u32) = n"
proof -
  show u: "unat (word_of_nat (12 + n) :: u32) = 12 + n" using assms by (intro unat_len32) simp
  then show "\<not> (word_of_nat (12 + n) :: u32) < 12" by (simp add: word_less_nat_alt del: of_nat_add)
  show "(word_of_nat (12 + n) - 12 :: u32) = word_of_nat n" by simp
  show "unat (word_of_nat n :: u32) = n" using assms by (intro unat_len32) simp
qed

lemma fetch_malformed:
  assumes "malformed ty c (length body)" "length body < 2 ^ 32 - 12"
  shows "fetch_packet (raw_packet ty c t body @ r) = Inr (Reject (word_of_nat (12 + length body)))"
proof -
  note sz = packet_size [OF assms(2)]
  have "((word_of_nat (length body) :: u32) mod 4 \<noteq> 0) = (length body mod 4 \<noteq> 0)"
    "((word_of_nat (length body) :: u32) div 4 \<ge> 6) = (length body div 4 \<ge> 6)"
    using sz(4) by (simp_all add: word_le_nat_alt unat_div unat_eq_0 [symmetric] unat_mod)
  then show ?thesis using assms(1) sz
    by (auto simp: fetch_packet_def raw_packet_def malformed_def ok_code_def simp del: of_nat_add)
qed



text \<open>
  C5. A packet whose length field is zero blocks the connection: it is never taken out of the
  buffer, so every later write, whatever it holds, is answered with one more
  \<open>GeneralError\<close> and only adds to the buffer.
\<close>

theorem zero_length_packet_blocks:
  assumes "take 4 (outbulk cam) = [0, 0, 0, 0]" "\<not> next_cmd_kills_connection cam"
  shows "\<exists>cam'. cam_writes e cam ds = Inr cam' \<and> outbulk cam' = outbulk cam @ concat ds
    \<and> inbulk cam' = inbulk cam @ enc_all (map (\<lambda>i. RespC PTP_RC_GeneralError (seqnr cam + word_of_nat i) []) [0..<length ds])"
  using assms
proof (induction ds arbitrary: cam)
  case Nil
  then show ?case by simp
next
  case (Cons d ds)
  let ?c = "ptp_response (cam\<lparr>outbulk := outbulk cam @ d\<rparr>) PTP_RC_GeneralError []"
  obtain r where r: "outbulk cam = 0 # 0 # 0 # 0 # r"
    using Cons.prems(1) by (metis append_Cons append_Nil append_take_drop_id)
  have "get_32bit_le (outbulk cam @ d) = Inr 0" unfolding r by simp
  then have "fetch_packet (outbulk cam @ d) = Inr (Reject 0)"
    using r by (simp add: fetch_packet_def)
  then have w: "cam_write e cam d = Inr ?c"
    using Cons.prems(2) by (simp add: cam_write_def vcam_write_def vcam_process_output_def reject_def Let_def)
  have nx: "\<not> next_cmd_kills_connection ?c" using Cons.prems(2) by (simp add: ptp_response_def)
  have "take 4 (outbulk ?c) = [0, 0, 0, 0]" using r by simp
  from Cons.IH [OF this nx] obtain cam' where "cam_writes e ?c ds = Inr cam'"
    "outbulk cam' = outbulk cam @ concat (d # ds)"
    "inbulk cam' = inbulk ?c @ enc_all (map (\<lambda>i. RespC PTP_RC_GeneralError (seqnr ?c + word_of_nat i) []) [0..<length ds])"
    by auto
  moreover have "map (\<lambda>i. RespC PTP_RC_GeneralError (seqnr cam + word_of_nat i) []) [0..<length (d # ds)]
    = RespC PTP_RC_GeneralError (seqnr cam) [] #
      map (\<lambda>i. RespC PTP_RC_GeneralError (seqnr cam + 1 + word_of_nat i) []) [0..<length ds]"
    by (simp add: upt_conv_Cons map_Suc_upt [symmetric] add.assoc del: upt_Suc)
  ultimately show ?case using w by simp
qed

theorem zero_length_packet_blocks_witness:
  "\<exists>cam'. cam_writes demo_env (demo_cam\<lparr>outbulk := [0, 0, 0, 0]\<rparr>) [enc_cmd 0x1001 1 [], []] = Inr cam'
     \<and> outbulk cam' = [0, 0, 0, 0] @ enc_cmd 0x1001 1 []
     \<and> inbulk cam' = enc_all [RespC PTP_RC_GeneralError 0 [], RespC PTP_RC_GeneralError 1 []]"
  using zero_length_packet_blocks [of "demo_cam\<lparr>outbulk := [0, 0, 0, 0]\<rparr>" demo_env "[enc_cmd 0x1001 1 [], []]"]
  by (simp add: upt_conv_Cons)

text \<open>A packet that is not complete yet stays in the buffer.\<close>

lemma fetch_partial:
  assumes "get_32bit_le w = Inr sz" "unat sz = length w" "k < length w"
  shows "fetch_packet (take k w) = Inr Wait"
proof (cases "k < 4")
  case True
  then have "length (take k w) < 4" by simp
  then show ?thesis by (simp only: fetch_packet_def if_True)
next
  case False
  then have k: "k = Suc (Suc (Suc (Suc (k - 4))))" by simp
  obtain a b c d r where w: "w = a # b # c # d # r" using assms(1)
    by (cases w rule: get_32bit_le.cases) auto
  have "get_32bit_le (take k w) = Inr sz" using assms(1) unfolding w by (subst k) simp
  then show ?thesis using assms False by (simp add: fetch_packet_def)
qed

text \<open>
  C6. How the host cuts a packet into writes does not matter: as long as the last piece is not
  empty, writing the pieces one by one does what writing the packet in one piece does.
\<close>

theorem split_writes_equal_one_write:
  assumes "outbulk cam = []" "\<not> next_cmd_kills_connection cam"
    and "concat (ds @ [d]) = raw_packet ty c t body" "length body < 2 ^ 32 - 12" "d \<noteq> []"
  shows "cam_writes e cam (ds @ [d]) = cam_write e cam (raw_packet ty c t body)"
proof -
  let ?w = "raw_packet ty c t body"
  have sz: "get_32bit_le ?w = Inr (word_of_nat (12 + length body))" by (simp add: raw_packet_def)
  have len: "unat (word_of_nat (12 + length body) :: u32) = length ?w"
    using packet_size [OF assms(4)] by (simp add: raw_packet_def del: of_nat_add)
  have "cam_writes e (cam\<lparr>outbulk := take n ?w\<rparr>) (ds @ [d]) = cam_write e cam ?w"
    if "take n ?w @ concat (ds @ [d]) = ?w" for n using that
  proof (induction ds arbitrary: n)
    case Nil
    then show ?case by (simp add: cam_write_def vcam_write_def assms(1)) 
  next
    case (Cons x xs)
    let ?m = "length (take n ?w @ x)"
    have m: "take ?m ?w = take n ?w @ x"
      using Cons.prems by (metis append_assoc append_eq_conv_conj concat.simps(2) append_Cons)
    have "length (take n ?w @ x) + length (concat (xs @ [d])) = length ?w"
      using arg_cong [OF Cons.prems, of length] by simp
    moreover have "length (concat (xs @ [d])) = length (concat xs) + length d" by simp
    moreover have "0 < length d" using assms(5) by simp
    ultimately have "?m < length ?w" by linarith
    from fetch_partial [OF sz len this] have "fetch_packet (take n ?w @ x) = Inr Wait" using m by simp
    then have w: "cam_write e (cam\<lparr>outbulk := take n ?w\<rparr>) x = Inr (cam\<lparr>outbulk := take ?m ?w\<rparr>)"
      unfolding m using assms(2) by (simp add: cam_write_def vcam_write_def vcam_process_output_def)
    have "take ?m ?w @ concat (xs @ [d]) = ?w" using Cons.prems m by simp
    from Cons.IH [OF this] show ?case using w by simp
  qed
  from this [of 0] show ?thesis using assms(1,3) by (simp add: outbulk_self)
qed

theorem split_writes_equal_one_write_witness:
  "cam_writes demo_env demo_cam [[16, 0, 0], [0, 1, 0, 2, 16], [7, 0, 0, 0, 1, 0, 0, 0]]
     = cam_write demo_env demo_cam (raw_packet 1 0x1002 7 [1, 0, 0, 0])"
  using split_writes_equal_one_write [of demo_cam "[[16, 0, 0], [0, 1, 0, 2, 16]]" "[7, 0, 0, 0, 1, 0, 0, 0]"
      1 "0x1002" 7 "[1, 0, 0, 0]" demo_env]
  by (simp add: raw_packet_def put_32bit_le_def put_16bit_le_def)





section \<open>Sessions\<close>

lemma response_connection [simp]:
  "next_cmd_kills_connection (ptp_response cam c ps) = next_cmd_kills_connection cam"
  "next_cmd_kills_connection (ptp_senddata cam c' d) = next_cmd_kills_connection cam"
  by (simp_all add: ptp_response_def ptp_senddata_def Let_def)

text \<open>
  C9. The life of a session: opening sets the transaction counter to the host's number and the
  session to the host's identifier, opening again is refused but still sets the counter, closing
  ends the session and resets the counter to 1, and closing again is refused (with the code that
  says the opposite, \<open>SessionAlreadyOpened\<close>). Closing answers with the camera's own number.
\<close>

theorem session_life:
  assumes "outbulk cam = []" "\<not> next_cmd_kills_connection cam" "session cam = 0" "s \<noteq> 0" "s' \<noteq> 0"
    and "lookup_key op_code 0x1002 (opcodes cam) = Some \<lparr>op_code = 0x1002, op_w = F_ptp_opensession_write, op_wd = None\<rparr>"
    and "lookup_key op_code 0x1003 (opcodes cam) = Some \<lparr>op_code = 0x1003, op_w = F_ptp_closesession_write, op_wd = None\<rparr>"
  shows "\<exists>cam'. cam_writes e cam [enc_cmd 0x1002 t [s], enc_cmd 0x1002 t' [s'], enc_cmd 0x1003 u [], enc_cmd 0x1003 v []]
      = Inr cam' \<and> session cam' = 0 \<and> seqnr cam' = 2 \<and> outbulk cam' = [] \<and>
      inbulk cam' = inbulk cam @ enc_all
        [RespC PTP_RC_OK t [], RespC PTP_RC_SessionAlreadyOpened t' [],
         RespC PTP_RC_OK (t' + 1) [], RespC PTP_RC_SessionAlreadyOpened 1 []]"
  using assms
  by (simp add: cam_write_op ok_code_def ptp_opensession_write_def ptp_closesession_write_def handler_defs
      command_def Let_def)

theorem session_life_witness:
  "\<exists>cam'. cam_writes demo_env demo_cam [enc_cmd 0x1002 5 [1], enc_cmd 0x1002 9 [2], enc_cmd 0x1003 0 [], enc_cmd 0x1003 0 []]
      = Inr cam' \<and> inbulk cam' = enc_all [RespC PTP_RC_OK 5 [], RespC PTP_RC_SessionAlreadyOpened 9 [],
         RespC PTP_RC_OK 10 [], RespC PTP_RC_SessionAlreadyOpened 1 []]"
  using session_life [of demo_cam 1 2 demo_env 5 9 0 0]
  by (auto simp: standard_opcodes_def mk_opcode_def)

text \<open>
  The operations that work without a session: four standard ones, and the eight handlers of
  canon.c, remote capture and event polling among them, which never ask for one.
\<close>

definition sessionless :: "op_write \<Rightarrow> bool" where
  "sessionless f \<longleftrightarrow> f \<in> {F_ptp_opensession_write, F_ptp_closesession_write, F_ptp_deviceinfo_write,
     F_ptp_nikon_setcontrolmode_write, F_ptp_eos_viewfinder_data, F_ptp_eos_generic, F_ptp_eos_exec_evproc,
     F_ptp_eos_set_property, F_ptp_eos_remote_release, F_ptp_eos_remoterelease, F_vusb_ptp_eos_events,
     F_vusb_ptp_eos_getdevicepropvalue}"



end
