(* ===== verification/Pack.thy ===== *)
theory Pack
  imports Ops_Objects
begin

text \<open>
  The unpacker of object information, src/src/pack.c, and the facts about the text fields of the dataset it reads.
\<close>

section \<open>The unpacker\<close>

text \<open>\<open>ptp_read_string(d, field, sizeof(field))\<close>: storing behind the array is undefined.\<close>

definition read_field :: "nat \<Rightarrow> byte list \<Rightarrow> (string \<times> byte list) res" where
  "read_field n d = bnd (ptp_read_string d n) (\<lambda>(bs, r).
     if length bs \<le> n then Inr (map chr_of (takeWhile (\<lambda>b. b \<noteq> 0) bs), r) else Inl Undef)"

definition vcam_unpack_object_info :: "byte list \<Rightarrow> PtpObjectInfo res" where
  "vcam_unpack_object_info d =
     bnd (ptp_read_u32 d) (\<lambda>(sid, d). bnd (ptp_read_u16 d) (\<lambda>(fmt, d). bnd (ptp_read_u16 d) (\<lambda>(prot, d).
     bnd (ptp_read_u32 d) (\<lambda>(csz, d). bnd (ptp_read_u16 d) (\<lambda>(tfmt, d). bnd (ptp_read_u32 d) (\<lambda>(tcsz, d).
     bnd (ptp_read_u32 d) (\<lambda>(tw, d). bnd (ptp_read_u32 d) (\<lambda>(th, d). bnd (ptp_read_u32 d) (\<lambda>(iw, d).
     bnd (ptp_read_u32 d) (\<lambda>(ih, d). bnd (ptp_read_u32 d) (\<lambda>(bd, d). bnd (ptp_read_u32 d) (\<lambda>(par, d).
     bnd (ptp_read_u16 d) (\<lambda>(atype, d). bnd (ptp_read_u32 d) (\<lambda>(adesc, d). bnd (ptp_read_u32 d) (\<lambda>(sq, d).
     bnd (read_field 64 d) (\<lambda>(fname, d). bnd (read_field 32 d) (\<lambda>(cdate, d). bnd (read_field 32 d) (\<lambda>(mdate, d).
     bnd (read_field 64 d) (\<lambda>(keyw, d).
       Inr \<lparr>storage_id = sid, obj_format = fmt, protection = prot, oi_compressed_size = csz,
            thumb_format = tfmt, thumb_compressed_size = tcsz, thumb_width = tw, thumb_height = th,
            img_width = iw, img_height = ih, img_bit_depth = bd, parent_obj = par, assoc_type = atype,
            assoc_desc = adesc, sequence_num = sq, filename = fname, date_created = cdate,
            date_modified = mdate, oi_keywords = keyw\<rparr>)))))))))))))))))))"

section \<open>Text fields\<close>

lemma take_until_nul: "\<forall>c\<in>set s. 32 \<le> unat (byte_of c) \<Longrightarrow> takeWhile (\<lambda>b. b \<noteq> 0) (map byte_of s @ 0 # r) = map byte_of s"
  by (induction s) auto

lemma map_chr_byte [simp]: "map chr_of (map byte_of s) = s"
  by (induction s) simp_all

lemma map_chr_comp [simp]: "map (chr_of \<circ> byte_of) s = s"
  by (induction s) simp_all

text \<open>A printable string two characters shorter than the field is read back from the wire.\<close>

lemma read_field_wire:
  assumes "printable s" "length s + 2 \<le> n" "length s \<le> 254"
  shows "read_field n (wire_string s @ r) = Inr (s, r)"
  using assms ptp_read_wire_string [of s n r] take_until_nul [of s "[0]"]
  by (simp add: read_field_def printable_def)

lemma byte_digit: "n < 10 \<Longrightarrow> 32 \<le> unat (byte_of (char_of (48 + n :: nat))) \<and> unat (byte_of (char_of (48 + n))) < 128"
proof -
  assume n: "n < 10"
  have "unat (byte_of (char_of (48 + n :: nat))) = (48 + n) mod 256"
    unfolding byte_of_def by (simp only: of_char_of unsigned_of_nat take_bit_eq_mod) simp
  with n show ?thesis by simp
qed

lemma printable_simps [simp]:
  "printable []" "printable (a @ b) = (printable a \<and> printable b)"
  "printable (c # s) = ((32 \<le> unat (byte_of c) \<and> unat (byte_of c) < 128) \<and> printable s)"
  by (auto simp: printable_def)

lemma printable_dec [simp]: "printable (dec_digits n)"
proof (induction n rule: dec_digits.induct)
  case (1 n)
  show ?case
  proof (cases "n < 10")
    case True
    then show ?thesis by (subst dec_digits.simps) (simp add: byte_digit)
  next
    case False
    then have "printable (dec_digits (n div 10))" by (rule 1)
    moreover have "printable [char_of (48 + n mod 10)]"
      using byte_digit [of "n mod 10"] by simp
    ultimately show ?thesis using False by (subst dec_digits.simps) simp
  qed
qed

lemma printable_replicate [simp]: "printable (replicate k (CHR ''0''))"
  by (simp add: printable_def byte_of_def)

lemma printable_fmt [simp]: "printable (fmt_int w i)"
  by (simp add: fmt_int_def fmt_dec_def Let_def) (simp add: byte_of_def)

lemma printable_date: "xdate t = Inr s \<Longrightarrow> printable s"
  by (auto simp: xdate_def Let_def simp del: gmtime_time) (simp_all add: byte_of_def)

end
