(* ===== verification/Event_Pool.thy ===== *)
theory Event_Pool
  imports Events "HOL-Library.Multiset"
begin

text \<open>
  What the consumers of the event queue rely on, stated once as the interface of a pool of timed
  entries: putting one in, and taking the earliest one that fits. The list operations of the
  code provide it.
\<close>

section \<open>The interface\<close>

locale event_pool =
  fixes put :: "'i \<Rightarrow> 'q \<Rightarrow> 'q" and take1 :: "('i \<Rightarrow> bool) \<Rightarrow> 'q \<Rightarrow> ('i \<times> 'q) option"
    and contents :: "'q \<Rightarrow> 'i multiset" and at :: "'i \<Rightarrow> 't :: linorder" and invar :: "'q \<Rightarrow> bool"
  assumes put_contents: "contents (put i q) = add_mset i (contents q)"
    and put_invar: "invar q \<Longrightarrow> invar (put i q)"
    and take1_None: "take1 P q = None \<longleftrightarrow> (\<forall>i\<in>#contents q. \<not> P i)"
    and take1_Some: "take1 P q = Some (i, r) \<Longrightarrow> P i \<and> contents q = add_mset i (contents r)"
    and take1_invar: "take1 P q = Some (i, r) \<Longrightarrow> invar q \<Longrightarrow> invar r"
    and take1_first: "take1 P q = Some (i, r) \<Longrightarrow> invar q \<Longrightarrow> j \<in># contents q \<Longrightarrow> P j \<Longrightarrow> at i \<le> at j"
begin

lemma put_all_contents: "contents (fold put is q) = mset is + contents q"
  by (induction "is" arbitrary: q) (simp_all add: put_contents)

lemma put_all_invar: "invar q \<Longrightarrow> invar (fold put is q)"
  by (induction "is" arbitrary: q) (simp_all add: put_invar)

lemma take1_size: "take1 P q = Some (i, r) \<Longrightarrow> size (contents q) = Suc (size (contents r))"
  using take1_Some by fastforce

lemma take1_other:
  assumes "take1 P q = Some (i, r)" shows "filter_mset (\<lambda>j. \<not> P j) (contents r) = filter_mset (\<lambda>j. \<not> P j) (contents q)"
  using take1_Some [OF assms] by auto

end

definition take_first :: "('a \<Rightarrow> bool) \<Rightarrow> 'a list \<Rightarrow> ('a \<times> 'a list) option" where
  "take_first P q = (case split_at P q of (_, []) \<Rightarrow> None | (a, i # b) \<Rightarrow> Some (i, a @ b))"

lemma take_first_None: "take_first P q = None \<longleftrightarrow> (\<forall>i\<in>set q. \<not> P i)"
proof (cases "split_at P q")
  case (Pair a b)
  then show ?thesis using split_at_Nil [of P q a] split_at_Cons [of P q a "hd b" "tl b"]
    by (cases b) (auto simp: take_first_def)
qed

lemma take_first_Some:
  assumes "take_first P q = Some (i, r)"
  obtains a b where "q = a @ i # b" "r = a @ b" "P i" "\<forall>j\<in>set a. \<not> P j"
  using assms split_at_Cons [of P q] by (auto simp: take_first_def split: prod.splits list.splits)

interpretation pool: event_pool insert_interrupt take_first mset i_time "\<lambda>q. sorted (map i_time q)"
proof
  show "mset (insert_interrupt i q) = add_mset i (mset q)" for i q by (induction q) auto
  show "sorted (map i_time q) \<Longrightarrow> sorted (map i_time (insert_interrupt i q))" for i q
    by (simp add: insert_interrupt_insort sorted_insort_key)
  show "take_first P q = None \<longleftrightarrow> (\<forall>i\<in>#mset q. \<not> P i)" for P :: "ptp_interrupt \<Rightarrow> bool" and q
    by (simp add: take_first_None)
next
  fix P :: "ptp_interrupt \<Rightarrow> bool" and q i r
  assume t: "take_first P q = Some (i, r)"
  then show "P i \<and> mset q = add_mset i (mset r)" by (rule take_first_Some) simp
  show "sorted (map i_time q) \<Longrightarrow> sorted (map i_time r)"
    using t by (rule take_first_Some) (auto simp: sorted_append)
  show "i_time i \<le> i_time j" if "sorted (map i_time q)" "j \<in># mset q" "P j" for j
    using t that by (elim take_first_Some) (auto simp: sorted_append)
qed

section \<open>The consumers take from the pool\<close>

text \<open>What the interrupt endpoint serves: everything but the EOS channel, which is polled.\<close>

definition visible :: "ptp_interrupt \<Rightarrow> bool" where
  "visible i \<longleftrightarrow> i_channel i \<noteq> PTP_CH_EOS"

definition steady :: "env \<Rightarrow> bool" where
  "steady e \<longleftrightarrow> mono (clock e)"

lemma trigger_time_later: "now \<le> trigger_time now when"
  by (auto simp: trigger_time_def less_eq_timeval_def Let_def neq0_conv)

lemma steadyD: "steady e \<Longrightarrow> m \<le> n \<Longrightarrow> clock e m \<le> clock e n"
  by (simp add: steady_def monoD)

lemma find_due_take:
  "find_due_entry e cam c k = (let now = clock e (ticks cam); P = (\<lambda>i. ((i_channel i = PTP_CH_CLASSIC \<and> c)
      \<or> (i_channel i = PTP_CH_NIKON \<and> k)) \<and> i_time i \<le> now)
   in (split_at P (first_interrupt cam), cam\<lparr>ticks := ticks cam + 1\<rparr>))"
  by (simp add: find_due_entry_def gettimeofday_def due_iff Let_def)

lemma readint_take:
  assumes "steady e"
  shows "vcam_readint e cam n timeout =
    (case take_first (\<lambda>i. visible i \<and> i_time i \<le> clock e (ticks cam)) (first_interrupt cam) of
       None \<Rightarrow> (None, cam\<lparr>ticks := ticks cam + 1\<rparr>)
     | Some (i, r) \<Rightarrow> (Some (take n (i_data i)), cam\<lparr>ticks := ticks cam + 2, first_interrupt := r\<rparr>))"
proof -
  have vis: "visible i \<longleftrightarrow> i_channel i = PTP_CH_CLASSIC \<or> i_channel i = PTP_CH_NIKON" for i
    by (cases "i_channel i") (simp_all add: visible_def)
  let ?P = "\<lambda>i. visible i \<and> i_time i \<le> clock e (ticks cam)"
  have end_later: "i_time i \<le> poll_end (clock e (Suc (ticks cam))) timeout" if "?P i" for i
    using that steadyD [OF assms, of "ticks cam" "Suc (ticks cam)"] trigger_time_later
    by (auto simp: poll_end_def intro: order_trans)
  show ?thesis
  proof (cases "split_at ?P (first_interrupt cam)")
    case (Pair a b)
    show ?thesis
    proof (cases b)
      case Nil
      then show ?thesis using Pair by (simp add: vcam_readint_def find_due_take vis take_first_def)
    next
      case (Cons i c)
      with Pair have "?P i" using split_at_Cons by fast
      from end_later [OF this] have "\<not> poll_end (clock e (Suc (ticks cam))) timeout < i_time i" by simp
      then show ?thesis using Pair Cons
        by (simp add: vcam_readint_def find_due_take vis take_first_def gettimeofday_def Let_def
            flip: not_due_iff)
    qed
  qed
qed

section \<open>The records of a queue\<close>

text \<open>The bytes of an event container with one parameter, as the queue holds them, and the records of a queue.\<close>

definition event_bytes :: "u16 \<Rightarrow> u32 \<Rightarrow> u32 \<Rightarrow> byte list" where
  "event_bytes c t v = put_32bit_le 0x10 @ put_16bit_le 4 @ put_16bit_le c @ put_32bit_le t @ put_32bit_le v"

definition queued :: "vcam \<Rightarrow> byte list multiset" where
  "queued cam = mset (map i_data (first_interrupt cam))"

lemma mset_insert_interrupt:
  "image_mset i_data (mset (insert_interrupt i q)) = add_mset (i_data i) (image_mset i_data (mset q))"
  by (induction q) auto

end
