(* ===== verification/Object_Theorems.thy ===== *)
theory Object_Theorems
  imports Wire_Theorems Pack Event_Pool
begin

text \<open>
  Properties of the object handlers: listing, object information, whole and partial reads,
  capture and deletion.
\<close>

section \<open>Object information\<close>

text \<open>
  C11. For every object of a camera in a good state, \<open>GetObjectInfo\<close> finds the object's parent
  and builds a dataset from which the host-side unpacker recovers every field: the format, the
  size (saturated at 32 bits), the thumbnail and image sizes, the handle of the parent
  directory, the name and both dates. The name must fit the unpacker's 64-byte field with two
  characters to spare, because the unpacker stores one NUL more than the string has.
\<close>

theorem objectinfo_decodes:
  assumes "fs_ok cam" "d \<in> set (first_dirent cam)" "is_child d" "d_stbuf d = Some st"
    and "printable (d_name d)" "length (d_name d) \<le> 62"
    and "xdate (st_ctime st) = Inr cs" "length cs \<le> 30" "xdate (st_mtime st) = Inr ms" "length ms \<le> 30"
    and "image_metadata e d (object_format st (d_name d)) = Inr (thumb, w, h)"
  shows "\<exists>bs p. objectinfo_dataset e (first_dirent cam) d = Inr bs \<and> p \<in> set (first_dirent cam)
    \<and> d_parent d = PAddr (d_addr p) \<and> is_dir p \<and> vcam_unpack_object_info bs = Inr
      \<lparr>storage_id = MAIN_STORAGE_ID, obj_format = object_format st (d_name d), protection = 0,
       oi_compressed_size = compressed_size st,
       thumb_format = (if thumb = None then 0 else 0x3808),
       thumb_compressed_size = (case thumb of Some n \<Rightarrow> word_of_nat n | None \<Rightarrow> 0),
       thumb_width = 0, thumb_height = 0, img_width = word_of_nat w, img_height = word_of_nat h,
       img_bit_depth = 0, parent_obj = d_id p, assoc_type = (if st_isdir st then 1 else 0),
       assoc_desc = 0, sequence_num = 0, filename = d_name d, date_created = cs, date_modified = ms,
       oi_keywords = (if h > w then ''Orientation: 8'' else ''Orientation: 1'')\<rparr>"
proof -
  obtain p where p: "p \<in> set (first_dirent cam)" "d_parent d = PAddr (d_addr p)" "is_dir p"
    using assms(1-3) by (auto simp: fs_ok_def parents_ok_def)
  then have par: "parent_handle (first_dirent cam) d = Inr (d_id p)"
    using assms(1) cell_at_eq by (auto simp: parent_handle_def parent_of_def fs_ok_def)
  let ?kw = "if h > w then ''Orientation: 8'' else ''Orientation: 1''"
  have kw: "printable ?kw" "length ?kw = 14" by (simp_all add: byte_of_def)
  have str: "add_string (d_name d) = Inr (wire_string (d_name d))" "add_string cs = Inr (wire_string cs)"
    "add_string ms = Inr (wire_string ms)" "add_string ?kw = Inr (wire_string ?kw)"
    using assms(6,8,10) kw(2) by (auto intro: add_string_fits)
  note rd = read_field_wire [OF assms(5), where n = 64] read_field_wire [OF printable_date [OF assms(7)], where n = 32]
    read_field_wire [OF printable_date [OF assms(9)], where n = 32] read_field_wire [OF kw(1), where n = 64 and r = "[]"]
  define th where "th = (case thumb of Some _ \<Rightarrow> 0x3808 | None \<Rightarrow> (0 :: u16))"
  define ts where "ts = (case thumb of Some n \<Rightarrow> word_of_nat n | None \<Rightarrow> (0 :: u32))"
  define kwv where "kwv = ?kw"
  have "objectinfo_dataset e (first_dirent cam) d = Inr
      (put_32bit_le MAIN_STORAGE_ID @ put_16bit_le (object_format st (d_name d)) @ put_16bit_le 0
       @ put_32bit_le (compressed_size st) @ put_16bit_le th @ put_32bit_le ts @ put_32bit_le 0 @ put_32bit_le 0
       @ put_32bit_le (word_of_nat w) @ put_32bit_le (word_of_nat h) @ put_32bit_le 0 @ put_32bit_le (d_id p)
       @ put_16bit_le (if st_isdir st then 1 else 0) @ put_32bit_le 0 @ put_32bit_le 0
       @ wire_string (d_name d) @ wire_string cs @ wire_string ms @ wire_string kwv)"
    using assms(4,6-11) par str kw(2)
    by (simp add: objectinfo_dataset_def stbuf_def Let_def th_def ts_def kwv_def fits_def)
  moreover have "th = (if thumb = None then 0 else 0x3808)" by (cases thumb) (simp_all add: th_def)
  ultimately show ?thesis using p(2,3) assms(6,8,10) rd kw(2)
    by (intro exI [of _ p] exI conjI p(1)) (assumption, simp_all add: vcam_unpack_object_info_def kwv_def ts_def)
qed

theorem objectinfo_decodes_witness:
  "\<exists>bs p. objectinfo_dataset demo_env demo_dirents (demo_dirents ! 0) = Inr bs \<and> p \<in> set demo_dirents
    \<and> d_parent (demo_dirents ! 0) = PAddr (d_addr p) \<and> is_dir p \<and> vcam_unpack_object_info bs = Inr
      \<lparr>storage_id = MAIN_STORAGE_ID, obj_format = object_format (demo_file 5) ''A.JPG'', protection = 0,
       oi_compressed_size = compressed_size (demo_file 5), thumb_format = 0, thumb_compressed_size = 0,
       thumb_width = 0, thumb_height = 0, img_width = 0, img_height = 0,
       img_bit_depth = 0, parent_obj = d_id p, assoc_type = 0,
       assoc_desc = 0, sequence_num = 0, filename = ''A.JPG'', date_created = ''20010909T014640'',
       date_modified = ''20010909T014640'', oi_keywords = ''Orientation: 1''\<rparr>"
proof -
  have ok: "fs_ok demo_cam" using demo_inv by (simp add: inv_def)
  have "gmtime 1000000000 = \<lparr>tm_year = 2001, tm_mon = 9, tm_mday = 9, tm_hour = 1, tm_min = 46, tm_sec = 40\<rparr>"
    by code_simp
  then have x: "xdate 1000000000 = Inr ''20010909T014640''"
    by (simp add: xdate_def c_int_def) code_simp
  have m: "image_metadata demo_env (demo_dirents ! 0) f = Inr (None, 0, 0)" for f
    by (simp add: image_metadata_def exif_read_object_metadata_def demo_env_def)
  show ?thesis
    using objectinfo_decodes [OF ok, of "demo_dirents ! 0" "demo_file 5" "''20010909T014640''" "''20010909T014640''"
        demo_env None 0 0] x m
    by (simp add: demo_dirents_def demo_file_def is_child_def byte_of_def)
qed

section \<open>Listing\<close>

text \<open>
  The specification of a listing: everything but the root, or the objects whose parent is the
  root (mode all ones) or the directory with the given handle.
\<close>

definition listed :: "ptp_dirent list \<Rightarrow> u32 \<Rightarrow> ptp_dirent \<Rightarrow> bool" where
  "listed ds mode d \<longleftrightarrow> d_id d \<noteq> 0 \<and> (mode = 0 \<or>
     (\<exists>p\<in>set ds. d_parent d = PAddr (d_addr p) \<and> d_id p = (if mode = 0xffffffff then 0 else mode)))"

lemma in_mode_listed:
  assumes "fs_ok cam" "d \<in> set (first_dirent cam)"
  shows "in_mode (first_dirent cam) mode d = Inr (listed (first_dirent cam) mode d)"
proof (cases "d_id d = 0 \<or> mode = 0")
  case True
  then show ?thesis by (auto simp: in_mode_def listed_def)
next
  case False
  let ?ds = "first_dirent cam"
  from False assms obtain p where p: "p \<in> set ?ds" "d_parent d = PAddr (d_addr p)"
    by (auto simp: fs_ok_def parents_ok_def is_child_def)
  have eq: "q = p" if "q \<in> set ?ds" "d_addr q = d_addr p" for q
    using assms(1) p(1) that by (auto simp: fs_ok_def addrs_ok_def distinct_map inj_on_def)
  have "parent_of ?ds d = Inr p" using assms(1) p cell_at_eq by (auto simp: parent_of_def fs_ok_def)
  moreover have "(\<exists>q\<in>set ?ds. d_parent d = PAddr (d_addr q) \<and> d_id q = k) = (d_id p = k)" for k
  proof
    assume "\<exists>q\<in>set ?ds. d_parent d = PAddr (d_addr q) \<and> d_id q = k"
    then obtain q where "q \<in> set ?ds" "d_addr q = d_addr p" "d_id q = k" using p(2) by auto
    then show "d_id p = k" using eq by blast
  qed (use p in blast)
  ultimately show ?thesis using False by (simp add: in_mode_def listed_def)
qed

lemma count_listed:
  assumes "fs_ok cam" "set xs \<subseteq> set (first_dirent cam)"
  shows "select_mode (first_dirent cam) mode xs = Inr (map d_id (filter (listed (first_dirent cam) mode) xs))"
    and "count_mode (first_dirent cam) mode xs = Inr (length (filter (listed (first_dirent cam) mode) xs))"
  using assms(2) by (induction xs) (auto simp: in_mode_listed [OF assms(1)])

text \<open>
  C12. \<open>GetObjectHandles\<close> and \<open>GetNumObjects\<close> for any storage or the main one, without a
  format, and for everything, the root or an existing directory: the first sends exactly the
  handles of the objects in that place as a PTP array, in list order, and the second answers
  with their number.
\<close>

theorem listing_is_exact:
  assumes "fs_ok cam" "session cam \<noteq> 0" "sid = 0xffffffff \<or> sid = MAIN_STORAGE_ID"
    and "mode = 0 \<or> mode = 0xffffffff \<or> (\<exists>d. find_dirent cam mode = Some d \<and> is_dir d)"
  shows "\<exists>ids. ids = map d_id (filter (listed (first_dirent cam) mode) (first_dirent cam))
    \<and> ptp_getobjecthandles_write cam (command 0x1007 t [sid, 0, mode])
        = Inr (ptp_response (ptp_senddata cam 0x1007 (put_32bit_le_array ids)) PTP_RC_OK [])
    \<and> ptp_getnumobjects_write cam (command 0x1006 t [sid, 0, mode])
        = Inr (ptp_response cam PTP_RC_OK [word_of_nat (length ids)])"
proof -
  have q: "objects_query cam (command c t [sid, 0, mode]) = Inr (Inr mode)" for c
    using assms(3,4) by (auto simp: objects_query_def command_def param_def stbuf_def is_dir_def)
  have "cmd_code (command 0x1007 t [sid, 0, mode]) = 0x1007" by (simp add: cmd_code_def command_def)
  then show ?thesis using q assms(2) count_listed [OF assms(1), of "first_dirent cam"]
    by (simp add: ptp_getobjecthandles_write_def ptp_getnumobjects_write_def handler_defs put_32bit_le_array_def)
qed

theorem listing_is_exact_witness:
  "ptp_getobjecthandles_write (demo_cam\<lparr>session := 1\<rparr>) (command 0x1007 4 [0xffffffff, 0, 1])
     = Inr (ptp_response (ptp_senddata (demo_cam\<lparr>session := 1\<rparr>) 0x1007 (put_32bit_le_array [2])) PTP_RC_OK [])"
proof -
  have "fs_ok (demo_cam\<lparr>session := 1\<rparr>)" using demo_inv by (simp add: inv_def fs_ok_def)
  from listing_is_exact [OF this, of "0xffffffff" 1 4] show ?thesis
    by (simp add: demo_dirents_def demo_dir_def listed_def find_dirent_def is_dir_def)
qed

section \<open>Capture\<close>

lemma queued_simps [simp]:
  "queued (ptp_inject_interrupt e cam when c n v t) = add_mset (event_bytes c t v) (queued cam)"
  "queued (push_dirent d cam) = queued cam" "queued (ptp_response cam rc ps) = queued cam"
  "queued (cam\<lparr>ptp_objectid := k\<rparr>) = queued cam"
  by (simp_all add: queued_def ptp_inject_interrupt_def ptp_inject_interrupt_channel_def
      ptp_inject_event_data_def gettimeofday_def mset_insert_interrupt event_bytes_def)

lemma dcim_exists:
  assumes "inv cam" "first_dirent cam \<noteq> []"
  shows "\<exists>c. find_dcim cam = Inr (Some c)"
proof -
  let ?ds = "first_dirent cam"
  have fs: "fs_ok cam" using assms(1) by (simp add: inv_def)
  obtain c p where c: "c \<in> set ?ds" "p \<in> set ?ds" "d_name c = ''DCIM''" "d_parent c = PAddr (d_addr p)" "d_id p = 0"
    using assms by (auto simp: inv_def dcim_ok_def)
  then have "parent_of ?ds c = Inr p" using fs cell_at_eq by (auto simp: parent_of_def fs_ok_def)
  then have "is_dcim ?ds c = Inr True" using c by (simp add: is_dcim_def)
  then have "find_dcim cam \<noteq> Inr None"
    using c(1) last_match_None unfolding find_dcim_def by fastforce
  then show ?thesis using find_dcim_total [OF fs] by auto
qed

lemma first_match_total: "\<forall>x\<in>set xs. \<exists>b. P x = Inr b \<Longrightarrow> \<exists>r. first_match P xs = Inr r"
proof (induction xs)
  case Nil
  then show ?case by simp
next
  case (Cons x xs)
  then obtain b r where "P x = Inr b" "first_match P xs = Inr r" by auto
  then show ?case by (cases b) simp_all
qed

lemma find_gphot_total:
  assumes "inv cam" "nm \<noteq> ''''"
  shows "\<exists>r. find_gphot cam dcim nm = Inr r"
  unfolding find_gphot_def
proof (rule first_match_total, rule ballI)
  fix d assume "d \<in> set (first_dirent cam)"
  then have "d_parent d = PWild \<longrightarrow> d_name d = ''''" using assms(1) by (auto simp: inv_def cells_ok_def cell_ok_def)
  then show "\<exists>b. (if d_name d = nm then same_parent dcim d else Inr False) = Inr b"
    using assms(2) by (cases "d_parent d") (auto simp: same_parent_def)
qed

text \<open>What a capture makes: the new cell, and the directory in front of the old list if it was missing.\<close>

lemma capture_shape:
  assumes "inv cam" "first_dirent cam \<noteq> []"
  shows "\<exists>cam' new extra dir. capture_objects e cam 98 cur = Inr cam'
    \<and> first_dirent cam' = new # extra @ first_dirent cam \<and> extra \<in> {[], [dir]}
    \<and> dir \<in> set (extra @ first_dirent cam) \<and> d_name dir = ''100GPHOT'' \<and> is_dir dir
    \<and> (extra = [dir] \<longrightarrow> d_fsname_literal dir \<and> d_id dir = ptp_objectid cam + 1)
    \<and> ptp_objectid cam' = ptp_objectid cam + 1 + word_of_nat (length extra)
    \<and> new = \<lparr>d_addr = heap_next cam + length extra, d_id = ptp_objectid cam', d_name = ''GPH_0099.JPG'',
        d_fsname = d_fsname cur, d_fsname_literal = False, d_stbuf = d_stbuf cur, d_parent = PAddr (d_addr dir)\<rparr>
    \<and> queued cam' = queued cam + {# event_bytes 0x4002 (seqnr cam) (ptp_objectid cam'), event_bytes 0x400d (seqnr cam) 0 #}
        + image_mset (\<lambda>d. event_bytes 0x4002 (seqnr cam) (d_id d)) (mset extra)
    \<and> inbulk cam' = inbulk cam @ enc (RespC PTP_RC_OK (seqnr cam) []) \<and> session cam' = session cam"
proof -
  from dcim_exists [OF assms] obtain c where c: "find_dcim cam = Inr (Some c)" by blast
  have cd: "is_dir c" using dcim_is_dir [OF assms(1) c] by simp
  from find_gphot_total [OF assms(1)] obtain found where f: "find_gphot cam (Some c) ''100GPHOT'' = Inr found"
    by blast
  have nm: "''GPH_'' @ fmt_dec 4 99 @ ''.JPG'' = ''GPH_0099.JPG''" by code_simp
  show ?thesis
  proof (cases found)
    case (Some d)
    have "d \<in> set (first_dirent cam)" "is_dir d" "d_name d = ''100GPHOT''"
      using gphot_is_dir [OF assms(1) f [unfolded Some]] find_gphot_Some [OF f [unfolded Some]]
      by (auto simp: capture_dirs_def)
    then show ?thesis using c f Some nm
      by (intro exI [of _ "capture_picture e 98 cur d cam"] exI [of _ "[]"] exI [of _ d] exI)
         (auto simp: capture_objects_def gphot_98 capture_picture_def push_capture_def Let_def)
  next
    case None
    define c1 where "c1 = cam\<lparr>ptp_objectid := ptp_objectid cam + 1\<rparr>"
    define d where "d = \<lparr>d_addr = heap_next c1, d_id = ptp_objectid c1, d_name = ''100GPHOT'',
            d_fsname = ''virtual'', d_fsname_literal = True, d_stbuf = d_stbuf c, d_parent = PAddr (d_addr c)\<rparr>"
    define c2 where "c2 = ptp_inject_interrupt e (push_dirent d c1) 80 0x4002 1 (ptp_objectid c1) (seqnr c1)"
    have "capture_objects e cam 98 cur = Inr (capture_picture e 98 cur d c2)"
      using c f None by (simp add: capture_objects_def gphot_98 make_gphot_def push_virtual_dir_def Let_def
          c1_def d_def c2_def)
    then show ?thesis using nm cd
      by (intro exI [of _ "capture_picture e 98 cur d c2"] exI [of _ "[d]"] exI [of _ d] exI)
         (auto simp: capture_picture_def push_capture_def Let_def c1_def d_def c2_def is_dir_def)
  qed
qed

lemma capture_command:
  assumes "session cam \<noteq> 0" "sid = 0 \<or> sid = MAIN_STORAGE_ID" "fmt = 0 \<or> fmt = 0x3801"
    and "find is_jpg (first_dirent cam) = Some cur"
  shows "ptp_initiatecapture_write e cam (command 0x100E t [sid, fmt]) = capture_objects e cam 98 cur"
  using assms by (auto simp: ptp_initiatecapture_write_def handler_defs command_def param_def)

lemma getobject_found:
  assumes "session cam \<noteq> 0" "find_dirent cam h = Some d" "d_stbuf d = Some st"
    "files e (d_fsname d) = Some content" "0 < st_size st" "st_size st \<le> length content" "st_size st \<le> SEND_MAX"
  shows "ptp_getobject_write e cam (command 0x1009 t [h])
    = Inr (ptp_response (ptp_senddata cam 0x1009 (take (st_size st) content)) PTP_RC_OK [])"
  using assms
  by (simp add: ptp_getobject_write_def handler_defs command_def param_def read_file_def stbuf_def fits_def
      cmd_code_def)



section \<open>Deletion\<close>

text \<open>
  C14. \<open>DeleteObject\<close> of a file removes exactly that object: the list loses one cell, every
  other handle still finds what it found before, and the handle is then unknown if it was
  unique. A directory is refused with \<open>ObjectWriteProtected\<close>, an unknown handle with
  \<open>InvalidObjectHandle\<close>, and both leave the list as it was.
\<close>

theorem delete_removes_one_object:
  assumes "session cam \<noteq> 0" "h \<noteq> 0xffffffff" "cells_ok (first_dirent cam)" "\<forall>d\<in>set (first_dirent cam). \<not> is_dir d \<longrightarrow> \<not> d_fsname_literal d"
  shows "\<exists>cam' rc. ptp_deleteobject_write cam (command 0x100B t [h]) = Inr cam'
    \<and> inbulk cam' = inbulk cam @ enc (RespC rc (seqnr cam) [])
    \<and> (case find_dirent cam h of
         None \<Rightarrow> rc = PTP_RC_InvalidObjectHandle \<and> first_dirent cam' = first_dirent cam
       | Some d \<Rightarrow> if is_dir d then rc = PTP_RC_ObjectWriteProtected \<and> first_dirent cam' = first_dirent cam
           else rc = PTP_RC_OK \<and> first_dirent cam' = remove1 d (first_dirent cam)
             \<and> (\<forall>k. k \<noteq> h \<longrightarrow> find_dirent cam' k = find_dirent cam k)
             \<and> (distinct (map d_id (first_dirent cam)) \<longrightarrow> find_dirent cam' h = None))"
proof -
  have run: "ptp_deleteobject_write cam (command 0x100B t [h]) = delete_one cam h"
    using assms(1,2) by (simp add: ptp_deleteobject_write_def handler_defs command_def param_def)
  show ?thesis
  proof (cases "find_dirent cam h")
    case None
    then have "\<forall>d\<in>set (first_dirent cam). d_id d \<noteq> h" by (simp add: find_dirent_def find_None_conv)
    then have "split_at (\<lambda>d. d_id d = h) (first_dirent cam) = (first_dirent cam, [])"
      by (simp add: split_at_dropWhile)
    then show ?thesis using None run by (simp add: delete_one_def)
  next
    case (Some d)
    then have d: "d \<in> set (first_dirent cam)" "d_id d = h"
      by (auto simp: find_dirent_def dest: find_filter_Some)
    obtain a y b where ab: "split_at (\<lambda>d. d_id d = h) (first_dirent cam) = (a, y # b)"
      using split_at_found [OF d(1), of "\<lambda>d. d_id d = h"] d(2) by blast
    from split_at_Cons [OF ab] have s: "first_dirent cam = a @ y # b" "d_id y = h" "\<forall>x\<in>set a. d_id x \<noteq> h" by auto
    have y: "y = d" using Some s by (simp add: find_dirent_def find_append_hit)
    obtain st where st: "d_stbuf d = Some st" using assms(3) d(1) by (auto simp: cells_ok_def cell_ok_def)
    show ?thesis
    proof (cases "st_isdir st")
      case True
      then show ?thesis using Some run ab y st by (simp add: delete_one_def stbuf_def is_dir_def)
    next
      case False
      then have nd: "\<not> is_dir d" using st by (simp add: is_dir_def)
      then have lit: "\<not> d_fsname_literal d" using assms(4) d(1) by blast
      have rm: "remove1 d (first_dirent cam) = a @ b" using s y by (auto simp: remove1_append)
      have "find (\<lambda>x. d_id x = k) (a @ b) = find (\<lambda>x. d_id x = k) (a @ y # b)" if "k \<noteq> h" for k
        using that s(2) by (induction a) auto
      moreover have "find (\<lambda>x. d_id x = h) (a @ b) = None" if "distinct (map d_id (a @ y # b))"
        using that s(2,3) by (auto simp: find_None_conv image_iff)
      ultimately show ?thesis using Some run ab y st False nd lit rm s(1)
        by (simp add: delete_one_def stbuf_def free_dirent_def find_dirent_def)
    qed
  qed
qed

theorem delete_removes_one_object_witness:
  "\<exists>cam'. ptp_deleteobject_write (demo_cam\<lparr>session := 1\<rparr>) (command 0x100B 5 [2]) = Inr cam'
    \<and> first_dirent cam' = drop 1 demo_dirents \<and> find_dirent cam' 2 = None"
proof -
  have "cells_ok demo_dirents" using demo_inv by (simp add: inv_def)
  then show ?thesis using delete_removes_one_object [of "demo_cam\<lparr>session := 1\<rparr>" 2 5]
    by (auto simp: demo_dirents_def demo_dir_def demo_file_def find_dirent_def is_dir_def)
qed

text \<open>
  C3. Deleting everything (handle all ones) after a capture that had to make its directory
  frees the string literal the directory's file name points to, which is undefined behaviour.
\<close>

theorem delete_all_after_capture_undefined:
  assumes "inv cam" "session cam \<noteq> 0" "find is_jpg (first_dirent cam) = Some cur"
    and "\<forall>d\<in>set (first_dirent cam). d_name d \<noteq> ''100GPHOT''"
  shows "bnd (ptp_initiatecapture_write e cam (command 0x100E t [0, 0]))
      (\<lambda>cam. ptp_deleteobject_write cam (command 0x100B t' [0xffffffff])) = Inl Undef"
proof -
  have ne: "first_dirent cam \<noteq> []" using assms(3) by auto
  from capture_shape [OF assms(1) ne, of e cur] obtain cam' new extra dir where
    c: "capture_objects e cam 98 cur = Inr cam'" "first_dirent cam' = new # extra @ first_dirent cam"
      "extra \<in> {[], [dir]}" "dir \<in> set (extra @ first_dirent cam)" "d_name dir = ''100GPHOT''"
      "extra = [dir] \<longrightarrow> d_fsname_literal dir" "session cam' = session cam"
      "d_fsname_literal new = False"
    by auto
  then have "extra = [dir]" using assms(4) by auto
  then have "free_dirents (first_dirent cam') = Inl Undef" using c by (simp add: free_dirent_def)
  then have "ptp_deleteobject_write cam' (command 0x100B t' [0xffffffff]) = Inl Undef"
    using c(7) assms(2) by (simp add: ptp_deleteobject_write_def handler_defs command_def param_def)
  then show ?thesis using capture_command [OF assms(2) _ _ assms(3)] c(1) by simp
qed

theorem delete_all_after_capture_undefined_witness:
  "bnd (ptp_initiatecapture_write demo_env (demo_cam\<lparr>session := 1\<rparr>) (command 0x100E 5 [0, 0]))
      (\<lambda>cam. ptp_deleteobject_write cam (command 0x100B 6 [0xffffffff])) = Inl Undef"
  using demo_inv
  by (intro delete_all_after_capture_undefined [where cur = "demo_dirents ! 0"])
     (simp_all add: demo_dirents_def is_jpg_def)

section \<open>Partial reads\<close>

text \<open>The specification: at most \<open>n\<close> bytes, and never more than 16 MB, from an offset on.\<close>

definition file_slice :: "byte list \<Rightarrow> nat \<Rightarrow> nat \<Rightarrow> byte list" where
  "file_slice bs off n = take (min n (16 * 1024 * 1024)) (drop off bs)"

lemma partial_size_slice: "take (partial_size (length bs) off n) (drop off bs) = file_slice bs off n"
  by (auto simp: partial_size_def file_slice_def Let_def min_def)

lemma partial_size_length:
  "min (length bs - off) (partial_size (length bs) off n) = length (file_slice bs off n)"
  using arg_cong [OF partial_size_slice [of bs off n], of length] by simp

lemma virtual_part_slice:
  assumes "length bs < 2 ^ 32"
  shows "virtual_part bs off n = file_slice bs (unat off) (unat n)"
proof -
  let ?v = "word_of_nat (length bs) :: u32"
  have v: "unat ?v = length bs" using assms by (rule unat_len32)
  show ?thesis
  proof (cases "off > ?v")
    case True
    then show ?thesis using v by (auto simp: virtual_part_def file_slice_def Let_def word_less_nat_alt)
  next
    case False
    then have s: "unat (?v - off) = length bs - unat off"
      using v by (simp add: unat_sub word_le_nat_alt not_less)
    have "unat (if n > 0x1000000 then 0x1000000 else n) = min (unat n) (16 * 1024 * 1024)"
      by (auto simp: word_less_nat_alt min_def)
    then show ?thesis using False s v
      by (auto simp: virtual_part_def file_slice_def Let_def word_less_nat_alt) (simp add: not_less)
  qed
qed

lemma slices_concat:
  assumes "n \<le> 16 * 1024 * 1024"
  shows "concat (map (\<lambda>i. file_slice bs (i * n) n) [0..<m]) = take (m * n) bs"
proof (induction m)
  case 0
  then show ?case by simp
next
  case (Suc m)
  have "file_slice bs (m * n) n = take n (drop (m * n) bs)" using assms by (simp add: file_slice_def min_def)
  moreover have "take (m * n) bs @ take n (drop (m * n) bs) = take (Suc m * n) bs"
    unfolding take_add_drop by (simp add: add.commute)
  ultimately show ?case using Suc.IH by simp
qed

text \<open>
  C16. \<open>GetPartialObject\<close> of a file answers with exactly the requested part of its content, cut
  at the end of the file and at 16 MB, and with the number of bytes sent as parameter; reading a
  file in consecutive pieces of any size up to 16 MB gives its content.
\<close>

theorem partial_reads_give_the_file:
  assumes "session cam \<noteq> 0" "find_dirent cam h = Some d" "d_stbuf d = Some st"
    and "files e (d_fsname d) = Some content" "st_size st = length content"
    and "\<forall>off. fseek_ok e (d_fsname d) off" "unat n \<le> 16 * 1024 * 1024" "m * unat n < 2 ^ 32"
  shows "\<exists>part. (\<forall>off k t. ptp_getpartialobject_write hk e cam (command 0x101B t [h, off, k])
      = Inr (ptp_response (ptp_senddata cam 0x101B (part off k)) PTP_RC_OK [word_of_nat (length (part off k))])
      \<and> part off k = file_slice content (unat off) (unat k))
    \<and> concat (map (\<lambda>i. part (word_of_nat (i * unat n)) n) [0..<m]) = take (m * unat n) content"
proof -
  have "unat (word_of_nat (i * unat n) :: u32) = i * unat n" if "i < m" for i
  proof -
    have "i * unat n \<le> m * unat n" using that by simp
    then show ?thesis using assms(8) by (intro unat_len32) linarith
  qed
  then have "concat (map (\<lambda>i. file_slice content (unat (word_of_nat (i * unat n) :: u32)) (unat n)) [0..<m])
      = concat (map (\<lambda>i. file_slice content (i * unat n) (unat n)) [0..<m])"
    by (intro arg_cong [where f = concat] map_cong) auto
  then show ?thesis using assms(1-6) slices_concat [OF assms(7), of content m]
    by (intro exI [of _ "\<lambda>off k. file_slice content (unat off) (unat k)"])
       (simp add: ptp_getpartialobject_write_def handler_defs command_def param_def stbuf_def cmd_code_def
         partial_size_slice partial_size_length Let_def)
qed

theorem partial_reads_give_the_file_witness:
  "\<exists>part. (\<forall>off k t. ptp_getpartialobject_write no_callbacks demo_env (demo_cam\<lparr>session := 1\<rparr>) (command 0x101B t [2, off, k])
      = Inr (ptp_response (ptp_senddata (demo_cam\<lparr>session := 1\<rparr>) 0x101B (part off k)) PTP_RC_OK [word_of_nat (length (part off k))]))
    \<and> concat (map (\<lambda>i. part (word_of_nat (i * 2)) 2) [0..<3]) = demo_picture"
proof -
  have f: "find_dirent (demo_cam\<lparr>session := 1\<rparr>) 2 = Some (demo_dirents ! 0)"
    by (simp add: find_dirent_def demo_dirents_def)
  have "files demo_env (d_fsname (demo_dirents ! 0)) = Some demo_picture"
    by (simp add: demo_env_def demo_dirents_def)
  from partial_reads_give_the_file [OF _ f _ this, of "demo_file 5" 2 3 no_callbacks] show ?thesis
    by (simp add: demo_dirents_def demo_file_def demo_picture_def demo_env_def) blast
qed

end
