(* ===== verification/Property_Theorems.thy ===== *)
theory Property_Theorems
  imports Wire_Theorems
begin

text \<open>
  Properties of device properties: every property of every model can be described, a value that
  was set is read back, and what happens when the host sends fewer bytes than the type has.
\<close>

section \<open>The model tables\<close>

text \<open>A check on the text of a table row that bounds the size of its descriptor on the wire.\<close>

definition commas :: "string \<Rightarrow> nat" where
  "commas s = length (filter (\<lambda>c. c = CHR '','') s)"

definition form_text :: "string option \<Rightarrow> string" where
  "form_text form = (case form of None \<Rightarrow> [] | Some f \<Rightarrow> f)"

definition row_small :: "prop_row \<Rightarrow> bool" where
  "row_small r = (case r of (c, t, rw, v, form) \<Rightarrow>
     (if t = PTP_TC_STRING then 4 * length v + 5 * length (form_text form) + 32 \<le> 2000
      else (2 + 3 + 1 + commas (form_text form)) * type_width t + 16 \<le> 2000))"

definition row_good :: "prop_row \<Rightarrow> bool" where
  "row_good r \<longleftrightarrow> row_ok r \<and> row_small r"

definition sony_row_good :: "prop_row \<Rightarrow> bool" where
  "sony_row_good r \<longleftrightarrow> row_good r \<and> fst (snd r) \<noteq> PTP_TC_STRING"

lemma d7500_good:
  "list_all row_good nikon_d7500_props_1"
  by code_simp

lemma d7500_good_2:
  "list_all row_good nikon_d7500_props_2"
  by code_simp

lemma z6_2_good:
  "list_all row_good nikon_z6_2_props_1"
  by code_simp

lemma z6_2_good_2:
  "list_all row_good nikon_z6_2_props_2"
  by code_simp

lemma sony_tables_good:
  "list_all sony_row_good sony_a7m4_props_1" "list_all sony_row_good sony_a7m4_props_2"
  "list_all sony_row_good sony_a7r5_props_1" "list_all sony_row_good sony_a7r5_props_2"
  by code_simp+

lemmas tables_good = d7500_good d7500_good_2 z6_2_good z6_2_good_2

lemma type_width_scalar: "scalar_width t = Some w \<Longrightarrow> type_width t = w"
  by (auto simp: scalar_width_def type_width_def split: if_splits)

lemma write_typed_width: "scalar_width t \<noteq> None \<Longrightarrow> length (write_typed t v) = type_width t"
  using write_typed_len type_width_scalar by fastforce

lemma ptp_write_string_len: "length (ptp_write_string s) = 2 * length s + 3"
  by (induction s) (simp_all add: ptp_write_string_def ptp_write_u8_def ptp_write_u16_def)

lemma enum_values_width: "scalar_width t \<noteq> None \<Longrightarrow> length (concat (enum_values n t p)) = n * type_width t"
  by (induction n arbitrary: p) (simp_all add: case_prod_beta Let_def write_typed_width)

lemma commas_drop: "commas (drop k s) \<le> commas s"
proof -
  have "commas s = commas (take k s @ drop k s)" by simp
  then show ?thesis unfolding commas_def filter_append length_append by linarith
qed

lemma enum_count_commas: "enum_count (drop k s) \<le> 1 + commas s"
  using commas_drop [of k s] by (simp add: enum_count_def commas_def)

lemma split_bar_total: "length (split_bar p) + sum_list (map length (split_bar p)) = length p + 1"
  by (induction p) (auto split: list.splits)

lemma senum_len: "length (concat (map (\<lambda>s. ptp_write_string (take 255 s)) (split_bar p))) \<le> 3 * length p + 3"
proof -
  have "length (concat (map (\<lambda>s. ptp_write_string (take 255 s)) xs)) \<le> 2 * sum_list (map length xs) + 3 * length xs" for xs
    by (induction xs) (simp_all add: ptp_write_string_len)
  from this [of "split_bar p"] split_bar_total [of p] show ?thesis by linarith
qed

text \<open>The forms, in bytes.\<close>

lemma form_len_cases:
  "scalar_width t \<noteq> None \<Longrightarrow> form_len (range_form t p d) = 3 * type_width t"
  "scalar_width t \<noteq> None \<Longrightarrow> form_len (enum_form t p d) = 2 + enum_count p * type_width t"
  "form_len (senum_form p d) \<le> 3 * length p + 5"
  using senum_len [of p]
  by (auto simp: form_len_def range_form_def enum_form_def senum_form_def case_prod_beta Let_def
      write_typed_width enum_values_width)

lemma desc_len_form: "desc_len d = 6 + blk_len (factory_default_value d) + blk_len (pd_value d) + form_len d"
  by (simp add: desc_len_def)

lemma values_len:
  "row_ok (c, t, rw, v, form) \<Longrightarrow> blk_len (factory_default_value (nikon_values c t rw v)) =
     (if t = PTP_TC_STRING then 2 * length v + 3 else type_width t)"
  "row_ok (c, t, rw, v, form) \<Longrightarrow> blk_len (pd_value (nikon_values c t rw v)) =
     (if t = PTP_TC_STRING then 2 * length v + 3 else type_width t)"
  "form_len (nikon_values c t rw v) = 0"
  by (auto simp: nikon_values_def typed_values_def zero_desc_def Let_def row_ok_def ptp_write_string_len
      write_typed_width form_len_def)

lemma nikon_desc_small:
  assumes "row_good (c, t, rw, v, form)"
  shows "desc_len (nikon_desc c t rw v form) \<le> 2000"
proof -
  have ok: "row_ok (c, t, rw, v, form)" and sm: "row_small (c, t, rw, v, form)"
    using assms by (simp_all add: row_good_def)
  note vl = values_len(1,2) [OF ok] values_len(3)
  show ?thesis
  proof (cases form)
    case None
    then show ?thesis using sm vl by (auto simp: nikon_desc_def desc_len_form row_small_def form_text_def commas_def split: if_split_asm)
  next
    case (Some f)
    have e: "enum_count (drop 5 f) * type_width t \<le> (1 + commas f) * type_width t"
      using enum_count_commas [of 5 f] by (rule mult_le_mono1)
    show ?thesis using Some sm vl ok e form_len_cases(3) [of "drop 6 f" "nikon_values c t rw v"]
      by (auto simp: nikon_desc_def Let_def desc_len_form row_small_def form_text_def row_ok_def has_form_def
          form_len_cases algebra_simps split: if_split_asm)
  qed
qed


text \<open>The Sony tables have no strings, so their rows build the same descriptors.\<close>

lemma sony_values_nikon:
  "t \<noteq> PTP_TC_STRING \<Longrightarrow> \<exists>g. sony_values c t rw v = (nikon_values c t rw v)\<lparr>GetSet := g\<rparr>"
  by (auto simp: sony_values_def nikon_values_def typed_values_def zero_desc_def Let_def)

lemma sony_desc_nikon:
  assumes "sony_row_good (c, t, rw, v, form)"
  shows "\<exists>g. sony_desc c t rw v form = (nikon_desc c t rw v form)\<lparr>GetSet := g\<rparr>"
proof -
  have t: "t \<noteq> PTP_TC_STRING" "\<not> has_form ''senum:'' form"
    using assms by (auto simp: sony_row_good_def row_good_def row_ok_def)
  then obtain g where "sony_values c t rw v = (nikon_values c t rw v)\<lparr>GetSet := g\<rparr>"
    using sony_values_nikon by blast
  then show ?thesis using t(2)
    by (intro exI [of _ g])
       (auto simp: sony_desc_def nikon_desc_def Let_def range_form_def enum_form_def has_form_def case_prod_beta
         split: option.split)
qed

lemma getset_irrelevant [simp]:
  "desc_ok (d\<lparr>GetSet := g\<rparr>) = desc_ok d" "desc_len (d\<lparr>GetSet := g\<rparr>) = desc_len d"
  by (simp_all add: desc_ok_def form_ok_def desc_len_def form_len_def)

section \<open>Every property can be described\<close>

definition prop_good :: "PtpProp \<Rightarrow> bool" where
  "prop_good p \<longleftrightarrow> desc_ok (pr_desc p) \<and> desc_len (pr_desc p) \<le> 2000 \<and>
     pr_getdesc p = None \<and> pr_getvalue p = None \<and> pr_setvalue p = None"

definition props_good :: "vcam \<Rightarrow> bool" where
  "props_good cam \<longleftrightarrow> (\<forall>p\<in>set (props cam). prop_good p)"

lemma props_good_register:
  assumes "props_good cam" "desc_ok d" "desc_len d \<le> 2000"
  shows "props_good (vcam_register_prop c d cam)"
  using assms set_upsert [of pr_code "plain_prop c d" "props cam"]
  by (auto simp: props_good_def vcam_register_prop_def prop_good_def plain_prop_def)

lemma nikon_rows_good: "list_all row_good rows \<Longrightarrow> props_good cam \<Longrightarrow> props_good (nikon_add_rows rows cam)"
  unfolding nikon_add_rows_def
proof (induction rows arbitrary: cam)
  case Nil
  then show ?case by simp
next
  case (Cons r rows)
  obtain c t rw v form where r: "r = (c, t, rw, v, form)" by (cases r)
  have g: "row_good (c, t, rw, v, form)" using Cons.prems(1) r by simp
  have "props_good (nikon_add_prop c t rw v form cam)" unfolding nikon_add_prop_def
    using Cons.prems(2) nikon_desc_ok nikon_desc_small [OF g] g
    by (intro props_good_register) (auto simp: row_good_def)
  then show ?case using Cons r by simp
qed

lemma sony_rows_good: "list_all sony_row_good rows \<Longrightarrow> props_good cam \<Longrightarrow> props_good (sony_add_rows rows cam)"
  unfolding sony_add_rows_def
proof (induction rows arbitrary: cam)
  case Nil
  then show ?case by simp
next
  case (Cons r rows)
  obtain c t rw v form where r: "r = (c, t, rw, v, form)" by (cases r)
  have g: "sony_row_good (c, t, rw, v, form)" using Cons.prems(1) r by simp
  then have n: "row_good (c, t, rw, v, form)" by (simp add: sony_row_good_def)
  obtain gs where "sony_desc c t rw v form = (nikon_desc c t rw v form)\<lparr>GetSet := gs\<rparr>"
    using sony_desc_nikon [OF g] by blast
  then have "props_good (sony_add_prop c t rw v form cam)" unfolding sony_add_prop_def
    using Cons.prems(2) nikon_desc_ok nikon_desc_small [OF n] n
    by (intro props_good_register) (auto simp: row_good_def)
  then show ?case using Cons r by simp
qed


lemma val_ok_u8: "val_ok PTP_TC_UINT8 (ptp_write_u8 x)"
  by (simp add: val_ok_def scalar_width_def ptp_write_u8_def)

lemma battery_good: "desc_ok battery_desc" "desc_len battery_desc \<le> 2000"
  using val_ok_u8
  by (auto simp: desc_ok_def form_ok_def holds_def battery_desc_def init_prop_def uninit_desc_def desc_len_def
      form_len_def ptp_write_u8_def)

lemma imagesize_good: "desc_ok imagesize_desc" "desc_len imagesize_desc \<le> 2000"
proof -
  let ?vs = "map ptp_write_string [''640x480'', ''1024x768'', ''2048x1536'']"
  have v: "\<forall>v\<in>set ?vs. val_ok PTP_TC_STRING v" by (auto intro!: ptp_write_string_ok)
  have l: "length (concat ?vs) < 2 ^ 31" by (simp add: ptp_write_string_len)
  have "form_ok imagesize_desc" unfolding form_ok_def
    using v l by (intro conjI impI exI [of _ ?vs]) (simp_all add: imagesize_desc_def uninit_desc_def)
  then show "desc_ok imagesize_desc" using v
    by (simp add: desc_ok_def holds_def imagesize_desc_def uninit_desc_def)
  show "desc_len imagesize_desc \<le> 2000"
    by (simp add: desc_len_def form_len_def imagesize_desc_def uninit_desc_def ptp_write_string_len)
qed

lemma shutter_small: "desc_len (sony_shutter_desc rw v) \<le> 2000"
  by (simp add: desc_len_def form_len_def sony_shutter_desc_def zero_desc_def sony_shutter_stops_def)

lemma models_good:
  assumes "props_good cam"
  shows "props_good (nikon_register_model_d7500 cam)" "props_good (nikon_register_model_z6_2 cam)"
    "props_good (sony_register_model_a7m4 cam)" "props_good (sony_register_model_a7r5 cam)"
  using assms tables_good sony_tables_good sony_shutter_desc_ok shutter_small
  by (auto simp: nikon_register_model_d7500_def nikon_register_model_z6_2_def sony_register_model_a7m4_def
      sony_register_model_a7r5_def sony_add_shutter_prop_def intro!: nikon_rows_good sony_rows_good props_good_register)

lemma standard_props_good: "props_good cam \<Longrightarrow> props_good (ptp_register_standard_props cam)"
  by (simp add: ptp_register_standard_props_def Let_def props_good_register battery_good imagesize_good)

text \<open>What set-up does besides registering properties leaves the table alone.\<close>

lemma ops_props [simp]:
  "props (nikon_register_ops b cam) = props cam" "props (sony_register_ops cam) = props cam"
  "props (ptp_register_standard_opcodes cam) = props cam"
  by (simp_all add: nikon_register_ops_def sony_register_ops_def ptp_register_standard_opcodes_def Let_def)

lemma props_good_same: "props c = props cam \<Longrightarrow> props_good cam \<Longrightarrow> props_good c"
  by (simp add: props_good_def)

lemma push_dirent_props [simp]: "props (push_dirent d cam) = props cam"
  by (simp add: push_dirent_def)

text \<open>A scan is a sequence of pushes: what every push keeps, a scan keeps.\<close>

lemma read_directories_rel:
  assumes same: "\<And>c. R c c" and chain: "\<And>a b c. R a b \<Longrightarrow> R b c \<Longrightarrow> R a c"
    and push: "\<And>c d. R c (push_dirent d (c\<lparr>ptp_objectid := ptp_objectid c + 1\<rparr>))"
  shows "R cam (read_directories path parent es cam)"
proof (induction path parent es cam rule: read_directories.induct)
  case (1 path parent cam)
  then show ?case by (simp add: same)
next
  case (2 path parent nm st sub es cam)
  show ?case
  proof (cases "nm = ''.'' \<or> nm = ''..''")
    case True
    then show ?thesis using 2 by auto
  next
    case False
    define d where "d = \<lparr>d_addr = heap_next cam, d_id = ptp_objectid cam, d_name = nm,
      d_fsname = path @ CHR ''/'' # nm, d_fsname_literal = False, d_stbuf = st, d_parent = parent\<rparr>"
    define c1 where "c1 = push_dirent d (cam\<lparr>ptp_objectid := ptp_objectid cam + 1\<rparr>)"
    define c2 where "c2 = (case st of None \<Rightarrow> c1 | Some s \<Rightarrow> (if st_isdir s then
       (case sub of None \<Rightarrow> c1 | Some ds \<Rightarrow> read_directories (path @ CHR ''/'' # nm) (PAddr (heap_next cam)) ds c1)
       else c1))"
    have "R c1 c2"
    proof (cases "\<exists>s ds. st = Some s \<and> st_isdir s \<and> sub = Some ds")
      case True
      then obtain s ds where s: "st = Some s" "st_isdir s" "sub = Some ds" by blast
      have "R c1 (read_directories (path @ CHR ''/'' # nm) (PAddr (heap_next cam)) ds c1)"
        by (rule "2.IH"(3) [of _ "path @ CHR ''/'' # nm" _ s ds])
           (use False s in \<open>simp_all add: c1_def d_def\<close>)
      then show ?thesis using s by (simp add: c2_def)
    next
      case F: False
      then have "c2 = c1" by (auto simp: c2_def split: option.splits)
      then show ?thesis by (simp add: same)
    qed
    moreover have "R cam c1" unfolding c1_def by (rule push)
    moreover note "2.IH"(4) [OF _ _ refl refl refl, folded d_def, folded c1_def, folded c2_def]
    then have "R c2 (read_directories path parent es c2)" using False by blast
    ultimately have "R cam (read_directories path parent es c2)" by (blast intro: chain)
    then show ?thesis using False unfolding c2_def c1_def d_def by (simp add: Let_def)
  qed
qed

lemma read_directories_props [simp]: "props (read_directories path parent es cam) = props cam"
  using read_directories_rel [of "\<lambda>a b. props b = props a" cam path parent es] by simp

lemma read_tree_props:
  assumes "read_tree e path cam = Inr cam'"
  shows "props cam' = props cam"
proof -
  define c2 where "c2 = (case fs_sub (fs_tree e path) of
      None \<Rightarrow> push_dirent \<lparr>d_addr = heap_next cam, d_id = 0, d_name = '''', d_fsname = path,
        d_fsname_literal = False, d_stbuf = fs_stat (fs_tree e path), d_parent = PWild\<rparr>
          (cam\<lparr>ptp_objectid := 1, first_dirent := []\<rparr>)
    | Some ds \<Rightarrow> read_directories path (PAddr (heap_next cam)) ds
        (push_dirent \<lparr>d_addr = heap_next cam, d_id = 0, d_name = '''', d_fsname = path,
        d_fsname_literal = False, d_stbuf = fs_stat (fs_tree e path), d_parent = PWild\<rparr>
          (cam\<lparr>ptp_objectid := 1, first_dirent := []\<rparr>)))"
  have p: "props c2 = props cam" by (simp add: c2_def split: option.split)
  from assms [unfolded read_tree_def Let_def, folded c2_def] show ?thesis
    unfolding bnd_eq_Inr
  proof (elim exE conjE)
    fix q
    assume "(case q of None \<Rightarrow> Inr (push_dirent \<lparr>d_addr = heap_next c2, d_id = ptp_objectid c2,
      d_name = ''DCIM'', d_fsname = path, d_fsname_literal = False, d_stbuf = fs_stat (fs_tree e path),
      d_parent = PAddr (heap_next cam)\<rparr> (c2\<lparr>ptp_objectid := ptp_objectid c2 + 1\<rparr>)) | Some x \<Rightarrow> Inr c2)
      = Inr cam'"
    with p show ?thesis by (cases q) auto
  qed
qed

lemma parse_args_props:
  "vcam_parse_args e arg rest cam = Inr (Some (rest', cam')) \<Longrightarrow> props cam' = props cam"
  by (auto simp: vcam_parse_args_def option_value_def dest!: read_tree_props split: if_split_asm list.split_asm)

lemma parse_all_props: "parse_all_args e args cam = Inr (ok, cam') \<Longrightarrow> props cam' = props cam"
proof (induction e args cam rule: parse_all_args.induct)
  case (1 e cam)
  then show ?case by simp
next
  case (2 e arg rest cam)
  from "2.prems" obtain r where r: "vcam_parse_args e arg rest cam = Inr r"
    "(case r of None \<Rightarrow> Inr (False, cam) | Some (rest', c') \<Rightarrow> parse_all_args e rest' c') = Inr (ok, cam')"
    by auto
  show ?case
  proof (cases r)
    case None
    then show ?thesis using r by simp
  next
    case (Some x)
    then obtain rest' c' where x: "x = (rest', c')" by (cases x)
    have "props cam' = props c'" using "2.IH" [OF r(1) Some x [symmetric]] r(2) Some x by simp
    then show ?thesis using r(1) Some x parse_args_props by auto
  qed
qed

lemma standard_good:
  assumes "vcam_init_standard e = Inr cam"
  shows "props_good cam"
proof -
  obtain c where "cam = ptp_register_standard_props (ptp_register_standard_opcodes
      (c\<lparr>props := [], opcodes := [], seqnr := 0, battery := 50, exposurebias := 123\<rparr>))"
    using assms by (auto simp: vcam_init_standard_def Let_def)
  then show ?thesis by (simp only:) (rule standard_props_good, simp add: props_good_def)
qed


lemma props_good_identity [simp]:
  "props_good (cam\<lparr>manufac := a\<rparr>) = props_good cam" "props_good (cam\<lparr>vendor_id := b\<rparr>) = props_good cam"
  "props_good (cam\<lparr>product_id := b\<rparr>) = props_good cam" "props_good (cam\<lparr>model := a\<rparr>) = props_good cam"
  "props_good (cam\<lparr>version := a\<rparr>) = props_good cam" "props_good (cam\<lparr>serial := a\<rparr>) = props_good cam"
  "props_good (cam\<lparr>extension := a\<rparr>) = props_good cam" "props_good (cam\<lparr>vendor_extension_id := v\<rparr>) = props_good cam"
  "props_good (cam\<lparr>vendor_extension_version := b\<rparr>) = props_good cam" "props_good (cam\<lparr>ev_list := l\<rparr>) = props_good cam"
  "props_good (cam\<lparr>deviceprops := l\<rparr>) = props_good cam" "props_good (cam\<lparr>capture_formats := l\<rparr>) = props_good cam"
  "props_good (cam\<lparr>image_formats := l\<rparr>) = props_good cam" "props_good (cam\<lparr>lookup_virtual_object := k\<rparr>) = props_good cam"
  "props_good (cam\<lparr>nikon := nk\<rparr>) = props_good cam" "props_good (cam\<lparr>sony := so\<rparr>) = props_good cam"
  "props_good (cam\<lparr>session := x\<rparr>) = props_good cam"
  "props_good (nikon_register_ops w cam) = props_good cam" "props_good (sony_register_ops cam) = props_good cam"
  by (simp_all add: props_good_def)

lemma nikon_init_good:
  assumes "props_good cam" "nikon_init_cam e name argv cam = Inr (ok, cam')"
  shows "props_good cam'"
proof (cases "find (\<lambda>m. np_name (fst m) = name) nikon_models")
  case None
  then show ?thesis using assms by (simp add: nikon_init_cam_def)
next
  case (Some m)
  then obtain prof reg where m: "m = (prof, reg)" by (cases m)
  let ?c0 = "cam\<lparr>nikon := zero_nikon\<lparr>nk_profile := Some prof, nk_capture_count := 1\<rparr>\<rparr>"
  obtain good c1 where c1: "parse_all_args e argv ?c0 = Inr (good, c1)"
    using assms(2) Some m by (auto simp: nikon_init_cam_def Let_def)
  have g1: "props_good c1" using parse_all_props [OF c1] assms(1) by (simp add: props_good_def)
  have reg: "props_good (reg c)" if "props_good c" for c
    using find_filter_Some [OF Some] models_good [OF that] m by (auto simp: nikon_models_def)
  from assms(2) show ?thesis unfolding nikon_init_cam_def Some m option.case prod.case Let_def c1
    using g1 by (auto simp: reg split: if_split_asm)
qed

lemma sony_init_good:
  assumes "props_good cam" "sony_init_cam e name argv cam = Inr (ok, cam')"
  shows "props_good cam'"
proof (cases "find (\<lambda>m. sp_name (fst m) = name) sony_models")
  case None
  then show ?thesis using assms by (simp add: sony_init_cam_def)
next
  case (Some m)
  then obtain prof reg where m: "m = (prof, reg)" by (cases m)
  let ?c0 = "cam\<lparr>sony := zero_sony\<lparr>so_profile := Some prof, so_capture_count := 1,
                so_focus_found := 1, so_object_in_memory := 0\<rparr>\<rparr>"
  obtain good c1 where c1: "parse_all_args e argv ?c0 = Inr (good, c1)"
    using assms(2) Some m by (auto simp: sony_init_cam_def Let_def)
  have g1: "props_good c1" using parse_all_props [OF c1] assms(1) by (simp add: props_good_def)
  have reg: "props_good (reg c)" if "props_good c" for c
    using find_filter_Some [OF Some] models_good [OF that] m by (auto simp: sony_models_def)
  from assms(2) show ?thesis unfolding sony_init_cam_def Some m option.case prod.case Let_def c1
    using g1 by (auto simp: reg split: if_split_asm)
qed

lemma find_prop_good: "props_good cam \<Longrightarrow> find_prop cam c = Some p \<Longrightarrow> prop_good p"
  by (auto simp: props_good_def find_prop_def dest: lookup_key_Some)

lemma holds_not_null: "holds t b \<Longrightarrow> is_null b = Inr False"
  by (auto simp: holds_def)

lemma propdesc_answer:
  assumes "session cam \<noteq> 0" "find_prop cam (sint c) = Some p" "prop_good p"
  shows "\<exists>bs. propdesc_dataset (pr_desc p) = Inr bs \<and> length bs = desc_len (pr_desc p)
    \<and> ptp_getdevicepropdesc_write hk cam (command 0x1014 t [c])
        = Inr (ptp_response (ptp_senddata cam 0x1014 bs) PTP_RC_OK [])"
proof -
  obtain bs where "propdesc_dataset (pr_desc p) = Inr bs" "length bs = desc_len (pr_desc p)"
    using propdesc_total assms(3) by (auto simp: prop_good_def)
  moreover have "is_null (pd_value (pr_desc p)) = Inr False" "is_null (factory_default_value (pr_desc p)) = Inr False"
    using assms(3) holds_not_null unfolding prop_good_def desc_ok_def by blast+
  ultimately show ?thesis using assms
    by (simp add: ptp_getdevicepropdesc_write_def handler_defs command_def param_def vcam_get_prop_desc_def
        prop_good_def)
qed


lemma rows_codes:
  "pr_code ` set (props (nikon_add_rows rows cam)) = pr_code ` set (props cam) \<union> (\<lambda>r. uint (fst r)) ` set rows"
  unfolding nikon_add_rows_def
proof (induction rows arbitrary: cam)
  case Nil
  then show ?case by simp
next
  case (Cons r rows)
  obtain c t rw v form where r: "r = (c, t, rw, v, form)" by (cases r)
  have "set (map pr_code (props (nikon_add_prop c t rw v form cam))) = insert (uint c) (pr_code ` set (props cam))"
    by (auto simp: nikon_add_prop_def vcam_register_prop_def upsert_keys plain_prop_def)
  then show ?case using Cons r by simp
qed

lemma demo_nikon_battery: "\<exists>p. find_prop (demo_nikon\<lparr>session := 1\<rparr>) 0x5001 = Some p"
proof -
  have "0x5001 \<in> pr_code ` set (props demo_nikon)"
    by (simp add: demo_nikon_def nikon_init_cam_def nikon_models_def from_inr_def Let_def
        nikon_register_model_z6_2_def rows_codes plain_prop_def)
  then have "find_prop (demo_nikon\<lparr>session := 1\<rparr>) 0x5001 \<noteq> None"
    by (simp add: find_prop_def lookup_key_None)
  then show ?thesis by blast
qed



section \<open>Setting and reading values\<close>

lemma set_data_plain:
  assumes "session cam \<noteq> 0" "find_prop cam (sint c) = Some p" "prop_good p" "GetSet (pr_desc p) \<noteq> PTP_AC_Invisible"
    and "v \<noteq> []"
  shows "ptp_setdevicepropvalue_write_data hk cam (command 0x1016 t [c]) v
    = Inr (ptp_response (set_desc (sint c) ((pr_desc p)\<lparr>pd_value := Mem v\<rparr>) cam) PTP_RC_OK [])"
proof -
  have "pd_value (pr_desc p) \<noteq> Wild" using assms(3) by (auto simp: prop_good_def desc_ok_def holds_def)
  then have "vcam_set_prop_data hk cam (sint c) v (length v)
      = Inr (0, set_desc (sint c) ((pr_desc p)\<lparr>pd_value := Mem v\<rparr>) cam)"
    using assms(2,3) set_prop_data_plain [of cam "sint c" p "length v" v hk] by (simp add: prop_good_def)
  then show ?thesis using assms
    by (simp add: ptp_setdevicepropvalue_write_data_def handler_defs command_def param_def vcam_get_prop_desc_def
        prop_good_def)
qed

lemma find_prop_response [simp]: "find_prop (ptp_response cam rc ps) c = find_prop cam c"
  by (simp add: find_prop_def)

lemma set_desc_fields [simp]:
  "session (set_desc c d cam) = session cam" "inbulk (set_desc c d cam) = inbulk cam"
  "seqnr (set_desc c d cam) = seqnr cam"
  by (simp_all add: set_desc_def)

text \<open>
  C18. Writing a well-formed value of its type to a property that is not invisible is answered
  \<open>OK\<close>; the next \<open>GetDevicePropValue\<close> sends back exactly the bytes written, and no other
  property has changed.
\<close>

theorem property_write_then_read:
  assumes "session cam \<noteq> 0" "find_prop cam (sint c) = Some p" "prop_good p" "GetSet (pr_desc p) \<noteq> PTP_AC_Invisible"
    and "val_ok (DataType (pr_desc p)) v"
  shows "\<exists>cam'. ptp_setdevicepropvalue_write_data hk cam (command 0x1016 t [c]) v = Inr cam'
    \<and> inbulk cam' = inbulk cam @ enc (RespC PTP_RC_OK (seqnr cam) [])
    \<and> ptp_getdevicepropvalue_write hk cam' (command 0x1015 t' [c])
        = Inr (ptp_response (ptp_senddata cam' 0x1015 v) PTP_RC_OK [])
    \<and> (\<forall>c'. c' \<noteq> sint c \<longrightarrow> find_prop cam' c' = find_prop cam c')"
proof -
  let ?d = "(pr_desc p)\<lparr>pd_value := Mem v\<rparr>"
  let ?c = "ptp_response (set_desc (sint c) ?d cam) PTP_RC_OK []"
  have v: "v \<noteq> []" using val_ok_pos [OF assms(5)] by auto
  have sz: "ptp_get_prop_size (Mem v) (DataType (pr_desc p)) = Inr (int (length v))"
    using prop_size_val [OF assms(5), of "[]"] by simp
  have t: "DataType (pr_desc p) \<noteq> PTP_TC_UNDEF"
    using assms(5) by (auto simp: val_ok_def scalar_width_def array_width_def)
  have f: "find_prop ?c (sint c) = Some (p\<lparr>pr_desc := ?d\<rparr>)" using assms(2) by (simp add: find_prop_set_desc)
  have "ptp_getdevicepropvalue_write hk ?c (command 0x1015 t' [c])
      = Inr (ptp_response (ptp_senddata ?c 0x1015 v) PTP_RC_OK [])"
    using assms(1,3,4) f sz t v
    by (simp add: ptp_getdevicepropvalue_write_def handler_defs command_def param_def vcam_get_prop_desc_def
        vcam_get_prop_data_def desc_size_def prop_good_def memcpy_blk_def read_n_def)
  then show ?thesis using set_data_plain [OF assms(1-4) v]
    by (intro exI [of _ ?c]) (simp add: find_prop_set_desc)
qed

text \<open>A camera with a 16-bit property.\<close>

definition demo_props :: vcam where
  "demo_props = vcam_register_prop 0x5005 (nikon_desc 0x5005 PTP_TC_UINT16 True ''5'' None) (demo_cam\<lparr>session := 1\<rparr>)"

lemma demo_props_find:
  "find_prop demo_props 0x5005 = Some (plain_prop 0x5005 (nikon_desc 0x5005 PTP_TC_UINT16 True ''5'' None))"
  by (simp add: demo_props_def find_prop_register)

lemma demo_props_good: "prop_good (plain_prop 0x5005 (nikon_desc 0x5005 PTP_TC_UINT16 True ''5'' None))"
proof -
  have g: "row_good (0x5005, PTP_TC_UINT16, True, ''5'', None)"
    by (simp add: row_good_def row_ok_def row_small_def has_form_def scalar_width_def form_text_def commas_def
        type_width_def)
  then show ?thesis using nikon_desc_small [OF g] nikon_desc_ok
    by (simp add: prop_good_def plain_prop_def row_good_def)
qed

theorem property_write_then_read_witness:
  "\<exists>cam'. ptp_setdevicepropvalue_write_data no_callbacks demo_props (command 0x1016 3 [0x5005]) [4, 1] = Inr cam'
    \<and> ptp_getdevicepropvalue_write no_callbacks cam' (command 0x1015 4 [0x5005])
        = Inr (ptp_response (ptp_senddata cam' 0x1015 [4, 1]) PTP_RC_OK [])"
  using property_write_then_read [OF _ _ demo_props_good, of demo_props "0x5005" "[4, 1]" no_callbacks 3 4] demo_props_find
  by (auto simp: demo_props_def plain_prop_def nikon_desc_def nikon_values_def typed_values_def zero_desc_def
      val_ok_def scalar_width_def)

text \<open>
  The length of a written value is not checked: a value shorter than its numeric type is
  stored and answered \<open>OK\<close>, and from then on reading the property's value or its description
  copies memory that was never written.
\<close>

theorem short_property_write_poisons:
  assumes "session cam \<noteq> 0" "find_prop cam (sint c) = Some p" "prop_good p" "GetSet (pr_desc p) \<noteq> PTP_AC_Invisible"
    and "scalar_width (DataType (pr_desc p)) = Some w" "0 < length v" "length v < w"
  shows "\<exists>cam'. ptp_setdevicepropvalue_write_data hk cam (command 0x1016 t [c]) v = Inr cam'
    \<and> inbulk cam' = inbulk cam @ enc (RespC PTP_RC_OK (seqnr cam) [])
    \<and> ptp_getdevicepropvalue_write hk cam' (command 0x1015 t' [c]) = Inl Undef
    \<and> ptp_getdevicepropdesc_write hk cam' (command 0x1014 t' [c]) = Inl Undef"
proof -
  let ?d = "(pr_desc p)\<lparr>pd_value := Mem v\<rparr>"
  let ?c = "ptp_response (set_desc (sint c) ?d cam) PTP_RC_OK []"
  have v: "v \<noteq> []" using assms(6) by auto
  have sz: "ptp_get_prop_size b (DataType (pr_desc p)) = Inr (int w)" for b
    using assms(5) by (auto simp: scalar_width_def ptp_get_prop_size_def split: if_split_asm)
  have t: "DataType (pr_desc p) \<noteq> PTP_TC_UNDEF"
    using assms(5) by (auto simp: scalar_width_def)
  have f: "find_prop ?c (sint c) = Some (p\<lparr>pr_desc := ?d\<rparr>)" using assms(2) by (simp add: find_prop_set_desc)
  obtain fd where fd: "factory_default_value (pr_desc p) = Mem fd" "val_ok (DataType (pr_desc p)) fd"
    using assms(3) by (auto simp: prop_good_def desc_ok_def holds_def)
  have "length fd = w" using prop_size_val [OF fd(2), of "[]"] sz by simp
  moreover have "ptp_getdevicepropvalue_write hk ?c (command 0x1015 t' [c]) = Inl Undef"
    using assms(1,3,4,7) f sz t
    by (simp add: ptp_getdevicepropvalue_write_def handler_defs command_def param_def vcam_get_prop_desc_def
        vcam_get_prop_data_def desc_size_def prop_good_def memcpy_blk_def read_n_def)
  ultimately show ?thesis using set_data_plain [OF assms(1-4) v] assms(1,3,7) f sz fd(1)
    by (intro exI [of _ ?c]) (simp add: ptp_getdevicepropdesc_write_def handler_defs command_def param_def
        vcam_get_prop_desc_def prop_good_def propdesc_dataset_def put_data_def memcpy_blk_def read_n_def)
qed

theorem short_property_write_poisons_witness:
  "\<exists>cam'. ptp_setdevicepropvalue_write_data no_callbacks demo_props (command 0x1016 3 [0x5005]) [4] = Inr cam'
    \<and> ptp_getdevicepropdesc_write no_callbacks cam' (command 0x1014 4 [0x5005]) = Inl Undef"
  using short_property_write_poisons [OF _ _ demo_props_good, of demo_props "0x5005" 2 "[4]" no_callbacks 3 4] demo_props_find
  by (auto simp: demo_props_def plain_prop_def nikon_desc_def nikon_values_def typed_values_def zero_desc_def
      scalar_width_def)

end
