(* ===== verification/Packet.thy ===== *)
theory Packet
  imports Dispatch
begin

text \<open>
  src/src/packet.c: the conversion between the USB containers the camera works on and PTP/IP
  packets. Packets are blocks of bytes; the structs of src/src/ptp.h are packed, so a field is a
  read at its offset. The specification side is the PTP/IP encoding of each kind of packet.
\<close>

section \<open>Operations\<close>

text \<open>C integer division rounds towards zero.\<close>

definition c_quot :: "int \<Rightarrow> int \<Rightarrow> int" where
  "c_quot a b = sgn a * sgn b * (\<bar>a\<bar> div \<bar>b\<bar>)"

text \<open>\<open>((int)length - header) / 4\<close>, the number of parameters behind a header.\<close>

definition param_length :: "u32 \<Rightarrow> int \<Rightarrow> int res" where
  "param_length len header = bnd (c_int (sint len - header)) (\<lambda>n. Inr (c_quot n 4))"

text \<open>The parameters: as many 32-bit words as the length says, copied from one block to another.\<close>

definition copy_params :: "int \<Rightarrow> byte list \<Rightarrow> byte list res" where
  "copy_params n src = (if n < 0 then Inl Undef else read_n (4 * nat n) src)"

definition conv_ip_cmd_packet_to_usb :: "byte list \<Rightarrow> byte list res" where
  "conv_ip_cmd_packet_to_usb buffer =
     bnd (get_32bit_le buffer) (\<lambda>len.
     bnd (param_length len 18) (\<lambda>n.
     bnd (get_32bit_le (drop 4 buffer)) (\<lambda>ty.
       if ty = PTPIP_COMMAND_REQUEST then
         bnd (get_32bit_le (drop 14 buffer)) (\<lambda>transaction.
         bnd (get_16bit_le (drop 12 buffer)) (\<lambda>cde.
         bnd (copy_params n (drop 18 buffer)) (\<lambda>params.
           Inr (put_32bit_le (word_of_int (12 + n * 4)) @ put_16bit_le PTP_PACKET_TYPE_COMMAND
                @ put_16bit_le cde @ put_32bit_le transaction @ params))))
       else Inl Exit)))"

text \<open>
  The start packet announces the payload length, the end packet holds the payload. The block is
  allocated with the length cut to an \<open>int\<close> and the copy uses all 64 bits of it. The out
  parameter \<open>outlength\<close> is not set.
\<close>

definition conv_ip_data_packets_to_usb :: "byte list \<Rightarrow> byte list \<Rightarrow> u16 \<Rightarrow> byte list res" where
  "conv_ip_data_packets_to_usb ds de opcode =
     bnd (ptp_read_u64 (drop 12 ds)) (\<lambda>(payload_length, _).
       if unat payload_length \<ge> 2 ^ 31 - 12 then Inl Undef
       else
         bnd (get_32bit_le (drop 8 ds)) (\<lambda>transaction.
         bnd (read_n (unat payload_length) (drop 12 de)) (\<lambda>payload.
           Inr (put_32bit_le (12 + ucast payload_length) @ put_16bit_le PTP_PACKET_TYPE_DATA
                @ put_16bit_le opcode @ put_32bit_le transaction @ payload))))"

text \<open>
  From the camera: a data container becomes a start and an end packet, a response becomes a
  14-byte response packet, without the parameters of the container. \<open>fresh\<close> are the four bytes
  of the field \<open>data_phase\<close> of a command packet, which is never written. \<open>None\<close> is the null
  pointer of an unknown type.
\<close>

definition conv_usb_packet_to_ip :: "byte list \<Rightarrow> byte list \<Rightarrow> byte list option res" where
  "conv_usb_packet_to_ip fresh buffer =
     bnd (get_32bit_le buffer) (\<lambda>len.
     bnd (param_length len 12) (\<lambda>n.
     bnd (get_16bit_le (drop 4 buffer)) (\<lambda>ty.
       if ty = PTP_PACKET_TYPE_DATA then
         bnd (c_int (sint len - 12)) (\<lambda>payload_length.
           if payload_length < 0 \<or> 32 + payload_length \<ge> 2 ^ 31 then Inl Undef
           else
             bnd (get_32bit_le (drop 8 buffer)) (\<lambda>transaction.
             bnd (read_n (nat payload_length) (drop 12 buffer)) (\<lambda>payload.
               Inr (Some
                 (put_32bit_le 20 @ put_32bit_le PTPIP_DATA_PACKET_START @ put_32bit_le transaction
                  @ put_64bit_le (word_of_int payload_length)
                  @ put_32bit_le (word_of_int (12 + payload_length)) @ put_32bit_le PTPIP_DATA_PACKET_END
                  @ put_32bit_le transaction @ payload)))))
       else if ty = PTP_PACKET_TYPE_RESPONSE then
         bnd (get_16bit_le (drop 6 buffer)) (\<lambda>cde.
         bnd (get_32bit_le (drop 8 buffer)) (\<lambda>transaction.
           Inr (Some (put_32bit_le 14 @ put_32bit_le PTPIP_COMMAND_RESPONSE @ put_16bit_le cde
                      @ put_32bit_le transaction))))
       else if ty = PTP_PACKET_TYPE_COMMAND then
         bnd (get_16bit_le (drop 6 buffer)) (\<lambda>cde.
         bnd (get_32bit_le (drop 8 buffer)) (\<lambda>transaction.
         bnd (copy_params n (drop 12 buffer)) (\<lambda>params.
           Inr (Some (put_32bit_le (word_of_int (18 + n * 4)) @ put_32bit_le PTPIP_COMMAND_REQUEST
                      @ fresh @ put_16bit_le cde @ put_32bit_le transaction @ params)))))
       else Inr None)))"

section \<open>PTP/IP packets\<close>

text \<open>What an initiator sends for a command and for the data of a command.\<close>

definition ip_command :: "u32 \<Rightarrow> u16 \<Rightarrow> u32 \<Rightarrow> u32 list \<Rightarrow> byte list" where
  "ip_command phase c t ps = put_32bit_le (word_of_nat (18 + 4 * length ps)) @ put_32bit_le PTPIP_COMMAND_REQUEST
     @ put_32bit_le phase @ put_16bit_le c @ put_32bit_le t @ concat (map put_32bit_le ps)"

definition ip_start :: "u32 \<Rightarrow> nat \<Rightarrow> byte list" where
  "ip_start t n = put_32bit_le 20 @ put_32bit_le PTPIP_DATA_PACKET_START @ put_32bit_le t
     @ put_64bit_le (word_of_nat n)"

definition ip_end :: "u32 \<Rightarrow> byte list \<Rightarrow> byte list" where
  "ip_end t d = put_32bit_le (word_of_nat (12 + length d)) @ put_32bit_le PTPIP_DATA_PACKET_END
     @ put_32bit_le t @ d"

text \<open>What the initiator gets for one container of the camera.\<close>

fun ip_reply :: "container \<Rightarrow> byte list" where
  "ip_reply (DataC c t p) = ip_start t (length p) @ ip_end t p"
| "ip_reply (RespC c t ps) = put_32bit_le 14 @ put_32bit_le PTPIP_COMMAND_RESPONSE @ put_16bit_le c
     @ put_32bit_le t"

section \<open>Facts\<close>

lemma drop_ip [simp]:
  "drop 8 (put_32bit_le a @ put_32bit_le b @ r) = r"
  "drop 12 (put_32bit_le a @ put_32bit_le b @ put_32bit_le c @ r) = r"
  "drop 14 (put_32bit_le a @ put_32bit_le b @ put_32bit_le c @ put_16bit_le d @ r) = r"
  "drop 18 (put_32bit_le a @ put_32bit_le b @ put_32bit_le c @ put_16bit_le d @ put_32bit_le e @ r) = r"
  by (simp_all add: put_32bit_le_def put_16bit_le_def)

lemma params_len: "length (concat (map put_32bit_le ps)) = 4 * length ps"
  by (induction ps) simp_all

lemma quot_params: "c_quot (4 * int n) 4 = int n"
  by (cases n) (simp_all add: c_quot_def sgn_if)

lemma param_length_small:
  "h + 4 * n < 2 ^ 31 \<Longrightarrow> param_length (word_of_nat (h + 4 * n)) (int h) = Inr (int n)"
  by (simp add: param_length_def sint_small c_int_def quot_params del: of_nat_add of_nat_mult)
     (simp add: quot_params)

text \<open>Each conversion takes the initiator's packet to the container it stands for, and back.\<close>

lemma conv_command:
  assumes "18 + 4 * length ps < 2 ^ 31"
  shows "conv_ip_cmd_packet_to_usb (ip_command phase c t ps) = Inr (enc_cmd c t ps)"
  using param_length_small [of 18 "length ps"] assms
  by (simp add: conv_ip_cmd_packet_to_usb_def ip_command_def copy_params_def params_len enc_cmd_def
      read_n_def del: of_nat_add of_nat_mult) (simp add: mult.commute)

lemma conv_data:
  assumes "length d < 2 ^ 31 - 12"
  shows "conv_ip_data_packets_to_usb (ip_start t (length d)) (ip_end t' d) c = Inr (enc_data c t d)"
proof -
  have "unat (word_of_nat (length d) :: u64) = length d"
    using assms by (simp add: unsigned_of_nat take_bit_nat_eq_self)
  moreover have "(ucast (word_of_nat (length d) :: u64) :: u32) = word_of_nat (length d)"
    using assms by (simp add: unsigned_ucast_eq word_eq_iff_unsigned unsigned_of_nat take_bit_nat_eq_self)
  ultimately show ?thesis using assms read_put_64 [of "word_of_nat (length d)" "[]"]
    by (simp add: conv_ip_data_packets_to_usb_def ip_start_def ip_end_def enc_data_def read_n_def)
qed

lemma conv_container:
  assumes "container_len k + 20 < 2 ^ 31"
  shows "conv_usb_packet_to_ip fresh (enc k) = Inr (Some (ip_reply k))"
proof (cases k)
  case (DataC c t p)
  have "length p + 12 < 2 ^ 31" using assms DataC by (simp add: container_len_def)
  then have "sint (word_of_nat (length p + 12) :: u32) = int (length p) + 12"
    by (simp add: sint_small del: of_nat_add)
  then show ?thesis using assms DataC
    by (simp add: conv_usb_packet_to_ip_def param_length_def c_int_def read_n_def ip_start_def ip_end_def
        container_len_def del: of_nat_add) (simp add: add.commute)
next
  case (RespC c t ps)
  then have "length ps * 4 + 12 < 2 ^ 31" using assms by (simp add: container_len_def)
  then show ?thesis using RespC
    by (simp add: conv_usb_packet_to_ip_def param_length_def sint_small c_int_def del: of_nat_add of_nat_mult)
qed

lemma conv_command_back:
  assumes "18 + 4 * length ps < 2 ^ 31"
  shows "conv_usb_packet_to_ip (put_32bit_le phase) (enc_cmd c t ps) = Inr (Some (ip_command phase c t ps))"
  using param_length_small [of 12 "length ps"] assms
  by (simp add: conv_usb_packet_to_ip_def enc_cmd_def ip_command_def copy_params_def params_len
      read_n_def del: of_nat_add of_nat_mult) (simp add: mult.commute)

end
