(* ===== verification/Ptpip.thy ===== *)
theory Ptpip
  imports Packet
begin

text \<open>
  src/src/ptpip.c: the PTP/IP server in front of the camera. It receives a packet from the
  initiator, converts it (packet.c) and writes it to the camera, then reads the camera's answer
  and sends it converted back. The socket is not part of the sources: a connection is what the
  successive \<open>recv\<close> calls can find, what \<open>send\<close> has accepted, and how much each \<open>send\<close> takes.
\<close>

section \<open>The connection\<close>

text \<open>
  A segment is what the network has delivered in one piece; a \<open>recv\<close> returns bytes of one
  segment, at most as many as asked for, and leaves the rest. An empty segment stands for a
  \<open>recv\<close> that returns 0, and so does the end of the stream. \<open>Fail\<close> is an error.
\<close>

datatype segment = Seg "byte list" | Fail

record conn =
  rx :: "segment list"
  tx :: "byte list"
  sends :: nat
  accepts :: "nat \<Rightarrow> nat \<Rightarrow> int"

definition recv :: "conn \<Rightarrow> nat \<Rightarrow> int \<times> byte list \<times> conn" where
  "recv c n = (case rx c of
     [] \<Rightarrow> (0, [], c)
   | Fail # r \<Rightarrow> (-1, [], c\<lparr>rx := r\<rparr>)
   | Seg s # r \<Rightarrow> (int (length (take n s)), take n s,
                   c\<lparr>rx := (if length s \<le> n then r else Seg (drop n s) # r)\<rparr>))"

text \<open>\<open>send\<close> returns how much it took; the n-th call decides with \<open>accepts c n\<close>.\<close>

definition send :: "conn \<Rightarrow> byte list \<Rightarrow> int \<times> conn" where
  "send c d = (let r = accepts c (sends c) (length d)
     in (r, c\<lparr>tx := tx c @ take (nat r) d, sends := sends c + 1\<rparr>))"

section \<open>Operations\<close>

text \<open>\<open>struct Priv\<close> of the server, its camera and its connection.\<close>

record server =
  srv_cam :: vcam
  socket_init_resp :: "byte list"
  left_of_init_packet :: nat
  first_write :: bool
  srv_conn :: conn

text \<open>A number of bytes that was computed as an \<open>int\<close>; a negative one is a huge \<open>memcpy\<close>.\<close>

definition ptpip_cmd_read :: "server \<Rightarrow> int \<Rightarrow> (byte list \<times> server) res" where
  "ptpip_cmd_read s n =
     (if n < 0 then Inl Undef
      else let (bs, cam) = vcam_read (srv_cam s) (nat n) in Inr (bs, s\<lparr>srv_cam := cam\<rparr>))"

text \<open>The first write of a connection is only remembered, whatever it holds.\<close>

definition ptpip_cmd_write :: "run_write \<Rightarrow> run_data \<Rightarrow> server \<Rightarrow> byte list \<Rightarrow> nat \<Rightarrow> (nat \<times> server) res" where
  "ptpip_cmd_write rw rwd s to len =
     (if first_write s then Inr (len, s\<lparr>first_write := False\<rparr>)
      else bnd (read_n len to) (\<lambda>d. bnd (vcam_write rw rwd (srv_cam s) d) (\<lambda>cam.
        Inr (len, s\<lparr>srv_cam := cam\<rparr>))))"

text \<open>
  The size of a packet: up to ten attempts while \<open>recv\<close> returns 0. The result is what \<open>recv\<close>
  returned last and the bytes it stored.
\<close>

fun recv_length :: "nat \<Rightarrow> conn \<Rightarrow> int \<times> byte list \<times> conn" where
  "recv_length 0 c = (0, [], c)"
| "recv_length (Suc tries) c =
     (let (size, d, c') = recv c 4 in if size = 0 then recv_length tries c' else (size, d, c'))"

text \<open>
  The rest of the packet is one more \<open>recv\<close> of \<open>packet_length - 4\<close> bytes into a block with that
  much room and four bytes more. A length below 4 asks for a huge amount.
\<close>

definition rest_size :: "nat \<Rightarrow> nat" where
  "rest_size pl = (if 4 \<le> pl then pl - 4 else 2 ^ 64 - (4 - pl))"

definition tcp_receive_single_packet :: "conn \<Rightarrow> ((byte list \<times> nat) option \<times> conn) res" where
  "tcp_receive_single_packet c =
     (let (size, d, c) = recv_length 10 c in
      if size \<noteq> 4 then Inr (None, c)
      else
        bnd (get_32bit_le d) (\<lambda>packet_length.
          let pl = unat packet_length; (got, body, c) = recv c (rest_size pl)
          in if length body > pl then Inl Undef
             else if 4 + got \<noteq> int pl then Inr (None, c)
             else Inr (Some (d @ body, pl), c)))"

text \<open>
  The data phase: the start packet, the end packet, and one data container to the camera. The
  length given to the camera is still the one of the end packet.
\<close>

definition receive_data ::
    "run_write \<Rightarrow> run_data \<Rightarrow> server \<Rightarrow> u16 \<Rightarrow> (int \<times> server) res" where
  "receive_data rw rwd s opcode =
     bnd (tcp_receive_single_packet (srv_conn s)) (\<lambda>(ds, c). let s = s\<lparr>srv_conn := c\<rparr> in case ds of
       None \<Rightarrow> Inr (-1, s)
     | Some (ds, _) \<Rightarrow> bnd (get_32bit_le (drop 4 ds)) (\<lambda>ty.
         if ty \<noteq> PTPIP_DATA_PACKET_START then Inr (-1, s)
         else bnd (tcp_receive_single_packet (srv_conn s)) (\<lambda>(de, c). let s = s\<lparr>srv_conn := c\<rparr> in case de of
           None \<Rightarrow> Inr (-1, s)
         | Some (de, packet_length) \<Rightarrow> bnd (get_32bit_le (drop 4 de)) (\<lambda>ty.
             if ty \<noteq> PTPIP_DATA_PACKET_END then Inr (-1, s)
             else bnd (conv_ip_data_packets_to_usb ds de opcode) (\<lambda>new_buffer.
               bnd (ptpip_cmd_write rw rwd s new_buffer packet_length) (\<lambda>(rc, s).
                 Inr (if rc \<noteq> packet_length then -1 else 0, s)))))))"

definition tcp_receive_all :: "run_write \<Rightarrow> run_data \<Rightarrow> server \<Rightarrow> (int \<times> server) res" where
  "tcp_receive_all rw rwd s =
     bnd (tcp_receive_single_packet (srv_conn s)) (\<lambda>(p, c). let s = s\<lparr>srv_conn := c\<rparr> in case p of
       None \<Rightarrow> Inr (-1, s)
     | Some (buffer, packet_length) \<Rightarrow> bnd (get_32bit_le (drop 4 buffer)) (\<lambda>ty.
         if ty = PTPIP_INIT_COMMAND_REQ then
           bnd (ptpip_cmd_write rw rwd s buffer packet_length) (\<lambda>(_, s). Inr (0, s))
         else
           bnd (if ty = PTPIP_COMMAND_REQUEST then
                  bnd (conv_ip_cmd_packet_to_usb buffer) (\<lambda>new_buffer.
                  bnd (ptpip_cmd_write rw rwd s new_buffer (length new_buffer)) (\<lambda>(rc, s).
                    Inr (rc = length new_buffer, s)))
                else Inr (True, s)) (\<lambda>(ok, s).
             if \<not> ok then Inr (-1, s)
             else
               bnd (get_32bit_le (drop 8 buffer)) (\<lambda>data_phase.
                 if data_phase = 2 then
                   bnd (get_16bit_le (drop 12 buffer)) (\<lambda>cde. receive_data rw rwd s cde)
                 else Inr (0, s)))))"

text \<open>One container of the camera's answer; \<open>None\<close> when the camera has less than it announced.\<close>

definition ptpip_cmd_read_single_packet :: "server \<Rightarrow> (byte list option \<times> server) res" where
  "ptpip_cmd_read_single_packet s =
     bnd (ptpip_cmd_read s 4) (\<lambda>(d, s).
       if length d \<noteq> 4 then Inr (None, s)
       else
         bnd (get_32bit_le d) (\<lambda>packet_length.
         bnd (ptpip_cmd_read s (sint (packet_length - 4))) (\<lambda>(body, s).
           if word_of_nat (length body) \<noteq> packet_length - 4 then Inr (None, s)
           else Inr (Some (d @ body), s))))"

text \<open>
  One container converted and sent. The result is the container, or \<open>None\<close> for a failure; a
  null packet of an unknown type is passed to \<open>send\<close>.
\<close>

definition send_container :: "byte list \<Rightarrow> server \<Rightarrow> (byte list option \<times> server) res" where
  "send_container fresh s =
     bnd (ptpip_cmd_read_single_packet s) (\<lambda>(p, s). case p of
       None \<Rightarrow> Inr (None, s)
     | Some buffer \<Rightarrow>
         bnd (bnd (conv_usb_packet_to_ip fresh buffer) deref) (\<lambda>new_buffer.
           let (size, c) = send (srv_conn s) new_buffer; s = s\<lparr>srv_conn := c\<rparr>
           in Inr (if size \<le> 0 then None else Some buffer, s)))"

definition tcp_send_all :: "byte list \<Rightarrow> server \<Rightarrow> (int \<times> server) res" where
  "tcp_send_all fresh s =
     (if left_of_init_packet s \<noteq> 0 then
        bnd (read_n (left_of_init_packet s) (socket_init_resp s)) (\<lambda>hello.
          let (size, c) = send (srv_conn s) hello; s = s\<lparr>srv_conn := c\<rparr>
          in if size \<le> 0 then Inr (-1, s)
             else Inr (0, s\<lparr>left_of_init_packet := left_of_init_packet s - nat size\<rparr>))
      else
        bnd (send_container fresh s) (\<lambda>(p, s). case p of
          None \<Rightarrow> Inr (-1, s)
        | Some buffer \<Rightarrow>
            bnd (get_16bit_le (drop 4 buffer)) (\<lambda>ty.
            bnd (get_16bit_le (drop 6 buffer)) (\<lambda>cde.
              if ty = PTP_PACKET_TYPE_DATA \<and> cde \<noteq> 0 then
                bnd (send_container fresh s) (\<lambda>(p, s). Inr (if p = None then -1 else 0, s))
              else Inr (0, s)))))"

text \<open>
  What reaches the camera of what the network delivers gets less with every packet received, so
  the server loop ends: it has no other exit than a failure.
\<close>

fun backlog :: "segment list \<Rightarrow> nat" where
  "backlog [] = 0"
| "backlog (Fail # r) = Suc (backlog r)"
| "backlog (Seg s # r) = Suc (length s) + backlog r"

lemma recv_backlog: "recv c n = (k, d, c') \<Longrightarrow> backlog (rx c') + length d \<le> backlog (rx c)"
  by (auto simp: recv_def split: list.splits segment.splits)

lemma recv_length_backlog: "recv_length t c = (k, d, c') \<Longrightarrow> backlog (rx c') + length d \<le> backlog (rx c)"
proof (induction t arbitrary: c)
  case (Suc t)
  obtain k1 d1 c1 where r: "recv c 4 = (k1, d1, c1)" by (cases "recv c 4")
  with Suc.prems Suc.IH [of c1] recv_backlog [OF r] show ?case by (auto split: if_splits)
qed simp

lemma receive_single_cases:
  assumes "tcp_receive_single_packet c = Inr (p, c')"
  obtains (short) k d where "recv_length 10 c = (k, d, c')" "p = None"
  | (body) d w got body c1 where "recv_length 10 c = (4, d, c1)" "get_32bit_le d = Inr w"
      "recv c1 (rest_size (unat w)) = (got, body, c')"
proof -
  obtain k d c1 where r: "recv_length 10 c = (k, d, c1)" by (cases "recv_length 10 c")
  show thesis
  proof (cases "k = 4")
    case False
    then show thesis using assms r short by (simp add: tcp_receive_single_packet_def)
  next
    case True
    then obtain w where w: "get_32bit_le d = Inr w"
      using assms r by (cases "get_32bit_le d") (simp_all add: tcp_receive_single_packet_def)
    obtain got bd c2 where "recv c1 (rest_size (unat w)) = (got, bd, c2)"
      by (cases "recv c1 (rest_size (unat w))")
    with True r w assms show thesis
      by (intro body [of d c1 w got bd]) (auto simp: tcp_receive_single_packet_def Let_def split: if_splits)
  qed
qed

lemma receive_single_backlog:
  assumes "tcp_receive_single_packet c = Inr (p, c')"
  shows "backlog (rx c') \<le> backlog (rx c) \<and> (p \<noteq> None \<longrightarrow> backlog (rx c') < backlog (rx c))"
  using assms
proof (cases rule: receive_single_cases)
  case (body d w got bd c1)
  from body(2) have "0 < length d" by (cases d) simp_all
  then show ?thesis using recv_length_backlog [OF body(1)] recv_backlog [OF body(3)] by linarith
qed (auto dest: recv_length_backlog)

lemma cmd_write_conn: "ptpip_cmd_write rw rwd s d n = Inr (rc, s') \<Longrightarrow> srv_conn s' = srv_conn s"
  by (auto simp: ptpip_cmd_write_def split: if_splits)

lemma receive_data_backlog:
  "receive_data rw rwd s cde = Inr (rc, s') \<Longrightarrow> backlog (rx (srv_conn s')) \<le> backlog (rx (srv_conn s))"
  by (auto simp: receive_data_def Let_def split: option.splits if_splits
      dest!: cmd_write_conn receive_single_backlog)

lemma receive_all_backlog:
  "tcp_receive_all rw rwd s = Inr (0, s') \<Longrightarrow> backlog (rx (srv_conn s')) < backlog (rx (srv_conn s))"
  by (fastforce simp: tcp_receive_all_def Let_def split: option.splits if_splits
      dest!: cmd_write_conn receive_single_backlog receive_data_backlog)

lemma send_rx [simp]: "rx (snd (send c d)) = rx c"
  by (simp add: send_def Let_def)

lemma cmd_read_conn: "ptpip_cmd_read s n = Inr (d, s') \<Longrightarrow> srv_conn s' = srv_conn s"
  by (auto simp: ptpip_cmd_read_def split: if_splits prod.splits)

lemma send_container_rx: "send_container fresh s = Inr (p, s') \<Longrightarrow> rx (srv_conn s') = rx (srv_conn s)"
  by (auto simp: send_container_def ptpip_cmd_read_single_packet_def send_def Let_def
      split: option.splits if_splits prod.splits dest!: cmd_read_conn)

lemma send_all_rx: "tcp_send_all fresh s = Inr (rc, s') \<Longrightarrow> rx (srv_conn s') = rx (srv_conn s)"
  by (auto simp: tcp_send_all_def send_def Let_def split: option.splits if_splits prod.splits
      dest!: send_container_rx)

section \<open>The server loop\<close>

text \<open>
  \<open>ptpip_generic_main\<close> after the connection was accepted. \<open>threads\<close> says whether the thread for
  the event socket can be created, which happens after the first exchange.
\<close>

function serve ::
    "run_write \<Rightarrow> run_data \<Rightarrow> byte list \<Rightarrow> bool \<Rightarrow> bool \<Rightarrow> server \<Rightarrow> (int \<times> server) res" where
  "serve rw rwd fresh threads started s =
     bnd (tcp_receive_all rw rwd s) (\<lambda>(rc, s1).
       if rc \<noteq> 0 then Inr (-1, s1)
       else
         bnd (tcp_send_all fresh s1) (\<lambda>(rc', s2).
           if rc' \<noteq> 0 then Inr (-1, s2)
           else if \<not> started \<and> \<not> threads then Inr (1, s2)
           else serve rw rwd fresh threads True s2))"
  by pat_completeness auto
termination
  by (relation "measure (\<lambda>(rw, rwd, fresh, threads, started, s). backlog (rx (srv_conn s)))")
     (auto dest!: receive_all_backlog send_all_rx)

declare serve.simps [simp del]

definition hello :: "byte list" where
  "hello = [0x2e, 0, 0, 0, 2, 0, 0, 0, 1, 0, 0, 0, 0, 0, 0, 0, 0, 0, 0, 0, 0, 1, 0, 0xbb,
     0xc1, 0x85, 0x9f, 0xab, 0x45, 0, 0x4f, 0, 0x53, 0, 0x54, 0, 0x36, 0, 0x7b, 0, 0, 0, 0, 0, 1, 0]"

definition ptpip_generic_main ::
    "run_write \<Rightarrow> run_data \<Rightarrow> byte list \<Rightarrow> bool \<Rightarrow> vcam \<Rightarrow> conn option \<Rightarrow> (int \<times> server) res" where
  "ptpip_generic_main rw rwd fresh threads cam accepted =
     (let s = \<lparr>srv_cam = cam, socket_init_resp = hello, left_of_init_packet = length hello,
               first_write = True, srv_conn = \<lparr>rx = [], tx = [], sends = 0, accepts = \<lambda>i n. -1\<rparr>\<rparr>
      in case accepted of
           None \<Rightarrow> Inr (-1, s)
         | Some c \<Rightarrow> serve rw rwd fresh threads False (s\<lparr>srv_conn := c\<rparr>))"

text \<open>The event socket: 12 bytes are read whatever they are, and acknowledged.\<close>

definition ack_event_socket :: "conn \<Rightarrow> int \<times> conn" where
  "ack_event_socket c =
     (let (size, d, c) = recv c 12 in
      if size \<noteq> 12 then (-1, c)
      else let (size, c) = send c (put_32bit_le 8 @ put_32bit_le PTPIP_INIT_EVENT_ACK)
           in (if size \<noteq> 8 then -1 else 0, c))"

section \<open>Exchanges\<close>

definition full_sends :: "conn \<Rightarrow> bool" where
  "full_sends c \<longleftrightarrow> (\<forall>i n. accepts c i n = int n)"

lemma send_full [simp]: "full_sends c \<Longrightarrow> send c d = (int (length d), c\<lparr>tx := tx c @ d, sends := sends c + 1\<rparr>)"
  by (simp add: send_def full_sends_def)

lemma full_sends_frame [simp]:
  "full_sends (c\<lparr>rx := r\<rparr>) = full_sends c" "full_sends (c\<lparr>tx := t\<rparr>) = full_sends c"
  "full_sends (c\<lparr>sends := n\<rparr>) = full_sends c"
  by (simp_all add: full_sends_def)

lemma recv_length_first:
  assumes "recv c 4 = (k, d, c')" "k \<noteq> 0"
  shows "recv_length 10 c = (k, d, c')"
proof -
  have "recv_length (Suc 9) c = (k, d, c')" by (simp only: recv_length.simps assms Let_def split_def) (simp add: assms(2))
  then show ?thesis by simp
qed

text \<open>A packet that states its own length, delivered in one segment, is received whole.\<close>

definition framed :: "byte list \<Rightarrow> bool" where
  "framed p \<longleftrightarrow> take 4 p = put_32bit_le (word_of_nat (length p)) \<and> 4 < length p \<and> length p < 2 ^ 32"

lemma framed_length: "framed p \<Longrightarrow> get_32bit_le (take 4 p) = Inr (word_of_nat (length p))
    \<and> unat (word_of_nat (length p) :: u32) = length p"
  by (simp add: framed_def unat_len32)

lemma receive_packet:
  assumes "rx c = Seg p # r" "framed p"
  shows "tcp_receive_single_packet c = Inr (Some (p, length p), c\<lparr>rx := r\<rparr>)"
proof -
  have p: "4 < length p" using assms(2) by (simp add: framed_def)
  then have "recv c 4 = (4, take 4 p, c\<lparr>rx := Seg (drop 4 p) # r\<rparr>)" using assms(1) by (simp add: recv_def)
  then have "recv_length 10 c = (4, take 4 p, c\<lparr>rx := Seg (drop 4 p) # r\<rparr>)" by (rule recv_length_first) simp
  moreover have "recv (c\<lparr>rx := Seg (drop 4 p) # r\<rparr>) (length p - 4) = (int (length p) - 4, drop 4 p, c\<lparr>rx := r\<rparr>)"
    using p by (simp add: recv_def of_nat_diff)
  ultimately show ?thesis using p framed_length [OF assms(2)]
    by (simp add: tcp_receive_single_packet_def rest_size_def Let_def)
qed

lemma ip_command_len: "length (ip_command phase c t ps) = 18 + 4 * length ps"
  by (simp add: ip_command_def params_len)

lemma ip_end_len: "length (ip_end t d) = 12 + length d" "length (ip_start t n) = 20"
  by (simp_all add: ip_end_def ip_start_def)

lemma framed_ip:
  "18 + 4 * length ps < 2 ^ 32 \<Longrightarrow> framed (ip_command phase c t ps)"
  "framed (ip_start t n)"
  "12 + length d < 2 ^ 32 \<Longrightarrow> framed (ip_end t d)"
  unfolding framed_def ip_command_len ip_end_len
  by (simp_all add: ip_command_def ip_start_def ip_end_def)

lemma ip_fields:
  "get_32bit_le (drop 4 (ip_command phase c t ps)) = Inr PTPIP_COMMAND_REQUEST"
  "get_32bit_le (drop 8 (ip_command phase c t ps)) = Inr phase"
  "get_16bit_le (drop 12 (ip_command phase c t ps)) = Inr c"
  "get_32bit_le (drop 4 (ip_start t n)) = Inr PTPIP_DATA_PACKET_START"
  "get_32bit_le (drop 4 (ip_end t d)) = Inr PTPIP_DATA_PACKET_END"
  by (simp_all add: ip_command_def ip_start_def ip_end_def)

lemma receive_all_command:
  assumes "rx (srv_conn s) = Seg (ip_command phase c t ps) # r" "\<not> first_write s" "18 + 4 * length ps < 2 ^ 31"
  shows "tcp_receive_all rw rwd s = bnd (vcam_write rw rwd (srv_cam s) (enc_cmd c t ps)) (\<lambda>cam.
    let s' = s\<lparr>srv_conn := (srv_conn s)\<lparr>rx := r\<rparr>, srv_cam := cam\<rparr>
    in if phase = 2 then receive_data rw rwd s' c else Inr (0, s'))"
proof -
  have "framed (ip_command phase c t ps)" using assms(3) by (intro framed_ip) simp
  then show ?thesis using assms conv_command [OF assms(3), of phase c t]
    by (cases "vcam_write rw rwd (srv_cam s) (enc_cmd c t ps)")
      (simp_all add: tcp_receive_all_def receive_packet ip_fields ptpip_cmd_write_def read_n_def Let_def)
qed

lemma receive_data_packets:
  assumes "rx (srv_conn s) = Seg (ip_start t (length d)) # Seg (ip_end t' d) # r" "\<not> first_write s"
    and "length d < 2 ^ 31 - 12"
  shows "receive_data rw rwd s c = bnd (vcam_write rw rwd (srv_cam s) (enc_data c t d)) (\<lambda>cam.
    Inr (0, s\<lparr>srv_conn := (srv_conn s)\<lparr>rx := r\<rparr>, srv_cam := cam\<rparr>))"
proof -
  have "framed (ip_end t' d)" using assms(3) by (intro framed_ip) simp
  moreover have "length (enc_data c t d) = length (ip_end t' d)" by (simp add: enc_data_def ip_end_def)
  ultimately show ?thesis using assms conv_data [OF assms(3), of t t' c]
    by (cases "vcam_write rw rwd (srv_cam s) (enc_data c t d)")
      (simp_all add: receive_data_def receive_packet framed_ip ip_fields ptpip_cmd_write_def read_n_def Let_def)
qed

lemma receive_all_init:
  assumes "rx (srv_conn s) = Seg p # r" "framed p" "get_32bit_le (drop 4 p) = Inr PTPIP_INIT_COMMAND_REQ" "first_write s"
  shows "tcp_receive_all rw rwd s = Inr (0, s\<lparr>srv_conn := (srv_conn s)\<lparr>rx := r\<rparr>, first_write := False\<rparr>)"
  using assms by (simp add: tcp_receive_all_def receive_packet ptpip_cmd_write_def)

text \<open>
  A packet that the network delivers in two pieces, cut anywhere but right behind its length,
  is never put together.
\<close>

lemma split_packet_fails:
  assumes "rx c = Seg (take n p) # Seg (drop n p) # r" "0 < n" "n \<noteq> 4" "n < length p" "framed p"
  shows "\<exists>c'. tcp_receive_single_packet c = Inr (None, c')"
proof (cases "n < 4")
  case True
  then have "recv c 4 = (int n, take n p, c\<lparr>rx := Seg (drop n p) # r\<rparr>)" using assms(1,4) by (simp add: recv_def)
  then have "recv_length 10 c = (int n, take n p, c\<lparr>rx := Seg (drop n p) # r\<rparr>)"
    using assms(2) by (intro recv_length_first) auto
  then show ?thesis using assms(3) by (simp add: tcp_receive_single_packet_def)
next
  case False
  let ?c = "c\<lparr>rx := Seg (drop 4 (take n p)) # Seg (drop n p) # r\<rparr>"
  have n: "4 < n" using False assms(3) by simp
  have "recv c 4 = (4, take 4 p, ?c)" using assms(1,4) n by (simp add: recv_def)
  then have "recv_length 10 c = (4, take 4 p, ?c)" by (rule recv_length_first) simp
  moreover have "recv ?c (length p - 4) = (int n - 4, drop 4 (take n p), c\<lparr>rx := Seg (drop n p) # r\<rparr>)"
    using n assms(4) by (simp add: recv_def of_nat_diff)
  ultimately show ?thesis using n assms(4) framed_length [OF assms(5)]
    by (simp add: tcp_receive_single_packet_def rest_size_def Let_def)
qed

lemma recv_length_tx: "recv_length t c = (k, d, c') \<Longrightarrow> tx c' = tx c"
proof (induction t arbitrary: c)
  case (Suc t)
  obtain k1 d1 c1 where r: "recv c 4 = (k1, d1, c1)" by (cases "recv c 4")
  then have "tx c1 = tx c" by (auto simp: recv_def split: list.splits segment.splits)
  with r Suc show ?case by (auto split: if_splits)
qed simp

lemma receive_single_tx: "tcp_receive_single_packet c = Inr (p, c') \<Longrightarrow> tx c' = tx c"
  by (erule receive_single_cases)
    (auto simp: recv_def dest: recv_length_tx split: list.splits segment.splits)

text \<open>The camera's side: a container it has ready is read whole and sent converted.\<close>

lemma enc_header: "\<exists>b. enc k = put_32bit_le (word_of_nat (container_len k)) @ b \<and> length b = container_len k - 4"
  by (cases k) (auto simp: container_len_def params_len simp del: of_nat_add of_nat_mult)

lemma enc_type:
  "get_16bit_le (drop 4 (enc k)) = Inr (if is_resp k then 3 else 2)"
  "get_16bit_le (drop 6 (enc k)) = Inr (k_code k)"
  by (cases k; simp)+

lemma send_container_reply:
  assumes "inbulk (srv_cam s) = enc k @ r" "container_len k + 20 < 2 ^ 31" "full_sends (srv_conn s)"
  shows "send_container fresh s = Inr (Some (enc k), s\<lparr>srv_cam := (srv_cam s)\<lparr>inbulk := r\<rparr>,
    srv_conn := (srv_conn s)\<lparr>tx := tx (srv_conn s) @ ip_reply k, sends := sends (srv_conn s) + 1\<rparr>\<rparr>)"
proof -
  let ?n = "container_len k"
  obtain b where b: "enc k = put_32bit_le (word_of_nat ?n) @ b" "length b = ?n - 4" using enc_header by blast
  have n: "12 \<le> ?n" by (cases k) (simp_all add: container_len_def)
  have "(word_of_nat ?n - 4 :: u32) = word_of_nat (?n - 4)" using n by (simp add: of_nat_diff)
  moreover have "sint (word_of_nat (?n - 4) :: u32) = int (?n - 4)" using assms(2) by (intro sint_small) simp
  ultimately have "ptpip_cmd_read_single_packet s = Inr (Some (enc k), s\<lparr>srv_cam := (srv_cam s)\<lparr>inbulk := r\<rparr>\<rparr>)"
    using assms(1) b by (simp add: ptpip_cmd_read_single_packet_def ptpip_cmd_read_def vcam_read_def Let_def)
  moreover have "0 < length (ip_reply k)" by (cases k) (simp_all add: ip_start_def)
  ultimately show ?thesis using assms(2,3) by (simp add: send_container_def conv_container)
qed

text \<open>The replies the server can pass on in one exchange.\<close>

definition ip_ok :: "container list \<Rightarrow> bool" where
  "ip_ok ks \<longleftrightarrow> ks \<noteq> [] \<and> reply ks \<and>
     (\<forall>k\<in>set ks. container_len k + 20 < 2 ^ 31 \<and> (is_resp k \<or> k_code k \<noteq> 0))"

lemma send_all_reply:
  assumes "inbulk (srv_cam s) = enc_all ks" "ip_ok ks" "full_sends (srv_conn s)" "left_of_init_packet s = 0"
  shows "tcp_send_all fresh s = Inr (0, s\<lparr>srv_cam := (srv_cam s)\<lparr>inbulk := []\<rparr>,
    srv_conn := (srv_conn s)\<lparr>tx := tx (srv_conn s) @ concat (map ip_reply ks), sends := sends (srv_conn s) + length ks\<rparr>\<rparr>)"
  using assms(1,2)
proof (cases ks rule: reply.cases)
  case (2 k)
  then show ?thesis using assms send_container_reply [of s k "[]" fresh]
    by (simp add: tcp_send_all_def ip_ok_def enc_type)
next
  case (3 d k)
  let ?s = "s\<lparr>srv_cam := (srv_cam s)\<lparr>inbulk := enc k\<rparr>,
    srv_conn := (srv_conn s)\<lparr>tx := tx (srv_conn s) @ ip_reply d, sends := sends (srv_conn s) + 1\<rparr>\<rparr>"
  from 3 assms show ?thesis
    using send_container_reply [of s d "enc k" fresh] send_container_reply [of ?s k "[]" fresh]
    by (auto simp: tcp_send_all_def ip_ok_def enc_type)
qed (auto simp: ip_ok_def)

section \<open>Conversations\<close>

text \<open>
  The reference: the same commands written to the camera as USB containers, its answer read
  after each of them. \<open>kss\<close> are the answers and \<open>cam'\<close> the camera at the end.
\<close>

fun talks :: "run_write \<Rightarrow> run_data \<Rightarrow> vcam \<Rightarrow> (u16 \<times> u32 \<times> u32 list) list \<Rightarrow> container list list \<Rightarrow> vcam \<Rightarrow> bool" where
  "talks rw rwd cam [] [] cam' = (cam' = cam)"
| "talks rw rwd cam ((c, t, ps) # cs) (ks # kss) cam' =
     (18 + 4 * length ps < 2 ^ 31 \<and> ip_ok ks \<and>
      (case vcam_write rw rwd cam (enc_cmd c t ps) of
         Inl e \<Rightarrow> False
       | Inr c1 \<Rightarrow> inbulk c1 = enc_all ks \<and> talks rw rwd (c1\<lparr>inbulk := []\<rparr>) cs kss cam'))"
| "talks rw rwd cam _ _ cam' = False"

fun ip_packets :: "(u16 \<times> u32 \<times> u32 list) list \<Rightarrow> segment list" where
  "ip_packets [] = []"
| "ip_packets ((c, t, ps) # cs) = Seg (ip_command 1 c t ps) # ip_packets cs"

lemma receive_nothing:
  assumes "rx c = []"
  shows "tcp_receive_single_packet c = Inr (None, c)"
proof -
  have "recv_length n c = (0, [], c)" for n using assms by (induction n) (simp_all add: recv_def)
  then show ?thesis by (simp add: tcp_receive_single_packet_def)
qed

lemma serve_talks:
  assumes "talks rw rwd (srv_cam s) cmds kss cam'" "rx (srv_conn s) = ip_packets cmds"
    "full_sends (srv_conn s)" "left_of_init_packet s = 0" "\<not> first_write s"
  shows "\<exists>s'. serve rw rwd fresh True started s = Inr (-1, s') \<and> srv_cam s' = cam'
    \<and> tx (srv_conn s') = tx (srv_conn s) @ concat (map ip_reply (concat kss))"
  using assms
proof (induction cmds arbitrary: s kss started)
  case Nil
  then have "kss = []" "cam' = srv_cam s" by (cases kss; simp)+
  with Nil show ?case
    by (subst serve.simps) (simp add: tcp_receive_all_def receive_nothing)
next
  case (Cons x cmds)
  obtain c t ps where x: "x = (c, t, ps)" by (cases x)
  from Cons.prems(1) x obtain ks kss' where kss: "kss = ks # kss'" by (cases kss) simp_all
  from Cons.prems(1) x kss obtain c1 where c1: "vcam_write rw rwd (srv_cam s) (enc_cmd c t ps) = Inr c1"
    "inbulk c1 = enc_all ks" "ip_ok ks" "18 + 4 * length ps < 2 ^ 31" "talks rw rwd (c1\<lparr>inbulk := []\<rparr>) cmds kss' cam'"
    by (auto split: sum.splits)
  let ?s1 = "s\<lparr>srv_conn := (srv_conn s)\<lparr>rx := ip_packets cmds\<rparr>, srv_cam := c1\<rparr>"
  let ?s2 = "?s1\<lparr>srv_cam := c1\<lparr>inbulk := []\<rparr>, srv_conn := (srv_conn ?s1)
    \<lparr>tx := tx (srv_conn s) @ concat (map ip_reply ks), sends := sends (srv_conn s) + length ks\<rparr>\<rparr>"
  have r: "tcp_receive_all rw rwd s = Inr (0, ?s1)"
    using Cons.prems x c1 receive_all_command [of s 1 c t ps "ip_packets cmds" rw rwd] by simp
  have w: "tcp_send_all fresh ?s1 = Inr (0, ?s2)"
    using Cons.prems c1 by (subst send_all_reply) simp_all
  have "serve rw rwd fresh True started s = serve rw rwd fresh True True ?s2"
    by (subst serve.simps) (simp only: r w bnd_Inr split, simp)
  with Cons.IH [of ?s2 kss' True] Cons.prems c1(5) kss show ?case by simp
qed

end
