(* ===== verification/Ptpip_Theorems.thy ===== *)
theory Ptpip_Theorems
  imports Ptpip Demo Wire_Theorems
begin

text \<open>
  Properties of the PTP/IP server: a session over the network is a session over USB, what the
  conversion loses, and what the server does when the network cuts a packet.
\<close>

text \<open>
  C21. A PTP/IP connection that delivers an init packet and then command packets, each in one
  segment, to a camera that answers every command with a response or with data and a response:
  the camera goes through exactly the commands it would get over USB, the initiator gets the
  greeting followed by the conversion of every container the camera answers (a data container as
  start and end packet, a response without its parameters), in order; and when nothing more
  arrives the server ends with -1.
\<close>

theorem ptpip_session_is_usb_session:
  assumes "talks rw rwd cam cmds kss cam'" "full_sends c"
    and "rx c = Seg p # ip_packets cmds" "framed p" "get_32bit_le (drop 4 p) = Inr PTPIP_INIT_COMMAND_REQ"
  shows "\<exists>s. ptpip_generic_main rw rwd fresh True cam (Some c) = Inr (-1, s) \<and> srv_cam s = cam'
    \<and> tx (srv_conn s) = tx c @ hello @ concat (map ip_reply (concat kss))"
proof -
  let ?s0 = "\<lparr>srv_cam = cam, socket_init_resp = hello, left_of_init_packet = length hello, first_write = True, srv_conn = c\<rparr>"
  let ?c1 = "c\<lparr>rx := ip_packets cmds, tx := tx c @ hello, sends := sends c + 1\<rparr>"
  let ?s1 = "?s0\<lparr>srv_conn := c\<lparr>rx := ip_packets cmds\<rparr>, first_write := False\<rparr>"
  let ?s2 = "?s0\<lparr>srv_conn := ?c1, left_of_init_packet := 0, first_write := False\<rparr>"
  have r: "tcp_receive_all rw rwd ?s0 = Inr (0, ?s1)"
    using assms(3-5) by (subst receive_all_init [of _ p "ip_packets cmds"]) simp_all
  have "0 < length hello" by (simp add: hello_def)
  then have w: "tcp_send_all fresh ?s1 = Inr (0, ?s2)"
    using assms(2) by (simp add: tcp_send_all_def read_n_def)
  have "serve rw rwd fresh True False ?s0 = serve rw rwd fresh True True ?s2"
    by (subst serve.simps) (simp only: r w bnd_Inr split, simp)
  moreover obtain s where "serve rw rwd fresh True True ?s2 = Inr (-1, s)" "srv_cam s = cam'"
    "tx (srv_conn s) = tx c @ hello @ concat (map ip_reply (concat kss))"
    using serve_talks [of rw rwd ?s2 cmds kss cam' fresh True] assms(1,2) by auto
  ultimately show ?thesis by (simp add: ptpip_generic_main_def)
qed

text \<open>A demo connection: an init packet, OpenSession and a second OpenSession.\<close>

definition demo_init :: "byte list" where
  "demo_init = put_32bit_le 9 @ put_32bit_le PTPIP_INIT_COMMAND_REQ @ [0]"

definition demo_conn :: conn where
  "demo_conn = \<lparr>rx = Seg demo_init # ip_packets [(0x1002, 7, [1]), (0x1002, 8, [2])],
     tx = [], sends = 0, accepts = \<lambda>i n. int n\<rparr>"

theorem ptpip_session_is_usb_session_witness:
  "\<exists>s. ptpip_generic_main (op_handler no_callbacks demo_env) (data_handler no_callbacks demo_env) [] True demo_cam (Some demo_conn)
      = Inr (-1, s)
    \<and> tx (srv_conn s) = hello @ ip_reply (RespC PTP_RC_OK 7 []) @ ip_reply (RespC PTP_RC_SessionAlreadyOpened 8 [])"
proof -
  let ?c1 = "demo_cam\<lparr>seqnr := 7, session := 1\<rparr>"
  let ?c2 = "(ptp_response ?c1 PTP_RC_OK [])\<lparr>ptpcmd := command 0x1002 7 [1], inbulk := []\<rparr>"
  let ?c3 = "(ptp_response (?c2\<lparr>seqnr := 8\<rparr>) PTP_RC_SessionAlreadyOpened [])\<lparr>ptpcmd := command 0x1002 8 [2], inbulk := []\<rparr>"
  have open1: "cam_write demo_env demo_cam (enc_cmd 0x1002 7 [1]) = Inr ((ptp_response ?c1 PTP_RC_OK [])\<lparr>ptpcmd := command 0x1002 7 [1]\<rparr>)"
    by (simp add: cam_write_op ok_code_def ptp_opensession_write_def handler_defs command_def Let_def
        standard_opcodes_def mk_opcode_def)
  have open2: "cam_write demo_env ?c2 (enc_cmd 0x1002 8 [2]) = Inr ((ptp_response (?c2\<lparr>seqnr := 8\<rparr>) PTP_RC_SessionAlreadyOpened [])\<lparr>ptpcmd := command 0x1002 8 [2]\<rparr>)"
    by (simp add: cam_write_op ok_code_def ptp_opensession_write_def handler_defs command_def Let_def
        standard_opcodes_def mk_opcode_def)
  have t: "talks (op_handler no_callbacks demo_env) (data_handler no_callbacks demo_env) demo_cam
      [(0x1002, 7, [1]), (0x1002, 8, [2])] [[RespC PTP_RC_OK 7 []], [RespC PTP_RC_SessionAlreadyOpened 8 []]] ?c3"
    using open1 open2 by (simp add: cam_write_def ip_ok_def container_len_def)
  have f: "full_sends demo_conn" by (simp add: full_sends_def demo_conn_def)
  have "rx demo_conn = Seg demo_init # ip_packets [(0x1002, 7, [1]), (0x1002, 8, [2])]" by (simp add: demo_conn_def)
  moreover have "framed demo_init" "get_32bit_le (drop 4 demo_init) = Inr PTPIP_INIT_COMMAND_REQ"
    by (simp_all add: demo_init_def framed_def)
  ultimately have "\<exists>s. ptpip_generic_main (op_handler no_callbacks demo_env) (data_handler no_callbacks demo_env)
      [] True demo_cam (Some demo_conn) = Inr (-1, s) \<and> srv_cam s = ?c3
    \<and> tx (srv_conn s) = tx demo_conn @ hello @ concat (map ip_reply (concat [[RespC PTP_RC_OK 7 []], [RespC PTP_RC_SessionAlreadyOpened 8 []]]))"
    by (rule ptpip_session_is_usb_session [OF t f])
  then show ?thesis by (auto simp: demo_conn_def)
qed

text \<open>
  C22. A command announced with a data phase, followed by the start and the end packet of its
  data: the camera gets the command and then the data container, as if the host had written
  both over USB, and the data container carries the command's code and the start packet's
  transaction number whatever number the end packet has.
\<close>

theorem ptpip_data_phase:
  assumes "rx (srv_conn s) = Seg (ip_command 2 c t ps) # Seg (ip_start t1 (length d)) # Seg (ip_end t2 d) # r"
    and "\<not> first_write s" "18 + 4 * length ps < 2 ^ 31" "length d < 2 ^ 31 - 12"
  shows "tcp_receive_all rw rwd s = bnd (vcam_writes rw rwd (srv_cam s) [enc_cmd c t ps, enc_data c t1 d])
    (\<lambda>cam. Inr (0, s\<lparr>srv_conn := (srv_conn s)\<lparr>rx := r\<rparr>, srv_cam := cam\<rparr>))"
proof (cases "vcam_write rw rwd (srv_cam s) (enc_cmd c t ps)")
  case (Inr c1)
  let ?s1 = "s\<lparr>srv_conn := (srv_conn s)\<lparr>rx := Seg (ip_start t1 (length d)) # Seg (ip_end t2 d) # r\<rparr>, srv_cam := c1\<rparr>"
  have "receive_data rw rwd ?s1 c = bnd (vcam_write rw rwd (srv_cam ?s1) (enc_data c t1 d)) (\<lambda>cam.
    Inr (0, ?s1\<lparr>srv_conn := (srv_conn ?s1)\<lparr>rx := r\<rparr>, srv_cam := cam\<rparr>))"
    using assms(2,4) by (intro receive_data_packets) simp_all
  then show ?thesis using receive_all_command [OF assms(1-3), of rw rwd] Inr
    by (simp add: Let_def bnd_assoc)
qed (simp add: receive_all_command [OF assms(1-3)])

theorem ptpip_data_phase_witness:
  "tcp_receive_all (op_handler no_callbacks demo_env) (data_handler no_callbacks demo_env)
      \<lparr>srv_cam = demo_cam, socket_init_resp = hello, left_of_init_packet = 0, first_write = False,
       srv_conn = demo_conn\<lparr>rx := [Seg (ip_command 2 0xBEEF 1 [2]), Seg (ip_start 1 (length [3 :: byte, 4])), Seg (ip_end 9 [3, 4])]\<rparr>\<rparr>
    = bnd (cam_writes demo_env demo_cam [enc_cmd 0xBEEF 1 [2], enc_data 0xBEEF 1 [3, 4]])
       (\<lambda>cam. Inr (0, \<lparr>srv_cam = cam, socket_init_resp = hello, left_of_init_packet = 0, first_write = False,
          srv_conn = demo_conn\<lparr>rx := []\<rparr>\<rparr>))"
  by (subst ptpip_data_phase [where c = "0xBEEF" and t = 1 and ps = "[2]" and ?t1.0 = 1 and d = "[3, 4]" and ?t2.0 = 9 and r = "[]"])
     (simp_all add: cam_writes_def)

text \<open>
  C23. If the network cuts a packet in two, anywhere but right behind its 4-byte length, the
  server gives up: it ends with -1, whatever else is on the way, and the camera has not seen
  the packet. (The code reads the rest of a packet with a single \<open>recv\<close>.)
\<close>

theorem split_packet_ends_connection:
  assumes "rx (srv_conn s) = Seg (take n p) # Seg (drop n p) # r" "0 < n" "n \<noteq> 4" "n < length p" "framed p"
  shows "\<exists>s'. serve rw rwd fresh threads started s = Inr (-1, s') \<and> srv_cam s' = srv_cam s \<and> tx (srv_conn s') = tx (srv_conn s)"
proof -
  obtain c' where c: "tcp_receive_single_packet (srv_conn s) = Inr (None, c')"
    using split_packet_fails [OF assms] by blast
  then have "tx c' = tx (srv_conn s)" by (rule receive_single_tx)
  with c show ?thesis by (subst serve.simps) (simp add: tcp_receive_all_def Let_def)
qed

theorem split_packet_ends_connection_witness:
  "\<exists>s'. serve (op_handler no_callbacks demo_env) (data_handler no_callbacks demo_env) [] True True
      \<lparr>srv_cam = demo_cam, socket_init_resp = hello, left_of_init_packet = 0, first_write = False,
       srv_conn = demo_conn\<lparr>rx := [Seg (take 18 (ip_command 1 0x1002 7 [1])), Seg (drop 18 (ip_command 1 0x1002 7 [1]))]\<rparr>\<rparr>
    = Inr (-1, s') \<and> srv_cam s' = demo_cam"
proof -
  have "framed (ip_command 1 0x1002 7 [1])" by (rule framed_ip) simp
  then show ?thesis
    using split_packet_ends_connection [of "\<lparr>srv_cam = demo_cam, socket_init_resp = hello, left_of_init_packet = 0,
       first_write = False, srv_conn = demo_conn\<lparr>rx := [Seg (take 18 (ip_command 1 0x1002 7 [1])), Seg (drop 18 (ip_command 1 0x1002 7 [1]))]\<rparr>\<rparr>"
       18 "ip_command 1 0x1002 7 [1]" "[]"]
    by (simp add: ip_command_len) blast
qed

end
