(* ===== verification/Usb.thy ===== *)
theory Usb
  imports Dispatch Events
begin

text \<open>
  The USB device in front of the cameras: src/src/usbthing.c, the standard requests of
  src/src/usb/device.c and the string encoder of src/src/usb/usbstring.c. Descriptors are the
  packed structs of the USB specification; the fields the code never sets hold whatever the
  stack held, given by \<open>fresh\<close>.
\<close>

section \<open>Strings\<close>

text \<open>
  \<open>utf8_to_utf16le\<close> on the bytes of a C string. The byte behind the last one is the NUL, which
  is no continuation. The characters come out as 16-bit values; \<open>None\<close> is the return value -1.
\<close>

definition continuation :: "byte list \<Rightarrow> (byte \<times> byte list) option" where
  "continuation s = (case s of [] \<Rightarrow> None | c # r \<Rightarrow> if c AND 0xc0 \<noteq> 0xc0 then None else Some (c AND 0x3f, r))"

lemma continuation_shorter: "continuation s = Some (c, r) \<Longrightarrow> length r < length s"
  by (auto simp: continuation_def split: list.splits if_splits)

function utf8_to_utf16le :: "byte list \<Rightarrow> u16 list option" where
  "utf8_to_utf16le [] = Some []"
| "utf8_to_utf16le (c # s) =
     (if c AND 0x80 \<noteq> 0 then
        if c AND 0xe0 = 0xc0 then
          (case continuation s of None \<Rightarrow> None
           | Some (c1, s1) \<Rightarrow> map_option ((#) (push_bit 6 (ucast (c AND 0x1f)) OR ucast c1)) (utf8_to_utf16le s1))
        else if c AND 0xf0 = 0xe0 then
          (case continuation s of None \<Rightarrow> None
           | Some (c1, s1) \<Rightarrow> (case continuation s1 of None \<Rightarrow> None
              | Some (c2, s2) \<Rightarrow>
                  let uchar = push_bit 12 (ucast (c AND 0x0f)) OR push_bit 6 (ucast c1) OR ucast c2
                  in if 0xd800 \<le> uchar \<and> uchar \<le> 0xdfff then None
                     else map_option ((#) uchar) (utf8_to_utf16le s2)))
        else None
      else map_option ((#) (ucast c)) (utf8_to_utf16le s))"
  by pat_completeness auto
termination
  by (relation "measure length") (auto dest!: continuation_shorter)

section \<open>The device\<close>

text \<open>
  The cameras in the slots of \<open>struct Priv\<close>, and the static variable of \<open>urb_splitter\<close>, which
  all of them share.
\<close>

record usbthing =
  cams :: "vcam list"
  last_length :: u32

definition get_cam :: "usbthing \<Rightarrow> int \<Rightarrow> vcam res" where
  "get_cam u devn =
     (if devn \<ge> 5 \<or> devn < 0 then Inl Abort
      else if nat devn < length (cams u) then Inr (cams u ! nat devn) else Inl Undef)"

definition put_cam :: "int \<Rightarrow> vcam \<Rightarrow> usbthing \<Rightarrow> usbthing" where
  "put_cam devn cam u = u\<lparr>cams := (cams u)[nat devn := cam]\<rparr>"

text \<open>\<open>strcpy\<close> into a buffer of 127 characters.\<close>

definition strcpy127 :: "string \<Rightarrow> string res" where
  "strcpy127 s = (if length s < 127 then Inr s else Inl Undef)"

definition usb_get_string :: "usbthing \<Rightarrow> int \<Rightarrow> int \<Rightarrow> string res" where
  "usb_get_string u devn sid =
     (if sid = 1 then bnd (get_cam u devn) (\<lambda>cam. strcpy127 (manufac cam))
      else if sid = 2 then bnd (get_cam u devn) (\<lambda>cam. strcpy127 (model cam))
      else if sid = 3 then Inr ''123456''
      else Inr '''')"

text \<open>The descriptor without \<open>bDeviceProtocol\<close>, which the function leaves as it finds it.\<close>

definition usb_get_device_descriptor :: "usbthing \<Rightarrow> int \<Rightarrow> byte \<Rightarrow> byte list res" where
  "usb_get_device_descriptor u devn bDeviceProtocol =
     bnd (get_cam u devn) (\<lambda>cam.
       Inr ([18, 1] @ put_16bit_le 0x0200 @ [0, 0, bDeviceProtocol, 64] @ put_16bit_le (vendor_id cam)
            @ put_16bit_le (product_id cam) @ put_16bit_le 2 @ [1, 2, 3, 1]))"

definition usbt_get_device_qualifier_descriptor :: "usbthing \<Rightarrow> int \<Rightarrow> byte \<Rightarrow> byte \<Rightarrow> byte list res" where
  "usbt_get_device_qualifier_descriptor u devn bDeviceProtocol bRESERVED =
     bnd (usb_get_device_descriptor u devn bDeviceProtocol) (\<lambda>_.
       Inr ([10, 6] @ put_16bit_le 0x0200 @ [0, 0, bDeviceProtocol, 64, 1, bRESERVED]))"

definition endpoint :: "byte \<Rightarrow> byte \<Rightarrow> u16 \<Rightarrow> byte \<Rightarrow> byte list" where
  "endpoint addr attr maxp ival = [7, 5, addr, attr] @ put_16bit_le maxp @ [ival]"

definition interf0 :: "byte list" where
  "interf0 = [9, 4, 0, 0, 3, 6, 1, 1, 0]"

definition config :: "byte list" where
  "config = [9, 2] @ put_16bit_le 39 @ [1, 1, 0, 0xc0, 0x32] @ interf0
     @ endpoint 0x81 2 0x200 0 @ endpoint 0x2 2 0x200 0 @ endpoint 0x83 3 0x8 10"

definition usb_send_config_descriptor :: "int \<Rightarrow> byte list res" where
  "usb_send_config_descriptor i = (if i = 0 then Inr config else Inl Abort)"

text \<open>The entries of the table that no request reaches here, and the one that is never entered.\<close>

definition get_config_descriptor :: "byte list" where
  "get_config_descriptor = take 9 config"

definition get_interface_descriptor :: "byte list" where
  "get_interface_descriptor = interf0"

definition get_bos_descriptor :: "byte list" where
  "get_bos_descriptor = [5, 0x0f] @ put_16bit_le 0x16 @ [2]"

section \<open>Standard requests\<close>

text \<open>Bytes written over the front of the response buffer.\<close>

definition write_front :: "byte list \<Rightarrow> byte list \<Rightarrow> byte list res" where
  "write_front bs out = (if length bs \<le> length out then Inr (bs @ drop (length bs) out) else Inl Undef)"

text \<open>\<open>memcpy_padding\<close>: zeros over \<open>n_end\<close> bytes, then the bytes of the source.\<close>

definition memcpy_padding :: "byte list \<Rightarrow> nat \<Rightarrow> byte list \<Rightarrow> byte list res" where
  "memcpy_padding src n_end out = bnd (write_front (replicate n_end 0) out) (write_front src)"

definition string_desc :: "usbthing \<Rightarrow> int \<Rightarrow> nat \<Rightarrow> nat \<Rightarrow> byte list \<Rightarrow> byte list res" where
  "string_desc u devn sid len out =
     (if len > 0xff then Inl Abort
      else if sid = 0 then memcpy_padding [4, 3, 0x09, 0x04] len out
      else
        bnd (usb_get_string u devn (int sid)) (\<lambda>str.
          case utf8_to_utf16le (map byte_of str) of
            None \<Rightarrow> Inl Undef
          | Some us \<Rightarrow>
              if len < 2 \<or> length out < 2 then Inl Undef
              else bnd (memcpy_padding (concat (map put_16bit_le us)) (len - 2) (drop 2 out)) (\<lambda>rest.
                     Inr ([word_of_nat (2 + 2 * length str), 3] @ rest))))"

text \<open>
  \<open>get_desc\<close>: the table of names printed first has 24 entries, the assertion lets 50 pass. The
  result is the return value and the response buffer.
\<close>

definition get_desc :: "(nat \<Rightarrow> byte) \<Rightarrow> usbthing \<Rightarrow> int \<Rightarrow> nat \<Rightarrow> nat \<Rightarrow> byte list \<Rightarrow> (int \<times> byte list) res" where
  "get_desc fresh u devn val len out =
     (let ty = val div 256; index = val mod 256 in
      if ty > 0x31 then Inl Abort
      else if ty \<ge> 24 then Inl Undef
      else if ty = 3 then bnd (string_desc u devn index len out) (\<lambda>out. Inr (int len, out))
      else if ty = 1 then
        bnd (usb_get_device_descriptor u devn (fresh 0)) (\<lambda>d.
        bnd (memcpy_padding d len out) (\<lambda>out. Inr (int len, out)))
      else if ty = 6 then
        bnd (usbt_get_device_qualifier_descriptor u devn (fresh 0) (fresh 1)) (\<lambda>d.
        bnd (memcpy_padding d len out) (\<lambda>out. Inr (int len, out)))
      else if ty = 2 then
        bnd (usb_send_config_descriptor (int index)) (\<lambda>d.
        bnd (write_front d out) (\<lambda>out. Inr (int len, out)))
      else if ty = 4 then bnd (memcpy_padding interf0 len out) (\<lambda>out. Inr (0, out))
      else if ty = 5 then Inl Abort
      else if ty = 0x0a then bnd (memcpy_padding [4, 0x0a, 0, 0] len out) (\<lambda>out. Inr (0, out))
      else Inr (-1, out))"

text \<open>A setup packet: request type, request, value, index and length.\<close>

definition usbt_handle_control_request ::
    "(nat \<Rightarrow> byte) \<Rightarrow> usbthing \<Rightarrow> int \<Rightarrow> int \<Rightarrow> byte list \<Rightarrow> int \<Rightarrow> byte list \<Rightarrow> (int \<times> byte list) res" where
  "usbt_handle_control_request fresh u devn ep data len out =
     (if ep \<noteq> 0 then Inr (-1, out)
      else
        bnd (get_8bit_le (drop 1 data)) (\<lambda>bRequest.
          if bRequest = 6 then
            if len \<noteq> 8 then Inr (-1, out)
            else
              bnd (get_16bit_le (drop 2 data)) (\<lambda>wValue.
              bnd (get_16bit_le (drop 6 data)) (\<lambda>wLength.
                get_desc fresh u devn (unat wValue) (unat wLength) out))
          else if bRequest = 9 then Inr (0, out)
          else if bRequest = 0x0a \<or> bRequest = 0x0b then Inr (-1, out)
          else if bRequest = 0 then bnd (write_front [1, 0] out) (\<lambda>out. Inr (2, out))
          else Inl Abort))"

text \<open>The requests of the still image class come first.\<close>

definition handle_control ::
    "(nat \<Rightarrow> byte) \<Rightarrow> usbthing \<Rightarrow> int \<Rightarrow> int \<Rightarrow> byte list \<Rightarrow> int \<Rightarrow> byte list \<Rightarrow> (int \<times> byte list) res" where
  "handle_control fresh u devn ep data len out =
     bnd (get_8bit_le (drop 1 data)) (\<lambda>bRequest.
       if bRequest = 0x64 \<or> bRequest = 0x65 \<or> bRequest = 0x66 then Inr (0, out)
       else if bRequest = 0x67 then
         bnd (write_front (ptp_write_u16 0 @ ptp_write_u16 PTP_RC_OK) out) (\<lambda>out. Inr (4, out))
       else usbt_handle_control_request fresh u devn ep data len out)"

section \<open>Bulk and interrupt transfers\<close>

text \<open>
  \<open>urb_splitter\<close> for a host buffer of \<open>len\<close> bytes: the return value and the bytes stored in the
  buffer. The size of a new container is read from the four bytes stored first, so there have
  to be four; a size below 4 makes the second read's byte count negative.
\<close>

definition urb_max :: "int \<Rightarrow> int \<Rightarrow> int" where
  "urb_max mx len =
     (let max_packet = (if len > 512 then len else 512);
          mx = (if mx > max_packet then max_packet else mx)
      in if mx > len then len else mx)"

definition urb_splitter :: "usbthing \<Rightarrow> int \<Rightarrow> int \<Rightarrow> (int \<times> byte list \<times> usbthing) res" where
  "urb_splitter u devn len =
     bnd (get_cam u devn) (\<lambda>cam.
       if last_length u = 0 then
         if len < 4 then Inl Undef
         else
           let (hd, cam) = vcam_read cam 4 in
           bnd (get_32bit_le hd) (\<lambda>total.
             let mx = urb_max (sint total) len
             in if mx < 4 then Inl Undef
                else let (body, cam) = vcam_read cam (nat (mx - 4))
                     in Inr (mx, hd @ body, (put_cam devn cam u)\<lparr>last_length := total - word_of_int mx\<rparr>))
       else if len < 0 then Inl Undef
       else
         let mx = urb_max (uint (last_length u)) len;
             (body, cam) = vcam_read cam (nat mx)
         in Inr (mx, body, (put_cam devn cam u)\<lparr>last_length := last_length u - word_of_int mx\<rparr>))"

text \<open>\<open>handle_bulk\<close>: the return value, the bytes stored in the buffer, and the device.\<close>

definition handle_bulk ::
    "run_write \<Rightarrow> run_data \<Rightarrow> env \<Rightarrow> usbthing \<Rightarrow> int \<Rightarrow> int \<Rightarrow> byte list \<Rightarrow> int \<Rightarrow> (int \<times> byte list \<times> usbthing) res" where
  "handle_bulk rw rwd e u devn ep data len =
     (if ep = 0x2 then
        bnd (get_cam u devn) (\<lambda>cam.
        bnd (if len < 0 then Inl Undef else read_n (nat len) data) (\<lambda>d.
        bnd (vcam_write rw rwd cam d) (\<lambda>cam. Inr (len, [], put_cam devn cam u))))
      else if ep = 0x81 then urb_splitter u devn len
      else if ep = 0x83 then
        bnd (get_cam u devn) (\<lambda>cam.
          case vcam_readint e cam (nat len) 0 of
            (None, cam) \<Rightarrow> Inr (-20, [], put_cam devn cam u)
          | (Some d, cam) \<Rightarrow> if len < 0 then Inl Undef else Inr (int (length d), d, put_cam devn cam u))
      else Inl Abort)"

section \<open>Facts\<close>

lemma get_put_cam [simp]: "get_cam u devn = Inr cam \<Longrightarrow> get_cam (put_cam devn cam' u) devn = Inr cam'"
  by (auto simp: get_cam_def put_cam_def split: if_splits)

lemma put_cam_twice [simp]: "put_cam devn a (put_cam devn b u) = put_cam devn a u"
  by (simp add: put_cam_def)

lemma get_cam_length [simp]: "get_cam (u\<lparr>last_length := n\<rparr>) devn = get_cam u devn"
  by (simp add: get_cam_def)

lemma put_cam_length [simp]:
  "put_cam devn cam (u\<lparr>last_length := n\<rparr>) = (put_cam devn cam u)\<lparr>last_length := n\<rparr>"
  "last_length (put_cam devn cam u) = last_length u"
  by (simp_all add: put_cam_def)

lemma urb_max_min: "urb_max j len = min j len"
  by (simp add: urb_max_def Let_def min_def)

text \<open>
  One read of a host buffer of \<open>n\<close> bytes: inside of a container, and at the front of one.
\<close>

lemma word_minus_min: "(word_of_nat j - word_of_int (int (min j n)) :: u32) = word_of_nat (j - n)"
  by (cases "j \<le> n") (simp_all add: of_nat_diff min_def)

lemma splitter_rest:
  assumes "get_cam u devn = Inr cam" "last_length u = word_of_nat (length d)" "d \<noteq> []" "length d < 2 ^ 31"
    and "inbulk cam = d @ r" "0 < n"
  shows "urb_splitter u devn (int n) = Inr (int (min (length d) n), take n d,
    (put_cam devn (cam\<lparr>inbulk := drop n d @ r\<rparr>) u)\<lparr>last_length := word_of_nat (length d - n)\<rparr>)"
proof -
  let ?j = "length d"
  have u: "uint (word_of_nat ?j :: u32) = int ?j" using assms(4) by (simp add: unsigned_of_nat take_bit_nat_eq_self)
  then have nz: "(word_of_nat ?j :: u32) \<noteq> 0" using assms(3) by auto
  have m: "urb_max (int ?j) (int n) = int (min ?j n)" by (simp add: urb_max_min)
  have "vcam_read cam (min ?j n) = (take n d, cam\<lparr>inbulk := drop n d @ r\<rparr>)"
    using assms(5) by (simp add: vcam_read_def Let_def min_def)
  then show ?thesis using assms(1,2) nz word_minus_min [of ?j n]
    by (simp add: urb_splitter_def u m Let_def del: of_nat_min)
qed

lemma splitter_front:
  assumes "get_cam u devn = Inr cam" "last_length u = 0" "length d < 2 ^ 31" "4 \<le> length d"
    and "take 4 d = put_32bit_le (word_of_nat (length d))" "inbulk cam = d @ r" "4 \<le> n"
  shows "urb_splitter u devn (int n) = Inr (int (min (length d) n), take n d,
    (put_cam devn (cam\<lparr>inbulk := drop n d @ r\<rparr>) u)\<lparr>last_length := word_of_nat (length d - n)\<rparr>)"
proof -
  let ?j = "length d"
  have m: "urb_max (sint (word_of_nat ?j :: u32)) (int n) = int (min ?j n)"
    using assms(3) by (simp add: urb_max_min sint_small)
  have "vcam_read cam 4 = (take 4 d, cam\<lparr>inbulk := drop 4 d @ r\<rparr>)"
    using assms(4,6) by (simp add: vcam_read_def Let_def)
  moreover have "vcam_read (cam\<lparr>inbulk := drop 4 d @ r\<rparr>) (min ?j n - 4)
      = (take (n - 4) (drop 4 d), cam\<lparr>inbulk := drop n d @ r\<rparr>)"
    using assms(4,7) by (auto simp: vcam_read_def Let_def min_def)
  moreover have "take 4 d @ take (n - 4) (drop 4 d) = take n d"
    using take_add_drop [of 4 d "n - 4"] assms(7) by simp
  moreover have "nat (int (min ?j n) - 4) = min ?j n - 4" by simp
  ultimately show ?thesis using assms(1,2,4,5,7) word_minus_min [of ?j n]
    by (simp add: urb_splitter_def m Let_def del: of_nat_min)
qed

end
