(* ===== verification/Usb_Theorems.thy ===== *)
theory Usb_Theorems
  imports Usb Demo
begin

text \<open>
  Properties of the USB layer: how a container reaches the host in transfers, what happens when
  two cameras are read in turns, and which strings the descriptors can carry.
\<close>

section \<open>Bulk reads\<close>

text \<open>Reading \<open>m\<close> times with a host buffer of \<open>n\<close> bytes.\<close>

fun urb_reads :: "usbthing \<Rightarrow> int \<Rightarrow> nat \<Rightarrow> nat \<Rightarrow> (byte list list \<times> usbthing) res" where
  "urb_reads u devn n 0 = Inr ([], u)"
| "urb_reads u devn n (Suc m) = bnd (urb_splitter u devn (int n)) (\<lambda>(_, d, u).
     bnd (urb_reads u devn n m) (\<lambda>(ds, u). Inr (d # ds, u)))"

definition chunks :: "nat \<Rightarrow> nat \<Rightarrow> byte list \<Rightarrow> byte list list" where
  "chunks n m d = map (\<lambda>i. take n (drop (i * n) d)) [0..<m]"

lemma chunks_Suc: "chunks n (Suc m) d = take n d # chunks n m (drop n d)"
  by (simp add: chunks_def map_upt_Suc add.commute del: upt_Suc)

lemma concat_chunks: "length d \<le> m * n \<Longrightarrow> concat (chunks n m d) = d"
proof (induction m arbitrary: d)
  case (Suc m)
  then have "length (drop n d) \<le> m * n" by simp
  then show ?case using Suc.IH by (simp add: chunks_Suc)
qed (simp add: chunks_def)

lemma put_cam_self:
  assumes "get_cam u devn = Inr cam" "inbulk cam = r" "last_length u = n"
  shows "(put_cam devn (cam\<lparr>inbulk := r\<rparr>) u)\<lparr>last_length := n\<rparr> = u"
proof -
  have "cam\<lparr>inbulk := r\<rparr> = cam" using assms(2) by (cases cam) simp
  moreover have "cams u ! nat devn = cam" using assms(1) by (simp add: get_cam_def split: if_splits)
  ultimately show ?thesis using assms(3) by (cases u) (auto simp: put_cam_def list_update_id)
qed

lemma reads_rest:
  assumes "get_cam u devn = Inr cam" "last_length u = word_of_nat (length d)" "length d < 2 ^ 31"
    and "inbulk cam = d @ r" "0 < n" "length d \<le> m * n" "m * n < length d + n"
  shows "urb_reads u devn n m = Inr (chunks n m d, (put_cam devn (cam\<lparr>inbulk := r\<rparr>) u)\<lparr>last_length := 0\<rparr>)"
  using assms
proof (induction m arbitrary: u cam d)
  case 0
  then show ?case using put_cam_self [OF "0.prems"(1), of r 0] by (simp add: chunks_def)
next
  case (Suc m)
  then have d: "d \<noteq> []" by auto
  note s = splitter_rest [OF Suc.prems(1,2) d Suc.prems(3,4,5)]
  let ?u = "(put_cam devn (cam\<lparr>inbulk := drop n d @ r\<rparr>) u)\<lparr>last_length := word_of_nat (length d - n)\<rparr>"
  show ?case
  proof (cases "m * n < length (drop n d) + n")
    case True
    have "urb_reads ?u devn n m = Inr (chunks n m (drop n d),
        (put_cam devn ((cam\<lparr>inbulk := drop n d @ r\<rparr>)\<lparr>inbulk := r\<rparr>) ?u)\<lparr>last_length := 0\<rparr>)"
      using Suc.prems True by (intro Suc.IH) simp_all
    then show ?thesis using s by (simp add: chunks_Suc)
  next
    case False
    then have "m = 0" using Suc.prems(5,7) by (cases m) auto
    then show ?thesis using s Suc.prems(6) by (simp add: chunks_Suc) (simp add: chunks_def)
  qed
qed

lemma div_round_up:
  fixes l n :: nat
  assumes "0 < l" "0 < n"
  shows "l \<le> (l + n - 1) div n * n" "(l + n - 1) div n * n < l + n"
proof -
  define a where "a = l + n - 1"
  have "a div n * n + a mod n = a" "a mod n < n" using assms(2) by simp_all
  moreover have "a + 1 = l + n" using assms by (simp add: a_def)
  ultimately have "l \<le> a div n * n" "a div n * n < l + n" by linarith+
  then show "l \<le> (l + n - 1) div n * n" "(l + n - 1) div n * n < l + n" by (simp_all add: a_def)
qed

lemma enc_front: "4 \<le> length (enc k)" "take 4 (enc k) = put_32bit_le (word_of_nat (length (enc k)))"
  unfolding enc_len by (cases k; simp add: container_len_def add.commute)+

text \<open>
  C24. A container waiting for the host comes out in as many transfers as its length needs: with
  a host buffer of \<open>n\<close> bytes, each transfer but the last is full, together they are exactly the
  container, and the next read starts with the next container. No transfer carries bytes of two
  containers, so the host can tell the phases of a transaction apart.
\<close>

theorem container_arrives_in_own_transfers:
  assumes "get_cam u devn = Inr cam" "last_length u = 0" "inbulk cam = enc k @ r" "container_len k < 2 ^ 31"
    and "4 \<le> n" "m = (container_len k + n - 1) div n"
  shows "\<exists>ds. urb_reads u devn n m = Inr (ds, (put_cam devn (cam\<lparr>inbulk := r\<rparr>) u)\<lparr>last_length := 0\<rparr>)
    \<and> concat ds = enc k \<and> (\<forall>d\<in>set (butlast ds). length d = n) \<and> length ds = m"
proof -
  let ?d = "enc k"
  have len: "length ?d = container_len k" "4 \<le> container_len k" using enc_len enc_front(1) by metis+
  have m: "length ?d \<le> m * n" "m * n < length ?d + n" "0 < m"
    using assms(5,6) len div_round_up [of "container_len k" n] by (auto simp: div_greater_zero_iff)
  obtain m' where m': "m = Suc m'" using m(3) by (cases m) auto
  note s = splitter_front [OF assms(1,2) _ enc_front(1) enc_front(2) assms(3,5)]
  let ?u = "(put_cam devn (cam\<lparr>inbulk := drop n ?d @ r\<rparr>) u)\<lparr>last_length := word_of_nat (length ?d - n)\<rparr>"
  have "urb_reads ?u devn n m' = Inr (chunks n m' (drop n ?d),
      (put_cam devn ((cam\<lparr>inbulk := drop n ?d @ r\<rparr>)\<lparr>inbulk := r\<rparr>) ?u)\<lparr>last_length := 0\<rparr>)"
    if "m' * n < length (drop n ?d) + n"
    using assms(1,4,5) len m m' that by (intro reads_rest) simp_all
  moreover have "m' * n < length (drop n ?d) + n" using m m' by auto
  ultimately have "urb_reads u devn n m = Inr (chunks n m ?d, (put_cam devn (cam\<lparr>inbulk := r\<rparr>) u)\<lparr>last_length := 0\<rparr>)"
    using s assms(4) len m' by (simp add: chunks_Suc)
  moreover have "length d = n" if "d \<in> set (butlast (chunks n m ?d))" for d
  proof -
    have "butlast (chunks n m ?d) = map (\<lambda>i. take n (drop (i * n) ?d)) [0..<m']"
      by (simp add: chunks_def m' butlast_append)
    with that have "d \<in> (\<lambda>i. take n (drop (i * n) ?d)) ` {0..<m'}" by simp
    then obtain i where "i < m'" "d = take n (drop (i * n) ?d)" by auto
    moreover have "(i + 1) * n \<le> m' * n" using \<open>i < m'\<close> by (intro mult_right_mono) auto
    ultimately show ?thesis using m(2) m' by simp
  qed
  moreover have "length (chunks n m ?d) = m" by (simp add: chunks_def)
  ultimately show ?thesis using concat_chunks [OF m(1)] by blast
qed

definition demo_reply :: container where
  "demo_reply = RespC 0x2001 7 [1]"

definition demo_usb :: usbthing where
  "demo_usb = \<lparr>cams = [demo_cam\<lparr>inbulk := enc demo_reply @ [9]\<rparr>, demo_cam\<lparr>inbulk := enc demo_reply\<rparr>], last_length = 0\<rparr>"

lemma demo_usb_cam:
  "get_cam demo_usb 0 = Inr (demo_cam\<lparr>inbulk := enc demo_reply @ [9]\<rparr>)"
  "get_cam demo_usb 1 = Inr (demo_cam\<lparr>inbulk := enc demo_reply\<rparr>)" "last_length demo_usb = 0"
  by (simp_all add: get_cam_def demo_usb_def)

theorem container_arrives_in_own_transfers_witness:
  "\<exists>ds u. urb_reads demo_usb 0 5 4 = Inr (ds, u) \<and> concat ds = enc demo_reply \<and> length ds = 4"
proof -
  have "container_len demo_reply = 16" by (simp add: demo_reply_def container_len_def)
  then have "\<exists>ds. urb_reads demo_usb 0 5 4 = Inr (ds, (put_cam 0
      ((demo_cam\<lparr>inbulk := enc demo_reply @ [9]\<rparr>)\<lparr>inbulk := [9]\<rparr>) demo_usb)\<lparr>last_length := 0\<rparr>)
    \<and> concat ds = enc demo_reply \<and> (\<forall>d\<in>set (butlast ds). length d = 5) \<and> length ds = 4"
    by (intro container_arrives_in_own_transfers [OF demo_usb_cam(1,3)]) simp_all
  then show ?thesis by blast
qed

section \<open>Two cameras\<close>

lemma get_other_cam [simp]:
  "get_cam u a = Inr ca \<Longrightarrow> get_cam u b = Inr cb \<Longrightarrow> a \<noteq> b \<Longrightarrow> get_cam (put_cam a c u) b = Inr cb"
  by (auto simp: get_cam_def put_cam_def split: if_splits)

text \<open>
  The position inside a container is shared by all cameras. When the host has read the
  first \<open>n\<close> bytes of a longer container of camera \<open>a\<close> and turns to camera \<open>b\<close>, it gets as many
  bytes of \<open>b\<close> as camera \<open>a\<close> had left (at most \<open>n\<close>), whatever length \<open>b\<close>'s own container has.
\<close>

theorem interleaved_reads_misframe:
  assumes "get_cam u a = Inr ca" "get_cam u b = Inr cb" "a \<noteq> b" "last_length u = 0"
    and "inbulk ca = enc k @ r" "container_len k < 2 ^ 31" "4 \<le> n" "n < container_len k"
    and "j = min (container_len k - n) n" "j \<le> length (inbulk cb)"
  shows "\<exists>u'. urb_splitter u a (int n) = Inr (int n, take n (enc k), u') \<and>
    (\<exists>u''. urb_splitter u' b (int n) = Inr (int j, take j (inbulk cb), u''))"
proof -
  have len: "length (enc k) = container_len k" by (rule enc_len)
  let ?u = "(put_cam a (ca\<lparr>inbulk := drop n (enc k) @ r\<rparr>) u)\<lparr>last_length := word_of_nat (container_len k - n)\<rparr>"
  have 1: "urb_splitter u a (int n) = Inr (int n, take n (enc k), ?u)"
    using splitter_front [OF assms(1,4) _ enc_front assms(5,7)] assms(6,8) len by simp
  have v: "uint (word_of_nat (container_len k - n) :: u32) = int (container_len k - n)"
    using assms(6) by (simp add: unsigned_of_nat take_bit_nat_eq_self)
  then have nz: "(word_of_nat (container_len k - n) :: u32) \<noteq> 0" using assms(8) by auto
  have "urb_max (int (container_len k - n)) (int n) = int j" using assms(9) by (simp add: urb_max_min)
  then have "\<exists>u''. urb_splitter ?u b (int n) = Inr (int j, take j (inbulk cb), u'')"
    using assms(1,2,3,10) nz by (simp add: urb_splitter_def v vcam_read_def Let_def del: of_nat_min)
  with 1 show ?thesis by blast
qed

theorem interleaved_reads_misframe_witness:
  "\<exists>u'. urb_splitter demo_usb 0 13 = Inr (13, take 13 (enc demo_reply), u') \<and>
    (\<exists>u''. urb_splitter u' 1 13 = Inr (3, take 3 (enc demo_reply), u''))"
proof -
  have "container_len demo_reply = 16" by (simp add: demo_reply_def container_len_def)
  then show ?thesis
    using interleaved_reads_misframe [of demo_usb 0 _ 1 _ demo_reply "[9]" 13 3, OF demo_usb_cam(1,2) _ demo_usb_cam(3)]
    by (simp add: enc_len)
qed

section \<open>Strings\<close>

text \<open>The encoding of a character of the basic plane, as RFC 3629 has it.\<close>

definition utf8 :: "u16 \<Rightarrow> byte list" where
  "utf8 u =
     (if u < 0x80 then [ucast u]
      else if u < 0x800 then [0xc0 OR ucast (drop_bit 6 u), 0x80 OR (ucast u AND 0x3f)]
      else [0xe0 OR ucast (drop_bit 12 u), 0x80 OR (ucast (drop_bit 6 u) AND 0x3f), 0x80 OR (ucast u AND 0x3f)])"

lemma continuation_utf8: "continuation ((0x80 OR (y AND 0x3f)) # s) = None"
  by (simp add: continuation_def bit.conj_disj_distrib2 and.assoc)

lemma utf8_reject: "c AND 0x80 \<noteq> 0 \<Longrightarrow> continuation s = None \<Longrightarrow> utf8_to_utf16le (c # s) = None"
  by simp

lemma utf8_ascii: "u < 0x80 \<Longrightarrow> utf8_to_utf16le (ucast u # s) = map_option ((#) u) (utf8_to_utf16le s)" for u :: u16
proof -
  assume u: "u < 0x80"
  then have "take_bit 7 u = u"
    by (simp add: word_unat_eq_iff unsigned_take_bit_eq take_bit_nat_eq_self word_less_nat_alt)
  then have b: "bit u k \<Longrightarrow> k < 7" for k by (metis bit_take_bit_iff)
  then have "\<not> bit (ucast u :: byte) 7" by (auto simp: bit_unsigned_iff)
  then have "ucast u AND (0x80 :: byte) = 0" using and_exp_eq_0_iff_not_bit [of "ucast u :: byte" 7] by simp
  moreover have "ucast (ucast u :: byte) = u"
    by (rule bit_word_eqI) (use b in \<open>force simp: bit_unsigned_iff\<close>)
  ultimately show ?thesis by simp
qed

text \<open>
  The string encoder is right on ASCII text and on nothing else: given the UTF-8 form of
  any other text of the basic plane, it fails, because it takes the two top bits of a
  continuation byte to be 11 where UTF-8 has 10.
\<close>

theorem utf8_ascii_only:
  "utf8_to_utf16le (concat (map utf8 us)) = (if \<forall>u\<in>set us. u < 0x80 then Some us else None)"
proof (induction us)
  case (Cons u us)
  show ?case
  proof (cases "u < 0x80")
    case True
    then show ?thesis using Cons by (simp add: utf8_def utf8_ascii del: utf8_to_utf16le.simps)
  next
    case False
    have "utf8_to_utf16le (utf8 u @ s) = None" for s
      using False continuation_utf8
      by (auto simp: utf8_def bit.conj_disj_distrib2 simp del: utf8_to_utf16le.simps intro!: utf8_reject)
    then show ?thesis using False by simp
  qed
qed simp

text \<open>The text \<open>X5\<close>, and the letter e with an acute accent.\<close>

theorem utf8_ascii_only_witness:
  "utf8_to_utf16le (concat (map utf8 [0x58, 0x35])) = Some [0x58, 0x35] \<and> utf8_to_utf16le (concat (map utf8 [0xe9])) = None"
  unfolding utf8_ascii_only by simp

lemma byte_16: "put_16bit_le (ucast b) = [b, 0]" for b :: byte
  by (auto simp: put_16bit_le_def bit_simps intro!: bit_word_eqI)

lemma memcpy_padding_fits:
  "length src \<le> n \<Longrightarrow> n \<le> length out
    \<Longrightarrow> memcpy_padding src n out = Inr (src @ replicate (n - length src) 0 @ drop n out)"
  by (simp add: memcpy_padding_def write_front_def)

lemma length_pairs [simp]: "length (concat (map (\<lambda>c. [f c, g c]) s)) = 2 * length s"
  by (induction s) simp_all

lemma utf8_ascii_bytes:
  "\<forall>c\<in>set s. of_char c < (0x80 :: nat) \<Longrightarrow> utf8_to_utf16le (map byte_of s) = Some (map (\<lambda>c. ucast (byte_of c)) s)"
proof (induction s)
  case (Cons c s)
  then have "(ucast (byte_of c) :: u16) < 0x80" by (simp add: byte_of_def word_less_nat_alt unsigned_of_nat take_bit_nat_eq_self unsigned_ucast_eq)
  then show ?case using Cons utf8_ascii [of "ucast (byte_of c)"] by simp
qed simp

text \<open>
  Asked for the model's name with room for all of it, the device answers with the string
  descriptor of the USB specification: its length, type 3, two bytes per character, and zeros
  up to the length the host asked for. The rest of the buffer is left alone.
\<close>

theorem model_string_descriptor:
  assumes "get_cam u devn = Inr cam" "model cam = s" "\<forall>c\<in>set s. of_char c < (0x80 :: nat)" "length s < 127"
    and "2 + 2 * length s \<le> n" "n \<le> 255" "n \<le> length out"
  shows "handle_control fresh u devn 0 ([0x80, 6] @ put_16bit_le 0x302 @ put_16bit_le 0x409 @ put_16bit_le (word_of_nat n)) 8 out
    = Inr (int n, [word_of_nat (2 + 2 * length s), 3] @ concat (map (\<lambda>c. [byte_of c, 0]) s)
        @ replicate (n - 2 - 2 * length s) 0 @ drop n out)"
proof -
  obtain k where k: "n = Suc (Suc k)" "2 * length s \<le> k" using assms(5) by (metis Suc_le_D add_2_eq_Suc Suc_le_mono)
  have "string_desc u devn 2 n out = Inr ([word_of_nat (2 + 2 * length s), 3] @ concat (map (\<lambda>c. [byte_of c, 0]) s)
        @ replicate (n - 2 - 2 * length s) 0 @ drop n out)"
    using assms(4,6,7) k utf8_ascii_bytes [OF assms(3)]
    by (simp add: string_desc_def usb_get_string_def assms(1,2) strcpy127_def memcpy_padding_fits
       byte_16 comp_def)
  moreover have "unat (word_of_nat n :: u16) = n" using assms(6) by (simp add: unsigned_of_nat take_bit_nat_eq_self)
  ultimately show ?thesis
    by (simp add: handle_control_def usbt_handle_control_request_def get_desc_def)
qed

theorem model_string_descriptor_witness:
  "handle_control (\<lambda>_. 0) \<lparr>cams = [zero_vcam\<lparr>model := ''X5''\<rparr>], last_length = 0\<rparr> 0 0
      ([0x80, 6] @ put_16bit_le 0x302 @ put_16bit_le 0x409 @ put_16bit_le 8) 8 (replicate 9 1)
    = Inr (8, [6, 3, 0x58, 0, 0x35, 0, 0, 0, 1])"
  using model_string_descriptor [of "\<lparr>cams = [zero_vcam\<lparr>model := ''X5''\<rparr>], last_length = 0\<rparr>" 0 _ "''X5''" 8 "replicate 9 1" "\<lambda>_. 0"]
  by (simp add: get_cam_def byte_of_def numeral_eq_Suc)

end
