(* ===== verification/Event_Theorems.thy ===== *)
theory Event_Theorems
  imports Event_Pool Nikon_Ops Demo
begin

text \<open>
  Properties of the event queue: the interrupt endpoint serves a priority queue, no event is
  stuck, and no event is lost or delivered twice.
\<close>

section \<open>The interrupt endpoint\<close>

text \<open>
  C28. One poll of the interrupt endpoint serves a priority queue: when the clock does not run
  backwards, it delivers the earliest entry of the classic and Nikon channels if its time has
  come, and removes that entry alone; it times out exactly when none of them is due, and then
  the queue stays as it is. Entries of the EOS channel are never delivered there.
\<close>

theorem readint_is_priority_queue:
  assumes "queue_ok cam" "steady e" "vcam_readint e cam n timeout = (r, cam')"
  shows "queue_ok cam' \<and>
    (case r of
       None \<Rightarrow> first_interrupt cam' = first_interrupt cam
         \<and> (\<forall>i\<in>set (first_interrupt cam). visible i \<longrightarrow> clock e (ticks cam) < i_time i)
     | Some d \<Rightarrow> (\<exists>i. d = take n (i_data i) \<and> visible i \<and> i_time i \<le> clock e (ticks cam)
         \<and> mset (first_interrupt cam) = add_mset i (mset (first_interrupt cam'))
         \<and> (\<forall>j\<in>set (first_interrupt cam). visible j \<longrightarrow> i_time i \<le> i_time j)))"
proof (cases "take_first (\<lambda>i. visible i \<and> i_time i \<le> clock e (ticks cam)) (first_interrupt cam)")
  case None
  then have "r = None" "cam' = cam\<lparr>ticks := ticks cam + 1\<rparr>" using assms(3) by (simp_all add: readint_take [OF assms(2)])
  moreover have "\<forall>i\<in>set (first_interrupt cam). visible i \<longrightarrow> clock e (ticks cam) < i_time i"
    using None by (auto simp: take_first_None)
  ultimately show ?thesis using assms(1) by (simp add: queue_ok_def)
next
  case (Some ir)
  obtain i q where ir: "ir = (i, q)" by (cases ir)
  have s: "sorted (map i_time (first_interrupt cam))" using assms(1) by (simp add: queue_ok_def)
  note t = Some [unfolded ir]
  have r: "r = Some (take n (i_data i))" "cam' = cam\<lparr>ticks := ticks cam + 2, first_interrupt := q\<rparr>"
    using assms(3) t by (simp_all add: readint_take [OF assms(2)])
  have "i_time i \<le> i_time j" if "j \<in> set (first_interrupt cam)" "visible j" for j
  proof (cases "i_time j \<le> clock e (ticks cam)")
    case True
    then show ?thesis by (intro pool.take1_first [OF t s]) (use that in auto)
  qed (use pool.take1_Some [OF t] in auto)
  then show ?thesis using pool.take1_Some [OF t] pool.take1_invar [OF t s] by (auto simp: r queue_ok_def)
qed

section \<open>Polling until the queue is dry\<close>

fun polls :: "env \<Rightarrow> vcam \<Rightarrow> nat \<Rightarrow> nat \<Rightarrow> nat \<Rightarrow> byte list option list \<times> vcam" where
  "polls e cam n timeout 0 = ([], cam)"
| "polls e cam n timeout (Suc k) =
     (let (r, cam) = vcam_readint e cam n timeout; (rs, cam) = polls e cam n timeout k in (r # rs, cam))"

lemma take_first_append: "\<forall>x\<in>set a. \<not> P x \<Longrightarrow> P i \<Longrightarrow> take_first P (a @ i # b) = Some (i, a @ b)"
proof (induction a)
  case (Cons x a)
  then show ?case by (auto simp: take_first_def split: prod.splits list.splits option.splits)
qed (simp add: take_first_def)

text \<open>
  C29. No event is stuck: if every entry for the host is due, polling as many times as there are
  such entries delivers all of them, in the order of the queue, and one more poll times out;
  what is left is the EOS channel.
\<close>

theorem due_events_all_delivered:
  assumes "steady e" "\<forall>i\<in>set (first_interrupt cam). visible i \<longrightarrow> i_time i \<le> clock e (ticks cam)"
    and "is = filter visible (first_interrupt cam)"
  shows "\<exists>cam'. polls e cam n timeout (length is + 1) = (map (\<lambda>i. Some (take n (i_data i))) is @ [None], cam')
    \<and> first_interrupt cam' = filter (Not \<circ> visible) (first_interrupt cam)"
  using assms(2,3)
proof (induction "is" arbitrary: cam)
  case Nil
  then have v: "\<forall>i\<in>set (first_interrupt cam). \<not> visible i" by (metis filter_empty_conv)
  then have "take_first (\<lambda>i. visible i \<and> i_time i \<le> clock e (ticks cam)) (first_interrupt cam) = None"
    by (simp add: take_first_None)
  then show ?case using v by (simp add: readint_take [OF assms(1)] comp_def)
next
  case (Cons i "is")
  obtain a b where ab: "first_interrupt cam = a @ i # b" "\<forall>x\<in>set a. \<not> visible x" "visible i" "is = filter visible b"
    using Cons.prems(2) unfolding Cons_eq_filter_iff by auto
  let ?c = "cam\<lparr>ticks := ticks cam + 2, first_interrupt := a @ b\<rparr>"
  have "take_first (\<lambda>i. visible i \<and> i_time i \<le> clock e (ticks cam)) (first_interrupt cam) = Some (i, a @ b)"
    unfolding ab(1) by (rule take_first_append) (use ab Cons.prems(1) in auto)
  then have r: "vcam_readint e cam n timeout = (Some (take n (i_data i)), ?c)" by (simp add: readint_take [OF assms(1)])
  have "i_time j \<le> clock e (ticks ?c)" if "j \<in> set (first_interrupt ?c)" "visible j" for j
    using Cons.prems(1) that ab(1) steadyD [OF assms(1), of "ticks cam" "ticks ?c"] by (auto intro: order_trans)
  moreover have "is = filter visible (first_interrupt ?c)" using ab(2,4) by (simp add: filter_empty_conv)
  ultimately obtain cam' where "polls e ?c n timeout (length is + 1) = (map (\<lambda>i. Some (take n (i_data i))) is @ [None], cam')"
    "first_interrupt cam' = filter (Not \<circ> visible) (first_interrupt ?c)"
    using Cons.IH [of ?c] by blast
  then show ?case using r ab(1,3) by (simp add: comp_def)
qed

text \<open>
  A camera to which two events were injected with the clock at 0 and 1 seconds, both due a
  second later; its clock now reads 5 seconds.
\<close>

definition demo_events :: vcam where
  "demo_events = (ptp_notify_event demo_env (ptp_notify_event demo_env zero_vcam 0x4006 2) 0x4002 1)\<lparr>ticks := 5\<rparr>"

lemma demo_steady: "steady demo_env"
  by (auto simp: steady_def demo_env_def mono_def less_eq_timeval_def)

lemma demo_events_queue:
  "first_interrupt demo_events =
    [\<lparr>i_data = event_bytes 0x4006 0 2, i_time = Timeval 1 0, i_channel = PTP_CH_CLASSIC\<rparr>,
     \<lparr>i_data = event_bytes 0x4002 0 1, i_time = Timeval 2 0, i_channel = PTP_CH_CLASSIC\<rparr>]"
  "ticks demo_events = 5" "clock demo_env 5 = Timeval 5 0"
  by (simp_all add: demo_events_def ptp_notify_event_def ptp_inject_interrupt_def ptp_inject_interrupt_channel_def
      ptp_inject_event_data_def gettimeofday_def trigger_time_def demo_env_def event_bytes_def zero_vcam_def)

theorem readint_is_priority_queue_witness:
  "queue_ok (snd (vcam_readint demo_env demo_events 64 0)) \<and>
   size (mset (first_interrupt (snd (vcam_readint demo_env demo_events 64 0)))) = 1"
proof -
  obtain r c where rc: "vcam_readint demo_env demo_events 64 0 = (r, c)" by (cases "vcam_readint demo_env demo_events 64 0")
  have "queue_ok demo_events" by (simp add: queue_ok_def demo_events_queue less_eq_timeval_def)
  note q = readint_is_priority_queue [OF this demo_steady rc]
  then have "r \<noteq> None" by (auto simp: demo_events_queue visible_def less_timeval_def split: option.splits)
  then obtain i where "mset (first_interrupt demo_events) = add_mset i (mset (first_interrupt c))" using q by (auto split: option.splits)
  then have "size (mset (first_interrupt demo_events)) = Suc (size (mset (first_interrupt c)))" by simp
  then show ?thesis using q rc by (simp add: demo_events_queue)
qed

theorem due_events_all_delivered_witness:
  "\<exists>cam'. polls demo_env demo_events 16 0 3 = ([Some (event_bytes 0x4006 0 2), Some (event_bytes 0x4002 0 1), None], cam')
    \<and> first_interrupt cam' = []"
  using due_events_all_delivered [OF demo_steady _ refl, of demo_events 16 0]
  by (simp add: demo_events_queue visible_def less_eq_timeval_def numeral_3_eq_3 event_bytes_def)

section \<open>Conservation of events\<close>

text \<open>Everything that touches the queue, as operations with the byte records they hand out.\<close>

datatype event_op =
    Inject nat u16 "byte list" ptp_event_channel
  | Poll nat nat
  | Pop_classic
  | Pop_nikon
  | Pop_eos

definition wire_event :: "GenericEvent \<Rightarrow> byte list" where
  "wire_event ev = put_32bit_le (ev_size ev) @ put_16bit_le (ev_x ev) @ put_16bit_le (ev_code ev)
     @ put_32bit_le (ev_transaction ev) @ put_32bit_le (ev_value ev)"

definition given :: "'a option \<Rightarrow> 'a list" where
  "given r = (case r of None \<Rightarrow> [] | Some x \<Rightarrow> [x])"

fun event_step :: "env \<Rightarrow> event_op \<Rightarrow> vcam \<Rightarrow> (byte list list \<times> vcam) res" where
  "event_step e (Inject when c d ch) cam = Inr ([], ptp_inject_event_data e cam when c d ch)"
| "event_step e (Poll n timeout) cam = (let (r, cam) = vcam_readint e cam n timeout in Inr (given r, cam))"
| "event_step e Pop_classic cam = bnd (ptp_pop_event cam) (\<lambda>(r, cam). Inr (map wire_event (given r), cam))"
| "event_step e Pop_nikon cam = bnd (ptp_pop_nikon_event e cam) (\<lambda>(r, cam). Inr (map wire_event (given r), cam))"
| "event_step e Pop_eos cam = (let (r, cam) = ptp_pop_eos_event e cam in Inr (given r, cam))"

fun event_run :: "env \<Rightarrow> event_op list \<Rightarrow> vcam \<Rightarrow> (byte list list \<times> vcam) res" where
  "event_run e [] cam = Inr ([], cam)"
| "event_run e (x # xs) cam = bnd (event_step e x cam) (\<lambda>(out, cam).
     bnd (event_run e xs cam) (\<lambda>(outs, cam). Inr (out @ outs, cam)))"

fun injected :: "event_op \<Rightarrow> byte list list" where
  "injected (Inject _ _ d _) = [d]"
| "injected _ = []"

text \<open>
  Events outside of the EOS channel have the 16 bytes of a \<open>GenericEvent\<close>, and the host polls
  with a buffer that holds them.
\<close>

fun op_ok :: "event_op \<Rightarrow> bool" where
  "op_ok (Inject _ _ d ch) = (ch = PTP_CH_EOS \<or> length d = 16)"
| "op_ok (Poll n _) = (16 \<le> n)"
| "op_ok _ = True"

definition whole :: "vcam \<Rightarrow> bool" where
  "whole cam \<longleftrightarrow> (\<forall>i\<in>set (first_interrupt cam). visible i \<longrightarrow> length (i_data i) = 16)"

lemma read_event_whole: "length d = 16 \<Longrightarrow> \<exists>ev. read_event d = Inr ev \<and> wire_event ev = d"
proof -
  assume len: "length d = 16"
  obtain a b c f g where
    "ptp_read_u32 d = Inr (a, drop 4 d)" "d = put_32bit_le a @ drop 4 d"
    "ptp_read_u16 (drop 4 d) = Inr (b, drop 6 d)" "drop 4 d = put_16bit_le b @ drop 6 d"
    "ptp_read_u16 (drop 6 d) = Inr (c, drop 8 d)" "drop 6 d = put_16bit_le c @ drop 8 d"
    "ptp_read_u32 (drop 8 d) = Inr (f, drop 12 d)" "drop 8 d = put_32bit_le f @ drop 12 d"
    "ptp_read_u32 (drop 12 d) = Inr (g, drop 16 d)" "drop 12 d = put_32bit_le g @ drop 16 d"
    using put_read_32 [of d] put_read_16 [of "drop 4 d"] put_read_16 [of "drop 6 d"] put_read_32 [of "drop 8 d"]
      put_read_32 [of "drop 12 d"] len by auto
  then show ?thesis using len by (simp add: read_event_def wire_event_def)
qed

text \<open>One operation keeps the account: what it gives out leaves the queue, what it puts in stays.\<close>

lemma find_channel_removed:
  "find_channel_entry cam ch = (a, i # b) \<Longrightarrow> first_interrupt cam = a @ i # b \<and> i_channel i = ch"
  by (auto simp: find_channel_entry_def dest!: split_at_Cons)

lemma find_due_removed:
  assumes "find_due_entry e cam c k = ((a, i # b), cam')"
  shows "first_interrupt cam = a @ i # b \<and> visible i \<and> first_interrupt cam' = first_interrupt cam"
  using assms by (auto simp: find_due_take Let_def visible_def dest!: split_at_Cons)

lemma find_due_queue [simp]: "first_interrupt (snd (find_due_entry e cam c k)) = first_interrupt cam"
  by (simp add: find_due_take Let_def)

lemma remove_account:
  assumes "first_interrupt cam = a @ i # b" "first_interrupt cam' = a @ b" "whole cam"
  shows "add_mset (i_data i) (queued cam') = queued cam" "whole cam'" "visible i \<Longrightarrow> length (i_data i) = 16"
  using assms by (auto simp: queued_def whole_def)

lemma poll_account:
  assumes "vcam_readint e cam n timeout = (r, cam')" "16 \<le> n" "whole cam"
  shows "mset (given r) + queued cam' = queued cam \<and> whole cam'"
proof (cases "find_due_entry e cam True True")
  case (Pair p c)
  obtain a l where p: "p = (a, l)" by (cases p)
  have c: "first_interrupt c = first_interrupt cam" using find_due_queue [of e cam True True] Pair by simp
  show ?thesis
  proof (cases l)
    case Nil
    then show ?thesis using assms(1,3) Pair p c
      by (auto simp: vcam_readint_def gettimeofday_def given_def queued_def whole_def)
  next
    case (Cons i b)
    note f = find_due_removed [OF Pair [unfolded p Cons]]
    note a = remove_account [OF _ _ assms(3), of a i b "c\<lparr>ticks := k, first_interrupt := a @ b\<rparr>" for k]
    have "take n (i_data i) = i_data i" using a(3) f assms(2) by simp
    then show ?thesis using assms(1,3) Pair p Cons c f a(1,2)
      by (auto simp: vcam_readint_def gettimeofday_def given_def Let_def queued_def whole_def split: if_splits)
  qed
qed

lemma pop_account:
  assumes "read_event (i_data i) = Inr ev" "first_interrupt cam = a @ i # b" "visible i" "whole cam"
    and "first_interrupt cam' = a @ b"
  shows "add_mset (wire_event ev) (queued cam') = queued cam \<and> whole cam'"
  using read_event_whole [of "i_data i"] assms remove_account [OF assms(2,5,4)] by auto

lemma event_step_account:
  assumes "event_step e x cam = Inr (out, cam')" "op_ok x" "whole cam"
  shows "mset out + queued cam' = queued cam + mset (injected x) \<and> whole cam'"
proof (cases x)
  case (Inject w c d ch)
  then show ?thesis using assms
    by (auto simp: queued_def whole_def ptp_inject_event_data_def gettimeofday_def Let_def mset_insert_interrupt
        insert_interrupt_insort set_insort_key visible_def)
next
  case (Poll n timeout)
  then show ?thesis using assms poll_account by (fastforce split: prod.splits)
next
  case Pop_classic
  show ?thesis
  proof (cases "find_channel_entry cam PTP_CH_CLASSIC")
    case (Pair a l)
    then show ?thesis using Pop_classic assms pop_account [of _ _ cam a _ cam'] find_channel_removed [of cam _ a]
      by (cases l) (auto simp: ptp_pop_event_def given_def visible_def)
  qed
next
  case Pop_nikon
  show ?thesis
  proof (cases "find_due_entry e cam False True")
    case (Pair p c)
    obtain a l where p: "p = (a, l)" by (cases p)
    have c: "first_interrupt c = first_interrupt cam" using find_due_queue [of e cam False True] Pair by simp
    show ?thesis
    proof (cases l)
      case Nil
      then show ?thesis using Pop_nikon assms Pair p c by (auto simp: ptp_pop_nikon_event_def given_def queued_def whole_def)
    next
      case (Cons i b)
      note f = find_due_removed [OF Pair [unfolded p Cons]]
      obtain ev where "read_event (i_data i) = Inr ev" "out = [wire_event ev]" "cam' = c\<lparr>first_interrupt := a @ b\<rparr>"
        using Pop_nikon assms(1) Pair p Cons by (auto simp: ptp_pop_nikon_event_def given_def)
      then show ?thesis using pop_account [of i ev cam a b cam'] f assms(3) Pop_nikon by simp
    qed
  qed
next
  case Pop_eos
  show ?thesis
  proof (cases "find_channel_entry cam PTP_CH_EOS")
    case (Pair a l)
    show ?thesis
    proof (cases l)
      case Nil
      then show ?thesis using Pop_eos assms Pair by (auto simp: ptp_pop_eos_event_def given_def)
    next
      case (Cons i b)
      then have q: "first_interrupt cam = a @ i # b" using find_channel_removed Pair by simp
      have "out = [] \<and> first_interrupt cam' = first_interrupt cam
          \<or> out = [i_data i] \<and> first_interrupt cam' = a @ b"
        using Pop_eos assms(1) Pair Cons
        by (auto simp: ptp_pop_eos_event_def given_def gettimeofday_def Let_def split: if_splits)
      then show ?thesis
      proof
        assume "out = [] \<and> first_interrupt cam' = first_interrupt cam"
        then show ?thesis using assms(3) Pop_eos by (simp add: queued_def whole_def)
      next
        assume "out = [i_data i] \<and> first_interrupt cam' = a @ b"
        then show ?thesis using remove_account [OF q _ assms(3), of cam'] Pop_eos by simp
      qed
    qed
  qed
qed

lemma event_step_runs:
  assumes "op_ok x" "whole cam"
  shows "\<exists>r. event_step e x cam = Inr r"
proof (cases x)
  case Pop_classic
  obtain a l where al: "find_channel_entry cam PTP_CH_CLASSIC = (a, l)" by fastforce
  show ?thesis
  proof (cases l)
    case (Cons i b)
    then have "first_interrupt cam = a @ i # b" "visible i"
      using find_channel_removed al by (auto simp: visible_def)
    then show ?thesis using read_event_whole [of "i_data i"] assms(2) Pop_classic al Cons
      by (auto simp: ptp_pop_event_def whole_def)
  qed (use al Pop_classic in \<open>simp add: ptp_pop_event_def\<close>)
next
  case Pop_nikon
  obtain a l c where al: "find_due_entry e cam False True = ((a, l), c)" by (metis surj_pair)
  show ?thesis
  proof (cases l)
    case (Cons i b)
    then show ?thesis using find_due_removed al read_event_whole [of "i_data i"] assms(2) Pop_nikon
      by (auto simp: ptp_pop_nikon_event_def whole_def)
  qed (use al Pop_nikon in \<open>simp add: ptp_pop_nikon_event_def\<close>)
qed (auto split: prod.splits)

text \<open>
  C30. No event is lost, invented or delivered twice: any sequence of injections, polls of the
  interrupt endpoint and takings of the three channels runs without reading past a record, and
  the records handed out together with those still queued are the ones that were queued before
  together with those injected.
\<close>

theorem events_exactly_once:
  assumes "\<forall>x\<in>set xs. op_ok x" "whole cam"
  shows "\<exists>out cam'. event_run e xs cam = Inr (out, cam')
    \<and> mset out + queued cam' = queued cam + mset (concat (map injected xs))"
  using assms
proof (induction xs arbitrary: cam)
  case (Cons x xs)
  then obtain o1 c where s: "event_step e x cam = Inr (o1, c)" using event_step_runs [of x cam e] by auto
  then have a: "mset o1 + queued c = queued cam + mset (injected x)" "whole c"
    using event_step_account [OF s] Cons.prems by simp_all
  then obtain o2 cam' where r: "event_run e xs c = Inr (o2, cam')"
      "mset o2 + queued cam' = queued c + mset (concat (map injected xs))"
    using Cons.IH [of c] Cons.prems(1) by auto
  have "mset (o1 @ o2) + queued cam' = (mset o1 + queued c) + mset (concat (map injected xs))"
    using r(2) by (simp add: ac_simps)
  moreover have "event_run e (x # xs) cam = Inr (o1 @ o2, cam')" using s r(1) by simp
  ultimately show ?case using a(1) by (metis add.assoc concat.simps(2) list.map(2) mset_append)
qed simp

theorem events_exactly_once_witness:
  "\<exists>out cam'. event_run demo_env [Inject 0 0x4002 (event_bytes 0x4002 0 7) PTP_CH_NIKON, Pop_nikon, Poll 16 0] demo_events
      = Inr (out, cam')
    \<and> mset out + queued cam' = {# event_bytes 0x4006 0 2, event_bytes 0x4002 0 1, event_bytes 0x4002 0 7 #}"
proof -
  let ?xs = "[Inject 0 0x4002 (event_bytes 0x4002 0 7) PTP_CH_NIKON, Pop_nikon, Poll 16 0]"
  have "whole demo_events" and q: "queued demo_events = {# event_bytes 0x4006 0 2, event_bytes 0x4002 0 1 #}"
    by (simp_all add: whole_def queued_def demo_events_queue event_bytes_def)
  moreover have "\<forall>x\<in>set ?xs. op_ok x" by (simp add: event_bytes_def)
  ultimately obtain out cam' where r: "event_run demo_env ?xs demo_events = Inr (out, cam')"
    "mset out + queued cam' = queued demo_events + mset (concat (map injected ?xs))"
    using events_exactly_once by blast
  moreover have "concat (map injected ?xs) = [event_bytes 0x4002 0 7]" by simp
  ultimately show ?thesis by (intro exI conjI) (simp_all only: q, simp)
qed

section \<open>Nikon event polling\<close>

abbreviation nikon_queue :: "vcam \<Rightarrow> ptp_interrupt list" where
  "nikon_queue cam \<equiv> filter (\<lambda>i. i_channel i = PTP_CH_NIKON) (first_interrupt cam)"

abbreviation other_queue :: "vcam \<Rightarrow> ptp_interrupt list" where
  "other_queue cam \<equiv> filter (\<lambda>i. i_channel i \<noteq> PTP_CH_NIKON) (first_interrupt cam)"

text \<open>One pop, on a sorted queue, takes the first Nikon entry or nothing.\<close>

lemma pop_nikon_none:
  assumes "queue_ok cam" "case nikon_queue cam of [] \<Rightarrow> True | i # _ \<Rightarrow> clock e (ticks cam) < i_time i"
  shows "ptp_pop_nikon_event e cam = Inr (None, cam\<lparr>ticks := ticks cam + 1\<rparr>)"
    and "\<forall>i\<in>set (nikon_queue cam). clock e (ticks cam) < i_time i"
proof -
  have "sorted (map i_time (nikon_queue cam))" using assms(1) by (simp add: queue_ok_def sorted_filter)
  then show late: "\<forall>i\<in>set (nikon_queue cam). clock e (ticks cam) < i_time i"
    using assms(2) by (cases "nikon_queue cam") (auto simp: order.strict_trans2)
  then have "\<forall>i\<in>set (first_interrupt cam). \<not> (i_channel i = PTP_CH_NIKON \<and> i_time i \<le> clock e (ticks cam))"
    by (auto simp: not_le)
  then have "snd (split_at (\<lambda>i. i_channel i = PTP_CH_NIKON \<and> i_time i \<le> clock e (ticks cam)) (first_interrupt cam)) = []"
    by (auto simp: split_at_dropWhile)
  then show "ptp_pop_nikon_event e cam = Inr (None, cam\<lparr>ticks := ticks cam + 1\<rparr>)"
    by (auto simp: ptp_pop_nikon_event_def find_due_take Let_def split: prod.splits)
qed

lemma pop_nikon_some:
  assumes "nikon_queue cam = i # is" "i_time i \<le> clock e (ticks cam)" "read_event (i_data i) = Inr ev"
  obtains a b where "first_interrupt cam = a @ i # b" "\<forall>j\<in>set a. i_channel j \<noteq> PTP_CH_NIKON" "i_channel i = PTP_CH_NIKON"
    "ptp_pop_nikon_event e cam = Inr (Some ev, cam\<lparr>ticks := ticks cam + 1, first_interrupt := a @ b\<rparr>)"
proof -
  from assms(1) obtain a b where ab: "first_interrupt cam = a @ i # b" "\<forall>j\<in>set a. i_channel j \<noteq> PTP_CH_NIKON"
    "i_channel i = PTP_CH_NIKON" unfolding filter_eq_Cons_iff by auto
  have "split_at (\<lambda>i. i_channel i = PTP_CH_NIKON \<and> i_time i \<le> clock e (ticks cam)) (a @ i # b) = (a, i # b)"
    using ab(2,3) assms(2) by (induction a) auto
  then have "ptp_pop_nikon_event e cam = Inr (Some ev, cam\<lparr>ticks := ticks cam + 1, first_interrupt := a @ b\<rparr>)"
    using ab(1) assms(3) by (simp add: ptp_pop_nikon_event_def find_due_take Let_def)
  with ab that show ?thesis by blast
qed

lemma pop_loop_takes:
  assumes "queue_ok cam" "whole cam"
  shows "\<exists>evs q k. pop_loop e n cam = Inr (evs, cam\<lparr>ticks := k, first_interrupt := q\<rparr>) \<and> length evs \<le> n
    \<and> map wire_event evs @ map i_data (filter (\<lambda>i. i_channel i = PTP_CH_NIKON) q) = map i_data (nikon_queue cam)
    \<and> filter (\<lambda>i. i_channel i \<noteq> PTP_CH_NIKON) q = other_queue cam
    \<and> (length evs < n \<longrightarrow> (\<forall>i\<in>set q. i_channel i = PTP_CH_NIKON \<longrightarrow> clock e (k - 1) < i_time i))"
  using assms
proof (induction n arbitrary: cam)
  case 0
  then show ?case by (intro exI [of _ "[]"] exI [of _ "first_interrupt cam"] exI [of _ "ticks cam"]) simp
next
  case (Suc n)
  show ?case
  proof (cases "case nikon_queue cam of [] \<Rightarrow> True | i # _ \<Rightarrow> clock e (ticks cam) < i_time i")
    case True
    note t = pop_nikon_none [OF Suc.prems(1) True]
    then show ?thesis
      by (intro exI [of _ "[]"] exI [of _ "first_interrupt cam"] exI [of _ "ticks cam + 1"]) auto
  next
    case False
    then obtain i "is" where q: "nikon_queue cam = i # is" "i_time i \<le> clock e (ticks cam)"
      by (cases "nikon_queue cam") auto
    then have "i \<in> set (nikon_queue cam)" by simp
    then have "length (i_data i) = 16" using Suc.prems(2) by (auto simp: whole_def visible_def)
    then obtain ev where ev: "read_event (i_data i) = Inr ev" "wire_event ev = i_data i" using read_event_whole by blast
    obtain a b where ab: "first_interrupt cam = a @ i # b" "\<forall>j\<in>set a. i_channel j \<noteq> PTP_CH_NIKON" "i_channel i = PTP_CH_NIKON"
      and p: "ptp_pop_nikon_event e cam = Inr (Some ev, cam\<lparr>ticks := ticks cam + 1, first_interrupt := a @ b\<rparr>)"
      using pop_nikon_some [OF q ev(1)] by blast
    let ?c = "cam\<lparr>ticks := ticks cam + 1, first_interrupt := a @ b\<rparr>"
    have "queue_ok ?c" "whole ?c" using Suc.prems ab(1) by (auto simp: queue_ok_def whole_def sorted_append)
    from Suc.IH [OF this] obtain evs r k where IH: "pop_loop e n ?c = Inr (evs, cam\<lparr>ticks := k, first_interrupt := r\<rparr>)"
      "length evs \<le> n" "map wire_event evs @ map i_data (filter (\<lambda>i. i_channel i = PTP_CH_NIKON) r) = map i_data (nikon_queue ?c)"
      "filter (\<lambda>i. i_channel i \<noteq> PTP_CH_NIKON) r = other_queue ?c"
      "length evs < n \<longrightarrow> (\<forall>i\<in>set r. i_channel i = PTP_CH_NIKON \<longrightarrow> clock e (k - 1) < i_time i)"
      by auto
    show ?thesis
      using p IH ev(2) ab by (intro exI [of _ "ev # evs"] exI [of _ r] exI [of _ k]) auto
  qed
qed



end
