(* ===== verification/Vendor_Theorems.thy ===== *)
theory Vendor_Theorems
  imports Event_Pool Demo
begin

text \<open>
  Properties of the Nikon and Sony modules: the picture in camera memory and its life, partial
  reads with 64-bit offsets, the shutter buttons and stepping a property.
\<close>

section \<open>The Nikon picture in memory\<close>

lemma memory_notify_frame [simp]:
  "session (nikon_notify e cam w c p) = session cam" "nikon (nikon_notify e cam w c p) = nikon cam"
  "first_dirent (nikon_notify e cam w c p) = first_dirent cam" "inbulk (nikon_notify e cam w c p) = inbulk cam"
  "seqnr (nikon_notify e cam w c p) = seqnr cam" "props (nikon_notify e cam w c p) = props cam"
  "queued (nikon_notify e cam w c p) = add_mset (event_bytes c 0 p) (queued cam)"
  by (simp_all add: nikon_notify_def queued_def ptp_inject_interrupt_channel_def ptp_inject_event_data_def
      gettimeofday_def mset_insert_interrupt event_bytes_def)

definition in_memory :: "byte list \<Rightarrow> vcam \<Rightarrow> bool" where
  "in_memory d cam \<longleftrightarrow> session cam \<noteq> 0 \<and> length d \<le> SEND_MAX \<and> find_dirent cam 0xffff0001 = None
     \<and> sd_used (nk_sdram (nikon cam)) \<and> sd_data (nk_sdram (nikon cam)) = d"

lemma nikon_store_frame [simp]:
  "session (nikon_store_picture d cam) = session cam" "first_dirent (nikon_store_picture d cam) = first_dirent cam"
  "inbulk (nikon_store_picture d cam) = inbulk cam" "seqnr (nikon_store_picture d cam) = seqnr cam"
  "first_interrupt (nikon_store_picture d cam) = first_interrupt cam"
  "sd_used (nk_sdram (nikon (nikon_store_picture d cam)))" "sd_data (nk_sdram (nikon (nikon_store_picture d cam))) = d"
  by (simp_all add: nikon_store_picture_def Let_def)

lemma memory_free_frame [simp]:
  "session (nikon_free_sdram cam) = session cam" "first_dirent (nikon_free_sdram cam) = first_dirent cam"
  "inbulk (nikon_free_sdram cam) = inbulk cam" "seqnr (nikon_free_sdram cam) = seqnr cam"
  "first_interrupt (nikon_free_sdram cam) = first_interrupt cam" "\<not> sd_used (nk_sdram (nikon (nikon_free_sdram cam)))"
  by (simp_all add: nikon_free_sdram_def zero_sdram_def)

lemma response_queued [simp]: "first_interrupt (ptp_response cam rc ps) = first_interrupt cam"
  by (simp add: ptp_response_def)

lemma queued_cong: "first_interrupt a = first_interrupt b \<Longrightarrow> queued a = queued b"
  by (simp add: queued_def)

lemma capture_to_memory:
  assumes "session cam \<noteq> 0" "load_jpeg e = Inr jpeg" "length jpeg \<le> SEND_MAX" "find_dirent cam 0xffff0001 = None"
  shows "\<exists>c. nikon_capture_op e cam (command 0x90C0 t [p]) = Inr c \<and> in_memory jpeg c
    \<and> inbulk c = inbulk cam @ enc (RespC PTP_RC_OK (seqnr cam) []) \<and> first_dirent c = first_dirent cam
    \<and> queued c = queued cam + {# event_bytes PTP_EC_Nikon_ObjectAddedInSDRAM 0 0xffff0001,
        event_bytes PTP_EC_Nikon_CaptureCompleteRecInSdram 0 0 #}"
proof -
  let ?s = "nikon_store_picture jpeg (nikon_free_sdram cam)"
  let ?c = "ptp_response (nikon_notify_sdram_capture e ?s) PTP_RC_OK []"
  have "nikon_capture_op e cam (command 0x90C0 t [p]) = Inr ?c"
    using assms(1,2) by (simp add: nikon_capture_op_def nikon_do_capture_def nikon_capture_sdram_def nikon_load_jpeg_def
        checked_eq command_def Let_def)
  moreover have "queued ?s = queued cam" by (rule queued_cong) simp
  then have "queued ?c = queued cam + {# event_bytes PTP_EC_Nikon_ObjectAddedInSDRAM 0 0xffff0001,
        event_bytes PTP_EC_Nikon_CaptureCompleteRecInSdram 0 0 #}"
    using queued_cong [of ?c "nikon_notify_sdram_capture e ?s"] by (simp add: nikon_notify_sdram_capture_def Let_def)
  moreover have "in_memory jpeg ?c" using assms(1,3,4)
    by (simp add: in_memory_def nikon_notify_sdram_capture_def Let_def find_dirent_def)
  ultimately show ?thesis by (intro exI [of _ ?c]) (simp add: nikon_notify_sdram_capture_def Let_def)
qed

text \<open>
  C32. The life of a picture in Nikon camera memory: a capture stores the liveview picture under
  the fixed handle, replacing what was there, touches no object of the card and queues the two
  events that announce it; \<open>GetObject\<close>, \<open>GetThumb\<close> and \<open>GetObjectSize\<close> of that handle serve it; deleting
  it makes the handle unknown again.
\<close>

theorem nikon_memory_picture:
  assumes "session cam \<noteq> 0" "load_jpeg e = Inr jpeg" "length jpeg \<le> SEND_MAX" "find_dirent cam 0xffff0001 = None"
  shows "\<exists>c1 c2. nikon_capture_op e cam (command 0x90C0 t1 [p]) = Inr c1
    \<and> inbulk c1 = inbulk cam @ enc (RespC PTP_RC_OK (seqnr cam) []) \<and> first_dirent c1 = first_dirent cam
    \<and> queued c1 = queued cam + {# event_bytes PTP_EC_Nikon_ObjectAddedInSDRAM 0 0xffff0001,
        event_bytes PTP_EC_Nikon_CaptureCompleteRecInSdram 0 0 #}
    \<and> nikon_getobject e c1 (command 0x1009 t2 [0xffff0001])
        = Inr (ptp_response (ptp_senddata c1 0x1009 jpeg) PTP_RC_OK [])
    \<and> nikon_getthumb e c1 (command 0x100A t2 [0xffff0001])
        = Inr (ptp_response (ptp_senddata c1 0x100A jpeg) PTP_RC_OK [])
    \<and> nikon_getobjectsize_op c1 (command 0x9421 t2 [0xffff0001])
        = Inr (ptp_response (ptp_senddata c1 0x9421 (put_64bit_le (word_of_nat (length jpeg)))) PTP_RC_OK [])
    \<and> nikon_deleteobject c1 (command 0x100B t3 [0xffff0001]) = Inr c2
    \<and> nikon_getobject e c2 (command 0x1009 t4 [0xffff0001]) = Inr (ptp_response c2 PTP_RC_InvalidObjectHandle [])"
proof -
  obtain c where c: "nikon_capture_op e cam (command 0x90C0 t1 [p]) = Inr c" "in_memory jpeg c"
    "inbulk c = inbulk cam @ enc (RespC PTP_RC_OK (seqnr cam) [])" "first_dirent c = first_dirent cam"
    "queued c = queued cam + {# event_bytes PTP_EC_Nikon_ObjectAddedInSDRAM 0 0xffff0001,
        event_bytes PTP_EC_Nikon_CaptureCompleteRecInSdram 0 0 #}"
    using capture_to_memory [OF assms] by blast
  have ops: "nikon_getobject e c (command 0x1009 t2 [0xffff0001]) = Inr (ptp_response (ptp_senddata c 0x1009 jpeg) PTP_RC_OK [])"
    "nikon_getthumb e c (command 0x100A t2 [0xffff0001]) = Inr (ptp_response (ptp_senddata c 0x100A jpeg) PTP_RC_OK [])"
    "nikon_getobjectsize_op c (command 0x9421 t2 [0xffff0001])
        = Inr (ptp_response (ptp_senddata c 0x9421 (put_64bit_le (word_of_nat (length jpeg)))) PTP_RC_OK [])"
    using c(2) by (simp_all add: nikon_getobject_def nikon_getthumb_def nikon_getobjectsize_op_def checked_eq command_def
        param_def in_sdram_def send_sdram_def sdram_data_def in_memory_def fits_def cmd_code_def)
  let ?d = "ptp_response (nikon_free_sdram c) PTP_RC_OK []"
  have "nikon_deleteobject c (command 0x100B t3 [0xffff0001]) = Inr ?d"
    using c(2) by (simp add: nikon_deleteobject_def guard_trans_id guard_session command_def param_def in_sdram_def in_memory_def)
  moreover have "nikon_getobject e ?d (command 0x1009 t4 [0xffff0001]) = Inr (ptp_response ?d PTP_RC_InvalidObjectHandle [])"
    using c(2) by (simp add: nikon_getobject_def ptp_getobject_write_def guard_trans_id guard_session guard_params
        checked_eq command_def param_def in_sdram_def in_memory_def find_dirent_def)
  ultimately show ?thesis using c ops by blast
qed

lemma demo_jpeg: "load_jpeg demo_env = Inr [0xff, 0xd8, 9]"
  by (simp add: load_jpeg_def demo_env_def skip_to_soi_def)

lemma demo_no_handle: "find_dirent (demo_nikon\<lparr>session := 1\<rparr>) 0xffff0001 = None"
  by (simp add: find_dirent_def demo_dirents_def)

theorem nikon_memory_picture_witness:
  "\<exists>c1 c2. nikon_capture_op demo_env (demo_nikon\<lparr>session := 1\<rparr>) (command 0x90C0 2 [0]) = Inr c1
    \<and> nikon_getobject demo_env c1 (command 0x1009 3 [0xffff0001])
        = Inr (ptp_response (ptp_senddata c1 0x1009 [0xff, 0xd8, 9]) PTP_RC_OK [])
    \<and> nikon_deleteobject c1 (command 0x100B 4 [0xffff0001]) = Inr c2
    \<and> nikon_getobject demo_env c2 (command 0x1009 5 [0xffff0001]) = Inr (ptp_response c2 PTP_RC_InvalidObjectHandle [])"
  using nikon_memory_picture [OF _ demo_jpeg _ demo_no_handle, of 2 0 3 4 5] by auto

section \<open>Partial reads with 64-bit offsets\<close>

text \<open>The two parameters that carry a 64-bit number, and how the code joins them.\<close>

lemma u64_of_halves: "u64_of (word_of_nat x) (word_of_nat (drop_bit 32 x)) = word_of_nat x"
  by (rule bit_word_eqI) (auto simp: u64_of_def bit_simps)

lemma unat64: "x < 2 ^ 64 \<Longrightarrow> unat (word_of_nat x :: u64) = x"
  by (simp add: unsigned_of_nat take_bit_nat_eq_self)

lemma low_half: "ucast ((word_of_nat n :: u64) AND 0xffffffff) = (word_of_nat n :: u32)"
proof -
  have m: "(0xffffffff :: u64) = mask 32" by (simp add: mask_eq_exp_minus_1)
  show ?thesis unfolding m by (auto intro!: bit_word_eqI simp: bit_simps)
qed

lemma high_half:
  assumes "n < 2 ^ 32" shows "ucast (drop_bit 32 (word_of_nat n :: u64)) = (0 :: u32)"
proof -
  have "unat (word_of_nat n :: u64) < 2 ^ 32" using assms by (simp add: unat64)
  moreover have "unat (drop_bit 32 (word_of_nat n :: u64)) = unat (word_of_nat n :: u64) div 2 ^ 32"
    unfolding unat_drop_bit_eq by (simp only: drop_bit_eq_div)
  ultimately have "drop_bit 32 (word_of_nat n :: u64) = 0" by (simp add: unat_eq_zero)
  then show ?thesis by simp
qed

definition file_part :: "nat \<Rightarrow> nat \<Rightarrow> byte list \<Rightarrow> byte list" where
  "file_part off req d = take (min req (10 * 1024 * 1024)) (drop off d)"

lemma send_part_slice:
  assumes "length d < 2 ^ 64" "off < 2 ^ 64" "req \<le> 10 * 1024 * 1024"
    and "\<And>n. n \<le> length d - off \<Longrightarrow> source (word_of_nat n) = Some (take n (drop off d))"
  shows "send_part_ex cam ptp (word_of_nat off) (word_of_nat req) (word_of_nat (length d)) source
    = Inr (ptp_response (ptp_senddata cam (cmd_code ptp) (file_part off req d)) PTP_RC_OK
        [word_of_nat (length (file_part off req d)), 0])"
proof (cases "off \<ge> length d")
  case True
  then have "(word_of_nat off :: u64) \<ge> word_of_nat (length d)" using assms by (simp add: word_le_nat_alt unat64)
  then show ?thesis using True by (simp add: send_part_ex_def file_part_def)
next
  case False
  have lt: "\<not> (word_of_nat off :: u64) \<ge> word_of_nat (length d)" using False assms by (simp add: word_le_nat_alt unat64)
  let ?n = "min req (length d - off)"
  have "word_of_nat (length d) - word_of_nat off = (word_of_nat (length d - off) :: u64)"
    using False by (simp add: of_nat_diff)
  then have c: "(if (word_of_nat req :: u64) < word_of_nat (length d) - word_of_nat off then word_of_nat req
      else word_of_nat (length d) - word_of_nat off) = (word_of_nat ?n :: u64)"
    using assms by (simp add: word_less_nat_alt unat64 min_def)
  have "file_part off req d = take ?n (drop off d)" using assms(3) by (simp add: file_part_def min_def)
  moreover have "ucast ((word_of_nat ?n :: u64) AND 0xffffffff) = (word_of_nat ?n :: u32)"
    by (rule low_half)
  moreover have "ucast (drop_bit 32 (word_of_nat ?n :: u64)) = (0 :: u32)"
    using assms(3) by (intro high_half) simp
  ultimately show ?thesis using lt c assms(4) [of ?n] False by (simp add: send_part_ex_def Let_def min.commute)
qed

text \<open>
  C33. Nikon's \<open>GetPartialObjectEx\<close> serves exactly the slice asked for, for 64-bit offsets and
  lengths passed as halves: from the offset on, as many bytes as were asked for, as there are,
  or 10 MB, whichever is least, and its length as the two response parameters; nothing from an
  offset behind the end. This holds for the picture in memory and for a file of the card.
\<close>

abbreviation part_ex :: "u32 \<Rightarrow> nat \<Rightarrow> nat \<Rightarrow> u32 list" where
  "part_ex h off req \<equiv> [h, word_of_nat off, word_of_nat (drop_bit 32 off), word_of_nat req, word_of_nat (drop_bit 32 req)]"

theorem nikon_partial_is_slice:
  assumes "session cam \<noteq> 0" "off < 2 ^ 64" "req < 2 ^ 64" "length d < 2 ^ 64"
    and "in_sdram cam h \<and> sd_data (nk_sdram (nikon cam)) = d \<or>
      \<not> in_sdram cam h \<and> find_dirent cam h = Some f \<and> d_stbuf f = Some st \<and> files e (d_fsname f) = Some d
        \<and> st_size st = length d \<and> (\<forall>n. fseek_ok e (d_fsname f) n)"
  shows "nikon_getpartialobjectex_op e cam (command 0x9431 t (part_ex h off req))
    = Inr (ptp_response (ptp_senddata cam 0x9431 (file_part off req d)) PTP_RC_OK [word_of_nat (length (file_part off req d)), 0])"
proof -
  let ?req = "min req (10 * 1024 * 1024)"
  have req: "(word_of_nat (min req 10485760) :: u64) = (if (10485760 :: u64) < word_of_nat req then 10485760 else word_of_nat req)"
    using assms(3) by (simp add: word_less_nat_alt unat64 min_def)
  have sl: "file_part off (min req 10485760) d = file_part off req d" by (simp add: file_part_def)
  have off: "unat (word_of_nat off :: u64) = off" using assms(2) by (rule unat64)
  have n: "unat (word_of_nat n :: u64) = n" if "n \<le> length d - off" for n using that assms(4) by (intro unat64) simp
  show ?thesis
  proof (cases "in_sdram cam h")
    case True
    have "send_part_ex cam (command 0x9431 t (part_ex h off req)) (word_of_nat off) (word_of_nat ?req) (word_of_nat (length d))
        (\<lambda>n. Some (take (unat n) (drop off d)))
      = Inr (ptp_response (ptp_senddata cam 0x9431 (file_part off req d)) PTP_RC_OK [word_of_nat (length (file_part off req d)), 0])"
      using assms(2,4) by (subst send_part_slice) (simp_all add: n sl command_def cmd_code_def)
    then show ?thesis using True assms(1,5) req
      by (cases "(10485760 :: u64) < word_of_nat req")
         (simp_all add: nikon_getpartialobjectex_op_def checked_eq command_def param_def u64_of_halves off Let_def sdram_data_def)
  next
    case False
    have "read_file_part e (d_fsname f) (word_of_nat off) (word_of_nat n) = Some (take n (drop off d))"
      if "n \<le> length d - off" for n
      using assms(5) False that by (simp add: read_file_part_def off n)
    then have "send_part_ex cam (command 0x9431 t (part_ex h off req)) (word_of_nat off) (word_of_nat ?req) (word_of_nat (length d))
        (read_file_part e (d_fsname f) (word_of_nat off))
      = Inr (ptp_response (ptp_senddata cam 0x9431 (file_part off req d)) PTP_RC_OK [word_of_nat (length (file_part off req d)), 0])"
      using assms(2,4) by (subst send_part_slice) (simp_all add: sl command_def cmd_code_def)
    then show ?thesis using False assms(1,5) req
      by (cases "(10485760 :: u64) < word_of_nat req")
         (simp_all add: nikon_getpartialobjectex_op_def checked_eq command_def param_def u64_of_halves Let_def stbuf_def)
  qed
qed

theorem nikon_partial_is_slice_witness:
  "nikon_getpartialobjectex_op demo_env (demo_nikon\<lparr>session := 1\<rparr>) (command 0x9431 7 (part_ex 2 1 100))
    = Inr (ptp_response (ptp_senddata (demo_nikon\<lparr>session := 1\<rparr>) 0x9431 [0xd8, 1, 2, 3]) PTP_RC_OK [4, 0])"
proof -
  let ?f = "hd demo_dirents"
  have "files demo_env (d_fsname ?f) = Some demo_picture" "\<forall>n. fseek_ok demo_env (d_fsname ?f) n"
    by (simp_all add: demo_env_def demo_dirents_def)
  moreover have "find_dirent (demo_nikon\<lparr>session := 1\<rparr>) 2 = Some ?f" "d_stbuf ?f = Some (demo_file 5)"
    by (simp_all add: find_dirent_def demo_dirents_def)
  moreover have "st_size (demo_file 5) = length demo_picture" "file_part 1 100 demo_picture = [0xd8, 1, 2, 3]"
    by (simp_all add: demo_file_def demo_picture_def file_part_def)
  ultimately show ?thesis
    using nikon_partial_is_slice [of "demo_nikon\<lparr>session := 1\<rparr>" 1 100 demo_picture 2 ?f "demo_file 5" demo_env 7]
    by (simp add: in_sdram_def demo_picture_def)
qed

section \<open>The Sony shutter\<close>

text \<open>
  What the shutter promises, as an automaton: two buttons that are held or not, the picture in
  memory and the number of the next picture. A picture is taken when the full button is let go
  after it was held.
\<close>

datatype button = Half u16 | Full u16

record shutter =
  half_held :: bool
  full_held :: bool
  picture :: "byte list option"
  next_number :: u32

fun press :: "byte list \<Rightarrow> button \<Rightarrow> shutter \<Rightarrow> shutter" where
  "press jpeg (Half v) s = s\<lparr>half_held := (v = 2)\<rparr>"
| "press jpeg (Full v) s =
     (if v = 2 then s\<lparr>full_held := True\<rparr>
      else if full_held s then s\<lparr>full_held := False, picture := Some jpeg, next_number := next_number s + 1\<rparr>
      else s)"

definition shutter_of :: "vcam \<Rightarrow> shutter" where
  "shutter_of cam = \<lparr>half_held = so_half_pressed (sony cam), full_held = so_full_pressed (sony cam),
     picture = (if sd_used (so_sdram (sony cam)) then Some (sd_data (so_sdram (sony cam))) else None),
     next_number = so_capture_count (sony cam)\<rparr>"

text \<open>The control request of a button, and a sequence of them.\<close>

fun control :: "hooks \<Rightarrow> env \<Rightarrow> vcam \<Rightarrow> u32 \<Rightarrow> button \<Rightarrow> vcam res" where
  "control hk e cam t (Half v) = sony_controldevice_data hk e cam (command 0x9207 t [0xD2C1]) (put_16bit_le v)"
| "control hk e cam t (Full v) = sony_controldevice_data hk e cam (command 0x9207 t [0xD2C2]) (put_16bit_le v)"

fun controls :: "hooks \<Rightarrow> env \<Rightarrow> vcam \<Rightarrow> (u32 \<times> button) list \<Rightarrow> vcam res" where
  "controls hk e cam [] = Inr cam"
| "controls hk e cam ((t, b) # bs) = bnd (control hk e cam t b) (\<lambda>cam. controls hk e cam bs)"

text \<open>The properties the shutter sets have no callbacks and valid values, if they exist.\<close>

definition settable :: "vcam \<Rightarrow> int \<Rightarrow> bool" where
  "settable cam c \<longleftrightarrow> (case find_prop cam c of None \<Rightarrow> True | Some p \<Rightarrow> pr_setvalue p = None \<and> pd_value (pr_desc p) \<noteq> Wild)"

definition shutter_ready :: "vcam \<Rightarrow> bool" where
  "shutter_ready cam \<longleftrightarrow> session cam \<noteq> 0 \<and> settable cam 0xD213 \<and> settable cam 0xD215"

text \<open>Setting such a property leaves everything the shutter looks at.\<close>

definition same_shutter :: "vcam \<Rightarrow> vcam \<Rightarrow> bool" where
  "same_shutter a b \<longleftrightarrow> sony b = sony a \<and> session b = session a \<and> settable b = settable a \<and> first_dirent b = first_dirent a"

lemma same_shutterD:
  assumes "same_shutter a b"
  shows "shutter_of b = shutter_of a" "shutter_ready b = shutter_ready a" "session b = session a" "first_dirent b = first_dirent a"
    "sony b = sony a" "settable b = settable a"
  using assms by (simp_all add: same_shutter_def shutter_of_def shutter_ready_def)

lemma set_settable:
  assumes "settable cam c" "n \<le> length dat"
  shows "\<exists>rc cam'. vcam_set_prop_data hk cam c dat n = Inr (rc, cam') \<and> same_shutter cam cam'"
proof (cases "find_prop cam c")
  case None
  then show ?thesis using set_prop_data_missing by (auto simp: same_shutter_def)
next
  case (Some p)
  then have p: "pr_setvalue p = None" "pd_value (pr_desc p) \<noteq> Wild" using assms(1) by (simp_all add: settable_def)
  have "same_shutter cam (set_desc c ((pr_desc p)\<lparr>pd_value := Mem (take n dat)\<rparr>) cam)"
    by (simp add: same_shutter_def settable_def fun_eq_iff find_prop_set_desc Some p, simp add: set_desc_def)
  then show ?thesis using set_prop_data_plain [OF Some p assms(2), of hk] by blast
qed

lemma set_prop_small:
  assumes "settable cam (uint c)"
  shows "\<exists>cam'. sony_set_prop_u8 hk cam c v = Inr cam' \<and> same_shutter cam cam'"
    "\<exists>cam'. sony_set_prop_u16 hk cam c w = Inr cam' \<and> same_shutter cam cam'"
  using set_settable [OF assms, of 1 "[v]" hk] set_settable [OF assms, of 2 "put_16bit_le w" hk]
  by (auto simp: sony_set_prop_u8_def sony_set_prop_u16_def)

lemma shutter_notify_frame [simp]:
  "sony (sony_notify e cam w c p) = sony cam" "session (sony_notify e cam w c p) = session cam"
  "find_prop (sony_notify e cam w c p) = find_prop cam" "first_dirent (sony_notify e cam w c p) = first_dirent cam"
  by (simp_all add: sony_notify_def fun_eq_iff find_prop_def)

lemma settable_frame [simp]:
  "settable (sony_notify e cam w c p) = settable cam" "settable (ptp_response cam rc ps) = settable cam"
  "settable (cam\<lparr>sony := s\<rparr>) = settable cam"
  by (simp_all add: settable_def fun_eq_iff find_prop_def)

lemma shutter_frame [simp]:
  "shutter_of (sony_notify e cam w c p) = shutter_of cam" "shutter_ready (sony_notify e cam w c p) = shutter_ready cam"
  "shutter_of (ptp_response cam rc ps) = shutter_of cam" "shutter_ready (ptp_response cam rc ps) = shutter_ready cam"
  "shutter_ready (cam\<lparr>sony := x\<rparr>) = shutter_ready cam"
  by (simp_all add: shutter_of_def shutter_ready_def)

lemma complete_capture:
  assumes "shutter_ready cam" "load_jpeg e = Inr jpeg"
  obtains cam' where "sony_complete_capture hk e cam = Inr cam'" "shutter_ready cam'"
    "shutter_of cam' = (shutter_of cam)\<lparr>picture := Some jpeg, next_number := next_number (shutter_of cam) + 1\<rparr>"
proof -
  let ?s = "sony_store_picture jpeg (sony_free_sdram cam)"
  have s: "shutter_ready ?s" "shutter_of ?s = (shutter_of cam)\<lparr>picture := Some jpeg, next_number := next_number (shutter_of cam) + 1\<rparr>"
    using assms(1) by (simp_all add: shutter_ready_def shutter_of_def sony_store_picture_def sony_free_sdram_def Let_def)
  then have "settable ?s (uint (0xD215 :: u16))" by (simp add: shutter_ready_def)
  then obtain c1 where c1: "sony_set_prop_u16 hk ?s 0xD215 0x8001 = Inr c1" "same_shutter ?s c1" using set_prop_small(2) by blast
  then have "settable c1 (uint (0xD213 :: u16))" using s(1) same_shutterD [OF c1(2)] by (simp add: shutter_ready_def)
  then obtain c2 where c2: "sony_set_prop_u8 hk c1 0xD213 1 = Inr c2" "same_shutter c1 c2" using set_prop_small(1) by blast
  show ?thesis
  proof (rule that)
    show "sony_complete_capture hk e cam = Inr (sony_notify e c2 100 PTP_EC_Sony_ObjectAdded 0xffffc001)"
      using assms(2) c1(1) c2(1) by (simp add: sony_complete_capture_def sony_load_jpeg_def Let_def)
  qed (use s same_shutterD [OF c1(2)] same_shutterD [OF c2(2)] in simp_all)
qed

lemma control_step:
  assumes "shutter_ready cam" "load_jpeg e = Inr jpeg"
  shows "\<exists>cam'. control hk e cam t b = Inr cam' \<and> shutter_ready cam' \<and> shutter_of cam' = press jpeg b (shutter_of cam)"
proof (cases b)
  case (Half v)
  then show ?thesis using assms(1)
    by (simp add: sony_controldevice_data_def checked_eq command_def param_def half_release_def shutter_ready_def shutter_of_def)
next
  case (Full v)
  let ?run = "\<lambda>r. bnd r (\<lambda>cam. Inr (ptp_response cam PTP_RC_OK []))"
  have ctl: "control hk e cam t (Full v) = ?run (full_release hk e v cam)"
    using assms(1) get_put_16 [of v "[]"]
    by (simp add: sony_controldevice_data_def checked_eq command_def param_def shutter_ready_def)
  show ?thesis
  proof (cases "v = 2")
    case True
    let ?c = "cam\<lparr>sony := (sony cam)\<lparr>so_full_pressed := True\<rparr>\<rparr>"
    have "settable ?c (uint (0xD213 :: u16))" using assms(1) by (simp add: shutter_ready_def)
    then obtain c where c: "sony_set_prop_u8 hk ?c 0xD213 2 = Inr c" "same_shutter ?c c" using set_prop_small(1) by blast
    have "shutter_of ?c = (shutter_of cam)\<lparr>full_held := True\<rparr>" "shutter_ready ?c"
      using assms(1) by (simp_all add: shutter_of_def)
    then show ?thesis using ctl c(1) same_shutterD [OF c(2)] True Full by (simp add: full_release_def Let_def)
  next
    case False
    show ?thesis
    proof (cases "so_full_pressed (sony cam)")
      case held: True
      from complete_capture [OF assms, of hk] obtain c where c: "sony_complete_capture hk e cam = Inr c" "shutter_ready c"
        "shutter_of c = (shutter_of cam)\<lparr>picture := Some jpeg, next_number := next_number (shutter_of cam) + 1\<rparr>" by blast
      have "shutter_of (c\<lparr>sony := (sony c)\<lparr>so_full_pressed := False\<rparr>\<rparr>) = (shutter_of c)\<lparr>full_held := False\<rparr>"
        by (simp add: shutter_of_def)
      moreover have "full_held (shutter_of cam)" using held by (simp add: shutter_of_def)
      ultimately show ?thesis using ctl c held False Full by (simp add: full_release_def)
    next
      case free: False
      then have "shutter_of (cam\<lparr>sony := (sony cam)\<lparr>so_full_pressed := False\<rparr>\<rparr>) = shutter_of cam" "\<not> full_held (shutter_of cam)"
        by (simp_all add: shutter_of_def)
      then show ?thesis using ctl assms(1) free False Full by (simp add: full_release_def)
    qed
  qed
qed

text \<open>
  C34. The Sony shutter implements the automaton: any sequence of button requests succeeds and
  leaves the buttons, the picture in memory and the picture number as the automaton has them.
  In particular, pictures are taken on releases of a held full button only.
\<close>

theorem sony_shutter_refines_automaton:
  assumes "shutter_ready cam" "load_jpeg e = Inr jpeg"
  shows "\<exists>cam'. controls hk e cam bs = Inr cam' \<and> shutter_ready cam'
    \<and> shutter_of cam' = fold (press jpeg) (map snd bs) (shutter_of cam)"
  using assms(1)
proof (induction bs arbitrary: cam)
  case (Cons x bs)
  obtain t b where x: "x = (t, b)" by (cases x)
  from control_step [OF Cons.prems assms(2), of hk t b] obtain c where
    c: "control hk e cam t b = Inr c" "shutter_ready c" "shutter_of c = press jpeg b (shutter_of cam)" by blast
  from Cons.IH [OF c(2)] show ?case using c(1,3) by (simp add: x)
qed simp

theorem sony_shutter_refines_automaton_witness:
  "\<exists>cam'. controls no_callbacks demo_env (demo_cam\<lparr>session := 1\<rparr>) [(2, Half 2), (3, Full 2), (4, Full 1), (5, Half 1), (6, Full 1)]
      = Inr cam'
    \<and> picture (shutter_of cam') = Some [0xff, 0xd8, 9] \<and> next_number (shutter_of cam') = so_capture_count (sony demo_cam) + 1"
proof -
  have "shutter_ready (demo_cam\<lparr>session := 1\<rparr>)"
    by (simp add: shutter_ready_def settable_def find_prop_def plain_prop_def)
  then obtain cam' where "controls no_callbacks demo_env (demo_cam\<lparr>session := 1\<rparr>)
      [(2, Half 2), (3, Full 2), (4, Full 1), (5, Half 1), (6, Full 1)] = Inr cam'"
    "shutter_of cam' = fold (press [0xff, 0xd8, 9]) [Half 2, Full 2, Full 1, Half 1, Full 1] (shutter_of (demo_cam\<lparr>session := 1\<rparr>))"
    using sony_shutter_refines_automaton [OF _ demo_jpeg, of "demo_cam\<lparr>session := 1\<rparr>" no_callbacks
      "[(2, Half 2), (3, Full 2), (4, Full 1), (5, Half 1), (6, Full 1)]"] by auto
  moreover have "next_number (shutter_of (demo_cam\<lparr>session := 1\<rparr>)) = so_capture_count (sony demo_cam)"
    by (simp add: shutter_of_def)
  ultimately show ?thesis by (intro exI [of _ cam']) (simp del: controls.simps)
qed

section \<open>Stepping a Sony property\<close>

text \<open>Entries of one width, one behind the other.\<close>

lemma concat_entries:
  assumes "\<forall>x\<in>set es. length x = w" "i < length es"
  shows "drop (i * w) (concat es) = es ! i @ drop (Suc i * w) (concat es)" "Suc i * w \<le> length (concat es)"
  using assms
proof (induction es arbitrary: i)
  case (Cons x es)
  { case 1 then show ?case using Cons.IH(1) by (cases i) (auto simp: add.commute) }
  { case 2 then show ?case using Cons.IH(2) by (cases i) (auto simp: add.commute) }
qed simp_all

lemma blk_at_nat: "n \<le> length bs \<Longrightarrow> blk_at (int n) (Mem bs) = Inr (Mem (drop n bs))"
  by (simp add: blk_at_def)

lemma memcpy_front: "memcpy_blk (int (length x)) (Mem (x @ r)) = Inr x"
  by (simp add: memcpy_blk_def read_n_def)

lemma entry_at:
  assumes "\<forall>x\<in>set es. length x = w" "i < length es"
  shows "\<exists>p. blk_at (int (i * w)) (Mem (concat es)) = Inr p \<and> memcpy_blk (int w) p = Inr (es ! i)"
proof -
  note c = concat_entries [OF assms]
  have w: "length (es ! i) = w" using assms by simp
  have "i * w \<le> length (concat es)" using c(2) by simp
  then have "blk_at (int (i * w)) (Mem (concat es)) = Inr (Mem (drop (i * w) (concat es)))" by (rule blk_at_nat)
  then show ?thesis unfolding c(1) using memcpy_front [of "es ! i"] w by metis
qed

lemma find_pos_entries:
  assumes "\<forall>x\<in>set es. length x = w" "length v = w" "k + n = length es"
  shows "find_pos w (Mem (concat es)) (Mem v) k n
    = Inr (if v \<in> set (drop k es) then Some (k + length (takeWhile (\<lambda>x. x \<noteq> v) (drop k es))) else None)"
  using assms(3)
proof (induction n arbitrary: k)
  case (Suc n)
  then have k: "k < length es" by simp
  then have d: "drop k es = es ! k # drop (Suc k) es" by (simp add: Cons_nth_drop_Suc)
  have v: "memcpy_blk (int w) (Mem v) = Inr v" using assms(2) memcpy_front [of v "[]"] by simp
  obtain p where "blk_at (int (k * w)) (Mem (concat es)) = Inr p" "memcpy_blk (int w) p = Inr (es ! k)"
    using entry_at [OF assms(1) k] by blast
  then show ?case using Suc.IH [of "Suc k"] Suc.prems v d by simp
qed simp

text \<open>Where a step of \<open>delta\<close> leads: from an entry of the list within its bounds, from another value to an end.\<close>

definition step_target :: "'a list \<Rightarrow> 'a \<Rightarrow> int \<Rightarrow> nat" where
  "step_target es v delta =
     (if v \<in> set es then nat (max 0 (min (int (length (takeWhile (\<lambda>x. x \<noteq> v) es)) + delta) (int (length es) - 1)))
      else if delta > 0 then length es - 1 else 0)"

lemma step_target_less: "es \<noteq> [] \<Longrightarrow> step_target es v delta < length es"
  by (auto simp: step_target_def nat_less_iff)

lemma step_delta_sint: "step_delta step = sint step"
proof -
  have "sint step = (uint step + 128) mod 256 - 128"
    by (simp add: sint_uint signed_take_bit_eq_take_bit_shift take_bit_eq_mod)
  moreover have "0 \<le> uint step" "uint step < 256" using uint_bounded [of step] by simp_all
  moreover have "step \<le> 0x7f \<longleftrightarrow> uint step \<le> 127" by (simp add: word_le_def)
  moreover have "(n + 128) mod 256 = (if n \<le> 127 then n + 128 else n - 128)" if "0 \<le> n" "n < 256" for n :: int
    using that mod_pos_pos_trivial [of "n + 128" 256] mod_pos_pos_trivial [of "n - 128" 256] mod_add_self2 [of "n - 128" 256]
    by (auto simp: algebra_simps)
  note this [of "uint step"]
  ultimately show ?thesis by (simp add: step_delta_def)
qed

text \<open>
  C35. Stepping a Sony property with a list of values never leaves the list: the value becomes
  the entry \<open>delta\<close> places on, stopped at the ends, where \<open>delta\<close> is the signed value of the byte; a
  value that is not in the list becomes the last entry or the first, by the sign. When the value
  is where the step leads, nothing changes and no event is sent.
\<close>

theorem sony_step_stays_in_list:
  assumes "FormFlag d = PTP_EnumerationForm" "w = sony_dpv_size (DataType d)" "1 \<le> w" "w \<le> 4"
    and "avail d = Mem (concat es)" "avail_cnt d = Some (int (length es))" "es \<noteq> []"
    and "\<forall>x\<in>set es. length x = w" "pd_value d = Mem v" "length v = w" "step \<noteq> 0"
  shows "sony_apply_step d step =
    (let v' = es ! step_target es v (sint step)
     in if v \<in> set es \<and> step_target es v (sint step) = length (takeWhile (\<lambda>x. x \<noteq> v) es) then Inr None
        else Inr (Some (d\<lparr>pd_value := Mem v'\<rparr>)))"
proof -
  have pos: "find_pos w (avail d) (pd_value d) 0 (length es)
      = Inr (if v \<in> set es then Some (length (takeWhile (\<lambda>x. x \<noteq> v) es)) else None)"
    using find_pos_entries [of es w v 0 "length es"] assms by simp
  let ?t = "step_target es v (sint step)"
  have pos': "find_pos w (avail d) (pd_value d) 0 (nat (int (length es)))
      = Inr (if v \<in> set es then Some (length (takeWhile (\<lambda>x. x \<noteq> v) es)) else None)" using pos by simp
  have np: "new_pos (map_option int (if v \<in> set es then Some (length (takeWhile (\<lambda>x. x \<noteq> v) es)) else None))
      (sint step) (int (length es)) = int ?t"
    using assms(7) by (auto simp: new_pos_def step_target_def Let_def of_nat_diff Suc_le_eq)
  have t: "?t < length es" using assms(7) by (rule step_target_less)
  obtain p where p: "blk_at (int (?t * w)) (avail d) = Inr p" "memcpy_blk (int w) p = Inr (es ! ?t)"
    using entry_at [OF assms(8) t] assms(5) by auto
  have o: "overwrite (pd_value d) (es ! ?t) = Inr (Mem (es ! ?t))"
    using assms(8-10) t by (simp add: overwrite_def)
  have e: "enum_step w (sint step) (int (length es)) d =
    (if v \<in> set es \<and> ?t = length (takeWhile (\<lambda>x. x \<noteq> v) es) then Inr None else Inr (Some (d\<lparr>pd_value := Mem (es ! ?t)\<rparr>)))"
    unfolding enum_step_def pos' using np p o by (auto simp: Let_def)
  have "sint step \<noteq> 0" using assms(11) by (simp add: signed_eq_0_iff)
  then show ?thesis using assms(1-7) e by (simp add: sony_apply_step_def step_delta_sint Let_def)
qed

text \<open>One step up from the second of three 16-bit values, and two more from the third.\<close>

theorem sony_step_stays_in_list_witness:
  "\<exists>d. sony_apply_step (battery_desc\<lparr>DataType := PTP_TC_UINT16, FormFlag := PTP_EnumerationForm, avail_cnt := Some 3,
      avail := Mem (concat [[1, 0], [5, 0], [9, 0]]), pd_value := Mem [5, 0]\<rparr>) 1 = Inr (Some d)
    \<and> pd_value d = Mem [9, 0] \<and> sony_apply_step d 2 = Inr None"
proof -
  let ?es = "[[1, 0], [5, 0], [9, 0]] :: byte list list"
  let ?d = "\<lambda>v. battery_desc\<lparr>DataType := PTP_TC_UINT16, FormFlag := PTP_EnumerationForm, avail_cnt := Some 3,
      avail := Mem (concat ?es), pd_value := Mem v\<rparr>"
  have w: "sony_dpv_size PTP_TC_UINT16 = 2" by (simp add: sony_dpv_size_def)
  have "sony_apply_step (?d [5, 0]) 1 = Inr (Some ((?d [5, 0])\<lparr>pd_value := Mem [9, 0]\<rparr>))"
    using sony_step_stays_in_list [of "?d [5, 0]" 2 ?es "[5, 0]" 1] by (simp add: w step_target_def Let_def)
  moreover have "sony_apply_step (?d [9, 0]) 2 = Inr None"
    using sony_step_stays_in_list [of "?d [9, 0]" 2 ?es "[9, 0]" 2] by (simp add: w step_target_def Let_def)
  ultimately show ?thesis by simp
qed

end
