(* ===== verification/Canon_Theorems.thy ===== *)
theory Canon_Theorems
  imports Property_Theorems
begin

text \<open>
  Properties of the Canon module: the property values the first event report copies are always
  values of their types, the event channel is drained in order, and the life of a picture taken
  by remote capture.
\<close>

section \<open>The values of an EOS camera are typed\<close>

text \<open>
  A block that starts with a value of the data type. The four bytes \<open>SetDevicePropValueEx\<close>
  stores are one for every number of at most 32 bits, whatever they are.
\<close>

definition typed :: "u16 \<Rightarrow> blk \<Rightarrow> bool" where
  "typed t b \<longleftrightarrow> (\<exists>v r. b = Mem (v @ r) \<and> val_ok t v)"

definition eos_type :: "u16 \<Rightarrow> bool" where
  "eos_type t \<longleftrightarrow> t = PTP_TC_STRING \<or> (\<exists>w\<le>4. scalar_width t = Some w)"

definition eos_desc_ok :: "PtpPropDesc \<Rightarrow> bool" where
  "eos_desc_ok d \<longleftrightarrow> eos_type (DataType d) \<and> typed (DataType d) (pd_value d) \<and> form_ok d \<and>
     (FormFlag d = PTP_EnumerationForm \<longrightarrow> avail d \<noteq> Null)"

text \<open>The room the records of a property take in a report, whatever its value.\<close>

definition avail_room :: "PtpPropDesc \<Rightarrow> nat" where
  "avail_room d = (if FormFlag d = PTP_EnumerationForm then 20 + blk_len (avail d) else 0)"

definition record_room :: "PtpPropDesc \<Rightarrow> nat" where
  "record_room d = 12 + (if DataType d = PTP_TC_STRING then 511 else 4) + avail_room d"

definition room :: "vcam \<Rightarrow> nat" where
  "room cam = sum_list (map (\<lambda>p. record_room (pr_desc p)) (props cam))"

text \<open>A property of an EOS camera: no handlers, and a value of its type.\<close>

definition eos_prop_ok :: "PtpProp \<Rightarrow> bool" where
  "eos_prop_ok p \<longleftrightarrow> eos_desc_ok (pr_desc p) \<and> pr_getdesc p = None \<and> pr_getvalue p = None \<and> pr_setvalue p = None"

lemma typed_holds: "holds t b \<Longrightarrow> typed t b"
  unfolding holds_def typed_def by (metis append_Nil2)

lemma room_upsert:
  "sum_list (map (\<lambda>p. record_room (pr_desc p)) (upsert pr_code x ps))
     \<le> record_room (pr_desc x) + sum_list (map (\<lambda>p. record_room (pr_desc p)) ps)"
  by (induction ps) auto

lemma room_register: "room (vcam_register_prop c d cam) \<le> record_room d + room cam"
  using room_upsert [of "plain_prop c d" "props cam"]
  by (simp add: room_def vcam_register_prop_def plain_prop_def)

text \<open>The invariant: such properties, each code once, and room for their records.\<close>

definition descs_ok :: "nat \<Rightarrow> vcam \<Rightarrow> bool" where
  "descs_ok n cam \<longleftrightarrow> (\<forall>p\<in>set (props cam). eos_prop_ok p) \<and> distinct (map pr_code (props cam)) \<and> room cam \<le> n"

lemma descs_register:
  "descs_ok n cam \<Longrightarrow> eos_desc_ok d \<Longrightarrow> record_room d \<le> m \<Longrightarrow> descs_ok (n + m) (vcam_register_prop c d cam)"
  using set_upsert [of pr_code "plain_prop c d" "props cam"] room_register [of c d cam]
  by (auto simp: descs_ok_def vcam_register_prop_def plain_prop_def eos_prop_ok_def upsert_keys)

lemma descs_weaken: "descs_ok n cam \<Longrightarrow> n \<le> m \<Longrightarrow> descs_ok m cam"
  by (simp add: descs_ok_def)

lemma descs_fold:
  assumes "\<And>x n cam. x \<in> set xs \<Longrightarrow> descs_ok n cam \<Longrightarrow> descs_ok (n + 16) (f x cam)" "descs_ok n cam"
  shows "descs_ok (n + 16 * length xs) (fold f xs cam)"
  using assms
proof (induction xs arbitrary: n cam)
  case Nil
  then show ?case by simp
next
  case (Cons x xs)
  have "descs_ok (n + 16 + 16 * length xs) (fold f xs (f x cam))"
    by (rule Cons.IH) (use Cons.prems in auto)
  then show ?case by (simp add: add.assoc)
qed

lemma descs_ops [simp]: "descs_ok n (fold register_op xs cam) = descs_ok n cam"
  by (simp add: descs_ok_def room_def)

section \<open>Every model starts typed\<close>

lemma number_desc_ok:
  assumes "scalar_width t = Some w" "length v = w" "w \<le> 4"
  shows "eos_desc_ok (zero_desc\<lparr>pd_value := Mem v, DataType := t\<rparr>)"
    "record_room (zero_desc\<lparr>pd_value := Mem v, DataType := t\<rparr>) \<le> 16"
proof -
  have "t \<noteq> PTP_TC_STRING" using assms(1) by (auto simp: scalar_width_def)
  moreover have "val_ok t v" using assms by (simp add: val_ok_def)
  then have "typed t (Mem v)" unfolding typed_def by (metis append_Nil2)
  ultimately show "eos_desc_ok (zero_desc\<lparr>pd_value := Mem v, DataType := t\<rparr>)"
    "record_room (zero_desc\<lparr>pd_value := Mem v, DataType := t\<rparr>) \<le> 16"
    using assms by (auto simp: eos_desc_ok_def eos_type_def form_ok_def zero_desc_def record_room_def avail_room_def)
qed

lemma add_typed_ok:
  "scalar_width t = Some w \<Longrightarrow> w \<le> 4 \<Longrightarrow> descs_ok n cam \<Longrightarrow> descs_ok (n + 16) (add_prop_typed c t v w cam)"
  unfolding add_prop_typed_def by (intro descs_register number_desc_ok) simp_all

lemma add_u32_ok: "descs_ok n cam \<Longrightarrow> descs_ok (n + 16) (add_prop_u32 c v cam)"
  unfolding add_prop_u32_def by (intro descs_register number_desc_ok [where w = 4]) (simp_all add: scalar_width_def)

lemma add_row_ok: "descs_ok n cam \<Longrightarrow> descs_ok (n + 16) (canon_add_row row cam)"
  by (cases row)
     (auto simp: canon_add_prop_u32_def canon_add_prop_u16_def canon_add_prop_u8_def canon_add_prop_i32_def
       scalar_width_def intro!: add_typed_ok)

lemma add_rows_ok: "descs_ok n cam \<Longrightarrow> descs_ok (n + 16 * length rows) (canon_add_rows rows cam)"
  unfolding canon_add_rows_def by (rule descs_fold) (simp_all add: add_row_ok)

lemma register_ops_descs [simp]:
  "descs_ok n (canon_register_eos_ops ops cam) = descs_ok n cam"
  "descs_ok n (canon_register_object_ops cam) = descs_ok n cam"
  "descs_ok n (canon_register_base_eos cam) = descs_ok n cam"
  "descs_ok n (canon_register_d4_hidden cam) = descs_ok n cam"
  by (simp_all only: canon_register_eos_ops_def canon_register_object_ops_def canon_register_base_eos_def
      canon_register_d4_hidden_def descs_ops)

lemma table_lengths:
  "length canon_5d3_props \<le> 80" "length canon_90d_props \<le> 80" "length canon_200d_props \<le> 80"
  "length canon_r_props \<le> 80"
  by (simp_all add: canon_5d3_props_def canon_90d_props_def canon_200d_props_def canon_r_props_def)

lemma models_typed:
  assumes "find (\<lambda>m. cp_name m = name) canon_models = Some prof" "cp_register_model prof = Some reg" "descs_ok n cam"
  shows "descs_ok (n + 1280) (reg cam)"
proof -
  have *: "descs_ok (n + 1280) (canon_add_rows rows cam)" if "length rows \<le> 80" for rows
    using add_rows_ok [OF assms(3), of rows] that by (auto elim: descs_weaken)
  have "descs_ok (n + 1280) cam" using assms(3) by (rule descs_weaken) simp
  then show ?thesis using find_filter_Some [OF assms(1)] assms(2) * table_lengths
    by (auto simp: canon_models_def canon_register_model_5d3_def canon_register_model_90d_def
        canon_register_model_200d_def canon_register_model_r_def canon_register_model_g7x3_def)
qed

lemma capture_props_typed: "descs_ok n cam \<Longrightarrow> descs_ok (n + 96) (canon_register_capture_props cam)"
proof -
  have *: "descs_ok (n + 16 * length rows) (fold (\<lambda>(c, v). add_prop_u32 c v) rows cam)"
    if "descs_ok n cam" for rows
    by (rule descs_fold) (use that add_u32_ok in auto)
  show "descs_ok n cam \<Longrightarrow> ?thesis"
    unfolding canon_register_capture_props_def using * [of "[(0xD11C, 0x2), (0xD11B, 0xC03), (0xD108, 0x3),
      (0xD111, 0x2), (0xD116, 0x80000404), (0xD119, 0x100)]"] by simp
qed

lemma ensure_typed:
  assumes "descs_ok n cam"
  shows "\<exists>cam'. ensure_prop hk c v cam = Inr cam' \<and> descs_ok (n + 16) cam'"
proof (cases "find_prop cam c")
  case None
  then show ?thesis using assms
    by (simp add: ensure_prop_def vcam_get_prop_desc_def canon_add_prop_u32_def add_typed_ok scalar_width_def)
next
  case (Some p)
  then have "pr_getdesc p = None" using assms
    by (auto simp: find_prop_def descs_ok_def eos_prop_ok_def dest: lookup_key_Some)
  then show ?thesis using Some assms by (auto simp: ensure_prop_def vcam_get_prop_desc_def elim: descs_weaken)
qed

lemma ensure_all_typed:
  assumes "descs_ok n cam"
  shows "\<exists>cam'. canon_ensure_capture_props hk cam = Inr cam' \<and> descs_ok (n + 80) cam'"
proof -
  obtain c1 where 1: "ensure_prop hk 0xD11C 0x2 cam = Inr c1" "descs_ok (n + 16) c1"
    using ensure_typed [OF assms] by blast
  obtain c2 where 2: "ensure_prop hk 0xD11B 0xC03 c1 = Inr c2" "descs_ok (n + 16 + 16) c2"
    using ensure_typed [OF 1(2)] by blast
  obtain c3 where 3: "ensure_prop hk 0xD108 0x3 c2 = Inr c3" "descs_ok (n + 16 + 16 + 16) c3"
    using ensure_typed [OF 2(2)] by blast
  obtain c4 where 4: "ensure_prop hk 0xD1B0 0x0 c3 = Inr c4" "descs_ok (n + 16 + 16 + 16 + 16) c4"
    using ensure_typed [OF 3(2)] by blast
  obtain c5 where 5: "ensure_prop hk 0xD199 0x7 c4 = Inr c5" "descs_ok (n + 16 + 16 + 16 + 16 + 16) c5"
    using ensure_typed [OF 4(2)] by blast
  show ?thesis using 1(1) 2(1) 3(1) 4(1) 5 by (simp add: canon_ensure_capture_props_def add.assoc)
qed

lemma standard_typed:
  assumes "vcam_init_standard e = Inr cam"
  shows "descs_ok 700 cam"
proof -
  obtain c where c: "cam = ptp_register_standard_props (ptp_register_standard_opcodes
      (c\<lparr>props := [], opcodes := [], seqnr := 0, battery := 50, exposurebias := 123\<rparr>))"
    using assms by (auto simp: vcam_init_standard_def Let_def)
  have t: "eos_type (DataType battery_desc)" "eos_type (DataType imagesize_desc)"
    by (auto simp: eos_type_def battery_desc_def imagesize_desc_def init_prop_def uninit_desc_def scalar_width_def
        intro: exI [of _ "1 :: nat"])
  have ok: "eos_desc_ok battery_desc" "eos_desc_ok imagesize_desc"
    using battery_good(1) imagesize_good(1) t
    by (simp_all add: eos_desc_ok_def desc_ok_def typed_holds battery_desc_def imagesize_desc_def init_prop_def uninit_desc_def)
  have r: "record_room battery_desc \<le> 16" "record_room imagesize_desc \<le> 684"
    by (simp_all add: record_room_def avail_room_def battery_desc_def imagesize_desc_def init_prop_def uninit_desc_def
        ptp_write_string_len)
  have "descs_ok (0 + 16 + 684) cam" unfolding c ptp_register_standard_props_def Let_def
    by (intro descs_register ok r) (simp add: descs_ok_def room_def)
  then show ?thesis by simp
qed

lemma mtp_typed:
  assumes "descs_ok n cam"
  shows "descs_ok (n + 600) (ptp_register_mtp_opcodes (ptp_register_mtp_props cam))"
proof -
  have s: "val_ok PTP_TC_STRING [0]" unfolding val_ok_def by (intro disjI2 conjI exI [of _ 0] exI [of _ "[]"]) simp_all
  have "ptp_write_u32 0 = [0] @ [0, 0, 0]" by (simp add: ptp_write_u32_def)
  then have t: "typed PTP_TC_STRING (Mem (ptp_write_u32 0))" using s unfolding typed_def by metis
  have "val_ok PTP_TC_UINT32 (ptp_write_u32 1)" by (simp add: val_ok_def scalar_width_def ptp_write_u32_def)
  then have u: "typed PTP_TC_UINT32 (Mem (ptp_write_u32 1))" unfolding typed_def by (metis append_Nil2)
  have "descs_ok (n + 523 + 16) (ptp_register_mtp_props cam)" unfolding ptp_register_mtp_props_def Let_def
    by (intro descs_register assms)
       (use t u in \<open>simp_all add: eos_desc_ok_def eos_type_def form_ok_def init_prop_def uninit_desc_def
          record_room_def avail_room_def scalar_width_def\<close>)
  moreover have "descs_ok m (register_op x c) = descs_ok m c" for m x c
    by (simp add: descs_ok_def room_def)
  ultimately show ?thesis by (auto simp: ptp_register_mtp_opcodes_def elim: descs_weaken)
qed

lemma canon_parse_props: "canon_parse_args e args cam = Inr cam' \<Longrightarrow> props cam' = props cam"
proof (induction e args cam rule: canon_parse_args.induct)
  case (1 e cam)
  then show ?case by simp
next
  case (2 e arg rest cam)
  from "2.prems" obtain r where r: "vcam_parse_args e arg rest cam = Inr r" by auto
  show ?case
  proof (cases r)
    case None
    then show ?thesis using "2.prems" "2.IH"(1) [OF r None] r by (auto split: if_split_asm)
  next
    case (Some x)
    then obtain rest' c' where x: "x = (rest', c')" by (cases x)
    then show ?thesis using "2.IH"(2) [OF r Some x [symmetric]] r "2.prems" Some parse_args_props by auto
  qed
qed

lemma canon_init_typed:
  assumes "vcam_init_standard e = Inr c0"
    and "canon_init_cam hk e name argv c0 = Inr (True, cam)"
  shows "descs_ok 2660 cam"
proof -
  obtain c1 where c1: "canon_parse_args e argv (c0\<lparr>canon := canon_fresh,
      lookup_virtual_object := Some F_canon_lookup_virtual_object\<rparr>) = Inr c1"
    using assms(2) by (auto simp: canon_init_cam_def)
  then have p1: "props c1 = props c0" using canon_parse_props by fastforce
  obtain prof where Some: "find (\<lambda>m. cp_name m = name) canon_models = Some prof"
    using assms(2) c1 by (cases "find (\<lambda>m. cp_name m = name) canon_models") (auto simp: canon_init_cam_def)
  define c2 where "c2 = ptp_register_mtp_opcodes (ptp_register_mtp_props (c1\<lparr>manufac := ''Canon Inc.'',
      vendor_id := 0x4a9, model := cp_model prof, version := cp_version prof, serial := cp_serial prof,
      product_id := cp_product_id prof\<rparr>))"
  have "descs_ok 700 (c1\<lparr>manufac := ''Canon Inc.'', vendor_id := 0x4a9, model := cp_model prof,
      version := cp_version prof, serial := cp_serial prof, product_id := cp_product_id prof\<rparr>)"
    using standard_typed [OF assms(1)] p1 by (simp add: descs_ok_def room_def)
  from mtp_typed [OF this] have d2: "descs_ok 1300 c2" by (simp flip: c2_def)
  show ?thesis
  proof (cases "cp_register_model prof")
    case None
    define c3 where "c3 = (if name = ''canon_1300d'' then canon_register_d4_hidden c2 else c2)"
    have "cam = canon_register_object_ops (canon_register_base_eos (canon_register_capture_props c3))"
      using assms(2) c1 Some None by (auto simp: canon_init_cam_def Let_def c3_def c2_def split: if_split_asm)
    moreover have "descs_ok 1300 c3" using d2 by (simp add: c3_def)
    ultimately show ?thesis using capture_props_typed [of 1300 c3] by (auto elim: descs_weaken)
  next
    case R: (Some reg)
    have d3: "descs_ok (1300 + 1280) (reg c2)" by (rule models_typed [OF Some R d2])
    obtain c3 where "canon_ensure_capture_props hk (reg c2) = Inr c3" "descs_ok (1300 + 1280 + 80) c3"
      using ensure_all_typed [OF d3] by blast
    then show ?thesis using assms(2) c1 Some R
      by (auto simp: canon_init_cam_def Let_def simp flip: c2_def)
  qed
qed

section \<open>Writes keep the types\<close>

text \<open>What \<open>SetDevicePropValueEx\<close> leaves of a property: the four bytes of the value.\<close>

fun eos_writes :: "hooks \<Rightarrow> env \<Rightarrow> ptpcontainer \<Rightarrow> (u32 \<times> u32) list \<Rightarrow> vcam \<Rightarrow> vcam res" where
  "eos_writes hk e ptp [] cam = Inr cam"
| "eos_writes hk e ptp ((c, v) # ws) cam =
     bnd (ptp_eos_set_property_data hk e cam ptp (put_32bit_le 12 @ put_32bit_le c @ put_32bit_le v))
       (eos_writes hk e ptp ws)"

definition number_at :: "vcam \<Rightarrow> u32 \<Rightarrow> bool" where
  "number_at cam c \<longleftrightarrow> (\<forall>p\<in>set (props cam). pr_code p = sint c \<longrightarrow> DataType (pr_desc p) \<noteq> PTP_TC_STRING)"

definition set_value :: "u32 \<Rightarrow> u32 \<Rightarrow> PtpProp \<Rightarrow> PtpProp" where
  "set_value c v p = (if pr_code p = sint c then p\<lparr>pr_desc := (pr_desc p)\<lparr>pd_value := Mem (put_32bit_le v)\<rparr>\<rparr> else p)"

lemma set_value_code [simp]: "pr_code (set_value c v p) = pr_code p" "map pr_code (map (set_value c v) ps) = map pr_code ps"
  by (simp_all add: set_value_def)

lemma set_value_room [simp]:
  "record_room (pr_desc (set_value c v p)) = record_room (pr_desc p)"
  "DataType (pr_desc (set_value c v p)) = DataType (pr_desc p)"
  by (simp_all add: set_value_def record_room_def avail_room_def)

lemma store_desc_map:
  "distinct (map pr_code ps) \<Longrightarrow> lookup_key pr_code (sint c) ps = Some p \<Longrightarrow>
   store_desc (sint c) ((pr_desc p)\<lparr>pd_value := Mem (put_32bit_le v)\<rparr>) ps = map (set_value c v) ps"
proof (induction ps)
  case Nil
  then show ?case by simp
next
  case (Cons q ps)
  have "map (set_value c v) ps = ps" if "pr_code q = sint c"
    using Cons.prems(1) that by (intro map_idI) (force simp: set_value_def)
  then show ?case using Cons
    by (cases "pr_code q = sint c") (auto simp: lookup_key_def, simp_all add: set_value_def)
qed

lemma set_value_ok:
  assumes "eos_prop_ok p" "DataType (pr_desc p) \<noteq> PTP_TC_STRING"
  shows "eos_prop_ok (set_value c v p)"
proof -
  obtain w where w: "w \<le> 4" "scalar_width (DataType (pr_desc p)) = Some w"
    using assms by (auto simp: eos_prop_ok_def eos_desc_ok_def eos_type_def)
  have "val_ok (DataType (pr_desc p)) (take w (put_32bit_le v))" using w by (simp add: val_ok_def)
  then have "typed (DataType (pr_desc p)) (Mem (put_32bit_le v))"
    unfolding typed_def by (metis append_take_drop_id)
  then show ?thesis using assms(1)
    by (auto simp: eos_prop_ok_def eos_desc_ok_def form_ok_def set_value_def)
qed

lemma set_prop_map:
  assumes "descs_ok n cam"
  shows "\<exists>rc. vcam_set_prop hk cam (sint c) v = Inr (rc, cam\<lparr>props := map (set_value c v) (props cam)\<rparr>)"
proof (cases "find_prop cam (sint c)")
  case None
  then have "map (set_value c v) (props cam) = props cam"
    by (intro map_idI) (force simp: set_value_def find_prop_def lookup_key_None)
  then show ?thesis using None by (simp add: vcam_set_prop_def set_prop_data_missing)
next
  case (Some p)
  then have "eos_prop_ok p" using assms by (auto simp: find_prop_def descs_ok_def dest: lookup_key_Some)
  then have "pr_setvalue p = None" "pd_value (pr_desc p) \<noteq> Wild"
    by (auto simp: eos_prop_ok_def eos_desc_ok_def typed_def)
  then show ?thesis using Some assms
    by (simp add: vcam_set_prop_def set_prop_data_plain set_desc_def store_desc_map descs_ok_def find_prop_def)
qed

lemma descs_set_value:
  assumes "descs_ok n cam" "number_at cam c"
  shows "descs_ok n (cam\<lparr>props := map (set_value c v) (props cam)\<rparr>)"
proof -
  have "eos_prop_ok (set_value c v p)" if "p \<in> set (props cam)" for p
  proof (cases "pr_code p = sint c")
    case True
    then show ?thesis using that assms set_value_ok by (auto simp: descs_ok_def number_at_def)
  next
    case False
    then show ?thesis using that assms by (auto simp: descs_ok_def set_value_def)
  qed
  then show ?thesis using assms(1) by (auto simp: descs_ok_def room_def comp_def)
qed

text \<open>The notification reads the value of a typed property without fault.\<close>

lemma typed_size:
  assumes "typed t b" "eos_type t"
  shows "\<exists>v r. b = Mem (v @ r) \<and> val_ok t v \<and> length v \<le> (if t = PTP_TC_STRING then 511 else 4) \<and>
    ptp_get_prop_size b t = Inr (int (length v)) \<and> memcpy_blk (int (length v)) b = Inr v \<and> t \<noteq> PTP_TC_UNDEF"
proof -
  obtain v r where v: "b = Mem (v @ r)" "val_ok t v" using assms(1) by (auto simp: typed_def)
  have "memcpy_blk (int (length v)) b = Inr v" using val_ok_pos [OF v(2)] v(1)
    by (simp add: memcpy_blk_def read_n_def)
  moreover have "length v \<le> (if t = PTP_TC_STRING then 511 else 4)" "t \<noteq> PTP_TC_UNDEF"
    using assms(2) v(2) by (auto simp: eos_type_def val_ok_def scalar_width_def array_width_def split: if_splits)
  ultimately show ?thesis using v prop_size_val [OF v(2)] by blast
qed

lemma notify_changed:
  assumes "descs_ok n cam"
  shows "\<exists>d. eos_notify_prop_changed hk e cam c when
    = Inr (ptp_inject_event_data e cam when PTP_EC_EOS_PropValueChanged d PTP_CH_EOS)"
proof (cases "find_prop cam (sint c)")
  case None
  then show ?thesis
    by (auto simp: eos_notify_prop_changed_def vcam_get_prop_data_def prop_changed_value_def)
next
  case (Some p)
  then have p: "eos_prop_ok p" using assms by (auto simp: find_prop_def descs_ok_def dest: lookup_key_Some)
  then obtain v r where v: "pd_value (pr_desc p) = Mem (v @ r)"
    "ptp_get_prop_size (pd_value (pr_desc p)) (DataType (pr_desc p)) = Inr (int (length v))"
    "memcpy_blk (int (length v)) (pd_value (pr_desc p)) = Inr v" "DataType (pr_desc p) \<noteq> PTP_TC_UNDEF"
    using typed_size [of "DataType (pr_desc p)" "pd_value (pr_desc p)"] by (auto simp: eos_prop_ok_def eos_desc_ok_def)
  have "vcam_get_prop_data hk cam (sint c) = Inr (Some (pd_value (pr_desc p), int (length v)), cam)"
    using Some p v by (simp add: vcam_get_prop_data_def desc_size_def eos_prop_ok_def)
  moreover have "\<exists>x. prop_changed_value (Some (pd_value (pr_desc p), int (length v))) = Inr x"
    using v by (auto simp: prop_changed_value_def)
  ultimately show ?thesis by (fastforce simp: eos_notify_prop_changed_def)
qed

lemma eos_write_one:
  assumes "descs_ok n cam" "number_at cam c"
  shows "\<exists>cam'. ptp_eos_set_property_data hk e cam ptp (put_32bit_le 12 @ put_32bit_le c @ put_32bit_le v) = Inr cam'
    \<and> props cam' = map (set_value c v) (props cam)"
proof -
  define c0 where "c0 = note_destination c v cam"
  have p0: "props c0 = props cam" by (simp add: c0_def note_destination_def)
  then have "descs_ok n c0" using assms(1) by (simp add: descs_ok_def room_def)
  then obtain rc where s: "vcam_set_prop hk c0 (sint c) v = Inr (rc, c0\<lparr>props := map (set_value c v) (props cam)\<rparr>)"
    using set_prop_map p0 by metis
  have "descs_ok n (c0\<lparr>props := map (set_value c v) (props cam)\<rparr>)"
    using descs_set_value [OF \<open>descs_ok n c0\<close>, of c v] assms(2) p0 by (simp add: number_at_def)
  from notify_changed [OF this, of hk e c 0] obtain d where
    "eos_notify_prop_changed hk e (c0\<lparr>props := map (set_value c v) (props cam)\<rparr>) c 0
     = Inr (ptp_inject_event_data e (c0\<lparr>props := map (set_value c v) (props cam)\<rparr>) 0 PTP_EC_EOS_PropValueChanged d PTP_CH_EOS)"
    by blast
  then show ?thesis using s
    by (simp add: ptp_eos_set_property_data_def flip: c0_def)
qed

lemma eos_writes_map:
  assumes "descs_ok n cam" "\<forall>(c, v)\<in>set ws. number_at cam c"
  shows "\<exists>cam'. eos_writes hk e ptp ws cam = Inr cam' \<and> descs_ok n cam' \<and>
    props cam' = map (fold (\<lambda>(c, v). set_value c v) ws) (props cam)"
  using assms
proof (induction ws arbitrary: cam)
  case Nil
  then show ?case by simp
next
  case (Cons w ws)
  obtain c v where w: "w = (c, v)" by (cases w)
  have n: "number_at cam c" using Cons.prems(2) w by simp
  obtain c1 where 1: "ptp_eos_set_property_data hk e cam ptp (put_32bit_le 12 @ put_32bit_le c @ put_32bit_le v) = Inr c1"
    "props c1 = map (set_value c v) (props cam)"
    using eos_write_one [OF Cons.prems(1) n] by blast
  have "descs_ok n c1" using descs_set_value [OF Cons.prems(1) n, of v] 1(2) by (simp add: descs_ok_def room_def)
  moreover have "\<forall>(c, v)\<in>set ws. number_at c1 c" using Cons.prems(2) 1(2) by (auto simp: number_at_def)
  ultimately obtain c2 where "eos_writes hk e ptp ws c1 = Inr c2" "descs_ok n c2"
    "props c2 = map (fold (\<lambda>(c, v). set_value c v) ws) (props c1)"
    using Cons.IH by blast
  then show ?case using 1 w by (auto simp: comp_def)
qed

section \<open>The first report\<close>

text \<open>The record of a value, and of the list of allowed values of an enumeration.\<close>

definition value_record :: "PtpProp \<Rightarrow> byte list \<Rightarrow> byte list" where
  "value_record p v = ptp_write_u32 (word_of_nat (12 + length v)) @ ptp_write_u32 PTP_EC_EOS_PropValueChanged
     @ ptp_write_u32 (word_of_int (pr_code p)) @ v"

definition avail_record :: "PtpProp \<Rightarrow> byte list \<Rightarrow> byte list" where
  "avail_record p l = (if FormFlag (pr_desc p) = PTP_EnumerationForm then
     ptp_write_u32 (word_of_nat (20 + length l)) @ ptp_write_u32 PTP_EC_EOS_AvailListChanged
     @ ptp_write_u32 (word_of_int (pr_code p)) @ ptp_write_u32 3
     @ ptp_write_u32 (word_of_int (the (avail_cnt (pr_desc p)))) @ l else [])"

lemma write_u32_len [simp]: "length (ptp_write_u32 x) = 4"
  by (simp add: ptp_write_u32_def)

definition shows_value :: "PtpProp \<Rightarrow> byte list \<Rightarrow> bool" where
  "shows_value p v \<longleftrightarrow> val_ok (DataType (pr_desc p)) v \<and> (\<exists>r. pd_value (pr_desc p) = Mem (v @ r))"

lemma lookup_key_member: "distinct (map key xs) \<Longrightarrow> x \<in> set xs \<Longrightarrow> lookup_key key (key x) xs = Some x"
  by (induction xs) (force simp: lookup_key_def)+

lemma get_size_member:
  "distinct (map pr_code (props cam)) \<Longrightarrow> p \<in> set (props cam) \<Longrightarrow> vcam_get_prop_size cam (pr_code p) = desc_size (pr_desc p)"
  by (simp add: vcam_get_prop_size_def find_prop_def lookup_key_member)

lemma pack_values_ok:
  assumes "distinct (map pr_code (props cam))" "set ps \<subseteq> set (props cam)" "\<forall>p\<in>set ps. eos_prop_ok p"
  shows "\<exists>vs. pack_values cam ps = Inr (concat (map2 value_record ps vs)) \<and> list_all2 shows_value ps vs \<and>
    length (concat (map2 value_record ps vs)) + sum_list (map (\<lambda>p. avail_room (pr_desc p)) ps) \<le> sum_list (map (\<lambda>p. record_room (pr_desc p)) ps)"
  using assms(2,3)
proof (induction ps)
  case Nil
  then show ?case by simp
next
  case (Cons p ps)
  obtain vs where vs: "pack_values cam ps = Inr (concat (map2 value_record ps vs))" "list_all2 shows_value ps vs"
    "length (concat (map2 value_record ps vs)) + sum_list (map (\<lambda>p. avail_room (pr_desc p)) ps) \<le> sum_list (map (\<lambda>p. record_room (pr_desc p)) ps)"
    using Cons by auto
  obtain v r where v: "pd_value (pr_desc p) = Mem (v @ r)" "val_ok (DataType (pr_desc p)) v"
    "length v \<le> (if DataType (pr_desc p) = PTP_TC_STRING then 511 else 4)"
    "ptp_get_prop_size (pd_value (pr_desc p)) (DataType (pr_desc p)) = Inr (int (length v))"
    "memcpy_blk (int (length v)) (pd_value (pr_desc p)) = Inr v" "DataType (pr_desc p) \<noteq> PTP_TC_UNDEF"
    using Cons.prems(2) typed_size [of "DataType (pr_desc p)" "pd_value (pr_desc p)"]
    by (auto simp: eos_prop_ok_def eos_desc_ok_def)
  have "vcam_get_prop_size cam (pr_code p) = Inr (int (length v))"
    using Cons.prems(1) get_size_member [OF assms(1), of p] v by (simp add: desc_size_def)
  then have "pack_values cam (p # ps) = Inr (concat (map2 value_record (p # ps) (v # vs)))"
    using vs(1) v by (simp add: value_record_def)
  moreover have "list_all2 shows_value (p # ps) (v # vs)" using vs(2) v by (auto simp: shows_value_def)
  moreover have "length (value_record p v) + avail_room (pr_desc p) \<le> record_room (pr_desc p)"
    using v(3) by (simp add: value_record_def record_room_def split: if_split_asm)
  ultimately show ?case using vs(3) by (intro exI [of _ "v # vs"]) simp
qed

lemma pack_avails_ok:
  "\<forall>p\<in>set ps. eos_prop_ok p \<Longrightarrow> \<exists>ls. length ls = length ps \<and> pack_avails ps = Inr (concat (map2 avail_record ps ls)) \<and>
    length (concat (map2 avail_record ps ls)) \<le> sum_list (map (\<lambda>p. avail_room (pr_desc p)) ps)"
proof (induction ps)
  case Nil
  then show ?case by simp
next
  case (Cons p ps)
  obtain ls where ls: "length ls = length ps" "pack_avails ps = Inr (concat (map2 avail_record ps ls))"
    "length (concat (map2 avail_record ps ls)) \<le> sum_list (map (\<lambda>p. avail_room (pr_desc p)) ps)" using Cons by auto
  have "\<exists>l. pack_avail p = Inr (avail_record p l) \<and> length (avail_record p l) \<le> avail_room (pr_desc p)"
  proof (cases "FormFlag (pr_desc p) = PTP_EnumerationForm")
    case False
    then show ?thesis by (simp add: pack_avail_def avail_record_def)
  next
    case True
    then obtain l where l: "\<forall>v\<in>set l. val_ok (DataType (pr_desc p)) v" "avail_cnt (pr_desc p) = Some (int (length l))"
      "length (concat l) < 2 ^ 31" "avail (pr_desc p) = Mem (concat l)"
      using Cons.prems by (auto simp: eos_prop_ok_def eos_desc_ok_def form_ok_def)
    have "ptp_get_prop_list_size (avail (pr_desc p)) (DataType (pr_desc p)) (int (length l)) = Inr (int (length (concat l)))"
      using prop_list_size_vals [of l "DataType (pr_desc p)" "[]" "[]"] l by (simp add: ptp_get_prop_list_size_def)
    moreover have "memcpy_blk (int (length (concat l))) (avail (pr_desc p)) = Inr (concat l)"
      using l(4) by (simp add: memcpy_blk_def read_n_def)
    ultimately have "pack_avail p = Inr (avail_record p (concat l))"
      using True l by (simp add: pack_avail_def avail_record_def)
    then show ?thesis using True l(4) by (intro exI [of _ "concat l"]) (simp add: avail_record_def avail_room_def)
  qed
  then obtain l where "pack_avail p = Inr (avail_record p l)" "length (avail_record p l) \<le> avail_room (pr_desc p)" by blast
  then show ?case using ls by (intro exI [of _ "l # ls"]) simp
qed

lemma pack_all_ok:
  assumes "descs_ok 2660 cam"
  shows "\<exists>vs ls. list_all2 shows_value (props cam) vs \<and> length ls = length (props cam) \<and>
    eos_pack_all_props cam = Inr (concat (map2 value_record (props cam) vs) @ eos_info_check
      @ concat (map2 avail_record (props cam) ls) @ eos_info_check @ eos_end_marker) \<and>
    length (concat (map2 value_record (props cam) vs)) + length (concat (map2 avail_record (props cam) ls)) \<le> 2660"
proof -
  have d: "distinct (map pr_code (props cam))" "\<forall>p\<in>set (props cam). eos_prop_ok p" using assms by (simp_all add: descs_ok_def)
  obtain vs where vs: "pack_values cam (props cam) = Inr (concat (map2 value_record (props cam) vs))"
    "list_all2 shows_value (props cam) vs"
    "length (concat (map2 value_record (props cam) vs)) + sum_list (map (\<lambda>p. avail_room (pr_desc p)) (props cam)) \<le> room cam"
    using pack_values_ok [OF d(1) subset_refl d(2)] unfolding room_def by blast
  obtain ls where ls: "length ls = length (props cam)" "pack_avails (props cam) = Inr (concat (map2 avail_record (props cam) ls))"
    "length (concat (map2 avail_record (props cam) ls)) \<le> sum_list (map (\<lambda>p. avail_room (pr_desc p)) (props cam))"
    using pack_avails_ok [OF d(2)] by blast
  have le: "length (concat (map2 value_record (props cam) vs)) + length (concat (map2 avail_record (props cam) ls)) \<le> 2660"
    using vs(3) ls(3) assms unfolding descs_ok_def by linarith
  then have "length (concat (map2 value_record (props cam) vs) @ eos_info_check @ concat (map2 avail_record (props cam) ls)
      @ eos_info_check @ eos_end_marker) \<le> 10000" by (simp add: eos_info_check_def eos_end_marker_def)
  then show ?thesis using vs ls le by (auto simp: eos_pack_all_props_def fits_def)
qed

text \<open>The last write to a property decides its value.\<close>

lemma fold_set_value:
  "pr_code (fold (\<lambda>(c, v). set_value c v) ws p) = pr_code p"
  "map_of (rev ws) c = Some v \<Longrightarrow> pr_code p = sint c \<Longrightarrow>
    pd_value (pr_desc (fold (\<lambda>(c, v). set_value c v) ws p)) = Mem (put_32bit_le v)"
proof (induction ws rule: rev_induct)
  case Nil
  { case 1 then show ?case by simp next case 2 then show ?case by simp }
next
  case (snoc w ws)
  obtain c' v' where w: "w = (c', v')" by (cases w)
  { case 1 show ?case using snoc w by simp
  next
    case 2
    show ?case
    proof (cases "c = c'")
      case True
      then show ?thesis using 2 w snoc.IH(1) by (simp add: set_value_def)
    next
      case False
      then have "sint c' \<noteq> pr_code p" using 2(2) signed_word_eqI [of c c'] by metis
      then show ?thesis using False 2 w snoc.IH by (simp add: set_value_def)
    qed }
qed

lemma shows_number:
  "shows_value p v \<Longrightarrow> pd_value (pr_desc p) = Mem b \<Longrightarrow> v = take (length v) b"
  by (auto simp: shows_value_def)

text \<open>
  C36. Every EOS camera starts with properties whose blocks hold values of their types, whatever
  the command line, and property writes of the host keep them so as long as none goes to a string
  property: every write is carried out, and the first event report after \<open>SetEventMode\<close> is sent
  in full. It has one record for each property, in the order of the table, with a value of the
  property's type, namely the first bytes of what was last written to it, and one for each list of
  allowed values, and takes at most 2708 of the 10000 bytes of its buffer.
\<close>

theorem eos_first_report:
  assumes "vcam_init_standard e = Inr cam0" "canon_init_cam hk e name argv cam0 = Inr (True, cam1)"
    and "\<forall>(c, v)\<in>set ws. number_at cam1 c"
  shows "\<exists>cam2 cam3 cam4 vs ls rep. eos_writes hk e (command 0x9110 t []) ws cam1 = Inr cam2 \<and>
    ptp_eos_generic cam2 (command 0x9115 t [m]) = Inr cam3 \<and> vusb_ptp_eos_events e cam3 (command 0x9116 t []) = Inr cam4 \<and>
    inbulk cam4 = inbulk cam2 @ enc (RespC PTP_RC_OK (seqnr cam2) [])
      @ enc (DataC 0x9116 (seqnr cam2 + 1) rep) @ enc (RespC PTP_RC_OK (seqnr cam2 + 1) []) \<and>
    rep = concat (map2 value_record (props cam2) vs) @ eos_info_check
      @ concat (map2 avail_record (props cam2) ls) @ eos_info_check @ eos_end_marker \<and>
    length rep \<le> 2708 \<and> length ls = length (props cam1) \<and>
    map pr_code (props cam2) = map pr_code (props cam1) \<and> list_all2 shows_value (props cam2) vs \<and>
    (\<forall>i<length vs. \<forall>c v. pr_code (props cam1 ! i) = sint c \<and> map_of (rev ws) c = Some v \<longrightarrow>
       vs ! i = take (length (vs ! i)) (put_32bit_le v))"
proof -
  let ?f = "fold (\<lambda>(c, v). set_value c v) ws"
  obtain cam2 where 2: "eos_writes hk e (command 0x9110 t []) ws cam1 = Inr cam2" "descs_ok 2660 cam2" "props cam2 = map ?f (props cam1)"
    using eos_writes_map [OF canon_init_typed [OF assms(1,2)] assms(3)] by blast
  define c3 where "c3 = cam2\<lparr>canon := (canon cam2)\<lparr>cn_first_events := True\<rparr>\<rparr>"
  have 3: "ptp_eos_generic cam2 (command 0x9115 t [m]) = Inr (ptp_response c3 PTP_RC_OK [])"
    by (simp add: command_def ptp_eos_generic_def guard_def vcam_check_param_count_def c3_def)
  have "descs_ok 2660 (ptp_response c3 PTP_RC_OK [])" using 2(2) by (simp add: descs_ok_def room_def c3_def)
  moreover have p: "props (ptp_response c3 PTP_RC_OK []) = props cam2" by (simp add: c3_def)
  ultimately obtain vs ls where r: "list_all2 shows_value (props cam2) vs" "length ls = length (props cam2)"
    "eos_pack_all_props (ptp_response c3 PTP_RC_OK []) = Inr (concat (map2 value_record (props cam2) vs) @ eos_info_check
      @ concat (map2 avail_record (props cam2) ls) @ eos_info_check @ eos_end_marker)" (is "_ = Inr ?rep")
    "length (concat (map2 value_record (props cam2) vs)) + length (concat (map2 avail_record (props cam2) ls)) \<le> 2660"
    using pack_all_ok by metis
  have len: "length ?rep \<le> 2708" using r(4) by (simp add: eos_info_check_def eos_end_marker_def)
  have f: "cn_first_events (canon (ptp_response c3 PTP_RC_OK []))" by (simp add: c3_def)
  obtain cam4 where 4: "vusb_ptp_eos_events e (ptp_response c3 PTP_RC_OK []) (command 0x9116 t []) = Inr cam4"
    "inbulk cam4 = inbulk cam2 @ enc (RespC PTP_RC_OK (seqnr cam2) [])
      @ enc (DataC 0x9116 (seqnr cam2 + 1) ?rep) @ enc (RespC PTP_RC_OK (seqnr cam2 + 1) [])"
    using r(3) f by (simp add: command_def cmd_code_def vusb_ptp_eos_events_def guard_def vcam_check_param_count_def Let_def c3_def)
  have "vs ! i = take (length (vs ! i)) (put_32bit_le v)"
    if "i < length vs" "pr_code (props cam1 ! i) = sint c" "map_of (rev ws) c = Some v" for i c v
    using that r(1) 2(3) fold_set_value(2) [OF that(3,2)]
    by (intro shows_number [of "props cam2 ! i"]) (auto simp: list_all2_conv_all_nth)
  then show ?thesis using 2 3 4 r(1,2) len fold_set_value(1)
    by (intro exI [of _ cam2] exI [of _ "ptp_response c3 PTP_RC_OK []"] exI [of _ cam4] exI [of _ vs] exI [of _ ls]
        exI [of _ ?rep]) simp
qed

lemma demo_numbers: "number_at demo_canon 0xD11C" "number_at demo_canon 0x5001"
  by (simp_all add: number_at_def demo_canon_props canon_register_capture_props_def add_prop_u32_def
      ptp_register_mtp_props_def vcam_register_prop_def plain_prop_def init_prop_def uninit_desc_def zero_desc_def
      battery_desc_def imagesize_desc_def Let_def)

theorem eos_first_report_witness:
  "\<exists>cam2 cam3 cam4 rep. eos_writes no_callbacks demo_env (command 0x9110 2 []) [(0xD11C, 4), (0x5001, 0x164)] demo_canon = Inr cam2 \<and>
    ptp_eos_generic cam2 (command 0x9115 2 [1]) = Inr cam3 \<and> vusb_ptp_eos_events demo_env cam3 (command 0x9116 2 []) = Inr cam4 \<and>
    inbulk cam4 = inbulk cam2 @ enc (RespC PTP_RC_OK (seqnr cam2) [])
      @ enc (DataC 0x9116 (seqnr cam2 + 1) rep) @ enc (RespC PTP_RC_OK (seqnr cam2 + 1) []) \<and> length rep \<le> 2708"
proof -
  have "\<forall>(c, v)\<in>set [(0xD11C, 4), (0x5001, 0x164)]. number_at demo_canon c" using demo_numbers by simp
  from eos_first_report [OF demo_start demo_canon_eq(1) this, where t = 2 and m = 1] show ?thesis by blast
qed

end
