(* ===== verification/Canon_Capture.thy ===== *)
theory Canon_Capture
  imports Canon_Theorems Event_Pool
begin

text \<open>
  The EOS event channel, which the host polls, and remote capture, which feeds it: a poll takes
  the due events from the front of the channel, and a captured picture is announced there before
  it is fetched in parts.
\<close>

section \<open>Polling the channel\<close>

definition eos_queue :: "vcam \<Rightarrow> ptp_interrupt list" where
  "eos_queue cam = filter (\<lambda>i. i_channel i = PTP_CH_EOS) (first_interrupt cam)"

definition other_queue :: "vcam \<Rightarrow> ptp_interrupt list" where
  "other_queue cam = filter (\<lambda>i. i_channel i \<noteq> PTP_CH_EOS) (first_interrupt cam)"

lemma pop_eos_empty: "eos_queue cam = [] \<Longrightarrow> ptp_pop_eos_event e cam = (None, cam)"
  by (cases "split_at (\<lambda>i. i_channel i = PTP_CH_EOS) (first_interrupt cam)")
     (auto simp: ptp_pop_eos_event_def find_channel_entry_def eos_queue_def filter_empty_conv
       split: list.splits dest!: split_at_Cons)

lemma eos_entry:
  assumes "eos_queue cam = i # rest"
  shows "\<exists>pre post. find_channel_entry cam PTP_CH_EOS = (pre, i # post) \<and> first_interrupt cam = pre @ i # post \<and>
    i_channel i = PTP_CH_EOS \<and> filter (\<lambda>i. i_channel i = PTP_CH_EOS) (pre @ post) = rest"
proof -
  have "i \<in> set (eos_queue cam)" using assms by simp
  then have "i \<in> set (first_interrupt cam)" "i_channel i = PTP_CH_EOS" by (simp_all add: eos_queue_def)
  then obtain pre x post where s: "split_at (\<lambda>i. i_channel i = PTP_CH_EOS) (first_interrupt cam) = (pre, x # post)"
    using split_at_found [of i "first_interrupt cam" "\<lambda>i. i_channel i = PTP_CH_EOS"] by blast
  then have q: "first_interrupt cam = pre @ x # post" "i_channel x = PTP_CH_EOS" "\<forall>y\<in>set pre. i_channel y \<noteq> PTP_CH_EOS"
    using split_at_Cons [OF s] by simp_all
  then have "x # filter (\<lambda>i. i_channel i = PTP_CH_EOS) (pre @ post) = i # rest"
    using assms by (simp add: eos_queue_def filter_empty_conv)
  then show ?thesis using s q by (auto simp: find_channel_entry_def)
qed

lemma pop_eos_early:
  assumes "eos_queue cam = i # rest" "clock e (ticks cam) < i_time i"
  shows "ptp_pop_eos_event e cam = (None, cam\<lparr>ticks := Suc (ticks cam)\<rparr>)"
  using eos_entry [OF assms(1)] assms(2) by (auto simp: ptp_pop_eos_event_def gettimeofday_def less_timeval_def)

lemma pop_eos_due:
  assumes "eos_queue cam = i # rest" "\<not> clock e (ticks cam) < i_time i"
  shows "\<exists>c. ptp_pop_eos_event e cam = (Some (i_data i), c) \<and> eos_queue c = rest \<and> other_queue c = other_queue cam \<and>
    ticks c = Suc (ticks cam) \<and> pipe_frame cam c \<and> canon c = canon cam"
proof -
  obtain pre post where p: "find_channel_entry cam PTP_CH_EOS = (pre, i # post)" "first_interrupt cam = pre @ i # post"
    "i_channel i = PTP_CH_EOS" "filter (\<lambda>i. i_channel i = PTP_CH_EOS) (pre @ post) = rest"
    using eos_entry [OF assms(1)] by blast
  then have "ptp_pop_eos_event e cam = (Some (i_data i), cam\<lparr>ticks := Suc (ticks cam), first_interrupt := pre @ post\<rparr>)"
    using assms(2) by (auto simp: ptp_pop_eos_event_def gettimeofday_def less_timeval_def)
  then show ?thesis using p by (simp add: eos_queue_def other_queue_def pipe_frame_def)
qed

text \<open>
  What a drain that starts with \<open>sz\<close> bytes in the buffer does: it takes the first \<open>k\<close> events,
  and stops at the end of the channel, at an event of the future, or at one that does not fit,
  which it drops.
\<close>

definition drained :: "env \<Rightarrow> nat \<Rightarrow> vcam \<Rightarrow> nat \<Rightarrow> vcam \<Rightarrow> bool" where
  "drained e sz cam k cam' \<longleftrightarrow>
     (let es = eos_queue cam; len = (\<lambda>k. length (concat (map i_data (take k es)))) in
      k \<le> length es \<and> (\<forall>j<k. i_time (es ! j) \<le> clock e (ticks cam + j) \<and> sz + len (Suc j) + 12 \<le> EOS_EVENTS_SIZE) \<and>
      ticks cam' = ticks cam + min (Suc k) (length es) \<and> other_queue cam' = other_queue cam \<and>
      (k = length es \<and> eos_queue cam' = [] \<or>
       k < length es \<and> clock e (ticks cam + k) < i_time (es ! k) \<and> eos_queue cam' = drop k es \<or>
       k < length es \<and> i_time (es ! k) \<le> clock e (ticks cam + k) \<and> EOS_EVENTS_SIZE < sz + len (Suc k) + 12 \<and>
         eos_queue cam' = drop (Suc k) es))"

lemma drained_due: "drained e sz cam k c \<Longrightarrow> j < k \<Longrightarrow> i_time (eos_queue cam ! j) \<le> clock e (ticks cam + j)"
  by (simp add: drained_def Let_def)

lemma drained_others: "drained e sz cam k c \<Longrightarrow> other_queue c = other_queue cam"
  by (simp add: drained_def Let_def)

lemma drain_step:
  assumes "eos_queue cam = i # rest" "i_time i \<le> clock e (ticks cam)" "sz + length (i_data i) + 12 \<le> EOS_EVENTS_SIZE"
    and "eos_queue c = rest" "other_queue c = other_queue cam" "ticks c = Suc (ticks cam)"
    and "drained e (sz + length (i_data i)) c k cam'"
  shows "drained e sz cam (Suc k) cam'"
proof -
  have "i_time ((i # rest) ! j) \<le> clock e (ticks cam + j) \<and>
      sz + length (concat (map i_data (take (Suc j) (i # rest)))) + 12 \<le> EOS_EVENTS_SIZE" if "j < Suc k" for j
    using that assms by (cases j) (simp_all add: drained_def Let_def add.assoc)
  then show ?thesis using assms unfolding drained_def Let_def by (simp add: add.assoc)
qed

lemma drain_spec:
  "\<exists>k. fst (eos_drain e sz cam) = concat (map i_data (take k (eos_queue cam))) \<and>
    drained e sz cam k (snd (eos_drain e sz cam)) \<and>
    pipe_frame cam (snd (eos_drain e sz cam)) \<and> canon (snd (eos_drain e sz cam)) = canon cam"
proof (induction "eos_queue cam" arbitrary: sz cam)
  case Nil
  then show ?case by (subst (1 2 3 4) eos_drain.simps)
      (auto simp: pop_eos_empty drained_def Let_def pipe_frame_def)
next
  case (Cons i rest)
  note q = Cons.hyps(2) [symmetric]
  show ?case
  proof (cases "clock e (ticks cam) < i_time i")
    case True
    from pop_eos_early [OF q True] have d: "eos_drain e sz cam = ([], cam\<lparr>ticks := Suc (ticks cam)\<rparr>)"
      by (subst eos_drain.simps) simp
    show ?thesis unfolding d using q True
      by (intro exI [of _ 0]) (simp add: drained_def Let_def eos_queue_def other_queue_def pipe_frame_def)
  next
    case False
    obtain c where c: "ptp_pop_eos_event e cam = (Some (i_data i), c)" "eos_queue c = rest" "other_queue c = other_queue cam"
      "ticks c = Suc (ticks cam)" "pipe_frame cam c" "canon c = canon cam"
      using pop_eos_due [OF q False] by blast
    show ?thesis
    proof (cases "sz + length (i_data i) + 12 > EOS_EVENTS_SIZE")
      case True
      then have d: "eos_drain e sz cam = ([], c)" using c(1) by (subst eos_drain.simps) simp
      show ?thesis unfolding d using q c False True
        by (intro exI [of _ 0]) (simp add: drained_def Let_def)
    next
      case fits: False
      obtain k where k: "fst (eos_drain e (sz + length (i_data i)) c) = concat (map i_data (take k rest))"
        "drained e (sz + length (i_data i)) c k (snd (eos_drain e (sz + length (i_data i)) c))"
        "pipe_frame c (snd (eos_drain e (sz + length (i_data i)) c))"
        "canon (snd (eos_drain e (sz + length (i_data i)) c)) = canon c"
        using Cons.hyps(1) [of c] c(2) by blast
      have d: "eos_drain e sz cam = (i_data i @ fst (eos_drain e (sz + length (i_data i)) c), snd (eos_drain e (sz + length (i_data i)) c))"
        using c(1) fits by (subst eos_drain.simps) (simp add: case_prod_beta)
      have "drained e sz cam (Suc k) (snd (eos_drain e (sz + length (i_data i)) c))"
        using drain_step [OF q _ _ c(2-4) k(2)] False fits by simp
      then show ?thesis unfolding d using k(1,3,4) q c(5,6)
        by (intro exI [of _ "Suc k"]) (simp add: pipe_frame_def)
    qed
  qed
qed

lemma poll_run:
  assumes "\<not> cn_first_events (canon cam)"
  shows "vusb_ptp_eos_events e cam (command 0x9116 t []) = Inr (ptp_response
    (ptp_senddata (snd (eos_drain e 0 cam)) 0x9116 (fst (eos_drain e 0 cam) @ eos_end_marker)) PTP_RC_OK [])"
  using assms by (simp add: vusb_ptp_eos_events_def guard_params command_def cmd_code_def case_prod_beta)

lemma drained_resp [simp]: "drained e sz cam k (ptp_response (ptp_senddata c x d) rc ps) = drained e sz cam k c"
  by (simp add: drained_def eos_queue_def other_queue_def)

lemma poll_drained:
  assumes "\<not> cn_first_events (canon cam)"
  shows "\<exists>k c. vusb_ptp_eos_events e cam (command 0x9116 t []) = Inr c \<and> drained e 0 cam k c \<and> canon c = canon cam"
proof -
  obtain k where "drained e 0 cam k (snd (eos_drain e 0 cam))" "canon (snd (eos_drain e 0 cam)) = canon cam"
    using drain_spec by blast
  then show ?thesis by (simp add: poll_run [OF assms]) blast
qed

text \<open>
  C37. \<open>GetEvent\<close> always returns, and its answer is one \<open>OK\<close> with one data container of at most
  10000 bytes: the records of the first \<open>k\<close> events of the EOS channel, in their order, and the end
  marker. Each of them was due when the clock was read for it, and the clock is read once for each
  event looked at. What ends the report is the end of the channel, an event that is not due, which
  stays, or an event that does not fit, which is lost. The other channels keep their events.
\<close>

theorem eos_poll:
  assumes "\<not> cn_first_events (canon cam)"
  shows "\<exists>k cam'. vusb_ptp_eos_events e cam (command 0x9116 t []) = Inr cam' \<and>
    inbulk cam' = inbulk cam
      @ enc (DataC 0x9116 (seqnr cam) (concat (map i_data (take k (eos_queue cam))) @ eos_end_marker))
      @ enc (RespC PTP_RC_OK (seqnr cam) []) \<and>
    length (concat (map i_data (take k (eos_queue cam))) @ eos_end_marker) \<le> 10000 \<and>
    drained e 0 cam k cam' \<and> canon cam' = canon cam"
proof -
  obtain k where k: "fst (eos_drain e 0 cam) = concat (map i_data (take k (eos_queue cam)))"
    "drained e 0 cam k (snd (eos_drain e 0 cam))" "pipe_frame cam (snd (eos_drain e 0 cam))"
    "canon (snd (eos_drain e 0 cam)) = canon cam"
    using drain_spec by blast
  have "length (fst (eos_drain e 0 cam) @ eos_end_marker) \<le> 10000"
    using k(1,2) by (cases k) (auto simp: drained_def Let_def eos_end_marker_def)
  then show ?thesis using k unfolding poll_run [OF assms] by (intro exI [of _ k]) (simp add: pipe_frame_def)
qed

definition demo_event :: "ptp_event_channel \<Rightarrow> int \<Rightarrow> byte list \<Rightarrow> ptp_interrupt" where
  "demo_event ch t d = \<lparr>i_data = d, i_time = Timeval t 0, i_channel = ch\<rparr>"

definition demo_channel :: vcam where
  "demo_channel = demo_canon\<lparr>first_interrupt := [demo_event PTP_CH_EOS 0 [1, 2], demo_event PTP_CH_CLASSIC 0 [3],
     demo_event PTP_CH_EOS 9 [4]]\<rparr>"

lemma demo_channel_simps [simp]:
  "canon demo_channel = canon_fresh" "seqnr demo_channel = 0" "inbulk demo_channel = []" "ticks demo_channel = 0"
  "eos_queue demo_channel = [demo_event PTP_CH_EOS 0 [1, 2], demo_event PTP_CH_EOS 9 [4]]"
  "other_queue demo_channel = [demo_event PTP_CH_CLASSIC 0 [3]]"
  by (simp_all add: demo_channel_def eos_queue_def other_queue_def demo_event_def)

lemma demo_clock [simp]: "clock demo_env n = Timeval (int n) 0"
  by (simp add: demo_env_def)

theorem eos_poll_witness:
  "\<exists>cam'. vusb_ptp_eos_events demo_env demo_channel (command 0x9116 5 []) = Inr cam' \<and>
    inbulk cam' = enc (DataC 0x9116 0 ([1, 2] @ eos_end_marker)) @ enc (RespC PTP_RC_OK 0 []) \<and>
    eos_queue cam' = [demo_event PTP_CH_EOS 9 [4]] \<and> other_queue cam' = [demo_event PTP_CH_CLASSIC 0 [3]]"
proof -
  obtain k cam' where k: "vusb_ptp_eos_events demo_env demo_channel (command 0x9116 5 []) = Inr cam'"
    "inbulk cam' = enc (DataC 0x9116 0 (concat (map i_data (take k (eos_queue demo_channel))) @ eos_end_marker))
      @ enc (RespC PTP_RC_OK 0 [])" "drained demo_env 0 demo_channel k cam'"
    using eos_poll [of demo_channel demo_env 5] by (auto simp: canon_fresh_def)
  have "k \<le> 2" using k(3) by (simp add: drained_def Let_def)
  moreover have "\<not> 1 < k" using drained_due [OF k(3), of 1] by (auto simp: demo_event_def less_eq_timeval_def)
  moreover have "k \<noteq> 0"
  proof
    assume "k = 0"
    with k(3) show False by (simp add: drained_def Let_def demo_event_def less_timeval_def)
  qed
  ultimately have "k = 1" by linarith
  then show ?thesis using k(1,3) k(2) [unfolded \<open>k = 1\<close>]
    by (intro exI [of _ cam']) (auto simp: drained_def Let_def demo_event_def less_timeval_def)
qed

section \<open>Polling until the channel is empty\<close>

fun eos_polls :: "env \<Rightarrow> nat \<Rightarrow> vcam \<Rightarrow> vcam res" where
  "eos_polls e 0 cam = Inr cam"
| "eos_polls e (Suc n) cam = bnd (vusb_ptp_eos_events e cam (command 0x9116 0 [])) (eos_polls e n)"

definition all_due :: "env \<Rightarrow> vcam \<Rightarrow> bool" where
  "all_due e cam \<longleftrightarrow> (\<forall>i\<in>set (eos_queue cam). \<forall>n\<ge>ticks cam. i_time i \<le> clock e n)"

lemma poll_due:
  assumes "drained e 0 cam k cam'" "all_due e cam"
  shows "length (eos_queue cam') \<le> length (eos_queue cam) - 1" "all_due e cam'"
    "12 + length (concat (map i_data (eos_queue cam))) \<le> EOS_EVENTS_SIZE \<Longrightarrow> eos_queue cam' = []"
proof -
  let ?es = "eos_queue cam"
  have now: "\<not> clock e (ticks cam + k) < i_time (?es ! k)" if "k < length ?es"
    using assms(2) that by (auto simp: all_due_def not_less)
  then consider "k = length ?es" "eos_queue cam' = []"
    | "k < length ?es" "eos_queue cam' = drop (Suc k) ?es"
      "EOS_EVENTS_SIZE < length (concat (map i_data (take (Suc k) ?es))) + 12"
    using assms(1) by (auto simp: drained_def Let_def)
  note cases = this
  then show "length (eos_queue cam') \<le> length ?es - 1" by cases auto
  have "set (eos_queue cam') \<subseteq> set ?es" using cases by cases (auto dest: in_set_dropD)
  moreover have "ticks cam \<le> ticks cam'" using assms(1) by (simp add: drained_def Let_def)
  ultimately show "all_due e cam'" using assms(2) by (force simp: all_due_def)
  have "length (concat (map i_data (take (Suc k) ?es))) \<le> length (concat (map i_data ?es))"
    using append_take_drop_id [of "Suc k" ?es] by (metis concat_append le_add1 length_append map_append)
  then show "12 + length (concat (map i_data ?es)) \<le> EOS_EVENTS_SIZE \<Longrightarrow> eos_queue cam' = []"
    using cases by cases auto
qed

text \<open>
  C38. A host that polls sees the end of the channel: once the clock has passed the times of the
  pending events, as many polls as there are events leave the EOS channel empty, and one poll does
  if the records fit into its buffer together. Nothing else of the queue is taken.
\<close>

theorem eos_polls_end:
  assumes "\<not> cn_first_events (canon cam)" "all_due e cam"
    and "n = length (eos_queue cam) \<or> n = 1 \<and> 12 + length (concat (map i_data (eos_queue cam))) \<le> 10000"
  shows "\<exists>cam'. eos_polls e n cam = Inr cam' \<and> eos_queue cam' = [] \<and> other_queue cam' = other_queue cam"
proof -
  have many: "\<exists>cam'. eos_polls e m cam = Inr cam' \<and> eos_queue cam' = [] \<and> other_queue cam' = other_queue cam"
    if "\<not> cn_first_events (canon cam)" "all_due e cam" "length (eos_queue cam) \<le> m" for m cam
    using that
  proof (induction m arbitrary: cam)
    case 0
    then show ?case by simp
  next
    case (Suc m)
    obtain k c where c: "vusb_ptp_eos_events e cam (command 0x9116 0 []) = Inr c" "drained e 0 cam k c" "canon c = canon cam"
      using poll_drained [OF Suc.prems(1)] by blast
    have "length (eos_queue c) \<le> m" "all_due e c" using poll_due(1,2) [OF c(2) Suc.prems(2)] Suc.prems(3) by auto
    then obtain c' where "eos_polls e m c = Inr c'" "eos_queue c' = []" "other_queue c' = other_queue c"
      using Suc.IH [of c] c(3) Suc.prems(1) by auto
    then show ?case using c(1) drained_others [OF c(2)] by simp
  qed
  show ?thesis
  proof (cases "n = length (eos_queue cam)")
    case True
    then show ?thesis using many [OF assms(1,2)] by simp
  next
    case False
    then have n: "n = 1" "12 + length (concat (map i_data (eos_queue cam))) \<le> 10000" using assms(3) by auto
    obtain k c where c: "vusb_ptp_eos_events e cam (command 0x9116 0 []) = Inr c" "drained e 0 cam k c"
      using poll_drained [OF assms(1)] by blast
    then show ?thesis using poll_due(3) [OF c(2) assms(2)] n(2) drained_others [OF c(2)] unfolding n(1) by simp
  qed
qed

theorem eos_polls_end_witness:
  "\<exists>cam'. eos_polls demo_env 2 (demo_channel\<lparr>ticks := 9\<rparr>) = Inr cam' \<and> eos_queue cam' = [] \<and>
    other_queue cam' = [demo_event PTP_CH_CLASSIC 0 [3]]"
proof -
  let ?c = "demo_channel\<lparr>ticks := 9\<rparr>"
  have q: "eos_queue ?c = eos_queue demo_channel" "other_queue ?c = other_queue demo_channel" "\<not> cn_first_events (canon ?c)"
    by (simp_all add: eos_queue_def other_queue_def canon_fresh_def)
  have "all_due demo_env ?c" unfolding all_due_def q by (auto simp: demo_event_def less_eq_timeval_def)
  from eos_polls_end [OF q(3) this, of 2] show ?thesis by (simp add: q)
qed

section \<open>A picture in camera memory\<close>

text \<open>The announcement of a picture: handle, format, size and name in one record.\<close>

definition transfer_record :: "u32 \<Rightarrow> u32 \<Rightarrow> u32 \<Rightarrow> string \<Rightarrow> byte list" where
  "transfer_record handle ofc sz name =
     ptp_write_u32 (word_of_nat (0x1c + (length name + 1))) @ ptp_write_u32 PTP_EC_EOS_RequestObjectTransfer
     @ ptp_write_u32 handle @ ptp_write_u16 (ucast ofc) @ replicate 6 0 @ ptp_write_u32 sz @ replicate 4 0
     @ map byte_of name @ [0]"

definition eos_picture_name :: "u32 \<Rightarrow> string" where
  "eos_picture_name h = ''GPH_'' @ fmt_dec 4 (unat h mod 10000) @ ''.JPG''"

lemma picture_name_short: "length (eos_picture_name h) \<le> 63"
  by (simp add: eos_picture_name_def fmt_dec_len)

lemma notify_transfer:
  "length name \<le> 63 \<Longrightarrow> eos_notify_request_transfer e cam h ofc sz name when =
     ptp_inject_event_data e cam when PTP_EC_EOS_RequestObjectTransfer (transfer_record h ofc sz name) PTP_CH_EOS"
  by (simp add: eos_notify_request_transfer_def transfer_record_def Let_def)

lemma queued_inject_data [simp]:
  "queued (ptp_inject_event_data e cam when c d ch) = add_mset d (queued cam)"
  by (simp add: queued_def ptp_inject_event_data_def gettimeofday_def mset_insert_interrupt)

lemma descs_inject [simp]: "descs_ok n (ptp_inject_event_data e cam when c d ch) = descs_ok n cam"
  by (simp add: descs_ok_def room_def)

text \<open>What an announcement changes: the queue, which grows, and the clock.\<close>

definition announced :: "byte list multiset \<Rightarrow> vcam \<Rightarrow> vcam \<Rightarrow> bool" where
  "announced ds cam c \<longleftrightarrow> pipe_frame cam c \<and> session c = session cam \<and> first_dirent c = first_dirent cam \<and>
     canon c = canon cam \<and> props c = props cam \<and> ptp_objectid c = ptp_objectid cam \<and> queued c = queued cam + ds"

lemma announced_inject: "announced ds cam c \<Longrightarrow> announced (add_mset d ds) cam (ptp_inject_event_data e c when x d ch)"
  by (simp add: announced_def)

lemma announced_changed:
  assumes "announced ds cam c" "descs_ok n cam"
  shows "\<exists>c' d. eos_notify_prop_changed hk e c p when = Inr c' \<and> announced (add_mset d ds) cam c'"
proof -
  have "descs_ok n c" using assms by (simp add: announced_def descs_ok_def room_def)
  from notify_changed [OF this] show ?thesis using announced_inject [OF assms(1)] by blast
qed

lemma summary_announced:
  assumes "descs_ok n cam"
  shows "\<exists>ds c. eos_capture_summary hk e cam = Inr c \<and> size ds = 6 \<and> announced ds cam c"
proof -
  have 0: "announced {#} cam cam" by (simp add: announced_def pipe_frame_def)
  obtain c1 d1 where 1: "eos_notify_prop_changed hk e cam PTP_DPC_EOS_ISOSpeed 0 = Inr c1" "announced {#d1#} cam c1"
    using announced_changed [OF 0 assms] by blast
  obtain c2 d2 where 2: "eos_notify_prop_changed hk e c1 PTP_DPC_EOS_ShutterSpeed 0 = Inr c2" "announced {#d2, d1#} cam c2"
    using announced_changed [OF 1(2) assms] by blast
  obtain c3 d3 where 3: "eos_notify_prop_changed hk e c2 PTP_DPC_EOS_Aperture 0 = Inr c3" "announced {#d3, d2, d1#} cam c3"
    using announced_changed [OF 2(2) assms] by blast
  obtain c4 d4 where 4: "eos_notify_prop_changed hk e c3 PTP_DPC_EOS_AvailableShots 100 = Inr c4"
    "announced {#d4, d3, d2, d1#} cam c4"
    using announced_changed [OF 3(2) assms] by blast
  obtain d5 where 5: "announced {#d5, d4, d3, d2, d1#} cam (eos_notify_info_check e c4 0x20001 50)"
    unfolding eos_notify_info_check_def using announced_inject [OF 4(2)] by blast
  obtain d6 where "announced {#d6, d5, d4, d3, d2, d1#} cam (eos_notify_olc_button e (eos_notify_info_check e c4 0x20001 50) 4 100)"
    unfolding eos_notify_olc_button_def using announced_inject [OF 5] by blast
  moreover have "size {#d6, d5, d4, d3, d2, d1#} = 6" by simp
  ultimately have "\<exists>ds. size ds = 6 \<and> announced ds cam (eos_notify_olc_button e (eos_notify_info_check e c4 0x20001 50) 4 100)"
    by blast
  then show ?thesis using 1(1) 2(1) 3(1) 4(1) by (simp add: eos_capture_summary_def)
qed

text \<open>Downloading in parts.\<close>

lemma unat32: "x < 2 ^ 32 \<Longrightarrow> unat (word_of_nat x :: u32) = x"
  by (simp add: unsigned_of_nat take_bit_nat_eq_self)

lemma eos_part_slice:
  assumes "length d < 2 ^ 32" "off < 2 ^ 32" "sz < 2 ^ 32"
  shows "eos_virtual_part d (word_of_nat off) (word_of_nat sz) = take sz (drop off d)"
proof -
  have l: "unat (word_of_nat (length d) :: u32) = length d" "unat (word_of_nat off :: u32) = off"
    "unat (word_of_nat sz :: u32) = sz" using assms by (simp_all add: unat32)
  show ?thesis
  proof (cases "off \<le> length d")
    case True
    then have "unat (word_of_nat (length d) - word_of_nat off :: u32) = length d - off"
      using l by (simp add: unat_sub word_le_nat_alt)
    then show ?thesis using True l
      by (auto simp: eos_virtual_part_def Let_def word_less_nat_alt)
  next
    case False
    then show ?thesis using l by (simp add: eos_virtual_part_def Let_def word_less_nat_alt)
  qed
qed

lemma concat_parts: "concat (map (\<lambda>i. take sz (drop (i * sz) d)) [0..<m]) = take (m * sz) d"
  by (induction m) (simp_all add: take_add_drop add.commute)

text \<open>The state in which the picture can be fetched.\<close>

definition eos_pending :: "u32 \<Rightarrow> byte list \<Rightarrow> vcam \<Rightarrow> bool" where
  "eos_pending h d cam \<longleftrightarrow> session cam \<noteq> 0 \<and> sd_used (cn_sdram (canon cam)) \<and> sd_handle (cn_sdram (canon cam)) = h \<and>
     sd_data (cn_sdram (canon cam)) = d"

lemma pending_part:
  assumes "eos_pending h d cam" "length d < 2 ^ 32" "off < 2 ^ 32" "sz \<le> 512 * 1024"
  shows "eos_getpartialobject e cam (command 0x9107 t [h, word_of_nat off, word_of_nat sz])
    = Inr (ptp_response (ptp_senddata cam 0x9107 (take sz (drop off d))) PTP_RC_OK [word_of_nat (length (take sz (drop off d)))])"
proof -
  have "unat (word_of_nat sz :: u32) = sz" using assms(4) by (intro unat32) simp
  then have "\<not> (word_of_nat sz :: u32) > 512 * 1024" using assms(4) by (simp add: word_less_nat_alt)
  moreover have "eos_virtual_part d (word_of_nat off) (word_of_nat sz) = take sz (drop off d)"
    using assms by (intro eos_part_slice) simp_all
  ultimately show ?thesis using assms(1)
    by (simp add: eos_getpartialobject_def eos_serve_partial_def checked_eq command_def param_def cmd_code_def
        canon_lookup_virtual_object_def eos_pending_def Let_def)
qed

lemma memory_capture:
  assumes "session cam \<noteq> 0" "descs_ok n cam" "find is_jpg (first_dirent cam) = Some src" "d_stbuf src = Some st"
    and "read_file e src = Inr (Some d)" "length d = st_size st" "st_size st < 2 ^ 32"
    and "cn_capture_destination (canon cam) = EOS_CAPTUREDEST_SDRAM"
  shows "\<exists>c ds. eos_capture_trigger hk e cam = Inr c \<and> eos_pending (ptp_objectid cam + 1) d c \<and> size ds = 6 \<and>
    pipe_frame cam c \<and> first_dirent c = first_dirent cam \<and>
    queued c = queued cam + ds + {# transfer_record (ptp_objectid cam + 1) EOS_OFC_JPEG (word_of_nat (length d))
      (eos_picture_name (ptp_objectid cam + 1)) #}"
proof -
  obtain c1 ds where c1: "eos_capture_summary hk e cam = Inr c1" "size ds = 6" "announced ds cam c1"
    using summary_announced [OF assms(2)] by blast
  let ?s = "eos_store_sdram d st c1"
  have p: "sd_handle (cn_sdram (canon ?s)) = ptp_objectid cam + 1" "sd_ofc (cn_sdram (canon ?s)) = EOS_OFC_JPEG"
    "sd_name (cn_sdram (canon ?s)) = eos_picture_name (ptp_objectid cam + 1)" "sd_data (cn_sdram (canon ?s)) = d"
    "sd_used (cn_sdram (canon ?s))" "session ?s = session cam" "first_dirent ?s = first_dirent cam" "pipe_frame cam ?s"
    "first_interrupt ?s = first_interrupt c1"
    using c1(3) assms(6,7) by (simp_all add: eos_store_sdram_def Let_def announced_def eos_picture_name_def unat32)
  let ?c = "ptp_inject_event_data e ?s 500 PTP_EC_EOS_RequestObjectTransfer (transfer_record (ptp_objectid cam + 1)
    EOS_OFC_JPEG (word_of_nat (length d)) (eos_picture_name (ptp_objectid cam + 1))) PTP_CH_EOS"
  have "eos_capture_trigger hk e cam = Inr ?c"
    using c1 assms(3-6,8) p(1-3) notify_transfer [OF picture_name_short]
    by (simp add: eos_capture_trigger_def eos_capture_sdram_def announced_def stbuf_def Let_def)
  moreover have "queued ?s = queued cam + ds" using p(9) c1(3) by (simp add: queued_def announced_def)
  ultimately show ?thesis using p assms(1) c1(2)
    by (intro exI [of _ ?c] exI [of _ ds]) (simp add: eos_pending_def)
qed

text \<open>
  C39. The life of a picture in EOS camera memory: with memory as the destination, a full press
  stores the first picture of the card under a new handle, leaves the card alone, and queues six
  records for the press and one that announces handle, format, size and name. Consecutive partial
  reads of at most 512 KB are answered with the parts of the file, which put together are the file.
  When the host confirms the transfer, the handle is unknown again.
\<close>

theorem eos_memory_picture:
  assumes "session cam \<noteq> 0" "descs_ok n cam" "find is_jpg (first_dirent cam) = Some src" "d_stbuf src = Some st"
    and "read_file e src = Inr (Some d)" "length d = st_size st" "st_size st < 2 ^ 32"
    and "cn_capture_destination (canon cam) = EOS_CAPTUREDEST_SDRAM" "h = ptp_objectid cam + 1"
    and "find_dirent cam h = None" "p = 2 \<or> p = 3" "sz \<le> 512 * 1024" "length d \<le> m * sz" "m * sz < 2 ^ 32"
  shows "\<exists>c1 c2 ds parts. ptp_eos_remote_release hk e cam (command 0x9128 t1 [p, 0]) = Inr c1 \<and>
    inbulk c1 = inbulk cam @ enc (RespC PTP_RC_OK (seqnr cam) []) \<and> first_dirent c1 = first_dirent cam \<and> size ds = 6 \<and>
    queued c1 = queued cam + ds + {# transfer_record h EOS_OFC_JPEG (word_of_nat (length d)) (eos_picture_name h) #} \<and>
    length parts = m \<and> concat parts = d \<and>
    (\<forall>i<m. eos_getpartialobject e c1 (command 0x9107 t2 [h, word_of_nat (i * sz), word_of_nat sz])
       = Inr (ptp_response (ptp_senddata c1 0x9107 (parts ! i)) PTP_RC_OK [word_of_nat (length (parts ! i))])) \<and>
    eos_transfercomplete c1 (command 0x9117 t3 [h]) = Inr c2 \<and>
    eos_getpartialobject e c2 (command 0x9107 t4 [h, 0, word_of_nat sz]) = Inr (ptp_response c2 PTP_RC_InvalidObjectHandle [])"
proof -
  obtain c ds where c: "eos_capture_trigger hk e cam = Inr c" "eos_pending h d c" "size ds = 6" "pipe_frame cam c"
    "first_dirent c = first_dirent cam"
    "queued c = queued cam + ds + {# transfer_record h EOS_OFC_JPEG (word_of_nat (length d)) (eos_picture_name h) #}"
    using memory_capture [OF assms(1-8)] unfolding assms(9) by blast
  let ?c1 = "ptp_response c PTP_RC_OK []"
  let ?c2 = "ptp_response (?c1\<lparr>canon := (canon ?c1)\<lparr>cn_sdram := zero_sdram\<rparr>\<rparr>) PTP_RC_OK []"
  let ?parts = "map (\<lambda>i. take sz (drop (i * sz) d)) [0..<m]"
  have pend: "eos_pending h d ?c1" using c(2) by (simp add: eos_pending_def)
  have "ptp_eos_remote_release hk e cam (command 0x9128 t1 [p, 0]) = Inr ?c1"
    using c(1) assms(11) by (auto simp: ptp_eos_remote_release_def command_def param_def)
  moreover have "inbulk ?c1 = inbulk cam @ enc (RespC PTP_RC_OK (seqnr cam) [])" using c(4) by (simp add: pipe_frame_def)
  moreover have "queued ?c1 = queued c" by (simp add: queued_def)
  moreover have "concat ?parts = d" using assms(13) by (simp add: concat_parts)
  moreover have "i * sz < 2 ^ 32" if "i < m" for i
    using that assms(14) by (meson le_less_trans less_imp_le_nat mult_le_mono1)
  then have "\<forall>i<m. eos_getpartialobject e ?c1 (command 0x9107 t2 [h, word_of_nat (i * sz), word_of_nat sz])
       = Inr (ptp_response (ptp_senddata ?c1 0x9107 (?parts ! i)) PTP_RC_OK [word_of_nat (length (?parts ! i))])"
    using pending_part [OF pend _ _ assms(12)] assms(6,7) by (simp del: of_nat_mult)
  moreover have "eos_transfercomplete ?c1 (command 0x9117 t3 [h]) = Inr ?c2"
    using pend by (simp add: eos_transfercomplete_def checked_eq command_def param_def eos_pending_def Let_def)
  moreover have "eos_getpartialobject e ?c2 (command 0x9107 t4 [h, 0, word_of_nat sz]) = Inr (ptp_response ?c2 PTP_RC_InvalidObjectHandle [])"
    using pend assms(10) c(5)
    by (simp add: eos_getpartialobject_def eos_serve_partial_def checked_eq command_def param_def find_dirent_def
        canon_lookup_virtual_object_def eos_pending_def zero_sdram_def Let_def)
  ultimately show ?thesis using c(3,5,6)
    by (intro exI [of _ ?c1] exI [of _ ?c2] exI [of _ ds] exI [of _ ?parts]) simp
qed

definition demo_memory :: vcam where
  "demo_memory = demo_canon\<lparr>session := 1, canon := canon_fresh\<lparr>cn_capture_destination := 4\<rparr>\<rparr>"

lemma demo_memory_ok:
  "descs_ok 2660 demo_memory" "find is_jpg (first_dirent demo_memory) = Some (hd demo_dirents)"
  "read_file demo_env (hd demo_dirents) = Inr (Some demo_picture)" "find_dirent demo_memory 4 = None"
  using canon_init_typed [OF demo_start demo_canon_eq(1)]
  by (simp_all add: demo_memory_def descs_ok_def room_def demo_dirents_def is_jpg_def read_file_def
      demo_env_def stbuf_def demo_file_def demo_picture_def find_dirent_def)

theorem eos_memory_picture_witness:
  "\<exists>c1 c2. ptp_eos_remote_release no_callbacks demo_env demo_memory (command 0x9128 1 [3, 0]) = Inr c1 \<and>
    (\<exists>ds. queued c1 = ds + {# transfer_record 4 0x3801 5 (eos_picture_name 4) #}) \<and>
    (\<exists>parts. length parts = 3 \<and> concat parts = demo_picture \<and>
      (\<forall>i<3. eos_getpartialobject demo_env c1 (command 0x9107 2 [4, word_of_nat (i * 2), 2])
         = Inr (ptp_response (ptp_senddata c1 0x9107 (parts ! i)) PTP_RC_OK [word_of_nat (length (parts ! i))]))) \<and>
    eos_transfercomplete c1 (command 0x9117 3 [4]) = Inr c2 \<and>
    eos_getpartialobject demo_env c2 (command 0x9107 4 [4, 0, 2]) = Inr (ptp_response c2 PTP_RC_InvalidObjectHandle [])"
proof -
  have q: "queued demo_memory = {#}" "session demo_memory = 1" "ptp_objectid demo_memory = 3"
    "cn_capture_destination (canon demo_memory) = 4" "d_stbuf (hd demo_dirents) = Some (demo_file 5)"
    "length demo_picture = st_size (demo_file 5)" "st_size (demo_file 5) = 5"
    by (simp_all add: demo_memory_def queued_def demo_dirents_def demo_file_def demo_picture_def)
  have "\<exists>c1 c2 ds parts. ptp_eos_remote_release no_callbacks demo_env demo_memory (command 0x9128 1 [3, 0]) = Inr c1 \<and>
    inbulk c1 = inbulk demo_memory @ enc (RespC PTP_RC_OK (seqnr demo_memory) []) \<and> first_dirent c1 = first_dirent demo_memory \<and>
    size ds = 6 \<and> queued c1 = queued demo_memory + ds + {# transfer_record 4 0x3801 (word_of_nat (length demo_picture)) (eos_picture_name 4) #} \<and>
    length parts = 3 \<and> concat parts = demo_picture \<and>
    (\<forall>i<3. eos_getpartialobject demo_env c1 (command 0x9107 2 [4, word_of_nat (i * 2), word_of_nat 2])
       = Inr (ptp_response (ptp_senddata c1 0x9107 (parts ! i)) PTP_RC_OK [word_of_nat (length (parts ! i))])) \<and>
    eos_transfercomplete c1 (command 0x9117 3 [4]) = Inr c2 \<and>
    eos_getpartialobject demo_env c2 (command 0x9107 4 [4, 0, word_of_nat 2]) = Inr (ptp_response c2 PTP_RC_InvalidObjectHandle [])"
    by (rule eos_memory_picture [OF _ demo_memory_ok(1,2) q(5) demo_memory_ok(3) q(6) _ q(4)])
       (simp_all add: q demo_memory_ok(4))
  then show ?thesis using q(1,6,7) by (force simp del: of_nat_mult)
qed

end
