(* ===== verification/Fuji_Import.thy ===== *)
theory Fuji_Import
  imports Vcam_Init Pack
begin

text \<open>
  The image-import gallery of the Fujifilm module, src/src/fuji/fuji.c: the steps a host has to go
  through before a GFX body lets it enumerate its pictures, the objects that can be downloaded, and
  the vendor operations of the gallery. Logging is left out.
\<close>

abbreviation (input) "PTP_RC_AccessDenied \<equiv> 0x200F :: u16"
abbreviation (input) "FUJI_IMPORT_STEP_CLIENT_STATE \<equiv> 0x0001 :: u32"
abbreviation (input) "FUJI_IMPORT_STEP_DF28_GET \<equiv> 0x0002 :: u32"
abbreviation (input) "FUJI_IMPORT_STEP_DF28_SET \<equiv> 0x0004 :: u32"
abbreviation (input) "FUJI_IMPORT_STEP_D226_SET \<equiv> 0x0008 :: u32"
abbreviation (input) "FUJI_IMPORT_STEP_D227_SET \<equiv> 0x0010 :: u32"
abbreviation (input) "FUJI_IMPORT_STEP_D244_GET \<equiv> 0x0020 :: u32"
abbreviation (input) "FUJI_IMPORT_STEP_CURRENT_INFO \<equiv> 0x0040 :: u32"
abbreviation (input) "FUJI_IMPORT_STEP_CURRENT_THUMB \<equiv> 0x0080 :: u32"
abbreviation (input) "FUJI_IMPORT_STEP_FOLDERS \<equiv> 0x0100 :: u32"
abbreviation (input) "FUJI_IMPORT_STEP_DATES \<equiv> 0x0200 :: u32"
abbreviation (input) "FUJI_IMPORT_BOOTSTRAP_READY \<equiv> 0x003F :: u32"
abbreviation (input) "FUJI_IMPORT_ENUM_READY \<equiv> 0x03FF :: u32"
abbreviation (input) "FUJI_CURRENT_OBJECT \<equiv> 0x10000001 :: u32"

abbreviation (input) "FUJI_MULTIPLE_TRANSFER \<equiv> 1 :: int"
abbreviation (input) "FUJI_FULL_ACCESS \<equiv> 2 :: int"
abbreviation (input) "FUJI_PC_AUTO_SAVE \<equiv> 3 :: int"
abbreviation (input) "FUJI_REMOTE_ACCESS \<equiv> 6 :: int"

abbreviation (input) "PTP_DPC_FUJI_EventsList \<equiv> 0xD212 :: u16"
abbreviation (input) "PTP_DPC_FUJI_SelectedImgsMode \<equiv> 0xD220 :: u16"
abbreviation (input) "PTP_DPC_FUJI_ObjectCount \<equiv> 0xD222 :: u16"
abbreviation (input) "PTP_DPC_FUJI_Unknown_D400 \<equiv> 0xD400 :: u16"
abbreviation (input) "PTP_DPC_FUJI_ObjectCount2 \<equiv> 0xD401 :: u16"
abbreviation (input) "PTP_DPC_FUJI_Unknown_D52F \<equiv> 0xD52F :: u16"
abbreviation (input) "PTP_DPC_FUJI_CameraState \<equiv> 0xDF00 :: u16"

section \<open>The steps of the prelude\<close>

definition fuji_reset_image_import_state :: "vcam \<Rightarrow> vcam" where
  "fuji_reset_image_import_state cam =
     cam\<lparr>fuji := (fuji cam)\<lparr>fj_image_import_preflight_seen := False,
       fj_image_import_folder_query_seen := False, fj_image_import_date_query_seen := False,
       fj_image_import_steps := 0, fj_image_import_current_handle := 0\<rparr>\<rparr>"

definition fuji_mark_image_import_step :: "vcam \<Rightarrow> u32 \<Rightarrow> vcam" where
  "fuji_mark_image_import_step cam step =
     (if \<not> fj_is_gfx100ii (fuji cam) then cam
      else cam\<lparr>fuji := (fuji cam)\<lparr>fj_image_import_steps := fj_image_import_steps (fuji cam) OR step,
             fj_image_import_preflight_seen := True\<rparr>\<rparr>)"

definition fuji_image_import_has_steps :: "vcam \<Rightarrow> u32 \<Rightarrow> bool" where
  "fuji_image_import_has_steps cam steps \<longleftrightarrow> fj_image_import_steps (fuji cam) AND steps = steps"

definition fuji_image_import_reject :: "vcam \<Rightarrow> vcam" where
  "fuji_image_import_reject cam = ptp_response cam PTP_RC_AccessDenied []"

section \<open>Objects that can be downloaded\<close>

text \<open>
  Every scan of the list asks each cell for its handle first, and for what \<open>stat\<close> left in it only
  if the handle is not zero.
\<close>

definition fuji_is_downloadable_object :: "ptp_dirent \<Rightarrow> bool res" where
  "fuji_is_downloadable_object cur =
     (if d_id cur = 0 then Inr False else bnd (stbuf cur) (\<lambda>st. Inr (\<not> st_isdir st)))"

fun downloadable :: "ptp_dirent list \<Rightarrow> ptp_dirent list res" where
  "downloadable [] = Inr []"
| "downloadable (d # ds) = bnd (fuji_is_downloadable_object d) (\<lambda>b. bnd (downloadable ds) (\<lambda>r.
     Inr (if b then d # r else r)))"

definition fuji_downloadable_object_count :: "vcam \<Rightarrow> nat res" where
  "fuji_downloadable_object_count cam = bnd (downloadable (first_dirent cam)) (\<lambda>ds. Inr (length ds))"

text \<open>
  The exchange sort of the module, which it writes out twice: \<open>gt b a\<close> is the test under which the
  later element \<open>b\<close> goes to the front.
\<close>

definition swap_if :: "('a \<Rightarrow> 'a \<Rightarrow> bool) \<Rightarrow> nat \<Rightarrow> nat \<Rightarrow> 'a list \<Rightarrow> 'a list" where
  "swap_if gt a b xs = (if gt (xs ! b) (xs ! a) then xs[a := xs ! b, b := xs ! a] else xs)"

definition exchange_sort :: "('a \<Rightarrow> 'a \<Rightarrow> bool) \<Rightarrow> 'a list \<Rightarrow> 'a list" where
  "exchange_sort gt xs =
     fold (\<lambda>a ys. fold (swap_if gt a) [a + 1..<length xs] ys) [0..<length xs] xs"

definition fuji_collect_downloadable_handles :: "vcam \<Rightarrow> u32 list res" where
  "fuji_collect_downloadable_handles cam =
     bnd (downloadable (first_dirent cam)) (\<lambda>ds. Inr (exchange_sort (>) (map d_id ds)))"

text \<open>The search stops at the first hit, so it does not look at the cells behind it.\<close>

fun find_downloadable :: "u32 \<Rightarrow> ptp_dirent list \<Rightarrow> ptp_dirent option res" where
  "find_downloadable h [] = Inr None"
| "find_downloadable h (d # ds) = bnd (fuji_is_downloadable_object d) (\<lambda>b.
     if b \<and> d_id d = h then Inr (Some d) else find_downloadable h ds)"

definition fuji_find_downloadable_object :: "vcam \<Rightarrow> u32 \<Rightarrow> ptp_dirent option res" where
  "fuji_find_downloadable_object cam handle = find_downloadable handle (first_dirent cam)"

definition newer :: "ptp_dirent \<Rightarrow> ptp_dirent option \<Rightarrow> ptp_dirent option" where
  "newer cur newest = (case newest of None \<Rightarrow> Some cur
     | Some n \<Rightarrow> if d_id cur > d_id n then Some cur else Some n)"

definition fuji_find_newest_downloadable_object :: "vcam \<Rightarrow> ptp_dirent option res" where
  "fuji_find_newest_downloadable_object cam =
     bnd (downloadable (first_dirent cam)) (\<lambda>ds. Inr (fold newer ds None))"

text \<open>A copy of the container whose first parameter is the handle of the selected object.\<close>

definition fuji_rewrite_to_selected_handle :: "ptpcontainer \<Rightarrow> u32 \<Rightarrow> ptpcontainer" where
  "fuji_rewrite_to_selected_handle ptp handle = ptp\<lparr>c_params := handle # tl (c_params ptp)\<rparr>"

section \<open>Folders and dates\<close>

text \<open>The part behind the last slash, or the whole path when it has none.\<close>

definition fuji_import_folder_name :: "vcam \<Rightarrow> string" where
  "fuji_import_folder_name cam =
     (let name = rev (takeWhile (\<lambda>c. c \<noteq> CHR ''/'') (rev (vcamera_filesystem cam)))
      in if name = [] then ''100_FUJI'' else name)"

record FujiImportDate =
  fd_date :: string
  fd_count :: u32

text \<open>
  \<open>strftime("%Y%m%d")\<close> into nine bytes: no result when the text does not fit, or when \<open>gmtime\<close>
  has none.
\<close>

definition import_date :: "int \<Rightarrow> string option" where
  "import_date mtime =
     (let tm = gmtime mtime;
          s = (if tm_year tm < 0 then CHR ''-'' # dec_digits (nat (- tm_year tm)) else dec_digits (nat (tm_year tm)))
              @ fmt_int 2 (tm_mon tm) @ fmt_int 2 (tm_mday tm)
      in case c_int (tm_year tm - 1900) of Inl _ \<Rightarrow> None
         | Inr _ \<Rightarrow> if length s < 9 then Some s else None)"

fun count_date :: "string \<Rightarrow> FujiImportDate list \<Rightarrow> FujiImportDate list option" where
  "count_date d [] = None"
| "count_date d (x # xs) = (if fd_date x = d then Some (x\<lparr>fd_count := fd_count x + 1\<rparr> # xs)
     else map_option (\<lambda>r. x # r) (count_date d xs))"

definition note_date :: "nat \<Rightarrow> FujiImportDate list \<Rightarrow> string \<Rightarrow> FujiImportDate list" where
  "note_date mx ds d = (case count_date d ds of Some r \<Rightarrow> r
     | None \<Rightarrow> if length ds \<ge> mx then ds else ds @ [\<lparr>fd_date = d, fd_count = 1\<rparr>])"

fun scan_dates :: "nat \<Rightarrow> ptp_dirent list \<Rightarrow> FujiImportDate list \<Rightarrow> FujiImportDate list res" where
  "scan_dates mx [] ds = Inr ds"
| "scan_dates mx (c # cs) ds = bnd (stbuf c) (\<lambda>st.
     scan_dates mx cs (case import_date (st_mtime st) of None \<Rightarrow> ds | Some d \<Rightarrow> note_date mx ds d))"

text \<open>\<open>strcmp(s, t) > 0\<close>.\<close>

fun strcmp_gt :: "string \<Rightarrow> string \<Rightarrow> bool" where
  "strcmp_gt [] t = False"
| "strcmp_gt (c # s) [] = True"
| "strcmp_gt (c # s) (d # t) = (if c = d then strcmp_gt s t else byte_of c > byte_of d)"

definition fuji_collect_import_dates :: "vcam \<Rightarrow> nat \<Rightarrow> FujiImportDate list res" where
  "fuji_collect_import_dates cam max_dates =
     bnd (downloadable (first_dirent cam)) (\<lambda>cs. bnd (scan_dates max_dates cs []) (\<lambda>ds.
       Inr (exchange_sort (\<lambda>x y. strcmp_gt (fd_date x) (fd_date y)) ds)))"

section \<open>Downloading\<close>

text \<open>
  The list gives up its first cell, and the next one gets the handle 1; the directory a cell is in
  stands behind it in the list, so a cell that is dropped is the parent of none that stays.
\<close>

definition fuji_downloaded_object :: "env \<Rightarrow> vcam \<Rightarrow> vcam res" where
  "fuji_downloaded_object e cam =
     (if fj_camera_state (fuji cam) \<noteq> FUJI_MULTIPLE_TRANSFER then Inr cam
      else case first_dirent cam of
             _ # next # rest \<Rightarrow>
               (let cam = cam\<lparr>first_dirent := next\<lparr>d_id := 1\<rparr> # rest\<rparr>;
                    cam = (if fj_sent_images (fuji cam) = 3 then cam\<lparr>next_cmd_kills_connection := True\<rparr> else cam);
                    cam = ptp_notify_event e cam PTP_DPC_FUJI_CameraState (word_of_int (fj_camera_state (fuji cam)));
                    cam = ptp_notify_event e cam PTP_DPC_FUJI_SelectedImgsMode 1
                in bnd (c_int (fj_sent_images (fuji cam) + 1)) (\<lambda>n.
                     Inr (cam\<lparr>fuji := (fuji cam)\<lparr>fj_sent_images := n\<rparr>\<rparr>)))
           | _ \<Rightarrow> Inl Undef)"

text \<open>Whether a partial request reaches the end of its object, decided before the request is served.\<close>

definition reaches_end :: "nat \<Rightarrow> nat \<Rightarrow> nat \<Rightarrow> bool" where
  "reaches_end object_size offset requested =
     (let bytes_returned = (if offset < object_size
            then (let remaining = object_size - offset in if requested < remaining then requested else remaining)
            else 0)
      in offset \<ge> object_size \<or> offset + bytes_returned \<ge> object_size)"

definition ptp_fuji_getpartialobject_write :: "hooks \<Rightarrow> env \<Rightarrow> vcam \<Rightarrow> ptpcontainer \<Rightarrow> vcam res" where
  "ptp_fuji_getpartialobject_write hk e cam ptp =
     bnd (param ptp 0) (\<lambda>p0.
     bnd (fuji_find_downloadable_object cam p0) (\<lambda>cur.
     bnd (case cur of None \<Rightarrow> Inr False
          | Some c \<Rightarrow> bnd (stbuf c) (\<lambda>st. bnd (param ptp 1) (\<lambda>p1. bnd (param ptp 2) (\<lambda>p2.
              Inr (reaches_end (st_size st) (unat p1) (unat p2)))))) (\<lambda>completed.
     bnd (ptp_getpartialobject_write hk e cam ptp) (\<lambda>cam.
       if completed then fuji_downloaded_object e cam else Inr cam))))"

section \<open>The vendor operations of the gallery\<close>

definition ptp_fuji_get_extension_object_info :: "env \<Rightarrow> vcam \<Rightarrow> ptpcontainer \<Rightarrow> vcam res" where
  "ptp_fuji_get_extension_object_info e cam ptp =
     checked cam ptp 1 (\<lambda>cam.
       if \<not> fuji_image_import_has_steps cam FUJI_IMPORT_BOOTSTRAP_READY
       then Inr (fuji_image_import_reject cam)
       else bnd (param ptp 0) (\<lambda>p0.
         if p0 \<noteq> FUJI_CURRENT_OBJECT then Inr (ptp_response cam PTP_RC_InvalidObjectHandle [])
         else bnd (fuji_find_newest_downloadable_object cam) (\<lambda>r. case r of
             None \<Rightarrow> Inr (ptp_response cam PTP_RC_InvalidObjectHandle [])
           | Some cur \<Rightarrow>
               (let cam = cam\<lparr>fuji := (fuji cam)\<lparr>fj_image_import_current_handle := d_id cur\<rparr>\<rparr>;
                    cam = fuji_mark_image_import_step cam FUJI_IMPORT_STEP_CURRENT_INFO
                in ptp_getobjectinfo_write e cam (fuji_rewrite_to_selected_handle ptp (d_id cur))))))"

definition ptp_fuji_get_extension_thumb :: "env \<Rightarrow> vcam \<Rightarrow> ptpcontainer \<Rightarrow> vcam res" where
  "ptp_fuji_get_extension_thumb e cam ptp =
     checked cam ptp 1 (\<lambda>cam.
       if \<not> fuji_image_import_has_steps cam FUJI_IMPORT_STEP_CURRENT_INFO
          \<or> fj_image_import_current_handle (fuji cam) = 0
       then Inr (fuji_image_import_reject cam)
       else bnd (param ptp 0) (\<lambda>p0.
         if p0 \<noteq> FUJI_CURRENT_OBJECT then Inr (ptp_response cam PTP_RC_InvalidObjectHandle [])
         else bnd (fuji_find_downloadable_object cam (fj_image_import_current_handle (fuji cam))) (\<lambda>r. case r of
             None \<Rightarrow> Inr (ptp_response cam PTP_RC_InvalidObjectHandle [])
           | Some _ \<Rightarrow>
               (let cam = fuji_mark_image_import_step cam FUJI_IMPORT_STEP_CURRENT_THUMB
                in ptp_getthumb_write e cam
                     (fuji_rewrite_to_selected_handle ptp (fj_image_import_current_handle (fuji cam)))))))"

definition ptp_fuji_get_extension_partial_object :: "hooks \<Rightarrow> env \<Rightarrow> vcam \<Rightarrow> ptpcontainer \<Rightarrow> vcam res" where
  "ptp_fuji_get_extension_partial_object hk e cam ptp =
     checked cam ptp 3 (\<lambda>cam.
       if \<not> fuji_image_import_has_steps cam FUJI_IMPORT_ENUM_READY
       then Inr (fuji_image_import_reject cam)
       else bnd (param ptp 0) (\<lambda>p0. bnd (fuji_find_downloadable_object cam p0) (\<lambda>r. case r of
             None \<Rightarrow> Inr (ptp_response cam PTP_RC_InvalidObjectHandle [])
           | Some _ \<Rightarrow> ptp_fuji_getpartialobject_write hk e cam ptp)))"

text \<open>A length field in front of an entry is filled in when the entry is complete.\<close>

definition sized_entry :: "byte list \<Rightarrow> byte list" where
  "sized_entry entry = put_32bit_le (word_of_nat (length entry)) @ entry"

definition ptp_fuji_get_image_import_folders :: "vcam \<Rightarrow> ptpcontainer \<Rightarrow> vcam res" where
  "ptp_fuji_get_image_import_folders cam ptp =
     checked cam ptp 0 (\<lambda>cam.
       if \<not> fuji_image_import_has_steps cam FUJI_IMPORT_STEP_CURRENT_THUMB
       then Inr (fuji_image_import_reject cam)
       else
         let cam = cam\<lparr>fuji := (fuji cam)\<lparr>fj_image_import_folder_query_seen := True\<rparr>\<rparr>;
             cam = fuji_mark_image_import_step cam FUJI_IMPORT_STEP_FOLDERS
         in bnd (fuji_downloadable_object_count cam) (\<lambda>n.
            bnd (add_string (fuji_import_folder_name cam)) (\<lambda>nm.
            bnd (fits 256 (put_32bit_le 1 @ sized_entry
                   (put_32bit_le 0x00010001 @ put_32bit_le (word_of_nat n) @ nm))) (\<lambda>data.
              Inr (ptp_response (ptp_senddata cam (cmd_code ptp) data) PTP_RC_OK [])))))"

fun date_entries :: "FujiImportDate list \<Rightarrow> byte list res" where
  "date_entries [] = Inr []"
| "date_entries (d # ds) = bnd (add_string (fd_date d)) (\<lambda>s. bnd (date_entries ds) (\<lambda>r.
     Inr (sized_entry (s @ put_32bit_le (fd_count d)) @ r)))"

definition ptp_fuji_get_image_import_dates :: "vcam \<Rightarrow> ptpcontainer \<Rightarrow> vcam res" where
  "ptp_fuji_get_image_import_dates cam ptp =
     guard (vcam_check_trans_id cam ptp) (\<lambda>cam.
     guard (vcam_check_session cam) (\<lambda>cam.
     bnd (if c_nparams ptp \<noteq> 2 then Inr True
          else bnd (param ptp 0) (\<lambda>p0. if p0 \<noteq> 0 then Inr True
               else bnd (param ptp 1) (\<lambda>p1. Inr (p1 \<noteq> 0x7530)))) (\<lambda>bad.
       if bad then Inr (ptp_response cam PTP_RC_InvalidParameter [])
       else if \<not> fuji_image_import_has_steps cam FUJI_IMPORT_STEP_FOLDERS
       then Inr (fuji_image_import_reject cam)
       else
         let cam = cam\<lparr>fuji := (fuji cam)\<lparr>fj_image_import_date_query_seen := True\<rparr>\<rparr>;
             cam = fuji_mark_image_import_step cam FUJI_IMPORT_STEP_DATES
         in bnd (fuji_collect_import_dates cam 32) (\<lambda>dates. bnd (date_entries dates) (\<lambda>entries.
            bnd (fits 2048 (put_32bit_le (word_of_nat (length dates)) @ entries)) (\<lambda>data.
              Inr (ptp_response (ptp_senddata cam (cmd_code ptp) data) PTP_RC_OK [])))))))"

definition ptp_fuji_unsupported :: "vcam \<Rightarrow> ptpcontainer \<Rightarrow> vcam res" where
  "ptp_fuji_unsupported cam ptp = Inr (ptp_response cam PTP_RC_OperationNotSupported [])"

definition ptp_fuji_discovery_getthumb_write :: "vcam \<Rightarrow> ptpcontainer \<Rightarrow> vcam res" where
  "ptp_fuji_discovery_getthumb_write cam ptp = Inr (ptp_response cam PTP_RC_NoThumbnailPresent [])"

end
