(* ===== verification/Fuji_Ops.thy ===== *)
theory Fuji_Ops
  imports Fuji_Import
begin

text \<open>
  The Fujifilm module, src/src/fuji/fuji.c: the state a body is set up with, the fixture picture of
  the GFX body, the device properties, events and remote capture, and the registration of the
  operations. Starting the thread behind the event and video ports and logging are left out;
  what that thread does is in theory Fuji_Server.
\<close>

abbreviation (input) "CAM_STATE_READY \<equiv> 0 :: int"
abbreviation (input) "CAM_STATE_IDLE_REMOTE \<equiv> 3 :: int"

section \<open>The fixture picture\<close>

abbreviation (input) "FUJI_GFX_CHUNK_SIZE \<equiv> 0x00C00020 :: nat"
abbreviation (input) "FUJI_GFX_LARGE_JPEG_SIZE \<equiv> 0x00D00020 :: nat"
abbreviation (input) "FUJI_GFX_LARGE_JPEG_PATH \<equiv> ''/tmp/vcam-gfx100ii/DSCF0001.JPG''"
abbreviation (input) "FUJI_DUMMY_JPEG_COMPRESSED \<equiv> ''bin/fuji/jpeg-compressed.jpg''"

text \<open>The part of the name from its last dot on, compared without case.\<close>

definition fuji_name_has_ext :: "string \<Rightarrow> string \<Rightarrow> bool" where
  "fuji_name_has_ext name ext \<longleftrightarrow> CHR ''.'' \<in> set name \<and>
     map to_lower (CHR ''.'' # rev (takeWhile (\<lambda>c. c \<noteq> CHR ''.'') (rev name))) = map to_lower ext"

definition fuji_is_large_jpeg :: "ptp_dirent \<Rightarrow> bool res" where
  "fuji_is_large_jpeg cur =
     (if \<not> fuji_name_has_ext (d_name cur) ''.jpg'' then Inr False
      else bnd (stbuf cur) (\<lambda>st. Inr (st_size st > FUJI_GFX_CHUNK_SIZE)))"

definition fuji_has_large_jpeg :: "vcam \<Rightarrow> bool res" where
  "fuji_has_large_jpeg cam = bnd (first_match fuji_is_large_jpeg (first_dirent cam)) (\<lambda>r. Inr (r \<noteq> None))"

definition fuji_find_fixture_parent :: "vcam \<Rightarrow> ptp_dirent option" where
  "fuji_find_fixture_parent cam =
     (case find (\<lambda>d. d_name d = ''DCIM'') (first_dirent cam) of Some d \<Rightarrow> Some d
      | None \<Rightarrow> (case first_dirent cam of [] \<Rightarrow> None | d # _ \<Rightarrow> Some d))"

definition fuji_write_com_payload :: "nat \<Rightarrow> byte list" where
  "fuji_write_com_payload sz = replicate sz (byte_of (CHR ''V''))"

text \<open>
  The comment segments the picture is blown up with, from the file position \<open>current\<close> on: each one
  moves it by its payload and four bytes of header.
\<close>

definition com_payload :: "nat \<Rightarrow> nat" where
  "com_payload current = (let n = FUJI_GFX_LARGE_JPEG_SIZE - current - 2 in if n > 65533 then 65533 else n)"

definition com_segment :: "nat \<Rightarrow> byte list" where
  "com_segment n = [0xff, 0xfe, word_of_nat ((n + 2) div 256), word_of_nat (n + 2)] @ fuji_write_com_payload n"

function com_segments :: "nat \<Rightarrow> byte list" where
  "com_segments current = (if current + 2 < FUJI_GFX_LARGE_JPEG_SIZE
     then com_segment (com_payload current) @ com_segments (current + 4 + com_payload current) else [])"
  by pat_completeness auto
termination
  by (relation "measure (\<lambda>current. FUJI_GFX_LARGE_JPEG_SIZE - current)") (auto simp: Let_def com_payload_def)

declare com_segments.simps [simp del]

definition large_jpeg :: "byte list \<Rightarrow> byte list option" where
  "large_jpeg base =
     (if length base < 4 then None
      else if base ! 0 \<noteq> 0xff \<or> base ! 1 \<noteq> 0xd8 \<or> base ! (length base - 2) \<noteq> 0xff \<or> base ! (length base - 1) \<noteq> 0xd9
      then None
      else let current = length base - 2
           in Some (take current base @ com_segments current @ [0xff, 0xd9]))"

text \<open>
  A file the camera wrote is on the disk from then on, with the time \<open>now\<close> of the clock on it: these functions
  return the environment they leave. A write to an open file is taken to succeed.
\<close>

definition write_file :: "string \<Rightarrow> byte list \<Rightarrow> int \<Rightarrow> env \<Rightarrow> env" where
  "write_file path bs now e = e\<lparr>files := (files e)(path \<mapsto> bs),
     fs_tree := (fs_tree e)(path := FsEnt path
       (Some \<lparr>st_isdir = False, st_size = length bs, st_mtime = now, st_ctime = now\<rparr>) None)\<rparr>"

definition fuji_create_large_jpeg_fixture :: "int \<Rightarrow> env \<Rightarrow> env option" where
  "fuji_create_large_jpeg_fixture now e =
     (if (case fs_stat (fs_tree e FUJI_GFX_LARGE_JPEG_PATH) of None \<Rightarrow> False
          | Some st \<Rightarrow> st_size st > FUJI_GFX_CHUNK_SIZE)
      then Some e
      else case files e (take 511 (pwd e @ ''/'' @ FUJI_DUMMY_JPEG_COMPRESSED)) of
             None \<Rightarrow> None
           | Some base \<Rightarrow> (case large_jpeg base of None \<Rightarrow> None
               | Some out \<Rightarrow> if \<not> writable e FUJI_GFX_LARGE_JPEG_PATH then None
                   else Some (write_file FUJI_GFX_LARGE_JPEG_PATH out now e)))"

definition fuji_add_virtual_file :: "env \<Rightarrow> string \<Rightarrow> string \<Rightarrow> vcam \<Rightarrow> vcam" where
  "fuji_add_virtual_file e name path cam =
     (let parent = (case fuji_find_fixture_parent cam of None \<Rightarrow> PNull | Some p \<Rightarrow> PAddr (d_addr p));
          cam = (if ptp_objectid cam = 0 then cam\<lparr>ptp_objectid := 1\<rparr> else cam);
          h = ptp_objectid cam;
          cam = cam\<lparr>ptp_objectid := h + 1\<rparr>
      in case fs_stat (fs_tree e path) of
           None \<Rightarrow> cam
         | Some st \<Rightarrow> push_dirent \<lparr>d_addr = heap_next cam, d_id = h, d_name = name, d_fsname = path,
             d_fsname_literal = False, d_stbuf = Some st, d_parent = parent\<rparr> cam)"

definition fuji_setup_gfx100ii_fixtures :: "env \<Rightarrow> vcam \<Rightarrow> (env \<times> vcam) res" where
  "fuji_setup_gfx100ii_fixtures e cam =
     (if vcamera_filesystem cam \<noteq> pwd e @ ''/bin/card'' then Inr (e, cam)
      else bnd (fuji_has_large_jpeg cam) (\<lambda>has.
        if has then Inr (e, cam)
        else case fuji_create_large_jpeg_fixture (wall e (ticks cam)) e of
               None \<Rightarrow> Inr (e, cam)
             | Some e \<Rightarrow> Inr (e, fuji_add_virtual_file e ''DSCF0001.JPG'' FUJI_GFX_LARGE_JPEG_PATH cam)))"

section \<open>Set-up\<close>

definition fuji_access_mode :: "Fuji \<Rightarrow> int" where
  "fuji_access_mode f =
     (let state = (if fj_remote_version f \<noteq> 0 then FUJI_REMOTE_ACCESS else FUJI_FULL_ACCESS);
          state = (if fj_do_discovery f then FUJI_PC_AUTO_SAVE else state)
      in if fj_is_select_multiple_images f then FUJI_MULTIPLE_TRANSFER else state)"

text \<open>Multiple transfer gives the second cell of the list the handle 1.\<close>

definition fuji_select_first :: "vcam \<Rightarrow> vcam res" where
  "fuji_select_first cam =
     (if \<not> fj_is_select_multiple_images (fuji cam) then Inr cam
      else case first_dirent cam of
             first # next # rest \<Rightarrow> Inr (cam\<lparr>first_dirent := first # next\<lparr>d_id := 1\<rparr> # rest\<rparr>)
           | _ \<Rightarrow> Inl Undef)"

definition notify_all :: "env \<Rightarrow> (u16 \<times> u32) list \<Rightarrow> vcam \<Rightarrow> vcam" where
  "notify_all e evs cam = fold (\<lambda>(c, v) cam. ptp_notify_event e cam c v) evs cam"

definition fuji_startup_events :: "Fuji \<Rightarrow> (u16 \<times> u32) list" where
  "fuji_startup_events f =
     [(PTP_DPC_FUJI_CameraState, word_of_int (fj_camera_state f))]
     @ (if fj_camera_state f = FUJI_MULTIPLE_TRANSFER then [(PTP_DPC_FUJI_SelectedImgsMode, 1)] else [])
     @ [(PTP_DPC_FUJI_ObjectCount, word_of_int (fj_obj_count f))]
     @ (if fj_remote_version f \<noteq> 0
        then [(PTP_DPC_FUJI_ObjectCount2, word_of_int (fj_obj_count f)), (PTP_DPC_FUJI_Unknown_D52F, 1),
              (PTP_DPC_FUJI_Unknown_D400, 1), (PTP_DPC_FUJI_SelectedImgsMode, 1)]
        else [])"

definition vcam_fuji_setup :: "env \<Rightarrow> vcam \<Rightarrow> (env \<times> vcam) res" where
  "vcam_fuji_setup e cam =
     (let cam = cam\<lparr>fuji := (fuji cam)\<lparr>fj_client_state := 2, fj_camera_state := 0, fj_min_remote_version := 0,
            fj_compress_small := 0, fj_no_compressed := 0, fj_internal_state := CAM_STATE_READY,
            fj_sent_images := 0\<rparr>\<rparr>;
          cam = fuji_reset_image_import_state cam
      in bnd (if fj_is_gfx100ii (fuji cam) then fuji_setup_gfx100ii_fixtures e cam else Inr (e, cam)) (\<lambda>(e, cam).
         bnd (c_int (int (ptp_get_object_count cam) - 1)) (\<lambda>n.
         let cam = cam\<lparr>fuji := (fuji cam)\<lparr>fj_obj_count := n, fj_camera_state := fuji_access_mode (fuji cam)\<rparr>\<rparr>
         in bnd (fuji_select_first cam) (\<lambda>cam. Inr (e, notify_all e (fuji_startup_events (fuji cam)) cam)))))"

definition fuji_is_compressed_mode :: "vcam \<Rightarrow> int" where
  "fuji_is_compressed_mode cam = fj_compress_small (fuji cam)"

text \<open>
  The answer to the init packet is a static struct whose name field keeps what the last call left
  there: \<open>old\<close> are its 54 bytes. Bytes \<open>2i\<close> and \<open>2i+1\<close> are stored per character, and for the
  terminator only byte \<open>2n+1\<close>.
\<close>

definition fuji_get_ack_packet :: "byte list \<Rightarrow> vcam \<Rightarrow> byte list res" where
  "fuji_get_ack_packet old cam =
     (let n = length (model cam) in
      if 2 * n + 2 > 54 \<or> length old \<noteq> 54 then Inl Undef
      else Inr (concat (map put_32bit_le [0x44, 0x2, 0x0, 0x61b07008, 0x93458b0a, 0x5793e7b2, 0x50e036dd])
             @ concat (map (\<lambda>c. [byte_of c, 0]) (model cam)) @ [old ! (2 * n), 0] @ drop (2 * n + 2) old))"

section \<open>Device properties\<close>

definition fuji_settable :: "Fuji \<Rightarrow> u32 set" where
  "fuji_settable f =
     {0xDF00, 0xDF01, 0xDF22, 0xD227, 0xD226, 0xD22E, 0xDF21, 0xDF31, 0xDF23, 0xD228, 0xDF28}
     \<union> (if fj_remote_version f \<noteq> 0 then {0xDF24, 0xDF25} else {})"

definition ptp_fuji_setdevicepropvalue_write :: "vcam \<Rightarrow> ptpcontainer \<Rightarrow> vcam res" where
  "ptp_fuji_setdevicepropvalue_write cam ptp =
     bnd (param ptp 0) (\<lambda>p0.
       if p0 \<in> fuji_settable (fuji cam) then Inr cam
       else Inr (ptp_response cam PTP_RC_DevicePropNotSupported []))"

definition c_assert :: "bool \<Rightarrow> 'a res \<Rightarrow> 'a res" where
  "c_assert b r = (if b then r else Inl Abort)"

definition fuji_set_client_state :: "vcam \<Rightarrow> byte list \<Rightarrow> vcam res" where
  "fuji_set_client_state cam data =
     c_assert (length data = 2) (bnd (get_16bit_le data) (\<lambda>v.
       let cam = cam\<lparr>fuji := (fuji cam)\<lparr>fj_client_state := uint v\<rparr>\<rparr>
       in Inr (if v = 20 then fuji_mark_image_import_step cam FUJI_IMPORT_STEP_CLIENT_STATE else cam)))"

definition fuji_set_compress_small :: "vcam \<Rightarrow> byte list \<Rightarrow> vcam res" where
  "fuji_set_compress_small cam data =
     bnd (get_16bit_le data) (\<lambda>v.
       let cam = cam\<lparr>fuji := (fuji cam)\<lparr>fj_compress_small := uint v\<rparr>\<rparr>
       in Inr (if length data = 2 \<and> v = 0 then fuji_mark_image_import_step cam FUJI_IMPORT_STEP_D226_SET else cam))"

definition fuji_set_correct_size :: "vcam \<Rightarrow> byte list \<Rightarrow> vcam res" where
  "fuji_set_correct_size cam data =
     c_assert (length data = 2) (bnd (get_16bit_le data) (\<lambda>v.
       c_assert (v = 1 \<or> v = 0) (
         let cam = cam\<lparr>fuji := (fuji cam)\<lparr>fj_no_compressed := uint v\<rparr>\<rparr>
         in Inr (if v = 0 then fuji_mark_image_import_step cam FUJI_IMPORT_STEP_D227_SET else cam))))"

definition fuji_set_camera_state :: "env \<Rightarrow> vcam \<Rightarrow> byte list \<Rightarrow> vcam res" where
  "fuji_set_camera_state e cam data =
     c_assert (length data = 2) (bnd (get_16bit_le data) (\<lambda>v.
       let count = word_of_int (fj_obj_count (fuji cam))
       in Inr (notify_all e [(PTP_DPC_FUJI_CameraState, ucast v), (PTP_DPC_FUJI_SelectedImgsMode, 1),
            (PTP_DPC_FUJI_ObjectCount, count), (PTP_DPC_FUJI_Unknown_D52F, 1),
            (PTP_DPC_FUJI_Unknown_D400, 1), (PTP_DPC_FUJI_ObjectCount, count)] cam)))"

text \<open>What a write does to the camera; a property the switch does not name is left as it is.\<close>

definition fuji_set_value :: "env \<Rightarrow> vcam \<Rightarrow> u32 \<Rightarrow> byte list \<Rightarrow> vcam res" where
  "fuji_set_value e cam p data =
     (if p = 0xDF01 then fuji_set_client_state cam data
      else if p = 0xDF24 then c_assert (length data = 4) (bnd (get_32bit_le data) (\<lambda>v.
        Inr (cam\<lparr>fuji := (fuji cam)\<lparr>fj_min_remote_version := sint v\<rparr>\<rparr>)))
      else if p = 0xD226 then fuji_set_compress_small cam data
      else if p = 0xD227 then fuji_set_correct_size cam data
      else if p = 0xDF25 then c_assert (length data = 4) (Inr cam)
      else if p = 0xDF28 then
        (if length data = 4 then bnd (get_32bit_le data) (\<lambda>v.
           Inr (if v = 3 then fuji_mark_image_import_step cam FUJI_IMPORT_STEP_DF28_SET else cam))
         else Inr cam)
      else if p = 0xDF00 then fuji_set_camera_state e cam data
      else Inr cam)"

definition ptp_fuji_setdevicepropvalue_write_data :: "env \<Rightarrow> vcam \<Rightarrow> ptpcontainer \<Rightarrow> byte list \<Rightarrow> vcam res" where
  "ptp_fuji_setdevicepropvalue_write_data e cam ptp data =
     bnd (param ptp 0) (\<lambda>p0. bnd (fuji_set_value e cam p0 data) (\<lambda>cam.
       Inr (ptp_response cam PTP_RC_OK [])))"

subsection \<open>Events\<close>

lemma pop_event_shorter:
  "ptp_pop_event cam = Inr (Some ev, cam') \<Longrightarrow> length (first_interrupt cam') < length (first_interrupt cam)"
proof -
  have "split_at P xs = (a, b) \<Longrightarrow> xs = a @ b" for P and xs a b :: "ptp_interrupt list"
    by (induction P xs arbitrary: a b rule: split_at.induct) (auto split: if_splits prod.splits)
  then show "ptp_pop_event cam = Inr (Some ev, cam') \<Longrightarrow> ?thesis"
    by (auto simp: ptp_pop_event_def find_channel_entry_def split: prod.splits list.splits) fastforce
qed

text \<open>\<open>while (!ptp_pop_event(cam, &ev_info))\<close>: the whole queue, due or not.\<close>

function pop_events :: "vcam \<Rightarrow> (GenericEvent list \<times> vcam) res" where
  "pop_events cam = bnd (ptp_pop_event cam) (\<lambda>(r, cam'). case r of
     None \<Rightarrow> Inr ([], cam')
   | Some ev \<Rightarrow> bnd (pop_events cam') (\<lambda>(evs, cam). Inr (ev # evs, cam)))"
  by pat_completeness auto
termination
  by (relation "measure (\<lambda>cam. length (first_interrupt cam))") (auto dest: pop_event_shorter)

declare pop_events.simps [simp del]

text \<open>\<open>struct PtpFujiEvents\<close>, packed: a 16-bit count and six bytes per event.\<close>

definition fuji_pack_events :: "GenericEvent list \<Rightarrow> byte list" where
  "fuji_pack_events evs = put_16bit_le (word_of_nat (length evs))
     @ concat (map (\<lambda>ev. put_16bit_le (ev_code ev) @ put_32bit_le (ev_value ev)) evs)"

definition fuji_send_events :: "vcam \<Rightarrow> ptpcontainer \<Rightarrow> vcam res" where
  "fuji_send_events cam ptp =
     bnd (pop_events cam) (\<lambda>(evs, cam).
     bnd (fits 4096 (fuji_pack_events evs)) (\<lambda>data.
       Inr (ptp_response (ptp_senddata cam (cmd_code ptp) data) PTP_RC_OK [])))"

text \<open>
  The callback of property 0xD212 packs the events into the block the descriptor's value points to,
  whatever its size: a write of the property replaces it.
\<close>

definition d212_getvalue :: "vcam \<Rightarrow> PtpPropDesc \<Rightarrow> (vcam \<times> PtpPropDesc \<times> int) res" where
  "d212_getvalue cam desc =
     bnd (pop_events cam) (\<lambda>(evs, cam). bnd (blk_bytes (pd_value desc)) (\<lambda>buf.
     bnd (fits (length buf) (fuji_pack_events evs)) (\<lambda>data.
       Inr (cam, desc\<lparr>pd_value := Mem (data @ drop (length data) buf)\<rparr>, 2 + int (length evs) * 6))))"

definition fuji_register_d212 :: "env \<Rightarrow> vcam \<Rightarrow> vcam" where
  "fuji_register_d212 e cam =
     vcam_register_prop_handlers 0xD212 (zero_desc\<lparr>DataType := PTP_TC_STRING, GetSet := PTP_AC_Read,
       pd_value := Mem (map (junk e) [0..<512])\<rparr>) (Some F_d212_getvalue) None cam"

subsection \<open>Reading\<close>

definition send_value :: "vcam \<Rightarrow> ptpcontainer \<Rightarrow> byte list \<Rightarrow> vcam" where
  "send_value cam ptp bs = ptp_response (ptp_senddata cam (cmd_code ptp) bs) PTP_RC_OK []"

definition send_int :: "vcam \<Rightarrow> ptpcontainer \<Rightarrow> int \<Rightarrow> vcam" where
  "send_int cam ptp v = send_value cam ptp (put_32bit_le (word_of_int v))"

text \<open>What the gallery properties send, unless the gate of the GFX body is closed.\<close>

definition gated :: "vcam \<Rightarrow> vcam res \<Rightarrow> vcam res" where
  "gated cam r = (if fj_is_gfx100ii (fuji cam) \<and> \<not> fuji_image_import_has_steps cam FUJI_IMPORT_ENUM_READY
     then Inr (fuji_image_import_reject cam) else r)"

definition fuji_send_import_count :: "vcam \<Rightarrow> ptpcontainer \<Rightarrow> vcam res" where
  "fuji_send_import_count cam ptp = bnd (fuji_downloadable_object_count cam) (\<lambda>n. Inr (send_int cam ptp (int n)))"

definition fuji_send_import_handles :: "vcam \<Rightarrow> ptpcontainer \<Rightarrow> vcam res" where
  "fuji_send_import_handles cam ptp = bnd (fuji_collect_downloadable_handles cam) (\<lambda>hs.
     Inr (send_value cam ptp (put_32bit_le (word_of_nat (length hs)) @ concat (map put_32bit_le hs))))"

definition fuji_send_property :: "vcam \<Rightarrow> ptpcontainer \<Rightarrow> u32 \<Rightarrow> vcam res" where
  "fuji_send_property cam ptp p =
     (let f = fuji cam in
      if p = 0xD212 then fuji_send_events cam ptp
      else if p = 0xD222 \<or> p = 0xD401 then Inr (send_int cam ptp (fj_obj_count f))
      else if p = 0xDF01 then Inr (send_int cam ptp (fj_client_state f))
      else if p = 0xDF00 then Inr (send_int cam ptp (fj_camera_state f))
      else if p = 0xDF21 then Inr (send_int cam ptp (fj_image_get_version f))
      else if p = 0xDF22 then Inr (send_int cam ptp (fj_get_object_version f))
      else if p = 0xDF28 then
        Inr (send_int (fuji_mark_image_import_step cam FUJI_IMPORT_STEP_DF28_GET) ptp 3)
      else if p = 0xDF25 then
        Inr (if fj_remote_get_object_version f \<noteq> 0 then send_int cam ptp (fj_remote_get_object_version f)
             else ptp_response cam PTP_RC_OK [])
      else if p = 0xD235 then
        Inr (if fj_is_gfx100ii f then send_int cam ptp 0x00bfffe0 else send_value cam ptp [])
      else if p = 0xDF24 then
        Inr (if fj_remote_version f \<noteq> 0 then send_int cam ptp (fj_remote_version f) else send_value cam ptp [])
      else if p = 0xD244 then
        Inr (send_value (fuji_mark_image_import_step cam FUJI_IMPORT_STEP_D244_GET) ptp [0])
      else if p = 0xD620 then gated cam (fuji_send_import_count cam ptp)
      else if p = 0xD621 then gated cam (fuji_send_import_handles cam ptp)
      else if p = 0xD52F then Inr (send_int cam ptp 0)
      else if p = 0xDF23 then Inr (send_int cam ptp 1)
      else Inr (send_value cam ptp []))"

definition ptp_fuji_getdevicepropvalue_write :: "vcam \<Rightarrow> ptpcontainer \<Rightarrow> vcam res" where
  "ptp_fuji_getdevicepropvalue_write cam ptp = bnd (param ptp 0) (fuji_send_property cam ptp)"

section \<open>Remote capture\<close>

definition remote_props :: "(u16 \<times> u32) list" where
  "remote_props = [(0xD21B, 0), (0x500C, 0x800a), (0x5012, 0), (0xD229, 0x761), (0xD22A, 0x19d1),
     (0x500E, 0x3), (0xD242, 0xa), (0xD018, 0x4), (0xD241, 0xa), (0xD02A, 0x80003200), (0xD02B, 0x80003200),
     (0xD240, 0xffffffff), (0xD028, 0x0), (0x5007, 0xa), (0x5010, 0x0), (0x5005, 0x2), (0xD001, 0x6),
     (0x500A, 0x8001), (0xD17C, 0x03020604), (0xD209, 0x0), (0xD246, 0xa)]"

definition ptp_fuji_capture :: "env \<Rightarrow> vcam \<Rightarrow> ptpcontainer \<Rightarrow> vcam res" where
  "ptp_fuji_capture e cam ptp =
     (let idle = cam\<lparr>fuji := (fuji cam)\<lparr>fj_internal_state := CAM_STATE_IDLE_REMOTE\<rparr>\<rparr>;
          cam = (if c_code ptp = 0x101C then idle
                 else if c_code ptp = 0x1018 then notify_all e remote_props idle
                 else cam)
      in Inr (ptp_response cam PTP_RC_OK []))"

section \<open>The valid values of the properties\<close>

definition devinfo_add_prop :: "nat \<Rightarrow> u16 \<Rightarrow> byte list \<Rightarrow> byte list res" where
  "devinfo_add_prop len cde payload = bnd (read_n (len - 2 - 4) payload) (\<lambda>p.
     Inr (ptp_write_u32 (word_of_nat len) @ ptp_write_u16 cde @ p))"

fun devinfo_add_props :: "(nat \<times> u16 \<times> byte list) list \<Rightarrow> byte list res" where
  "devinfo_add_props [] = Inr []"
| "devinfo_add_props ((len, cde, payload) # ps) = bnd (devinfo_add_prop len cde payload) (\<lambda>a.
     bnd (devinfo_add_props ps) (\<lambda>r. Inr (a @ r)))"

definition devinfo_props :: "(nat \<times> u16 \<times> byte list) list" where
  "devinfo_props = [
   (22, 0x5012, [0x4, 0x0, 0x1, 0x0, 0x0, 0x0, 0x0, 0x2, 0x3, 0x0, 0x0, 0x0, 0x2, 0x0, 0x4, 0x0]),
   (20, 0x500C, [0x4, 0x0, 0x1, 0x2, 0x0, 0x9, 0x80, 0x2, 0x2, 0x0, 0x9, 0x80, 0xa, 0x80]),
   (36, 0x5005, [0x4, 0x0, 0x1, 0x2, 0x0, 0x2, 0x0, 0x2, 0xa, 0x0, 0x2, 0x0, 0x4, 0x0, 0x6, 0x80,
     0x1, 0x80, 0x2, 0x80, 0x3, 0x80, 0x6, 0x0, 0xa, 0x80, 0xb, 0x80, 0xc, 0x80]),
   (54, 0x5010, [0x3, 0x0, 0x1, 0x0, 0x0, 0x0, 0x0, 0x2, 0x13, 0x0, 0x48, 0xf4, 0x95, 0xf5, 0xe3,
     0xf6, 0x30, 0xf8, 0x7d, 0xf9, 0xcb, 0xfa, 0x18, 0xfc, 0x65, 0xfd, 0xb3, 0xfe, 0x0, 0x0, 0x4d,
     0x1, 0x9b, 0x2, 0xe8, 0x3, 0x35, 0x5, 0x83, 0x6, 0xd0, 0x7, 0x1d, 0x9, 0x6b, 0xa, 0xb8, 0xb]),
   (38, 0xD001, [0x4, 0x0, 0x1, 0x1, 0x0, 0x2, 0x0, 0x2, 0xb, 0x0, 0x1, 0x0, 0x2, 0x0, 0x3, 0x0,
     0x4, 0x0, 0x5, 0x0, 0x6, 0x0, 0x7, 0x0, 0x8, 0x0, 0x9, 0x0, 0xa, 0x0, 0xb, 0x0]),
   (120, 0xD02A, [0x6, 0x0, 0x1, 0xff, 0xff, 0xff, 0xff, 0x0, 0x19, 0x0, 0x80, 0x2, 0x19, 0x0, 0x90,
     0x1, 0x0, 0x80, 0x20, 0x3, 0x0, 0x80, 0x40, 0x6, 0x0, 0x80, 0x80, 0xc, 0x0, 0x80, 0x0, 0x19,
     0x0, 0x80, 0x64, 0x0, 0x0, 0x40, 0xc8, 0x0, 0x0, 0x0, 0xfa, 0x0, 0x0, 0x0, 0x40, 0x1, 0x0, 0x0,
     0x90, 0x1, 0x0, 0x0, 0xf4, 0x1, 0x0, 0x0, 0x80, 0x2, 0x0, 0x0, 0x20, 0x3, 0x0, 0x0, 0xe8, 0x3,
     0x0, 0x0, 0xe2, 0x4, 0x0, 0x0, 0x40, 0x6, 0x0, 0x0, 0xd0, 0x7, 0x0, 0x0, 0xc4, 0x9, 0x0, 0x0,
     0x80, 0xc, 0x0, 0x0, 0xa0, 0xf, 0x0, 0x0, 0x88, 0x13, 0x0, 0x0, 0x0, 0x19, 0x0, 0x0, 0x0, 0x32,
     0x0, 0x40, 0x0, 0x64, 0x0, 0x40, 0x0, 0xc8, 0x0, 0x40]),
   (20, 0xD019, [0x4, 0x0, 0x1, 0x1, 0x0, 0x1, 0x0, 0x2, 0x2, 0x0, 0x0, 0x0, 0x1, 0x0]),
   (30, 0xD17C, [0x6, 0x0, 0x1, 0x0, 0x0, 0x0, 0x0, 0x4, 0x4, 0x2, 0x3, 0x1, 0x0, 0x0, 0x0, 0x0,
     0x7, 0x7, 0x9, 0x10, 0x1, 0x0, 0x0, 0x0])]"

definition ptp_fuji_get_device_info :: "vcam \<Rightarrow> ptpcontainer \<Rightarrow> vcam res" where
  "ptp_fuji_get_device_info cam ptp =
     bnd (devinfo_add_props devinfo_props) (\<lambda>ps. bnd (fits 2048 (ptp_write_u32 8 @ ps)) (\<lambda>data.
       Inr (ptp_response (ptp_senddata cam (cmd_code ptp) data) PTP_RC_OK [])))"

section \<open>Registration\<close>

definition fuji_opcodes :: "(int \<times> op_write \<times> op_write_data option) list" where
  "fuji_opcodes =
    [(0x902B, F_fuji F_ptp_fuji_get_device_info, None),
     (0x101C, F_fuji F_ptp_fuji_capture, None),
     (0x1018, F_fuji F_ptp_fuji_capture, None),
     (0x1016, F_fuji F_ptp_fuji_setdevicepropvalue_write, Some (F_fuji_data F_ptp_fuji_setdevicepropvalue_write_data)),
     (0x1015, F_fuji F_ptp_fuji_getdevicepropvalue_write, None),
     (0x101B, F_fuji F_ptp_fuji_getpartialobject_write, None)]"

definition gfx_opcodes :: "(int \<times> op_write \<times> op_write_data option) list" where
  "gfx_opcodes =
    [(0x1007, F_fuji F_ptp_fuji_unsupported, None),
     (0x9050, F_fuji F_ptp_fuji_get_image_import_folders, None),
     (0x9053, F_fuji F_ptp_fuji_get_image_import_dates, None),
     (0x9054, F_fuji F_ptp_fuji_get_extension_object_info, None),
     (0x9055, F_fuji F_ptp_fuji_get_extension_thumb, None),
     (0x9056, F_fuji F_ptp_fuji_get_extension_partial_object, None)]"

definition fuji_register_opcodes :: "vcam \<Rightarrow> vcam" where
  "fuji_register_opcodes cam =
     (let cam = fold register_op fuji_opcodes cam;
          cam = (if fj_is_gfx100ii (fuji cam) then fold register_op gfx_opcodes cam else cam)
      in if fj_do_discovery (fuji cam)
         then register_op (0x100A, F_fuji F_ptp_fuji_discovery_getthumb_write, None) cam else cam)"

end
