(* ===== verification/Fuji_Usb.thy ===== *)
theory Fuji_Usb
  imports Fuji_Ops Canon_Ops
begin

text \<open>
  Fujifilm bodies on USB: the card reader of src/src/fuji/usb.c with its live view object, the fake
  object API of the raw conversion mode of src/src/fuji/fs.c, the property callbacks of both, and
  the set-up of every Fujifilm body, \<open>fuji_init_cam\<close>. The log file of the raw conversion mode is
  left out.
\<close>

section \<open>Property callbacks\<close>

definition prop_d21c_getvalue :: "vcam \<Rightarrow> PtpPropDesc \<Rightarrow> (vcam \<times> PtpPropDesc \<times> int) res" where
  "prop_d21c_getvalue cam desc = Inr (cam, desc\<lparr>pd_value := Mem (ptp_write_u32 3)\<rparr>, -1)"

definition prop_d21c_setvalue :: "vcam \<Rightarrow> PtpPropDesc \<Rightarrow> byte list \<Rightarrow> (vcam \<times> PtpPropDesc \<times> int) res" where
  "prop_d21c_setvalue cam desc data = bnd (ptp_read_u16 data) (\<lambda>_. Inr (cam, desc, 0))"

definition prop_d18c_getvalue :: "vcam \<Rightarrow> PtpPropDesc \<Rightarrow> (vcam \<times> PtpPropDesc \<times> int) res" where
  "prop_d18c_getvalue cam desc =
     (let start = ptp_write_u16 0x1d @ ptp_write_string ''FF129506'';
          d = start @ replicate (0x201 - length start) 0
            @ concat (map ptp_write_u32 [0x2, 0x7, 0x7, 0x0, 0x64, 0x0, 0x2, 0x1, 0x1, 0x1, 0x0, 0x0, 0x0, 0x0,
                0x0, 0x0, 0x0, 0xffffffd8, 0x8000, 0x2, 0x1, 0x0, 0x0, 0x1, 0x0, 0x0, 0x2, 0x1])
      in Inr (cam, desc\<lparr>pd_value := Mem d\<rparr>, int (length d)))"

definition prop_d185_getvalue :: "vcam \<Rightarrow> PtpPropDesc \<Rightarrow> (vcam \<times> PtpPropDesc \<times> int) res" where
  "prop_d185_getvalue cam desc =
     (case fj_profile_buffer (fuji cam) of
        None \<Rightarrow> Inr (cam, desc\<lparr>pd_value := Null\<rparr>, 0)
      | Some buf \<Rightarrow> bnd (c_int (int (length buf))) (\<lambda>n. Inr (cam, desc\<lparr>pd_value := Mem buf\<rparr>, n)))"

text \<open>
  The set callback compares the new profile with the old one, for the log: \<open>len\<close> and \<open>len2\<close> are
  their first 16 bits, and in step \<open>i\<close> a word is read from either buffer, with the tests \<open>len >= i\<close>
  and \<open>len2 >= i\<close>. It stores nothing, so what it does to the camera is nothing, unless a read
  leaves its buffer.
\<close>

fun d185_compare :: "nat \<Rightarrow> nat \<Rightarrow> nat \<Rightarrow> nat \<Rightarrow> byte list \<Rightarrow> byte list \<Rightarrow> unit res" where
  "d185_compare 0 i len len2 d d2 = Inr ()"
| "d185_compare (Suc n) i len len2 d d2 =
     (let off = 0x201 + 4 * i in
      bnd (ptp_read_u32 (drop off (if len \<ge> i then d else d2))) (\<lambda>_.
      bnd (ptp_read_u32 (drop off (if len2 \<ge> i then d2 else d))) (\<lambda>_.
        d185_compare n (Suc i) len len2 d d2)))"

definition prop_d185_setvalue :: "vcam \<Rightarrow> PtpPropDesc \<Rightarrow> byte list \<Rightarrow> (vcam \<times> PtpPropDesc \<times> int) res" where
  "prop_d185_setvalue cam desc data =
     bnd (deref (fj_profile_buffer (fuji cam))) (\<lambda>d2.
     bnd (ptp_read_u16 data) (\<lambda>(len, _). bnd (ptp_read_u16 d2) (\<lambda>(len2, _).
       let max_len = (if len > len2 then len else len2)
       in bnd (d185_compare (unat max_len) 0 (unat len) (unat len2) data d2) (\<lambda>_. Inr (cam, desc, 0)))))"

definition add_rawconv_jpeg :: "Fuji \<Rightarrow> Fuji" where
  "add_rawconv_jpeg f =
     f\<lparr>fj_rawconv_jpeg_handle := 5,
       fj_rawconv_jpeg_object_info := Some \<lparr>storage_id = 0x10000001, obj_format = PTP_OF_JPEG, protection = 0,
         oi_compressed_size = word_of_nat (length (fj_rawconv_raf_buffer f)), thumb_format = PTP_OF_JPEG,
         thumb_compressed_size = 0x4006, thumb_width = 0, thumb_height = 0, img_width = 0, img_height = 0,
         img_bit_depth = 0, parent_obj = 0, assoc_type = 0, assoc_desc = 0, sequence_num = 0,
         filename = ''DSCF0000.jpg'', date_created = ''20241223T174315'', date_modified = '''', oi_keywords = ''''\<rparr>,
       fj_rawconv_jpeg_path := Some ''bin/fuji/jpeg-compressed.jpg''\<rparr>"

definition prop_d183_setvalue :: "env \<Rightarrow> vcam \<Rightarrow> PtpPropDesc \<Rightarrow> byte list \<Rightarrow> (vcam \<times> PtpPropDesc \<times> int) res" where
  "prop_d183_setvalue e cam desc data =
     Inr (ptp_notify_event e (cam\<lparr>fuji := add_rawconv_jpeg (fuji cam)\<rparr>) 0xD20E 0, desc, 0)"

section \<open>The card reader and its live view (usb.c)\<close>

abbreviation (input) "FUJI_USB_LV_HANDLE \<equiv> 0x80000001 :: u32"

definition add_prop_u32 :: "int \<Rightarrow> u32 \<Rightarrow> vcam \<Rightarrow> vcam" where
  "add_prop_u32 cde value cam =
     vcam_register_prop cde (zero_desc\<lparr>pd_value := Mem (put_32bit_le value), DataType := PTP_TC_UINT32\<rparr>) cam"

definition add_prop_invisible_u32 :: "int \<Rightarrow> u32 \<Rightarrow> vcam \<Rightarrow> vcam" where
  "add_prop_invisible_u32 cde value cam =
     vcam_register_prop cde (zero_desc\<lparr>pd_value := Mem (put_32bit_le value), DataType := PTP_TC_UINT32,
       GetSet := PTP_AC_Invisible\<rparr>) cam"

definition add_prop_u16 :: "int \<Rightarrow> u16 \<Rightarrow> vcam \<Rightarrow> vcam" where
  "add_prop_u16 cde value cam =
     vcam_register_prop cde (zero_desc\<lparr>pd_value := Mem (put_16bit_le value), DataType := PTP_TC_UINT16\<rparr>) cam"

text \<open>\<open>vcam_generic_send_file\<close> of src/src/vcamera.c is the one the Canon module uses, too.\<close>

definition fuji_usb_load_lv :: "env \<Rightarrow> vcam \<Rightarrow> vcam res" where
  "fuji_usb_load_lv e cam = bnd (load_jpeg e) (\<lambda>d. Inr (cam\<lparr>fuji := (fuji cam)\<lparr>fj_usb_lv_data := d\<rparr>\<rparr>))"

definition fuji_usb_opencapture :: "vcam \<Rightarrow> ptpcontainer \<Rightarrow> vcam res" where
  "fuji_usb_opencapture cam ptp =
     checked cam ptp 2 (\<lambda>cam.
       Inr (ptp_response (cam\<lparr>fuji := (fuji cam)\<lparr>fj_usb_liveview := True\<rparr>\<rparr>) PTP_RC_OK []))"

definition fuji_usb_terminateopencapture :: "vcam \<Rightarrow> ptpcontainer \<Rightarrow> vcam res" where
  "fuji_usb_terminateopencapture cam ptp =
     checked cam ptp 1 (\<lambda>cam.
       Inr (ptp_response (cam\<lparr>fuji := (fuji cam)\<lparr>fj_usb_liveview := False\<rparr>\<rparr>) PTP_RC_OK []))"

definition liveview_objectinfo :: "int \<Rightarrow> u32 \<Rightarrow> byte list res" where
  "liveview_objectinfo xtime sz =
     bnd (xdate xtime) (\<lambda>date.
     bnd (add_string ''liveview.jpg'') (\<lambda>nm.
     bnd (add_string date) (\<lambda>dt.
     bnd (add_string ''Orientation: 1'') (\<lambda>keyw.
       fits 2000
        (put_32bit_le 0x00010001 @ put_16bit_le PTP_OF_JPEG @ put_16bit_le 0 @ put_32bit_le sz
         @ put_16bit_le 0 @ put_32bit_le 0 @ put_32bit_le 0 @ put_32bit_le 0 @ put_32bit_le 0
         @ put_32bit_le 0 @ put_32bit_le 0 @ put_32bit_le 0 @ put_16bit_le 0 @ put_32bit_le 0 @ put_32bit_le 0
         @ nm @ dt @ dt @ keyw)))))"

definition fuji_usb_getobjectinfo :: "env \<Rightarrow> vcam \<Rightarrow> ptpcontainer \<Rightarrow> vcam res" where
  "fuji_usb_getobjectinfo e cam ptp =
     checked cam ptp 1 (\<lambda>cam. bnd (param ptp 0) (\<lambda>p0.
       if p0 \<noteq> FUJI_USB_LV_HANDLE \<or> \<not> fj_usb_liveview (fuji cam) then ptp_getobjectinfo_write e cam ptp
       else
         let (xtime, cam) = time_now e cam
         in bnd (liveview_objectinfo xtime (word_of_nat (length (fj_usb_lv_data (fuji cam))))) (\<lambda>data.
              Inr (ptp_response (ptp_senddata cam (cmd_code ptp) data) PTP_RC_OK []))))"

definition fuji_usb_getobject :: "env \<Rightarrow> vcam \<Rightarrow> ptpcontainer \<Rightarrow> vcam res" where
  "fuji_usb_getobject e cam ptp =
     checked cam ptp 1 (\<lambda>cam. bnd (param ptp 0) (\<lambda>p0.
       if p0 \<noteq> FUJI_USB_LV_HANDLE \<or> \<not> fj_usb_liveview (fuji cam) then ptp_getobject_write e cam ptp
       else bnd (fits SEND_MAX (fj_usb_lv_data (fuji cam))) (\<lambda>d.
         Inr (ptp_response (ptp_senddata cam (cmd_code ptp) d) PTP_RC_OK []))))"

definition fuji_usb_deleteobject :: "vcam \<Rightarrow> ptpcontainer \<Rightarrow> vcam res" where
  "fuji_usb_deleteobject cam ptp =
     guard (vcam_check_trans_id cam ptp) (\<lambda>cam.
     guard (vcam_check_session cam) (\<lambda>cam.
       bnd (if c_nparams ptp \<ge> 1 then bnd (param ptp 0) (\<lambda>p0. Inr (p0 = FUJI_USB_LV_HANDLE)) else Inr False) (\<lambda>lv.
         if lv then Inr (ptp_response (cam\<lparr>fuji := (fuji cam)\<lparr>fj_usb_liveview := False\<rparr>\<rparr>) PTP_RC_OK [])
         else ptp_deleteobject_write cam ptp)))"

section \<open>Raw conversion and backup (fs.c)\<close>

definition ptp_fuji_900c_write :: "vcam \<Rightarrow> ptpcontainer \<Rightarrow> vcam res" where
  "ptp_fuji_900c_write cam ptp = checked cam ptp 3 Inr"

definition ptp_fuji_900c_write_data :: "vcam \<Rightarrow> ptpcontainer \<Rightarrow> byte list \<Rightarrow> vcam res" where
  "ptp_fuji_900c_write_data cam ptp data =
     guard (vcam_check_trans_id cam ptp) (\<lambda>cam.
       bnd (vcam_unpack_object_info data) (\<lambda>oi.
         if filename oi = ''FUP_FILE.dat'' then Inr (ptp_response cam PTP_RC_OK []) else Inl Abort))"

definition ptp_fuji_900d_write :: "vcam \<Rightarrow> ptpcontainer \<Rightarrow> vcam res" where
  "ptp_fuji_900d_write cam ptp = checked cam ptp 0 Inr"

definition ptp_fuji_900d_write_data :: "vcam \<Rightarrow> ptpcontainer \<Rightarrow> byte list \<Rightarrow> vcam res" where
  "ptp_fuji_900d_write_data cam ptp data =
     guard (vcam_check_trans_id cam ptp) (\<lambda>cam.
       Inr (ptp_response (cam\<lparr>fuji := (fuji cam)\<lparr>fj_rawconv_raf_buffer := data\<rparr>\<rparr>) PTP_RC_OK []))"

definition ptp_fuji_sendobjectinfo_write :: "vcam \<Rightarrow> ptpcontainer \<Rightarrow> vcam res" where
  "ptp_fuji_sendobjectinfo_write cam ptp = checked cam ptp 2 Inr"

text \<open>Two responses: one with the operation's own code, and then the regular one.\<close>

definition ptp_fuji_sendobjectinfo_write_data :: "vcam \<Rightarrow> ptpcontainer \<Rightarrow> byte list \<Rightarrow> vcam res" where
  "ptp_fuji_sendobjectinfo_write_data cam ptp data =
     guard (vcam_check_trans_id cam ptp) (\<lambda>cam.
       bnd (vcam_unpack_object_info data) (\<lambda>oi.
         if obj_format oi = 0x5000 \<and> filename oi = '''' then
           let cam = cam\<lparr>fuji := (fuji cam)\<lparr>fj_settings_file_path := Some ''temp/backup.bin''\<rparr>\<rparr>;
               cam = ptp_response cam (cmd_code ptp) []
           in Inr (ptp_response cam PTP_RC_OK [])
         else Inl Abort))"

definition ptp_fuji_sendobject_write :: "vcam \<Rightarrow> ptpcontainer \<Rightarrow> vcam res" where
  "ptp_fuji_sendobject_write cam ptp = checked cam ptp 1 Inr"

text \<open>
  The settings are written to a path relative to the directory the process runs in, and are read
  from below \<open>PWD\<close>: the model does not say whether that is the same file, so what a write leaves on
  the disk is not part of it.
\<close>

definition ptp_fuji_sendobject_write_data :: "env \<Rightarrow> vcam \<Rightarrow> ptpcontainer \<Rightarrow> byte list \<Rightarrow> vcam res" where
  "ptp_fuji_sendobject_write_data e cam ptp data =
     bnd (param ptp 0) (\<lambda>p0.
       if p0 = 0 then bnd (deref (fj_settings_file_path (fuji cam))) (\<lambda>path.
         c_assert (writable e path) (Inr (ptp_response cam PTP_RC_OK [])))
       else Inl Abort)"

definition ptp_fuji_getobject_write :: "env \<Rightarrow> vcam \<Rightarrow> ptpcontainer \<Rightarrow> vcam res" where
  "ptp_fuji_getobject_write e cam ptp =
     checked cam ptp 1 (\<lambda>cam. bnd (param ptp 0) (\<lambda>p0.
       if p0 = 0 then bnd (deref (fj_settings_file_path (fuji cam))) (\<lambda>path.
         bnd (vcam_generic_send_file e path cam 0 ptp) (\<lambda>cam. Inr (ptp_response cam PTP_RC_OK [])))
       else if p0 = word_of_int (fj_rawconv_jpeg_handle (fuji cam)) then
         (case fj_rawconv_jpeg_path (fuji cam) of None \<Rightarrow> Inl Abort
          | Some path \<Rightarrow> bnd (vcam_generic_send_file e path cam 0 ptp) (\<lambda>cam. Inr (ptp_response cam PTP_RC_OK [])))
       else Inr (ptp_response cam PTP_RC_InvalidObjectHandle [])))"

definition ptp_fuji_getobjecthandles_write :: "vcam \<Rightarrow> ptpcontainer \<Rightarrow> vcam res" where
  "ptp_fuji_getobjecthandles_write cam ptp =
     guard (vcam_check_trans_id cam ptp) (\<lambda>cam.
     guard (vcam_check_session cam) (\<lambda>cam.
       bnd (bnd (param ptp 0) (\<lambda>p0. if p0 \<noteq> 0xffffffff then Inr False
            else bnd (param ptp 1) (\<lambda>p1. if p1 \<noteq> 0 then Inr False
            else bnd (param ptp 2) (\<lambda>p2. Inr (p2 = 0))))) (\<lambda>all.
         let h = fj_rawconv_jpeg_handle (fuji cam);
             data = (if \<not> all then []
                     else if h \<noteq> 0 then ptp_write_u32 1 @ ptp_write_u32 (word_of_int h) else ptp_write_u32 0)
         in Inr (ptp_response (ptp_senddata cam (cmd_code ptp) data) PTP_RC_OK []))))"

definition objectinfo_record :: "PtpObjectInfo \<Rightarrow> byte list" where
  "objectinfo_record oi =
     ptp_write_u32 (storage_id oi) @ ptp_write_u16 (obj_format oi) @ ptp_write_u16 (protection oi)
     @ ptp_write_u32 (oi_compressed_size oi) @ ptp_write_u16 (thumb_format oi)
     @ ptp_write_u32 (thumb_compressed_size oi) @ ptp_write_u32 (thumb_width oi) @ ptp_write_u32 (thumb_height oi)
     @ ptp_write_u32 (img_width oi) @ ptp_write_u32 (img_height oi) @ ptp_write_u32 (img_bit_depth oi)
     @ ptp_write_u32 (parent_obj oi) @ ptp_write_u16 (assoc_type oi) @ ptp_write_u32 (assoc_desc oi)
     @ ptp_write_u32 (sequence_num oi) @ ptp_write_string (filename oi) @ ptp_write_string (date_created oi)
     @ ptp_write_string (date_modified oi) @ ptp_write_string (oi_keywords oi)"

text \<open>
  The handler also asks \<open>stat\<close> for the size of the settings file, into a record it does not use.
\<close>

definition ptp_fuji_getobjectinfo :: "vcam \<Rightarrow> ptpcontainer \<Rightarrow> vcam res" where
  "ptp_fuji_getobjectinfo cam ptp =
     checked cam ptp 1 (\<lambda>cam. bnd (param ptp 0) (\<lambda>p0.
       case (if sint p0 = fj_rawconv_jpeg_handle (fuji cam) then fj_rawconv_jpeg_object_info (fuji cam) else None) of
         None \<Rightarrow> Inr (ptp_response cam PTP_RC_InvalidObjectHandle [])
       | Some oi \<Rightarrow> bnd (fits 1024 (objectinfo_record oi)) (\<lambda>buf.
           Inr (ptp_response (ptp_senddata cam (cmd_code ptp) buf) PTP_RC_OK []))))"

definition ptp_fuji_deleteobject_write :: "vcam \<Rightarrow> ptpcontainer \<Rightarrow> vcam res" where
  "ptp_fuji_deleteobject_write cam ptp =
     checked cam ptp 1 (\<lambda>cam. bnd (param ptp 0) (\<lambda>p0.
       if sint p0 = fj_rawconv_jpeg_handle (fuji cam) then
         Inr (ptp_response (cam\<lparr>fuji := (fuji cam)\<lparr>fj_rawconv_jpeg_handle := 0,
                fj_rawconv_jpeg_object_info := None\<rparr>\<rparr>) PTP_RC_OK [])
       else Inr (ptp_response cam PTP_RC_InvalidObjectHandle [])))"

definition rawconv_opcodes :: "(int \<times> op_write \<times> op_write_data option) list" where
  "rawconv_opcodes =
    [(0x1007, F_fuji F_ptp_fuji_getobjecthandles_write, None),
     (0x1008, F_fuji F_ptp_fuji_getobjectinfo, None),
     (0x1009, F_fuji F_ptp_fuji_getobject_write, None),
     (0x100C, F_fuji F_ptp_fuji_sendobjectinfo_write, Some (F_fuji_data F_ptp_fuji_sendobjectinfo_write_data)),
     (0x100D, F_fuji F_ptp_fuji_sendobject_write, Some (F_fuji_data F_ptp_fuji_sendobject_write_data)),
     (0x100B, F_fuji F_ptp_fuji_deleteobject_write, None)]"

definition vcam_fuji_register_rawconv_fs :: "env \<Rightarrow> vcam \<Rightarrow> vcam res" where
  "vcam_fuji_register_rawconv_fs e cam =
     (let cam = fold register_op rawconv_opcodes cam in
      case files e (pwd e @ ''/bin/fuji/xh1_d185_initial.bin'') of
        None \<Rightarrow> Inl Abort
      | Some buffer \<Rightarrow>
          (let cam = cam\<lparr>fuji := (fuji cam)\<lparr>fj_profile_buffer := Some buffer\<rparr>\<rparr>;
               cam = vcam_register_prop_handlers 0xD185 zero_desc (Some F_prop_d185_getvalue) (Some F_prop_d185_setvalue) cam;
               cam = vcam_register_prop_handlers 0xD183 zero_desc None (Some F_prop_d183_setvalue) cam;
               cam = register_op (0x900C, F_fuji F_ptp_fuji_900c_write, Some (F_fuji_data F_ptp_fuji_900c_write_data)) cam;
               cam = register_op (0x900D, F_fuji F_ptp_fuji_900d_write, Some (F_fuji_data F_ptp_fuji_900d_write_data)) cam
           in c_assert (writable e ''fuji.txt'') (Inr cam)))"

section \<open>Set-up on USB\<close>

definition invisible_codes :: "int list" where
  "invisible_codes = [0xd200, 0xd201, 0xd202, 0xd203, 0xd204, 0xd205, 0xd206, 0xd207, 0xd208, 0xd209, 0xd20a,
     0xd20c, 0xd20d, 0xd20e, 0xd20f, 0xd210, 0xd211, 0xd213, 0xd214, 0xd215, 0xd216, 0xd217, 0xd218, 0xd219,
     0xd21a, 0xd21b,
     0xd001, 0xd002, 0xd003, 0xd004, 0xd005, 0xd007, 0xd008, 0xd009, 0xd00a, 0xd00b, 0xd00c, 0xd00d, 0xd00e,
     0xd00f, 0xd010, 0xd011, 0xd012, 0xd013, 0xd014, 0xd015, 0xd016, 0xd017, 0xd018, 0xd019, 0xd01a, 0xd01b,
     0xd01c]"

definition fuji_usb_opcodes :: "(int \<times> op_write \<times> op_write_data option) list" where
  "fuji_usb_opcodes =
    [(0x101C, F_fuji F_fuji_usb_opencapture, None),
     (0x1018, F_fuji F_fuji_usb_terminateopencapture, None),
     (0x1008, F_fuji F_fuji_usb_getobjectinfo, None),
     (0x1009, F_fuji F_fuji_usb_getobject, None),
     (0x100B, F_fuji F_fuji_usb_deleteobject, None)]"

definition string_desc :: "byte list \<Rightarrow> PtpPropDesc" where
  "string_desc bs = zero_desc\<lparr>pd_value := Mem bs, DataType := PTP_TC_STRING\<rparr>"

definition fuji_usb_modes :: "env \<Rightarrow> vcam \<Rightarrow> vcam res" where
  "fuji_usb_modes e cam =
     (if fj_transport (fuji cam) = FUJI_FEATURE_RAW_CONV then
        let cam = add_prop_u32 0xd16e 6 cam;
            cam = vcam_register_prop 0xD184 (string_desc (ptp_write_string ''FF129506,FA129506'')) cam;
            cam = vcam_register_prop_handlers 0xd21c (zero_desc\<lparr>pd_value := Mem [], GetSet := PTP_AC_Read,
                    DataType := PTP_TC_UINT16\<rparr>) (Some F_prop_d21c_getvalue) (Some F_prop_d21c_setvalue) cam
        in vcam_fuji_register_rawconv_fs e cam
      else if fj_transport (fuji cam) = FUJI_FEATURE_USB_TETHER_SHOOT then Inr (add_prop_u32 0xd16e 5 cam)
      else Inr cam)"

definition fuji_usb_init_cam :: "env \<Rightarrow> vcam \<Rightarrow> vcam res" where
  "fuji_usb_init_cam e cam =
     (let cam = ptp_register_mtp_opcodes (ptp_register_mtp_props cam);
          cam = fuji_register_d212 e cam;
          cam = fold (\<lambda>c. add_prop_invisible_u32 c 0) invisible_codes cam
      in bnd (fuji_usb_modes e cam) (\<lambda>cam.
         let cam = vcam_register_prop 0xD20B (string_desc [1, 0, 0]) cam;
             cam = add_prop_u32 0xD36A 0xa cam;
             cam = vcam_register_prop 0xD36B (string_desc (ptp_write_string ''49,0,0'')) cam;
             cam = add_prop_u32 0x500D 10000 cam;
             cam = add_prop_u16 0xd208 0 cam;
             cam = add_prop_u16 0xd209 2 cam
         in bnd (fuji_usb_load_lv e cam) (\<lambda>cam. Inr (fold register_op fuji_usb_opcodes cam))))"

section \<open>Every Fujifilm body\<close>

definition set_body :: "string \<Rightarrow> int \<Rightarrow> int \<Rightarrow> int \<Rightarrow> int \<Rightarrow> vcam \<Rightarrow> vcam" where
  "set_body name image_get get_object remote remote_get cam =
     cam\<lparr>model := name, fuji := (fuji cam)\<lparr>fj_image_get_version := image_get, fj_get_object_version := get_object,
       fj_remote_version := remote, fj_remote_get_object_version := remote_get\<rparr>\<rparr>"

text \<open>The chain of name tests; \<open>None\<close> for a name none of them knows.\<close>

definition fuji_select_body :: "string \<Rightarrow> vcam \<Rightarrow> vcam option" where
  "fuji_select_body name cam =
     (if name = ''fuji_x_a2'' then Some ((set_body ''X-A2'' 1 2 0 0 cam)\<lparr>product_id := 0x2c6\<rparr>)
      else if name = ''fuji_x_t20'' then Some (set_body ''X-T20'' 3 4 0x00020004 2 cam)
      else if name = ''fuji_x_t2'' then Some (set_body ''X-T2'' 3 4 0x0002000a 2 cam)
      else if name = ''fuji_x_s10'' then Some (set_body ''X-S10'' 3 4 0x0002000a 4 cam)
      else if name = ''fuji_x_t4'' then Some (set_body ''X-T4'' 4 5 0x0002000a 5 cam)
      else if name \<in> {''fuji_gfx100_ii'', ''fuji_gfx100ii'', ''gfx100ii'', ''gfx''} then
        (let cam = set_body ''GFX100 II'' 4 5 0x0002000c 5 cam
         in Some (cam\<lparr>fuji := (fuji cam)\<lparr>fj_is_gfx100ii := True\<rparr>\<rparr>))
      else if name = ''fuji_x_h1'' then
        (let cam = (set_body ''X-H1'' 3 4 0x00020006 4 cam)\<lparr>product_id := 0x2d7\<rparr>
         in Some (cam\<lparr>fuji := (fuji cam)\<lparr>fj_settings_file_path :=
                  Some ''bin/fuji/backups/FUJIFILM_X-H1_20240327_2218.DAT''\<rparr>\<rparr>))
      else if name = ''fuji_x_dev'' then Some (set_body ''X-DEV'' 3 4 0x00020006 4 cam)
      else if name = ''fuji_x_f10'' then Some (set_body ''X-F10'' 3 4 0x00020004 2 cam)
      else if name = ''fuji_x30'' then Some (set_body ''X30'' 3 3 0x00020002 1 cam)
      else if name = ''fuji_x_t30'' then Some (set_body ''X-T30'' 0xdead 0xdead 0xdead 0xdead cam)
      else None)"

definition fuji_option :: "string \<Rightarrow> Fuji \<Rightarrow> Fuji option" where
  "fuji_option arg f =
     (if arg = ''--usb'' then Some (f\<lparr>fj_transport := FUJI_FEATURE_USB_CARD_READER\<rparr>)
      else if arg = ''--rawconv'' then Some (f\<lparr>fj_transport := FUJI_FEATURE_RAW_CONV\<rparr>)
      else if arg = ''--select-img'' then Some (f\<lparr>fj_is_select_multiple_images := True\<rparr>)
      else if arg = ''--discovery'' then Some (f\<lparr>fj_do_discovery := True, fj_transport := FUJI_FEATURE_AUTOSAVE\<rparr>)
      else if arg = ''--register'' then Some (f\<lparr>fj_do_register := True, fj_transport := FUJI_FEATURE_AUTOSAVE\<rparr>)
      else if arg = ''--tether'' then Some (f\<lparr>fj_do_tether := True, fj_transport := FUJI_FEATURE_WIRELESS_TETHER\<rparr>)
      else None)"

function fuji_parse_args :: "env \<Rightarrow> string list \<Rightarrow> vcam \<Rightarrow> (bool \<times> vcam) res" where
  "fuji_parse_args e [] cam = Inr (True, cam)"
| "fuji_parse_args e (arg # rest) cam =
     bnd (vcam_parse_args e arg rest cam) (\<lambda>r. case r of
       Some (rest', cam') \<Rightarrow> fuji_parse_args e rest' cam'
     | None \<Rightarrow> (case fuji_option arg (fuji cam) of
           Some f \<Rightarrow> fuji_parse_args e rest (cam\<lparr>fuji := f\<rparr>)
         | None \<Rightarrow> Inr (False, cam)))"
  by pat_completeness auto
termination
  by (relation "measure (\<lambda>(e, args, cam). length args)") (auto dest!: parse_args_shorter)

definition fuji_wireless :: "FujiTransport \<Rightarrow> bool" where
  "fuji_wireless t \<longleftrightarrow> t = FUJI_FEATURE_WIRELESS_COMM \<or> t = FUJI_FEATURE_WIRELESS_TETHER \<or> t = FUJI_FEATURE_AUTOSAVE"

text \<open>\<open>False\<close> is the result -1. The environment is returned because the GFX body may write a file.\<close>

definition fuji_init_cam :: "env \<Rightarrow> string \<Rightarrow> string list \<Rightarrow> vcam \<Rightarrow> (bool \<times> env \<times> vcam) res" where
  "fuji_init_cam e name argv cam =
     (let cam = cam\<lparr>fuji := zero_fuji\<rparr> in
      case fuji_select_body name cam of
        None \<Rightarrow> Inr (False, e, cam)
      | Some cam \<Rightarrow>
          (let cam = cam\<lparr>vendor_id := 0x4cb, manufac := ''FUJIFILM'', extension := ''fujifilm.co.jp: 1.0; '',
                 version := ''1.30'', serial := ''xxxxxxxxxxxxxxxxxxxxxxxx'',
                 fuji := (fuji cam)\<lparr>fj_transport := FUJI_FEATURE_WIRELESS_COMM\<rparr>\<rparr>
           in bnd (fuji_parse_args e argv cam) (\<lambda>(ok, cam).
              if \<not> ok then Inr (False, e, cam)
              else if fuji_wireless (fj_transport (fuji cam)) then
                bnd (vcam_fuji_setup e (fuji_register_opcodes cam)) (\<lambda>(e, cam). Inr (True, e, cam))
              else bnd (fuji_usb_init_cam e cam) (\<lambda>cam. Inr (True, e, cam)))))"

section \<open>What the processor calls\<close>

text \<open>
  The functions behind the pointers of a Fujifilm body. It registers no \<open>getdesc\<close> callback and no
  lookup of virtual objects.
\<close>

definition fuji_getvalue :: "prop_fn \<Rightarrow> vcam \<Rightarrow> PtpPropDesc \<Rightarrow> (vcam \<times> PtpPropDesc \<times> int) res" where
  "fuji_getvalue f cam desc = (case f of
     F_prop_d185_getvalue \<Rightarrow> prop_d185_getvalue cam desc
   | F_prop_d21c_getvalue \<Rightarrow> prop_d21c_getvalue cam desc
   | F_prop_d18c_getvalue \<Rightarrow> prop_d18c_getvalue cam desc
   | F_d212_getvalue \<Rightarrow> d212_getvalue cam desc
   | _ \<Rightarrow> Inl Undef)"

definition fuji_setvalue :: "env \<Rightarrow> prop_fn \<Rightarrow> vcam \<Rightarrow> PtpPropDesc \<Rightarrow> byte list \<Rightarrow> (vcam \<times> PtpPropDesc \<times> int) res" where
  "fuji_setvalue e f cam desc data = (case f of
     F_prop_d185_setvalue \<Rightarrow> prop_d185_setvalue cam desc data
   | F_prop_d183_setvalue \<Rightarrow> prop_d183_setvalue e cam desc data
   | F_prop_d21c_setvalue \<Rightarrow> prop_d21c_setvalue cam desc data
   | _ \<Rightarrow> Inl Undef)"

definition fuji_callbacks :: "env \<Rightarrow> hooks" where
  "fuji_callbacks e = \<lparr>getdesc_fn = (\<lambda>f cam d. Inl Undef), getvalue_fn = fuji_getvalue,
     setvalue_fn = fuji_setvalue e, lookup_fn = (\<lambda>f cam h. None),
     fuji_fn = (\<lambda>f cam p. Inl Undef), fuji_data_fn = (\<lambda>f cam p d. Inl Undef)\<rparr>"

fun fuji_operation :: "env \<Rightarrow> fuji_op \<Rightarrow> vcam \<Rightarrow> ptpcontainer \<Rightarrow> vcam res" where
  "fuji_operation e F_ptp_fuji_get_device_info cam ptp = ptp_fuji_get_device_info cam ptp"
| "fuji_operation e F_ptp_fuji_capture cam ptp = ptp_fuji_capture e cam ptp"
| "fuji_operation e F_ptp_fuji_setdevicepropvalue_write cam ptp = ptp_fuji_setdevicepropvalue_write cam ptp"
| "fuji_operation e F_ptp_fuji_getdevicepropvalue_write cam ptp = ptp_fuji_getdevicepropvalue_write cam ptp"
| "fuji_operation e F_ptp_fuji_getpartialobject_write cam ptp =
     ptp_fuji_getpartialobject_write (fuji_callbacks e) e cam ptp"
| "fuji_operation e F_ptp_fuji_unsupported cam ptp = ptp_fuji_unsupported cam ptp"
| "fuji_operation e F_ptp_fuji_get_image_import_folders cam ptp = ptp_fuji_get_image_import_folders cam ptp"
| "fuji_operation e F_ptp_fuji_get_image_import_dates cam ptp = ptp_fuji_get_image_import_dates cam ptp"
| "fuji_operation e F_ptp_fuji_get_extension_object_info cam ptp = ptp_fuji_get_extension_object_info e cam ptp"
| "fuji_operation e F_ptp_fuji_get_extension_thumb cam ptp = ptp_fuji_get_extension_thumb e cam ptp"
| "fuji_operation e F_ptp_fuji_get_extension_partial_object cam ptp =
     ptp_fuji_get_extension_partial_object (fuji_callbacks e) e cam ptp"
| "fuji_operation e F_ptp_fuji_discovery_getthumb_write cam ptp = ptp_fuji_discovery_getthumb_write cam ptp"
| "fuji_operation e F_fuji_usb_opencapture cam ptp = fuji_usb_opencapture cam ptp"
| "fuji_operation e F_fuji_usb_terminateopencapture cam ptp = fuji_usb_terminateopencapture cam ptp"
| "fuji_operation e F_fuji_usb_getobjectinfo cam ptp = fuji_usb_getobjectinfo e cam ptp"
| "fuji_operation e F_fuji_usb_getobject cam ptp = fuji_usb_getobject e cam ptp"
| "fuji_operation e F_fuji_usb_deleteobject cam ptp = fuji_usb_deleteobject cam ptp"
| "fuji_operation e F_ptp_fuji_900c_write cam ptp = ptp_fuji_900c_write cam ptp"
| "fuji_operation e F_ptp_fuji_900d_write cam ptp = ptp_fuji_900d_write cam ptp"
| "fuji_operation e F_ptp_fuji_sendobjectinfo_write cam ptp = ptp_fuji_sendobjectinfo_write cam ptp"
| "fuji_operation e F_ptp_fuji_sendobject_write cam ptp = ptp_fuji_sendobject_write cam ptp"
| "fuji_operation e F_ptp_fuji_getobject_write cam ptp = ptp_fuji_getobject_write e cam ptp"
| "fuji_operation e F_ptp_fuji_getobjecthandles_write cam ptp = ptp_fuji_getobjecthandles_write cam ptp"
| "fuji_operation e F_ptp_fuji_getobjectinfo cam ptp = ptp_fuji_getobjectinfo cam ptp"
| "fuji_operation e F_ptp_fuji_deleteobject_write cam ptp = ptp_fuji_deleteobject_write cam ptp"

fun fuji_data_operation :: "env \<Rightarrow> fuji_data_op \<Rightarrow> vcam \<Rightarrow> ptpcontainer \<Rightarrow> byte list \<Rightarrow> vcam res" where
  "fuji_data_operation e F_ptp_fuji_setdevicepropvalue_write_data cam ptp d =
     ptp_fuji_setdevicepropvalue_write_data e cam ptp d"
| "fuji_data_operation e F_ptp_fuji_900c_write_data cam ptp d = ptp_fuji_900c_write_data cam ptp d"
| "fuji_data_operation e F_ptp_fuji_900d_write_data cam ptp d = ptp_fuji_900d_write_data cam ptp d"
| "fuji_data_operation e F_ptp_fuji_sendobjectinfo_write_data cam ptp d = ptp_fuji_sendobjectinfo_write_data cam ptp d"
| "fuji_data_operation e F_ptp_fuji_sendobject_write_data cam ptp d = ptp_fuji_sendobject_write_data e cam ptp d"

definition fuji_hooks :: "env \<Rightarrow> hooks" where
  "fuji_hooks e = (fuji_callbacks e)\<lparr>fuji_fn := fuji_operation e, fuji_data_fn := fuji_data_operation e\<rparr>"

end
