(* ===== verification/Fuji_Theorems.thy ===== *)
theory Fuji_Theorems
  imports Fuji_Usb Machine "HOL-Library.Multiset"
begin

text \<open>
  The Fujifilm module as the processor runs it: the exchange sort sorts, the functions behind the
  pointers meet the contract of the processor, and the gate in front of the gallery of a GFX body.
\<close>

section \<open>The exchange sort\<close>

text \<open>The places before \<open>a\<close> are settled: nothing behind one of them is greater.\<close>

definition settled :: "nat \<Rightarrow> 'a::linorder list \<Rightarrow> bool" where
  "settled a ys \<longleftrightarrow> (\<forall>i<a. \<forall>j. i < j \<longrightarrow> j < length ys \<longrightarrow> ys ! j \<le> ys ! i)"

lemma swap_if_length [simp]: "length (swap_if gt a b ys) = length ys"
  by (simp add: swap_if_def)

lemma swap_if_mset: "a < length ys \<Longrightarrow> b < length ys \<Longrightarrow> mset (swap_if gt a b ys) = mset ys"
  by (simp add: swap_if_def mset_swap)

lemma swap_if_settled:
  assumes "settled a ys" "a < b" "b < length ys"
  shows "settled a (swap_if (>) a b ys)"
  using assms unfolding settled_def swap_if_def
  by (auto simp: nth_list_update split: if_splits)

lemma swap_if_max:
  fixes ys :: "'a::linorder list"
  assumes "a < b" "b < length ys" "\<forall>i. a < i \<longrightarrow> i < b \<longrightarrow> ys ! i \<le> ys ! a"
  shows "\<forall>i. a < i \<longrightarrow> i < Suc b \<longrightarrow> swap_if (>) a b ys ! i \<le> swap_if (>) a b ys ! a"
proof (intro allI impI)
  fix i
  assume i: "a < i" "i < Suc b"
  show "swap_if (>) a b ys ! i \<le> swap_if (>) a b ys ! a"
  proof (cases "ys ! b > ys ! a")
    case True
    then have "ys ! i \<le> ys ! b" if "i < b" using that i(1) assms(3) by (meson less_imp_le order_trans)
    then show ?thesis using True i assms by (auto simp: swap_if_def nth_list_update)
  next
    case False
    then show ?thesis using i assms(3) by (cases "i = b") (auto simp: swap_if_def)
  qed
qed

lemma inner_loop:
  assumes "settled a ys" "a < m" "m \<le> length ys"
  defines "zs \<equiv> fold (swap_if (>) a) [a + 1..<m] ys"
  shows "length zs = length ys \<and> mset zs = mset ys \<and> settled a zs \<and> (\<forall>i. a < i \<longrightarrow> i < m \<longrightarrow> zs ! i \<le> zs ! a)"
  using assms(2,3) unfolding zs_def
proof (induction m)
  case 0
  then show ?case by simp
next
  case (Suc m)
  show ?case
  proof (cases "a = m")
    case True
    then show ?thesis using assms(1) by simp
  next
    case False
    then have a: "a < m" "m < length ys" using Suc.prems by auto
    let ?us = "fold (swap_if (>) a) [a + 1..<m] ys"
    have u: "length ?us = length ys" "mset ?us = mset ys" "settled a ?us"
      "\<forall>i. a < i \<longrightarrow> i < m \<longrightarrow> ?us ! i \<le> ?us ! a" using Suc.IH a by auto
    have "fold (swap_if (>) a) [a + 1..<Suc m] ys = swap_if (>) a m ?us" using a by simp
    moreover have "mset (swap_if (>) a m ?us) = mset ?us" using u(1) a by (intro swap_if_mset) simp_all
    moreover have "settled a (swap_if (>) a m ?us)" using u a by (intro swap_if_settled) simp_all
    moreover have "\<forall>i. a < i \<longrightarrow> i < Suc m \<longrightarrow> swap_if (>) a m ?us ! i \<le> swap_if (>) a m ?us ! a"
      using u a by (intro swap_if_max) simp_all
    ultimately show ?thesis using u by (simp only: swap_if_length)
  qed
qed

lemma outer_step:
  assumes "settled a ys" "a < length ys"
  defines "zs \<equiv> fold (swap_if (>) a) [a + 1..<length ys] ys"
  shows "length zs = length ys \<and> mset zs = mset ys \<and> settled (Suc a) zs"
  using inner_loop [OF assms(1,2) order_refl] unfolding zs_def settled_def less_Suc_eq by auto

lemma outer_loop:
  assumes "m \<le> length xs"
  defines "zs \<equiv> fold (\<lambda>a ys. fold (swap_if (>) a) [a + 1..<length xs] ys) [0..<m] xs"
  shows "length zs = length xs \<and> mset zs = mset xs \<and> settled m zs"
  using assms(1) unfolding zs_def
proof (induction m)
  case 0
  then show ?case by (simp add: settled_def)
next
  case (Suc m)
  let ?ys = "fold (\<lambda>a ys. fold (swap_if (>) a) [a + 1..<length xs] ys) [0..<m] xs"
  from Suc have y: "length ?ys = length xs" "mset ?ys = mset xs" "settled m ?ys" "m < length ?ys" by auto
  show ?case using outer_step [OF y(3,4)] y by simp
qed

lemma exchange_sort_desc: "exchange_sort (>) xs = rev (sort xs)"
proof -
  let ?zs = "exchange_sort (>) xs"
  have z: "length ?zs = length xs" "mset ?zs = mset xs" "settled (length xs) ?zs"
    using outer_loop [of "length xs" xs] by (simp_all add: exchange_sort_def)
  have "sorted (rev ?zs)"
    unfolding sorted_rev_iff_nth_mono using z by (auto simp: settled_def le_less)
  then have "sort xs = rev ?zs" using z(2) by (intro properties_for_sort) simp_all
  then show ?thesis by simp
qed

section \<open>The contract of the processor\<close>

lemma pop_event_frame: "ptp_pop_event cam = Inr (r, cam') \<Longrightarrow> pipe_frame cam cam'"
  by (auto simp: ptp_pop_event_def find_channel_entry_def split: prod.splits list.splits)

lemma pop_events_cases:
  assumes "pop_events cam = Inr (evs, cam')"
  obtains c1 where "ptp_pop_event cam = Inr (None, c1)" "evs = []" "cam' = c1"
    | ev c1 evs' where "ptp_pop_event cam = Inr (Some ev, c1)" "pop_events c1 = Inr (evs', cam')" "evs = ev # evs'"
  using assms by (subst (asm) pop_events.simps) (auto split: option.splits)

lemma pop_all_frame: "pop_events cam = Inr (evs, cam') \<Longrightarrow> pipe_frame cam cam'"
proof (induction cam arbitrary: evs cam' rule: pop_events.induct)
  case (1 cam)
  from "1.prems" show ?case
  proof (cases rule: pop_events_cases)
    case (1 c1)
    then show ?thesis by (simp add: pop_event_frame)
  next
    case (2 ev c1 evs')
    then have "pipe_frame c1 cam'" using "1.IH" [OF 2(1) refl refl 2(2)] by simp
    then show ?thesis using pop_event_frame [OF 2(1)] pipe_frame_trans by blast
  qed
qed

lemma fuji_frames [simp]:
  "pipe_frame a (ptp_notify_event e cam c v) = pipe_frame a cam"
  "pipe_frame a (fuji_mark_image_import_step cam s) = pipe_frame a cam"
  "pipe_frame a (fuji_reset_image_import_state cam) = pipe_frame a cam"
  by (simp_all add: ptp_notify_event_def fuji_mark_image_import_step_def fuji_reset_image_import_state_def)

lemma notify_all_simps [simp]:
  "notify_all e [] cam = cam" "notify_all e ((c, v) # evs) cam = notify_all e evs (ptp_notify_event e cam c v)"
  by (simp_all add: notify_all_def)

lemma notify_all_frame [simp]: "pipe_frame a (notify_all e evs cam) = pipe_frame a cam"
proof (induction evs arbitrary: cam)
  case (Cons x evs)
  then show ?case by (cases x) simp
qed simp

lemma pipe_frame_kill [simp]: "pipe_frame a (b\<lparr>next_cmd_kills_connection := k\<rparr>) = pipe_frame a b"
  by (simp add: pipe_frame_def)

lemma downloaded_frame: "fuji_downloaded_object e cam = Inr cam' \<Longrightarrow> pipe_frame cam cam'"
  by (auto simp: fuji_downloaded_object_def Let_def split: if_split_asm list.split_asm)

lemma answers_frame_after: "answers a b \<Longrightarrow> pipe_frame b c \<Longrightarrow> answers a c"
  by (auto simp: answers_def answers_with_def emits_def pipe_frame_def)

lemma fuji_partial_answers:
  "ptp_fuji_getpartialobject_write hk e cam ptp = Inr cam' \<Longrightarrow> answers cam cam'"
  by (auto simp: ptp_fuji_getpartialobject_write_def split: if_split_asm
      dest!: getpartialobject_answers downloaded_frame intro: answers_frame_after)

lemma fuji_set_frame: "fuji_set_value e cam p d = Inr cam' \<Longrightarrow> pipe_frame cam cam'"
  by (auto simp: fuji_set_value_def fuji_set_client_state_def fuji_set_compress_small_def fuji_set_correct_size_def
      fuji_set_camera_state_def c_assert_def Let_def split: if_split_asm)

lemma send_value_answers: "pipe_frame cam c1 \<Longrightarrow> answers cam (send_value c1 ptp bs)"
  "pipe_frame cam c1 \<Longrightarrow> answers cam (send_int c1 ptp v)"
  using answers_data [of cam c1] by (simp_all add: send_int_def send_value_def)

lemma fuji_send_answers:
  assumes "fuji_send_property cam ptp p = Inr cam'"
  shows "answers cam cam'"
proof -
  have ev: "fuji_send_events cam ptp = Inr cam' \<Longrightarrow> answers cam cam'"
    by (auto simp: fuji_send_events_def dest!: pop_all_frame intro: answers_data)
  have gate: "gated cam (fuji_send_import_count cam ptp) = Inr cam' \<Longrightarrow> answers cam cam'"
    "gated cam (fuji_send_import_handles cam ptp) = Inr cam' \<Longrightarrow> answers cam cam'"
    by (auto simp: gated_def fuji_image_import_reject_def fuji_send_import_count_def fuji_send_import_handles_def
        intro: send_value_answers split: if_split_asm)
  show ?thesis using assms unfolding fuji_send_property_def Let_def
    by (auto intro: send_value_answers dest: ev gate split: if_split_asm)
qed

lemma fuji_import_answers:
  "ptp_fuji_get_extension_object_info e cam ptp = Inr cam' \<Longrightarrow> answers cam cam'"
  "ptp_fuji_get_extension_thumb e cam ptp = Inr cam' \<Longrightarrow> answers cam cam'"
  "ptp_fuji_get_extension_partial_object hk e cam ptp = Inr cam' \<Longrightarrow> answers cam cam'"
  "ptp_fuji_get_image_import_folders cam ptp = Inr cam' \<Longrightarrow> answers cam cam'"
  "ptp_fuji_get_image_import_dates cam ptp = Inr cam' \<Longrightarrow> answers cam cam'"
  by (auto simp: ptp_fuji_get_extension_object_info_def ptp_fuji_get_extension_thumb_def
      ptp_fuji_get_extension_partial_object_def ptp_fuji_get_image_import_folders_def
      ptp_fuji_get_image_import_dates_def fuji_image_import_reject_def handler_defs Let_def
      intro: answers_data fuji_partial_answers
      dest!: getobjectinfo_answers getthumb_answers elim!: answers_frame [rotated] split: if_split_asm option.split_asm)

lemma fuji_plain_answers:
  "ptp_fuji_get_device_info cam ptp = Inr cam' \<Longrightarrow> answers cam cam'"
  "ptp_fuji_capture e cam ptp = Inr cam' \<Longrightarrow> answers cam cam'"
  "ptp_fuji_getdevicepropvalue_write cam ptp = Inr cam' \<Longrightarrow> answers cam cam'"
  "ptp_fuji_unsupported cam ptp = Inr cam' \<Longrightarrow> answers cam cam'"
  "ptp_fuji_discovery_getthumb_write cam ptp = Inr cam' \<Longrightarrow> answers cam cam'"
  by (auto simp: ptp_fuji_get_device_info_def ptp_fuji_capture_def ptp_fuji_getdevicepropvalue_write_def
      ptp_fuji_unsupported_def ptp_fuji_discovery_getthumb_write_def Let_def intro: fuji_send_answers)

lemma fuji_usb_answers:
  "fuji_usb_opencapture cam ptp = Inr cam' \<Longrightarrow> answers cam cam'"
  "fuji_usb_terminateopencapture cam ptp = Inr cam' \<Longrightarrow> answers cam cam'"
  "fuji_usb_getobjectinfo e cam ptp = Inr cam' \<Longrightarrow> answers cam cam'"
  "fuji_usb_getobject e cam ptp = Inr cam' \<Longrightarrow> answers cam cam'"
  "fuji_usb_deleteobject cam ptp = Inr cam' \<Longrightarrow> answers cam cam'"
  by (auto simp: fuji_usb_opencapture_def fuji_usb_terminateopencapture_def fuji_usb_getobjectinfo_def
      fuji_usb_getobject_def fuji_usb_deleteobject_def time_now_def handler_defs Let_def
      intro: answers_data dest: getobjectinfo_answers getobject_answers deleteobject_answers split: if_split_asm)

lemma fuji_fs_answers:
  "ptp_fuji_getobject_write e cam ptp = Inr cam' \<Longrightarrow> answers cam cam'"
  "ptp_fuji_getobjecthandles_write cam ptp = Inr cam' \<Longrightarrow> answers cam cam'"
  "ptp_fuji_getobjectinfo cam ptp = Inr cam' \<Longrightarrow> answers cam cam'"
  "ptp_fuji_deleteobject_write cam ptp = Inr cam' \<Longrightarrow> answers cam cam'"
  by (auto simp: ptp_fuji_getobject_write_def ptp_fuji_getobjecthandles_write_def ptp_fuji_getobjectinfo_def
      ptp_fuji_deleteobject_write_def handler_defs Let_def dest!: send_file_senddata
      split: if_split_asm option.split_asm)

lemma fuji_wait_completes:
  "ptp_fuji_setdevicepropvalue_write cam ptp = Inr cam' \<Longrightarrow> completes cam cam'"
  "ptp_fuji_900c_write cam ptp = Inr cam' \<Longrightarrow> completes cam cam'"
  "ptp_fuji_900d_write cam ptp = Inr cam' \<Longrightarrow> completes cam cam'"
  "ptp_fuji_sendobjectinfo_write cam ptp = Inr cam' \<Longrightarrow> completes cam cam'"
  "ptp_fuji_sendobject_write cam ptp = Inr cam' \<Longrightarrow> completes cam cam'"
  by (auto simp: ptp_fuji_setdevicepropvalue_write_def ptp_fuji_900c_write_def ptp_fuji_900d_write_def
      ptp_fuji_sendobjectinfo_write_def ptp_fuji_sendobject_write_def handler_defs completes_def
      split: if_split_asm)

lemma fuji_data_answers:
  "ptp_fuji_setdevicepropvalue_write_data e cam ptp d = Inr cam' \<Longrightarrow> answers cam cam'"
  "ptp_fuji_900c_write_data cam ptp d = Inr cam' \<Longrightarrow> answers cam cam'"
  "ptp_fuji_900d_write_data cam ptp d = Inr cam' \<Longrightarrow> answers cam cam'"
  "ptp_fuji_sendobject_write_data e cam ptp d = Inr cam' \<Longrightarrow> answers cam cam'"
  by (auto simp: ptp_fuji_setdevicepropvalue_write_data_def ptp_fuji_900c_write_data_def
      ptp_fuji_900d_write_data_def ptp_fuji_sendobject_write_data_def c_assert_def handler_defs
      dest!: fuji_set_frame split: if_split_asm)

lemma fuji_callback_frames:
  "fuji_getvalue f cam d = Inr (cam', d', n) \<Longrightarrow> pipe_frame cam cam'"
  "fuji_setvalue e f cam d v = Inr (cam', d', m) \<Longrightarrow> pipe_frame cam cam'"
  by (auto simp: fuji_getvalue_def fuji_setvalue_def prop_d185_getvalue_def prop_d21c_getvalue_def
      prop_d18c_getvalue_def d212_getvalue_def prop_d185_setvalue_def prop_d183_setvalue_def prop_d21c_setvalue_def
      Let_def dest: pop_all_frame split: prop_fn.split_asm option.split_asm)

text \<open>The module completes every exchange, but for the backup's object information.\<close>

lemma fuji_completes:
  "fuji_operation e f cam ptp = Inr cam' \<Longrightarrow> completes cam cam'"
  "g \<noteq> F_ptp_fuji_sendobjectinfo_write_data \<Longrightarrow> fuji_data_operation e g cam ptp d = Inr cam' \<Longrightarrow> completes cam cam'"
  by (cases f; auto dest: fuji_plain_answers fuji_import_answers fuji_partial_answers fuji_usb_answers
      fuji_fs_answers intro: answers_completes fuji_wait_completes)
     (cases g; auto dest: fuji_data_answers intro: answers_completes)

lemma fuji_hooks_ok [simp]: "hooks_ok (fuji_hooks e)"
  by (auto simp: hooks_ok_def fuji_hooks_def fuji_callbacks_def dest: fuji_callback_frames fuji_completes)

end
