(* ===== verification/Fuji_Gate.thy ===== *)
theory Fuji_Gate
  imports Fuji_Theorems
begin

text \<open>
  The gate in front of the gallery of a GFX body: whatever the host writes, the steps it has been
  credited with are in order, so the gate opens with the last of them only.
\<close>

section \<open>Steps in order\<close>

text \<open>
  Bits 0 to 5 are the bootstrap, in any order; from then on each step needs the one before:
  information on the newest object, its thumbnail, the folders, the dates.
\<close>

definition steps_in_order :: "u32 \<Rightarrow> bool" where
  "steps_in_order s \<longleftrightarrow>
     (bit s 6 \<longrightarrow> bit s 0 \<and> bit s 1 \<and> bit s 2 \<and> bit s 3 \<and> bit s 4 \<and> bit s 5) \<and>
     (bit s 7 \<longrightarrow> bit s 6) \<and> (bit s 8 \<longrightarrow> bit s 7) \<and> (bit s 9 \<longrightarrow> bit s 8)"

lemma has_mask:
  assumes "n \<le> 32"
  shows "(s :: u32) AND mask n = mask n \<longleftrightarrow> (\<forall>i<n. bit s i)"
proof -
  have "(s AND mask n = mask n) \<longleftrightarrow> (\<forall>i<32. (bit s i \<and> i < n) = (i < n))"
    by (auto simp: bit_eq_iff [where 'a = "32 word"] bit_simps)
  then show ?thesis using assms by (metis order_less_le_trans)
qed

lemma has_bit: "n < 32 \<Longrightarrow> (s :: u32) AND 2 ^ n = 2 ^ n \<longleftrightarrow> bit s n"
  by (auto simp: bit_eq_iff [where 'a = "32 word"] bit_simps)

lemma has_steps:
  "fuji_image_import_has_steps cam 0x3F \<longleftrightarrow> (\<forall>i<6. bit (fj_image_import_steps (fuji cam)) i)"
  "fuji_image_import_has_steps cam 0x3FF \<longleftrightarrow> (\<forall>i<10. bit (fj_image_import_steps (fuji cam)) i)"
  "fuji_image_import_has_steps cam 0x40 \<longleftrightarrow> bit (fj_image_import_steps (fuji cam)) 6"
  "fuji_image_import_has_steps cam 0x80 \<longleftrightarrow> bit (fj_image_import_steps (fuji cam)) 7"
  "fuji_image_import_has_steps cam 0x100 \<longleftrightarrow> bit (fj_image_import_steps (fuji cam)) 8"
proof -
  have "(0x3F :: u32) = mask 6" "(0x3FF :: u32) = mask 10" by (simp_all add: mask_eq_exp_minus_1)
  then show "fuji_image_import_has_steps cam 0x3F \<longleftrightarrow> (\<forall>i<6. bit (fj_image_import_steps (fuji cam)) i)"
    "fuji_image_import_has_steps cam 0x3FF \<longleftrightarrow> (\<forall>i<10. bit (fj_image_import_steps (fuji cam)) i)"
    using has_mask [of 6] has_mask [of 10] by (simp_all add: fuji_image_import_has_steps_def)
qed (use has_bit [of 6] has_bit [of 7] has_bit [of 8] in \<open>simp_all add: fuji_image_import_has_steps_def\<close>)

lemma all_less_6: "(\<forall>i<6. P i) \<longleftrightarrow> P 0 \<and> P 1 \<and> P 2 \<and> P 3 \<and> P 4 \<and> P (5::nat)"
  by (auto simp: numeral_eq_Suc All_less_Suc)

lemma all_less_10: "(\<forall>i<10. P i) \<longleftrightarrow> (\<forall>i<6. P i) \<and> P 6 \<and> P 7 \<and> P 8 \<and> P (9::nat)"
  by (auto simp: numeral_eq_Suc All_less_Suc)

lemma enum_ready:
  "steps_in_order s \<Longrightarrow> (\<forall>i<10. bit s i) \<longleftrightarrow> bit s 9"
  by (auto simp: all_less_10 all_less_6 steps_in_order_def)

text \<open>What marking a step may do.\<close>

lemma bit_marks:
  "bit (s OR 1 :: u32) n \<longleftrightarrow> bit s n \<or> n = 0" "bit (s OR 2 :: u32) n \<longleftrightarrow> bit s n \<or> n = 1"
  "bit (s OR 4 :: u32) n \<longleftrightarrow> bit s n \<or> n = 2" "bit (s OR 8 :: u32) n \<longleftrightarrow> bit s n \<or> n = 3"
  "bit (s OR 0x10 :: u32) n \<longleftrightarrow> bit s n \<or> n = 4" "bit (s OR 0x20 :: u32) n \<longleftrightarrow> bit s n \<or> n = 5"
  "bit (s OR 0x40 :: u32) n \<longleftrightarrow> bit s n \<or> n = 6" "bit (s OR 0x80 :: u32) n \<longleftrightarrow> bit s n \<or> n = 7"
  "bit (s OR 0x100 :: u32) n \<longleftrightarrow> bit s n \<or> n = 8" "bit (s OR 0x200 :: u32) n \<longleftrightarrow> bit s n \<or> n = 9"
proof -
  have m: "bit (s OR 2 ^ k :: u32) n \<longleftrightarrow> bit s n \<or> n = k" if "k < 32" for k
    using that by (auto simp: bit_simps)
  show "bit (s OR 1 :: u32) n \<longleftrightarrow> bit s n \<or> n = 0" "bit (s OR 2 :: u32) n \<longleftrightarrow> bit s n \<or> n = 1"
    "bit (s OR 4 :: u32) n \<longleftrightarrow> bit s n \<or> n = 2" "bit (s OR 8 :: u32) n \<longleftrightarrow> bit s n \<or> n = 3"
    "bit (s OR 0x10 :: u32) n \<longleftrightarrow> bit s n \<or> n = 4" "bit (s OR 0x20 :: u32) n \<longleftrightarrow> bit s n \<or> n = 5"
    "bit (s OR 0x40 :: u32) n \<longleftrightarrow> bit s n \<or> n = 6" "bit (s OR 0x80 :: u32) n \<longleftrightarrow> bit s n \<or> n = 7"
    "bit (s OR 0x100 :: u32) n \<longleftrightarrow> bit s n \<or> n = 8" "bit (s OR 0x200 :: u32) n \<longleftrightarrow> bit s n \<or> n = 9"
    using m [of 0] m [of 1] m [of 2] m [of 3] m [of 4] m [of 5] m [of 6] m [of 7] m [of 8] m [of 9]
    by simp_all
qed

lemma mark_in_order:
  assumes "steps_in_order s"
  shows "steps_in_order (s OR 1)" "steps_in_order (s OR 2)" "steps_in_order (s OR 4)" "steps_in_order (s OR 8)"
    "steps_in_order (s OR 0x10)" "steps_in_order (s OR 0x20)"
    "\<forall>i<6. bit s i \<Longrightarrow> steps_in_order (s OR 0x40)" "bit s 6 \<Longrightarrow> steps_in_order (s OR 0x80)"
    "bit s 7 \<Longrightarrow> steps_in_order (s OR 0x100)" "bit s 8 \<Longrightarrow> steps_in_order (s OR 0x200)"
  using assms by (auto simp: steps_in_order_def bit_marks all_less_6)

section \<open>What the gate depends on\<close>

definition gate_frame :: "vcam \<Rightarrow> vcam \<Rightarrow> bool" where
  "gate_frame a b \<longleftrightarrow> opcodes b = opcodes a \<and>
     fj_image_import_steps (fuji b) = fj_image_import_steps (fuji a) \<and>
     fj_is_gfx100ii (fuji b) = fj_is_gfx100ii (fuji a)"

lemma gate_frame_refl [simp]: "gate_frame a a"
  by (simp add: gate_frame_def)

lemma gate_frame_trans: "gate_frame a b \<Longrightarrow> gate_frame b c \<Longrightarrow> gate_frame a c"
  by (simp add: gate_frame_def)

lemma gate_frame_send [simp]:
  "gate_frame a (ptp_response b c ps) = gate_frame a b" "gate_frame a (ptp_senddata b c' d) = gate_frame a b"
  by (simp_all add: gate_frame_def ptp_response_def ptp_senddata_def Let_def)

lemma gate_frame_updates [simp]:
  "gate_frame a (b\<lparr>session := x1\<rparr>) = gate_frame a b" "gate_frame a (b\<lparr>seqnr := x2\<rparr>) = gate_frame a b"
  "gate_frame a (b\<lparr>first_dirent := x3\<rparr>) = gate_frame a b" "gate_frame a (b\<lparr>ptp_objectid := x4\<rparr>) = gate_frame a b"
  "gate_frame a (b\<lparr>ticks := x5\<rparr>) = gate_frame a b" "gate_frame a (b\<lparr>nikon := x6\<rparr>) = gate_frame a b"
  "gate_frame a (b\<lparr>next_cmd_kills_connection := x7\<rparr>) = gate_frame a b"
  "gate_frame a (b\<lparr>outbulk := x8\<rparr>) = gate_frame a b" "gate_frame a (b\<lparr>ptpcmd := x9\<rparr>) = gate_frame a b"
  "gate_frame a (b\<lparr>first_interrupt := x10\<rparr>) = gate_frame a b"
  "gate_frame a (set_desc c d b) = gate_frame a b" "gate_frame a (push_dirent de b) = gate_frame a b"
  "gate_frame a (ptp_inject_interrupt e b when cde n p t) = gate_frame a b"
  by (simp_all add: gate_frame_def set_desc_def push_dirent_def)

lemma gate_frame_notify [simp]: "gate_frame a (ptp_notify_event e b c v) = gate_frame a b"
  by (simp add: ptp_notify_event_def)

lemma gate_frame_notify_all [simp]: "gate_frame a (notify_all e evs b) = gate_frame a b"
proof (induction evs arbitrary: b)
  case (Cons x evs)
  then show ?case by (cases x) simp
qed simp

text \<open>Fields of the Fujifilm state the gate does not look at.\<close>

lemma gate_frame_fuji [simp]:
  "gate_frame a (b\<lparr>fuji := (fuji b)\<lparr>fj_sent_images := y1\<rparr>\<rparr>) = gate_frame a b"
  "gate_frame a (b\<lparr>fuji := (fuji b)\<lparr>fj_client_state := y2\<rparr>\<rparr>) = gate_frame a b"
  "gate_frame a (b\<lparr>fuji := (fuji b)\<lparr>fj_min_remote_version := y3\<rparr>\<rparr>) = gate_frame a b"
  "gate_frame a (b\<lparr>fuji := (fuji b)\<lparr>fj_compress_small := y4\<rparr>\<rparr>) = gate_frame a b"
  "gate_frame a (b\<lparr>fuji := (fuji b)\<lparr>fj_no_compressed := y5\<rparr>\<rparr>) = gate_frame a b"
  "gate_frame a (b\<lparr>fuji := (fuji b)\<lparr>fj_internal_state := y6\<rparr>\<rparr>) = gate_frame a b"
  "gate_frame a (b\<lparr>fuji := (fuji b)\<lparr>fj_image_import_current_handle := y7\<rparr>\<rparr>) = gate_frame a b"
  "gate_frame a (b\<lparr>fuji := (fuji b)\<lparr>fj_image_import_folder_query_seen := y8\<rparr>\<rparr>) = gate_frame a b"
  "gate_frame a (b\<lparr>fuji := (fuji b)\<lparr>fj_image_import_date_query_seen := y9\<rparr>\<rparr>) = gate_frame a b"
  "gate_frame a (b\<lparr>fuji := (fuji b)\<lparr>fj_usb_liveview := y10\<rparr>\<rparr>) = gate_frame a b"
  "gate_frame a (b\<lparr>fuji := (fuji b)\<lparr>fj_rawconv_raf_buffer := y11\<rparr>\<rparr>) = gate_frame a b"
  "gate_frame a (b\<lparr>fuji := (fuji b)\<lparr>fj_settings_file_path := y12\<rparr>\<rparr>) = gate_frame a b"
  "gate_frame a (b\<lparr>fuji := (fuji b)\<lparr>fj_rawconv_jpeg_handle := y13, fj_rawconv_jpeg_object_info := y14\<rparr>\<rparr>) = gate_frame a b"
  "gate_frame a (b\<lparr>fuji := add_rawconv_jpeg (fuji b)\<rparr>) = gate_frame a b"
  by (simp_all add: gate_frame_def add_rawconv_jpeg_def)

section \<open>The standard handlers leave the gate alone\<close>

lemma objects_query_gate: "objects_query cam ptp = Inr (Inl c) \<Longrightarrow> gate_frame cam c"
  by (auto simp: objects_query_def split: if_split_asm option.split_asm)

lemma query_run_gate:
  assumes "(if session cam = 0 then Inr (ptp_response cam PTP_RC_SessionNotOpen [])
      else bnd (objects_query cam ptp) (\<lambda>q. case q of Inl c \<Rightarrow> Inr c | Inr m \<Rightarrow> f m)) = Inr cam'"
    "\<And>m. f m = Inr cam' \<Longrightarrow> gate_frame cam cam'"
  shows "gate_frame cam cam'"
proof (cases "session cam = 0")
  case True
  then show ?thesis using assms(1) by auto
next
  case False
  with assms(1) obtain q where q: "objects_query cam ptp = Inr q"
    "(case q of Inl c \<Rightarrow> Inr c | Inr m \<Rightarrow> f m) = Inr cam'" by auto
  then show ?thesis using assms(2) objects_query_gate by (cases q) auto
qed

lemma query_gate:
  "ptp_getnumobjects_write cam ptp = Inr cam' \<Longrightarrow> gate_frame cam cam'"
  "ptp_getobjecthandles_write cam ptp = Inr cam' \<Longrightarrow> gate_frame cam cam'"
  unfolding ptp_getnumobjects_write_def ptp_getobjecthandles_write_def guard_trans_id guard_session
  by (erule query_run_gate; auto)+

lemma session_gate:
  "ptp_opensession_write cam ptp = Inr cam' \<Longrightarrow> gate_frame cam cam'"
  "ptp_closesession_write cam ptp = Inr cam' \<Longrightarrow> gate_frame cam cam'"
  "ptp_deviceinfo_write cam ptp = Inr cam' \<Longrightarrow> gate_frame cam cam'"
  "ptp_getstorageids_write cam ptp = Inr cam' \<Longrightarrow> gate_frame cam cam'"
  "ptp_getstorageinfo_write cam ptp = Inr cam' \<Longrightarrow> gate_frame cam cam'"
  "ptp_mtp_obj_props_supported_write cam ptp = Inr cam' \<Longrightarrow> gate_frame cam cam'"
  by (auto simp: ptp_opensession_write_def ptp_closesession_write_def
      ptp_deviceinfo_write_def ptp_getstorageids_write_def ptp_getstorageinfo_write_def
      ptp_mtp_obj_props_supported_write_def handler_defs Let_def split: if_split_asm)

lemma push_virtual_gate: "push_virtual_dir nm c cam = (dir, c1) \<Longrightarrow> gate_frame cam c1"
  by (auto simp: push_virtual_dir_def Let_def)

lemma capture_gate: "capture_objects e cam n cur = Inr cam' \<Longrightarrow> gate_frame cam cam'"
  by (auto simp: capture_objects_def capture_picture_def push_capture_def Let_def
      dest!: make_gphot_cases push_virtual_gate split: if_split_asm option.split_asm)

lemma object_gate:
  "ptp_getpartialobject_write hk e cam ptp = Inr cam' \<Longrightarrow> gate_frame cam cam'"
  "ptp_getobject_write e cam ptp = Inr cam' \<Longrightarrow> gate_frame cam cam'"
  "ptp_getthumb_write e cam ptp = Inr cam' \<Longrightarrow> gate_frame cam cam'"
  "ptp_getobjectinfo_write e cam ptp = Inr cam' \<Longrightarrow> gate_frame cam cam'"
  "ptp_initiatecapture_write e cam ptp = Inr cam' \<Longrightarrow> gate_frame cam cam'"
  "ptp_deleteobject_write cam ptp = Inr cam' \<Longrightarrow> gate_frame cam cam'"
  by (auto simp: ptp_getpartialobject_write_def ptp_getobject_write_def ptp_getthumb_write_def
      ptp_getobjectinfo_write_def ptp_initiatecapture_write_def ptp_deleteobject_write_def time_now_def
      handler_defs Let_def dest: capture_gate elim!: delete_one_cases split: if_split_asm option.split_asm)

lemma pop_event_gate: "ptp_pop_event c = Inr (r, c1) \<Longrightarrow> gate_frame c c1"
  by (auto simp: ptp_pop_event_def find_channel_entry_def split: prod.splits list.splits)

lemma pop_gate: "pop_events c = Inr (evs, c') \<Longrightarrow> gate_frame c c'"
proof (induction c arbitrary: evs c' rule: pop_events.induct)
  case (1 c)
  from "1.prems" show ?case
  proof (cases rule: pop_events_cases)
    case (1 c1)
    then show ?thesis by (simp add: pop_event_gate)
  next
    case (2 ev c1 evs')
    then have "gate_frame c1 c'" using "1.IH" [OF 2(1) refl refl 2(2)] by simp
    then show ?thesis using pop_event_gate [OF 2(1)] gate_frame_trans by blast
  qed
qed

lemma callback_gate:
  "fuji_getvalue f c d = Inr (c', d', n) \<Longrightarrow> gate_frame c c'"
  "fuji_setvalue e f c d v = Inr (c', d', m) \<Longrightarrow> gate_frame c c'"
  by (auto simp: fuji_getvalue_def fuji_setvalue_def prop_d185_getvalue_def prop_d21c_getvalue_def
      prop_d18c_getvalue_def d212_getvalue_def prop_d185_setvalue_def prop_d183_setvalue_def prop_d21c_setvalue_def
      Let_def dest: pop_gate split: prop_fn.split_asm option.split_asm)

lemma access_gate:
  "vcam_get_prop_desc (fuji_hooks e) c k = Inr (d, c') \<Longrightarrow> gate_frame a c \<Longrightarrow> gate_frame a c'"
  "vcam_get_prop_data (fuji_hooks e) c k = Inr (r, c') \<Longrightarrow> gate_frame a c \<Longrightarrow> gate_frame a c'"
  "vcam_set_prop_data (fuji_hooks e) c k v n = Inr (rc, c') \<Longrightarrow> gate_frame a c \<Longrightarrow> gate_frame a c'"
  by (auto simp: vcam_get_prop_desc_def vcam_get_prop_data_def vcam_set_prop_data_def fuji_hooks_def
      fuji_callbacks_def dest!: callback_gate intro: gate_frame_trans [of a c] split: option.split_asm)

lemma prop_gate:
  "ptp_getdevicepropdesc_write (fuji_hooks e) cam ptp = Inr cam' \<Longrightarrow> gate_frame cam cam'"
  "ptp_getdevicepropvalue_write (fuji_hooks e) cam ptp = Inr cam' \<Longrightarrow> gate_frame cam cam'"
  "ptp_setdevicepropvalue_write cam ptp = Inr cam' \<Longrightarrow> gate_frame cam cam'"
  "ptp_setdevicepropvalue_write_data (fuji_hooks e) cam ptp d = Inr cam' \<Longrightarrow> gate_frame cam cam'"
  "ptp_vusb_write cam ptp = Inr cam' \<Longrightarrow> gate_frame cam cam'"
  "ptp_vusb_write_data cam ptp d = Inr cam' \<Longrightarrow> gate_frame cam cam'"
  by (auto simp: ptp_getdevicepropdesc_write_def ptp_getdevicepropvalue_write_def
      ptp_setdevicepropvalue_write_def ptp_setdevicepropvalue_write_data_def
      ptp_vusb_write_def ptp_vusb_write_data_def handler_defs dest!: access_gate [where a = cam] split: if_split_asm option.split_asm)

section \<open>The invariant\<close>

text \<open>
  The operations a Fujifilm body can have in its table: the standard ones, and the ones of its module.
\<close>

definition base_ops :: "op_write set" where
  "base_ops = {F_ptp_opensession_write, F_ptp_closesession_write, F_ptp_deviceinfo_write,
     F_ptp_getnumobjects_write, F_ptp_getobjecthandles_write, F_ptp_getstorageids_write,
     F_ptp_getstorageinfo_write, F_ptp_getobjectinfo_write, F_ptp_getobject_write, F_ptp_getthumb_write,
     F_ptp_deleteobject_write, F_ptp_initiatecapture_write, F_ptp_getdevicepropdesc_write,
     F_ptp_getdevicepropvalue_write, F_ptp_setdevicepropvalue_write, F_ptp_getpartialobject_write,
     F_ptp_vusb_write, F_ptp_mtp_obj_props_supported_write}"

definition fuji_entry :: "PtpOpcode \<Rightarrow> bool" where
  "fuji_entry h \<longleftrightarrow> (op_w h \<in> base_ops \<or> (\<exists>f. op_w h = F_fuji f)) \<and>
     (op_wd h \<in> {None, Some F_ptp_setdevicepropvalue_write_data, Some F_ptp_vusb_write_data}
        \<or> (\<exists>g. op_wd h = Some (F_fuji_data g)))"

definition fuji_table :: "PtpOpcode list \<Rightarrow> bool" where
  "fuji_table ops \<longleftrightarrow> (\<forall>h\<in>set ops. fuji_entry h)"

definition gate_inv :: "vcam \<Rightarrow> bool" where
  "gate_inv cam \<longleftrightarrow> fuji_table (opcodes cam) \<and> steps_in_order (fj_image_import_steps (fuji cam))"

lemma gate_inv_frame: "gate_inv a \<Longrightarrow> gate_frame a b \<Longrightarrow> gate_inv b"
  by (simp add: gate_inv_def gate_frame_def)

lemma gate_inv_updates [simp]:
  "gate_inv (ptp_response cam c ps) = gate_inv cam" "gate_inv (ptp_senddata cam c' d) = gate_inv cam"
  "gate_inv (cam\<lparr>outbulk := ob\<rparr>) = gate_inv cam" "gate_inv (cam\<lparr>ptpcmd := p\<rparr>) = gate_inv cam"
  by (auto simp: gate_inv_def ptp_response_def ptp_senddata_def Let_def)

text \<open>Marking keeps the invariant when the step's own test has been passed.\<close>

lemma mark_keeps:
  assumes "gate_inv cam" "steps_in_order (fj_image_import_steps (fuji cam)) \<Longrightarrow>
     steps_in_order (fj_image_import_steps (fuji cam) OR s)"
  shows "gate_inv (fuji_mark_image_import_step cam s)"
  using assms by (simp add: gate_inv_def fuji_mark_image_import_step_def)

lemmas marks = mark_keeps [OF _ mark_in_order(1)] mark_keeps [OF _ mark_in_order(2)]
  mark_keeps [OF _ mark_in_order(3)] mark_keeps [OF _ mark_in_order(4)] mark_keeps [OF _ mark_in_order(5)]
  mark_keeps [OF _ mark_in_order(6)]

lemma gate_inv_fuji [simp]:
  "gate_inv (b\<lparr>fuji := (fuji b)\<lparr>fj_client_state := y2\<rparr>\<rparr>) = gate_inv b"
  "gate_inv (b\<lparr>fuji := (fuji b)\<lparr>fj_min_remote_version := y3\<rparr>\<rparr>) = gate_inv b"
  "gate_inv (b\<lparr>fuji := (fuji b)\<lparr>fj_compress_small := y4\<rparr>\<rparr>) = gate_inv b"
  "gate_inv (b\<lparr>fuji := (fuji b)\<lparr>fj_no_compressed := y5\<rparr>\<rparr>) = gate_inv b"
  "gate_inv (b\<lparr>fuji := (fuji b)\<lparr>fj_internal_state := y6\<rparr>\<rparr>) = gate_inv b"
  "gate_inv (b\<lparr>fuji := (fuji b)\<lparr>fj_image_import_current_handle := y7\<rparr>\<rparr>) = gate_inv b"
  "gate_inv (b\<lparr>fuji := (fuji b)\<lparr>fj_image_import_folder_query_seen := y8\<rparr>\<rparr>) = gate_inv b"
  "gate_inv (b\<lparr>fuji := (fuji b)\<lparr>fj_image_import_date_query_seen := y9\<rparr>\<rparr>) = gate_inv b"
  "gate_inv (notify_all e evs b) = gate_inv b" "gate_inv (ptp_notify_event e b c v) = gate_inv b"
proof -
  have "gate_frame b (ptp_notify_event e b c v)" "gate_frame (ptp_notify_event e b c v) b"
    using gate_frame_notify [of b e b c v] by (simp_all add: gate_frame_def)
  then show "gate_inv (ptp_notify_event e b c v) = gate_inv b" using gate_inv_frame by blast
  have "gate_frame b (notify_all e evs b)" "gate_frame (notify_all e evs b) b"
    using gate_frame_notify_all [of b e evs b] by (simp_all add: gate_frame_def)
  then show "gate_inv (notify_all e evs b) = gate_inv b" using gate_inv_frame by blast
qed (simp_all add: gate_inv_def)

lemma fuji_set_gate: "gate_inv cam \<Longrightarrow> fuji_set_value e cam p d = Inr cam' \<Longrightarrow> gate_inv cam'"
  by (auto simp: fuji_set_value_def fuji_set_client_state_def fuji_set_compress_small_def fuji_set_correct_size_def
      fuji_set_camera_state_def c_assert_def Let_def intro: marks split: if_split_asm)

lemma downloaded_gate: "fuji_downloaded_object e cam = Inr cam' \<Longrightarrow> gate_frame cam cam'"
  by (auto simp: fuji_downloaded_object_def Let_def split: if_split_asm list.split_asm)

lemma fuji_partial_gate: "ptp_fuji_getpartialobject_write hk e cam ptp = Inr cam' \<Longrightarrow> gate_frame cam cam'"
  by (auto simp: ptp_fuji_getpartialobject_write_def split: if_split_asm
      dest!: object_gate(1) downloaded_gate intro: gate_frame_trans)

lemma send_gate [simp]:
  "gate_inv (send_value cam ptp bs) = gate_inv cam" "gate_inv (send_int cam ptp v) = gate_inv cam"
  "gate_inv (fuji_image_import_reject cam) = gate_inv cam"
  by (simp_all add: send_value_def send_int_def fuji_image_import_reject_def)

lemma fuji_send_gate:
  assumes "gate_inv cam" "fuji_send_property cam ptp p = Inr cam'"
  shows "gate_inv cam'"
proof -
  have ev: "fuji_send_events cam ptp = Inr cam' \<Longrightarrow> gate_inv cam'"
    by (auto simp: fuji_send_events_def dest: gate_inv_frame [OF assms(1) pop_gate])
  have gate: "gated cam (fuji_send_import_count cam ptp) = Inr cam' \<Longrightarrow> gate_inv cam'"
    "gated cam (fuji_send_import_handles cam ptp) = Inr cam' \<Longrightarrow> gate_inv cam'"
    using assms(1) by (auto simp: gated_def fuji_send_import_count_def fuji_send_import_handles_def split: if_split_asm)
  show ?thesis using assms unfolding fuji_send_property_def Let_def
    by (auto intro: marks dest: ev gate split: if_split_asm)
qed

text \<open>The gallery operations mark their steps after the tests for the steps before them.\<close>

lemma gallery_gate_steps:
  assumes "gate_inv cam"
  shows "ptp_fuji_get_extension_object_info e cam ptp = Inr cam' \<Longrightarrow> gate_inv cam'"
    "ptp_fuji_get_extension_thumb e cam ptp = Inr cam' \<Longrightarrow> gate_inv cam'"
    "ptp_fuji_get_image_import_folders cam ptp = Inr cam' \<Longrightarrow> gate_inv cam'"
    "ptp_fuji_get_image_import_dates cam ptp = Inr cam' \<Longrightarrow> gate_inv cam'"
    "ptp_fuji_get_extension_partial_object hk e cam ptp = Inr cam' \<Longrightarrow> gate_inv cam'"
  using assms
  by (auto simp: ptp_fuji_get_extension_object_info_def ptp_fuji_get_extension_thumb_def
      ptp_fuji_get_extension_partial_object_def ptp_fuji_get_image_import_folders_def
      ptp_fuji_get_image_import_dates_def handler_defs Let_def has_steps
      intro!: mark_keeps mark_in_order dest!: object_gate(3,4) fuji_partial_gate
      elim!: gate_inv_frame [rotated] split: if_split_asm option.split_asm)

lemma fuji_plain_gate:
  "ptp_fuji_get_device_info cam ptp = Inr cam' \<Longrightarrow> gate_frame cam cam'"
  "ptp_fuji_capture e cam ptp = Inr cam' \<Longrightarrow> gate_frame cam cam'"
  "ptp_fuji_setdevicepropvalue_write cam ptp = Inr cam' \<Longrightarrow> gate_frame cam cam'"
  "ptp_fuji_unsupported cam ptp = Inr cam' \<Longrightarrow> gate_frame cam cam'"
  "ptp_fuji_discovery_getthumb_write cam ptp = Inr cam' \<Longrightarrow> gate_frame cam cam'"
  by (auto simp: ptp_fuji_get_device_info_def ptp_fuji_capture_def ptp_fuji_setdevicepropvalue_write_def
      ptp_fuji_unsupported_def ptp_fuji_discovery_getthumb_write_def Let_def split: if_split_asm)

lemma fuji_usb_gate:
  "fuji_usb_opencapture cam ptp = Inr cam' \<Longrightarrow> gate_frame cam cam'"
  "fuji_usb_terminateopencapture cam ptp = Inr cam' \<Longrightarrow> gate_frame cam cam'"
  "fuji_usb_getobjectinfo e cam ptp = Inr cam' \<Longrightarrow> gate_frame cam cam'"
  "fuji_usb_getobject e cam ptp = Inr cam' \<Longrightarrow> gate_frame cam cam'"
  "fuji_usb_deleteobject cam ptp = Inr cam' \<Longrightarrow> gate_frame cam cam'"
  by (auto simp: fuji_usb_opencapture_def fuji_usb_terminateopencapture_def fuji_usb_getobjectinfo_def
      fuji_usb_getobject_def fuji_usb_deleteobject_def time_now_def handler_defs Let_def
      dest: object_gate split: if_split_asm)

lemma fuji_fs_gate:
  "ptp_fuji_getobject_write e cam ptp = Inr cam' \<Longrightarrow> gate_frame cam cam'"
  "ptp_fuji_getobjecthandles_write cam ptp = Inr cam' \<Longrightarrow> gate_frame cam cam'"
  "ptp_fuji_getobjectinfo cam ptp = Inr cam' \<Longrightarrow> gate_frame cam cam'"
  "ptp_fuji_deleteobject_write cam ptp = Inr cam' \<Longrightarrow> gate_frame cam cam'"
  "ptp_fuji_900c_write cam ptp = Inr cam' \<Longrightarrow> gate_frame cam cam'"
  "ptp_fuji_900d_write cam ptp = Inr cam' \<Longrightarrow> gate_frame cam cam'"
  "ptp_fuji_sendobjectinfo_write cam ptp = Inr cam' \<Longrightarrow> gate_frame cam cam'"
  "ptp_fuji_sendobject_write cam ptp = Inr cam' \<Longrightarrow> gate_frame cam cam'"
  "ptp_fuji_900c_write_data cam ptp d = Inr cam' \<Longrightarrow> gate_frame cam cam'"
  "ptp_fuji_900d_write_data cam ptp d = Inr cam' \<Longrightarrow> gate_frame cam cam'"
  "ptp_fuji_sendobjectinfo_write_data cam ptp d = Inr cam' \<Longrightarrow> gate_frame cam cam'"
  "ptp_fuji_sendobject_write_data e cam ptp d = Inr cam' \<Longrightarrow> gate_frame cam cam'"
  by (auto simp: ptp_fuji_getobject_write_def ptp_fuji_getobjecthandles_write_def ptp_fuji_getobjectinfo_def
      ptp_fuji_deleteobject_write_def ptp_fuji_900c_write_def ptp_fuji_900d_write_def
      ptp_fuji_sendobjectinfo_write_def ptp_fuji_sendobject_write_def ptp_fuji_900c_write_data_def
      ptp_fuji_900d_write_data_def ptp_fuji_sendobjectinfo_write_data_def ptp_fuji_sendobject_write_data_def
      c_assert_def handler_defs Let_def dest!: send_file_senddata split: if_split_asm option.split_asm)

section \<open>Whatever the host writes\<close>

lemma fuji_operation_gate:
  assumes "gate_inv cam"
  shows "fuji_operation e f cam ptp = Inr cam' \<Longrightarrow> gate_inv cam'"
    and "fuji_data_operation e g cam ptp d = Inr cam' \<Longrightarrow> gate_inv cam'"
  by (cases f; auto simp: ptp_fuji_getdevicepropvalue_write_def intro: gallery_gate_steps [OF assms] fuji_send_gate [OF assms]
      dest: gate_inv_frame [OF assms fuji_plain_gate(1)] gate_inv_frame [OF assms fuji_plain_gate(2)]
        gate_inv_frame [OF assms fuji_plain_gate(3)] gate_inv_frame [OF assms fuji_plain_gate(4)]
        gate_inv_frame [OF assms fuji_plain_gate(5)] gate_inv_frame [OF assms fuji_partial_gate]
        gate_inv_frame [OF assms fuji_usb_gate(1)] gate_inv_frame [OF assms fuji_usb_gate(2)]
        gate_inv_frame [OF assms fuji_usb_gate(3)] gate_inv_frame [OF assms fuji_usb_gate(4)]
        gate_inv_frame [OF assms fuji_usb_gate(5)] gate_inv_frame [OF assms fuji_fs_gate(1)]
        gate_inv_frame [OF assms fuji_fs_gate(2)] gate_inv_frame [OF assms fuji_fs_gate(3)]
        gate_inv_frame [OF assms fuji_fs_gate(4)] gate_inv_frame [OF assms fuji_fs_gate(5)]
        gate_inv_frame [OF assms fuji_fs_gate(6)] gate_inv_frame [OF assms fuji_fs_gate(7)]
        gate_inv_frame [OF assms fuji_fs_gate(8)])
     (cases g; auto simp: ptp_fuji_setdevicepropvalue_write_data_def dest: fuji_set_gate [OF assms]
        gate_inv_frame [OF assms fuji_fs_gate(9)] gate_inv_frame [OF assms fuji_fs_gate(10)]
        gate_inv_frame [OF assms fuji_fs_gate(11)] gate_inv_frame [OF assms fuji_fs_gate(12)])

lemma standard_gate:
  assumes "op_handler (fuji_hooks e) e f cam ptp = Inr cam'" "f \<in> base_ops"
  shows "gate_frame cam cam'"
  using assms by (auto simp: base_ops_def intro: session_gate query_gate object_gate prop_gate)

lemma handler_gate:
  assumes "gate_inv cam" "h \<in> set (opcodes cam)"
  shows "op_handler (fuji_hooks e) e (op_w h) cam ptp = Inr cam' \<Longrightarrow> gate_inv cam'"
    and "op_wd h = Some g \<Longrightarrow> data_handler (fuji_hooks e) e g cam ptp d = Inr cam' \<Longrightarrow> gate_inv cam'"
proof -
  assume run: "op_handler (fuji_hooks e) e (op_w h) cam ptp = Inr cam'"
  show "gate_inv cam'"
  proof (cases "\<exists>f. op_w h = F_fuji f")
    case True
    then show ?thesis using run fuji_operation_gate(1) [OF assms(1)] by (auto simp: fuji_hooks_def)
  next
    case False
    then have "gate_frame cam cam'" using assms standard_gate [OF run] by (auto simp: gate_inv_def fuji_table_def fuji_entry_def)
    then show ?thesis by (rule gate_inv_frame [OF assms(1)])
  qed
next
  assume g: "op_wd h = Some g" and run: "data_handler (fuji_hooks e) e g cam ptp d = Inr cam'"
  have "op_wd h \<in> {None, Some F_ptp_setdevicepropvalue_write_data, Some F_ptp_vusb_write_data}
      \<or> (\<exists>g. op_wd h = Some (F_fuji_data g))"
    using assms by (simp add: gate_inv_def fuji_table_def fuji_entry_def)
  with g consider "g = F_ptp_setdevicepropvalue_write_data" | "g = F_ptp_vusb_write_data" | g' where "g = F_fuji_data g'"
    by auto
  then show "gate_inv cam'"
    using run assms(1) fuji_operation_gate(2) [OF assms(1)] gate_inv_frame [OF assms(1) prop_gate(4)]
      gate_inv_frame [OF assms(1) prop_gate(6)]
    by cases (auto simp: fuji_hooks_def)
qed

definition fuji_writes :: "env \<Rightarrow> vcam \<Rightarrow> byte list list \<Rightarrow> vcam res" where
  "fuji_writes e = vcam_writes (op_handler (fuji_hooks e) e) (data_handler (fuji_hooks e) e)"

lemma write_gate:
  assumes "gate_inv cam" "vcam_write (op_handler (fuji_hooks e) e) (data_handler (fuji_hooks e) e) cam d = Inr cam'"
  shows "gate_inv cam'"
proof -
  have call: "gate_inv c \<Longrightarrow> call_handler (op_handler (fuji_hooks e) e) (data_handler (fuji_hooks e) e) c ptp dat
      = Inr c' \<Longrightarrow> gate_inv c'" for c ptp dat c'
    unfolding call_handler_def
    by (auto split: option.split_asm if_split_asm dest!: lookup_key_Some intro: handler_gate)
  define c where "c = cam\<lparr>outbulk := outbulk cam @ d\<rparr>"
  have c: "gate_inv c" using assms(1) by (simp add: c_def)
  from assms(2) obtain p where "fetch_packet (outbulk c) = Inr p"
    and p: "(case p of Wait \<Rightarrow> Inr c | Reject sz \<Rightarrow> Inr (reject c sz)
        | Packet ptp dat \<Rightarrow> call_handler (op_handler (fuji_hooks e) e) (data_handler (fuji_hooks e) e)
            (c\<lparr>outbulk := take (length (outbulk c) - unat (c_size ptp)) (outbulk c)\<rparr>) ptp dat) = Inr cam'"
    unfolding vcam_write_def c_def [symmetric] by (auto simp: vcam_process_output_def split: if_split_asm)
  show ?thesis
  proof (cases p)
    case (Packet ptp dat)
    then show ?thesis using p call [of "c\<lparr>outbulk := take (length (outbulk c) - unat (c_size ptp)) (outbulk c)\<rparr>" ptp dat cam'] c
      by simp
  qed (use p c in \<open>auto simp: reject_def Let_def\<close>)
qed

lemma writes_gate: "gate_inv cam \<Longrightarrow> fuji_writes e cam ds = Inr cam' \<Longrightarrow> gate_inv cam'"
  unfolding fuji_writes_def by (induction ds arbitrary: cam) (auto dest: write_gate)

section \<open>From the start\<close>

lemma table_register:
  "fuji_table ops \<Longrightarrow> fuji_entry (mk_opcode x) \<Longrightarrow> fuji_table (upsert op_code (mk_opcode x) ops)"
  using set_upsert [of op_code "mk_opcode x" ops] unfolding fuji_table_def by auto

lemma opcodes_register: "opcodes (register_op x cam) = upsert op_code (mk_opcode x) (opcodes cam)"
  by (cases x) (simp add: register_op_def vcam_register_opcode_def mk_opcode_def)

lemma fuji_register [simp]: "fuji (register_op x cam) = fuji cam"
  by (cases x) (simp add: register_op_def vcam_register_opcode_def)

lemma gate_inv_register:
  "gate_inv cam \<Longrightarrow> fuji_entry (mk_opcode x) \<Longrightarrow> gate_inv (register_op x cam)"
  by (simp add: gate_inv_def opcodes_register table_register)

lemma gate_inv_register_all:
  "gate_inv cam \<Longrightarrow> list_all (\<lambda>x. fuji_entry (mk_opcode x)) xs \<Longrightarrow> gate_inv (fold register_op xs cam)"
  by (induction xs arbitrary: cam) (auto simp: gate_inv_register)

lemma tables_ok:
  "list_all (\<lambda>x. fuji_entry (mk_opcode x)) standard_opcodes"
  "list_all (\<lambda>x. fuji_entry (mk_opcode x)) fuji_opcodes"
  "list_all (\<lambda>x. fuji_entry (mk_opcode x)) gfx_opcodes"
  "list_all (\<lambda>x. fuji_entry (mk_opcode x)) rawconv_opcodes"
  "list_all (\<lambda>x. fuji_entry (mk_opcode x)) fuji_usb_opcodes"
  by (simp_all add: standard_opcodes_def fuji_opcodes_def gfx_opcodes_def rawconv_opcodes_def
      fuji_usb_opcodes_def fuji_entry_def base_ops_def mk_opcode_def)

text \<open>Registering properties and scanning a card leave the gate alone.\<close>

lemma gate_frame_props [simp]:
  "gate_frame a (vcam_register_prop c d b) = gate_frame a b"
  "gate_frame a (vcam_register_prop_handlers c d g st b) = gate_frame a b"
  by (simp_all add: gate_frame_def vcam_register_prop_def vcam_register_prop_handlers_def)

lemma read_directories_gate: "gate_frame cam (read_directories path parent es cam)"
proof (induction path parent es cam rule: read_directories.induct)
  case (2 path parent nm st sub es cam)
  define c1 where "c1 = push_dirent \<lparr>d_addr = heap_next cam, d_id = ptp_objectid cam, d_name = nm,
    d_fsname = path @ CHR ''/'' # nm, d_fsname_literal = False, d_stbuf = st, d_parent = parent\<rparr>
    (cam\<lparr>ptp_objectid := ptp_objectid cam + 1\<rparr>)"
  define c2 where "c2 = (case st of None \<Rightarrow> c1 | Some s \<Rightarrow> (if st_isdir s then
     (case sub of None \<Rightarrow> c1 | Some ds \<Rightarrow> read_directories (path @ CHR ''/'' # nm) (PAddr (heap_next cam)) ds c1)
     else c1))"
  show ?case
  proof (cases "nm = ''.'' \<or> nm = ''..''")
    case True
    then show ?thesis using 2 by auto
  next
    case False
    have "gate_frame cam c1" by (simp add: c1_def)
    moreover have "gate_frame c1 c2" using False "2.IH"(3) unfolding c2_def c1_def by (auto split: option.split)
    moreover have "gate_frame c2 (read_directories path parent es c2)"
      using False "2.IH"(4) [OF _ _ refl refl refl, folded c1_def, folded c2_def] by blast
    ultimately have "gate_frame cam (read_directories path parent es c2)" using gate_frame_trans by blast
    then show ?thesis using False unfolding c2_def c1_def by (simp add: Let_def)
  qed
qed simp

lemma read_tree_gate: "read_tree e path cam = Inr cam' \<Longrightarrow> gate_frame cam cam'"
proof -
  assume run: "read_tree e path cam = Inr cam'"
  let ?r = "\<lparr>d_addr = heap_next cam, d_id = 0, d_name = '''', d_fsname = path, d_fsname_literal = False,
    d_stbuf = fs_stat (fs_tree e path), d_parent = PWild\<rparr>"
  let ?c1 = "push_dirent ?r (cam\<lparr>ptp_objectid := 1, first_dirent := []\<rparr>)"
  let ?c2 = "case fs_sub (fs_tree e path) of None \<Rightarrow> ?c1 | Some ds \<Rightarrow> read_directories path (PAddr (heap_next cam)) ds ?c1"
  have "gate_frame ?c1 ?c2" using read_directories_gate by (auto split: option.split)
  moreover have "gate_frame cam ?c1" by simp
  ultimately have "gate_frame cam ?c2" using gate_frame_trans by blast
  then show ?thesis using run by (auto simp: read_tree_def Let_def split: option.split_asm)
qed

lemma gate_frame_setup [simp]:
  "gate_frame a (b\<lparr>custom_ip_addr := z1\<rparr>) = gate_frame a b" "gate_frame a (b\<lparr>vcamera_filesystem := z2\<rparr>) = gate_frame a b"
  "gate_frame a (b\<lparr>sig := z3\<rparr>) = gate_frame a b"
  by (simp_all add: gate_frame_def)

lemma parse_args_gate: "vcam_parse_args e arg rest cam = Inr (Some (r, cam')) \<Longrightarrow> gate_frame cam cam'"
  by (auto simp: vcam_parse_args_def dest!: read_tree_gate split: if_split_asm)
     (simp add: gate_frame_def)

lemma in_order_0: "steps_in_order 0"
  by (simp add: steps_in_order_def)

lemma table_register_all:
  "fuji_table (opcodes cam) \<Longrightarrow> list_all (\<lambda>x. fuji_entry (mk_opcode x)) xs \<Longrightarrow>
     fuji_table (opcodes (fold register_op xs cam))"
  by (induction xs arbitrary: cam) (auto simp: opcodes_register table_register)

lemma standard_start_gate:
  assumes "vcam_init_standard e = Inr cam"
  shows "fuji_table (opcodes cam)"
proof -
  from assms obtain c where
    "cam = ptp_register_standard_props (ptp_register_standard_opcodes
       (c\<lparr>props := [], opcodes := [], seqnr := 0, battery := 50, exposurebias := 123\<rparr>))"
    by (auto simp: vcam_init_standard_def Let_def)
  moreover have "fuji_table (opcodes (fold register_op standard_opcodes
      (c\<lparr>props := [], opcodes := [], seqnr := 0, battery := 50, exposurebias := 123\<rparr>)))"
    by (rule table_register_all [OF _ tables_ok(1)]) (simp add: fuji_table_def)
  ultimately show ?thesis
    by (simp add: ptp_register_standard_opcodes_def ptp_register_standard_props_def vcam_register_prop_def)
qed

lemma fuji_args_gate: "gate_inv cam \<Longrightarrow> fuji_parse_args e args cam = Inr (ok, cam') \<Longrightarrow> gate_inv cam'"
proof (induction e args cam rule: fuji_parse_args.induct)
  case (1 e cam)
  then show ?case by simp
next
  case (2 e arg rest cam)
  from "2.prems"(2) obtain r where r: "vcam_parse_args e arg rest cam = Inr r" by auto
  show ?case
  proof (cases r)
    case (Some x)
    then obtain rest' c where x: "r = Some (rest', c)" by (cases x) auto
    have "gate_inv c" using gate_inv_frame [OF "2.prems"(1)] parse_args_gate r x by blast
    then show ?thesis using "2.IH"(2) [OF r x refl] "2.prems"(2) r x by simp
  next
    case None
    show ?thesis
    proof (cases "fuji_option arg (fuji cam)")
      case None
      then show ?thesis using "2.prems" r \<open>r = None\<close> by simp
    next
      case (Some f)
      then have "gate_inv (cam\<lparr>fuji := f\<rparr>)" using "2.prems"(1)
        by (auto simp: gate_inv_def fuji_option_def split: if_split_asm)
      then show ?thesis using "2.IH"(1) [OF r \<open>r = None\<close> Some] "2.prems"(2) r \<open>r = None\<close> Some by simp
    qed
  qed
qed

lemma fixtures_gate: "fuji_setup_gfx100ii_fixtures e cam = Inr (e', cam') \<Longrightarrow> gate_frame cam cam'"
  by (auto simp: fuji_setup_gfx100ii_fixtures_def fuji_add_virtual_file_def Let_def
      split: if_split_asm option.split_asm)

lemma select_gate: "fuji_select_first cam = Inr cam' \<Longrightarrow> gate_frame cam cam'"
  by (auto simp: fuji_select_first_def split: if_split_asm list.split_asm)

lemma setup_gate:
  assumes "gate_inv cam" "vcam_fuji_setup e cam = Inr (e', cam')"
  shows "gate_inv cam'"
proof -
  define c0 where "c0 = fuji_reset_image_import_state (cam\<lparr>fuji := (fuji cam)\<lparr>fj_client_state := 2,
    fj_camera_state := 0, fj_min_remote_version := 0, fj_compress_small := 0, fj_no_compressed := 0,
    fj_internal_state := 0, fj_sent_images := 0\<rparr>\<rparr>)"
  have c0: "gate_inv c0" using assms(1) by (simp add: c0_def gate_inv_def fuji_reset_image_import_state_def in_order_0)
  from assms(2) obtain c1 n where
    c1: "(if fj_is_gfx100ii (fuji c0) then fuji_setup_gfx100ii_fixtures e c0 else Inr (e, c0)) = Inr (e', c1)" and
    rest: "bnd (fuji_select_first (c1\<lparr>fuji := (fuji c1)\<lparr>fj_obj_count := n,
        fj_camera_state := fuji_access_mode (fuji c1)\<rparr>\<rparr>))
      (\<lambda>cam. Inr (e', notify_all e' (fuji_startup_events (fuji cam)) cam)) = Inr (e', cam')"
    unfolding vcam_fuji_setup_def Let_def c0_def [symmetric] by auto
  have "gate_inv c1" using c0 c1 gate_inv_frame fixtures_gate by (auto split: if_split_asm)
  then have "gate_inv (c1\<lparr>fuji := (fuji c1)\<lparr>fj_obj_count := n, fj_camera_state := fuji_access_mode (fuji c1)\<rparr>\<rparr>)"
    by (simp add: gate_inv_def)
  moreover obtain c2 where "fuji_select_first (c1\<lparr>fuji := (fuji c1)\<lparr>fj_obj_count := n,
      fj_camera_state := fuji_access_mode (fuji c1)\<rparr>\<rparr>) = Inr c2"
    and c2: "cam' = notify_all e' (fuji_startup_events (fuji c2)) c2"
    using rest by auto
  ultimately have "gate_inv c2" using gate_inv_frame select_gate by blast
  then show ?thesis by (simp add: c2)
qed

lemma pred_option_if: "pred_option P x \<Longrightarrow> pred_option P y \<Longrightarrow> pred_option P (if b then x else y)"
  by simp

lemma set_body_gate [simp]:
  "opcodes (set_body nm i g r rg cam) = opcodes cam"
  "fj_image_import_steps (fuji (set_body nm i g r rg cam)) = fj_image_import_steps (fuji cam)"
  by (simp_all add: set_body_def)

lemma select_body_frame:
  "pred_option (\<lambda>c. opcodes c = opcodes cam \<and> fj_image_import_steps (fuji c) = fj_image_import_steps (fuji cam))
     (fuji_select_body name cam)"
  unfolding fuji_select_body_def Let_def by (intro pred_option_if; simp)

lemma body_gate:
  "fuji_table (opcodes cam) \<Longrightarrow> fuji_select_body name (cam\<lparr>fuji := zero_fuji\<rparr>) = Some c \<Longrightarrow>
     fuji_table (opcodes c) \<and> fj_image_import_steps (fuji c) = 0"
  using select_body_frame [of "cam\<lparr>fuji := zero_fuji\<rparr>" name] by (simp add: zero_fuji_def)

lemma usb_props_gate [simp]:
  "gate_frame a (add_prop_u32 c v b) = gate_frame a b" "gate_frame a (add_prop_u16 c w b) = gate_frame a b"
  "gate_frame a (add_prop_invisible_u32 c v b) = gate_frame a b"
  by (simp_all add: add_prop_u32_def add_prop_u16_def add_prop_invisible_u32_def)

lemma gate_inv_props [simp]:
  "gate_inv (vcam_register_prop c d b) = gate_inv b" "gate_inv (vcam_register_prop_handlers c d g st b) = gate_inv b"
  "gate_inv (add_prop_u32 c v b) = gate_inv b" "gate_inv (add_prop_u16 c w b) = gate_inv b"
  "gate_inv (add_prop_invisible_u32 c v b) = gate_inv b" "gate_inv (fuji_register_d212 e b) = gate_inv b"
  "gate_inv (fold (\<lambda>c. add_prop_invisible_u32 c v) cs b) = gate_inv b"
proof -
  have p: "gate_inv (vcam_register_prop c d b) = gate_inv b" for c d b
    by (simp add: gate_inv_def vcam_register_prop_def)
  then show "gate_inv (vcam_register_prop c d b) = gate_inv b" "gate_inv (add_prop_u32 c v b) = gate_inv b"
    "gate_inv (add_prop_u16 c w b) = gate_inv b" by (simp_all add: add_prop_u32_def add_prop_u16_def)
  have i: "gate_inv (add_prop_invisible_u32 c v b) = gate_inv b" for c b
    by (simp add: add_prop_invisible_u32_def p)
  then show "gate_inv (add_prop_invisible_u32 c v b) = gate_inv b" .
  show "gate_inv (fold (\<lambda>c. add_prop_invisible_u32 c v) cs b) = gate_inv b"
    by (induction cs arbitrary: b) (simp_all add: i)
qed (simp_all add: gate_inv_def fuji_register_d212_def vcam_register_prop_handlers_def)

lemma usb_start_gate:
  assumes "gate_inv cam" "fuji_usb_init_cam e cam = Inr cam'"
  shows "gate_inv cam'"
proof -
  have mtp: "gate_inv (ptp_register_mtp_opcodes (ptp_register_mtp_props cam))"
    using assms(1) by (auto simp: ptp_register_mtp_opcodes_def ptp_register_mtp_props_def Let_def fuji_entry_def
        base_ops_def mk_opcode_def intro!: gate_inv_register)
  have fs: "gate_inv c \<Longrightarrow> vcam_fuji_register_rawconv_fs e c = Inr c' \<Longrightarrow> gate_inv c'" for c c'
    using gate_inv_register_all [OF _ tables_ok(4), of c]
    by (auto simp: vcam_fuji_register_rawconv_fs_def Let_def c_assert_def fuji_entry_def mk_opcode_def
        split: option.split_asm if_split_asm intro!: gate_inv_register) (simp add: gate_inv_def)
  have modes: "gate_inv c \<Longrightarrow> fuji_usb_modes e c = Inr c' \<Longrightarrow> gate_inv c'" for c c'
    by (auto simp: fuji_usb_modes_def Let_def split: if_split_asm dest!: fs [rotated])
  have lv: "gate_inv c \<Longrightarrow> fuji_usb_load_lv e c = Inr c' \<Longrightarrow> gate_inv c'" for c c'
    by (auto simp: fuji_usb_load_lv_def gate_inv_def)
  show ?thesis using assms(2) mtp
    by (auto simp: fuji_usb_init_cam_def Let_def dest!: modes [rotated] lv [rotated]
        intro!: gate_inv_register_all tables_ok(5))
qed

lemma fuji_start_gate:
  assumes "fuji_table (opcodes cam)" "fuji_init_cam e name argv cam = Inr (True, e', cam')"
  shows "gate_inv cam'"
proof -
  from assms(2) obtain c where c: "fuji_select_body name (cam\<lparr>fuji := zero_fuji\<rparr>) = Some c"
    by (auto simp: fuji_init_cam_def Let_def split: option.split_asm)
  define c1 where "c1 = c\<lparr>vendor_id := 0x4cb, manufac := ''FUJIFILM'', extension := ''fujifilm.co.jp: 1.0; '',
    version := ''1.30'', serial := ''xxxxxxxxxxxxxxxxxxxxxxxx'',
    fuji := (fuji c)\<lparr>fj_transport := FUJI_FEATURE_WIRELESS_COMM\<rparr>\<rparr>"
  have "gate_inv c1" using body_gate [OF assms(1) c] by (simp add: gate_inv_def c1_def in_order_0)
  moreover obtain c2 where c2: "fuji_parse_args e argv c1 = Inr (True, c2)"
    and rest: "(if fuji_wireless (fj_transport (fuji c2)) then
        bnd (vcam_fuji_setup e (fuji_register_opcodes c2)) (\<lambda>(e, cam). Inr (True, e, cam))
      else bnd (fuji_usb_init_cam e c2) (\<lambda>cam. Inr (True, e, cam))) = Inr (True, e', cam')"
    using assms(2) c unfolding fuji_init_cam_def Let_def
    by (auto simp flip: c1_def split: if_split_asm)
  ultimately have g: "gate_inv c2" using fuji_args_gate by blast
  have "gate_inv (fuji_register_opcodes c2)" using g
    by (auto simp: fuji_register_opcodes_def Let_def fuji_entry_def mk_opcode_def
        intro!: gate_inv_register gate_inv_register_all tables_ok(2,3))
  then show ?thesis using rest setup_gate usb_start_gate [OF g] by (auto split: if_split_asm)
qed

end
