(* ===== verification/Fuji_Gallery.thy ===== *)
theory Fuji_Gallery
  imports Fuji_Gate Demo
begin

text \<open>
  What a host sees of the gallery of a GFX body, from the start of the camera on, and the run of one.
\<close>

lemma gated_gallery:
  assumes "gate_inv cam" "fj_is_gfx100ii (fuji cam)"
  shows "ptp_fuji_getdevicepropvalue_write cam (command 0x1015 t [0xD621]) =
     (if \<not> bit (fj_image_import_steps (fuji cam)) 9 then Inr (ptp_response cam PTP_RC_AccessDenied [])
      else bnd (downloadable (first_dirent cam)) (\<lambda>ds. let hs = rev (sort (map d_id ds)) in
        Inr (ptp_response (ptp_senddata cam 0x1015
          (put_32bit_le (word_of_nat (length hs)) @ concat (map put_32bit_le hs))) PTP_RC_OK [])))"
  using assms enum_ready [of "fj_image_import_steps (fuji cam)"]
  by (auto simp: ptp_fuji_getdevicepropvalue_write_def fuji_send_property_def gated_def gate_inv_def has_steps
      fuji_image_import_reject_def fuji_send_import_handles_def fuji_collect_downloadable_handles_def
      exchange_sort_desc send_value_def command_def param_def cmd_code_def Let_def bnd_assoc)

lemma gated_partial:
  assumes "gate_inv cam" "session cam \<noteq> 0" "length ps = 3" "\<not> bit (fj_image_import_steps (fuji cam)) 9"
  shows "ptp_fuji_get_extension_partial_object hk e cam (command 0x9056 t ps) =
     Inr (ptp_response cam PTP_RC_AccessDenied [])"
  using assms enum_ready [of "fj_image_import_steps (fuji cam)"]
  by (simp add: ptp_fuji_get_extension_partial_object_def handler_defs has_steps gate_inv_def
      fuji_image_import_reject_def command_def Let_def)


section \<open>A body on the demo card\<close>

lemma fuji_field_ops [simp]:
  "fuji (fold register_op xs cam) = fuji cam"
  by (induction xs arbitrary: cam) simp_all

lemma notify_ops [simp]:
  "opcodes (notify_all e evs cam) = opcodes cam \<and> outbulk (notify_all e evs cam) = outbulk cam \<and>
    fuji (notify_all e evs cam) = fuji cam \<and> session (notify_all e evs cam) = session cam \<and>
    next_cmd_kills_connection (notify_all e evs cam) = next_cmd_kills_connection cam"
proof (induction evs arbitrary: cam)
  case (Cons x evs)
  then show ?case by (cases x) (simp add: ptp_notify_event_def)
qed (simp add: notify_all_def)

lemma not_large: "d_stbuf d = Some st \<Longrightarrow> st_size st \<le> FUJI_GFX_CHUNK_SIZE \<Longrightarrow> fuji_is_large_jpeg d = Inr False"
  by (simp add: fuji_is_large_jpeg_def stbuf_def)

lemma small_picture: "first_match fuji_is_large_jpeg demo_dirents = Inr None"
  by (simp add: demo_dirents_def not_large demo_file_def demo_dir_def)

lemma no_base: "fuji_create_large_jpeg_fixture now demo_env = None"
  by (simp add: fuji_create_large_jpeg_fixture_def demo_env_def demo_card_def demo_dir_def)

lemma no_fixture: "first_dirent cam = demo_dirents \<Longrightarrow>
    fuji_setup_gfx100ii_fixtures demo_env cam = Inr (demo_env, cam)"
  by (simp add: fuji_setup_gfx100ii_fixtures_def fuji_has_large_jpeg_def small_picture no_base)

lemma register_first [simp]: "first_dirent (fuji_register_opcodes cam) = first_dirent cam"
  by (simp add: fuji_register_opcodes_def Let_def)

lemma register_fuji [simp]: "fuji (fuji_register_opcodes cam) = fuji cam"
  by (simp add: fuji_register_opcodes_def Let_def)

lemma setup_runs:
  assumes "first_dirent cam = demo_dirents" "\<not> fj_is_select_multiple_images (fuji cam)"
  shows "\<exists>c evs. vcam_fuji_setup demo_env cam = Inr (demo_env, notify_all demo_env evs c) \<and> opcodes c = opcodes cam \<and>
    outbulk c = outbulk cam \<and> session c = session cam \<and>
    next_cmd_kills_connection c = next_cmd_kills_connection cam \<and>
    fj_is_gfx100ii (fuji c) = fj_is_gfx100ii (fuji cam) \<and> fj_image_import_steps (fuji c) = 0"
  using assms by (auto simp: vcam_fuji_setup_def Let_def no_fixture fuji_reset_image_import_state_def
      fuji_select_first_def ptp_get_object_count_def demo_dirents_def c_int_def)

lemma register_pipes [simp]:
  "outbulk (fuji_register_opcodes cam) = outbulk cam" "session (fuji_register_opcodes cam) = session cam"
  "next_cmd_kills_connection (fuji_register_opcodes cam) = next_cmd_kills_connection cam"
  by (simp_all add: fuji_register_opcodes_def Let_def)

lemma register_open:
  "lookup_key op_code 0x1002 (opcodes cam) = Some h \<Longrightarrow>
   lookup_key op_code 0x1002 (opcodes (fuji_register_opcodes cam)) = Some h"
  by (simp add: fuji_register_opcodes_def Let_def fuji_opcodes_def gfx_opcodes_def ops.lookup_register mk_opcode_def)

lemma demo_gfx_init:
  "\<exists>cam. fuji_init_cam demo_env ''gfx'' [] demo_cam = Inr (True, demo_env, cam) \<and> outbulk cam = [] \<and> session cam = 0 \<and>
     \<not> next_cmd_kills_connection cam \<and> fj_is_gfx100ii (fuji cam) \<and> fj_image_import_steps (fuji cam) = 0 \<and>
     lookup_key op_code 0x1002 (opcodes cam) = Some \<lparr>op_code = 0x1002, op_w = F_ptp_opensession_write, op_wd = None\<rparr>"
proof -
  have o: "lookup_key op_code 0x1002 (opcodes demo_cam)
      = Some \<lparr>op_code = 0x1002, op_w = F_ptp_opensession_write, op_wd = None\<rparr>"
    by (simp add: standard_opcodes_def mk_opcode_def)
  obtain b where b: "fuji_select_body ''gfx'' (demo_cam\<lparr>fuji := zero_fuji\<rparr>) = Some b" "opcodes b = opcodes demo_cam"
    "first_dirent b = demo_dirents" "outbulk b = []" "session b = 0" "\<not> next_cmd_kills_connection b"
    "fj_is_gfx100ii (fuji b)" "\<not> fj_is_select_multiple_images (fuji b)"
    by (simp add: fuji_select_body_def set_body_def zero_fuji_def Let_def)
  define c where "c = fuji_register_opcodes (b\<lparr>vendor_id := 0x4cb, manufac := ''FUJIFILM'',
    extension := ''fujifilm.co.jp: 1.0; '', version := ''1.30'', serial := ''xxxxxxxxxxxxxxxxxxxxxxxx'',
    fuji := (fuji b)\<lparr>fj_transport := FUJI_FEATURE_WIRELESS_COMM\<rparr>\<rparr>)"
  have "fuji_init_cam demo_env ''gfx'' [] demo_cam = bnd (vcam_fuji_setup demo_env c) (\<lambda>(e, cam). Inr (True, e, cam))"
    using b by (simp add: fuji_init_cam_def c_def fuji_wireless_def Let_def)
  moreover have "first_dirent c = demo_dirents" "\<not> fj_is_select_multiple_images (fuji c)" "outbulk c = []"
    "session c = 0" "\<not> next_cmd_kills_connection c" "fj_is_gfx100ii (fuji c)"
    using b by (simp_all add: c_def)
  moreover have "lookup_key op_code 0x1002 (opcodes c)
      = Some \<lparr>op_code = 0x1002, op_w = F_ptp_opensession_write, op_wd = None\<rparr>"
    unfolding c_def using b(2) o by (intro register_open) simp
  ultimately show ?thesis using setup_runs [of c] by auto
qed

section \<open>The gate\<close>

text \<open>
  C40. The gallery of a GFX body stays shut until the host has been through the whole prelude: from the
  start of the camera on, whatever the host writes, the steps it has been credited with are in order,
  so the last of them, the list of dates, stands for all ten; until then reading the handles of the
  pictures (property 0xD621) and downloading one (operation 0x9056) are refused with AccessDenied and
  change nothing else, and from then on the handles of the downloadable objects are sent, the newest
  first.
\<close>

theorem gallery_gate:
  assumes "vcam_init_standard e0 = Inr c0" "fuji_init_cam e0 name argv c0 = Inr (True, e, c1)"
    and "fuji_writes e c1 ds = Inr cam" "fj_is_gfx100ii (fuji cam)"
  shows "steps_in_order (fj_image_import_steps (fuji cam)) \<and>
     ptp_fuji_getdevicepropvalue_write cam (command 0x1015 t [0xD621]) =
     (if \<not> bit (fj_image_import_steps (fuji cam)) 9 then Inr (ptp_response cam PTP_RC_AccessDenied [])
      else bnd (downloadable (first_dirent cam)) (\<lambda>ds. let hs = rev (sort (map d_id ds)) in
        Inr (ptp_response (ptp_senddata cam 0x1015
          (put_32bit_le (word_of_nat (length hs)) @ concat (map put_32bit_le hs))) PTP_RC_OK []))) \<and>
     (session cam \<noteq> 0 \<longrightarrow> length ps = 3 \<longrightarrow> \<not> bit (fj_image_import_steps (fuji cam)) 9 \<longrightarrow>
        ptp_fuji_get_extension_partial_object hk e cam (command 0x9056 t ps) =
          Inr (ptp_response cam PTP_RC_AccessDenied []))"
proof -
  have g: "gate_inv cam"
    using writes_gate [OF fuji_start_gate [OF standard_start_gate [OF assms(1)] assms(2)] assms(3)] .
  then show ?thesis using gated_gallery [OF g assms(4)] gated_partial [OF g] by (simp add: gate_inv_def)
qed

theorem gallery_gate_witness:
  "\<exists>c1 cam. fuji_init_cam demo_env ''gfx'' [] demo_cam = Inr (True, demo_env, c1) \<and>
     fuji_writes demo_env c1 [enc_cmd 0x1002 7 [1]] = Inr cam \<and> session cam = 1 \<and>
     ptp_fuji_getdevicepropvalue_write cam (command 0x1015 8 [0xD621]) = Inr (ptp_response cam PTP_RC_AccessDenied [])"
proof -
  obtain c1 where c1: "fuji_init_cam demo_env ''gfx'' [] demo_cam = Inr (True, demo_env, c1)" "outbulk c1 = []"
    "session c1 = 0" "\<not> next_cmd_kills_connection c1" "fj_is_gfx100ii (fuji c1)" "fj_image_import_steps (fuji c1) = 0"
    "lookup_key op_code 0x1002 (opcodes c1) = Some \<lparr>op_code = 0x1002, op_w = F_ptp_opensession_write, op_wd = None\<rparr>"
    using demo_gfx_init by blast
  let ?cam = "(ptp_response (c1\<lparr>seqnr := 7, session := 1\<rparr>) PTP_RC_OK [])\<lparr>ptpcmd := command 0x1002 7 [1]\<rparr>"
  have w: "fuji_writes demo_env c1 [enc_cmd 0x1002 7 [1]] = Inr ?cam"
    using c1 by (simp add: fuji_writes_def write_command ok_code_def call_handler_def ptp_opensession_write_def
        handler_defs command_def Let_def)
  have g: "fj_is_gfx100ii (fuji ?cam)" using c1(5) by simp
  have z: "fj_image_import_steps (fuji ?cam) = 0" using c1(6) by simp
  show ?thesis using gallery_gate [OF demo_start c1(1) w g, of 8] c1(1) w z by auto
qed

end
