(* ===== verification/Libusb.thy ===== *)
theory Libusb
  imports Usb
begin

text \<open>
  The libusb library a host is linked with instead of the real one, src/src/usb/libusb.c: device
  lists and descriptors, control, bulk and interrupt transfers, and the pool of asynchronous
  transfers that the event loop completes. Status codes and types are those of libusb's header.
  The calls that return a constant (claiming and releasing interfaces, resetting, options, kernel
  drivers) are left out, and so is the allocation of devices and handles, of which only the number
  of the device is ever used.
\<close>

abbreviation (input) "LIBUSB_ERROR_IO \<equiv> -1 :: int"
abbreviation (input) "LIBUSB_ERROR_INVALID_PARAM \<equiv> -2 :: int"
abbreviation (input) "LIBUSB_ERROR_NO_DEVICE \<equiv> -4 :: int"
abbreviation (input) "LIBUSB_ERROR_NOT_FOUND \<equiv> -5 :: int"
abbreviation (input) "LIBUSB_ERROR_TIMEOUT \<equiv> -7 :: int"
abbreviation (input) "LIBUSB_ERROR_OVERFLOW \<equiv> -8 :: int"
abbreviation (input) "LIBUSB_ERROR_NOT_SUPPORTED \<equiv> -12 :: int"
abbreviation (input) "GP_ERROR_TIMEOUT \<equiv> -20 :: int"
abbreviation (input) "LIBUSB_TRANSFER_TYPE_BULK \<equiv> 2 :: byte"
abbreviation (input) "LIBUSB_TRANSFER_TYPE_INTERRUPT \<equiv> 3 :: byte"

section \<open>Time\<close>

definition tv_add_ms :: "timeval \<Rightarrow> int \<Rightarrow> timeval" where
  "tv_add_ms tv ms =
     (let sec = tv_sec tv + ms div 1000; usec = tv_usec tv + ms mod 1000 * 1000
      in if usec > 1000000 then Timeval (sec + 1) (usec - 1000000) else Timeval sec usec)"

definition tv_le :: "timeval \<Rightarrow> timeval \<Rightarrow> bool" where
  "tv_le a b = (if tv_sec a \<noteq> tv_sec b then tv_sec a < tv_sec b else tv_usec a \<le> tv_usec b)"

section \<open>Transfers\<close>

datatype transfer_status = LIBUSB_TRANSFER_COMPLETED | LIBUSB_TRANSFER_ERROR | LIBUSB_TRANSFER_TIMED_OUT
  | LIBUSB_TRANSFER_CANCELLED | LIBUSB_TRANSFER_STALL | LIBUSB_TRANSFER_NO_DEVICE | LIBUSB_TRANSFER_OVERFLOW

text \<open>
  A transfer: of the device handle only the number of the device, of the callback only whether there
  is one (what it does is an argument of the operations that call it), of the buffer its bytes.
\<close>

record libusb_transfer =
  tf_devn :: "int option"
  tf_flags :: byte
  tf_endpoint :: byte
  tf_type :: byte
  tf_timeout :: u32
  tf_status :: transfer_status
  tf_length :: int
  tf_actual_length :: int
  tf_callback :: bool
  tf_buffer :: "byte list option"

record pending_entry =
  pe_addr :: nat
  pe_t :: nat
  pe_deadline :: timeval

text \<open>
  The library: its device, the transfers by address, the list of pending entries, the next free
  address, and how often it has read the clock.
\<close>

record libusb =
  usb :: usbthing
  transfers :: "nat \<Rightarrow> libusb_transfer option"
  pending_list :: "pending_entry list"
  lib_next :: nat
  readings :: nat

type_synonym callback = "nat \<Rightarrow> libusb \<Rightarrow> libusb res"

definition read_clock :: "(nat \<Rightarrow> timeval) \<Rightarrow> libusb \<Rightarrow> timeval \<times> libusb" where
  "read_clock clk lib = (clk (readings lib), lib\<lparr>readings := readings lib + 1\<rparr>)"

definition libusb_alloc_transfer :: "int \<Rightarrow> libusb \<Rightarrow> nat option \<times> libusb" where
  "libusb_alloc_transfer iso_packets lib =
     (if iso_packets < 0 then (None, lib)
      else (Some (lib_next lib), lib\<lparr>transfers := (transfers lib)(lib_next lib \<mapsto>
        \<lparr>tf_devn = None, tf_flags = 0, tf_endpoint = 0, tf_type = 0, tf_timeout = 0,
         tf_status = LIBUSB_TRANSFER_COMPLETED, tf_length = 0, tf_actual_length = 0, tf_callback = False,
         tf_buffer = None\<rparr>), lib_next := lib_next lib + 1\<rparr>))"

text \<open>Freeing a transfer that is not there is undefined; the buffer is memory of the host.\<close>

definition libusb_free_transfer :: "nat option \<Rightarrow> libusb \<Rightarrow> libusb res" where
  "libusb_free_transfer transfer lib = (case transfer of None \<Rightarrow> Inr lib
     | Some a \<Rightarrow> bnd (deref (transfers lib a)) (\<lambda>_. Inr (lib\<lparr>transfers := (transfers lib)(a := None)\<rparr>)))"

definition libusb_submit_transfer :: "(nat \<Rightarrow> timeval) \<Rightarrow> nat option \<Rightarrow> libusb \<Rightarrow> (int \<times> libusb) res" where
  "libusb_submit_transfer clk transfer lib =
     (case transfer of None \<Rightarrow> Inr (LIBUSB_ERROR_INVALID_PARAM, lib)
      | Some a \<Rightarrow> bnd (deref (transfers lib a)) (\<lambda>t.
          if tf_devn t = None then Inr (LIBUSB_ERROR_INVALID_PARAM, lib)
          else if tf_type t \<noteq> LIBUSB_TRANSFER_TYPE_INTERRUPT \<and> tf_type t \<noteq> LIBUSB_TRANSFER_TYPE_BULK
          then Inr (LIBUSB_ERROR_NOT_SUPPORTED, lib)
          else
            let (deadline, lib) = (if tf_timeout t > 0
                   then let (now, lib) = read_clock clk lib in (tv_add_ms now (uint (tf_timeout t)), lib)
                   else (Timeval 0 0, lib))
            in Inr (0, lib\<lparr>pending_list := \<lparr>pe_addr = lib_next lib, pe_t = a, pe_deadline = deadline\<rparr> # pending_list lib,
                           lib_next := lib_next lib + 1\<rparr>)))"

text \<open>The list without the entry at an address.\<close>

definition unlink :: "nat \<Rightarrow> pending_entry list \<Rightarrow> pending_entry list" where
  "unlink a = filter (\<lambda>e. pe_addr e \<noteq> a)"

definition libusb_cancel_transfer :: "callback \<Rightarrow> nat option \<Rightarrow> libusb \<Rightarrow> (int \<times> libusb) res" where
  "libusb_cancel_transfer cb transfer lib =
     (case transfer of None \<Rightarrow> Inr (LIBUSB_ERROR_INVALID_PARAM, lib)
      | Some a \<Rightarrow> (case find (\<lambda>e. pe_t e = a) (pending_list lib) of
          None \<Rightarrow> Inr (LIBUSB_ERROR_NOT_FOUND, lib)
        | Some e \<Rightarrow> bnd (deref (transfers lib a)) (\<lambda>t.
            let lib = lib\<lparr>pending_list := unlink (pe_addr e) (pending_list lib),
                  transfers := (transfers lib)(a \<mapsto> t\<lparr>tf_actual_length := 0, tf_status := LIBUSB_TRANSFER_CANCELLED\<rparr>)\<rparr>
            in if tf_callback t then bnd (cb a lib) (\<lambda>lib. Inr (0, lib)) else Inr (0, lib))))"

section \<open>The event loop\<close>

definition completion :: "int \<Rightarrow> transfer_status" where
  "completion rc =
     (if rc \<ge> 0 then LIBUSB_TRANSFER_COMPLETED
      else if rc = LIBUSB_ERROR_TIMEOUT then LIBUSB_TRANSFER_TIMED_OUT
      else if rc = LIBUSB_ERROR_NO_DEVICE then LIBUSB_TRANSFER_NO_DEVICE
      else if rc = LIBUSB_ERROR_OVERFLOW then LIBUSB_TRANSFER_OVERFLOW
      else LIBUSB_TRANSFER_ERROR)"

definition finish_entry :: "callback \<Rightarrow> pending_entry \<Rightarrow> int \<Rightarrow> libusb \<Rightarrow> libusb res" where
  "finish_entry cb e rc lib =
     bnd (deref (transfers lib (pe_t e))) (\<lambda>t.
       let lib = lib\<lparr>pending_list := unlink (pe_addr e) (pending_list lib),
             transfers := (transfers lib)(pe_t e \<mapsto>
               t\<lparr>tf_actual_length := (if rc \<ge> 0 then rc else 0), tf_status := completion rc\<rparr>)\<rparr>
       in if tf_callback t then cb (pe_t e) lib else Inr lib)"

text \<open>
  The pointer \<open>pp\<close> the loop walks the list with: the head of the list, or the \<open>next\<close> field of an
  entry, which a callback may have freed.
\<close>

datatype slot = Head | After nat

definition at_slot :: "slot \<Rightarrow> pending_entry list \<Rightarrow> pending_entry option res" where
  "at_slot pp es = (case pp of
     Head \<Rightarrow> Inr (case es of [] \<Rightarrow> None | e # _ \<Rightarrow> Some e)
   | After a \<Rightarrow> (case dropWhile (\<lambda>e. pe_addr e \<noteq> a) es of
       [] \<Rightarrow> Inl Undef
     | _ # r \<Rightarrow> Inr (case r of [] \<Rightarrow> None | e # _ \<Rightarrow> Some e)))"

text \<open>
  One poll of a transfer: the return code, and the library with what was read stored in the buffer.
\<close>

definition store_buffer :: "byte list \<Rightarrow> libusb_transfer \<Rightarrow> libusb_transfer res" where
  "store_buffer bs t = (if bs = [] then Inr t
     else bnd (deref (tf_buffer t)) (\<lambda>buf. bnd (write_front bs buf) (\<lambda>buf. Inr (t\<lparr>tf_buffer := Some buf\<rparr>))))"

definition poll_transfer ::
    "run_write \<Rightarrow> run_data \<Rightarrow> env \<Rightarrow> nat \<Rightarrow> libusb_transfer \<Rightarrow> libusb \<Rightarrow> (int \<times> libusb) res" where
  "poll_transfer rw rwd env a t lib =
     (if tf_type t = LIBUSB_TRANSFER_TYPE_INTERRUPT \<and> tf_endpoint t AND 0x80 = 0 then Inr (0, lib)
      else
        bnd (deref (tf_devn t)) (\<lambda>devn.
        bnd (handle_bulk rw rwd env (usb lib) devn (uint (tf_endpoint t))
               (case tf_buffer t of None \<Rightarrow> [] | Some b \<Rightarrow> b) (tf_length t)) (\<lambda>(rc, bs, u).
        bnd (store_buffer bs t) (\<lambda>t. Inr (rc, lib\<lparr>usb := u, transfers := (transfers lib)(a \<mapsto> t)\<rparr>)))))"

text \<open>
  One round of the walk over the list: \<open>None\<close> at its end, else the next position, whether the
  entry was finished, and the library.
\<close>

definition poll_entry ::
    "run_write \<Rightarrow> run_data \<Rightarrow> env \<Rightarrow> (nat \<Rightarrow> timeval) \<Rightarrow> callback \<Rightarrow> slot \<Rightarrow> libusb
      \<Rightarrow> (slot \<times> bool \<times> libusb) option res" where
  "poll_entry rw rwd env clk cb pp lib =
     bnd (at_slot pp (pending_list lib)) (\<lambda>x. case x of
       None \<Rightarrow> Inr None
     | Some e \<Rightarrow> bnd (deref (transfers lib (pe_t e))) (\<lambda>t.
         let (expired, lib) = (if tf_timeout t > 0
               then let (now, lib) = read_clock clk lib in (tv_le (pe_deadline e) now, lib) else (False, lib))
         in if expired then bnd (finish_entry cb e LIBUSB_ERROR_TIMEOUT lib) (\<lambda>lib. Inr (Some (pp, True, lib)))
            else bnd (poll_transfer rw rwd env (pe_t e) t lib) (\<lambda>(rc, lib).
              if rc = GP_ERROR_TIMEOUT then Inr (Some (After (pe_addr e), False, lib))
              else bnd (finish_entry cb e rc lib) (\<lambda>lib. Inr (Some (pp, True, lib))))))"

text \<open>
  A walk, and the loop of walks. A callback that submits its transfer again may keep a walk going for
  ever, and so may a clock that stands still the loop: not ending is \<open>None\<close>.
\<close>

partial_function (option) poll_round ::
    "run_write \<Rightarrow> run_data \<Rightarrow> env \<Rightarrow> (nat \<Rightarrow> timeval) \<Rightarrow> callback \<Rightarrow> slot \<Rightarrow> bool \<Rightarrow> libusb
      \<Rightarrow> (bool \<times> libusb) res option" where
  "poll_round rw rwd env clk cb pp progressed lib =
     (case poll_entry rw rwd env clk cb pp lib of
        Inl c \<Rightarrow> Some (Inl c)
      | Inr None \<Rightarrow> Some (Inr (progressed, lib))
      | Inr (Some (pp, fin, lib)) \<Rightarrow> poll_round rw rwd env clk cb pp (progressed \<or> fin) lib)"

partial_function (option) events_loop ::
    "run_write \<Rightarrow> run_data \<Rightarrow> env \<Rightarrow> (nat \<Rightarrow> timeval) \<Rightarrow> callback \<Rightarrow> timeval \<Rightarrow> bool \<Rightarrow> libusb \<Rightarrow> libusb res option" where
  "events_loop rw rwd env clk cb deadline reap lib =
     (if pending_list lib = [] then Some (Inr lib)
      else
        let (now, lib) = read_clock clk lib
        in if \<not> tv_le now deadline then Some (Inr lib)
           else (case poll_round rw rwd env clk cb Head False lib of
               None \<Rightarrow> None
             | Some (Inl c) \<Rightarrow> Some (Inl c)
             | Some (Inr (progressed, lib)) \<Rightarrow>
                 if reap \<and> progressed then Some (Inr lib) else events_loop rw rwd env clk cb deadline reap lib))"

definition events_deadline :: "timeval \<Rightarrow> timeval option \<Rightarrow> timeval" where
  "events_deadline now tv =
     (let d = (case tv of Some tv \<Rightarrow> Timeval (tv_sec now + tv_sec tv) (tv_usec now + tv_usec tv)
               | None \<Rightarrow> Timeval (tv_sec now) (tv_usec now + 500 * 1000))
      in if tv_usec d > 1000000 then Timeval (tv_sec d + 1) (tv_usec d - 1000000) else d)"

text \<open>\<open>tv\<close> is \<open>None\<close> for a bare \<open>libusb_handle_events\<close>. The result is always success.\<close>

definition handle_events_impl ::
    "run_write \<Rightarrow> run_data \<Rightarrow> env \<Rightarrow> (nat \<Rightarrow> timeval) \<Rightarrow> callback \<Rightarrow> timeval option \<Rightarrow> libusb
      \<Rightarrow> (int \<times> libusb) res option" where
  "handle_events_impl rw rwd env clk cb tv lib =
     (let (now, lib) = read_clock clk lib; d = events_deadline now tv
      in case events_loop rw rwd env clk cb d (tv = None) lib of
           None \<Rightarrow> None | Some r \<Rightarrow> Some (bnd r (\<lambda>lib. Inr (0, lib))))"

definition libusb_handle_events_timeout ::
    "run_write \<Rightarrow> run_data \<Rightarrow> env \<Rightarrow> (nat \<Rightarrow> timeval) \<Rightarrow> callback \<Rightarrow> timeval option \<Rightarrow> libusb
      \<Rightarrow> (int \<times> libusb) res option" where
  "libusb_handle_events_timeout rw rwd env clk cb tv lib = handle_events_impl rw rwd env clk cb tv lib"

definition libusb_handle_events ::
    "run_write \<Rightarrow> run_data \<Rightarrow> env \<Rightarrow> (nat \<Rightarrow> timeval) \<Rightarrow> callback \<Rightarrow> libusb \<Rightarrow> (int \<times> libusb) res option" where
  "libusb_handle_events rw rwd env clk cb lib = handle_events_impl rw rwd env clk cb None lib"

section \<open>Synchronous transfers\<close>

text \<open>The call always succeeds: what the device returned is the number of bytes transferred.\<close>

definition libusb_bulk_transfer ::
    "run_write \<Rightarrow> run_data \<Rightarrow> env \<Rightarrow> int \<Rightarrow> byte \<Rightarrow> byte list \<Rightarrow> int \<Rightarrow> libusb
      \<Rightarrow> (int \<times> int \<times> byte list \<times> libusb) res" where
  "libusb_bulk_transfer rw rwd env devn ep data len lib =
     bnd (handle_bulk rw rwd env (usb lib) devn (uint ep) data len) (\<lambda>(rc, bs, u). Inr (0, rc, bs, lib\<lparr>usb := u\<rparr>))"

definition libusb_control_transfer ::
    "(nat \<Rightarrow> byte) \<Rightarrow> int \<Rightarrow> byte \<Rightarrow> byte \<Rightarrow> u16 \<Rightarrow> u16 \<Rightarrow> byte list \<Rightarrow> u16 \<Rightarrow> libusb \<Rightarrow> (int \<times> byte list) res" where
  "libusb_control_transfer fresh devn bmRequestType bRequest wValue wIndex data wLength lib =
     (let ctrl = [bmRequestType, bRequest] @ put_16bit_le wValue @ put_16bit_le wIndex @ put_16bit_le wLength
      in handle_control fresh (usb lib) devn 0 ctrl (if bmRequestType AND 0x80 \<noteq> 0 then 8 else 8 + uint wLength) data)"

text \<open>
  Waiting for an event: with a timeout of 0 for ever. The result is the return code, the number of
  bytes transferred and the bytes.
\<close>

partial_function (option) wait_event ::
    "run_write \<Rightarrow> run_data \<Rightarrow> env \<Rightarrow> (nat \<Rightarrow> timeval) \<Rightarrow> int \<Rightarrow> byte list \<Rightarrow> int \<Rightarrow> u32 \<Rightarrow> timeval \<Rightarrow> libusb
      \<Rightarrow> (int \<times> int \<times> byte list \<times> libusb) res option" where
  "wait_event rw rwd env clk devn data len timeout deadline lib =
     (case handle_bulk rw rwd env (usb lib) devn 0x83 data len of
        Inl c \<Rightarrow> Some (Inl c)
      | Inr (rc, bs, u) \<Rightarrow>
          let lib = lib\<lparr>usb := u\<rparr> in
          if rc \<ge> 0 then Some (Inr (0, rc, bs, lib))
          else if rc \<noteq> GP_ERROR_TIMEOUT then Some (Inr (LIBUSB_ERROR_IO, 0, bs, lib))
          else if timeout > 0 then
            let (now, lib) = read_clock clk lib
            in if tv_le deadline now then Some (Inr (LIBUSB_ERROR_TIMEOUT, 0, bs, lib))
               else wait_event rw rwd env clk devn data len timeout deadline lib
          else wait_event rw rwd env clk devn data len timeout deadline lib)"

definition libusb_interrupt_transfer ::
    "run_write \<Rightarrow> run_data \<Rightarrow> env \<Rightarrow> (nat \<Rightarrow> timeval) \<Rightarrow> int \<Rightarrow> byte \<Rightarrow> byte list \<Rightarrow> int \<Rightarrow> u32 \<Rightarrow> libusb
      \<Rightarrow> (int \<times> int \<times> byte list \<times> libusb) res option" where
  "libusb_interrupt_transfer rw rwd env clk devn ep data len timeout lib =
     (if ep = 0x83 then
        let (now, lib) = read_clock clk lib
        in wait_event rw rwd env clk devn data len timeout (tv_add_ms now (uint timeout)) lib
      else Some (bnd (handle_bulk rw rwd env (usb lib) devn (uint ep) data len) (\<lambda>(rc, bs, u).
        Inr (if rc < 0 then (LIBUSB_ERROR_IO, 0, bs, lib\<lparr>usb := u\<rparr>) else (0, rc, bs, lib\<lparr>usb := u\<rparr>)))))"

section \<open>Devices and descriptors\<close>

definition libusb_get_device_list :: "libusb \<Rightarrow> int list" where
  "libusb_get_device_list lib = map int [0..<length (cams (usb lib))]"

definition libusb_get_device_address :: "int \<Rightarrow> byte" where
  "libusb_get_device_address devn = word_of_int (devn + 1)"

record libusb_device_descriptor =
  dd_bLength :: byte
  dd_bDescriptorType :: byte
  bcdUSB :: u16
  bDeviceClass :: byte
  bDeviceSubClass :: byte
  bDeviceProtocol :: byte
  bMaxPacketSize0 :: byte
  idVendor :: u16
  idProduct :: u16
  bcdDevice :: u16
  iManufacturer :: byte
  iProduct :: byte
  iSerialNumber :: byte
  bNumConfigurations :: byte

text \<open>The packed descriptor copied field by field.\<close>

definition libusb_get_device_descriptor :: "byte \<Rightarrow> int \<Rightarrow> libusb \<Rightarrow> libusb_device_descriptor res" where
  "libusb_get_device_descriptor fresh devn lib =
     bnd (usb_get_device_descriptor (usb lib) devn fresh) (\<lambda>d.
     bnd (get_16bit_le (drop 2 d)) (\<lambda>usbver.
     bnd (get_16bit_le (drop 8 d)) (\<lambda>vendor.
     bnd (get_16bit_le (drop 10 d)) (\<lambda>product.
     bnd (get_16bit_le (drop 12 d)) (\<lambda>dev.
       if length d < 18 then Inl Undef
       else Inr \<lparr>dd_bLength = d ! 0, dd_bDescriptorType = d ! 1, bcdUSB = usbver, bDeviceClass = d ! 4, bDeviceSubClass = d ! 5, bDeviceProtocol = d ! 6,
         bMaxPacketSize0 = d ! 7, idVendor = vendor, idProduct = product, bcdDevice = dev,
         iManufacturer = d ! 14, iProduct = d ! 15, iSerialNumber = d ! 16, bNumConfigurations = d ! 17\<rparr>)))))"

record libusb_endpoint_descriptor =
  ep_bLength :: byte
  ep_bDescriptorType :: byte
  bEndpointAddress :: byte
  bmAttributes :: byte
  wMaxPacketSize :: u16
  bInterval :: byte
  bRefresh :: byte
  bSynchAddress :: byte

record libusb_interface_descriptor =
  if_bLength :: byte
  if_bDescriptorType :: byte
  bInterfaceNumber :: byte
  bAlternateSetting :: byte
  bNumEndpoints :: byte
  bInterfaceClass :: byte
  bInterfaceSubClass :: byte
  bInterfaceProtocol :: byte
  iInterface :: byte

record libusb_config =
  cf_bLength :: byte
  cf_bNumInterfaces :: byte
  cf_altsetting :: "libusb_interface_descriptor option"
  cf_endpoints :: "libusb_endpoint_descriptor list"

definition interface_at :: "byte list \<Rightarrow> libusb_interface_descriptor res" where
  "interface_at d = bnd (read_n 9 d) (\<lambda>d.
     Inr \<lparr>if_bLength = d ! 0, if_bDescriptorType = d ! 1, bInterfaceNumber = d ! 2, bAlternateSetting = d ! 3,
       bNumEndpoints = d ! 4, bInterfaceClass = d ! 5, bInterfaceSubClass = d ! 6, bInterfaceProtocol = d ! 7,
       iInterface = d ! 8\<rparr>)"

definition endpoint_at :: "byte list \<Rightarrow> libusb_endpoint_descriptor res" where
  "endpoint_at d = bnd (read_n 9 d) (\<lambda>d. bnd (get_16bit_le (drop 4 d)) (\<lambda>mx.
     Inr \<lparr>ep_bLength = d ! 0, ep_bDescriptorType = d ! 1, bEndpointAddress = d ! 2, bmAttributes = d ! 3,
       wMaxPacketSize = mx, bInterval = d ! 6, bRefresh = d ! 7, bSynchAddress = d ! 8\<rparr>))"

text \<open>
  The loop over the descriptors behind the configuration, \<open>None\<close> where a descriptor of length 0 keeps
  it going for ever. Its result is \<open>None\<close> for the return value -1.
\<close>

partial_function (option) scan_descriptors ::
    "byte list \<Rightarrow> nat \<Rightarrow> nat \<Rightarrow> libusb_interface_descriptor option \<Rightarrow> libusb_endpoint_descriptor list
      \<Rightarrow> (libusb_interface_descriptor option \<times> libusb_endpoint_descriptor list) option res option" where
  "scan_descriptors buffer wTotal at_byte alt eps =
     (if \<not> at_byte < wTotal then Some (Inr (Some (alt, eps)))
      else (case read_n 2 (drop at_byte buffer) of
        Inl c \<Rightarrow> Some (Inl c)
      | Inr d \<Rightarrow>
          if d ! 1 = 4 then
            if alt \<noteq> None then Some (Inr None)
            else (case interface_at (drop at_byte buffer) of
                Inl c \<Rightarrow> Some (Inl c)
              | Inr i \<Rightarrow> scan_descriptors buffer wTotal (at_byte + unat (d ! 0)) (Some i) eps)
          else if d ! 1 = 5 then
            if alt = None then Some (Inr None)
            else (case endpoint_at (drop at_byte buffer) of
                Inl c \<Rightarrow> Some (Inl c)
              | Inr ep \<Rightarrow> scan_descriptors buffer wTotal (at_byte + unat (d ! 0)) alt (eps @ [ep]))
          else scan_descriptors buffer wTotal (at_byte + unat (d ! 0)) alt eps))"

text \<open>The buffer of 4096 bytes behind the descriptor holds what the stack held.\<close>

definition config_buffer :: "(nat \<Rightarrow> byte) \<Rightarrow> byte list \<Rightarrow> byte list" where
  "config_buffer fresh d = d @ map fresh [length d..<4096]"

definition libusb_get_config_descriptor :: "(nat \<Rightarrow> byte) \<Rightarrow> byte \<Rightarrow> libusb_config option res option" where
  "libusb_get_config_descriptor fresh config_index =
     (case bnd (usb_send_config_descriptor (uint config_index)) (\<lambda>d.
        let buffer = config_buffer fresh d in
        bnd (get_16bit_le (drop 2 buffer)) (\<lambda>wTotal. bnd (read_n 5 buffer) (\<lambda>h. Inr (buffer, wTotal, h)))) of
        Inl c \<Rightarrow> Some (Inl c)
      | Inr (buffer, wTotal, h) \<Rightarrow>
          (case scan_descriptors buffer (unat wTotal) (unat (h ! 0)) None [] of
             None \<Rightarrow> None
           | Some r \<Rightarrow> Some (bnd r (\<lambda>x. Inr (map_option (\<lambda>(alt, eps). \<lparr>cf_bLength = h ! 0,
               cf_bNumInterfaces = h ! 4, cf_altsetting = alt, cf_endpoints = eps\<rparr>) x)))))"

text \<open>
  The search over as many endpoints as the interface claims, with the endpoints found behind it; a
  configuration without an interface has no array to look into.
\<close>

fun find_endpoint :: "byte \<Rightarrow> nat \<Rightarrow> libusb_endpoint_descriptor list \<Rightarrow> int res" where
  "find_endpoint ep 0 eps = Inr LIBUSB_ERROR_NOT_FOUND"
| "find_endpoint ep (Suc n) [] = Inl Undef"
| "find_endpoint ep (Suc n) (d # eps) =
     (if bEndpointAddress d = ep then Inr (uint (wMaxPacketSize d)) else find_endpoint ep n eps)"

definition libusb_get_max_packet_size :: "(nat \<Rightarrow> byte) \<Rightarrow> byte \<Rightarrow> int res option" where
  "libusb_get_max_packet_size fresh ep =
     (case libusb_get_config_descriptor fresh 0 of
        None \<Rightarrow> None
      | Some (Inl c) \<Rightarrow> Some (Inl c)
      | Some (Inr None) \<Rightarrow> Some (Inr (-1))
      | Some (Inr (Some cf)) \<Rightarrow> Some (bnd (deref (cf_altsetting cf)) (\<lambda>alt.
          find_endpoint ep (unat (bNumEndpoints alt)) (cf_endpoints cf))))"

text \<open>The alternate setting is dereferenced whether the configuration had one or not.\<close>

definition libusb_free_config_descriptor :: "libusb_config \<Rightarrow> unit res" where
  "libusb_free_config_descriptor cf = bnd (deref (cf_altsetting cf)) (\<lambda>_. Inr ())"

text \<open>\<open>strncpy\<close> of the string into the host's buffer of \<open>len\<close> bytes.\<close>

definition libusb_get_string_descriptor_ascii :: "int \<Rightarrow> byte \<Rightarrow> nat \<Rightarrow> libusb \<Rightarrow> string res" where
  "libusb_get_string_descriptor_ascii devn desc_idx len lib =
     bnd (usb_get_string (usb lib) devn (uint desc_idx)) (\<lambda>s. Inr (take len (s @ replicate len (CHR 0x00))))"

definition libusb_strerror :: "int \<Rightarrow> string" where
  "libusb_strerror errcode =
     (if errcode = 0 then ''Success''
      else if errcode = -1 then ''Input/Output Error''
      else if errcode = -2 then ''Invalid parameter''
      else if errcode = -3 then ''Access denied (insufficient permissions)''
      else if errcode = -4 then ''No such device (it may have been disconnected)''
      else if errcode = -5 then ''Entity not found''
      else if errcode = -6 then ''Resource busy''
      else if errcode = -7 then ''Operation timed out''
      else if errcode = -8 then ''Overflow''
      else if errcode = -10 then ''System call interrupted (perhaps due to signal)''
      else if errcode = -11 then ''Insufficient memory''
      else if errcode = -12 then ''Operation not supported or unimplemented on this platform''
      else ''Unknown error'')"

definition libusb_error_name :: "int \<Rightarrow> string" where
  "libusb_error_name error_code =
     (if error_code = 0 then ''LIBUSB_SUCCESS''
      else if error_code = -1 then ''LIBUSB_ERROR_IO''
      else if error_code = -2 then ''LIBUSB_ERROR_INVALID_PARAM''
      else if error_code = -3 then ''LIBUSB_ERROR_ACCESS''
      else if error_code = -4 then ''LIBUSB_ERROR_NO_DEVICE''
      else if error_code = -5 then ''LIBUSB_ERROR_NOT_FOUND''
      else if error_code = -6 then ''LIBUSB_ERROR_BUSY''
      else if error_code = -7 then ''LIBUSB_ERROR_TIMEOUT''
      else if error_code = -8 then ''LIBUSB_ERROR_OVERFLOW''
      else if error_code = -10 then ''LIBUSB_ERROR_INTERRUPTED''
      else if error_code = -11 then ''LIBUSB_ERROR_NO_MEM''
      else if error_code = -12 then ''LIBUSB_ERROR_NOT_SUPPORTED''
      else ''LIBUSB_ERROR_UNKNOWN'')"

end
