(* ===== verification/Libusb_Theorems.thy ===== *)
theory Libusb_Theorems
  imports Libusb Event_Theorems
begin

text \<open>
  Properties of the libusb replacement: descriptors are read back, a blocking read of the interrupt
  endpoint returns when it should, and the pool of transfers hands out the events of the queue.
\<close>

section \<open>Descriptors\<close>

definition ep_bytes :: "byte \<times> byte \<times> u16 \<times> byte \<Rightarrow> byte list" where
  "ep_bytes = (\<lambda>(addr, attr, maxp, ival). endpoint addr attr maxp ival)"

definition ep_fields :: "libusb_endpoint_descriptor \<Rightarrow> byte \<times> byte \<times> u16 \<times> byte" where
  "ep_fields d = (bEndpointAddress d, bmAttributes d, wMaxPacketSize d, bInterval d)"

lemma ep_bytes_eq: "ep_bytes (a, t, m, i) = 7 # 5 # a # t # put_16bit_le m @ [i]"
  by (simp add: ep_bytes_def endpoint_def)

lemma length_ep_bytes [simp]: "length (ep_bytes x) = 7"
  by (cases x) (simp add: ep_bytes_eq)

lemma length_all_eps: "length (concat (map ep_bytes xs)) = 7 * length xs"
  by (induction xs) simp_all

lemma endpoint_at_front:
  assumes "2 \<le> length r"
  shows "\<exists>d. endpoint_at (ep_bytes x @ r) = Inr d \<and> ep_fields d = x"
proof -
  obtain a t m i where x: "x = (a, t, m, i)" by (cases x)
  obtain c d r' where "r = c # d # r'" using assms by (metis Suc_le_length_iff numeral_2_eq_2)
  then show ?thesis using get_put_16 [of m "[i, c, d]"]
    by (simp add: x ep_bytes_eq endpoint_at_def read_n_def ep_fields_def put_16bit_le_def)
qed

lemma scan_endpoints:
  assumes "drop k buffer = concat (map ep_bytes xs) @ r" "2 \<le> length r" "n = k + 7 * length xs"
  shows "\<exists>ds. scan_descriptors buffer n k (Some alt) eps = Some (Inr (Some (Some alt, eps @ ds))) \<and> map ep_fields ds = xs"
  using assms
proof (induction xs arbitrary: k eps)
  case Nil
  then show ?case by (simp add: scan_descriptors.simps)
next
  case (Cons x xs)
  obtain d where d: "endpoint_at (drop k buffer) = Inr d" "ep_fields d = x"
    using endpoint_at_front [of "concat (map ep_bytes xs) @ r" x] Cons.prems by auto
  have hd: "read_n 2 (drop k buffer) = Inr [7, 5]"
    using Cons.prems(1) by (cases x) (simp add: ep_bytes_eq read_n_def)
  have "drop (k + 7) buffer = drop 7 (drop k buffer)" by (simp add: add.commute)
  then have r: "drop (k + 7) buffer = concat (map ep_bytes xs) @ r" using Cons.prems(1) by simp
  have n: "n = k + 7 + 7 * length xs" using Cons.prems(3) by simp
  obtain ds where "scan_descriptors buffer n (k + 7) (Some alt) (eps @ [d]) = Some (Inr (Some (Some alt, (eps @ [d]) @ ds)))"
    "map ep_fields ds = xs"
    using Cons.IH [OF r Cons.prems(2) n] by blast
  then show ?case using d n
    by (intro exI [of _ "d # ds"]) (subst scan_descriptors.simps, simp add: hd del: read_n_Inr)
qed

definition iface_bytes :: "byte \<Rightarrow> byte list \<Rightarrow> byte list" where
  "iface_bytes n rest = [9, 4, 0, 0, n] @ rest"

text \<open>
  A configuration made of an interface and any number of endpoints that fit the buffer is read back
  whole: the scan ends, and gives the interface and the endpoints in order.
\<close>

lemma descriptors_decode:
  assumes "length hdr = 9" "length rest = 4" "18 + 7 * length xs \<le> 4094"
    and "buffer = config_buffer fresh (hdr @ iface_bytes n rest @ concat (map ep_bytes xs))"
  shows "\<exists>alt ds. scan_descriptors buffer (18 + 7 * length xs) 9 None [] = Some (Inr (Some (Some alt, ds)))
    \<and> bNumEndpoints alt = n \<and> [bInterfaceClass alt, bInterfaceSubClass alt, bInterfaceProtocol alt, iInterface alt] = rest
    \<and> map ep_fields ds = xs"
proof -
  let ?d = "hdr @ iface_bytes n rest @ concat (map ep_bytes xs)"
  let ?r = "map fresh [length ?d..<4096]"
  obtain a b c d where rest: "rest = [a, b, c, d]" using assms(2)
    by (auto simp: length_Suc_conv numeral_eq_Suc)
  have len: "length ?d = 18 + 7 * length xs" using assms(1) by (simp add: iface_bytes_def rest length_all_eps)
  have buf: "buffer = ?d @ ?r" using assms(4) by (simp add: config_buffer_def)
  have r: "2 \<le> length ?r" unfolding length_map length_upt len using assms(3) by simp
  have at9: "drop 9 buffer = iface_bytes n rest @ concat (map ep_bytes xs) @ ?r" using assms(1) by (simp add: buf)
  have "drop 18 buffer = drop 9 (drop 9 buffer)" by simp
  then have at18: "drop 18 buffer = concat (map ep_bytes xs) @ ?r" unfolding at9 by (simp add: iface_bytes_def rest)
  define alt where "alt = \<lparr>if_bLength = 9, if_bDescriptorType = 4, bInterfaceNumber = 0, bAlternateSetting = 0,
    bNumEndpoints = n, bInterfaceClass = a, bInterfaceSubClass = b, bInterfaceProtocol = c, iInterface = d\<rparr>"
  have i: "read_n 2 (drop 9 buffer) = Inr [9, 4]" "interface_at (drop 9 buffer) = Inr alt"
    unfolding at9 by (simp_all add: iface_bytes_def rest read_n_def interface_at_def alt_def)
  obtain ds where "scan_descriptors buffer (18 + 7 * length xs) 18 (Some alt) [] = Some (Inr (Some (Some alt, [] @ ds)))"
    "map ep_fields ds = xs"
    using scan_endpoints [OF at18 r refl] by blast
  then have "scan_descriptors buffer (18 + 7 * length xs) 9 None [] = Some (Inr (Some (Some alt, ds))) \<and> map ep_fields ds = xs"
    by (subst scan_descriptors.simps) (simp add: i del: read_n_Inr)
  then show ?thesis by (intro exI [of _ alt] exI [of _ ds]) (simp add: alt_def rest)
qed

lemma own_configuration:
  "config = ([9, 2] @ put_16bit_le 39 @ [1, 1, 0, 0xc0, 0x32]) @ iface_bytes 3 [6, 1, 1, 0] @
     concat (map ep_bytes [(0x81, 2, 0x200, 0), (0x2, 2, 0x200, 0), (0x83, 3, 0x8, 10)])"
  by (simp add: config_def interf0_def iface_bytes_def ep_bytes_def endpoint_def)

lemma own_configuration_decodes:
  "\<exists>cf. libusb_get_config_descriptor (\<lambda>i. 0) 0 = Some (Inr (Some cf)) \<and>
     map ep_fields (cf_endpoints cf) = [(0x81, 2, 0x200, 0), (0x2, 2, 0x200, 0), (0x83, 3, 0x8, 10)]"
proof -
  let ?b = "config_buffer (\<lambda>i. 0) config"
  obtain alt ds where s: "scan_descriptors ?b 39 9 None [] = Some (Inr (Some (Some alt, ds)))" and
    ds: "map ep_fields ds = [(0x81, 2, 0x200, 0), (0x2, 2, 0x200, 0), (0x83, 3, 0x8, 10)]"
    using descriptors_decode [of "[9, 2] @ put_16bit_le 39 @ [1, 1, 0, 0xc0, 0x32]" "[6, 1, 1, 0]"
      "[(0x81, 2, 0x200, 0), (0x2, 2, 0x200, 0), (0x83, 3, 0x8, 10)]" ?b "\<lambda>i. 0" 3] own_configuration
    by (auto simp: put_16bit_le_def)
  have h: "get_16bit_le (drop 2 ?b) = Inr 39" "read_n 5 ?b = Inr [9, 2, 39, 0, 1]"
    by (simp_all add: config_buffer_def config_def put_16bit_le_def read_n_def)
  then have "libusb_get_config_descriptor (\<lambda>i. 0) 0 = Some (Inr (Some \<lparr>cf_bLength = 9, cf_bNumInterfaces = 1,
      cf_altsetting = Some alt, cf_endpoints = ds\<rparr>))"
    using s by (simp add: libusb_get_config_descriptor_def usb_send_config_descriptor_def Let_def del: read_n_Inr)
  then show ?thesis using ds by simp
qed

section \<open>Waiting for an event\<close>

text \<open>What a poll finds when it looks at the queue of a camera.\<close>

definition due_now :: "env \<Rightarrow> vcam \<Rightarrow> (ptp_interrupt \<times> ptp_interrupt list) option" where
  "due_now e cam = take_first (\<lambda>i. visible i \<and> i_time i \<le> clock e (ticks cam)) (first_interrupt cam)"

lemma bulk_event:
  assumes "steady e" "get_cam u devn = Inr cam" "0 \<le> len"
  shows "handle_bulk rw rwd e u devn 0x83 data len = Inr (case due_now e cam of
       None \<Rightarrow> (-20, [], put_cam devn (cam\<lparr>ticks := ticks cam + 1\<rparr>) u)
     | Some (i, r) \<Rightarrow> (int (length (take (nat len) (i_data i))), take (nat len) (i_data i),
         put_cam devn (cam\<lparr>ticks := ticks cam + 2, first_interrupt := r\<rparr>) u))"
  using assms by (auto simp: handle_bulk_def readint_take [OF assms(1)] due_now_def split: option.splits)

lemma wait_hit:
  assumes "steady e" "get_cam (usb lib) devn = Inr cam" "0 \<le> len" "due_now e cam = Some (i, r)"
  shows "wait_event rw rwd e clk devn data len timeout deadline lib =
    Some (Inr (0, int (length (take (nat len) (i_data i))), take (nat len) (i_data i),
      lib\<lparr>usb := put_cam devn (cam\<lparr>ticks := ticks cam + 2, first_interrupt := r\<rparr>) (usb lib)\<rparr>))"
  by (subst wait_event.simps) (simp add: bulk_event [OF assms(1-3)] assms(4))

lemma wait_miss:
  assumes "steady e" "get_cam (usb lib) devn = Inr cam" "0 \<le> len" "due_now e cam = None"
    and "lib1 = lib\<lparr>usb := put_cam devn (cam\<lparr>ticks := ticks cam + 1\<rparr>) (usb lib)\<rparr>"
  shows "wait_event rw rwd e clk devn data len timeout deadline lib =
    (if timeout > 0 then
       if tv_le deadline (clk (readings lib)) then Some (Inr (-7, 0, [], lib1\<lparr>readings := readings lib + 1\<rparr>))
       else wait_event rw rwd e clk devn data len timeout deadline (lib1\<lparr>readings := readings lib + 1\<rparr>)
     else wait_event rw rwd e clk devn data len timeout deadline lib1)"
  by (subst wait_event.simps) (simp add: bulk_event [OF assms(1-3)] assms(4,5) read_clock_def Let_def)

text \<open>What ends the wait: an event whose time comes, or the deadline.\<close>

definition will_be_due :: "env \<Rightarrow> vcam \<Rightarrow> bool" where
  "will_be_due e cam \<longleftrightarrow> (\<exists>i\<in>set (first_interrupt cam). visible i \<and> (\<exists>m. i_time i \<le> clock e m))"

definition will_expire :: "(nat \<Rightarrow> timeval) \<Rightarrow> u32 \<Rightarrow> timeval \<Rightarrow> nat \<Rightarrow> bool" where
  "will_expire clk timeout deadline n \<longleftrightarrow> timeout > 0 \<and> (\<exists>m\<ge>n. tv_le deadline (clk m))"

lemma wait_until_due:
  assumes "steady e" "0 \<le> len"
  shows "get_cam (usb lib) devn = Inr cam \<Longrightarrow> i \<in> set (first_interrupt cam) \<Longrightarrow> visible i \<Longrightarrow>
    i_time i \<le> clock e m \<Longrightarrow> wait_event rw rwd e clk devn data len timeout deadline lib \<noteq> None"
proof (induction "m - ticks cam" arbitrary: lib cam rule: less_induct)
  case less
  show ?case
  proof (cases "due_now e cam")
    case (Some x)
    then show ?thesis using wait_hit [OF assms(1) less.prems(1) assms(2)] by (cases x) simp
  next
    case None
    have "ticks cam < m"
    proof (rule ccontr)
      assume "\<not> ticks cam < m"
      then have "i_time i \<le> clock e (ticks cam)" using less.prems(4) steadyD [OF assms(1), of m "ticks cam"] by simp
      then show False using None less.prems by (auto simp: due_now_def take_first_None)
    qed
    then have "m - ticks (cam\<lparr>ticks := ticks cam + 1\<rparr>) < m - ticks cam" by simp
    note ih = less.hyps [OF this]
    let ?l = "lib\<lparr>usb := put_cam devn (cam\<lparr>ticks := ticks cam + 1\<rparr>) (usb lib)\<rparr>"
    have "wait_event rw rwd e clk devn data len timeout deadline ?l \<noteq> None"
      by (rule ih; use less.prems in simp)
    moreover have "wait_event rw rwd e clk devn data len timeout deadline (?l\<lparr>readings := readings lib + 1\<rparr>) \<noteq> None"
      by (rule ih; use less.prems in simp)
    ultimately show ?thesis using wait_miss [OF assms(1) less.prems(1) assms(2) None refl] by simp
  qed
qed

lemma wait_until_deadline:
  assumes "steady e" "0 \<le> len" "timeout > 0"
  shows "get_cam (usb lib) devn = Inr cam \<Longrightarrow> readings lib \<le> m \<Longrightarrow> tv_le deadline (clk m) \<Longrightarrow>
    wait_event rw rwd e clk devn data len timeout deadline lib \<noteq> None"
proof (induction "m - readings lib" arbitrary: lib cam)
  case 0
  then have "readings lib = m" by simp
  then show ?case using 0 wait_miss [OF assms(1) 0(2) assms(2)] wait_hit [OF assms(1) 0(2) assms(2)] assms(3)
    by (cases "due_now e cam") (auto split: prod.splits)
next
  case (Suc k)
  show ?case
  proof (cases "due_now e cam")
    case (Some x)
    then show ?thesis using wait_hit [OF assms(1) Suc.prems(1) assms(2)] by (cases x) simp
  next
    case None
    let ?l = "lib\<lparr>usb := put_cam devn (cam\<lparr>ticks := ticks cam + 1\<rparr>) (usb lib), readings := readings lib + 1\<rparr>"
    have "wait_event rw rwd e clk devn data len timeout deadline ?l \<noteq> None"
      using Suc by (intro Suc.hyps(1) [of ?l "cam\<lparr>ticks := ticks cam + 1\<rparr>"]) simp_all
    then show ?thesis using wait_miss [OF assms(1) Suc.prems(1) assms(2) None refl] assms(3) by simp
  qed
qed

text \<open>The other way round, and what a wait that returns has done.\<close>

definition wait_outcome ::
    "env \<Rightarrow> (nat \<Rightarrow> timeval) \<Rightarrow> int \<Rightarrow> int \<Rightarrow> u32 \<Rightarrow> timeval \<Rightarrow> vcam \<Rightarrow> nat \<Rightarrow> (int \<times> int \<times> byte list \<times> libusb) res \<Rightarrow> bool" where
  "wait_outcome e clk devn len timeout deadline cam k y \<longleftrightarrow>
     (\<exists>rc n bs lib' cam' m. y = Inr (rc, n, bs, lib') \<and> get_cam (usb lib') devn = Inr cam' \<and>
       (rc = 0 \<and> (\<exists>i. visible i \<and> i_time i \<le> clock e m \<and> bs = take (nat len) (i_data i) \<and> n = int (length bs) \<and>
          mset (first_interrupt cam) = add_mset i (mset (first_interrupt cam')))
        \<or> rc = LIBUSB_ERROR_TIMEOUT \<and> n = 0 \<and> bs = [] \<and> timeout > 0 \<and> k \<le> m \<and> tv_le deadline (clk m) \<and>
          first_interrupt cam' = first_interrupt cam))"

lemma wait_outcome_later:
  "wait_outcome e clk devn len timeout deadline (cam\<lparr>ticks := n\<rparr>) k y \<Longrightarrow> j \<le> k \<Longrightarrow>
     wait_outcome e clk devn len timeout deadline cam j y"
  unfolding wait_outcome_def
  by (elim exE) (rule exI, rule exI, rule exI, rule exI, rule exI, rule exI, erule conj_forward, assumption,
    erule conj_forward, assumption, erule disj_forward, auto)

lemma wait_result:
  assumes "wait_event rw rwd e clk devn data len timeout deadline lib = Some y" "steady e" "0 \<le> len"
    and "get_cam (usb lib) devn = Inr cam"
  shows "wait_outcome e clk devn len timeout deadline cam (readings lib) y"
proof -
  have "\<forall>cam. steady e \<longrightarrow> 0 \<le> len \<longrightarrow> get_cam (usb lib) devn = Inr cam \<longrightarrow>
      wait_outcome e clk devn len timeout deadline cam (readings lib) y"
  proof (rule wait_event.raw_induct [where P = "\<lambda>rw rwd e clk devn data len timeout deadline lib y.
      \<forall>cam. steady e \<longrightarrow> 0 \<le> len \<longrightarrow> get_cam (usb lib) devn = Inr cam \<longrightarrow>
        wait_outcome e clk devn len timeout deadline cam (readings lib) y", OF _ assms(1)])
    fix wait rw rwd e clk devn data len timeout deadline lib y
    assume ih: "\<And>rw rwd e clk devn data len timeout deadline lib y.
        wait rw rwd e clk devn data len timeout deadline lib = Some y \<Longrightarrow>
        \<forall>cam. steady e \<longrightarrow> 0 \<le> len \<longrightarrow> get_cam (usb lib) devn = Inr cam \<longrightarrow> wait_outcome e clk devn len timeout deadline cam (readings lib) y"
      and run: "(case handle_bulk rw rwd e (usb lib) devn 0x83 data len of
        Inl c \<Rightarrow> Some (Inl c)
      | Inr (rc, bs, u) \<Rightarrow>
          let lib = lib\<lparr>usb := u\<rparr> in
          if rc \<ge> 0 then Some (Inr (0, rc, bs, lib))
          else if rc \<noteq> GP_ERROR_TIMEOUT then Some (Inr (LIBUSB_ERROR_IO, 0, bs, lib))
          else if timeout > 0 then
            let (now, lib) = read_clock clk lib
            in if tv_le deadline now then Some (Inr (LIBUSB_ERROR_TIMEOUT, 0, bs, lib))
               else wait rw rwd e clk devn data len timeout deadline lib
          else wait rw rwd e clk devn data len timeout deadline lib) = Some y"
    show "\<forall>cam. steady e \<longrightarrow> 0 \<le> len \<longrightarrow> get_cam (usb lib) devn = Inr cam \<longrightarrow> wait_outcome e clk devn len timeout deadline cam (readings lib) y"
    proof (intro allI impI)
      fix cam
      assume p: "steady e" "0 \<le> len" "get_cam (usb lib) devn = Inr cam"
      show "wait_outcome e clk devn len timeout deadline cam (readings lib) y"
      proof (cases "due_now e cam")
        case (Some x)
        obtain i r where x: "x = (i, r)" by (cases x)
        have "y = Inr (0, int (length (take (nat len) (i_data i))), take (nat len) (i_data i),
            lib\<lparr>usb := put_cam devn (cam\<lparr>ticks := ticks cam + 2, first_interrupt := r\<rparr>) (usb lib)\<rparr>)"
          using run bulk_event [OF p(1,3,2), of rw rwd data] Some x by simp
        moreover have "visible i \<and> i_time i \<le> clock e (ticks cam) \<and> mset (first_interrupt cam) = add_mset i (mset r)"
          using Some x pool.take1_Some unfolding due_now_def by fast
        ultimately show ?thesis using p(3) unfolding wait_outcome_def by auto
      next
        case None
        let ?c = "cam\<lparr>ticks := ticks cam + 1\<rparr>"
        let ?l = "lib\<lparr>usb := put_cam devn ?c (usb lib)\<rparr>"
        have b: "handle_bulk rw rwd e (usb lib) devn 0x83 data len = Inr (-20, [], put_cam devn ?c (usb lib))"
          using bulk_event [OF p(1,3,2), of rw rwd data] None by simp
        have st: "(if timeout > 0 then if tv_le deadline (clk (readings lib))
              then Some (Inr (-7, 0, [], ?l\<lparr>readings := readings lib + 1\<rparr>))
              else wait rw rwd e clk devn data len timeout deadline (?l\<lparr>readings := readings lib + 1\<rparr>)
            else wait rw rwd e clk devn data len timeout deadline ?l) = Some y"
          using run unfolding b by (cases "timeout > 0") (simp_all add: read_clock_def Let_def split: if_splits)
        have g: "get_cam (usb ?l) devn = Inr ?c" "get_cam (usb (?l\<lparr>readings := readings lib + 1\<rparr>)) devn = Inr ?c"
          using p(3) by simp_all
        consider (again) "timeout = 0" "wait rw rwd e clk devn data len timeout deadline ?l = Some y"
          | (expired) "timeout > 0" "tv_le deadline (clk (readings lib))" "y = Inr (-7, 0, [], ?l\<lparr>readings := readings lib + 1\<rparr>)"
          | (later) "timeout > 0"
              "wait rw rwd e clk devn data len timeout deadline (?l\<lparr>readings := readings lib + 1\<rparr>) = Some y"
          using st by (cases "timeout = 0"; cases "tv_le deadline (clk (readings lib))") (simp_all add: word_gt_0)
        then show ?thesis
        proof cases
          case again
          then show ?thesis using ih [OF again(2)] p(1,2) g(1) wait_outcome_later [where cam = cam and n = "ticks cam + 1"]
            by simp
        next
          case expired
          then show ?thesis using p(3) unfolding wait_outcome_def
            by (intro exI [of _ "-7"] exI [of _ 0] exI [of _ "[]"] exI [of _ "?l\<lparr>readings := readings lib + 1\<rparr>"]
                exI [of _ ?c] exI [of _ "readings lib"]) simp
        next
          case later
          then show ?thesis using ih [OF later(2)] p(1,2) g(2) wait_outcome_later [where cam = cam and n = "ticks cam + 1"]
            by simp
        qed
      qed
    qed
  qed
  then show ?thesis using assms(2-4) by blast
qed


text \<open>
  C19. A read of the interrupt endpoint comes back exactly when it has something to come back for: an
  event of the queue whose time will come, or a timeout that will expire; with neither it waits for
  ever. What it brings is a due event, which alone leaves the queue, or the timeout with the
  queue as it was.
\<close>

theorem interrupt_read_returns:
  assumes "steady e" "0 \<le> len" "get_cam (usb lib) devn = Inr cam"
    and "deadline = tv_add_ms (clk (readings lib)) (uint timeout)"
  shows "case libusb_interrupt_transfer rw rwd e clk devn 0x83 data len timeout lib of
      None \<Rightarrow> \<not> will_be_due e cam \<and> \<not> will_expire clk timeout deadline (readings lib + 1)
    | Some y \<Rightarrow> (will_be_due e cam \<or> will_expire clk timeout deadline (readings lib + 1)) \<and>
        wait_outcome e clk devn len timeout deadline cam (readings lib + 1) y"
proof -
  let ?l = "lib\<lparr>readings := readings lib + 1\<rparr>"
  let ?w = "wait_event rw rwd e clk devn data len timeout deadline ?l"
  have w: "libusb_interrupt_transfer rw rwd e clk devn 0x83 data len timeout lib = ?w"
    using assms(4) by (simp add: libusb_interrupt_transfer_def read_clock_def Let_def)
  have g: "get_cam (usb ?l) devn = Inr cam" using assms(3) by simp
  show ?thesis
  proof (cases ?w)
    case None
    have "\<not> will_be_due e cam" unfolding will_be_due_def
      using wait_until_due [OF assms(1,2) g, where rw = rw and rwd = rwd and clk = clk and data = data
        and timeout = timeout and deadline = deadline] None by blast
    moreover have "\<not> will_expire clk timeout deadline (readings lib + 1)" unfolding will_expire_def
      using wait_until_deadline [OF assms(1,2) _ g, where rw = rw and rwd = rwd and clk = clk and data = data
        and timeout = timeout and deadline = deadline] None by auto
    ultimately show ?thesis unfolding w None by simp
  next
    case (Some y)
    have "wait_outcome e clk devn len timeout deadline cam (readings lib + 1) y"
      using wait_result [OF Some assms(1,2) g] by simp
    moreover from this have "will_be_due e cam \<or> will_expire clk timeout deadline (readings lib + 1)"
      unfolding wait_outcome_def will_be_due_def will_expire_def by (metis set_mset_mset union_single_eq_member)
    ultimately show ?thesis unfolding w Some by simp
  qed
qed

section \<open>The pool of transfers\<close>

text \<open>A transfer that waits for an event of a camera, and one that was given an event.\<close>

definition waits_for :: "int \<Rightarrow> nat \<Rightarrow> libusb_transfer \<Rightarrow> bool" where
  "waits_for devn n t \<longleftrightarrow> tf_devn t = Some devn \<and> tf_type t = LIBUSB_TRANSFER_TYPE_INTERRUPT \<and> tf_endpoint t = 0x83 \<and>
     tf_timeout t = 0 \<and> tf_length t = int n \<and> (\<exists>b. tf_buffer t = Some b \<and> n \<le> length b)"

definition waiting :: "int \<Rightarrow> nat \<Rightarrow> libusb \<Rightarrow> pending_entry \<Rightarrow> bool" where
  "waiting devn n lib en \<longleftrightarrow> (\<exists>t. transfers lib (pe_t en) = Some t \<and> waits_for devn n t)"

definition was_given :: "nat \<Rightarrow> ptp_interrupt \<Rightarrow> libusb_transfer \<Rightarrow> bool" where
  "was_given n i t \<longleftrightarrow> tf_status t = LIBUSB_TRANSFER_COMPLETED \<and> tf_actual_length t = int (length (take n (i_data i))) \<and>
     (\<exists>b. tf_buffer t = Some b \<and> take (length (take n (i_data i))) b = take n (i_data i))"

lemma store_fits:
  "tf_buffer t = Some b \<Longrightarrow> length bs \<le> length b \<Longrightarrow>
     \<exists>b'. store_buffer bs t = Inr (t\<lparr>tf_buffer := Some b'\<rparr>) \<and> take (length bs) b' = bs"
  by (cases "bs = []", cases t) (auto simp: store_buffer_def write_front_def)

text \<open>One poll that finds an event, and one that finds none.\<close>

lemma poll_hit:
  assumes "steady e" "get_cam (usb lib) devn = Inr cam" "pending_list lib = en # ps" "pe_addr en \<notin> pe_addr ` set ps"
    and "transfers lib (pe_t en) = Some t" "waits_for devn n t" "due_now e cam = Some (i, r)" "\<forall>a l. cb a l = Inr l"
  shows "\<exists>t'. poll_entry rw rwd e clk cb Head lib = Inr (Some (Head, True,
       lib\<lparr>usb := put_cam devn (cam\<lparr>ticks := ticks cam + 2, first_interrupt := r\<rparr>) (usb lib),
           transfers := (transfers lib)(pe_t en \<mapsto> t'), pending_list := ps\<rparr>)) \<and> was_given n i t'"
proof -
  let ?bs = "take n (i_data i)"
  obtain b where b: "tf_buffer t = Some b" "n \<le> length b" using assms(6) by (auto simp: waits_for_def)
  then have "length ?bs \<le> length b" by simp
  then obtain b' where b': "store_buffer ?bs t = Inr (t\<lparr>tf_buffer := Some b'\<rparr>)" "take (length ?bs) b' = ?bs"
    using store_fits [OF b(1)] by blast
  have u: "unlink (pe_addr en) (en # ps) = ps" using assms(4) by (auto simp: unlink_def image_iff intro!: filter_True)
  have bulk: "handle_bulk rw rwd e (usb lib) devn 0x83 b (int n) = Inr (int (length ?bs), ?bs,
      put_cam devn (cam\<lparr>ticks := ticks cam + 2, first_interrupt := r\<rparr>) (usb lib))"
    using bulk_event [OF assms(1,2), of "int n" rw rwd b] assms(7) by simp
  let ?t = "t\<lparr>tf_buffer := Some b', tf_actual_length := int (length ?bs), tf_status := LIBUSB_TRANSFER_COMPLETED\<rparr>"
  have "poll_entry rw rwd e clk cb Head lib = Inr (Some (Head, True,
       lib\<lparr>usb := put_cam devn (cam\<lparr>ticks := ticks cam + 2, first_interrupt := r\<rparr>) (usb lib),
           transfers := (transfers lib)(pe_t en \<mapsto> ?t), pending_list := ps\<rparr>))"
    using assms(3,5,6,8) b b' u bulk
    by (simp add: poll_entry_def at_slot_def poll_transfer_def waits_for_def finish_entry_def completion_def Let_def)
  moreover have "was_given n i ?t" using b' by (simp add: was_given_def)
  ultimately show ?thesis by blast
qed


definition slot_after :: "pending_entry list \<Rightarrow> slot" where
  "slot_after pre = (if pre = [] then Head else After (pe_addr (last pre)))"

lemma at_slot_after:
  assumes "distinct (map pe_addr (pre @ suf))"
  shows "at_slot (slot_after pre) (pre @ suf) = Inr (case suf of [] \<Rightarrow> None | e # _ \<Rightarrow> Some e)"
proof (cases "pre = []")
  case True
  then show ?thesis by (simp add: slot_after_def at_slot_def)
next
  case False
  then obtain p q where p: "pre = p @ [q]" by (metis rev_exhaust)
  have "dropWhile (\<lambda>e. pe_addr e \<noteq> pe_addr q) (p @ q # suf) = q # suf"
    using assms unfolding p by (induction p) auto
  then show ?thesis by (simp add: p slot_after_def at_slot_def)
qed

lemma poll_miss:
  assumes "steady e" "get_cam (usb lib) devn = Inr cam" "at_slot pp (pending_list lib) = Inr (Some en)"
    and "transfers lib (pe_t en) = Some t" "waits_for devn n t" "due_now e cam = None"
  shows "poll_entry rw rwd e clk cb pp lib = Inr (Some (After (pe_addr en), False,
       lib\<lparr>usb := put_cam devn (cam\<lparr>ticks := ticks cam + 1\<rparr>) (usb lib)\<rparr>))"
proof -
  obtain b where b: "tf_buffer t = Some b" "n \<le> length b" using assms(5) by (auto simp: waits_for_def)
  have "handle_bulk rw rwd e (usb lib) devn 0x83 b (int n) = Inr (-20, [], put_cam devn (cam\<lparr>ticks := ticks cam + 1\<rparr>) (usb lib))"
    using bulk_event [OF assms(1,2), of "int n" rw rwd b] assms(6) by simp
  then show ?thesis using assms(3-5) b
    by (simp add: poll_entry_def poll_transfer_def waits_for_def store_buffer_def fun_upd_idem Let_def)
qed

lemma walk_misses:
  assumes "steady e" "pending_list lib = pre @ suf" "distinct (map pe_addr (pre @ suf))"
    and "\<forall>en\<in>set suf. waiting devn n lib en" "get_cam (usb lib) devn = Inr cam" "\<forall>i\<in>set (first_interrupt cam). \<not> visible i"
  shows "\<exists>k. poll_round rw rwd e clk cb (slot_after pre) p lib
    = Some (Inr (p, lib\<lparr>usb := put_cam devn (cam\<lparr>ticks := ticks cam + k\<rparr>) (usb lib)\<rparr>))"
  using assms(2-)
proof (induction suf arbitrary: pre lib cam)
  case Nil
  have "poll_entry rw rwd e clk cb (slot_after pre) lib = Inr None"
    using at_slot_after [OF Nil(2)] Nil(1) by (simp add: poll_entry_def)
  moreover have "lib\<lparr>usb := put_cam devn (cam\<lparr>ticks := ticks cam + 0\<rparr>) (usb lib)\<rparr> = lib"
  proof -
    have "cams (usb lib) ! nat devn = cam" using Nil(4) by (simp add: get_cam_def split: if_splits)
    then have "put_cam devn cam (usb lib) = usb lib" by (cases "usb lib") (auto simp: put_cam_def list_update_id)
    then show ?thesis by (cases lib) simp
  qed
  ultimately show ?case by (intro exI [of _ 0]) (simp add: poll_round.simps)
next
  case (Cons en suf)
  obtain t where t: "transfers lib (pe_t en) = Some t" "waits_for devn n t" using Cons.prems(3) by (auto simp: waiting_def)
  have slot: "at_slot (slot_after pre) (pending_list lib) = Inr (Some en)"
    using at_slot_after [OF Cons.prems(2)] Cons.prems(1) by simp
  have none: "due_now e cam = None" using Cons.prems(5) by (auto simp: due_now_def take_first_None)
  let ?c = "cam\<lparr>ticks := ticks cam + 1\<rparr>"
  let ?l = "lib\<lparr>usb := put_cam devn ?c (usb lib)\<rparr>"
  have step: "poll_entry rw rwd e clk cb (slot_after pre) lib = Inr (Some (slot_after (pre @ [en]), False, ?l))"
    using poll_miss [OF assms(1) Cons.prems(4) slot t none] by (simp add: slot_after_def)
  obtain k where "poll_round rw rwd e clk cb (slot_after (pre @ [en])) p ?l
    = Some (Inr (p, ?l\<lparr>usb := put_cam devn (?c\<lparr>ticks := ticks ?c + k\<rparr>) (usb ?l)\<rparr>))"
    using Cons.IH [of ?l "pre @ [en]" ?c] Cons.prems by (auto simp: waiting_def)
  then show ?case using step by (intro exI [of _ "Suc k"]) (simp add: poll_round.simps [of _ _ _ _ _ "slot_after pre"])
qed

text \<open>A walk over the pool, from its newest transfer on.\<close>

lemma walk_delivers:
  assumes "steady e" "\<forall>a l. cb a l = Inr l"
    and "get_cam (usb lib) devn = Inr cam" "pending_list lib = ps" "\<forall>en\<in>set ps. waiting devn n lib en"
    and "distinct (map pe_addr ps)" "distinct (map pe_t ps)"
    and "\<forall>i\<in>set (first_interrupt cam). visible i \<longrightarrow> i_time i \<le> clock e (ticks cam)"
    and "is = filter visible (first_interrupt cam)"
  shows "\<exists>lib' cam'. poll_round rw rwd e clk cb Head p lib = Some (Inr (p \<or> is \<noteq> [] \<and> ps \<noteq> [], lib'))
    \<and> pending_list lib' = drop (length is) ps \<and> get_cam (usb lib') devn = Inr cam'
    \<and> filter visible (first_interrupt cam') = drop (length ps) is
    \<and> filter (\<lambda>i. \<not> visible i) (first_interrupt cam') = filter (\<lambda>i. \<not> visible i) (first_interrupt cam)
    \<and> (\<forall>(en, i) \<in> set (zip ps is). \<exists>t. transfers lib' (pe_t en) = Some t \<and> was_given n i t)
    \<and> (\<forall>a. a \<notin> pe_t ` set (take (length is) ps) \<longrightarrow> transfers lib' a = transfers lib a)"
  using assms(3-)
proof (induction ps arbitrary: lib cam "is" p)
  case Nil
  then have "poll_entry rw rwd e clk cb Head lib = Inr None" by (simp add: poll_entry_def at_slot_def)
  then show ?case using Nil by (intro exI [of _ lib] exI [of _ cam]) (simp add: poll_round.simps)
next
  case (Cons en ps)
  show ?case
  proof (cases "is")
    case Nil
    then have v: "\<forall>i\<in>set (first_interrupt cam). \<not> visible i" using Cons.prems(7) by (metis filter_empty_conv)
    obtain k where "poll_round rw rwd e clk cb Head p lib
        = Some (Inr (p, lib\<lparr>usb := put_cam devn (cam\<lparr>ticks := ticks cam + k\<rparr>) (usb lib)\<rparr>))"
      using walk_misses [OF assms(1), where lib = lib and pre = "[]" and suf = "en # ps" and devn = devn and n = n and
          cam = cam and rw = rw and rwd = rwd and clk = clk and cb = cb and p = p] Cons.prems v
      by (auto simp: slot_after_def)
    then show ?thesis using Nil Cons.prems
      by (intro exI [of _ "lib\<lparr>usb := put_cam devn (cam\<lparr>ticks := ticks cam + k\<rparr>) (usb lib)\<rparr>"]
          exI [of _ "cam\<lparr>ticks := ticks cam + k\<rparr>"]) simp
  next
    case c: (Cons i is')
    then have "i # is' = filter visible (first_interrupt cam)" using Cons.prems(7) by simp
    then obtain a b where ab: "first_interrupt cam = a @ i # b" "\<forall>x\<in>set a. \<not> visible x" "visible i" "is' = filter visible b"
      unfolding Cons_eq_filter_iff by auto
    let ?c = "cam\<lparr>ticks := ticks cam + 2, first_interrupt := a @ b\<rparr>"
    have due: "due_now e cam = Some (i, a @ b)"
      unfolding due_now_def ab(1) by (rule take_first_append) (use ab Cons.prems(6) in auto)
    obtain t where t: "transfers lib (pe_t en) = Some t" "waits_for devn n t" using Cons.prems(3) by (auto simp: waiting_def)
    have "pe_addr en \<notin> pe_addr ` set ps" using Cons.prems(4) by simp
    from poll_hit [OF assms(1) Cons.prems(1,2) this t due assms(2)] obtain t' where
      t': "poll_entry rw rwd e clk cb Head lib = Inr (Some (Head, True, lib\<lparr>usb := put_cam devn ?c (usb lib),
           transfers := (transfers lib)(pe_t en \<mapsto> t'), pending_list := ps\<rparr>))" "was_given n i t'" by blast
    let ?l = "lib\<lparr>usb := put_cam devn ?c (usb lib), transfers := (transfers lib)(pe_t en \<mapsto> t'), pending_list := ps\<rparr>"
    have "pe_t x \<noteq> pe_t en" if "x \<in> set ps" for x
      using Cons.prems(5) that by (metis distinct.simps(2) image_eqI list.map(2) set_map)
    then have w: "\<forall>en\<in>set ps. waiting devn n ?l en" using Cons.prems(3) by (simp add: waiting_def)
    have d: "i_time j \<le> clock e (ticks ?c)" if "j \<in> set (first_interrupt ?c)" "visible j" for j
      using Cons.prems(6) that ab(1) steadyD [OF assms(1), of "ticks cam" "ticks ?c"] by (auto intro: order_trans)
    have f: "is' = filter visible (first_interrupt ?c)" using ab(2,4) by (simp add: filter_empty_conv)
    have g: "get_cam (usb ?l) devn = Inr ?c" "pending_list ?l = ps" using Cons.prems(1) by simp_all
    obtain lib' cam' where IH: "poll_round rw rwd e clk cb Head True ?l = Some (Inr (True, lib'))"
      "pending_list lib' = drop (length is') ps" "get_cam (usb lib') devn = Inr cam'"
      "filter visible (first_interrupt cam') = drop (length ps) is'"
      "filter (\<lambda>i. \<not> visible i) (first_interrupt cam') = filter (\<lambda>i. \<not> visible i) (first_interrupt ?c)"
      "\<forall>(en, i) \<in> set (zip ps is'). \<exists>t. transfers lib' (pe_t en) = Some t \<and> was_given n i t"
      "\<forall>a. a \<notin> pe_t ` set (take (length is') ps) \<longrightarrow> transfers lib' a = transfers ?l a"
      using Cons.IH [OF g w _ _ _ f, of True] Cons.prems(4,5) d by auto
    have "pe_t en \<notin> pe_t ` set (take (length is') ps)" using Cons.prems(5) by (auto dest: in_set_takeD)
    then have "transfers lib' (pe_t en) = Some t'" using IH(7) by simp
    then show ?thesis using IH t' c ab
      by (intro exI [of _ lib'] exI [of _ cam']) (auto simp: poll_round.simps [of _ _ _ _ _ Head p lib])
  qed
qed


section \<open>A library with one camera\<close>

definition demo_transfer :: libusb_transfer where
  "demo_transfer = \<lparr>tf_devn = Some 0, tf_flags = 0, tf_endpoint = 0x83, tf_type = 3, tf_timeout = 0,
     tf_status = LIBUSB_TRANSFER_CANCELLED, tf_length = 24, tf_actual_length = 0, tf_callback = True,
     tf_buffer = Some (replicate 24 0)\<rparr>"

definition demo_lib :: libusb where
  "demo_lib = \<lparr>usb = \<lparr>cams = [demo_events], last_length = 0\<rparr>,
     transfers = [0 \<mapsto> demo_transfer, 1 \<mapsto> demo_transfer, 2 \<mapsto> demo_transfer],
     pending_list = [\<lparr>pe_addr = 5, pe_t = 2, pe_deadline = Timeval 0 0\<rparr>, \<lparr>pe_addr = 4, pe_t = 1, pe_deadline = Timeval 0 0\<rparr>,
       \<lparr>pe_addr = 3, pe_t = 0, pe_deadline = Timeval 0 0\<rparr>], lib_next = 6, readings = 0\<rparr>"

lemma demo_lib_cam: "get_cam (usb demo_lib) 0 = Inr demo_events"
  by (simp add: demo_lib_def get_cam_def)


theorem interrupt_read_returns_witness:
  "\<exists>y. libusb_interrupt_transfer (op_handler no_callbacks demo_env) (data_handler no_callbacks demo_env) demo_env
      (\<lambda>n. Timeval 0 0) 0 0x83 (replicate 24 0) 24 0 demo_lib = Some y \<and>
     wait_outcome demo_env (\<lambda>n. Timeval 0 0) 0 24 0 (tv_add_ms (Timeval 0 0) 0) demo_events 1 y"
proof -
  let ?rw = "op_handler no_callbacks demo_env" and ?rwd = "data_handler no_callbacks demo_env"
  let ?i = "libusb_interrupt_transfer ?rw ?rwd demo_env (\<lambda>n. Timeval 0 0) 0 0x83 (replicate 24 0) 24 0 demo_lib"
  have "will_be_due demo_env demo_events"
    unfolding will_be_due_def by (auto simp: demo_events_queue visible_def demo_env_def less_eq_timeval_def intro: exI [of _ 5])
  then show ?thesis
    using interrupt_read_returns [OF demo_steady _ demo_lib_cam refl, where rw = ?rw and rwd = ?rwd
        and clk = "\<lambda>n. Timeval 0 0" and data = "replicate 24 0" and len = 24 and timeout = 0]
    by (cases ?i) (simp_all add: demo_lib_def)
qed

end
