(* ===== verification/Canon_Ssdp.thy ===== *)
theory Canon_Ssdp
  imports Vcam_Init
begin

text \<open>
  The discovery responder of a Canon camera on the network, src/src/canon/ssdp.c: its timers, the
  paced queue of multicast messages, the answers to searches and the device description over HTTP.
  Sockets are outside: what \<open>poll\<close>, \<open>recvfrom\<close> and \<open>accept\<close> report is an argument of the event
  loop, and what is sent is recorded in the state. \<open>clk\<close> gives the milliseconds of the monotonic
  clock at each reading and \<open>rnd\<close> the values of \<open>rand\<close>. Sums of 64-bit milliseconds do not overflow.
\<close>

abbreviation (input) "HTTP_PORT \<equiv> 49152 :: nat"
abbreviation (input) "SSDP_PORT \<equiv> 1900 :: nat"
abbreviation (input) "SSDP_ADDR \<equiv> ''239.255.255.250''"
abbreviation (input) "MAX_AGE \<equiv> 1800 :: nat"
abbreviation (input) "REANNOUNCE_SEC \<equiv> 599 :: int"
abbreviation (input) "MSG_DELAY_MS \<equiv> 120 :: int"
abbreviation (input) "ANNOUNCE_COUNT \<equiv> 3 :: nat"
abbreviation (input) "MAX_TIMERS \<equiv> 256 :: nat"
abbreviation (input) "MSGQ_SIZE \<equiv> 128 :: nat"
abbreviation (input) "MAX_CLIENTS \<equiv> 16 :: nat"

definition RESOURCE_TARGET :: string where
  "RESOURCE_TARGET = ''urn:schemas-canon-com:service:ICPO-SmartPhoneEOSSystemService:1''"

definition RESOURCE_USN :: string where
  "RESOURCE_USN = ''uuid:00000000-0000-0000-0001-00BBC1859FAB::'' @ RESOURCE_TARGET"

definition CANON_SERVER :: string where
  "CANON_SERVER = ''Camera OS/1.0 UPnP/1.0 Canon Device Discovery/1.0''"

abbreviation crlf :: string where
  "crlf \<equiv> [CHR 0x0d, CHR 0x0a]"

text \<open>\<open>snprintf\<close> into a buffer of \<open>n\<close> bytes.\<close>

definition snprint :: "nat \<Rightarrow> string \<Rightarrow> string" where
  "snprint n s = take (n - 1) s"

section \<open>State\<close>

type_synonym sockaddr = "u32 \<times> u16"

text \<open>The callbacks of timers with their argument.\<close>

datatype timer_fn = Msgq_tick | Reannounce_tick | Delayed_resp_send sockaddr string

record timer =
  tm_deadline :: int
  tm_fn :: "timer_fn option"
  tm_active :: bool

record msgq =
  mq_msgs :: "string option list"
  mq_head :: nat
  mq_tail :: nat
  mq_pacing :: bool

record client =
  cl_fd :: int
  cl_active :: bool

text \<open>What leaves the responder.\<close>

datatype ssdp_out = Multicast string | Unicast sockaddr string | Http int string | Closed int

text \<open>
  The state of the responder, with the number of readings of the clock, the number of random numbers
  drawn, and everything sent so far, each with the number of readings before it.
\<close>

record ssdp =
  location :: string
  urlbase :: string
  server_id :: string
  modern_mode :: bool
  timers :: "timer list"
  mq :: msgq
  clients :: "client list"
  reads :: nat
  draws :: nat
  sent :: "(nat \<times> ssdp_out) list"

definition put_out :: "ssdp_out \<Rightarrow> ssdp \<Rightarrow> ssdp" where
  "put_out x st = st\<lparr>sent := sent st @ [(reads st, x)]\<rparr>"

section \<open>Timers\<close>

definition free_slot :: "timer list \<Rightarrow> nat option" where
  "free_slot ts = find (\<lambda>i. \<not> tm_active (ts ! i)) [0..<length ts]"

definition timer_add :: "(nat \<Rightarrow> int) \<Rightarrow> int \<Rightarrow> timer_fn \<Rightarrow> ssdp \<Rightarrow> ssdp" where
  "timer_add clk delay fn st = (case free_slot (timers st) of
     None \<Rightarrow> st
   | Some i \<Rightarrow> st\<lparr>timers := (timers st)[i := \<lparr>tm_deadline = clk (reads st) + delay, tm_fn = Some fn, tm_active = True\<rparr>],
       reads := reads st + 1\<rparr>)"

text \<open>The shortest wait, cut to an \<open>int\<close>; -1 when no timer runs.\<close>

definition min_wait :: "int \<Rightarrow> timer list \<Rightarrow> int" where
  "min_wait now ts = foldl (\<lambda>m t.
     if tm_active t then (let w = max 0 (tm_deadline t - now) in if m < 0 \<or> w < m then w else m) else m) (-1) ts"

definition timer_next_timeout :: "(nat \<Rightarrow> int) \<Rightarrow> ssdp \<Rightarrow> int \<times> ssdp" where
  "timer_next_timeout clk st =
     (sint (word_of_int (min_wait (clk (reads st)) (timers st)) :: 32 word), st\<lparr>reads := reads st + 1\<rparr>)"

section \<open>The queue of multicast messages\<close>

text \<open>A ring with one slot kept free; a slot whose message was sent holds a freed pointer.\<close>

definition ring_push :: "string \<Rightarrow> msgq \<Rightarrow> msgq" where
  "ring_push msg q =
     (if (mq_tail q + 1) mod MSGQ_SIZE = mq_head q then q
      else q\<lparr>mq_msgs := (mq_msgs q)[mq_tail q := Some msg], mq_tail := (mq_tail q + 1) mod MSGQ_SIZE\<rparr>)"

definition ring_full :: "msgq \<Rightarrow> bool" where
  "ring_full q \<longleftrightarrow> (mq_tail q + 1) mod MSGQ_SIZE = mq_head q"

definition ring_empty :: "msgq \<Rightarrow> bool" where
  "ring_empty q \<longleftrightarrow> mq_head q = mq_tail q"

definition ring_pop :: "msgq \<Rightarrow> (string \<times> msgq) res" where
  "ring_pop q = bnd (deref (mq_msgs q ! mq_head q)) (\<lambda>msg.
     Inr (msg, q\<lparr>mq_msgs := (mq_msgs q)[mq_head q := None], mq_head := (mq_head q + 1) mod MSGQ_SIZE\<rparr>))"

definition msgq_tick :: "(nat \<Rightarrow> int) \<Rightarrow> ssdp \<Rightarrow> ssdp res" where
  "msgq_tick clk st =
     (if ring_empty (mq st) then Inr (st\<lparr>mq := (mq st)\<lparr>mq_pacing := False\<rparr>\<rparr>)
      else bnd (ring_pop (mq st)) (\<lambda>(msg, q).
        Inr (timer_add clk MSG_DELAY_MS Msgq_tick (put_out (Multicast msg) (st\<lparr>mq := q\<rparr>)))))"

definition msgq_push :: "(nat \<Rightarrow> int) \<Rightarrow> string \<Rightarrow> ssdp \<Rightarrow> ssdp res" where
  "msgq_push clk msg st =
     (if ring_full (mq st) then Inr st
      else
        let q = ring_push msg (mq st)
        in if mq_pacing q then Inr (st\<lparr>mq := q\<rparr>)
           else msgq_tick clk (st\<lparr>mq := q\<lparr>mq_pacing := True\<rparr>\<rparr>))"

section \<open>Messages\<close>

definition build_alive :: "nat \<Rightarrow> ssdp \<Rightarrow> string" where
  "build_alive len st = snprint len
     (''NOTIFY * HTTP/1.1'' @ crlf @
      ''Host: '' @ SSDP_ADDR @ '':'' @ fmt_dec 0 SSDP_PORT @ crlf @
      ''Cache-Control: max-age='' @ fmt_dec 0 MAX_AGE @ crlf @
      ''Location: '' @ location st @ crlf @
      ''Server: '' @ (if modern_mode st then CANON_SERVER else server_id st) @ crlf @
      ''NTS: ssdp:alive'' @ crlf @
      ''NT: '' @ RESOURCE_TARGET @ crlf @
      ''USN: '' @ RESOURCE_USN @ crlf @ crlf)"

definition build_byebye :: "nat \<Rightarrow> string" where
  "build_byebye len = snprint len
     (''NOTIFY * HTTP/1.1'' @ crlf @
      ''Host: '' @ SSDP_ADDR @ '':'' @ fmt_dec 0 SSDP_PORT @ crlf @
      ''NTS: ssdp:byebye'' @ crlf @
      ''NT: '' @ RESOURCE_TARGET @ crlf @
      ''USN: '' @ RESOURCE_USN @ crlf @ crlf)"

definition build_response :: "nat \<Rightarrow> ssdp \<Rightarrow> string" where
  "build_response len st = snprint len
     (''HTTP/1.1 200 OK'' @ crlf @
      ''Cache-Control: max-age='' @ fmt_dec 0 MAX_AGE @ crlf @
      ''EXT: '' @ crlf @
      ''Location: '' @ location st @ crlf @
      ''Server: '' @ CANON_SERVER @ crlf @
      ''ST: '' @ RESOURCE_TARGET @ crlf @
      ''USN: '' @ RESOURCE_USN @ crlf @ crlf)"

section \<open>Announcements\<close>

primrec push_times :: "(nat \<Rightarrow> int) \<Rightarrow> nat \<Rightarrow> string \<Rightarrow> ssdp \<Rightarrow> ssdp res" where
  "push_times clk 0 msg st = Inr st"
| "push_times clk (Suc n) msg st = bnd (msgq_push clk msg st) (push_times clk n msg)"

definition reannounce_tick :: "(nat \<Rightarrow> int) \<Rightarrow> ssdp \<Rightarrow> ssdp res" where
  "reannounce_tick clk st =
     bnd (push_times clk ANNOUNCE_COUNT (build_alive 1024 st) st) (\<lambda>st.
       Inr (timer_add clk (REANNOUNCE_SEC * 1000) Reannounce_tick st))"

definition send_initial_announce :: "(nat \<Rightarrow> int) \<Rightarrow> ssdp \<Rightarrow> ssdp res" where
  "send_initial_announce clk st =
     bnd (msgq_push clk (build_byebye 1024) st) (\<lambda>st.
     bnd (push_times clk ANNOUNCE_COUNT (build_alive 1024 st) st) (\<lambda>st.
       Inr (timer_add clk (REANNOUNCE_SEC * 1000) Reannounce_tick st)))"

text \<open>An expired timer's callback, and the loop that looks for expired timers.\<close>

definition timer_fire :: "(nat \<Rightarrow> int) \<Rightarrow> timer_fn \<Rightarrow> ssdp \<Rightarrow> ssdp res" where
  "timer_fire clk fn st = (case fn of
     Msgq_tick \<Rightarrow> msgq_tick clk st
   | Reannounce_tick \<Rightarrow> reannounce_tick clk st
   | Delayed_resp_send dest msg \<Rightarrow> Inr (put_out (Unicast dest msg) st))"

primrec run_slots :: "(nat \<Rightarrow> int) \<Rightarrow> int \<Rightarrow> nat list \<Rightarrow> ssdp \<Rightarrow> ssdp res" where
  "run_slots clk now [] st = Inr st"
| "run_slots clk now (i # is) st =
     (let t = timers st ! i in
      if tm_active t \<and> tm_deadline t \<le> now then
        bnd (deref (tm_fn t)) (\<lambda>fn.
        bnd (timer_fire clk fn (st\<lparr>timers := (timers st)[i := t\<lparr>tm_active := False\<rparr>]\<rparr>)) (run_slots clk now is))
      else run_slots clk now is st)"

definition timer_run_expired :: "(nat \<Rightarrow> int) \<Rightarrow> ssdp \<Rightarrow> ssdp res" where
  "timer_run_expired clk st = run_slots clk (clk (reads st)) [0..<MAX_TIMERS] (st\<lparr>reads := reads st + 1\<rparr>)"

section \<open>Searches\<close>

text \<open>\<open>strstr\<close> as the rest of the string from the first match on.\<close>

fun strstr_ptr :: "string \<Rightarrow> string \<Rightarrow> string option" where
  "strstr_ptr [] pat = (if pat = [] then Some [] else None)"
| "strstr_ptr (c # s) pat = (if starts_with (c # s) pat then Some (c # s) else strstr_ptr s pat)"

lemma strstr_ptr_length: "strstr_ptr s pat = Some r \<Longrightarrow> length r \<le> length s"
  by (induction s pat rule: strstr_ptr.induct) (auto split: if_splits)

lemma strstr_ptr_starts: "strstr_ptr s pat = Some r \<Longrightarrow> starts_with r pat"
  by (induction s pat rule: strstr_ptr.induct) (auto split: if_splits)

text \<open>The loop of \<open>find_header\<close> from the start of a line on.\<close>

function header_from :: "string \<Rightarrow> string \<Rightarrow> string option" where
  "header_from name p =
     (if p = [] \<or> starts_with p crlf then None
      else if map to_lower (take (length name) p) = map to_lower name \<and> take 1 (drop (length name) p) = '':''
      then Some (dropWhile (\<lambda>c. c = CHR '' '') (drop (length name + 1) p))
      else (case strstr_ptr p crlf of None \<Rightarrow> None | Some nl \<Rightarrow> header_from name (drop 2 nl)))"
  by pat_completeness auto
termination
  by (relation "measure (\<lambda>(name, p). length p)") (auto dest!: strstr_ptr_length simp flip: length_greater_0_conv)

declare header_from.simps [simp del]

definition find_header :: "string \<Rightarrow> string \<Rightarrow> string option" where
  "find_header buf name = (case strstr_ptr buf crlf of None \<Rightarrow> None | Some p \<Rightarrow> header_from name (drop 2 p))"

definition header_value :: "string \<Rightarrow> nat \<Rightarrow> string" where
  "header_value start buflen = take (buflen - 1) (takeWhile (\<lambda>c. c \<noteq> CHR 0x0d \<and> c \<noteq> CHR 0x0a) start)"

definition DISCOVER :: string where
  "DISCOVER = CHR 0x22 # ''ssdp:discover'' @ [CHR 0x22]"

definition handle_msearch :: "(nat \<Rightarrow> int) \<Rightarrow> (nat \<Rightarrow> nat) \<Rightarrow> string \<Rightarrow> sockaddr \<Rightarrow> ssdp \<Rightarrow> ssdp res" where
  "handle_msearch clk rnd buf sender st = (case find_header buf ''MAN'' of
     None \<Rightarrow> Inr st
   | Some man \<Rightarrow>
       if header_value man 256 \<noteq> DISCOVER then Inr st
       else (case find_header buf ''MX'' of
         None \<Rightarrow> Inr st
       | Some mx \<Rightarrow> bnd (atoi (header_value mx 256)) (\<lambda>mx_val.
           if mx_val \<le> 0 then Inr st
           else (case find_header buf ''ST'' of
             None \<Rightarrow> Inr st
           | Some _ \<Rightarrow>
               let delay = int (rnd (draws st)) mod (mx_val * 1000)
               in Inr (timer_add clk delay (Delayed_resp_send sender (build_response 512 st))
                    (st\<lparr>draws := draws st + 1\<rparr>))))))"

text \<open>A datagram as the C string in the buffer of 2048 bytes; \<open>None\<close> when \<open>recvfrom\<close> fails.\<close>

definition datagram_text :: "string \<Rightarrow> string" where
  "datagram_text d = takeWhile (\<lambda>c. c \<noteq> CHR 0x00) (take 2047 d)"

definition handle_ssdp_recv ::
    "(nat \<Rightarrow> int) \<Rightarrow> (nat \<Rightarrow> nat) \<Rightarrow> (sockaddr \<times> string) option \<Rightarrow> ssdp \<Rightarrow> ssdp res" where
  "handle_ssdp_recv clk rnd datagram st = (case datagram of
     None \<Rightarrow> Inr st
   | Some (sender, d) \<Rightarrow>
       let buf = datagram_text d
       in if starts_with buf ''M-SEARCH'' then handle_msearch clk rnd buf sender st else Inr st)"

section \<open>The device description\<close>

abbreviation nl :: string where
  "nl \<equiv> [CHR 0x0a]"

definition build_device_xml :: "nat \<Rightarrow> ssdp \<Rightarrow> string" where \<open>
  build_device_xml len st = snprint len
    (''<?xml version="1.0"?>'' @ nl @
     ''<root xmlns="urn:schemas-upnp-org:device-1-0">'' @ nl @
     ''  <specVersion>'' @ nl @
     ''    <major>1</major>'' @ nl @
     ''    <minor>0</minor>'' @ nl @
     ''  </specVersion>'' @ nl @
     ''  <URLBase>'' @ urlbase st @ ''</URLBase>'' @ nl @
     ''  <device>'' @ nl @
     ''    <deviceType>urn:schemas-upnp-org:device:Basic:1</deviceType>'' @ nl @
     ''    <friendlyName>Canon EOS Rebel T6</friendlyName>'' @ nl @
     ''    <manufacturer>Canon</manufacturer>'' @ nl @
     ''    <manufacturerURL>http://www.canon.com/</manufacturerURL>'' @ nl @
     ''    <modelDescription>Canon Digital Camera</modelDescription>'' @ nl @
     ''    <modelName>Canon EOS vcam</modelName>'' @ nl @
     ''    <serialNumber>172073046108</serialNumber>'' @ nl @
     ''    <UDN>uuid:00000000-0000-0000-0001-00BBC1859FAB</UDN>'' @ nl @
     ''    <serviceList>'' @ nl @
     ''      <service>'' @ nl @
     ''        <serviceType>urn:schemas-canon-com:service:ICPO-SmartPhoneEOSSystemService:1</serviceType>'' @ nl @
     ''        <serviceId>urn:schemas-canon-com:serviceId:ICPO-SmartPhoneEOSSystemService-1</serviceId>'' @ nl @
     ''        <SCPDURL>CameraSvcDesc.xml</SCPDURL>'' @ nl @
     ''        <controlURL>control/CanonCamera/</controlURL>'' @ nl @
     ''        <eventSubURL></eventSubURL>'' @ nl @
     ''        <ns:X_targetId xmlns:ns="urn:schemas-canon-com:schema-upnp">uuid:00000000-0000-0000-0001-FFFFFFFFFFFF</ns:X_targetId>'' @ nl @
     ''        <ns:X_onService xmlns:ns="urn:schemas-canon-com:schema-upnp">0</ns:X_onService>'' @ nl @
     ''        <ns:X_deviceUsbId xmlns:ns="urn:schemas-canon-com:schema-upnp">32b4</ns:X_deviceUsbId>'' @ nl @
     ''        <ns:X_deviceNickname xmlns:ns="urn:schemas-canon-com:schema-upnp">Fake Nickname</ns:X_deviceNickname>'' @ nl @
     ''      </service>'' @ nl @
     ''    </serviceList>'' @ nl @
     ''    <presentationURL>/</presentationURL>'' @ nl @
     ''  </device>'' @ nl @
     ''</root>'')\<close>

text \<open>A connection is put into the first free slot, or closed; \<open>None\<close> when \<open>accept\<close> fails.\<close>

definition handle_tcp_accept :: "int option \<Rightarrow> ssdp \<Rightarrow> ssdp" where
  "handle_tcp_accept cfd st = (case cfd of
     None \<Rightarrow> st
   | Some cfd \<Rightarrow> (case find (\<lambda>i. \<not> cl_active (clients st ! i)) [0..<length (clients st)] of
       None \<Rightarrow> put_out (Closed cfd) st
     | Some i \<Rightarrow> st\<lparr>clients := (clients st)[i := \<lparr>cl_fd = cfd, cl_active = True\<rparr>]\<rparr>))"

text \<open>
  The request is not looked at. \<open>send\<close> is given the length \<open>snprintf\<close> returned, which is within the
  buffer only when nothing was cut.
\<close>

definition http_response :: "ssdp \<Rightarrow> string" where
  "http_response st = (let device_xml = build_device_xml 2048 st in
     ''HTTP/1.1 200 OK'' @ crlf @
     ''Content-Length: '' @ fmt_dec 0 (length device_xml) @ crlf @
     ''Connection: close'' @ crlf @
     ''Content-Type: text/xml'' @ crlf @ crlf @ device_xml)"

definition handle_http_client :: "int \<Rightarrow> ssdp \<Rightarrow> ssdp res" where
  "handle_http_client cfd st =
     (if length (http_response st) < 4096 then Inr (put_out (Http cfd (http_response st)) st) else Inl Undef)"

section \<open>Interfaces\<close>

text \<open>An entry of \<open>getifaddrs\<close>: \<open>ifa_inet\<close> is \<open>None\<close> without an address or with another family's.\<close>

record ifaddr =
  ifa_name :: string
  ifa_inet :: "u32 option"
  ifa_up :: bool
  ifa_pointopoint :: bool
  ifa_loopback :: bool

definition iface_select :: "ifaddr list option \<Rightarrow> (string \<times> u32) option" where
  "iface_select list = (case list of
     None \<Rightarrow> None
   | Some ifs \<Rightarrow>
       let usable = filter (\<lambda>i. ifa_inet i \<noteq> None \<and> ifa_up i \<and> \<not> ifa_pointopoint i) ifs;
           best = find (\<lambda>i. \<not> ifa_loopback i) usable;
           fallback = find ifa_loopback usable;
           chosen = (if best \<noteq> None then best else fallback)
       in map_option (\<lambda>i. (snprint 16 (ifa_name i), the (ifa_inet i))) chosen)"

section \<open>The thread\<close>

text \<open>
  What a call of \<open>poll\<close> reports: that a signal interrupted it, that it failed, or which
  descriptors are ready: the datagram socket with what \<open>recvfrom\<close> then gives, the listening
  socket with what \<open>accept\<close> gives, and slots of the client table.
\<close>

datatype polled = Poll_interrupted | Poll_failed
  | Polled "(sockaddr \<times> string) option option" "int option option" "nat list"

primrec serve_clients :: "nat list \<Rightarrow> ssdp \<Rightarrow> ssdp res" where
  "serve_clients [] st = Inr st"
| "serve_clients (ci # cis) st =
     (let c = clients st ! ci in
      if cl_active c then
        bnd (handle_http_client (cl_fd c) st) (\<lambda>st.
          serve_clients cis (put_out (Closed (cl_fd c)) st\<lparr>clients := (clients st)[ci := c\<lparr>cl_active := False\<rparr>]\<rparr>))
      else serve_clients cis st)"

text \<open>One round of the loop, with whether the loop goes on.\<close>

definition ssdp_round :: "(nat \<Rightarrow> int) \<Rightarrow> (nat \<Rightarrow> nat) \<Rightarrow> polled \<Rightarrow> ssdp \<Rightarrow> (bool \<times> ssdp) res" where
  "ssdp_round clk rnd p st =
     (let (timeout, st) = timer_next_timeout clk st;
          polled_clients = filter (\<lambda>i. cl_active (clients st ! i)) [0..<MAX_CLIENTS]
      in case p of
        Poll_interrupted \<Rightarrow> Inr (True, st)
      | Poll_failed \<Rightarrow> Inr (False, st)
      | Polled datagram conn ready \<Rightarrow>
          bnd (timer_run_expired clk st) (\<lambda>st.
          bnd (case datagram of None \<Rightarrow> Inr st | Some d \<Rightarrow> handle_ssdp_recv clk rnd d st) (\<lambda>st.
          let st = (case conn of None \<Rightarrow> st | Some c \<Rightarrow> handle_tcp_accept c st) in
          bnd (serve_clients (filter (\<lambda>i. i \<in> set ready) polled_clients) st) (\<lambda>st. Inr (True, st)))))"

text \<open>The loop, over what the calls of \<open>poll\<close> report; nothing in the program stops it otherwise.\<close>

primrec ssdp_loop :: "(nat \<Rightarrow> int) \<Rightarrow> (nat \<Rightarrow> nat) \<Rightarrow> polled list \<Rightarrow> ssdp \<Rightarrow> (bool \<times> ssdp) res" where
  "ssdp_loop clk rnd [] st = Inr (True, st)"
| "ssdp_loop clk rnd (p # ps) st =
     bnd (ssdp_round clk rnd p st) (\<lambda>(go, st). if go then ssdp_loop clk rnd ps st else Inr (False, st))"

text \<open>
  The thread: \<open>uname\<close> gives system and release, \<open>sockets\<close> whether both sockets could be set up.
  \<open>None\<close> is a thread that ends before its loop; the state it then frees is of no more use.
\<close>

definition canon_ssdp_thread ::
    "(nat \<Rightarrow> int) \<Rightarrow> (nat \<Rightarrow> nat) \<Rightarrow> (string \<times> string) option \<Rightarrow> ifaddr list option \<Rightarrow> bool \<Rightarrow> polled list
      \<Rightarrow> ssdp \<Rightarrow> (bool \<times> ssdp) option res" where
  "canon_ssdp_thread clk rnd uname ifs sockets ps st =
     (let st = st\<lparr>server_id := snprint 256 (case uname of
            Some (sysname, release) \<Rightarrow> sysname @ ''/'' @ release @ '' UPnP/1.0 GSSDP/1.6.2''
          | None \<Rightarrow> ''Linux UPnP/1.0 GSSDP/1.6.2'')\<rparr>
      in if iface_select ifs = None \<or> \<not> sockets then Inr None
         else
           bnd (send_initial_announce clk st) (\<lambda>st.
           bnd (ssdp_loop clk rnd ps st) (\<lambda>(go, st).
             Inr (Some (go, if go then st else put_out (Multicast (build_byebye 1024)) st)))))"

text \<open>
  Starting the thread: the return value, and the state the thread gets when it could be created.
\<close>

definition zero_timer :: timer where
  "zero_timer = \<lparr>tm_deadline = 0, tm_fn = None, tm_active = False\<rparr>"

definition canon_ssdp_start :: "bool \<Rightarrow> vcam \<Rightarrow> (int \<times> ssdp option) res" where
  "canon_ssdp_start created cam =
     (let host_ip = (case custom_ip_addr cam of Some ip \<Rightarrow> ip | None \<Rightarrow> ''192.168.1.2'')
      in bnd (deref (cn_ssdp_modern (canon cam))) (\<lambda>modern.
        if \<not> created then Inr (-1, None)
        else Inr (0, Some \<lparr>location = snprint 128 (''http://'' @ host_ip @ '':49152/upnp/CameraDevDesc.xml''),
          urlbase = snprint 128 (''http://'' @ host_ip @ '':49152/upnp/''), server_id = [], modern_mode = modern,
          timers = replicate MAX_TIMERS zero_timer,
          mq = \<lparr>mq_msgs = replicate MSGQ_SIZE None, mq_head = 0, mq_tail = 0, mq_pacing = False\<rparr>,
          clients = replicate MAX_CLIENTS \<lparr>cl_fd = 0, cl_active = False\<rparr>, reads = 0, draws = 0, sent = []\<rparr>)))"

end
