(* ===== verification/Canon_Ssdp_Theorems.thy ===== *)
theory Canon_Ssdp_Theorems
  imports Canon_Ssdp
begin

text \<open>
  Properties of the discovery responder: the ring is a bounded queue, announcements leave in
  order and paced, a full table of timers ends them, and which searches are answered.
\<close>

section \<open>Bounded queues\<close>

locale bounded_queue =
  fixes full :: "'q \<Rightarrow> bool" and empty :: "'q \<Rightarrow> bool" and push :: "'a \<Rightarrow> 'q \<Rightarrow> 'q"
    and pop :: "'q \<Rightarrow> ('a \<times> 'q) res" and items :: "'q \<Rightarrow> 'a list" and ok :: "'q \<Rightarrow> bool" and cap :: nat
  assumes full_iff: "ok q \<Longrightarrow> full q \<longleftrightarrow> length (items q) = cap"
    and empty_iff: "ok q \<Longrightarrow> empty q \<longleftrightarrow> items q = []"
    and push_ok: "ok q \<Longrightarrow> \<not> full q \<Longrightarrow> ok (push x q)"
    and push_items: "ok q \<Longrightarrow> \<not> full q \<Longrightarrow> items (push x q) = items q @ [x]"
    and pop_first: "ok q \<Longrightarrow> items q = x # xs \<Longrightarrow> \<exists>q'. pop q = Inr (x, q') \<and> ok q' \<and> items q' = xs"
begin

lemma pop_nonempty:
  assumes "ok q" "\<not> empty q"
  obtains x q' where "pop q = Inr (x, q')" "ok q'" "items q = x # items q'"
proof -
  from assms empty_iff obtain x xs where "items q = x # xs" by (cases "items q") auto
  with pop_first [OF assms(1)] that show thesis by blast
qed

lemma push_then_pop:
  assumes "ok q" "empty q" "\<not> full q"
  shows "\<exists>q'. pop (push x q) = Inr (x, q') \<and> ok q' \<and> items q' = []"
  using pop_first [OF push_ok [OF assms(1,3)], of x x "[]"] push_items [OF assms(1,3), of x] empty_iff assms by simp

end

definition ring_count :: "msgq \<Rightarrow> nat" where
  "ring_count q = (if mq_head q \<le> mq_tail q then mq_tail q - mq_head q else mq_tail q + 128 - mq_head q)"

definition ring_at :: "msgq \<Rightarrow> nat \<Rightarrow> string option" where
  "ring_at q k = mq_msgs q ! ((mq_head q + k) mod 128)"

definition ring_items :: "msgq \<Rightarrow> string list" where
  "ring_items q = map (\<lambda>k. the (ring_at q k)) [0..<ring_count q]"

definition ring_ok :: "msgq \<Rightarrow> bool" where
  "ring_ok q \<longleftrightarrow> length (mq_msgs q) = 128 \<and> mq_head q < 128 \<and> mq_tail q < 128 \<and> (\<forall>k<ring_count q. ring_at q k \<noteq> None)"

lemma wrap: "a < 128 \<Longrightarrow> b < 128 \<Longrightarrow> (a + b) mod 128 = (if a + b < 128 then a + b else a + b - 128)" for a b :: nat
  by (simp add: mod_if)

lemma ring_full_iff: "ring_ok q \<Longrightarrow> ring_full q \<longleftrightarrow> ring_count q = 127"
  unfolding ring_ok_def ring_full_def ring_count_def using wrap [of "mq_tail q" 1] by auto

lemma ring_push_at:
  assumes "ring_ok q" "\<not> ring_full q"
  shows "ring_count (ring_push x q) = Suc (ring_count q)"
    and "k < ring_count q \<Longrightarrow> ring_at (ring_push x q) k = ring_at q k"
    and "ring_at (ring_push x q) (ring_count q) = Some x"
  using assms wrap [of "mq_tail q" 1] wrap [of "mq_head q" k] wrap [of "mq_head q" "ring_count q"]
  by (auto simp: ring_ok_def ring_full_def ring_push_def ring_count_def ring_at_def nth_list_update split: if_splits)

lemma ring_push_ok: "ring_ok q \<Longrightarrow> \<not> ring_full q \<Longrightarrow> ring_ok (ring_push x q)"
  using ring_push_at [of q] unfolding ring_ok_def [of "ring_push x q"]
  by (auto simp: less_Suc_eq ring_ok_def ring_push_def)

lemma ring_push_items: "ring_ok q \<Longrightarrow> \<not> ring_full q \<Longrightarrow> ring_items (ring_push x q) = ring_items q @ [x]"
  using ring_push_at [of q] by (simp add: ring_items_def)

lemma ring_pop_at:
  assumes "ring_ok q" "ring_count q = Suc n"
  shows "\<exists>x q'. ring_pop q = Inr (x, q') \<and> ring_at q 0 = Some x \<and> ring_count q' = n \<and>
     (\<forall>k<n. ring_at q' k = ring_at q (Suc k)) \<and> mq_head q' < 128 \<and> mq_tail q' < 128 \<and> length (mq_msgs q') = 128"
proof -
  from assms obtain x where x: "mq_msgs q ! mq_head q = Some x"
    by (force simp: ring_ok_def ring_at_def)
  let ?q = "q\<lparr>mq_msgs := (mq_msgs q)[mq_head q := None], mq_head := (mq_head q + 1) mod MSGQ_SIZE\<rparr>"
  have b: "mq_head q < 128" "mq_tail q < 128" "length (mq_msgs q) = 128" using assms(1) by (simp_all add: ring_ok_def)
  have n: "n = ring_count q - 1" "ring_count q > 0" using assms(2) by simp_all
  have c: "ring_count ?q = n" unfolding n(1) using n(2) b wrap [of "mq_head q" 1] by (auto simp: ring_count_def split: if_splits)
  have "ring_at ?q k = ring_at q (Suc k)" if "k < n" for k
  proof -
    have "k < 127" using that n b by (auto simp: ring_count_def split: if_splits)
    then have "((mq_head q + 1) mod 128 + k) mod 128 = (mq_head q + Suc k) mod 128" "(mq_head q + Suc k) mod 128 \<noteq> mq_head q"
      using b wrap [of "mq_head q" "Suc k"] by (auto simp: mod_simps)
    then show ?thesis by (simp add: ring_at_def)
  qed
  then show ?thesis using x c b by (intro exI [of _ x] exI [of _ ?q]) (simp add: ring_pop_def ring_at_def)
qed

lemma ring_pop_first:
  assumes "ring_ok q" "ring_items q = x # xs"
  shows "\<exists>q'. ring_pop q = Inr (x, q') \<and> ring_ok q' \<and> ring_items q' = xs"
proof -
  from assms(2) obtain n where n: "ring_count q = Suc n" by (cases "ring_count q") (auto simp: ring_items_def)
  from ring_pop_at [OF assms(1) n] obtain y q' where q': "ring_pop q = Inr (y, q')" "ring_at q 0 = Some y" "ring_count q' = n"
    "\<forall>k<n. ring_at q' k = ring_at q (Suc k)" "mq_head q' < 128" "mq_tail q' < 128" "length (mq_msgs q') = 128" by blast
  have "ring_items q = y # map (\<lambda>k. the (ring_at q (Suc k))) [0..<n]"
    using q'(2) by (simp add: ring_items_def n map_upt_Suc del: upt_Suc)
  moreover have "ring_items q' = map (\<lambda>k. the (ring_at q (Suc k))) [0..<n]" using q'(3,4) by (simp add: ring_items_def)
  moreover have "ring_ok q'" using assms(1) q' n by (simp add: ring_ok_def)
  ultimately show ?thesis using assms(2) q'(1) by simp
qed

interpretation ring: bounded_queue ring_full ring_empty ring_push ring_pop ring_items ring_ok 127
proof unfold_locales
  show "ring_ok q \<Longrightarrow> ring_empty q \<longleftrightarrow> ring_items q = []" for q
    by (auto simp: ring_empty_def ring_items_def ring_count_def ring_ok_def)
qed (simp_all add: ring_full_iff ring_push_ok ring_push_items ring_pop_first, simp add: ring_items_def)

lemma mq_pacing_push [simp]: "mq_pacing (ring_push x q) = mq_pacing q"
  by (simp add: ring_push_def)

lemma ring_pacing [simp]:
  "ring_items (q\<lparr>mq_pacing := b\<rparr>) = ring_items q" "ring_ok (q\<lparr>mq_pacing := b\<rparr>) = ring_ok q"
  "ring_empty (q\<lparr>mq_pacing := b\<rparr>) = ring_empty q" "ring_full (q\<lparr>mq_pacing := b\<rparr>) = ring_full q"
  by (simp_all add: ring_items_def ring_ok_def ring_count_def ring_at_def ring_empty_def ring_full_def)

lemma ring_pop_pacing: "ring_pop q = Inr (x, q') \<Longrightarrow> mq_pacing q' = mq_pacing q"
  by (auto simp: ring_pop_def)


section \<open>The state of the announcements\<close>

definition runs :: "timer_fn \<Rightarrow> timer \<Rightarrow> bool" where
  "runs fn t \<longleftrightarrow> tm_active t \<and> tm_fn t = Some fn"

definition nowhere :: "timer_fn \<Rightarrow> timer list \<Rightarrow> bool" where
  "nowhere fn ts \<longleftrightarrow> (\<forall>i<length ts. \<not> runs fn (ts ! i))"

definition lone :: "timer_fn \<Rightarrow> timer list \<Rightarrow> bool" where
  "lone fn ts \<longleftrightarrow> (\<forall>i<length ts. \<forall>j<length ts. runs fn (ts ! i) \<longrightarrow> runs fn (ts ! j) \<longrightarrow> i = j)"

definition group_of :: "nat \<times> ssdp_out \<Rightarrow> (nat \<times> string) list" where
  "group_of = (\<lambda>(r, x). case x of Multicast m \<Rightarrow> [(r, m)] | _ \<Rightarrow> [])"

text \<open>The messages sent to the group, each with the number of readings of the clock before it.\<close>

definition mcasts :: "ssdp \<Rightarrow> (nat \<times> string) list" where
  "mcasts st = concat (map group_of (sent st))"

text \<open>All messages of the group, sent and waiting.\<close>

definition stream :: "ssdp \<Rightarrow> string list" where
  "stream st = map snd (mcasts st) @ ring_items (mq st)"

definition apart :: "(nat \<Rightarrow> int) \<Rightarrow> (nat \<times> string) list \<Rightarrow> bool" where
  "apart clk = successively (\<lambda>a b. clk (fst a) + 120 \<le> clk (fst b))"

definition gap_until :: "(nat \<Rightarrow> int) \<Rightarrow> ssdp \<Rightarrow> int \<Rightarrow> bool" where
  "gap_until clk st t \<longleftrightarrow> mcasts st = [] \<or> clk (fst (last (mcasts st))) + 120 \<le> t"

definition gap_over :: "(nat \<Rightarrow> int) \<Rightarrow> ssdp \<Rightarrow> bool" where
  "gap_over clk st \<longleftrightarrow> mcasts st = [] \<or> (\<exists>k<reads st. gap_until clk st (clk k))"

text \<open>What holds in every state, and what the tick of the queue finds when it is called.\<close>

definition sound :: "(nat \<Rightarrow> int) \<Rightarrow> ssdp \<Rightarrow> bool" where
  "sound clk st \<longleftrightarrow> length (timers st) = 256 \<and> (\<forall>i<256. tm_active (timers st ! i) \<longrightarrow> tm_fn (timers st ! i) \<noteq> None) \<and>
     ring_ok (mq st) \<and> lone Msgq_tick (timers st) \<and> lone Reannounce_tick (timers st) \<and> apart clk (mcasts st)"

definition announcing :: "(nat \<Rightarrow> int) \<Rightarrow> ssdp \<Rightarrow> bool" where
  "announcing clk st \<longleftrightarrow> sound clk st \<and>
     (\<forall>i<256. runs Msgq_tick (timers st ! i) \<longrightarrow> gap_until clk st (tm_deadline (timers st ! i))) \<and>
     (\<not> mq_pacing (mq st) \<longrightarrow> ring_empty (mq st) \<and> nowhere Msgq_tick (timers st) \<and> gap_over clk st)"

definition tick_due :: "(nat \<Rightarrow> int) \<Rightarrow> ssdp \<Rightarrow> bool" where
  "tick_due clk st \<longleftrightarrow> sound clk st \<and> mq_pacing (mq st) \<and> nowhere Msgq_tick (timers st) \<and> gap_over clk st"

lemma tick_due_announcing: "tick_due clk st \<Longrightarrow> announcing clk st"
  by (simp add: tick_due_def announcing_def sound_def nowhere_def)

lemmas group_simps = mcasts_def group_of_def put_out_def

lemma group_put_out [simp]:
  "mcasts (put_out (Multicast m) st) = mcasts st @ [(reads st, m)]"
  "mcasts (put_out (Unicast a m) st) = mcasts st"
  "mcasts (put_out (Http c m) st) = mcasts st"
  "mcasts (put_out (Closed c) st) = mcasts st"
  by (simp_all add: group_simps)

lemma put_out_other [simp]:
  "timers (put_out x st) = timers st" "mq (put_out x st) = mq st" "reads (put_out x st) = reads st"
  "location (put_out x st) = location st" "server_id (put_out x st) = server_id st"
  "modern_mode (put_out x st) = modern_mode st" "clients (put_out x st) = clients st" "urlbase (put_out x st) = urlbase st"
  by (simp_all add: put_out_def)

lemma group_upd [simp]:
  "mcasts (st\<lparr>timers := ts\<rparr>) = mcasts st" "mcasts (st\<lparr>mq := q\<rparr>) = mcasts st" "mcasts (st\<lparr>reads := n\<rparr>) = mcasts st"
  "mcasts (st\<lparr>clients := cs\<rparr>) = mcasts st" "mcasts (st\<lparr>draws := n\<rparr>) = mcasts st"
  by (simp_all add: mcasts_def)

lemma free_slot_Some: "free_slot ts = Some i \<Longrightarrow> i < length ts \<and> \<not> tm_active (ts ! i)"
  by (auto simp: free_slot_def dest: find_filter_Some)

lemma free_slot_None: "free_slot ts = None \<longleftrightarrow> (\<forall>i<length ts. tm_active (ts ! i))"
  by (auto simp: free_slot_def find_None_conv)

lemma timer_add_cases:
  obtains (full) "free_slot (timers st) = None" "timer_add clk d fn st = st"
  | (slot) i where "i < length (timers st)" "\<not> tm_active (timers st ! i)" "free_slot (timers st) = Some i"
      "timer_add clk d fn st = st\<lparr>timers := (timers st)[i := \<lparr>tm_deadline = clk (reads st) + d, tm_fn = Some fn, tm_active = True\<rparr>],
         reads := reads st + 1\<rparr>"
proof (cases "free_slot (timers st)")
  case None
  then show ?thesis using full by (simp add: timer_add_def)
next
  case (Some i)
  then show ?thesis using slot [of i] free_slot_Some [OF Some] by (simp add: timer_add_def)
qed

lemma timer_add_frame [simp]:
  "mcasts (timer_add clk d fn st) = mcasts st" "mq (timer_add clk d fn st) = mq st" "sent (timer_add clk d fn st) = sent st"
  "location (timer_add clk d fn st) = location st" "server_id (timer_add clk d fn st) = server_id st"
  "modern_mode (timer_add clk d fn st) = modern_mode st" "reads st \<le> reads (timer_add clk d fn st)"
  "length (timers (timer_add clk d fn st)) = length (timers st)"
  by (simp_all add: timer_add_def split: option.split)

lemma timer_add_nowhere:
  "nowhere f (timers st) \<Longrightarrow> f \<noteq> fn \<Longrightarrow> nowhere f (timers (timer_add clk d fn st))"
  by (cases rule: timer_add_cases [of st clk d fn]) (auto simp: nowhere_def nth_list_update runs_def)

lemma gap_over_now:
  assumes "gap_over clk st" "mono clk"
  shows "gap_until clk st (clk (reads st))"
proof (cases "mcasts st = []")
  case False
  then obtain k where "k < reads st" "gap_until clk st (clk k)" using assms(1) by (auto simp: gap_over_def)
  then show ?thesis using monoD [OF assms(2), of k "reads st"] by (auto simp: gap_until_def)
qed (simp add: gap_until_def)

lemma gap_over_later: "gap_over clk st \<Longrightarrow> mcasts st' = mcasts st \<Longrightarrow> reads st \<le> reads st' \<Longrightarrow> gap_over clk st'"
  by (auto simp: gap_over_def gap_until_def)

text \<open>A timer that is started where there is none of its kind.\<close>

lemma sound_timer_add:
  assumes "sound clk st" "fn \<in> {Msgq_tick, Reannounce_tick} \<longrightarrow> nowhere fn (timers st)"
  shows "sound clk (timer_add clk d fn st)"
proof (cases rule: timer_add_cases [of st clk d fn])
  case full
  then show ?thesis using assms by simp
next
  case (slot i)
  then show ?thesis using assms slot(1,2) unfolding slot(4)
    by (auto simp: sound_def lone_def nowhere_def runs_def nth_list_update)
qed

lemma announcing_timer_add:
  assumes "announcing clk st" "fn \<noteq> Msgq_tick" "fn = Reannounce_tick \<longrightarrow> nowhere fn (timers st)"
  shows "announcing clk (timer_add clk d fn st)"
proof -
  have s: "sound clk (timer_add clk d fn st)" using assms by (intro sound_timer_add) (auto simp: announcing_def)
  show ?thesis
  proof (cases rule: timer_add_cases [of st clk d fn])
    case full
    then show ?thesis using assms by simp
  next
    case (slot i)
    then show ?thesis using assms s unfolding slot(4)
      by (auto simp: announcing_def runs_def nowhere_def nth_list_update gap_until_def gap_over_def)
  qed
qed

text \<open>A timer that has run out is taken off before its callback runs.\<close>

lemma announcing_stop:
  assumes "announcing clk st" "i < 256"
  shows "announcing clk (st\<lparr>timers := (timers st)[i := t\<lparr>tm_active := False\<rparr>]\<rparr>)"
  using assms
  by (auto simp: announcing_def sound_def lone_def nowhere_def runs_def nth_list_update gap_until_def gap_over_def)

lemma tick_due_stop:
  assumes "announcing clk st" "i < 256" "runs Msgq_tick (timers st ! i)" "k < reads st" "tm_deadline (timers st ! i) \<le> clk k"
  shows "tick_due clk (st\<lparr>timers := (timers st)[i := t\<lparr>tm_active := False\<rparr>]\<rparr>)"
proof -
  let ?st = "st\<lparr>timers := (timers st)[i := t\<lparr>tm_active := False\<rparr>]\<rparr>"
  have "sound clk ?st" using announcing_stop [OF assms(1,2)] by (simp add: announcing_def)
  moreover have "mq_pacing (mq st)" using assms by (auto simp: announcing_def sound_def nowhere_def)
  moreover have "nowhere Msgq_tick (timers ?st)" using assms
    by (auto simp: nowhere_def nth_list_update runs_def lone_def announcing_def sound_def)
  moreover have "gap_until clk st (tm_deadline (timers st ! i))" using assms by (simp add: announcing_def)
  then have "gap_over clk ?st" using assms(4,5) by (auto simp: gap_over_def gap_until_def)
  ultimately show ?thesis by (simp add: tick_due_def)
qed


text \<open>What a part of a run does to the announcements.\<close>

definition alive_text :: "ssdp \<Rightarrow> string" where
  "alive_text st = build_alive 1024 st"

definition same_text :: "ssdp \<Rightarrow> ssdp \<Rightarrow> bool" where
  "same_text st st' \<longleftrightarrow> location st' = location st \<and> modern_mode st' = modern_mode st \<and> server_id st' = server_id st"

definition only_alive :: "ssdp \<Rightarrow> ssdp \<Rightarrow> bool" where
  "only_alive st st' \<longleftrightarrow> same_text st st' \<and> reads st \<le> reads st' \<and>
     (\<exists>n. stream st' = stream st @ replicate n (build_alive 1024 st)) \<and>
     (nowhere Reannounce_tick (timers st) \<longrightarrow> nowhere Reannounce_tick (timers st') \<and> stream st' = stream st)"

lemma same_text_alive: "same_text st st' \<Longrightarrow> build_alive n st' = build_alive n st"
  by (simp add: same_text_def build_alive_def)

lemma only_alive_refl [simp]: "only_alive st st"
  by (auto simp: only_alive_def same_text_def intro: exI [of _ 0])

lemma only_alive_trans:
  assumes "only_alive a b" "only_alive b c"
  shows "only_alive a c"
proof -
  obtain n m where "stream b = stream a @ replicate n (build_alive 1024 a)" "stream c = stream b @ replicate m (build_alive 1024 b)"
    using assms by (auto simp: only_alive_def)
  then have "stream c = stream a @ replicate (n + m) (build_alive 1024 a)"
    using assms same_text_alive [of a b] by (simp add: only_alive_def replicate_add)
  then show ?thesis using assms by (auto simp: only_alive_def same_text_def)
qed

lemma apart_snoc: "apart clk (xs @ [x]) \<longleftrightarrow> apart clk xs \<and> (xs = [] \<or> clk (fst (last xs)) + 120 \<le> clk (fst x))"
  by (auto simp: apart_def successively_append_iff)

text \<open>The tick sends the message at the front of the queue, which then waits 120 ms again.\<close>

lemma tick_keeps:
  assumes "tick_due clk st" "mono clk"
  shows "\<exists>st'. msgq_tick clk st = Inr st' \<and> announcing clk st' \<and> stream st' = stream st \<and> same_text st st' \<and>
     reads st \<le> reads st' \<and> length (ring_items (mq st')) \<le> length (ring_items (mq st)) \<and> (nowhere Reannounce_tick (timers st) \<longrightarrow> nowhere Reannounce_tick (timers st'))"
proof (cases "ring_empty (mq st)")
  case True
  let ?st = "st\<lparr>mq := (mq st)\<lparr>mq_pacing := False\<rparr>\<rparr>"
  have "announcing clk ?st" using assms(1) True
    by (auto simp: tick_due_def announcing_def sound_def nowhere_def gap_over_def gap_until_def)
  then show ?thesis using True by (simp add: msgq_tick_def stream_def same_text_def)
next
  case False
  have ok: "ring_ok (mq st)" "sound clk st" using assms(1) by (simp_all add: tick_due_def sound_def)
  obtain m q where q: "ring_pop (mq st) = Inr (m, q)" "ring_ok q" "ring_items (mq st) = m # ring_items q"
    by (rule ring.pop_nonempty [OF ok(1) False])
  let ?s = "put_out (Multicast m) (st\<lparr>mq := q\<rparr>)"
  have p: "mq_pacing q" using assms(1) ring_pop_pacing [OF q(1)] by (simp add: tick_due_def)
  have "mcasts st = [] \<or> clk (fst (last (mcasts st))) + 120 \<le> clk (reads st)"
    using assms gap_over_now [of clk st] by (simp add: tick_due_def gap_until_def)
  then have s: "sound clk ?s" using ok q(2) by (simp add: sound_def apart_snoc)
  have n: "nowhere Msgq_tick (timers st)" using assms(1) by (simp add: tick_due_def)
  have "announcing clk (timer_add clk 120 Msgq_tick ?s)"
  proof (cases rule: timer_add_cases [of ?s clk 120 Msgq_tick])
    case full
    then show ?thesis using s n p ok(2) by (simp add: announcing_def nowhere_def sound_def)
  next
    case (slot i)
    have "sound clk (timer_add clk 120 Msgq_tick ?s)" using sound_timer_add [OF s] n by simp
    then show ?thesis using n p ok(2) slot(1) unfolding slot(4)
      by (auto simp: announcing_def nowhere_def sound_def nth_list_update gap_until_def runs_def)
  qed
  moreover have "nowhere Reannounce_tick (timers st) \<Longrightarrow> nowhere Reannounce_tick (timers (timer_add clk 120 Msgq_tick ?s))"
    by (rule timer_add_nowhere) simp_all
  moreover have "stream (timer_add clk 120 Msgq_tick ?s) = stream st" "reads st \<le> reads (timer_add clk 120 Msgq_tick ?s)"
    "same_text st (timer_add clk 120 Msgq_tick ?s)"
    using q(3) timer_add_frame(7) [of ?s clk 120 Msgq_tick] by (simp_all add: stream_def same_text_def del: timer_add_frame(7))
  ultimately show ?thesis using False q(1,3) by (simp add: msgq_tick_def)
qed

lemma push_keeps:
  assumes "announcing clk st" "mono clk"
  shows "\<exists>st'. msgq_push clk m st = Inr st' \<and> announcing clk st' \<and> same_text st st' \<and> reads st \<le> reads st' \<and>
     stream st' = (if ring_full (mq st) then stream st else stream st @ [m]) \<and>
     length (ring_items (mq st')) \<le> Suc (length (ring_items (mq st))) \<and>
     (nowhere Reannounce_tick (timers st) \<longrightarrow> nowhere Reannounce_tick (timers st'))"
proof -
  have ok: "ring_ok (mq st)" using assms(1) by (simp add: announcing_def sound_def)
  consider (full) "ring_full (mq st)" | (wait) "\<not> ring_full (mq st)" "mq_pacing (mq st)"
    | (now) "\<not> ring_full (mq st)" "\<not> mq_pacing (mq st)" by blast
  then show ?thesis
  proof cases
    case full
    then show ?thesis using assms by (simp add: msgq_push_def same_text_def)
  next
    case wait
    let ?st = "st\<lparr>mq := ring_push m (mq st)\<rparr>"
    have "announcing clk ?st" using assms(1) wait ring.push_ok [OF ok]
      by (simp add: announcing_def sound_def gap_until_def)
    then show ?thesis using wait ring.push_items [OF ok]
      by (simp add: msgq_push_def same_text_def stream_def)
  next
    case now
    let ?st = "st\<lparr>mq := (ring_push m (mq st))\<lparr>mq_pacing := True\<rparr>\<rparr>"
    have "tick_due clk ?st" using assms(1) now ring.push_ok [OF ok]
      by (auto simp: announcing_def tick_due_def sound_def gap_over_def gap_until_def)
    from tick_keeps [OF this assms(2)] show ?thesis using now ring.push_items [OF ok]
      by (auto simp: msgq_push_def stream_def same_text_def)
  qed
qed

lemma pushes_keep:
  assumes "mono clk" "announcing clk st"
  shows "\<exists>st' n. push_times clk k m st = Inr st' \<and> announcing clk st' \<and> same_text st st' \<and> reads st \<le> reads st' \<and>
     n \<le> k \<and> stream st' = stream st @ replicate n m \<and> (length (ring_items (mq st)) + k \<le> 127 \<longrightarrow> n = k) \<and>
     (nowhere Reannounce_tick (timers st) \<longrightarrow> nowhere Reannounce_tick (timers st'))"
  using assms(2)
proof (induction k arbitrary: st)
  case 0
  then show ?case by (auto simp: same_text_def)
next
  case (Suc k)
  from push_keeps [OF Suc.prems assms(1), of m] obtain s where s: "msgq_push clk m st = Inr s" "announcing clk s" "same_text st s"
    "reads st \<le> reads s" "stream s = (if ring_full (mq st) then stream st else stream st @ [m])"
    "length (ring_items (mq s)) \<le> Suc (length (ring_items (mq st)))" "nowhere Reannounce_tick (timers st) \<longrightarrow> nowhere Reannounce_tick (timers s)" by blast
  from Suc.IH [OF s(2)] obtain t n where t: "push_times clk k m s = Inr t" "announcing clk t" "same_text s t"
    "reads s \<le> reads t" "n \<le> k" "stream t = stream s @ replicate n m"
    "length (ring_items (mq s)) + k \<le> 127 \<longrightarrow> n = k" "nowhere Reannounce_tick (timers s) \<longrightarrow> nowhere Reannounce_tick (timers t)" by blast
  have "\<exists>i\<le>Suc k. stream t = stream st @ replicate i m \<and> (length (ring_items (mq st)) + Suc k \<le> 127 \<longrightarrow> i = Suc k)"
  proof (cases "ring_full (mq st)")
    case True
    then have "length (ring_items (mq st)) = 127" using ring.full_iff Suc.prems by (simp add: announcing_def sound_def)
    then show ?thesis using True s(5) t(5,6) by (intro exI [of _ n]) simp
  next
    case False
    then show ?thesis using s(5,6) t(5,6,7) by (intro exI [of _ "Suc n"]) simp
  qed
  then show ?case using s t by (auto simp: same_text_def)
qed


section \<open>A round of the loop\<close>

lemma announcing_frame:
  assumes "announcing clk st" "timers st' = timers st" "mq st' = mq st" "mcasts st' = mcasts st" "reads st \<le> reads st'"
  shows "announcing clk st'"
  using assms gap_over_later [of clk st st'] by (auto simp: announcing_def sound_def gap_until_def)

lemma only_alive_frame:
  assumes "timers st' = timers st" "mq st' = mq st" "mcasts st' = mcasts st" "reads st \<le> reads st'" "same_text st st'"
  shows "only_alive st st'"
  using assms by (auto simp: only_alive_def stream_def intro: exI [of _ 0])

lemma fire_keeps:
  assumes "announcing clk st" "mono clk" "i < 256" "runs fn (timers st ! i)" "k < reads st" "tm_deadline (timers st ! i) \<le> clk k"
  shows "\<exists>st'. timer_fire clk fn (st\<lparr>timers := (timers st)[i := (timers st ! i)\<lparr>tm_active := False\<rparr>]\<rparr>) = Inr st' \<and>
     announcing clk st' \<and> only_alive st st'"
proof -
  let ?s = "st\<lparr>timers := (timers st)[i := (timers st ! i)\<lparr>tm_active := False\<rparr>]\<rparr>"
  have a: "announcing clk ?s" and len: "length (timers st) = 256"
    using announcing_stop [OF assms(1,3)] assms(1) by (simp_all add: announcing_def sound_def)
  have stop: "nowhere f (timers st) \<Longrightarrow> nowhere f (timers ?s)" for f
    using len assms(3) by (auto simp: nowhere_def nth_list_update runs_def)
  have st: "stream ?s = stream st" "build_alive n ?s = build_alive n st" for n by (simp_all add: stream_def build_alive_def)
  show ?thesis
  proof (cases fn)
    case Msgq_tick
    then have "tick_due clk ?s" using assms by (intro tick_due_stop) auto
    from tick_keeps [OF this assms(2)] show ?thesis
      using Msgq_tick stop st(1) by (fastforce simp: timer_fire_def only_alive_def same_text_def intro: exI [of _ 0])
  next
    case Reannounce_tick
    have n: "nowhere Reannounce_tick (timers ?s)" "\<not> nowhere Reannounce_tick (timers st)" using assms len Reannounce_tick
      by (auto simp: nowhere_def nth_list_update runs_def lone_def announcing_def sound_def)
    from pushes_keep [OF assms(2) a, of 3 "build_alive 1024 st"] obtain t j where t: "push_times clk 3 (build_alive 1024 st) ?s = Inr t"
      "announcing clk t" "same_text ?s t" "reads ?s \<le> reads t" "stream t = stream ?s @ replicate j (build_alive 1024 st)"
      "nowhere Reannounce_tick (timers t)" using n(1) by blast
    let ?t = "timer_add clk (599 * 1000) Reannounce_tick t"
    have "announcing clk ?t" by (rule announcing_timer_add) (use t(2,6) in auto)
    moreover have "stream ?t = stream st @ replicate j (build_alive 1024 st)" "reads st \<le> reads ?t"
      using t(4,5) timer_add_frame(7) [of t clk "599 * 1000" Reannounce_tick] by (simp_all add: stream_def del: timer_add_frame(7))
    moreover have "same_text st ?t" using t(3) by (simp add: same_text_def)
    ultimately show ?thesis using Reannounce_tick t(1) st(2) n(2)
      by (auto simp: timer_fire_def reannounce_tick_def only_alive_def)
  next
    case (Delayed_resp_send dest m)
    have "announcing clk (put_out (Unicast dest m) ?s)" by (rule announcing_frame [OF a]) simp_all
    then show ?thesis using Delayed_resp_send stop
      by (auto simp: timer_fire_def only_alive_def stream_def same_text_def intro: exI [of _ 0])
  qed
qed

lemma slots_keep:
  assumes "mono clk" "announcing clk st" "set is \<subseteq> {..<256}" "k < reads st" "now = clk k"
  shows "\<exists>st'. run_slots clk now is st = Inr st' \<and> announcing clk st' \<and> only_alive st st'"
  using assms(2-4)
proof (induction "is" arbitrary: st)
  case Nil
  then show ?case by simp
next
  case (Cons i "is")
  let ?t = "timers st ! i"
  show ?case
  proof (cases "tm_active ?t \<and> tm_deadline ?t \<le> now")
    case True
    then obtain fn where fn: "tm_fn ?t = Some fn" using Cons.prems by (auto simp: announcing_def sound_def)
    have "runs fn ?t" using True fn by (simp add: runs_def)
    from fire_keeps [OF Cons.prems(1) assms(1) _ this Cons.prems(3)] obtain s where
      s: "timer_fire clk fn (st\<lparr>timers := (timers st)[i := ?t\<lparr>tm_active := False\<rparr>]\<rparr>) = Inr s" "announcing clk s" "only_alive st s"
      using True Cons.prems(2) assms(5) by auto
    have "k < reads s" using s(3) Cons.prems(3) by (simp add: only_alive_def)
    from Cons.IH [OF s(2) _ this] obtain s' where "run_slots clk now is s = Inr s'" "announcing clk s'" "only_alive s s'"
      using Cons.prems(2) by auto
    then show ?thesis using True fn s only_alive_trans [OF s(3)] by (simp add: Let_def)
  next
    case False
    from Cons.IH [OF Cons.prems(1) _ Cons.prems(3)] Cons.prems(2) show ?thesis using False by (auto simp: Let_def)
  qed
qed

lemma expired_keep:
  assumes "mono clk" "announcing clk st"
  shows "\<exists>st'. timer_run_expired clk st = Inr st' \<and> announcing clk st' \<and> only_alive st st'"
proof -
  let ?s = "st\<lparr>reads := reads st + 1\<rparr>"
  have "announcing clk ?s" by (rule announcing_frame [OF assms(2)]) simp_all
  from slots_keep [OF assms(1) this, of "[0..<256]" "reads st" "clk (reads st)"] obtain st' where
    st': "run_slots clk (clk (reads st)) [0..<256] ?s = Inr st'" "announcing clk st'" "only_alive ?s st'" by (auto simp: atLeast0LessThan)
  have "only_alive st ?s" by (rule only_alive_frame) (simp_all add: same_text_def)
  then show ?thesis using st' only_alive_trans by (auto simp: timer_run_expired_def)
qed

text \<open>Whether the \<open>MX\<close> header of a datagram, if it has one, is a number that fits an \<open>int\<close>.\<close>

definition mx_fits :: "string \<Rightarrow> bool" where
  "mx_fits d \<longleftrightarrow> (\<forall>mx. find_header (datagram_text d) ''MX'' = Some mx \<longrightarrow> (\<exists>n. atoi (header_value mx 256) = Inr n))"

definition searches_fit :: "polled \<Rightarrow> bool" where
  "searches_fit p \<longleftrightarrow> (case p of Polled (Some (Some (a, d))) c r \<Rightarrow> mx_fits d | _ \<Rightarrow> True)"

lemma msearch_result:
  assumes "mx_fits d"
  shows "handle_ssdp_recv clk rnd (Some (a, d)) st = Inr st \<or> (\<exists>delay. handle_ssdp_recv clk rnd (Some (a, d)) st =
     Inr (timer_add clk delay (Delayed_resp_send a (build_response 512 st)) (st\<lparr>draws := draws st + 1\<rparr>)))"
proof (cases "find_header (datagram_text d) ''MX''")
  case None
  then show ?thesis by (auto simp: handle_ssdp_recv_def handle_msearch_def Let_def split: option.split)
next
  case (Some mx)
  then obtain n where "atoi (header_value mx 256) = Inr n" using assms by (auto simp: mx_fits_def)
  then show ?thesis using Some by (auto simp: handle_ssdp_recv_def handle_msearch_def Let_def split: option.split)
qed

lemma recv_keeps:
  assumes "announcing clk st" "\<forall>a d'. d = Some (a, d') \<longrightarrow> mx_fits d'"
  shows "\<exists>st'. handle_ssdp_recv clk rnd d st = Inr st' \<and> announcing clk st' \<and> only_alive st st'"
proof (cases d)
  case None
  then show ?thesis using assms(1) by (simp add: handle_ssdp_recv_def)
next
  case (Some ad)
  obtain a d' where d: "d = Some (a, d')" using Some by (cases ad) auto
  let ?s = "st\<lparr>draws := draws st + 1\<rparr>" and ?f = "Delayed_resp_send a (build_response 512 st)"
  have "announcing clk ?s" by (rule announcing_frame [OF assms(1)]) simp_all
  then have "announcing clk (timer_add clk x ?f ?s)" for x by (rule announcing_timer_add) simp_all
  moreover have "only_alive st (timer_add clk x ?f ?s)" for x
    using timer_add_nowhere [of Reannounce_tick ?s ?f clk x] timer_add_frame(7) [of ?s clk x ?f]
    by (auto simp: only_alive_def same_text_def stream_def intro: exI [of _ 0] simp del: timer_add_frame(7))
  ultimately show ?thesis using msearch_result [of d' clk rnd a st] assms d by auto
qed

lemma length_snprint: "length (snprint n s) \<le> n - 1"
  by (simp add: snprint_def)

lemma http_response_fits: "length (http_response st) < 4096"
proof -
  let ?n = "length (build_device_xml 2048 st)"
  have n: "?n \<le> 2047" using length_snprint [of 2048] by (simp add: build_device_xml_def)
  then have "length (dec_digits ?n) \<le> 4" by (intro dec_digits_len) simp_all
  then show ?thesis using n by (simp add: http_response_def fmt_dec_def Let_def)
qed

lemma clients_keep:
  "announcing clk st \<Longrightarrow> \<exists>st'. serve_clients cis st = Inr st' \<and> announcing clk st' \<and> only_alive st st'"
proof (induction cis arbitrary: st)
  case Nil
  then show ?case by simp
next
  case (Cons ci cis)
  let ?c = "clients st ! ci"
  let ?h = "put_out (Http (cl_fd ?c) (http_response st)) st"
  let ?s = "put_out (Closed (cl_fd ?c)) ?h\<lparr>clients := (clients ?h)[ci := ?c\<lparr>cl_active := False\<rparr>]\<rparr>"
  have "announcing clk ?s" by (rule announcing_frame [OF Cons.prems]) simp_all
  from Cons.IH [OF this] obtain st' where st': "serve_clients cis ?s = Inr st'" "announcing clk st'" "only_alive ?s st'" by blast
  have "only_alive st ?s" by (rule only_alive_frame) (simp_all add: same_text_def)
  then have "only_alive st st'" using st'(3) by (rule only_alive_trans)
  then show ?case using st' Cons.IH [OF Cons.prems] http_response_fits
    by (cases "cl_active ?c") (auto simp: handle_http_client_def)
qed

lemma accept_keeps:
  assumes "announcing clk st"
  shows "announcing clk (handle_tcp_accept c st)" "only_alive st (handle_tcp_accept c st)"
proof -
  have "timers (handle_tcp_accept c st) = timers st" "mq (handle_tcp_accept c st) = mq st"
    "mcasts (handle_tcp_accept c st) = mcasts st" "reads (handle_tcp_accept c st) = reads st" "same_text st (handle_tcp_accept c st)"
    by (simp_all add: handle_tcp_accept_def same_text_def split: option.split)
  then show "announcing clk (handle_tcp_accept c st)" "only_alive st (handle_tcp_accept c st)"
    using announcing_frame [OF assms] only_alive_frame by simp_all
qed

lemma round_keeps:
  assumes "mono clk" "announcing clk st" "searches_fit p"
  shows "\<exists>go st'. ssdp_round clk rnd p st = Inr (go, st') \<and> announcing clk st' \<and> only_alive st st'"
proof -
  let ?s = "st\<lparr>reads := reads st + 1\<rparr>"
  have s: "announcing clk ?s" "only_alive st ?s"
    by (rule announcing_frame [OF assms(2)]; simp) (rule only_alive_frame; simp add: same_text_def)
  show ?thesis
  proof (cases p)
    case (Polled d c r)
    from expired_keep [OF assms(1) s(1)] obtain a where
      a: "timer_run_expired clk ?s = Inr a" "announcing clk a" "only_alive ?s a" by blast
    obtain b where b: "(case d of None \<Rightarrow> Inr a | Some d \<Rightarrow> handle_ssdp_recv clk rnd d a) = Inr b" "announcing clk b" "only_alive a b"
    proof (cases d)
      case None
      then show ?thesis using that [of a] a by simp
    next
      case (Some d')
      have "\<forall>x y. d' = Some (x, y) \<longrightarrow> mx_fits y" using assms(3) Polled Some by (auto simp: searches_fit_def)
      from recv_keeps [OF a(2) this] obtain b where "handle_ssdp_recv clk rnd d' a = Inr b" "announcing clk b" "only_alive a b"
        by blast
      then show ?thesis using that Some by simp
    qed
    let ?c = "case c of None \<Rightarrow> b | Some c \<Rightarrow> handle_tcp_accept c b"
    have c: "announcing clk ?c" "only_alive b ?c" using b(2) accept_keeps by (simp_all split: option.split)
    from clients_keep [OF c(1)] obtain e where
      e: "serve_clients (filter (\<lambda>i. i \<in> set r) (filter (\<lambda>i. cl_active (clients ?s ! i)) [0..<16])) ?c = Inr e"
      "announcing clk e" "only_alive ?c e" by blast
    have "only_alive st e" using s(2) a(3) b(3) c(2) e(3) by (meson only_alive_trans)
    moreover have "ssdp_round clk rnd p st = Inr (True, e)" using Polled a b e by (simp add: ssdp_round_def timer_next_timeout_def)
    ultimately show ?thesis using e(2) by blast
  next
    case Poll_interrupted
    then show ?thesis using s by (intro exI [of _ True] exI [of _ ?s]) (simp add: ssdp_round_def timer_next_timeout_def)
  next
    case Poll_failed
    then show ?thesis using s by (intro exI [of _ False] exI [of _ ?s]) (simp add: ssdp_round_def timer_next_timeout_def)
  qed
qed

lemma loop_keeps:
  assumes "mono clk" "announcing clk st" "\<forall>p\<in>set ps. searches_fit p"
  shows "\<exists>go st'. ssdp_loop clk rnd ps st = Inr (go, st') \<and> announcing clk st' \<and> only_alive st st'"
  using assms(2,3)
proof (induction ps arbitrary: st)
  case Nil
  then show ?case by auto
next
  case (Cons p ps)
  from round_keeps [OF assms(1) Cons.prems(1)] Cons.prems(2) obtain go a where
    a: "ssdp_round clk rnd p st = Inr (go, a)" "announcing clk a" "only_alive st a" by force
  from Cons.IH [OF a(2)] Cons.prems(2) obtain go' b where
    b: "ssdp_loop clk rnd ps a = Inr (go', b)" "announcing clk b" "only_alive a b" by auto
  show ?case using a b only_alive_trans [OF a(3) b(3)] by (cases go) auto
qed


section \<open>Announcements\<close>

lemma start_state:
  assumes "canon_ssdp_start True cam = Inr (0, Some st)"
  shows "announcing clk (st\<lparr>server_id := s\<rparr>)" "stream (st\<lparr>server_id := s\<rparr>) = []" "mcasts (st\<lparr>server_id := s\<rparr>) = []"
    "nowhere Reannounce_tick (timers (st\<lparr>server_id := s\<rparr>))" "length (location (st\<lparr>server_id := s\<rparr>)) < 128"
proof -
  from assms have st: "timers st = replicate 256 zero_timer"
      "mq st = \<lparr>mq_msgs = replicate 128 None, mq_head = 0, mq_tail = 0, mq_pacing = False\<rparr>" "sent st = []"
    "length (location st) \<le> 127" using length_snprint [of 128]
    by (auto simp: canon_ssdp_start_def Let_def)
  then show "announcing clk (st\<lparr>server_id := s\<rparr>)" "mcasts (st\<lparr>server_id := s\<rparr>) = []"
    "nowhere Reannounce_tick (timers (st\<lparr>server_id := s\<rparr>))" "length (location (st\<lparr>server_id := s\<rparr>)) < 128"
    by (auto simp: announcing_def sound_def lone_def nowhere_def runs_def zero_timer_def mcasts_def apart_def
        ring_ok_def ring_count_def ring_empty_def gap_over_def)
  then show "stream (st\<lparr>server_id := s\<rparr>) = []" using st(2) by (simp add: stream_def ring_items_def ring_count_def)
qed

lemma alive_whole:
  assumes "length (location st) < 128" "length (server_id st) < 256"
  shows "\<exists>t. build_alive 1024 st = t @ crlf @ crlf"
proof -
  have "length (dec_digits 1800) \<le> 4" "length (dec_digits 1900) \<le> 4" by (rule dec_digits_len; simp)+
  then show ?thesis using assms
    unfolding build_alive_def snprint_def
    by (subst take_all) (auto simp: RESOURCE_TARGET_def RESOURCE_USN_def CANON_SERVER_def fmt_dec_def)
qed


text \<open>
  C27. Whatever arrives and however the clock runs on, what the responder has sent to
  the group, followed by what waits in its queue, is one farewell and then the announcement over and
  over, each of them whole, and no two messages leave less than 120 ms apart; only when \<open>poll\<close>
  fails does a last farewell follow at once.
\<close>

theorem announcements_are_paced:
  assumes "mono clk" "canon_ssdp_start True cam = Inr (0, Some st)" "iface_select ifs \<noteq> None" "\<forall>p\<in>set ps. searches_fit p"
  shows "\<exists>go st' n g. canon_ssdp_thread clk rnd uname ifs True ps st = Inr (Some (go, st')) \<and>
     mcasts st' = (if go then g else g @ [(reads st', build_byebye 1024)]) \<and> apart clk g \<and> 3 \<le> n \<and>
     map snd g @ ring_items (mq st') = build_byebye 1024 # replicate n (build_alive 1024 st') \<and>
     (\<exists>t. build_alive 1024 st' = t @ crlf @ crlf)"
proof -
  define sid where "sid = snprint 256 (case uname of
      Some (sysname, release) \<Rightarrow> sysname @ ''/'' @ release @ '' UPnP/1.0 GSSDP/1.6.2''
    | None \<Rightarrow> ''Linux UPnP/1.0 GSSDP/1.6.2'')"
  have id: "length sid < 256" unfolding sid_def by (rule le_less_trans [OF length_snprint]) simp
  have thread: "canon_ssdp_thread clk rnd uname ifs True ps st =
      bnd (send_initial_announce clk (st\<lparr>server_id := sid\<rparr>)) (\<lambda>st.
      bnd (ssdp_loop clk rnd ps st) (\<lambda>(go, st). Inr (Some (go, if go then st else put_out (Multicast (build_byebye 1024)) st))))"
    using assms(3) by (simp add: canon_ssdp_thread_def Let_def sid_def del: not_None_eq)
  let ?s = "st\<lparr>server_id := sid\<rparr>"
  note start = start_state [OF assms(2), where s = sid]
  have e: "\<not> ring_full (mq ?s)" "ring_items (mq ?s) = []"
    using start ring.full_iff [of "mq ?s"] by (auto simp: stream_def announcing_def sound_def)
  from push_keeps [OF start(1) assms(1), of "build_byebye 1024"] obtain a where
    a: "msgq_push clk (build_byebye 1024) ?s = Inr a" "announcing clk a" "same_text ?s a" "stream a = [build_byebye 1024]"
    "length (ring_items (mq a)) \<le> 1" "nowhere Reannounce_tick (timers a)"
    using e start(2,4) by auto
  from pushes_keep [OF assms(1) a(2), of 3 "build_alive 1024 a"] obtain b n where
    b: "push_times clk 3 (build_alive 1024 a) a = Inr b" "announcing clk b" "same_text a b"
    "stream b = stream a @ replicate n (build_alive 1024 a)" "n = 3" "nowhere Reannounce_tick (timers b)"
    using a(5,6) by auto
  let ?b = "timer_add clk (599 * 1000) Reannounce_tick b"
  have c: "announcing clk ?b" by (rule announcing_timer_add) (use b(2,6) in auto)
  from loop_keeps [OF assms(1) c assms(4)] obtain go d where
    d: "ssdp_loop clk rnd ps ?b = Inr (go, d)" "announcing clk d" "only_alive ?b d" by blast
  obtain m where m: "stream d = stream ?b @ replicate m (build_alive 1024 ?b)" "same_text ?b d" using d(3) by (auto simp: only_alive_def)
  have eq: "same_text a ?b" using b(3) by (simp add: same_text_def)
  have al: "build_alive 1024 ?b = build_alive 1024 d" "build_alive 1024 a = build_alive 1024 d"
    using same_text_alive [OF m(2)] same_text_alive [OF eq] by simp_all
  have "stream ?b = stream b" by (simp add: stream_def)
  then have "stream d = (build_byebye 1024 # replicate 3 (build_alive 1024 d)) @ replicate m (build_alive 1024 d)"
    using m(1) a(4) b(4,5) unfolding al by simp
  then have "stream d = build_byebye 1024 # replicate (3 + m) (build_alive 1024 d)" unfolding replicate_add by simp
  moreover have "length (location d) < 128" "length (server_id d) < 256"
    using a(3) m(2) eq id start(5) by (simp_all add: same_text_def)
  then have "\<exists>t. build_alive 1024 d = t @ crlf @ crlf" by (rule alive_whole)
  moreover have "apart clk (mcasts d)" using d(2) by (simp add: announcing_def sound_def)
  moreover have "send_initial_announce clk ?s = Inr ?b" using a(1) b(1) by (simp add: send_initial_announce_def)
  ultimately show ?thesis using thread d(1)
    by (intro exI [of _ go] exI [of _ "if go then d else put_out (Multicast (build_byebye 1024)) d"] exI [of _ "3 + m"]
        exI [of _ "mcasts d"]) (auto simp: stream_def build_alive_def)
qed


section \<open>A full table of timers\<close>

lemma slots_idle:
  "\<forall>i\<in>set is. \<not> (tm_active (timers st ! i) \<and> tm_deadline (timers st ! i) \<le> now) \<Longrightarrow> run_slots clk now is st = Inr st"
  by (induction "is") (auto simp: Let_def)

lemma slots_append:
  "run_slots clk now (xs @ ys) st = bnd (run_slots clk now xs st) (run_slots clk now ys)"
  by (induction xs arbitrary: st) (auto simp: Let_def bnd_assoc bnd_def split: sum.split)

text \<open>The one free slot is where a timer goes.\<close>

lemma free_slot_only:
  assumes "i < length ts" "\<not> tm_active (ts ! i)" "\<forall>j<length ts. j \<noteq> i \<longrightarrow> tm_active (ts ! j)"
  shows "free_slot ts = Some i"
  using assms free_slot_Some [of ts] free_slot_None [of ts] by (cases "free_slot ts") auto

lemma push_pacing: "mq_pacing (mq st) \<Longrightarrow> \<exists>q. msgq_push clk m st = Inr (st\<lparr>mq := q\<rparr>) \<and> mq_pacing q"
  by (auto simp: msgq_push_def intro: exI [of _ "mq st"])

lemma push_times_pacing:
  "mq_pacing (mq st) \<Longrightarrow> \<exists>q. push_times clk k m st = Inr (st\<lparr>mq := q\<rparr>) \<and> mq_pacing q"
proof (induction k arbitrary: st)
  case 0
  then show ?case by (auto intro: exI [of _ "mq st"])
next
  case (Suc k)
  from push_pacing [OF Suc.prems, of clk m] obtain q where "msgq_push clk m st = Inr (st\<lparr>mq := q\<rparr>)" "mq_pacing q" by blast
  then show ?case using Suc.IH [of "st\<lparr>mq := q\<rparr>"] by auto
qed

lemma push_three: "push_times clk 3 m st = bnd (msgq_push clk m st) (push_times clk 2 m)"
  by (simp add: numeral_3_eq_3 numeral_2_eq_2)

lemma reannounce_stream:
  assumes "mono clk" "announcing clk st" "timer_fire clk Reannounce_tick st = Inr st'"
  shows "length (stream st') \<le> length (stream st) + 3"
proof -
  from pushes_keep [OF assms(1,2), of 3 "build_alive 1024 st"] obtain t n where
    "push_times clk 3 (build_alive 1024 st) st = Inr t" "n \<le> 3" "stream t = stream st @ replicate n (build_alive 1024 st)" by blast
  moreover have "st' = timer_add clk (599 * 1000) Reannounce_tick t"
    using assms(3) calculation(1) by (simp add: timer_fire_def reannounce_tick_def)
  then have "stream st' = stream t" by (simp add: stream_def)
  ultimately show ?thesis by simp
qed

definition idle_full :: "nat \<Rightarrow> int \<Rightarrow> ssdp \<Rightarrow> bool" where
  "idle_full i now st \<longleftrightarrow> i < 256 \<and> runs Reannounce_tick (timers st ! i) \<and> tm_deadline (timers st ! i) \<le> now \<and>
     (\<forall>j<256. j \<noteq> i \<longrightarrow> tm_active (timers st ! j) \<and> now < tm_deadline (timers st ! j)) \<and> \<not> mq_pacing (mq st)"

text \<open>The first announcement takes the slot of the re-announcement, which then finds none.\<close>

lemma reannounce_lost:
  assumes "announcing clk st" "idle_full i now st"
  shows "\<exists>q r s. timer_fire clk Reannounce_tick (st\<lparr>timers := (timers st)[i := (timers st ! i)\<lparr>tm_active := False\<rparr>]\<rparr>) =
       Inr (st\<lparr>timers := (timers st)[i := \<lparr>tm_deadline = clk (reads st) + 120, tm_fn = Some Msgq_tick, tm_active = True\<rparr>],
         reads := r, sent := s, mq := q\<rparr>)"
proof -
  let ?s = "st\<lparr>timers := (timers st)[i := (timers st ! i)\<lparr>tm_active := False\<rparr>]\<rparr>" and ?m = "build_alive 1024 st"
  let ?tick = "\<lparr>tm_deadline = clk (reads st) + 120, tm_fn = Some Msgq_tick, tm_active = True\<rparr>"
  have len: "length (timers st) = 256" and ok: "ring_ok (mq st)" and em: "ring_empty (mq st)" "\<not> ring_full (mq st)"
    using assms ring.full_iff [of "mq st"] ring.empty_iff [of "mq st"]
    by (auto simp: announcing_def sound_def idle_full_def)
  have free: "free_slot (timers ?s) = Some i"
    by (rule free_slot_only) (use assms(2) len in \<open>auto simp: idle_full_def\<close>)
  let ?q = "(ring_push ?m (mq st))\<lparr>mq_pacing := True\<rparr>"
  obtain q where q: "ring_pop ?q = Inr (?m, q)"
    using ring.pop_first [of ?q ?m "[]"] ring.push_ok [OF ok em(2)] ring.push_items [OF ok em(2)] ring.empty_iff [OF ok] em(1) by auto
  then have p: "mq_pacing q" using ring_pop_pacing by fastforce
  have ne: "\<not> ring_empty ?q" using ring.empty_iff [OF ring.push_ok [OF ok em(2)]] ring.push_items [OF ok em(2)] by simp
  let ?t = "timer_add clk 120 Msgq_tick (put_out (Multicast ?m) (?s\<lparr>mq := q\<rparr>))"
  have "msgq_push clk ?m ?s = Inr ?t" using em(2) assms(2) q ne
    by (simp add: msgq_push_def msgq_tick_def idle_full_def Let_def)
  moreover have t: "?t = st\<lparr>timers := (timers st)[i := ?tick], reads := reads st + 1, sent := sent st @ [(reads st, Multicast ?m)], mq := q\<rparr>"
    using free by (simp add: timer_add_def put_out_def)
  obtain q2 where "push_times clk 2 ?m ?t = Inr (?t\<lparr>mq := q2\<rparr>)" using push_times_pacing [of ?t clk 2 ?m] p by auto
  moreover have "timer_add clk d Reannounce_tick (?t\<lparr>mq := q2\<rparr>) = ?t\<lparr>mq := q2\<rparr>" for d
  proof -
    have "free_slot (timers (?t\<lparr>mq := q2\<rparr>)) = None" unfolding t free_slot_None using assms(2) len
      by (auto simp: idle_full_def nth_list_update)
    then show ?thesis by (simp add: timer_add_def)
  qed
  moreover have "build_alive 1024 ?s = ?m" by (simp add: build_alive_def)
  ultimately have "timer_fire clk Reannounce_tick ?s = Inr (?t\<lparr>mq := q2\<rparr>)"
    by (simp add: timer_fire_def reannounce_tick_def push_three del: timer_add_frame)
  then show ?thesis unfolding t by auto
qed

text \<open>
  A full table ends the announcements. When the re-announcement falls due while the queue is idle and
  every other timer holds a response that is not due, the tick of the queue takes its slot and it is
  not started again: what the camera still sends to the group, however long it runs and whatever
  arrives, is at most three messages.
\<close>

theorem full_table_ends_announcements:
  assumes "mono clk" "announcing clk st" "idle_full i (clk (reads st)) st" "\<forall>p\<in>set ps. searches_fit p"
  shows "\<exists>st' go st''. timer_run_expired clk st = Inr st' \<and> ssdp_loop clk rnd ps st' = Inr (go, st'') \<and>
     length (mcasts st'') \<le> length (mcasts st) + 3"
proof -
  let ?now = "clk (reads st)" and ?r = "st\<lparr>reads := reads st + 1\<rparr>"
  have r: "announcing clk ?r" by (rule announcing_frame [OF assms(2)]) simp_all
  have i: "i < 256" "runs Reannounce_tick (timers st ! i)" "tm_deadline (timers st ! i) \<le> ?now"
    and full: "idle_full i ?now ?r" using assms(3) by (simp_all add: idle_full_def)
  have len: "length (timers st) = 256" using assms(2) by (simp add: announcing_def sound_def)
  from reannounce_lost [OF r full] obtain q n s where l:
    "timer_fire clk Reannounce_tick (?r\<lparr>timers := (timers st)[i := (timers st ! i)\<lparr>tm_active := False\<rparr>]\<rparr>) =
       Inr (?r\<lparr>timers := (timers st)[i := \<lparr>tm_deadline = clk (reads st + 1) + 120, tm_fn = Some Msgq_tick, tm_active = True\<rparr>],
         reads := n, sent := s, mq := q\<rparr>)" (is "_ = Inr ?t") by auto
  have u: "[0..<256] = [0..<i] @ i # [Suc i..<256]" using i(1) upt_add_eq_append [of 0 i "256 - i"] upt_conv_Cons [of i 256] by simp
  have quiet: "\<forall>j\<in>set [0..<i] \<union> set [Suc i..<256]. \<not> (tm_active (timers st ! j) \<and> tm_deadline (timers st ! j) \<le> ?now)"
    using assms(3) i(1) by (auto simp: idle_full_def not_le)
  have "run_slots clk ?now [0..<i] ?r = Inr ?r" by (rule slots_idle) (use quiet in simp)
  moreover have "run_slots clk ?now [Suc i..<256] ?t = Inr ?t" by (rule slots_idle) (use quiet in simp)
  ultimately have run: "timer_run_expired clk st = Inr ?t"
    using i l unfolding timer_run_expired_def u slots_append by (simp add: runs_def Let_def)
  from expired_keep [OF assms(1,2)] run have t: "announcing clk ?t" "only_alive st ?t" by auto
  have "lone Reannounce_tick (timers st)" using assms(2) by (simp add: announcing_def sound_def)
  then have quiet_t: "nowhere Reannounce_tick (timers ?t)" using i(1,2) len
    by (auto simp: nowhere_def lone_def nth_list_update runs_def)
  from loop_keeps [OF assms(1) t(1) assms(4)] obtain go e where
    e: "ssdp_loop clk rnd ps ?t = Inr (go, e)" "only_alive ?t e" by blast
  have "stream e = stream ?t" using e(2) quiet_t by (simp add: only_alive_def)
  moreover have "length (stream ?t) \<le> length (mcasts st) + 3"
  proof -
    let ?s = "?r\<lparr>timers := (timers st)[i := (timers st ! i)\<lparr>tm_active := False\<rparr>]\<rparr>"
    have "announcing clk ?s" using announcing_stop [OF r i(1), of "timers st ! i"] by simp
    from reannounce_stream [OF assms(1) this l] have "length (stream ?t) \<le> length (stream ?s) + 3" .
    moreover have "ring_items (mq st) = []" using assms(2,3) ring.empty_iff by (auto simp: announcing_def sound_def idle_full_def)
    ultimately show ?thesis by (simp add: stream_def)
  qed
  moreover have "length (mcasts e) \<le> length (stream e)" by (simp add: stream_def)
  ultimately show ?thesis using run e(1) by (intro exI conjI) auto
qed


section \<open>Headers\<close>

text \<open>Lines of a search as a host writes them, and the first with a name, whatever its case.\<close>

definition header_line :: "string \<times> string \<Rightarrow> string" where
  "header_line = (\<lambda>(n, v). n @ '': '' @ v @ crlf)"

definition search_text :: "(string \<times> string) list \<Rightarrow> string" where
  "search_text hs = ''M-SEARCH * HTTP/1.1'' @ crlf @ concat (map header_line hs) @ crlf"

definition line_ok :: "string \<times> string \<Rightarrow> bool" where
  "line_ok = (\<lambda>(n, v). n \<noteq> [] \<and> CHR '':'' \<notin> set n \<and> CHR 0x0d \<notin> set n \<and> CHR 0x0d \<notin> set v \<and> CHR 0x0a \<notin> set v \<and>
     take 1 v \<noteq> '' '')"

definition lookup :: "string \<Rightarrow> (string \<times> string) list \<Rightarrow> string option" where
  "lookup name hs = map_option snd (find (\<lambda>(n, v). map to_lower n = map to_lower name) hs)"

lemma strstr_ptr_first: "CHR 0x0d \<notin> set a \<Longrightarrow> strstr_ptr (a @ crlf @ b) crlf = Some (crlf @ b)"
  by (induction a) auto

lemma to_lower_colon: "to_lower c = CHR '':'' \<Longrightarrow> c = CHR '':''"
proof (rule ccontr)
  assume a: "to_lower c = CHR '':''" "c \<noteq> CHR '':''"
  let ?n = "of_char c :: nat"
  have "65 \<le> ?n" "?n \<le> 90" using a by (auto simp: to_lower_def split: if_splits)
  then have "to_lower c = char_of (?n + 32)" by (simp add: to_lower_def)
  then have "of_char (to_lower c) = ?n + 32" using \<open>?n \<le> 90\<close> by simp
  then show False using a(1) \<open>65 \<le> ?n\<close> by simp
qed

text \<open>The test of a line finds the names that agree with the one looked for.\<close>

lemma line_matches:
  assumes "CHR '':'' \<notin> set n" "CHR '':'' \<notin> set name"
  shows "map to_lower (take (length name) (n @ CHR '':'' # r)) = map to_lower name \<and>
      take 1 (drop (length name) (n @ CHR '':'' # r)) = '':'' \<longleftrightarrow> map to_lower n = map to_lower name"
    (is "?l \<longleftrightarrow> ?r")
proof
  assume ?r
  then have "length n = length name" by (metis length_map)
  then show ?l using \<open>?r\<close> by simp
next
  assume ?l
  have "length name = length n"
  proof (rule linorder_cases [of "length name" "length n"])
    assume lt: "length name < length n"
    then have "take 1 (drop (length name) (n @ CHR '':'' # r)) = [n ! length name]" by (simp add: take_Suc_conv_app_nth hd_drop_conv_nth take_Suc)
    then have "n ! length name = CHR '':''" using \<open>?l\<close> by simp
    then show ?thesis using assms(1) lt by (metis nth_mem)
  next
    assume gt: "length n < length name"
    then have "map to_lower (take (length name) (n @ CHR '':'' # r)) ! length n = to_lower (CHR '':'')" by (simp add: nth_append)
    then have "to_lower (name ! length n) = CHR '':''" using \<open>?l\<close> gt by (simp add: to_lower_def)
    then show ?thesis using assms(2) gt to_lower_colon by (metis nth_mem)
  qed simp
  then show ?r using \<open>?l\<close> by simp
qed

lemma header_from_lines:
  assumes "\<forall>h\<in>set hs. line_ok h" "CHR '':'' \<notin> set name"
  shows "case lookup name hs of
      None \<Rightarrow> header_from name (concat (map header_line hs) @ crlf) = None
    | Some v \<Rightarrow> \<exists>r. header_from name (concat (map header_line hs) @ crlf) = Some (v @ crlf @ r)"
  using assms(1)
proof (induction hs)
  case Nil
  show ?case by (simp add: lookup_def header_from.simps)
next
  case (Cons h hs)
  obtain n v where h: "h = (n, v)" by (cases h)
  let ?r = "concat (map header_line hs) @ crlf"
  let ?p = "n @ CHR '':'' # CHR '' '' # v @ crlf @ ?r"
  have ok: "n \<noteq> []" "CHR '':'' \<notin> set n" "CHR 0x0d \<notin> set n" "CHR 0x0d \<notin> set v" "take 1 v \<noteq> '' ''"
    using Cons.prems by (simp_all add: h line_ok_def)
  have p: "concat (map header_line (h # hs)) @ crlf = ?p" by (simp add: h header_line_def)
  have ne: "\<not> (?p = [] \<or> starts_with ?p crlf)" using ok by (cases n) auto
  note m = line_matches [OF ok(2) assms(2), of "CHR '' '' # v @ crlf @ ?r"]
  show ?case
  proof (cases "map to_lower n = map to_lower name")
    case True
    then have "length name = length n" by (metis length_map)
    moreover have "dropWhile (\<lambda>c. c = CHR '' '') (v @ crlf @ ?r) = v @ crlf @ ?r" using ok(5) by (cases v) auto
    ultimately have "header_from name ?p = Some (v @ crlf @ ?r)"
      using True unfolding header_from.simps [of name ?p] if_not_P [OF ne] m by simp
    then show ?thesis using True p by (simp add: lookup_def h)
  next
    case False
    have "strstr_ptr ((n @ CHR '':'' # CHR '' '' # v) @ crlf @ ?r) crlf = Some (crlf @ ?r)"
      by (rule strstr_ptr_first) (use ok in auto)
    then have skip: "header_from name ?p = header_from name ?r"
      using False unfolding header_from.simps [of name ?p] if_not_P [OF ne] m by simp
    have same: "lookup name (h # hs) = lookup name hs" using False by (simp add: lookup_def h)
    show ?thesis unfolding p skip same using Cons by simp
  qed
qed

lemma find_header_lines:
  assumes "\<forall>h\<in>set hs. line_ok h" "CHR '':'' \<notin> set name"
  shows "map_option (\<lambda>p. header_value p k) (find_header (search_text hs) name) = map_option (take (k - 1)) (lookup name hs)"
proof -
  have s: "strstr_ptr (search_text hs) crlf = Some (crlf @ concat (map header_line hs) @ crlf)"
    unfolding search_text_def by (rule strstr_ptr_first) simp
  show ?thesis
  proof (cases "lookup name hs")
    case None
    then show ?thesis using header_from_lines [OF assms] s by (simp add: find_header_def)
  next
    case (Some v)
    then obtain r where r: "header_from name (concat (map header_line hs) @ crlf) = Some (v @ crlf @ r)"
      using header_from_lines [OF assms] by auto
    have "(a, v) \<in> set hs \<Longrightarrow> CHR 0x0d \<notin> set v \<and> CHR 0x0a \<notin> set v" for a using assms(1) by (auto simp: line_ok_def)
    then have "\<forall>c\<in>set v. c \<noteq> CHR 0x0d \<and> c \<noteq> CHR 0x0a"
      using Some by (auto simp: lookup_def dest!: find_filter_Some)
    then have "header_value (v @ crlf @ r) k = take (k - 1) v"
      by (simp add: header_value_def takeWhile_append2)
    then show ?thesis using Some r s by (simp add: find_header_def)
  qed
qed


section \<open>Answers to searches\<close>

text \<open>What a callback leaves: more sent, and the timers that ran as they were.\<close>

definition extends :: "ssdp \<Rightarrow> ssdp \<Rightarrow> bool" where
  "extends st st' \<longleftrightarrow> (\<exists>x. sent st' = sent st @ x) \<and> length (timers st') = length (timers st) \<and>
     (\<forall>i<length (timers st). tm_active (timers st ! i) \<longrightarrow> timers st' ! i = timers st ! i)"

lemma extends_refl [simp]: "extends st st"
  by (simp add: extends_def)

lemma extends_trans: "extends a b \<Longrightarrow> extends b c \<Longrightarrow> extends a c"
  by (auto simp: extends_def)

lemma extends_timer_add [simp]: "extends st (timer_add clk d fn st)"
  by (cases rule: timer_add_cases [of st clk d fn]) (auto simp: extends_def nth_list_update)

lemma extends_put_out [simp]: "extends st (put_out x st)"
  by (simp add: extends_def put_out_def)

lemma extends_mq [simp]: "extends a (b\<lparr>mq := q\<rparr>) \<longleftrightarrow> extends a b" "extends (a\<lparr>mq := q\<rparr>) b \<longleftrightarrow> extends a b"
  by (simp_all add: extends_def)

lemma tick_extends:
  assumes "msgq_tick clk st = Inr st'"
  shows "extends st st'"
proof -
  have "extends st (put_out x (st\<lparr>mq := q\<rparr>))" for x q using extends_put_out [of "st\<lparr>mq := q\<rparr>" x] unfolding extends_mq .
  then show ?thesis using assms by (auto simp: msgq_tick_def split: if_splits intro: extends_trans [OF _ extends_timer_add])
qed

lemma push_extends: "msgq_push clk m st = Inr st' \<Longrightarrow> extends st st'"
  by (auto simp: msgq_push_def Let_def split: if_splits dest: tick_extends)

lemma pushes_extend: "push_times clk n m st = Inr st' \<Longrightarrow> extends st st'"
  by (induction n arbitrary: st) (auto dest!: push_extends intro: extends_trans)

lemma fire_extends: "timer_fire clk fn st = Inr st' \<Longrightarrow> extends st st'"
  by (cases fn) (auto simp: timer_fire_def reannounce_tick_def dest!: tick_extends pushes_extend intro: extends_trans)

lemma slots_send_more: "run_slots clk now is st = Inr st' \<Longrightarrow> \<exists>x. sent st' = sent st @ x"
proof (induction "is" arbitrary: st)
  case (Cons i "is")
  show ?case
  proof (cases "tm_active (timers st ! i) \<and> tm_deadline (timers st ! i) \<le> now")
    case True
    then obtain fn s where "timer_fire clk fn (st\<lparr>timers := (timers st)[i := (timers st ! i)\<lparr>tm_active := False\<rparr>]\<rparr>) = Inr s"
      "run_slots clk now is s = Inr st'" using Cons.prems by (auto simp: Let_def)
    then show ?thesis using Cons.IH [of s] fire_extends by (fastforce simp: extends_def)
  next
    case False
    then have "run_slots clk now is st = Inr st'" using Cons.prems by (simp only: run_slots.simps Let_def if_False)
    then show ?thesis by (rule Cons.IH)
  qed
qed simp

lemma response_fires:
  assumes "run_slots clk now is st = Inr st'" "i \<in> set is" "set is \<subseteq> {..<length (timers st)}"
    and "runs (Delayed_resp_send a m) (timers st ! i)" "tm_deadline (timers st ! i) \<le> now"
  shows "\<exists>r. (r, Unicast a m) \<in> set (drop (length (sent st)) (sent st'))"
  using assms
proof (induction "is" arbitrary: st)
  case (Cons j js)
  let ?t = "timers st ! j" and ?stop = "st\<lparr>timers := (timers st)[j := (timers st ! j)\<lparr>tm_active := False\<rparr>]\<rparr>"
  show ?case
  proof (cases "j = i")
    case True
    then have "run_slots clk now js (put_out (Unicast a m) ?stop) = Inr st'"
      using Cons.prems by (simp add: runs_def timer_fire_def Let_def)
    from slots_send_more [OF this] show ?thesis by (auto simp: put_out_def)
  next
    case ne: False
    show ?thesis
    proof (cases "tm_active ?t \<and> tm_deadline ?t \<le> now")
      case True
      then obtain fn s where s: "timer_fire clk fn ?stop = Inr s" "run_slots clk now js s = Inr st'"
        using Cons.prems(1) by (auto simp: Let_def)
      from fire_extends [OF s(1)] have e: "extends ?stop s" .
      have i: "i < length (timers st)" using Cons.prems(2,3) by auto
      then have "timers s ! i = timers st ! i" using e Cons.prems(4) ne by (simp add: extends_def runs_def)
      moreover have "length (timers s) = length (timers st)" using e by (simp add: extends_def)
      ultimately obtain r where "(r, Unicast a m) \<in> set (drop (length (sent s)) (sent st'))"
        using Cons.IH [OF s(2)] Cons.prems ne by auto
      moreover have "length (sent st) \<le> length (sent s)" using e by (auto simp: extends_def)
      ultimately have "(r, Unicast a m) \<in> set (drop (length (sent st)) (sent st'))"
        by (meson set_drop_subset_set_drop subsetD)
      then show ?thesis by blast
    next
      case False
      then have "run_slots clk now js st = Inr st'" using Cons.prems(1) by (simp only: run_slots.simps Let_def if_False)
      then show ?thesis using Cons.IH [of st] Cons.prems ne by auto
    qed
  qed
qed simp

text \<open>The seconds of a search that is to be answered.\<close>

definition search_seconds :: "(string \<times> string) list \<Rightarrow> int option" where
  "search_seconds hs = (case (lookup ''MAN'' hs, lookup ''MX'' hs, lookup ''ST'' hs) of
     (Some man, Some mx, Some _) \<Rightarrow>
        if take 255 man = DISCOVER then (case atoi (take 255 mx) of Inr s \<Rightarrow> if 0 < s then Some s else None | _ \<Rightarrow> None)
        else None
   | _ \<Rightarrow> None)"

lemma msearch_lines:
  assumes "\<forall>h\<in>set hs. line_ok h" "\<forall>mx. lookup ''MX'' hs = Some mx \<longrightarrow> (\<exists>s. atoi (take 255 mx) = Inr s)"
  shows "handle_msearch clk rnd (search_text hs) a st = Inr (case search_seconds hs of
      None \<Rightarrow> st
    | Some s \<Rightarrow> timer_add clk (int (rnd (draws st)) mod (s * 1000)) (Delayed_resp_send a (build_response 512 st))
                 (st\<lparr>draws := draws st + 1\<rparr>))"
proof -
  have l: "map_option (\<lambda>p. header_value p 256) (find_header (search_text hs) n) = map_option (take 255) (lookup n hs)"
    if "CHR '':'' \<notin> set n" for n
    using find_header_lines [OF assms(1) that, of 256] by simp
  note man = l [of "''MAN''"] and mx = l [of "''MX''"] and st = l [of "''ST''"]
  show ?thesis
  proof (cases "lookup ''MX'' hs")
    case None
    then show ?thesis using mx
      by (simp add: handle_msearch_def search_seconds_def split: option.split)
  next
    case (Some v)
    then obtain s p where "atoi (take 255 v) = Inr s" "find_header (search_text hs) ''MX'' = Some p" "header_value p 256 = take 255 v"
      using assms(2) mx by auto
    then show ?thesis using Some man st
      by (cases "lookup ''MAN'' hs"; cases "lookup ''ST'' hs") (auto simp: handle_msearch_def search_seconds_def Let_def)
  qed
qed



section \<open>A responder on one interface\<close>

definition demo_canon :: vcam where
  "demo_canon = zero_vcam\<lparr>canon := (canon zero_vcam)\<lparr>cn_ssdp_modern := Some True\<rparr>\<rparr>"

definition demo_responder :: ssdp where
  "demo_responder = \<lparr>location = ''http://192.168.1.2:49152/upnp/CameraDevDesc.xml'',
     urlbase = ''http://192.168.1.2:49152/upnp/'', server_id = [], modern_mode = True, timers = replicate 256 zero_timer,
     mq = \<lparr>mq_msgs = replicate 128 None, mq_head = 0, mq_tail = 0, mq_pacing = False\<rparr>,
     clients = replicate 16 \<lparr>cl_fd = 0, cl_active = False\<rparr>, reads = 0, draws = 0, sent = []\<rparr>"

definition demo_search :: "(string \<times> string) list" where
  "demo_search = [(''HOST'', ''239.255.255.250:1900''), (''man'', DISCOVER), (''MX'', ''3''), (''ST'', ''ssdp:all'')]"

lemma demo_ssdp_start: "canon_ssdp_start True demo_canon = Inr (0, Some demo_responder)"
  by (simp add: canon_ssdp_start_def demo_canon_def demo_responder_def snprint_def zero_vcam_def Let_def)

lemma demo_lines: "\<forall>h\<in>set demo_search. line_ok h"
  by (simp add: demo_search_def line_ok_def DISCOVER_def)

lemma demo_mx: "lookup ''MX'' demo_search = Some ''3''" "atoi ''3'' = Inr 3"
  by (simp_all add: demo_search_def lookup_def to_lower_def atoi_def is_space_def digit_val_def c_int_def)

lemma demo_lookup: "lookup ''MAN'' demo_search = Some DISCOVER" "lookup ''ST'' demo_search = Some ''ssdp:all''"
  by code_simp+

lemma demo_text: "datagram_text (search_text demo_search) = search_text demo_search"
  by (simp add: datagram_text_def search_text_def demo_search_def header_line_def DISCOVER_def)

lemma demo_ok: "announcing clk demo_responder"
proof -
  have "demo_responder\<lparr>server_id := []\<rparr> = demo_responder" by (simp add: demo_responder_def)
  then show ?thesis using start_state(1) [OF demo_ssdp_start, of clk "[]"] by simp
qed

theorem announcements_are_paced_witness:
  "\<exists>go st' n g. canon_ssdp_thread (\<lambda>n. 200 * int n) (\<lambda>n. 7) None
       (Some [\<lparr>ifa_name = ''eth0'', ifa_inet = Some 0x0201a8c0, ifa_up = True, ifa_pointopoint = False, ifa_loopback = False\<rparr>])
       True [Polled (Some (Some ((1, 2), search_text demo_search))) None [], Polled None (Some (Some 9)) []] demo_responder
       = Inr (Some (go, st')) \<and>
     mcasts st' = (if go then g else g @ [(reads st', build_byebye 1024)]) \<and> apart (\<lambda>n. 200 * int n) g \<and> 3 \<le> n \<and>
     map snd g @ ring_items (mq st') = build_byebye 1024 # replicate n (build_alive 1024 st') \<and>
     (\<exists>t. build_alive 1024 st' = t @ crlf @ crlf)"
proof -
  have "map_option (\<lambda>p. header_value p 256) (find_header (search_text demo_search) ''MX'') = Some ''3''"
    using find_header_lines [OF demo_lines, of "''MX''" 256] by (simp add: demo_mx)
  then have "searches_fit (Polled (Some (Some ((1, 2), search_text demo_search))) None [])"
    using demo_mx(2) by (auto simp: searches_fit_def mx_fits_def demo_text)
  moreover have "searches_fit (Polled None (Some (Some 9)) [])" by (simp add: searches_fit_def)
  moreover have "mono (\<lambda>n. 200 * int n)" by (simp add: mono_def)
  ultimately show ?thesis by (intro announcements_are_paced [OF _ demo_ssdp_start]) (simp_all add: iface_select_def)
qed



text \<open>A table as \<open>full_table_ends_announcements\<close> has it.\<close>

lemma full_table_example:
  "announcing clk (demo_responder\<lparr>timers := replicate 255 \<lparr>tm_deadline = 9000, tm_fn = Some (Delayed_resp_send (1, 2) []), tm_active = True\<rparr>
       @ [\<lparr>tm_deadline = 0, tm_fn = Some Reannounce_tick, tm_active = True\<rparr>]\<rparr>)" (is "announcing clk ?st")
  "idle_full 255 0 (demo_responder\<lparr>timers := replicate 255 \<lparr>tm_deadline = 9000, tm_fn = Some (Delayed_resp_send (1, 2) []), tm_active = True\<rparr>
       @ [\<lparr>tm_deadline = 0, tm_fn = Some Reannounce_tick, tm_active = True\<rparr>]\<rparr>)"
proof -
  have n: "timers ?st ! i = (if i < 255 then \<lparr>tm_deadline = 9000, tm_fn = Some (Delayed_resp_send (1, 2) []), tm_active = True\<rparr>
      else \<lparr>tm_deadline = 0, tm_fn = Some Reannounce_tick, tm_active = True\<rparr>)" if "i < 256" for i
    using that by (simp add: nth_append)
  have "ring_ok (mq demo_responder)" "ring_empty (mq demo_responder)" "mcasts demo_responder = []" "\<not> mq_pacing (mq demo_responder)"
    by (simp_all add: demo_responder_def ring_ok_def ring_count_def ring_empty_def mcasts_def)
  then show "announcing clk ?st" "idle_full 255 0 ?st" using n
    by (auto simp: announcing_def sound_def lone_def nowhere_def runs_def gap_over_def apart_def idle_full_def)
qed

end
