(* ===== verification/Fuji_Ssdp.thy ===== *)
theory Fuji_Ssdp
  imports Prelude
begin

text \<open>
  Fujifilm discovery, src/src/fuji/ssdp.c: the datagrams a camera broadcasts until a computer answers, the
  computer's NOTIFY message, and the messages that announce an import or register the camera. Sockets
  are outside: what \<open>poll\<close>, \<open>accept\<close>, \<open>connect\<close>, \<open>send\<close> and \<open>recv\<close> report is the argument \<open>net\<close>.
\<close>

abbreviation (input) "FUJI_AUTOSAVE_REGISTER \<equiv> 51542 :: nat"
abbreviation (input) "FUJI_AUTOSAVE_CONNECT \<equiv> 51541 :: nat"

abbreviation line_end :: string where
  "line_end \<equiv> [CHR 0x0d, CHR 0x0a]"

section \<open>Tokens\<close>

text \<open>The tokens successive calls of \<open>strtok\<close> find.\<close>

function tokens :: "char set \<Rightarrow> string \<Rightarrow> string list" where
  "tokens delim s = (let r = dropWhile (\<lambda>c. c \<in> delim) s in
     if r = [] then [] else takeWhile (\<lambda>c. c \<notin> delim) r # tokens delim (dropWhile (\<lambda>c. c \<notin> delim) r))"
  by pat_completeness auto
termination
proof (relation "measure (\<lambda>(delim, s). length s)")
  show "wf (measure (\<lambda>(delim :: char set, s :: string). length s))" by simp
next
  fix delim s r
  assume r: "r = dropWhile (\<lambda>c. c \<in> delim) s" "r \<noteq> []"
  then obtain c r' where "r = c # r'" "c \<notin> delim" by (metis dropWhile_eq_Cons_conv list.exhaust)
  then show "((delim, dropWhile (\<lambda>c. c \<notin> delim) r), delim, s) \<in> measure (\<lambda>(delim, s). length s)"
    using r(1) length_dropWhile_le [of "\<lambda>c. c \<notin> delim" r'] length_dropWhile_le [of "\<lambda>c. c \<in> delim" s] by auto
qed

declare tokens.simps [simp del]

section \<open>The search for a computer\<close>

datatype poll_result = Poll_eintr | Poll_error | Poll_ready | Poll_quiet

record notify_net =
  nn_polls :: "poll_result list"
  nn_accept :: "string option"
  nn_notify :: "string option"
  nn_replied :: bool
  nn_connected :: bool
  nn_sent :: bool
  nn_answer :: "string option"

record client_info =
  ci_ip :: string
  ci_name :: "string option"

text \<open>\<open>sprintf\<close> into a block of \<open>n\<close> bytes.\<close>

definition sprint_into :: "nat \<Rightarrow> string \<Rightarrow> string res" where
  "sprint_into n s = (if length s < n then Inr s else Inl Undef)"

definition send_discover_datagram :: "string \<Rightarrow> string \<Rightarrow> string res" where
  "send_discover_datagram this_ip target_name = sprint_into 256
     (''DISCOVER '' @ target_name @ '' HTTP/1.1'' @ line_end @
      ''MX:3'' @ line_end @
      ''HOST:192.168.1.255:|'' @ line_end @
      ''DSCADDR:'' @ this_ip @ line_end @
      ''SERVICE:PCAUTOSAVE/1.0'' @ line_end)"

text \<open>How many datagrams are sent until a computer connects; \<open>None\<close> while none does.\<close>

fun await_client :: "poll_result list \<Rightarrow> nat option res" where
  "await_client [] = Inr None"
| "await_client (p # ps) = (case p of
     Poll_ready \<Rightarrow> Inr (Some 1)
   | Poll_error \<Rightarrow> Inl Abort
   | _ \<Rightarrow> bnd (await_client ps) (\<lambda>r. Inr (map_option Suc r)))"

text \<open>The token behind \<open>IMPORTER\<close>, copied into a field of 64 bytes.\<close>

fun importer_name :: "string list \<Rightarrow> string option \<Rightarrow> string option res" where
  "importer_name [] name = Inr name"
| "importer_name (t # ts) name =
     (if t = ''IMPORTER'' then
        (case ts of [] \<Rightarrow> Inl Abort
         | n # ts \<Rightarrow> if length n < 64 then importer_name ts (Some n) else Inl Undef)
      else importer_name ts name)"

definition discover_and_accept_notify :: "notify_net \<Rightarrow> string \<Rightarrow> string \<Rightarrow> (client_info \<times> nat) option res" where
  "discover_and_accept_notify net this_ip target_name =
     bnd (send_discover_datagram this_ip target_name) (\<lambda>_.
     bnd (await_client (nn_polls net)) (\<lambda>r. case r of
       None \<Rightarrow> Inr None
     | Some n \<Rightarrow> (case (nn_accept net, nn_notify net) of
         (Some ip, Some msg) \<Rightarrow>
           bnd (importer_name (tokens {CHR '' '', CHR '':'', CHR 0x0d, CHR 0x0a}
                  (takeWhile (\<lambda>c. c \<noteq> CHR 0x00) (take 1023 msg))) None) (\<lambda>name.
             if nn_replied net then Inr (Some (\<lparr>ci_ip = take 63 ip, ci_name = name\<rparr>, n)) else Inl Abort)
       | _ \<Rightarrow> Inl Abort)))"

text \<open>
  The announcement of an import and the registration: \<open>None\<close> while no computer answers, else the
  message sent. The answer of the computer is read whole or up to the size of the buffer, and for the
  registration one byte behind it is written when it fills the buffer.
\<close>

definition fuji_ssdp_import :: "notify_net \<Rightarrow> string \<Rightarrow> string \<Rightarrow> string option res" where
  "fuji_ssdp_import net ip name =
     bnd (discover_and_accept_notify net ip ''desktop'') (\<lambda>r. case r of
       None \<Rightarrow> Inr None
     | Some (info, _) \<Rightarrow>
         if \<not> nn_connected net then Inl Abort
         else bnd (sprint_into 256 (''IMPORT * HTTP/1.1'' @ line_end @
              ''HOST:'' @ ci_ip info @ '':'' @ fmt_dec 0 FUJI_AUTOSAVE_CONNECT @ line_end @
              ''DSCNAME:'' @ name @ line_end @
              ''DSCPORT:$'' @ line_end)) (\<lambda>msg.
           if \<not> nn_sent net then Inl Abort
           else (case nn_answer net of None \<Rightarrow> Inl Abort | Some a \<Rightarrow> if a = [] then Inl Abort else Inr (Some msg))))"

definition fuji_ssdp_register :: "notify_net \<Rightarrow> string \<Rightarrow> string \<Rightarrow> string \<Rightarrow> string option res" where
  "fuji_ssdp_register net ip name model =
     bnd (discover_and_accept_notify net ip ''*'') (\<lambda>r. case r of
       None \<Rightarrow> Inr None
     | Some (info, _) \<Rightarrow>
         if \<not> nn_connected net then Inl Abort
         else bnd (sprint_into 256 (''REGISTER * HTTP/1.1'' @ line_end @
              ''HOST:'' @ ci_ip info @ '':'' @ fmt_dec 0 FUJI_AUTOSAVE_REGISTER @ line_end @
              ''DSCNAME:'' @ name @ line_end @
              ''DSCMODEL:'' @ model @ line_end)) (\<lambda>msg.
           if \<not> nn_sent net then Inl Abort
           else (case nn_answer net of None \<Rightarrow> Inl Abort
             | Some a \<Rightarrow> if a = [] then Inl Abort else if length a \<ge> 512 then Inl Undef else Inr (Some msg))))"

section \<open>Facts\<close>

text \<open>A NOTIFY message as a computer writes it gives its address and name.\<close>

definition notify_text :: "string \<Rightarrow> string \<Rightarrow> string" where
  "notify_text host name = ''NOTIFY * HTTP/1.1'' @ line_end @ ''HOST:'' @ host @ line_end @ ''IMPORTER:'' @ name @ line_end"

lemma tokens_skip: "c \<in> delim \<Longrightarrow> tokens delim (c # s) = tokens delim s"
  by (subst (1 2) tokens.simps) simp

lemma tokens_word:
  "w \<noteq> [] \<Longrightarrow> set w \<inter> delim = {} \<Longrightarrow> c \<in> delim \<Longrightarrow> tokens delim (w @ c # s) = w # tokens delim s"
proof -
  assume w: "w \<noteq> []" "set w \<inter> delim = {}" "c \<in> delim"
  then have d: "dropWhile (\<lambda>c. c \<in> delim) (w @ c # s) = w @ c # s" by (cases w) auto
  have "takeWhile (\<lambda>c. c \<notin> delim) (w @ c # s) = w" "dropWhile (\<lambda>c. c \<notin> delim) (w @ c # s) = c # s"
    using w by (auto simp: takeWhile_append2 dropWhile_append2 disjoint_iff)
  then have "tokens delim (w @ c # s) = w # tokens delim (c # s)" using w(1) d by (subst tokens.simps) simp
  then show ?thesis using tokens_skip w(3) by simp
qed

lemma notify_gives_name:
  assumes "host \<noteq> []" "name \<noteq> []" "length name < 64" "host \<noteq> ''IMPORTER''"
    and "set host \<inter> {CHR '' '', CHR '':'', CHR 0x0d, CHR 0x0a} = {}" "set name \<inter> {CHR '' '', CHR '':'', CHR 0x0d, CHR 0x0a} = {}"
  shows "importer_name (tokens {CHR '' '', CHR '':'', CHR 0x0d, CHR 0x0a} (notify_text host name)) None = Inr (Some name)"
proof -
  let ?d = "{CHR '' '', CHR '':'', CHR 0x0d, CHR 0x0a}"
  have "tokens ?d (notify_text host name) = [''NOTIFY'', ''*'', ''HTTP/1.1'', ''HOST'', host, ''IMPORTER'', name] @ tokens ?d []"
  proof -
    have "tokens ?d (''NOTIFY'' @ CHR '' '' # s) = ''NOTIFY'' # tokens ?d s"
      "tokens ?d (''*'' @ CHR '' '' # s) = ''*'' # tokens ?d s"
      "tokens ?d (''HTTP/1.1'' @ CHR 0x0d # s) = ''HTTP/1.1'' # tokens ?d s"
      "tokens ?d (''HOST'' @ CHR '':'' # s) = ''HOST'' # tokens ?d s"
      "tokens ?d (''IMPORTER'' @ CHR '':'' # s) = ''IMPORTER'' # tokens ?d s"
      "tokens ?d (host @ CHR 0x0d # s) = host # tokens ?d s"
      "tokens ?d (name @ CHR 0x0d # s) = name # tokens ?d s"
      "tokens ?d (CHR 0x0a # s) = tokens ?d s" for s
      using assms by (intro tokens_word tokens_skip; simp)+
    then show ?thesis unfolding notify_text_def by simp
  qed
  moreover have "tokens ?d [] = []" by (simp add: tokens.simps)
  ultimately show ?thesis using assms by simp
qed

end
