(* ===== verification/Fuji_Server.thy ===== *)
theory Fuji_Server
  imports Fuji_Ops Fuji_Ssdp Ptpip
begin

text \<open>
  src/src/fuji/server.c: the bridge between the command socket of the app and a Fujifilm camera. The
  packets of these bodies are the containers themselves, behind an init packet that is answered by
  the camera's name. The socket is the connection of theory Ptpip; a \<open>recv\<close> that a signal interrupts
  is repeated and changes nothing, so \<open>Fail\<close> stands for the other failures. Not modelled: resolving
  addresses and opening sockets. \<open>ptp_fuji_liveview\<close> of src/src/fuji/fuji.c is here too, with the thread
  behind the event and video ports, its only caller.
\<close>

abbreviation (input) "FUJI_ACK_PACKET_SIZE \<equiv> 0x44 :: int"

text \<open>
  The statics of the file and of \<open>fuji_get_ack_packet\<close>, which keeps the name of its last answer,
  with the camera and the connection.
\<close>

record bridge =
  br_cam :: vcam
  first_client_write :: bool
  left_of_ack :: int
  ack_name :: "byte list"
  br_conn :: conn

definition reset_client_bridge :: "bridge \<Rightarrow> bridge" where
  "reset_client_bridge b = b\<lparr>first_client_write := True, left_of_ack := FUJI_ACK_PACKET_SIZE,
     br_cam := fuji_reset_image_import_state ((br_cam b)\<lparr>session := 0, seqnr := 0, inbulk := [], outbulk := []\<rparr>)\<rparr>"

text \<open>Reading until \<open>n\<close> bytes are there: the return value and the bytes stored.\<close>

function recv_more :: "conn \<Rightarrow> byte list \<Rightarrow> nat \<Rightarrow> int \<times> byte list \<times> conn" where
  "recv_more c got n =
     (if length got < n then
        let (rc, d, c') = recv c (n - length got) in
        if rc = 0 then (if got = [] then 0 else -1, got, c')
        else if rc < 0 then (-1, got, c')
        else recv_more c' (got @ d) n
      else (int (length got), got, c))"
  by pat_completeness auto
termination
  by (relation "measure (\<lambda>(c, got, n). n - length got)") (auto simp: recv_def min_def simp flip: length_greater_0_conv split: list.splits segment.splits)

declare recv_more.simps [simp del]

definition recv_exact :: "conn \<Rightarrow> nat \<Rightarrow> int \<times> byte list \<times> conn" where
  "recv_exact c n = recv_more c [] n"

text \<open>The name of the client is read for the log, from its place in the packet whatever its length.\<close>

definition fuji_client_write :: "run_write \<Rightarrow> run_data \<Rightarrow> bridge \<Rightarrow> byte list \<Rightarrow> (nat \<times> bridge) res" where
  "fuji_client_write rw rwd b to =
     (if first_client_write b then
        bnd (ptp_read_unicode_string (drop 28 to) 100) (\<lambda>_. Inr (length to, b\<lparr>first_client_write := False\<rparr>))
      else bnd (vcam_write rw rwd (br_cam b) to) (\<lambda>cam. Inr (length to, b\<lparr>br_cam := cam\<rparr>)))"

text \<open>The camera's name, then what the camera has to read; a negative length is a huge copy.\<close>

definition fuji_client_read :: "bridge \<Rightarrow> int \<Rightarrow> (byte list \<times> bridge) res" where
  "fuji_client_read b n =
     bnd (fuji_get_ack_packet (ack_name b) (br_cam b)) (\<lambda>packet.
       let b = b\<lparr>ack_name := drop 28 packet\<rparr> in
       if n < 0 then Inl Undef
       else if left_of_ack b \<noteq> 0 then
         let at_byte = FUJI_ACK_PACKET_SIZE - left_of_ack b
         in if at_byte < 0 \<or> int (length packet) < at_byte + n then Inl Undef
            else Inr (take (nat n) (drop (nat at_byte) packet), b\<lparr>left_of_ack := left_of_ack b - n\<rparr>)
       else let (bs, cam) = vcam_read (br_cam b) (nat n) in Inr (bs, b\<lparr>br_cam := cam\<rparr>))"

text \<open>
  The data phase: a second container of any length, read into a block of that length; a length below
  4 does not even hold its own size.
\<close>

definition fuji_receive_data :: "run_write \<Rightarrow> run_data \<Rightarrow> bridge \<Rightarrow> (int \<times> bridge) res" where
  "fuji_receive_data rw rwd b =
     (let (size, d, c) = recv_exact (br_conn b) 4; b = b\<lparr>br_conn := c\<rparr> in
      if size \<noteq> 4 then Inr (-1, b)
      else bnd (get_32bit_le d) (\<lambda>w. let pl = unat w in
        if pl < 4 then Inl Undef
        else
          let (rc, body, c) = recv_exact (br_conn b) (pl - 4); b = b\<lparr>br_conn := c\<rparr> in
          if rc \<noteq> int (pl - 4) then Inr (-1, b)
          else bnd (fuji_client_write rw rwd b (d @ body)) (\<lambda>(rc, b). Inr (if rc \<noteq> pl then -1 else 0, b))))"

text \<open>The result is 1 when the client has closed, -1 for a failure.\<close>

definition fuji_tcp_receive_all :: "run_write \<Rightarrow> run_data \<Rightarrow> bridge \<Rightarrow> (int \<times> bridge) res" where
  "fuji_tcp_receive_all rw rwd b =
     (let (size, d, c) = recv_exact (br_conn b) 4; b = b\<lparr>br_conn := c\<rparr> in
      if size = 0 then Inr (1, b)
      else if size \<noteq> 4 then Inr (-1, b)
      else bnd (get_32bit_le d) (\<lambda>w. let pl = unat w in
        if pl = 8 then
          let (size, s, c) = recv_exact (br_conn b) 4; b = b\<lparr>br_conn := c\<rparr>
          in Inr (if size = 4 \<and> get_32bit_le s = Inr 0xffffffff then 1 else -1, b)
        else if pl < 12 \<or> pl > 128 * 1024 * 1024 then Inr (-1, b)
        else
          let (size, body, c) = recv_exact (br_conn b) (pl - 4); b = b\<lparr>br_conn := c\<rparr> in
          if size \<noteq> int (pl - 4) then Inr (-1, b)
          else bnd (fuji_client_write rw rwd b (d @ body)) (\<lambda>(rc, b).
            if rc \<noteq> pl then Inr (-1, b)
            else bnd (get_16bit_le (drop 6 (d @ body))) (\<lambda>cde.
              if inbulk (br_cam b) = [] \<and> cde \<noteq> 0 then fuji_receive_data rw rwd b else Inr (0, b)))))"

text \<open>One container of the camera to the app: the container, or \<open>None\<close> for a failure.\<close>

definition fuji_send_container :: "bridge \<Rightarrow> (byte list option \<times> bridge) res" where
  "fuji_send_container b =
     bnd (fuji_client_read b 4) (\<lambda>(d, b).
       if length d \<noteq> 4 then Inr (None, b)
       else bnd (get_32bit_le d) (\<lambda>packet_length.
         bnd (fuji_client_read b (sint (packet_length - 4))) (\<lambda>(body, b).
           if word_of_nat (length body) \<noteq> packet_length - 4 then Inr (None, b)
           else
             let (size, c) = send (br_conn b) (d @ body); b = b\<lparr>br_conn := c\<rparr>
             in Inr (if size \<le> 0 then None else Some (d @ body), b))))"

definition fuji_tcp_send_all :: "bridge \<Rightarrow> (int \<times> bridge) res" where
  "fuji_tcp_send_all b =
     bnd (fuji_send_container b) (\<lambda>(p, b). case p of
       None \<Rightarrow> Inr (-1, b)
     | Some buffer \<Rightarrow>
         bnd (get_16bit_le (drop 4 buffer)) (\<lambda>ty.
         bnd (get_16bit_le (drop 6 buffer)) (\<lambda>cde.
           if ty = PTP_PACKET_TYPE_DATA \<and> cde \<noteq> 0 then
             bnd (fuji_send_container b) (\<lambda>(p, b). Inr (if p = None then -1 else 0, b))
           else Inr (0, b))))"

section \<open>The clients\<close>

text \<open>What is received gets less, as in Ptpip.\<close>

lemma recv_more_backlog: "recv_more c got n = (k, d, c') \<Longrightarrow> backlog (rx c') + length d \<le> backlog (rx c) + length got"
proof (induction c got n rule: recv_more.induct)
  case (1 c got n)
  obtain rc e c1 where r: "recv c (n - length got) = (rc, e, c1)" by (cases "recv c (n - length got)")
  show ?case
  proof (cases "length got < n")
    case True
    note b = recv_backlog [OF r]
    show ?thesis
    proof (cases "rc > 0")
      case t: True
      then have "backlog (rx c') + length d \<le> backlog (rx c1) + length (got @ e)"
        using "1.IH" [OF True r [symmetric] refl] "1.prems" True r by (simp add: recv_more.simps [of c])
      then show ?thesis using b by simp
    next
      case False
      then show ?thesis using "1.prems" True r b by (auto simp: recv_more.simps [of c] split: if_splits)
    qed
  next
    case False
    then show ?thesis using "1.prems" by (simp add: recv_more.simps [of c])
  qed
qed

lemma recv_exact_backlog: "recv_exact c n = (k, d, c') \<Longrightarrow> backlog (rx c') + length d \<le> backlog (rx c)"
  using recv_more_backlog [of c "[]" n k d c'] by (simp add: recv_exact_def)

lemma client_write_conn: "fuji_client_write rw rwd b d = Inr (rc, b') \<Longrightarrow> br_conn b' = br_conn b"
  by (auto simp: fuji_client_write_def split: if_splits)

lemma client_read_conn: "fuji_client_read b n = Inr (d, b') \<Longrightarrow> br_conn b' = br_conn b"
  by (auto simp: fuji_client_read_def Let_def split: if_splits prod.splits)

lemma fuji_data_backlog:
  "fuji_receive_data rw rwd b = Inr (rc, b') \<Longrightarrow> backlog (rx (br_conn b')) \<le> backlog (rx (br_conn b))"
  by (auto simp: fuji_receive_data_def Let_def split: prod.splits if_splits dest!: client_write_conn recv_exact_backlog)

lemma get_32_nonempty: "get_32bit_le d = Inr w \<Longrightarrow> 0 < length d"
  by (cases d) simp_all

lemma fuji_receive_backlog:
  assumes "fuji_tcp_receive_all rw rwd b = Inr (0, b')"
  shows "backlog (rx (br_conn b')) < backlog (rx (br_conn b))"
proof -
  obtain size d c where r: "recv_exact (br_conn b) 4 = (size, d, c)" by (cases "recv_exact (br_conn b) 4")
  obtain w where w: "get_32bit_le d = Inr w" using assms r
    by (auto simp: fuji_tcp_receive_all_def Let_def split: if_splits)
  have "backlog (rx (br_conn b')) \<le> backlog (rx c)"
    using assms r w
    by (auto simp: fuji_tcp_receive_all_def Let_def split: prod.splits if_splits
        dest!: client_write_conn recv_exact_backlog fuji_data_backlog)
  then show ?thesis using recv_exact_backlog [OF r] get_32_nonempty [OF w] by linarith
qed

lemma fuji_container_rx: "fuji_send_container b = Inr (p, b') \<Longrightarrow> rx (br_conn b') = rx (br_conn b)"
  by (auto simp: fuji_send_container_def send_def Let_def split: if_splits prod.splits dest!: client_read_conn)

lemma fuji_send_rx: "fuji_tcp_send_all b = Inr (rc, b') \<Longrightarrow> rx (br_conn b') = rx (br_conn b)"
  by (auto simp: fuji_tcp_send_all_def Let_def split: option.splits if_splits dest!: fuji_container_rx)

text \<open>One client: the exchanges until it closes or something fails.\<close>

function serve_client :: "run_write \<Rightarrow> run_data \<Rightarrow> bridge \<Rightarrow> bridge res" where
  "serve_client rw rwd b =
     bnd (fuji_tcp_receive_all rw rwd b) (\<lambda>(rc, b1).
       if rc \<noteq> 0 then Inr b1
       else bnd (fuji_tcp_send_all b1) (\<lambda>(rc', b2). if rc' \<noteq> 0 then Inr b2 else serve_client rw rwd b2))"
  by pat_completeness auto
termination
  by (relation "measure (\<lambda>(rw, rwd, b). backlog (rx (br_conn b)))")
     (auto dest!: fuji_receive_backlog fuji_send_rx)

declare serve_client.simps [simp del]

text \<open>The clients one after another: what was sent to each, and the bridge after the last.\<close>

fun serve_clients_of :: "run_write \<Rightarrow> run_data \<Rightarrow> conn list \<Rightarrow> bridge \<Rightarrow> (byte list list \<times> bridge) res" where
  "serve_clients_of rw rwd [] b = Inr ([], b)"
| "serve_clients_of rw rwd (c # cs) b =
     bnd (serve_client rw rwd (reset_client_bridge b\<lparr>br_conn := c\<rparr>)) (\<lambda>b.
     bnd (serve_clients_of rw rwd cs b) (\<lambda>(txs, b'). Inr (tx (br_conn b) # txs, b')))"

text \<open>
  The main program. From outside come: whether tethering could connect, what discovery finds, the
  address of this machine, whether the command socket could be opened, and the connections \<open>accept\<close>
  returns before it fails. The result is \<open>None\<close> while discovery still searches.
\<close>

record fuji_host =
  fh_tethered :: bool
  fh_net :: notify_net
  fh_ip :: string
  fh_listening :: bool
  fh_clients :: "conn list"

definition fuji_wifi_main ::
    "run_write \<Rightarrow> run_data \<Rightarrow> fuji_host \<Rightarrow> bridge \<Rightarrow> (int \<times> byte list list \<times> bridge) option res" where
  "fuji_wifi_main rw rwd host b =
     (let f = fuji (br_cam b) in
      if fj_do_tether f \<and> \<not> fh_tethered host then Inl Abort
      else if fj_do_register f then
        bnd (fuji_ssdp_register (fh_net host) (fh_ip host) ''VCAM'' ''X-H1'') (\<lambda>r. Inr (map_option (\<lambda>_. (0, [], b)) r))
      else
        bnd (if fj_do_discovery f then bnd (fuji_ssdp_import (fh_net host) (fh_ip host) ''VCAM'') (\<lambda>r. Inr (r \<noteq> None))
             else Inr True) (\<lambda>found.
          if \<not> found then Inr None
          else if \<not> fh_listening host then Inr (Some (1, [], b))
          else bnd (serve_clients_of rw rwd (fh_clients host) b) (\<lambda>(txs, b). Inr (Some (-1, txs, b)))))"

section \<open>Live view\<close>

abbreviation (input) "FUJI_DUMMY_LV_JPEG \<equiv> ''bin/fuji/lv_stream''"

text \<open>
  The frame of live view goes out in one \<open>send\<close>; the number of bytes sent is taken for an error, and
  the caller does not look.
\<close>

definition ptp_fuji_liveview :: "env \<Rightarrow> conn \<Rightarrow> int \<times> conn" where
  "ptp_fuji_liveview e c = (case files e FUJI_DUMMY_LV_JPEG of
     None \<Rightarrow> (0, c)
   | Some buffer \<Rightarrow> let (rc, c) = send c buffer in (if rc \<noteq> 0 then -1 else 0, c))"

text \<open>
  The thread behind the ports for events and video, \<open>n\<close> rounds into its endless loop: each connection
  is \<open>None\<close> when \<open>accept\<close> failed, and the bytes read are dropped. The two reads of a round are arguments
  of one call and touch different connections.
\<close>

fun remote_rounds :: "nat \<Rightarrow> conn \<times> conn \<Rightarrow> conn \<times> conn" where
  "remote_rounds 0 s = s"
| "remote_rounds (Suc n) (ev, video) =
     (let (_, _, video) = recv video 4; (_, _, ev) = recv ev 4 in remote_rounds n (ev, video))"

definition fuji_accept_remote_ports_thread ::
    "env \<Rightarrow> nat \<Rightarrow> conn option \<Rightarrow> conn option \<Rightarrow> (conn \<times> conn) res" where
  "fuji_accept_remote_ports_thread e n ev video = (case ev of
     None \<Rightarrow> Inl Abort
   | Some ev \<Rightarrow> (case video of
       None \<Rightarrow> Inl Abort
     | Some video \<Rightarrow> Inr (remote_rounds n (ev, snd (ptp_fuji_liveview e video)))))"

lemma recv_tx: "recv c n = (k, d, c') \<Longrightarrow> tx c' = tx c"
  by (auto simp: recv_def split: list.splits segment.splits)

lemma remote_rounds_tx: "remote_rounds n (ev, video) = (ev', video') \<Longrightarrow> tx ev' = tx ev \<and> tx video' = tx video"
  by (induction n "(ev, video)" arbitrary: ev video rule: remote_rounds.induct)
    (auto simp: Let_def split: prod.splits dest: recv_tx)

text \<open>However long it runs, the app gets one frame, or as much of it as the one \<open>send\<close> takes, and no event.\<close>

lemma one_frame_of_live_view:
  assumes "fuji_accept_remote_ports_thread e n (Some ev) (Some video) = Inr (ev', video')"
    and "files e FUJI_DUMMY_LV_JPEG = Some frame"
  shows "tx ev' = tx ev \<and>
    tx video' = tx video @ take (nat (accepts video (sends video) (length frame))) frame"
  using assms
  by (auto simp: fuji_accept_remote_ports_thread_def ptp_fuji_liveview_def send_def Let_def dest: remote_rounds_tx)

end
