(* ===== verification/Fuji_Server_Theorems.thy ===== *)
theory Fuji_Server_Theorems
  imports Fuji_Server Demo
begin

text \<open>The bridge of the Fujifilm server does not depend on how the network cuts the stream.\<close>

section \<open>The network may cut the stream anywhere\<close>

text \<open>The bytes a connection without failures will deliver, and connections that deliver the same.\<close>

fun clean :: "segment list \<Rightarrow> bool" where
  "clean [] = True"
| "clean (Seg s # r) = (s \<noteq> [] \<and> clean r)"
| "clean (Fail # r) = False"

fun bytes_of :: "segment list \<Rightarrow> byte list" where
  "bytes_of [] = []"
| "bytes_of (Seg s # r) = s @ bytes_of r"
| "bytes_of (Fail # r) = []"

lemma recv_clean:
  assumes "clean (rx c)" "recv c n = (rc, d, c')" "0 < n"
  shows "clean (rx c')" "bytes_of (rx c) = d @ bytes_of (rx c')" "rc = int (length d)" "length d \<le> n"
    "d = [] \<longleftrightarrow> bytes_of (rx c) = []" "c' = c\<lparr>rx := rx c'\<rparr>"
proof -
  show "clean (rx c')" "bytes_of (rx c) = d @ bytes_of (rx c')" "rc = int (length d)" "length d \<le> n"
    "d = [] \<longleftrightarrow> bytes_of (rx c) = []" "c' = c\<lparr>rx := rx c'\<rparr>"
    using assms by (auto simp: recv_def split: list.splits segment.splits if_splits)
qed

text \<open>What comes of a read depends on the bytes only.\<close>

lemma recv_more_clean:
  assumes "clean (rx c)" "recv_more c got n = (k, d, c')" "length got \<le> n"
  shows "clean (rx c') \<and> c' = c\<lparr>rx := rx c'\<rparr> \<and>
     (if n \<le> length got + length (bytes_of (rx c))
      then k = int n \<and> d = got @ take (n - length got) (bytes_of (rx c)) \<and> bytes_of (rx c') = drop (n - length got) (bytes_of (rx c))
      else k = (if got = [] \<and> bytes_of (rx c) = [] then 0 else -1) \<and> d = got @ bytes_of (rx c) \<and> bytes_of (rx c') = [])"
  using assms
proof (induction c got n rule: recv_more.induct)
  case (1 c got n)
  obtain rc e c1 where r: "recv c (n - length got) = (rc, e, c1)" by (cases "recv c (n - length got)")
  show ?case
  proof (cases "length got < n")
    case True
    then have n: "0 < n - length got" by simp
    note b = recv_clean [OF "1.prems"(1) r n]
    show ?thesis
    proof (cases "e = []")
      case t: True
      then have "recv_more c got n = (if got = [] then 0 else -1, got, c1)"
        using True r b(3) by (simp add: recv_more.simps [of c])
      then have kd: "k = (if got = [] then 0 else -1)" "d = got" "c' = c1" using "1.prems"(2) by simp_all
      have z: "bytes_of (rx c) = []" using t b(5) by blast
      then have z1: "bytes_of (rx c1) = []" using t b(2) by (metis append_Nil)
      have "c1 = c\<lparr>rx := rx c1\<rparr>" by (rule b(6))
      then show ?thesis using b(1) True unfolding kd z z1 by (intro conjI) simp_all
    next
      case False
      then have "recv_more c1 (got @ e) n = (k, d, c')" using "1.prems"(2) True r b(3) by (simp add: recv_more.simps [of c])
      moreover have "length (got @ e) \<le> n" using b(4) True by simp
      ultimately have ih: "clean (rx c') \<and> c' = c1\<lparr>rx := rx c'\<rparr> \<and>
         (if n \<le> length (got @ e) + length (bytes_of (rx c1))
          then k = int n \<and> d = (got @ e) @ take (n - length (got @ e)) (bytes_of (rx c1)) \<and>
             bytes_of (rx c') = drop (n - length (got @ e)) (bytes_of (rx c1))
          else k = (if got @ e = [] \<and> bytes_of (rx c1) = [] then 0 else -1) \<and> d = (got @ e) @ bytes_of (rx c1) \<and> bytes_of (rx c') = [])"
        using "1.IH" [OF True r [symmetric] refl] False b(1,3) by simp
      have c: "c1\<lparr>rx := rx c'\<rparr> = c\<lparr>rx := rx c'\<rparr>" by (subst b(6)) simp
      have l: "length (bytes_of (rx c)) = length e + length (bytes_of (rx c1))" "n - length got = length e + (n - length (got @ e))"
        using b(2,4) by simp_all
      show ?thesis
      proof (cases "n \<le> length got + length (bytes_of (rx c))")
        case t: True
        then show ?thesis using ih l(1) unfolding c l(2) b(2) by (simp add: not_le split: if_splits)
      next
        case f: False
        then show ?thesis using ih l(1) False unfolding c b(2) by (simp split: if_splits)
      qed
    qed
  next
    case False
    then show ?thesis using "1.prems" by (simp add: recv_more.simps [of c])
  qed
qed


lemma recv_exact_alike:
  assumes "clean (rx c)" "clean r" "bytes_of r = bytes_of (rx c)" "recv_exact c n = (k, d, c')"
  shows "\<exists>r'. recv_exact (c\<lparr>rx := r\<rparr>) n = (k, d, c'\<lparr>rx := r'\<rparr>) \<and> clean r' \<and> clean (rx c') \<and> bytes_of r' = bytes_of (rx c')"
proof -
  obtain k2 d2 c2 where e: "recv_more (c\<lparr>rx := r\<rparr>) [] n = (k2, d2, c2)" by (cases "recv_more (c\<lparr>rx := r\<rparr>) [] n")
  have a: "recv_more c [] n = (k, d, c')" using assms(4) by (simp add: recv_exact_def)
  note x = recv_more_clean [OF assms(1) a] and y = recv_more_clean [OF _ e]
  have "k2 = k \<and> d2 = d \<and> clean (rx c2) \<and> clean (rx c') \<and> bytes_of (rx c2) = bytes_of (rx c')"
    using x y assms(2,3) by (simp split: if_splits)
  moreover have "c2 = (c\<lparr>rx := r\<rparr>)\<lparr>rx := rx c2\<rparr>" "c' = c\<lparr>rx := rx c'\<rparr>" using x y assms(2) by simp_all
  then have "c2 = c'\<lparr>rx := rx c2\<rparr>" by (metis conn.update_convs(1) conn.surjective conn.fold_congs(1))
  ultimately show ?thesis using e by (intro exI [of _ "rx c2"]) (simp add: recv_exact_def)
qed

text \<open>The bridge on a connection that delivers its bytes in other pieces.\<close>

definition with_rx :: "segment list \<Rightarrow> bridge \<Rightarrow> bridge" where
  "with_rx r b = b\<lparr>br_conn := (br_conn b)\<lparr>rx := r\<rparr>\<rparr>"

definition recut :: "segment list \<Rightarrow> bridge \<Rightarrow> bool" where
  "recut r b \<longleftrightarrow> clean r \<and> clean (rx (br_conn b)) \<and> bytes_of r = bytes_of (rx (br_conn b))"

definition same_outcome :: "('a \<times> bridge) res \<Rightarrow> ('a \<times> bridge) res \<Rightarrow> bool" where
  "same_outcome x y \<longleftrightarrow> (case x of
     Inl e \<Rightarrow> y = Inl e
   | Inr (p, b) \<Rightarrow> \<exists>r. recut r b \<and> y = Inr (p, with_rx r b))"

lemma same_outcome_cases:
  assumes "same_outcome x y" "\<And>p b r. x = Inr (p, b) \<Longrightarrow> recut r b \<Longrightarrow> same_outcome (f (p, b)) (g (p, with_rx r b))"
  shows "same_outcome (bnd x f) (bnd y g)"
proof (cases x)
  case (Inl e)
  then show ?thesis using assms(1) by (simp add: same_outcome_def)
next
  case (Inr pb)
  obtain p b where x: "x = Inr (p, b)" using Inr by (cases pb) simp
  then obtain r where "recut r b" "y = Inr (p, with_rx r b)" using assms(1) by (auto simp: same_outcome_def)
  then show ?thesis using assms(2) [OF x] x by simp
qed

lemma same_outcome_return: "recut r b \<Longrightarrow> same_outcome (Inr (p, b)) (Inr (p, with_rx r b))"
  and same_outcome_crash [simp]: "same_outcome (Inl e) (Inl e)"
  by (auto simp: same_outcome_def)

lemma with_rx_fields [simp]:
  "br_cam (with_rx r b) = br_cam b" "first_client_write (with_rx r b) = first_client_write b"
  "left_of_ack (with_rx r b) = left_of_ack b" "ack_name (with_rx r b) = ack_name b" "rx (br_conn (with_rx r b)) = r"
  "br_conn (with_rx r b) = (br_conn b)\<lparr>rx := r\<rparr>"
  by (simp_all add: with_rx_def)

lemma with_rx_update [simp]:
  "(with_rx r b)\<lparr>br_cam := cam\<rparr> = with_rx r (b\<lparr>br_cam := cam\<rparr>)"
  "(with_rx r b)\<lparr>first_client_write := f\<rparr> = with_rx r (b\<lparr>first_client_write := f\<rparr>)"
  "(with_rx r b)\<lparr>left_of_ack := n\<rparr> = with_rx r (b\<lparr>left_of_ack := n\<rparr>)"
  "(with_rx r b)\<lparr>ack_name := ds\<rparr> = with_rx r (b\<lparr>ack_name := ds\<rparr>)"
  "(with_rx r b)\<lparr>br_conn := c\<lparr>rx := r'\<rparr>\<rparr> = with_rx r' (b\<lparr>br_conn := c\<rparr>)"
  by (cases b; simp add: with_rx_def)+

lemma recut_update [simp]:
  "recut r (b\<lparr>br_cam := cam\<rparr>) = recut r b" "recut r (b\<lparr>first_client_write := f\<rparr>) = recut r b"
  "recut r (b\<lparr>left_of_ack := n\<rparr>) = recut r b" "recut r (b\<lparr>ack_name := ds\<rparr>) = recut r b"
  by (simp_all add: recut_def)

text \<open>Reading from and writing to the camera has nothing to do with the connection.\<close>

lemma client_write_alike:
  assumes "recut r b"
  shows "same_outcome (fuji_client_write rw rwd b d) (fuji_client_write rw rwd (with_rx r b) d)"
proof (cases "first_client_write b")
  case True
  then show ?thesis using assms
    by (cases "ptp_read_unicode_string (drop 28 d) 100") (simp_all add: fuji_client_write_def same_outcome_return)
next
  case False
  then show ?thesis using assms
    by (cases "vcam_write rw rwd (br_cam b) d") (simp_all add: fuji_client_write_def same_outcome_return)
qed

lemma client_read_alike:
  assumes "recut r b"
  shows "same_outcome (fuji_client_read b n) (fuji_client_read (with_rx r b) n)"
proof (cases "fuji_get_ack_packet (ack_name b) (br_cam b)")
  case (Inr packet)
  obtain bs cam where v: "vcam_read (br_cam b) (nat n) = (bs, cam)" by (cases "vcam_read (br_cam b) (nat n)")
  show ?thesis using Inr v assms
    by (simp add: fuji_client_read_def same_outcome_return Let_def)
qed (simp add: fuji_client_read_def)

lemma send_alike:
  assumes "recut r b" "send (br_conn b) d = (n, c)"
  shows "send (br_conn (with_rx r b)) d = (n, c\<lparr>rx := r\<rparr>)" "recut r (b\<lparr>br_conn := c\<rparr>)"
  using assms send_rx [of "br_conn b" d] by (auto simp: send_def Let_def recut_def)

lemma container_alike:
  assumes "recut r b"
  shows "same_outcome (fuji_send_container b) (fuji_send_container (with_rx r b))"
  unfolding fuji_send_container_def
proof (rule same_outcome_cases [OF client_read_alike [OF assms]], unfold prod.case)
  fix d b r
  assume b: "recut r b"
  show "same_outcome
      (if length d \<noteq> 4 then Inr (None, b)
       else bnd (get_32bit_le d) (\<lambda>packet_length.
         bnd (fuji_client_read b (sint (packet_length - 4))) (\<lambda>(body, b).
           if word_of_nat (length body) \<noteq> packet_length - 4 then Inr (None, b)
           else let (size, c) = send (br_conn b) (d @ body); b = b\<lparr>br_conn := c\<rparr>
             in Inr (if size \<le> 0 then None else Some (d @ body), b))))
      (if length d \<noteq> 4 then Inr (None, with_rx r b)
       else bnd (get_32bit_le d) (\<lambda>packet_length.
         bnd (fuji_client_read (with_rx r b) (sint (packet_length - 4))) (\<lambda>(body, b).
           if word_of_nat (length body) \<noteq> packet_length - 4 then Inr (None, b)
           else let (size, c) = send (br_conn b) (d @ body); b = b\<lparr>br_conn := c\<rparr>
             in Inr (if size \<le> 0 then None else Some (d @ body), b))))"
  proof (cases "length d \<noteq> 4")
    case True
    then show ?thesis using b by (simp add: same_outcome_return)
  next
    case False
    show ?thesis
    proof (cases "get_32bit_le d")
      case (Inr w)
      show ?thesis unfolding Inr bnd_Inr using False
        apply (simp only: if_False)
        apply (rule same_outcome_cases [OF client_read_alike [OF b]])
        subgoal for body b r
          using send_alike [of r b "d @ body"]
          by (cases "send (br_conn b) (d @ body)") (simp add: same_outcome_return)
        done
    qed (use False in simp)
  qed
qed


lemma send_all_alike:
  assumes "recut r b"
  shows "same_outcome (fuji_tcp_send_all b) (fuji_tcp_send_all (with_rx r b))"
  unfolding fuji_tcp_send_all_def
proof (rule same_outcome_cases [OF container_alike [OF assms]])
  fix p b r
  assume b: "recut r b"
  have second: "same_outcome (bnd (fuji_send_container b) (\<lambda>(p, b). Inr (if p = None then -1 else 0, b)))
      (bnd (fuji_send_container (with_rx r b)) (\<lambda>(p, b). Inr (if p = None then -1 else (0 :: int), b)))"
    by (rule same_outcome_cases [OF container_alike [OF b]]) (simp add: same_outcome_return)
  let ?f = "\<lambda>(p, b). case p of
       None \<Rightarrow> Inr (-1 :: int, b)
     | Some buffer \<Rightarrow> bnd (get_16bit_le (drop 4 buffer)) (\<lambda>ty. bnd (get_16bit_le (drop 6 buffer)) (\<lambda>cde.
         if ty = PTP_PACKET_TYPE_DATA \<and> cde \<noteq> 0 then
           bnd (fuji_send_container b) (\<lambda>(p, b). Inr (if p = None then -1 else 0, b))
         else Inr (0, b)))"
  show "same_outcome (?f (p, b)) (?f (p, with_rx r b))"
  proof (cases p)
    case (Some buffer)
    then show ?thesis using second b
      by (cases "get_16bit_le (drop 4 buffer)"; cases "get_16bit_le (drop 6 buffer)") (simp_all add: same_outcome_return)
  qed (use b in \<open>simp add: same_outcome_return\<close>)
qed

lemma recv_alike:
  assumes "recut r b" "recv_exact (br_conn b) n = (k, d, c)"
  obtains r' where "recv_exact ((br_conn b)\<lparr>rx := r\<rparr>) n = (k, d, c\<lparr>rx := r'\<rparr>)" "recut r' (b\<lparr>br_conn := c\<rparr>)"
  using recv_exact_alike [of "br_conn b" r n k d c] assms by (auto simp: recut_def)

lemma receive_data_alike:
  assumes "recut r b"
  shows "same_outcome (fuji_receive_data rw rwd b) (fuji_receive_data rw rwd (with_rx r b))"
proof -
  obtain k d c where e: "recv_exact (br_conn b) 4 = (k, d, c)" by (cases "recv_exact (br_conn b) 4")
  obtain r1 where r1: "recv_exact ((br_conn b)\<lparr>rx := r\<rparr>) 4 = (k, d, c\<lparr>rx := r1\<rparr>)" "recut r1 (b\<lparr>br_conn := c\<rparr>)"
    by (rule recv_alike [OF assms e])
  let ?b = "b\<lparr>br_conn := c\<rparr>"
  show ?thesis
  proof (cases "k = 4 \<and> (\<exists>w. get_32bit_le d = Inr w)")
    case False
    then show ?thesis using e r1 by (cases "get_32bit_le d") (simp_all add: fuji_receive_data_def same_outcome_return Let_def)
  next
    case True
    then obtain w where w: "k = 4" "get_32bit_le d = Inr w" by blast
    let ?pl = "unat w"
    obtain k2 e2 c2 where e2: "recv_exact (br_conn ?b) (?pl - 4) = (k2, e2, c2)" by (cases "recv_exact (br_conn ?b) (?pl - 4)")
    obtain r2 where r2: "recv_exact ((br_conn ?b)\<lparr>rx := r1\<rparr>) (?pl - 4) = (k2, e2, c2\<lparr>rx := r2\<rparr>)"
      "recut r2 (?b\<lparr>br_conn := c2\<rparr>)" by (rule recv_alike [OF r1(2) e2])
    have "same_outcome (bnd (fuji_client_write rw rwd (?b\<lparr>br_conn := c2\<rparr>) (d @ e2)) (\<lambda>(rc, b). Inr (if rc \<noteq> ?pl then -1 else 0, b)))
        (bnd (fuji_client_write rw rwd (with_rx r2 (?b\<lparr>br_conn := c2\<rparr>)) (d @ e2)) (\<lambda>(rc, b). Inr (if rc \<noteq> ?pl then -1 else (0 :: int), b)))"
      by (rule same_outcome_cases [OF client_write_alike [OF r2(2)]]) (simp add: same_outcome_return)
    then show ?thesis using e r1(1) e2 r2 w
      by (simp add: fuji_receive_data_def same_outcome_return Let_def)
  qed
qed

lemma receive_all_alike:
  assumes "recut r b"
  shows "same_outcome (fuji_tcp_receive_all rw rwd b) (fuji_tcp_receive_all rw rwd (with_rx r b))"
proof -
  obtain k d c where e: "recv_exact (br_conn b) 4 = (k, d, c)" by (cases "recv_exact (br_conn b) 4")
  obtain r1 where r1: "recv_exact ((br_conn b)\<lparr>rx := r\<rparr>) 4 = (k, d, c\<lparr>rx := r1\<rparr>)" "recut r1 (b\<lparr>br_conn := c\<rparr>)"
    by (rule recv_alike [OF assms e])
  let ?b = "b\<lparr>br_conn := c\<rparr>"
  show ?thesis
  proof (cases "k = 4 \<and> (\<exists>w. get_32bit_le d = Inr w)")
    case False
    then show ?thesis using e r1 by (cases "get_32bit_le d") (auto simp: fuji_tcp_receive_all_def same_outcome_return Let_def)
  next
    case True
    then obtain w where w: "k = 4" "get_32bit_le d = Inr w" by blast
    let ?n = "if unat w = 8 then 4 else unat w - 4"
    obtain k2 e2 c2 where e2: "recv_exact (br_conn ?b) ?n = (k2, e2, c2)" by (cases "recv_exact (br_conn ?b) ?n")
    obtain r2 where r2: "recv_exact ((br_conn ?b)\<lparr>rx := r1\<rparr>) ?n = (k2, e2, c2\<lparr>rx := r2\<rparr>)"
      "recut r2 (?b\<lparr>br_conn := c2\<rparr>)" by (rule recv_alike [OF r1(2) e2])
    let ?f = "\<lambda>(rc, b). if rc \<noteq> unat w then Inr (-1 :: int, b)
      else bnd (get_16bit_le (drop 6 (d @ e2))) (\<lambda>cde.
        if inbulk (br_cam b) = [] \<and> cde \<noteq> 0 then fuji_receive_data rw rwd b else Inr (0, b))"
    have "same_outcome (bnd (fuji_client_write rw rwd (?b\<lparr>br_conn := c2\<rparr>) (d @ e2)) ?f)
        (bnd (fuji_client_write rw rwd (with_rx r2 (?b\<lparr>br_conn := c2\<rparr>)) (d @ e2)) ?f)"
      by (rule same_outcome_cases [OF client_write_alike [OF r2(2)]])
        (cases "get_16bit_le (drop 6 (d @ e2))"; simp add: same_outcome_return receive_data_alike)
    then show ?thesis using e r1 e2 r2 w
      by (simp add: fuji_tcp_receive_all_def same_outcome_return Let_def split: if_splits)
  qed
qed

lemma serve_client_alike:
  "recut r b \<Longrightarrow> same_outcome (bnd (serve_client rw rwd b) (\<lambda>b. Inr ((), b)))
     (bnd (serve_client rw rwd (with_rx r b)) (\<lambda>b. Inr ((), b)))"
proof (induction rw rwd b arbitrary: r rule: serve_client.induct)
  case (1 rw rwd b)
  let ?rest = "\<lambda>b. bnd (serve_client rw rwd b) (\<lambda>b. Inr ((), b))"
  have unfold: "?rest b = bnd (fuji_tcp_receive_all rw rwd b) (\<lambda>(rc, b1). if rc \<noteq> 0 then Inr ((), b1)
      else bnd (fuji_tcp_send_all b1) (\<lambda>(rc', b2). if rc' \<noteq> 0 then Inr ((), b2) else ?rest b2))" for b
    by (subst serve_client.simps)
      (simp add: bnd_assoc split_def if_distrib [where f = "\<lambda>x. bnd x (\<lambda>b. Inr ((), b))"] cong: if_cong)
  show ?case unfolding unfold [of b] unfold [of "with_rx r b"]
  proof (rule same_outcome_cases [OF receive_all_alike [OF "1.prems"]])
    fix rc b1 r1
    assume b1: "fuji_tcp_receive_all rw rwd b = Inr (rc, b1)" "recut r1 b1"
    show "same_outcome
        (case (rc, b1) of (rc, b1) \<Rightarrow> if rc \<noteq> 0 then Inr ((), b1)
          else bnd (fuji_tcp_send_all b1) (\<lambda>(rc', b2). if rc' \<noteq> 0 then Inr ((), b2) else ?rest b2))
        (case (rc, with_rx r1 b1) of (rc, b1) \<Rightarrow> if rc \<noteq> 0 then Inr ((), b1)
          else bnd (fuji_tcp_send_all b1) (\<lambda>(rc', b2). if rc' \<noteq> 0 then Inr ((), b2) else ?rest b2))"
    proof (cases "rc = 0")
      case True
      show ?thesis unfolding True prod.case
      proof (simp only: simp_thms if_False, rule same_outcome_cases [OF send_all_alike [OF b1(2)]])
        fix rc' b2 r2
        assume b2: "fuji_tcp_send_all b1 = Inr (rc', b2)" "recut r2 b2"
        show "same_outcome (case (rc', b2) of (rc', b2) \<Rightarrow> if rc' \<noteq> 0 then Inr ((), b2) else ?rest b2)
            (case (rc', with_rx r2 b2) of (rc', b2) \<Rightarrow> if rc' \<noteq> 0 then Inr ((), b2) else ?rest b2)"
          using "1.IH" [OF b1(1) refl _ b2(1) refl _ b2(2)] True b2(2) by (simp add: same_outcome_return)
      qed
    qed (use b1(2) in \<open>simp add: same_outcome_return\<close>)
  qed
qed

text \<open>
  C15. How the network cuts the stream of a Fujifilm app into pieces makes no difference: two
  connections that deliver the same bytes, without failures, leave the camera and the bytes sent
  to the app the same, or crash the server the same way.
\<close>

theorem stream_cut_anywhere:
  assumes "clean (rx c)" "clean r" "bytes_of r = bytes_of (rx c)"
  shows "case serve_client rw rwd (b\<lparr>br_conn := c\<rparr>) of
      Inl e \<Rightarrow> serve_client rw rwd (b\<lparr>br_conn := c\<lparr>rx := r\<rparr>\<rparr>) = Inl e
    | Inr b1 \<Rightarrow> \<exists>b2. serve_client rw rwd (b\<lparr>br_conn := c\<lparr>rx := r\<rparr>\<rparr>) = Inr b2 \<and> br_cam b2 = br_cam b1 \<and>
        tx (br_conn b2) = tx (br_conn b1)"
proof -
  have "recut r (b\<lparr>br_conn := c\<rparr>)" using assms by (simp add: recut_def)
  from serve_client_alike [OF this, of rw rwd] show ?thesis
    by (cases "serve_client rw rwd (b\<lparr>br_conn := c\<rparr>)"; cases "serve_client rw rwd (b\<lparr>br_conn := c\<lparr>rx := r\<rparr>\<rparr>)")
      (auto simp: same_outcome_def with_rx_def)
qed


text \<open>An init packet without a name, whole and byte by byte, and what the camera answers.\<close>

definition demo_hello :: "byte list" where
  "demo_hello = [32, 0, 0, 0, 1, 0, 0, 0, 0, 0, 0, 0, 0, 0, 0, 0, 0, 0, 0, 0, 0, 0, 0, 0, 0, 0, 0, 0, 0, 0, 0, 0]"

definition demo_bridge :: bridge where
  "demo_bridge = \<lparr>br_cam = zero_vcam\<lparr>model := ''X-H1''\<rparr>, first_client_write = True, left_of_ack = 0x44, ack_name = replicate 54 0,
     br_conn = \<lparr>rx = [], tx = [], sends = 0, accepts = \<lambda>i n. int n\<rparr>\<rparr>"

lemma demo_answer:
  "\<exists>b. serve_client rw rwd (demo_bridge\<lparr>br_conn := \<lparr>rx = [Seg demo_hello], tx = [], sends = 0, accepts = \<lambda>i n. int n\<rparr>\<rparr>) = Inr b \<and>
     length (tx (br_conn b)) = 68"
  by (simp add: serve_client.simps fuji_tcp_receive_all_def recv_exact_def recv_more.simps recv_def demo_bridge_def demo_hello_def
      fuji_client_write_def ptp_read_unicode_string_def fuji_tcp_send_all_def fuji_send_container_def fuji_client_read_def
      fuji_get_ack_packet_def send_def Let_def put_32bit_le_def)

theorem stream_cut_anywhere_witness:
  "\<exists>b. serve_client (op_handler no_callbacks demo_env) (data_handler no_callbacks demo_env) (demo_bridge\<lparr>br_conn := \<lparr>rx = map (\<lambda>x. Seg [x]) demo_hello, tx = [], sends = 0, accepts = \<lambda>i n. int n\<rparr>\<rparr>)
     = Inr b \<and> length (tx (br_conn b)) = 68"
proof -
  have c: "clean (map (\<lambda>x. Seg [x]) xs) \<and> bytes_of (map (\<lambda>x. Seg [x]) xs) = xs" for xs by (induction xs) simp_all
  show ?thesis
    using stream_cut_anywhere [of "\<lparr>rx = [Seg demo_hello], tx = [], sends = 0, accepts = \<lambda>i n. int n\<rparr>"
      "map (\<lambda>x. Seg [x]) demo_hello" "op_handler no_callbacks demo_env" "data_handler no_callbacks demo_env" demo_bridge]
      c [of demo_hello] demo_answer [of "op_handler no_callbacks demo_env" "data_handler no_callbacks demo_env"]
    by (auto simp: demo_hello_def)
qed

end
