(* ===== verification/Vhci.thy ===== *)
theory Vhci
  imports Usb Ptpip
begin

text \<open>
  The virtual host controller back end, src/src/usb/vhci.c: USB/IP requests read from a socket to the
  kernel, answered by the request layer of theory Usb. The socket is a connection of theory Ptpip; what
  \<open>send\<close> takes is not looked at. A header is its 48 bytes, numbers big-endian.
\<close>

abbreviation (input) "USBIP_CMD_SUBMIT \<equiv> 1 :: u32"
abbreviation (input) "USBIP_CMD_UNLINK \<equiv> 2 :: u32"
abbreviation (input) "USBIP_RET_SUBMIT \<equiv> 3 :: u32"
abbreviation (input) "USBIP_RET_UNLINK \<equiv> 4 :: u32"
abbreviation (input) "USBIP_RESET_DEV \<equiv> 0xFFFF :: u32"

definition put_32bit_be :: "u32 \<Rightarrow> byte list" where
  "put_32bit_be w = rev (put_32bit_le w)"

definition be32_at :: "nat \<Rightarrow> byte list \<Rightarrow> u32 res" where
  "be32_at k h = bnd (read_n 4 (drop k h)) (\<lambda>d. get_32bit_le (rev d))"

text \<open>An answer: command, the four fields copied from the request, five numbers and the padding.\<close>

definition usbip_reply :: "u32 \<Rightarrow> byte list \<Rightarrow> u32 \<Rightarrow> byte list" where
  "usbip_reply cmd h actual_length =
     put_32bit_be cmd @ take 16 (drop 4 h) @ put_32bit_be 0 @ put_32bit_be actual_length
     @ put_32bit_be 0 @ put_32bit_be 0 @ put_32bit_be 0 @ replicate 8 0"

definition send_to :: "byte list \<Rightarrow> conn \<Rightarrow> conn" where
  "send_to d c = snd (send c d)"

text \<open>The data of an OUT transfer in at most ten reads; \<open>None\<close> when an assertion fails.\<close>

fun recv_payload :: "nat \<Rightarrow> conn \<Rightarrow> byte list \<Rightarrow> nat \<Rightarrow> (byte list \<times> conn) option" where
  "recv_payload 0 c got n = (if length got = n then Some (got, c) else None)"
| "recv_payload (Suc tries) c got n =
     (let (rc, d, c) = recv c (n - length got) in
      if rc < 0 then None
      else if length (got @ d) = n then Some (got @ d, c)
      else recv_payload tries c (got @ d) n)"

text \<open>
  A control request. The payload is received behind the setup bytes, which end the header in a block
  of 512 bytes. The results of the functions here are the return value, the device and the
  connection.
\<close>

definition submit_control ::
    "(nat \<Rightarrow> byte) \<Rightarrow> byte list \<Rightarrow> u32 \<Rightarrow> u32 \<Rightarrow> usbthing \<Rightarrow> conn \<Rightarrow> (int \<times> usbthing \<times> conn) res" where
  "submit_control fresh h dir len u c =
     (let payload = dir = 0 \<and> len \<noteq> 0;
          (rc, d, c) = (if payload then recv c (unat len) else (0, [], c))
      in if length d > 464 then Inl Undef
         else if payload \<and> word_of_int rc \<noteq> len then Inr (-1, u, c)
         else
           bnd (handle_control fresh u 0 0 (drop 40 h @ d @ replicate (464 - length d) 0) (8 + (if payload then sint len else 0)) (map fresh [0..<65535]))
             (\<lambda>(rc, buffer).
               if rc < 0 then Inr (rc, u, c)
               else if payload \<and> rc \<noteq> 0 then Inl Abort
               else
                 let c = send_to (usbip_reply USBIP_RET_SUBMIT h (word_of_int rc)) c
                 in if rc = 0 then Inr (0, u, c)
                    else bnd (read_n (nat rc) buffer) (\<lambda>bs. Inr (0, u, send_to bs c))))"

text \<open>
  A transfer to the host: nothing is answered when the camera has less than it announced, and a
  negative result but -1 is a length for \<open>send\<close>.
\<close>

definition submit_in ::
    "run_write \<Rightarrow> run_data \<Rightarrow> env \<Rightarrow> byte list \<Rightarrow> u32 \<Rightarrow> u32 \<Rightarrow> usbthing \<Rightarrow> conn \<Rightarrow> (int \<times> usbthing \<times> conn) res" where
  "submit_in rw rwd e h ep_addr len u c =
     bnd (handle_bulk rw rwd e u 0 (sint ep_addr) [] (sint len)) (\<lambda>(resp_len, bs, u).
       if resp_len = -1 then Inr (0, u, c)
       else if resp_len < 0 then Inl Undef
       else
         let c = send_to (usbip_reply USBIP_RET_SUBMIT h (word_of_int resp_len)) c
         in if resp_len = 0 then Inr (0, u, c)
            else bnd (read_n (nat resp_len) bs) (\<lambda>bs. Inr (0, u, send_to bs c)))"

definition submit_out ::
    "run_write \<Rightarrow> run_data \<Rightarrow> env \<Rightarrow> byte list \<Rightarrow> u32 \<Rightarrow> u32 \<Rightarrow> usbthing \<Rightarrow> conn \<Rightarrow> (int \<times> usbthing \<times> conn) res" where
  "submit_out rw rwd e h ep_addr len u c =
     (case recv_payload 10 c [] (unat len) of
        None \<Rightarrow> Inl Abort
      | Some (d, c) \<Rightarrow>
          bnd (handle_bulk rw rwd e u 0 (sint ep_addr) d (sint len)) (\<lambda>(_, _, u).
            Inr (0, u, send_to (usbip_reply USBIP_RET_SUBMIT h len) c)))"

definition handle_submit ::
    "run_write \<Rightarrow> run_data \<Rightarrow> env \<Rightarrow> (nat \<Rightarrow> byte) \<Rightarrow> byte list \<Rightarrow> usbthing \<Rightarrow> conn \<Rightarrow> (int \<times> usbthing \<times> conn) res" where
  "handle_submit rw rwd e fresh h u c =
     bnd (be32_at 24 h) (\<lambda>len.
     bnd (be32_at 12 h) (\<lambda>dir.
     bnd (be32_at 16 h) (\<lambda>ep.
       let ep_addr = push_bit 7 dir OR ep in
       if ep = 0 then submit_control fresh h dir len u c
       else if dir = 1 then submit_in rw rwd e h ep_addr len u c
       else if dir = 0 then submit_out rw rwd e h ep_addr len u c
       else Inl Abort)))"

text \<open>One round of the loop of \<open>usbt_vhci_init\<close>: its return value, or \<open>None\<close> to go on.\<close>

definition vhci_round ::
    "run_write \<Rightarrow> run_data \<Rightarrow> env \<Rightarrow> (nat \<Rightarrow> byte) \<Rightarrow> usbthing \<Rightarrow> conn \<Rightarrow> (int option \<times> usbthing \<times> conn) res" where
  "vhci_round rw rwd e fresh u c =
     (let (rc, h, c) = recv c 48 in
      if rc < 0 then Inr (Some (-1), u, c)
      else if rc = 0 then Inr (None, u, c)
      else if rc \<noteq> 48 then Inl Abort
      else bnd (be32_at 0 h) (\<lambda>cmd.
        if cmd = USBIP_CMD_SUBMIT then
          bnd (handle_submit rw rwd e fresh h u c) (\<lambda>(rc, u, c). Inr (if rc \<noteq> 0 then Some (-1) else None, u, c))
        else if cmd = USBIP_CMD_UNLINK then Inr (None, u, send_to (usbip_reply USBIP_RET_UNLINK h 0) c)
        else if cmd = USBIP_RESET_DEV then Inr (None, u, c)
        else Inl Abort))"

text \<open>
  The loop, once the port is attached. When the kernel closes the socket \<open>recv\<close> returns 0 for ever and
  the loop never ends.
\<close>

partial_function (option) vhci_loop ::
    "run_write \<Rightarrow> run_data \<Rightarrow> env \<Rightarrow> (nat \<Rightarrow> byte) \<Rightarrow> usbthing \<Rightarrow> conn \<Rightarrow> (int \<times> usbthing \<times> conn) res option" where
  "vhci_loop rw rwd e fresh u c =
     (case vhci_round rw rwd e fresh u c of
        Inl x \<Rightarrow> Some (Inl x)
      | Inr (Some rc, u, c) \<Rightarrow> Some (Inr (rc, u, c))
      | Inr (None, u, c) \<Rightarrow> vhci_loop rw rwd e fresh u c)"

text \<open>Attaching may fail; \<open>attached\<close> says whether the port was taken over.\<close>

definition usbt_vhci_init ::
    "run_write \<Rightarrow> run_data \<Rightarrow> env \<Rightarrow> (nat \<Rightarrow> byte) \<Rightarrow> bool \<Rightarrow> usbthing \<Rightarrow> conn \<Rightarrow> (int \<times> usbthing \<times> conn) res option" where
  "usbt_vhci_init rw rwd e fresh attached u c =
     (if \<not> attached then Some (Inr (-1, u, c)) else vhci_loop rw rwd e fresh u c)"

definition vcam_start_vhci ::
    "run_write \<Rightarrow> run_data \<Rightarrow> env \<Rightarrow> (nat \<Rightarrow> byte) \<Rightarrow> bool \<Rightarrow> vcam \<Rightarrow> conn \<Rightarrow> (int \<times> usbthing \<times> conn) res option" where
  "vcam_start_vhci rw rwd e fresh attached cam c =
     usbt_vhci_init rw rwd e fresh attached \<lparr>cams = [cam], last_length = 0\<rparr> c"

section \<open>Facts\<close>

text \<open>A request for an event when none is due sends memory from behind the buffer.\<close>

lemma no_event_undefined:
  assumes "be32_at 24 h = Inr len" "be32_at 12 h = Inr 1" "be32_at 16 h = Inr 3"
    and "get_cam u 0 = Inr cam" "vcam_readint e cam (nat (sint len)) 0 = (None, cam')"
  shows "handle_submit rw rwd e fresh h u c = Inl Undef"
proof -
  have "sint (push_bit 7 1 OR 3 :: u32) = 0x83" by simp
  then show ?thesis using assms by (simp add: handle_submit_def submit_in_def handle_bulk_def)
qed

text \<open>The event, when one is due, goes to the host behind the answer that names its length.\<close>

lemma event_delivered:
  assumes "be32_at 24 h = Inr len" "be32_at 12 h = Inr 1" "be32_at 16 h = Inr 3"
    and "get_cam u 0 = Inr cam" "vcam_readint e cam (nat (sint len)) 0 = (Some d, cam')" "0 \<le> sint len" "d \<noteq> []"
  shows "handle_submit rw rwd e fresh h u c = Inr (0, put_cam 0 cam' u,
     send_to d (send_to (usbip_reply USBIP_RET_SUBMIT h (word_of_nat (length d))) c))"
proof -
  have "sint (push_bit 7 1 OR 3 :: u32) = 0x83" by simp
  then show ?thesis using assms by (simp add: handle_submit_def submit_in_def handle_bulk_def)
qed


text \<open>A socket that was closed keeps the loop going: no number of rounds changes anything.\<close>

lemma closed_socket_round:
  "rx c = [] \<Longrightarrow> vhci_round rw rwd e fresh u c = Inr (None, u, c)"
  by (simp add: vhci_round_def recv_def)

lemma closed_socket_never_ends:
  assumes "rx c = []"
  shows "vhci_loop rw rwd e fresh u c = None"
proof (rule ccontr)
  assume "vhci_loop rw rwd e fresh u c \<noteq> None"
  then obtain y where y: "vhci_loop rw rwd e fresh u c = Some y" by blast
  have "rx c = [] \<longrightarrow> False"
  proof (rule vhci_loop.raw_induct [where P = "\<lambda>rw rwd e fresh u c y. rx c = [] \<longrightarrow> False", OF _ y])
    fix loop rw rwd e fresh u c y
    assume ih: "\<And>rw rwd e fresh u c y. loop rw rwd e fresh u c = Some y \<Longrightarrow> rx c = [] \<longrightarrow> False"
      and run: "(case vhci_round rw rwd e fresh u c of
        Inl x \<Rightarrow> Some (Inl x)
      | Inr (Some rc, u, c) \<Rightarrow> Some (Inr (rc, u, c))
      | Inr (None, u, c) \<Rightarrow> loop rw rwd e fresh u c) = Some y"
    then show "rx c = [] \<longrightarrow> False" using closed_socket_round [of c rw rwd e fresh u] ih by auto
  qed
  then show False using assms by simp
qed

end
