(* ===== verification/Vcam_Main.thy ===== *)
theory Vcam_Main
  imports Camera Fuji_Usb Fuji_Server Canon_Ssdp Vhci
begin

text \<open>
  Where a camera comes from and which back end serves it: \<open>vcam_main\<close> and \<open>vcam_new\<close> of
  src/src/vcamera.c, \<open>main\<close> of src/src/main.c, and the devices \<open>usbt_user_init\<close> of src/src/usbthing.c
  makes for a host that is linked with the libusb replacement.
\<close>

datatype backend = VCAM_LIBUSB | VCAM_TCP | VCAM_VHCI | VCAM_GADGETFS

text \<open>
  What the back ends find outside: of the Fujifilm server, of the discovery thread (whether it could
  be created), of the PTP/IP server and of the virtual host controller.
\<close>

record outside =
  os_fuji :: fuji_host
  os_ack_name :: "byte list"
  os_thread :: bool
  os_fresh :: "byte list"
  os_event_thread :: bool
  os_accepted :: "conn option"
  os_bytes :: "nat \<Rightarrow> byte"
  os_attached :: bool
  os_kernel :: conn

text \<open>The model is looked for with one module after the other; each sees what the ones before left.\<close>

datatype maker = Fuji_Maker | Canon_Maker | Nikon_Maker | Sony_Maker

definition init_by_name ::
    "hooks \<Rightarrow> env \<Rightarrow> string \<Rightarrow> string list \<Rightarrow> vcam \<Rightarrow> (maker option \<times> env \<times> vcam) res" where
  "init_by_name hk e name argv cam =
     bnd (fuji_init_cam e name argv cam) (\<lambda>(ok, e, cam).
       if ok then Inr (Some Fuji_Maker, e, cam)
       else bnd (canon_init_cam hk e name argv cam) (\<lambda>(ok, cam).
         if ok then Inr (Some Canon_Maker, e, cam)
         else bnd (nikon_init_cam e name argv cam) (\<lambda>(ok, cam).
           if ok then Inr (Some Nikon_Maker, e, cam)
           else bnd (sony_init_cam e name argv cam) (\<lambda>(ok, cam).
             Inr (if ok then Some Sony_Maker else None, e, cam)))))"

text \<open>Handlers run with the callbacks of the module the camera was made by.\<close>

definition maker_hooks :: "hooks \<Rightarrow> maker \<Rightarrow> env \<Rightarrow> hooks" where
  "maker_hooks hk m e = (if m = Fuji_Maker then fuji_hooks e else hk)"

text \<open>
  The result: the return value, and the camera as the host of the library finds it, which is \<open>None\<close> when
  it was closed. The outer \<open>None\<close> is a back end that never returns.
\<close>

definition serve_tcp :: "hooks \<Rightarrow> outside \<Rightarrow> maker \<Rightarrow> env \<Rightarrow> vcam \<Rightarrow> int res option" where
  "serve_tcp hk os m e cam =
     (let rw = op_handler (maker_hooks hk m e) e; rwd = data_handler (maker_hooks hk m e) e in
      case m of
        Fuji_Maker \<Rightarrow>
          (case fuji_wifi_main rw rwd (os_fuji os) \<lparr>br_cam = cam, first_client_write = True, left_of_ack = 0x44,
               ack_name = os_ack_name os, br_conn = \<lparr>rx = [], tx = [], sends = 0, accepts = \<lambda>i n. -1\<rparr>\<rparr> of
             Inl x \<Rightarrow> Some (Inl x) | Inr None \<Rightarrow> None | Inr (Some (rc, _, _)) \<Rightarrow> Some (Inr rc))
      | Canon_Maker \<Rightarrow>
          Some (bnd (canon_ssdp_start (os_thread os) cam) (\<lambda>_.
            bnd (ptpip_generic_main rw rwd (os_fresh os) (os_event_thread os) cam (os_accepted os)) (\<lambda>(rc, _). Inr rc)))
      | _ \<Rightarrow> Some (Inr (-1)))"

definition vcam_main ::
    "hooks \<Rightarrow> env \<Rightarrow> outside \<Rightarrow> vcam \<Rightarrow> string \<Rightarrow> backend \<Rightarrow> string list \<Rightarrow> (int \<times> env \<times> vcam option) res option" where
  "vcam_main hk e os cam name backend argv =
     (case init_by_name hk e name argv cam of
        Inl x \<Rightarrow> Some (Inl x)
      | Inr (None, e, cam) \<Rightarrow> Some (Inr (-1, e, Some cam))
      | Inr (Some m, e, cam) \<Rightarrow>
          if backend = VCAM_TCP then map_option (\<lambda>r. bnd r (\<lambda>rc. Inr (rc, e, None))) (serve_tcp hk os m e cam)
          else if backend = VCAM_VHCI then
            map_option (\<lambda>r. bnd r (\<lambda>(rc, u, _). bnd (get_cam u 0) (\<lambda>cam. Inr (rc, e, Some cam))))
              (vcam_start_vhci (op_handler (maker_hooks hk m e) e) (data_handler (maker_hooks hk m e) e) e
                 (os_bytes os) (os_attached os) cam (os_kernel os))
          else if backend = VCAM_LIBUSB then Some (Inr (0, e, Some cam))
          else Some (Inr (-1, e, Some cam)))"

text \<open>A new camera for the libusb replacement; \<open>None\<close> inside for the null pointer.\<close>

definition vcam_new :: "hooks \<Rightarrow> env \<Rightarrow> outside \<Rightarrow> string \<Rightarrow> string list \<Rightarrow> (env \<times> vcam option) res option" where
  "vcam_new hk e os name argv =
     (case vcam_init_standard e of
        Inl x \<Rightarrow> Some (Inl x)
      | Inr cam \<Rightarrow> map_option (\<lambda>r. bnd r (\<lambda>(rc, e, cam). Inr (e, if rc \<noteq> 0 then None else cam)))
          (vcam_main hk e os cam name VCAM_LIBUSB argv))"

text \<open>The program: model, back end and the arguments behind them.\<close>

definition main :: "hooks \<Rightarrow> env \<Rightarrow> outside \<Rightarrow> string list \<Rightarrow> int res option" where
  "main hk e os argv =
     (case argv of
        _ # name # backend_str # rest \<Rightarrow>
          (let backend = (if backend_str = ''tcp'' then Some VCAM_TCP else if backend_str = ''otg'' then Some VCAM_GADGETFS
                          else if backend_str = ''vhci'' then Some VCAM_VHCI else None)
           in case backend of
                None \<Rightarrow> Some (Inr (-1))
              | Some backend \<Rightarrow>
                  (case vcam_init_standard e of
                     Inl x \<Rightarrow> Some (Inl x)
                   | Inr cam \<Rightarrow> map_option (\<lambda>r. bnd r (\<lambda>(rc, _, _). Inr rc)) (vcam_main hk e os cam name backend rest)))
      | _ \<Rightarrow> Some (Inr (-1)))"

section \<open>Devices of the libusb replacement\<close>

text \<open>
  \<open>usbt_user_init\<close> with the two environment variables: the arguments are at most 16 words; without a model
  there are a Canon and a Fujifilm camera. A camera that cannot be made is a panic when it was asked for,
  and a null pointer among the devices otherwise.
\<close>

definition usb_args :: "string option \<Rightarrow> string list" where
  "usb_args argstr = (case argstr of None \<Rightarrow> []
     | Some s \<Rightarrow> if s = [] then [] else take 16 (tokens {CHR '' '', CHR 0x09} s))"

definition usbt_user_init ::
    "hooks \<Rightarrow> env \<Rightarrow> outside \<Rightarrow> string option \<Rightarrow> string option \<Rightarrow> vcam option list \<Rightarrow> (env \<times> vcam option list) res option" where
  "usbt_user_init hk e os model_name argstr devices =
     (if devices \<noteq> [] then Some (Inr (e, devices))
      else case model_name of
        Some (c # cs) \<Rightarrow>
          (case vcam_new hk e os (c # cs) (usb_args argstr) of
             None \<Rightarrow> None
           | Some r \<Rightarrow> Some (bnd r (\<lambda>(e, cam). case cam of None \<Rightarrow> Inl Abort | Some cam \<Rightarrow> Inr (e, [Some cam]))))
      | _ \<Rightarrow>
          (case vcam_new hk e os ''canon_1300d'' [] of
             None \<Rightarrow> None
           | Some (Inl x) \<Rightarrow> Some (Inl x)
           | Some (Inr (e, a)) \<Rightarrow>
               (case vcam_new hk e os ''fuji_x_h1'' [''--rawconv''] of
                  None \<Rightarrow> None
                | Some r \<Rightarrow> Some (bnd r (\<lambda>(e, b). Inr (e, [a, b]))))))"

definition vcam_add_usbt_device ::
    "hooks \<Rightarrow> env \<Rightarrow> outside \<Rightarrow> vcam option list option \<Rightarrow> string \<Rightarrow> string list \<Rightarrow> (env \<times> vcam option list) res option" where
  "vcam_add_usbt_device hk e os devices name argv =
     (case devices of
        None \<Rightarrow> Some (Inl Abort)
      | Some ds \<Rightarrow>
          if 5 \<le> length ds then Some (Inl Abort)
          else map_option (\<lambda>r. bnd r (\<lambda>(e, cam). Inr (e, ds @ [cam]))) (vcam_new hk e os name argv))"

section \<open>Facts\<close>

text \<open>Making a camera for the libusb replacement always comes to an end.\<close>

lemma new_returns: "vcam_new hk e os name argv \<noteq> None"
  by (auto simp: vcam_new_def vcam_main_def split: sum.split option.split)

lemma user_init_returns: "usbt_user_init hk e os m argstr devices \<noteq> None"
proof -
  obtain r where r: "vcam_new hk e os ''canon_1300d'' [] = Some r" using new_returns by blast
  show ?thesis using new_returns r
    by (cases r) (auto simp: usbt_user_init_def new_returns split: option.split list.split)
qed

end
