(* ===== verification/Spec2Isabelle.thy ===== *)
theory Spec2Isabelle
  imports Wire_Theorems Object_Theorems Property_Theorems Ptpip_Theorems Usb_Theorems
    Event_Theorems Vendor_Theorems Canon_Capture Fuji_Gallery
    Libusb_Theorems Canon_Ssdp_Theorems Fuji_Server_Theorems Vcam_Main
begin

text \<open>
  A verification library for vcam, a virtual PTP camera: a program that answers a photo host
  over the Picture Transfer Protocol as a standard camera or a Nikon, Sony, Canon or Fujifilm body would.

  The program. A host writes byte containers to the camera (\<open>vcam_write\<close>) and reads the answers
  (\<open>vcam_read\<close>) and events (\<open>vcam_readint\<close>). The command processor \<open>vcam_process_output\<close>
  (src/src/vcamera.c) cuts one container out of the input, checks it and calls the handler the
  opcode table holds for its code. Handlers are the standard operations (src/src/ops.c) and those
  of the vendor modules (src/src/nikon, src/src/sony, src/src/canon, src/src/fuji), which replace entries of the table at
  start-up. They work on a list of directory cells read from disk, a table of device properties
  and one time-sorted event queue.

  Model. \<open>vcam\<close> is a record (VCam_State) and every operation maps a camera to a camera or to a
  crash: \<open>Inl Undef\<close> where C has undefined behaviour (null or wild pointers, reads past a block,
  uninitialised bytes, signed overflow), \<open>Inl Abort\<close> where the code aborts, \<open>Inl Exit\<close> where it
  exits. Integers keep their width; pointers of the directory list are cell addresses, so that a
  parent pointer can dangle. The clock, the file system, libexif and fresh heap bytes are fields
  of the record \<open>env\<close>, over which every theorem quantifies. Handlers and property callbacks are
  stored by name; theory Camera gives the names their meaning.

  Theories, in the order the code has the parts:
    Prelude, Ptp: results, bytes, C strings; the protocol's constants.
    Data_Codec, Prop_Data, Pack: src/src/data.c, data.h and pack.c.
    VCam_State: the structs of vcam.h, nikon.h, sony.h, canon.h and fuji.h.
    Bulk: reply pipe and argument checks of vcamera.c. Events: its event queue.
    Props: opcode and property registries of vcamera.c and the tables of props.c.
    Dirents: the directory tree of vcamera.c. Exif_Date: image metadata and dates of ops.c.
    Ops_Session, Ops_Objects, Ops_Props: the operations of ops.c.
    Dispatch: the command processor of vcamera.c.
    Prop_Tables, Nikon_Models, Sony_Models, Canon_Models: property table parsers and the tables of
      the models.
    Vcam_Init, Nikon_Ops, Sony_Ops, Canon_Ops: start-up and the vendor modules.
    Fuji_Import, Fuji_Ops, Fuji_Usb: the Fujifilm module: the gallery, set-up, properties and events of
      fuji.c; the USB modes of usb.c and raw conversion of fs.c.
    Camera: every handler name with its meaning; which operations wait for data.
    Invariant, Machine: the state invariant, kept by every operation and every write.
    Packet, Ptpip: the conversions of packet.c and the server of ptpip.c.
    Usb: the USB device of usbthing.c, usb/device.c and usb/usbstring.c.
    Libusb: the libusb replacement of usb/libusb.c, its pool of transfers and its event loop.
    Vhci: the USB/IP requests of usb/vhci.c.
    Canon_Ssdp: the discovery responder of canon/ssdp.c.
    Fuji_Ssdp, Fuji_Server: discovery (fuji/ssdp.c) and the socket bridge (fuji/server.c) of Fujifilm.
    Vcam_Main: vcam_main and vcam_new of vcamera.c, main.c, and the devices of usbthing.c.
    Demo: a Nikon, a Sony and a Canon camera on a small card, the inputs of the witnesses.

  Interfaces. Locale \<open>registry\<close> (Props) states what a table of keyed entries promises and is
  interpreted for opcodes and properties. Locale \<open>responder\<close> (Dispatch) states what the command
  processor relies on, that every handler appends whole containers and keeps an invariant; the
  stream theorems are proved once in it and \<open>Machine.proc\<close> interprets it on the real handlers.
  Locale \<open>event_pool\<close> (Event_Pool) states what the consumers of the event queue rely on, putting an
  entry in and taking the earliest one that fits, and is interpreted on the sorted list. Locale
  \<open>bounded_queue\<close> (Canon_Ssdp_Theorems) is what the responder relies on of its ring of messages.

  Results. Wire_Theorems: the reply stream, rejection of malformed packets, splitting of packets,
  the data phase and sessions. Object_Theorems: object information, listings, captures, deletion
  and partial reads. Property_Theorems: descriptions fit their buffer, values written are read
  back, and what a short write does. Ptpip_Theorems: a PTP/IP connection is a USB session in other
  packets; the data phase; split packets. Usb_Theorems: how a container is cut into transfers,
  cameras read in turns, strings. Event_Theorems: the interrupt endpoint as a priority queue,
  no event stuck, lost or delivered twice, Nikon's event polling. Vendor_Theorems: the Nikon
  picture in memory, 64-bit partial reads, the Sony shutter as an automaton and stepping.
  Canon_Theorems: the values of an EOS camera are of their types, so its first event report is
  whole. Canon_Capture: polling the EOS channel to its end, and the life of a captured picture.
  Fuji_Theorems: the exchange sort sorts, and every Fujifilm operation answers as the processor relies
  on. Fuji_Gate, Fuji_Gallery: the steps to the gallery of a GFX body are taken in order.
  Libusb_Theorems: descriptors are read back, when a blocking read returns, and the event loop
  hands due events to waiting transfers. Canon_Ssdp_Theorems: announcements leave in order and
  paced, a full table of timers ends them, which searches are answered and when.
  Fuji_Server_Theorems: the network may cut the stream of the app anywhere. At the end of this
  theory: the string codec.

  Bounds. The reply parser and the loops over arguments, lists and tables recurse on their data;
  the PTP/IP server loop terminates because every round but the last consumes bytes of the
  connection, draining the EOS channel because every round takes an event, and writing the comment
  segments of the Fujifilm fixture because each brings the file nearer to its size. Nothing uses
  fuel except \<open>parse_stream\<close>, whose fuel is the length of the stream. The loops of libusb.c that
  wait for the clock need not end and are partial functions: a wait that never returns is \<open>None\<close>,
  and Libusb_Theorems says when it does not happen. The loop of vhci.c is one too: it never ends once
  the kernel has closed its socket.

  Not modelled: opening sockets and several threads at once; the gadgetfs back end, which is not part of
  the build; logging, dumps and a log file the raw conversion writes (I/O); freeing the blocks of a closed
  camera (it is \<open>None\<close> afterwards); the developer scripts; the code
  under \<open>#if 0\<close> in props.c and the hooks under VCAM_FUJI, which the build never defines.
\<close>

text \<open>C20. Every string of at most 254 characters survives the string codec: reading back what
  \<open>put_string\<close> stored gives the string with its terminator, whatever bytes follow.\<close>

theorem string_roundtrip:
  "length s \<le> 254 \<Longrightarrow> get_string (fst (put_string (Some s)) @ r) = Inr (s @ [CHR 0x00])"
  by (simp add: put_string_fits get_string_wire)

text \<open>The codec on a short file name.\<close>

theorem string_roundtrip_witness:
  "get_string (fst (put_string (Some ''IMG'')) @ [7]) = Inr (''IMG'' @ [CHR 0x00])"
  by (rule string_roundtrip) simp

end
